(* ===== verification/Prelude.thy ===== *)
theory Prelude
  imports Main "HOL-Library.Word" "HOL-Library.AList"
begin

text \<open>
  The shared vocabulary of the development: Go errors and results, the decimal conversions of
  \<open>strconv\<close>, the string functions the sources call, Go maps as association lists in iteration
  order, values of type \<open>interface{}\<close>, and the generic lemmas the components use.

  A Go function that returns \<open>(T, error)\<close> becomes a function into \<open>T result\<close>; an error built
  by \<open>fmt.Errorf("msg: %w", err)\<close> is \<open>Wrap ''msg'' err\<close>, one built without \<open>%w\<close> is
  \<open>New ''msg''\<close>. A failed type assertion or an index out of range is \<open>Panic\<close>.
\<close>

named_theorems go_simps \<open>unfolding rules of the small Go helpers\<close>
named_theorems frame_simps \<open>fields and rows an operation leaves alone\<close>

section \<open>Errors and results\<close>

datatype error =
    New string
  | Wrap string error
  | Panic string
  | Canceled

type_synonym 'a result = "error + 'a"

primrec Error_str :: "error \<Rightarrow> string" where
  "Error_str (New s) = s"
| "Error_str (Wrap s e) = s @ '': '' @ Error_str e"
| "Error_str (Panic s) = ''panic: '' @ s"
| "Error_str Canceled = ''canceled''"

fun errors_Is :: "error \<Rightarrow> error \<Rightarrow> bool" where
  "errors_Is (Wrap s e) t = (Wrap s e = t \<or> errors_Is e t)"
| "errors_Is e t = (e = t)"

definition is_ok :: "'a result \<Rightarrow> bool" where
  "is_ok r = (case r of Inl _ \<Rightarrow> False | Inr _ \<Rightarrow> True)"

definition wrap_err :: "string \<Rightarrow> 'a result \<Rightarrow> 'a result" where
  "wrap_err msg r = (case r of Inl e \<Rightarrow> Inl (Wrap msg e) | Inr x \<Rightarrow> Inr x)"

text \<open>Sequencing of fallible steps: the first error is returned, as \<open>if err != nil\<close> does.\<close>

definition and_then :: "'a result \<Rightarrow> ('a \<Rightarrow> 'b result) \<Rightarrow> 'b result" where
  "and_then r f = (case r of Inl e \<Rightarrow> Inl e | Inr x \<Rightarrow> f x)"

definition check :: "bool \<Rightarrow> error \<Rightarrow> unit result" where
  "check bad e = (if bad then Inl e else Inr ())"

text \<open>The same for steps that change a state: the state an error leaves behind is kept.\<close>

definition andThen :: "'s \<times> 'a result \<Rightarrow> ('s \<Rightarrow> 'a \<Rightarrow> 's \<times> 'b result) \<Rightarrow> 's \<times> 'b result" where
  "andThen r f = (case r of (s, Inl e) \<Rightarrow> (s, Inl e) | (s, Inr x) \<Rightarrow> f s x)"

definition wrapping :: "string \<Rightarrow> 's \<times> 'a result \<Rightarrow> 's \<times> 'a result" where
  "wrapping msg r = (fst r, wrap_err msg (snd r))"

text \<open>A loop over a slice that stops at the first error.\<close>

fun each :: "('a \<Rightarrow> 'b result) \<Rightarrow> 'a list \<Rightarrow> 'b list result" where
  "each f [] = Inr []"
| "each f (x # xs) =
     (case f x of Inl e \<Rightarrow> Inl e
      | Inr y \<Rightarrow> (case each f xs of Inl e \<Rightarrow> Inl e | Inr ys \<Rightarrow> Inr (y # ys)))"

section \<open>Go maps\<close>

text \<open>
  A map is an association list; its order is the iteration order the runtime picks, so a theorem
  over every list holds for every iteration order. \<open>map_of\<close> reads, \<open>AList.update\<close> writes,
  \<open>AList.delete\<close> deletes.
\<close>

type_synonym 'v gomap = "(string \<times> 'v) list"

abbreviation mget :: "'v gomap \<Rightarrow> string \<Rightarrow> 'v option" where
  "mget \<equiv> map_of"

abbreviation mput :: "string \<Rightarrow> 'v \<Rightarrow> 'v gomap \<Rightarrow> 'v gomap" where
  "mput \<equiv> AList.update"

abbreviation keys :: "'v gomap \<Rightarrow> string list" where
  "keys m \<equiv> map fst m"

definition mget_str :: "string gomap \<Rightarrow> string \<Rightarrow> string" where
  "mget_str m k = (case mget m k of None \<Rightarrow> [] | Some v \<Rightarrow> v)"

text \<open>Copying every entry of one map into another, \<open>for k, v := range src { dst[k] = v }\<close>.\<close>

fun mcopy :: "'v gomap \<Rightarrow> 'v gomap \<Rightarrow> 'v gomap" where
  "mcopy [] dst = dst"
| "mcopy ((k, v) # src) dst = mcopy src (mput k v dst)"

section \<open>Values of type \<open>interface{}\<close>\<close>

text \<open>
  The dynamic values the sources handle: those \<open>encoding/json\<close> and the TOML decoder produce and
  those the code builds. A \<open>float64\<close> is \<open>VFloat m e\<close>, the number \<open>m * 2 powr e\<close>.
\<close>

datatype gval =
    VNil
  | VBool bool
  | VInt int
  | VFloat int int
  | VStr string
  | VList "gval list"
  | VMap "(string \<times> gval) list"

section \<open>Strings and decimal conversions\<close>

definition digit_char :: "nat \<Rightarrow> char" where
  "digit_char d = char_of (48 + d)"

definition is_digit :: "char \<Rightarrow> bool" where
  "is_digit c = (48 \<le> (of_char c :: nat) \<and> (of_char c :: nat) \<le> 57)"

fun show_nat :: "nat \<Rightarrow> string" where
  "show_nat n = (if n < 10 then [digit_char n] else show_nat (n div 10) @ [digit_char (n mod 10)])"

declare show_nat.simps [simp del]

definition Itoa :: "int \<Rightarrow> string" where
  "Itoa i = (if i < 0 then ''-'' @ show_nat (nat (- i)) else show_nat (nat i))"

definition digits_val :: "string \<Rightarrow> nat" where
  "digits_val s = fold (\<lambda>c acc. 10 * acc + (of_char c - 48)) s 0"

text \<open>\<open>strconv.ParseUint(s, 10, 64)\<close> and \<open>strconv.ParseInt(s, 10, 64)\<close>.\<close>

definition ParseUint :: "string \<Rightarrow> nat result" where
  "ParseUint s =
     (if s = [] \<or> \<not> list_all is_digit s then Inl (New ''invalid syntax'')
      else if digits_val s \<ge> 2 ^ 64 then Inl (New ''value out of range'')
      else Inr (digits_val s))"

definition ParseInt :: "string \<Rightarrow> int result" where
  "ParseInt s =
     (let neg = (s \<noteq> [] \<and> hd s = CHR ''-'');
          body = (if s \<noteq> [] \<and> (hd s = CHR ''-'' \<or> hd s = CHR ''+'') then tl s else s)
      in case ParseUint body of
           Inl e \<Rightarrow> Inl e
         | Inr n \<Rightarrow>
             if \<not> neg \<and> n \<ge> 2 ^ 63 then Inl (New ''value out of range'')
             else if neg \<and> n > 2 ^ 63 then Inl (New ''value out of range'')
             else Inr (if neg then - int n else int n))"

fun Join :: "string \<Rightarrow> string list \<Rightarrow> string" where
  "Join sep [] = []"
| "Join sep [s] = s"
| "Join sep (s # t # ss) = s @ sep @ Join sep (t # ss)"

text \<open>\<open>strings.Split(s, sep)\<close> for a separator of one byte.\<close>

fun Split :: "char \<Rightarrow> string \<Rightarrow> string list" where
  "Split c [] = [[]]"
| "Split c (x # xs) =
     (if x = c then [] # Split c xs
      else (case Split c xs of [] \<Rightarrow> [[x]] | p # ps \<Rightarrow> (x # p) # ps))"

definition HasPrefix :: "string \<Rightarrow> string \<Rightarrow> bool" where
  "HasPrefix s p = (take (length p) s = p)"

fun Contains :: "string \<Rightarrow> string \<Rightarrow> bool" where
  "Contains [] p = (p = [])"
| "Contains (x # xs) p = (HasPrefix (x # xs) p \<or> Contains xs p)"

section \<open>Paths\<close>

text \<open>\<open>path.Clean\<close> works on the components of the path, with those kept so far on a stack; \<open>path.Join\<close> of two
  elements, which \<open>filepath.Join\<close> is here as well; \<open>path.Base\<close>.\<close>

fun clean_components :: "bool \<Rightarrow> string list \<Rightarrow> string list \<Rightarrow> string list" where
  "clean_components rooted acc [] = rev acc"
| "clean_components rooted acc (c # cs) =
     (if c = [] \<or> c = ''.'' then clean_components rooted acc cs
      else if c = ''..'' then
        (case acc of
           [] \<Rightarrow> clean_components rooted (if rooted then [] else [''..'']) cs
         | x # xs \<Rightarrow> clean_components rooted (if x = ''..'' then ''..'' # acc else xs) cs)
      else clean_components rooted (c # acc) cs)"

definition path_Clean :: "string \<Rightarrow> string" where
  "path_Clean p =
     (if p = [] then ''.''
      else let rooted = hd p = CHR ''/''; cs = clean_components rooted [] (Split (CHR ''/'') p)
           in if rooted then ''/'' @ Join ''/'' cs else if cs = [] then ''.'' else Join ''/'' cs)"

definition path_Join :: "string \<Rightarrow> string \<Rightarrow> string" where
  "path_Join a b = (let es = filter (\<lambda>e. e \<noteq> []) [a, b] in if es = [] then [] else path_Clean (Join ''/'' es))"

definition path_Dir :: "string \<Rightarrow> string" where
  "path_Dir p = path_Clean (rev (dropWhile (\<lambda>c. c \<noteq> CHR ''/'') (rev p)))"

definition path_Base :: "string \<Rightarrow> string" where
  "path_Base p =
     (if p = [] then ''.''
      else let q = rev (dropWhile (\<lambda>c. c = CHR ''/'') (rev p))
           in if q = [] then ''/'' else last (Split (CHR ''/'') q))"

section \<open>Machine integers\<close>

text \<open>Go \<open>int\<close> and \<open>int64\<close> conversions on a 64-bit platform, and \<open>int32\<close>.\<close>

type_synonym uint64 = "64 word"
type_synonym int32 = "32 word"

definition int_of_uint64 :: "uint64 \<Rightarrow> int" where
  "int_of_uint64 w = sint w"

definition uint64_of_int :: "int \<Rightarrow> uint64" where
  "uint64_of_int i = word_of_int i"

definition int_of_int32 :: "int32 \<Rightarrow> int" where
  "int_of_int32 w = sint w"

definition int32_of_int :: "int \<Rightarrow> int32" where
  "int32_of_int i = word_of_int i"

section \<open>Generic lemmas\<close>

lemma is_ok_simps [simp]:
  "is_ok (Inr x)" "\<not> is_ok (Inl e)"
  by (simp_all add: is_ok_def)

lemma is_ok_iff: "is_ok r \<longleftrightarrow> (\<exists>x. r = Inr x)"
  by (cases r) auto

lemma wrap_err_simps [simp]:
  "wrap_err m (Inl e) = Inl (Wrap m e)" "wrap_err m (Inr x) = Inr x"
  by (simp_all add: wrap_err_def)

lemma wrap_err_eq_Inr [simp]: "wrap_err m r = Inr x \<longleftrightarrow> r = Inr x"
  by (cases r) auto

lemma and_then_simps [simp]:
  "and_then (Inl e) f = Inl e" "and_then (Inr x) f = f x"
  by (simp_all add: and_then_def)

lemma and_then_eq_Inr: "and_then r f = Inr y \<longleftrightarrow> (\<exists>x. r = Inr x \<and> f x = Inr y)"
  by (cases r) auto

lemma check_eq_Inr [simp]: "check bad e = Inr u \<longleftrightarrow> \<not> bad"
  by (simp add: check_def)

lemma check_eq_Inl [simp]: "check bad e = Inl e' \<longleftrightarrow> bad \<and> e' = e"
  by (auto simp: check_def)

lemma and_then_check_Inr: "and_then (check bad e) f = Inr y \<longleftrightarrow> \<not> bad \<and> f () = Inr y"
  by (simp add: check_def)

lemma each_Cons_Inr:
  "each f (x # xs) = Inr zs \<longleftrightarrow> (\<exists>y ys. f x = Inr y \<and> each f xs = Inr ys \<and> zs = y # ys)"
  by (auto split: sum.splits)

lemma each_Inr_iff: "each f xs = Inr ys \<longleftrightarrow> list_all2 (\<lambda>x y. f x = Inr y) xs ys"
proof (induction xs arbitrary: ys)
  case (Cons x xs)
  then show ?case by (cases ys) (auto simp: each_Cons_Inr simp del: each.simps)
qed auto

lemma each_length: "each f xs = Inr ys \<Longrightarrow> length ys = length xs"
  by (simp add: each_Inr_iff list_all2_lengthD)

lemma each_total: "(\<And>x. x \<in> set xs \<Longrightarrow> f x = Inr (g x)) \<Longrightarrow> each f xs = Inr (map g xs)"
  by (induction xs) auto

lemma mget_mput [simp]: "mget (mput k v m) k' = (if k' = k then Some v else mget m k')"
  by (simp add: update_conv')

lemma distinct_keys_mput: "distinct (keys m) \<Longrightarrow> distinct (keys (mput k v m))"
  by (rule AList.distinct_update)

lemma mget_mcopy: "mget (mcopy src dst) k = (case mget (rev src) k of None \<Rightarrow> mget dst k | Some v \<Rightarrow> Some v)"
  by (induction src dst rule: mcopy.induct) (auto simp: map_add_def split: option.splits)

lemma digit_char_is_digit [simp]: "d < 10 \<Longrightarrow> is_digit (digit_char d)"
  by (simp add: is_digit_def digit_char_def)

lemma of_char_digit_char [simp]: "d < 10 \<Longrightarrow> (of_char (digit_char d) :: nat) = 48 + d"
  by (simp add: digit_char_def)

lemma show_nat_digits: "list_all is_digit (show_nat n)"
proof (induction n rule: show_nat.induct)
  case (1 n)
  then show ?case by (subst show_nat.simps) auto
qed

lemma show_nat_nonempty [simp]: "show_nat n \<noteq> []"
  by (subst show_nat.simps) simp

lemma digits_val_snoc: "digits_val (s @ [c]) = 10 * digits_val s + (of_char c - 48)"
  by (simp add: digits_val_def)

lemma digits_val_show_nat [simp]: "digits_val (show_nat n) = n"
proof (induction n rule: show_nat.induct)
  case (1 n)
  show ?case
  proof (cases "n < 10")
    case True
    then show ?thesis by (subst show_nat.simps) (simp add: digits_val_def)
  next
    case False
    with 1 have "digits_val (show_nat (n div 10)) = n div 10" by simp
    with False show ?thesis
      by (subst show_nat.simps) (simp add: digits_val_snoc)
  qed
qed

lemma show_nat_inject [simp]: "show_nat m = show_nat n \<longleftrightarrow> m = n"
  by (metis digits_val_show_nat)

lemma ParseUint_show_nat: "n < 2 ^ 64 \<Longrightarrow> ParseUint (show_nat n) = Inr n"
  using show_nat_digits [of n] by (simp add: ParseUint_def)

lemma dash_not_digit [simp]: "\<not> is_digit (CHR ''-'')"
  by (simp add: is_digit_def)

lemma plus_not_digit [simp]: "\<not> is_digit (CHR ''+'')"
  by (simp add: is_digit_def)

lemma hd_show_nat_digit: "is_digit (hd (show_nat n))"
  using show_nat_digits [of n] by (cases "show_nat n") auto

lemma hd_show_nat_not_sign [simp]:
  "hd (show_nat n) \<noteq> CHR ''-''" "hd (show_nat n) \<noteq> CHR ''+''"
  using hd_show_nat_digit [of n] by (metis dash_not_digit, metis plus_not_digit)

lemma dash_notin_show_nat: "CHR ''-'' \<notin> set (show_nat n)"
  using show_nat_digits [of n] by (auto simp: list_all_iff)

lemma Itoa_nonneg: "0 \<le> i \<Longrightarrow> Itoa i = show_nat (nat i)"
  by (simp add: Itoa_def)

lemma ParseInt_Itoa:
  assumes "- (2 ^ 63) \<le> i" "i < 2 ^ 63"
  shows "ParseInt (Itoa i) = Inr i"
proof (cases "i < 0")
  case True
  with assms have "ParseUint (show_nat (nat (- i))) = Inr (nat (- i))"
    by (intro ParseUint_show_nat) simp
  with True assms show ?thesis by (auto simp: ParseInt_def Itoa_def nat_less_iff)
next
  case False
  with assms have "ParseUint (show_nat (nat i)) = Inr (nat i)"
    by (intro ParseUint_show_nat) simp
  with False assms show ?thesis by (auto simp: ParseInt_def Itoa_def nat_less_iff)
qed

lemma Itoa_inject [simp]: "Itoa i = Itoa j \<longleftrightarrow> i = j"
proof
  assume eq: "Itoa i = Itoa j"
  then show "i = j"
  proof (cases "i < 0"; cases "j < 0")
    assume "i < 0" "\<not> j < 0"
    with eq have "hd (show_nat (nat j)) = CHR ''-''" by (metis Itoa_def append_Cons list.sel(1))
    then show ?thesis by simp
  next
    assume "\<not> i < 0" "j < 0"
    with eq have "hd (show_nat (nat i)) = CHR ''-''" by (metis Itoa_def append_Cons list.sel(1))
    then show ?thesis by simp
  qed (auto simp: Itoa_def)
qed simp

lemma andThen_ok: "andThen r f = (s', Inr y) \<longleftrightarrow> (\<exists>s x. r = (s, Inr x) \<and> f s x = (s', Inr y))"
  by (auto simp: andThen_def split: prod.splits sum.splits)

lemma andThen_inv: "P (fst r) \<Longrightarrow> (\<And>s x. P s \<Longrightarrow> P (fst (f s x))) \<Longrightarrow> P (fst (andThen r f))"
  by (auto simp: andThen_def split: prod.splits sum.splits)

lemma fst_wrapping [simp]: "fst (wrapping msg r) = fst r"
  by (simp add: wrapping_def)

lemma wrapping_ok: "wrapping msg r = (s, Inr x) \<longleftrightarrow> r = (s, Inr x)"
  by (cases r) (auto simp: wrapping_def wrap_err_def split: sum.splits)

lemma append_sep_inject:
  assumes "c \<notin> set a" "c \<notin> set b" "a @ c # x = b @ c # y"
  shows "a = b \<and> x = y"
  using assms
proof (induction a arbitrary: b)
  case Nil
  then show ?case by (cases b) auto
next
  case (Cons h t)
  then show ?case by (cases b) auto
qed

lemma Split_nonempty [simp]: "Split c s \<noteq> []"
  by (induction s) (auto split: list.splits)

lemma Split_no_sep: "c \<notin> set s \<Longrightarrow> Split c s = [s]"
  by (induction s) auto

lemma Split_append_sep: "c \<notin> set s \<Longrightarrow> Split c (s @ c # t) = s # Split c t"
  by (induction s) auto

lemma Split_Join:
  assumes "ss \<noteq> []" "\<And>s. s \<in> set ss \<Longrightarrow> c \<notin> set s"
  shows "Split c (Join [c] ss) = ss"
  using assms by (induction "[c]" ss rule: Join.induct) (auto simp: Split_no_sep Split_append_sep)

lemma HasPrefix_append [simp]: "HasPrefix (p @ s) p"
  by (simp add: HasPrefix_def)

lemma HasPrefix_iff: "HasPrefix s p \<longleftrightarrow> (\<exists>t. s = p @ t)"
  by (metis HasPrefix_append HasPrefix_def append_take_drop_id)

lemma Contains_iff: "Contains s p \<longleftrightarrow> (\<exists>a b. s = a @ p @ b)"
proof (induction s)
  case Nil
  then show ?case by simp
next
  case (Cons x xs)
  show ?case
  proof
    assume "Contains (x # xs) p"
    then show "\<exists>a b. x # xs = a @ p @ b"
      by (metis Cons.IH Contains.simps(2) HasPrefix_iff append_Cons append_Nil)
  next
    assume "\<exists>a b. x # xs = a @ p @ b"
    then obtain a b where ab: "x # xs = a @ p @ b" by blast
    show "Contains (x # xs) p"
    proof (cases a)
      case Nil
      with ab have "HasPrefix (x # xs) p" by (simp add: HasPrefix_iff)
      then show ?thesis by simp
    next
      case (Cons y a')
      with ab have "xs = a' @ p @ b" by simp
      with Cons.IH have "Contains xs p" by blast
      then show ?thesis by simp
    qed
  qed
qed

lemma int32_roundtrip: "int32_of_int (int_of_int32 w) = w"
  by (simp add: int32_of_int_def int_of_int32_def)

lemma uint64_roundtrip: "uint64_of_int (int_of_uint64 w) = w"
  by (simp add: uint64_of_int_def int_of_uint64_def)

lemma int_of_int32_of_int:
  assumes "- (2 ^ 31) \<le> i" "i < 2 ^ 31"
  shows "int_of_int32 (int32_of_int i) = i"
  using assms by (simp add: int_of_int32_def int32_of_int_def sint_sbintrunc' signed_take_bit_int_eq_self)

lemma int_of_uint64_of_int:
  assumes "- (2 ^ 63) \<le> i" "i < 2 ^ 63"
  shows "int_of_uint64 (uint64_of_int i) = i"
  using assms by (simp add: int_of_uint64_def uint64_of_int_def sint_sbintrunc' signed_take_bit_int_eq_self)

end
