(* ===== verification/Definitions.thy ===== *)
theory Definitions
  imports Prelude
begin

text \<open>
  The declarative half of the orchestrator: task, image and volume definitions
  (\<open>petri/core/provider/definitions.go\<close>), the DigitalOcean task config
  (\<open>digitalocean/types.go\<close>), chain, region, node and wallet configs
  (\<open>petri/core/types\<close>), each with its \<open>ValidateBasic\<close> and, for every validator, the exact
  set of configurations it accepts.
\<close>

section \<open>Task definitions\<close>

record VolumeDefinition =
  vd_Name :: string
  vd_MountPath :: string
  vd_Size :: string

definition VolumeDefinition_ValidateBasic :: "VolumeDefinition \<Rightarrow> unit result" where
  "VolumeDefinition_ValidateBasic v =
     (if vd_Name v = [] then Inl (New ''volume name cannot be empty'')
      else if vd_MountPath v = [] then Inl (New ''mount path cannot be empty'')
      else if vd_Size v = [] then Inl (New ''size cannot be empty'')
      else Inr ())"

record ImageDefinition =
  img_Image :: string
  img_UID :: string
  img_GID :: string

definition ImageDefinition_ValidateBasic :: "ImageDefinition \<Rightarrow> unit result" where
  "ImageDefinition_ValidateBasic i =
     (if img_Image i = [] then Inl (New ''image cannot be empty'')
      else if img_UID i = [] then Inl (New ''uid cannot be empty'')
      else if \<not> is_ok (ParseUint (img_UID i)) then Inl (New ''uid must be a valid unsigned integer'')
      else if img_GID i = [] then Inl (New ''gid cannot be empty'')
      else if \<not> is_ok (ParseUint (img_GID i)) then Inl (New ''gid must be a valid unsigned integer'')
      else Inr ())"

record TaskDefinition =
  td_Name :: string
  td_Image :: ImageDefinition
  td_Ports :: "string list"
  td_Environment :: "string gomap"
  td_DataDir :: string
  td_Entrypoint :: "string list"
  td_Command :: "string list"
  td_Args :: "string list"
  td_ProviderSpecificConfig :: "string gomap option"

definition validate_port :: "string \<Rightarrow> unit result" where
  "validate_port port =
     (if port = [] then Inl (New ''port cannot be empty'')
      else case ParseUint port of
             Inl _ \<Rightarrow> Inl (New ''port must be a valid unsigned integer'')
           | Inr n \<Rightarrow> if n > 65535 then Inl (New ''port must be less than 65535'') else Inr ())"

definition TaskDefinition_ValidateBasic :: "TaskDefinition \<Rightarrow> unit result" where
  "TaskDefinition_ValidateBasic t =
     (if td_Name t = [] then Inl (New ''name cannot be empty'')
      else case ImageDefinition_ValidateBasic (td_Image t) of
             Inl e \<Rightarrow> Inl (Wrap ''image definition is invalid'' e)
           | Inr _ \<Rightarrow> (case each validate_port (td_Ports t) of Inl e \<Rightarrow> Inl e | Inr _ \<Rightarrow> Inr ()))"

definition IsECRImage :: "string \<Rightarrow> bool" where
  "IsECRImage imageName = Contains imageName ''.amazonaws.com''"

definition DigitalOceanTaskConfig_ValidateBasic :: "string gomap \<Rightarrow> unit result" where
  "DigitalOceanTaskConfig_ValidateBasic d =
     (if mget_str d ''region'' = [] then Inl (New ''region has to be non-empty and a string'')
      else if mget_str d ''size'' = [] then Inl (New ''size has to be non-empty and a string'')
      else if mget_str d ''image_id'' = [] then Inl (New ''image_id has to be non-empty'')
      else if \<not> is_ok (ParseInt (mget_str d ''image_id'')) then Inl (New ''image_id has to be an integer'')
      else Inr ())"

section \<open>Chain configuration\<close>

definition validRegions :: "string list" where
  "validRegions = [''nyc1'', ''nyc2'', ''nyc3'', ''atl1'', ''sfo2'', ''ams3'', ''fra1'', ''sgp1'']"

definition provider_DigitalOcean :: string where "provider_DigitalOcean = ''DigitalOcean''"
definition provider_Docker :: string where "provider_Docker = ''Docker''"

record RegionConfig =
  rc_Name :: string
  rc_NumValidators :: int
  rc_NumNodes :: int

definition RegionConfig_ValidateBasic :: "RegionConfig \<Rightarrow> unit result" where
  "RegionConfig_ValidateBasic r =
     (if rc_Name r = [] then Inl (New ''region cannot be empty'')
      else if rc_Name r \<notin> set validRegions then
        Inl (New (''region '' @ [CHR 0x27] @ rc_Name r @ [CHR 0x27] @
             '' is not supported. Valid regions are: nyc1, nyc2, nyc3, atl1, sfo2, ams3, fra1, sgp1''))
      else if rc_NumValidators r < 0 then Inl (New ''num validators cannot be negative'')
      else if rc_NumNodes r < 0 then Inl (New ''num nodes cannot be negative'')
      else Inr ())"

record ChainConfig =
  pc_Name :: string
  pc_Denom :: string
  pc_Decimals :: uint64
  pc_NumValidators :: int
  pc_NumNodes :: int
  pc_RegionConfig :: "RegionConfig list"
  pc_BinaryName :: string
  pc_Entrypoint :: "string list"
  pc_Image :: ImageDefinition
  pc_GasPrices :: string
  pc_Bech32Prefix :: string
  pc_HomeDir :: string
  pc_CoinType :: string
  pc_ChainId :: string
  pc_UseGenesisSubCommand :: bool
  pc_AdditionalStartFlags :: "string list"
  pc_AdditionalPorts :: "string list"
  pc_GenesisDelegation :: "int option"
  pc_GenesisBalance :: "int option"
  pc_IsEVMChain :: bool
  pc_CustomAppConfig :: "gval gomap option"
  pc_CustomClientConfig :: "gval gomap option"
  pc_CustomConsensusConfig :: "gval gomap option"
  pc_SetPersistentPeers :: bool
  pc_SetSeedNode :: bool

definition GetGenesisBalance :: "ChainConfig \<Rightarrow> int" where
  "GetGenesisBalance c = (case pc_GenesisBalance c of None \<Rightarrow> 100000000 | Some b \<Rightarrow> b)"

definition GetGenesisDelegation :: "ChainConfig \<Rightarrow> int" where
  "GetGenesisDelegation c = (case pc_GenesisDelegation c of None \<Rightarrow> 5000000 | Some d \<Rightarrow> d)"

text \<open>The loop over the regions: the first invalid region fails, with its index; the flag
  \<open>hasValidators\<close> is carried along.\<close>

fun validate_regions :: "nat \<Rightarrow> bool \<Rightarrow> RegionConfig list \<Rightarrow> bool result" where
  "validate_regions i has [] = Inr has"
| "validate_regions i has (r # rs) =
     (case RegionConfig_ValidateBasic r of
        Inl e \<Rightarrow> Inl (Wrap (''regional config '' @ show_nat i @ '' is invalid'') e)
      | Inr _ \<Rightarrow> validate_regions (Suc i) (has \<or> rc_NumValidators r > 0) rs)"

definition validate_topology :: "string \<Rightarrow> ChainConfig \<Rightarrow> unit result" where
  "validate_topology providerType c =
     (if providerType = provider_DigitalOcean then
        (if pc_RegionConfig c = [] then Inl (New ''regional distribution cannot be empty'')
         else case validate_regions 0 False (pc_RegionConfig c) of
                Inl e \<Rightarrow> Inl e
              | Inr has \<Rightarrow> if has then Inr () else Inl (New ''at least one region must have validators''))
      else if providerType = provider_Docker then
        (if pc_NumValidators c = 0 then Inl (New ''num validators cannot be 0'') else Inr ())
      else Inl (New (''invalid provider type: '' @ providerType)))"

definition ChainConfig_ValidateBasic :: "string \<Rightarrow> ChainConfig \<Rightarrow> unit result" where
  "ChainConfig_ValidateBasic providerType c =
     (if pc_Name c = [] then Inl (New ''name cannot be empty'')
      else if pc_Denom c = [] then Inl (New ''denom cannot be empty'')
      else if pc_Decimals c = 0 then Inl (New ''decimals cannot be 0'')
      else case validate_topology providerType c of
             Inl e \<Rightarrow> Inl e
           | Inr _ \<Rightarrow>
             if pc_BinaryName c = [] then Inl (New ''binary name cannot be empty'')
             else if pc_GasPrices c = [] then Inl (New ''gas prices cannot be empty'')
             else case ImageDefinition_ValidateBasic (pc_Image c) of
                    Inl e \<Rightarrow> Inl (Wrap ''image definition is invalid'' e)
                  | Inr _ \<Rightarrow>
                    if pc_Bech32Prefix c = [] then Inl (New ''bech32 prefix cannot be empty'')
                    else if pc_CoinType c = [] then Inl (New ''coin type cannot be empty'')
                    else if pc_ChainId c = [] then Inl (New ''chain ID cannot be empty'')
                    else Inr ())"

text \<open>\<open>UseLibP2P\<close> reads \<open>p2p.libp2p.enabled\<close>; a missing key or another type gives false.\<close>

definition UseLibP2P :: "ChainConfig \<Rightarrow> bool" where
  "UseLibP2P c =
     (case pc_CustomConsensusConfig c of
        None \<Rightarrow> False
      | Some cfg \<Rightarrow>
          (case mget cfg ''p2p'' of
             Some (VMap p2p) \<Rightarrow>
               (case mget p2p ''libp2p'' of
                  Some (VMap libp2p) \<Rightarrow>
                    (case mget libp2p ''enabled'' of Some (VBool b) \<Rightarrow> b | _ \<Rightarrow> False)
                | _ \<Rightarrow> False)
           | _ \<Rightarrow> False))"

record NodeConfig =
  nc_Name :: string
  nc_Index :: int
  nc_ChainConfig :: ChainConfig

definition NodeConfig_ValidateBasic :: "string \<Rightarrow> NodeConfig \<Rightarrow> unit result" where
  "NodeConfig_ValidateBasic providerType c =
     (if nc_Name c = [] then Inl (New ''name cannot be empty'')
      else ChainConfig_ValidateBasic providerType (nc_ChainConfig c))"

text \<open>Keys and derived seeds are byte strings; \<open>nil\<close> functions and paths are \<open>None\<close>.\<close>

record WalletConfig =
  wc_DerivationFn :: "(string \<Rightarrow> string \<Rightarrow> string \<Rightarrow> string result) option"
  wc_GenerationFn :: "(string \<Rightarrow> string) option"
  wc_Bech32Prefix :: string
  wc_HDPath :: "string option"
  wc_SigningAlgorithm :: string

definition WalletConfig_ValidateBasic :: "WalletConfig \<Rightarrow> unit result" where
  "WalletConfig_ValidateBasic c =
     (if wc_DerivationFn c = None then Inl (New ''derivation function cannot be nil'')
      else if wc_GenerationFn c = None then Inl (New ''generation function cannot be nil'')
      else if wc_Bech32Prefix c = [] then Inl (New ''bech32 prefix cannot be empty'')
      else if wc_HDPath c = None then Inl (New ''HD path cannot be nil'')
      else if wc_SigningAlgorithm c = [] then Inl (New ''signing algorithm cannot be empty'')
      else Inr ())"

section \<open>What the validators accept\<close>

lemma ImageDefinition_ValidateBasic_iff:
  "ImageDefinition_ValidateBasic i = Inr u \<longleftrightarrow>
     img_Image i \<noteq> [] \<and> is_ok (ParseUint (img_UID i)) \<and> is_ok (ParseUint (img_GID i))"
  by (auto simp: ImageDefinition_ValidateBasic_def ParseUint_def)

lemma validate_port_iff:
  "validate_port p = Inr u \<longleftrightarrow> p \<noteq> [] \<and> list_all is_digit p \<and> digits_val p \<le> 65535"
  by (auto simp: validate_port_def ParseUint_def split: if_splits)

lemma each_validate_port_iff:
  "is_ok (each validate_port ps) \<longleftrightarrow> (\<forall>p \<in> set ps. is_ok (validate_port p))"
  by (induction ps) (auto simp: is_ok_iff split: sum.splits)

lemma validate_regions_iff:
  "validate_regions i has rs = Inr b \<longleftrightarrow>
     (\<forall>r \<in> set rs. is_ok (RegionConfig_ValidateBasic r)) \<and>
     (b \<longleftrightarrow> has \<or> (\<exists>r \<in> set rs. rc_NumValidators r > 0))"
  by (induction rs arbitrary: i has) (auto simp: is_ok_iff split: sum.splits)

lemma RegionConfig_ValidateBasic_iff:
  "RegionConfig_ValidateBasic r = Inr u \<longleftrightarrow>
     rc_Name r \<in> set validRegions \<and> 0 \<le> rc_NumValidators r \<and> 0 \<le> rc_NumNodes r"
  by (auto simp: RegionConfig_ValidateBasic_def validRegions_def)

lemma validate_topology_DigitalOcean:
  "validate_topology provider_DigitalOcean c = Inr u \<longleftrightarrow>
     (\<forall>r \<in> set (pc_RegionConfig c). is_ok (RegionConfig_ValidateBasic r)) \<and>
     (\<exists>r \<in> set (pc_RegionConfig c). rc_NumValidators r > 0)"
  by (auto simp: validate_topology_def validate_regions_iff split: sum.splits)
     (metis validate_regions_iff old.sum.exhaust sum.distinct(1))+

lemma ChainConfig_ValidateBasic_topology:
  "ChainConfig_ValidateBasic p c = Inr u \<Longrightarrow> validate_topology p c = Inr ()"
  by (auto simp: ChainConfig_ValidateBasic_def split: if_splits sum.splits)

lemma NodeConfig_ValidateBasic_chain:
  "NodeConfig_ValidateBasic p c = Inr u \<Longrightarrow> ChainConfig_ValidateBasic p (nc_ChainConfig c) = Inr ()"
  by (auto simp: NodeConfig_ValidateBasic_def split: if_splits)

lemma mget_str_nonempty: "mget_str d k \<noteq> [] \<longleftrightarrow> (\<exists>v. mget d k = Some v \<and> v \<noteq> [])"
  by (auto simp: mget_str_def split: option.splits)

section \<open>Properties\<close>

text \<open>A task definition is accepted exactly when its name is non-empty, its image names an
  image with numeric uid and gid, and every port is a decimal number of at most 65535.\<close>

theorem TaskDefinition_ValidateBasic_accepts:
  "TaskDefinition_ValidateBasic t = Inr () \<longleftrightarrow>
     td_Name t \<noteq> [] \<and> img_Image (td_Image t) \<noteq> [] \<and>
     is_ok (ParseUint (img_UID (td_Image t))) \<and> is_ok (ParseUint (img_GID (td_Image t))) \<and>
     list_all (\<lambda>p. p \<noteq> [] \<and> list_all is_digit p \<and> digits_val p \<le> 65535) (td_Ports t)"
proof -
  have "is_ok (each validate_port (td_Ports t)) \<longleftrightarrow>
      list_all (\<lambda>p. p \<noteq> [] \<and> list_all is_digit p \<and> digits_val p \<le> 65535) (td_Ports t)"
    unfolding each_validate_port_iff by (simp add: list_all_iff is_ok_iff validate_port_iff)
  then show ?thesis
    using ImageDefinition_ValidateBasic_iff [of "td_Image t"]
    by (auto simp: TaskDefinition_ValidateBasic_def split: sum.splits)
qed

text \<open>A chain config is accepted exactly when its textual fields are non-empty, the decimals
  are not zero, the image is valid, and the topology fits the provider: on DigitalOcean every region
  is a supported one with non-negative counts and some region has a validator, on Docker the
  number of validators is not zero (a negative number is accepted), and no other provider is
  accepted.\<close>

theorem ChainConfig_ValidateBasic_accepts:
  "ChainConfig_ValidateBasic p c = Inr () \<longleftrightarrow>
     pc_Name c \<noteq> [] \<and> pc_Denom c \<noteq> [] \<and> pc_Decimals c \<noteq> 0 \<and> pc_BinaryName c \<noteq> [] \<and>
     pc_GasPrices c \<noteq> [] \<and> pc_Bech32Prefix c \<noteq> [] \<and> pc_CoinType c \<noteq> [] \<and> pc_ChainId c \<noteq> [] \<and>
     is_ok (ImageDefinition_ValidateBasic (pc_Image c)) \<and>
     (p = provider_DigitalOcean \<and>
        list_all (\<lambda>r. rc_Name r \<in> set validRegions \<and> 0 \<le> rc_NumValidators r \<and> 0 \<le> rc_NumNodes r)
          (pc_RegionConfig c) \<and>
        list_ex (\<lambda>r. rc_NumValidators r > 0) (pc_RegionConfig c)
      \<or> p = provider_Docker \<and> pc_NumValidators c \<noteq> 0)"
proof -
  have "validate_topology p c = Inr () \<longleftrightarrow>
     (p = provider_DigitalOcean \<and>
        list_all (\<lambda>r. rc_Name r \<in> set validRegions \<and> 0 \<le> rc_NumValidators r \<and> 0 \<le> rc_NumNodes r)
          (pc_RegionConfig c) \<and>
        list_ex (\<lambda>r. rc_NumValidators r > 0) (pc_RegionConfig c)
      \<or> p = provider_Docker \<and> pc_NumValidators c \<noteq> 0)" (is "_ \<longleftrightarrow> ?topo")
  proof (cases "p = provider_DigitalOcean")
    case True
    then show ?thesis
      by (simp add: validate_topology_DigitalOcean list_all_iff list_ex_iff is_ok_iff
          RegionConfig_ValidateBasic_iff)
        (simp add: provider_DigitalOcean_def provider_Docker_def)
  next
    case False
    then show ?thesis by (auto simp: validate_topology_def)
  qed
  moreover have "ChainConfig_ValidateBasic p c = Inr () \<longleftrightarrow>
     pc_Name c \<noteq> [] \<and> pc_Denom c \<noteq> [] \<and> pc_Decimals c \<noteq> 0 \<and> pc_BinaryName c \<noteq> [] \<and>
     pc_GasPrices c \<noteq> [] \<and> pc_Bech32Prefix c \<noteq> [] \<and> pc_CoinType c \<noteq> [] \<and> pc_ChainId c \<noteq> [] \<and>
     is_ok (ImageDefinition_ValidateBasic (pc_Image c)) \<and> validate_topology p c = Inr ()"
    by (auto simp: ChainConfig_ValidateBasic_def is_ok_iff split: sum.splits)
  ultimately show ?thesis by simp
qed

end
