(* ===== verification/Messages.thy ===== *)
theory Messages
  imports Definitions
begin

text \<open>
  The messages exchanged by server, workflow and activities (\<open>messages/*.go\<close>), the server-side
  configuration types (\<open>types/config.go\<close>) with the monitoring links and the registry selection,
  and the validation of a workflow request.
\<close>

section \<open>Requests and responses\<close>

definition runner_DigitalOcean :: string where "runner_DigitalOcean = ''DigitalOcean''"
definition runner_Docker :: string where "runner_Docker = ''Docker''"

definition DigitalOceanDefaultOpts :: "string gomap" where
  "DigitalOceanDefaultOpts = [(''region'', ''nyc3''), (''size'', ''c-8''), (''image_id'', ''199449450'')]"

record GenesisKV =
  gk_Key :: string
  gk_Value :: gval

text \<open>
  A load test spec is a value of the load generator's package; the server reads its \<open>Kind\<close> and
  passes the rest, the fields \<open>lts_Fields\<close>, through unchanged.
\<close>

record LoadTestSpec =
  lts_Kind :: string
  lts_Fields :: "gval gomap"

record ChainsConfig =
  ch_Name :: string
  ch_Image :: string
  ch_Version :: string
  ch_GenesisModifications :: "GenesisKV list"
  ch_NumOfNodes :: uint64
  ch_NumOfValidators :: uint64
  ch_RegionConfigs :: "RegionConfig list"
  ch_CustomAppConfig :: "gval gomap option"
  ch_CustomConsensusConfig :: "gval gomap option"
  ch_CustomClientConfig :: "gval gomap option"
  ch_SetSeedNode :: bool
  ch_SetPersistentPeers :: bool

definition empty_ChainsConfig :: ChainsConfig where
  "empty_ChainsConfig = \<lparr> ch_Name = [], ch_Image = [], ch_Version = [],
     ch_GenesisModifications = [], ch_NumOfNodes = 0, ch_NumOfValidators = 0, ch_RegionConfigs = [],
     ch_CustomAppConfig = None, ch_CustomConsensusConfig = None, ch_CustomClientConfig = None,
     ch_SetSeedNode = False, ch_SetPersistentPeers = False \<rparr>"

record TestnetWorkflowRequest =
  wr_Repo :: string
  wr_SHA :: string
  wr_IsEvmChain :: bool
  wr_ChainConfig :: ChainsConfig
  wr_RunnerType :: string
  wr_CosmosSdkSha :: string
  wr_CometBFTSha :: string
  wr_EthereumLoadTestSpec :: "LoadTestSpec option"
  wr_CosmosLoadTestSpec :: "LoadTestSpec option"
  wr_LongRunningTestnet :: bool
  wr_LaunchLoadBalancer :: bool
  wr_TestnetDuration :: string
  wr_NumWallets :: int
  wr_BaseMnemonic :: string
  wr_CatalystVersion :: string
  wr_ProviderSpecificConfig :: "string gomap"

definition TestnetWorkflowRequest_Validate :: "TestnetWorkflowRequest \<Rightarrow> unit result" where
  "TestnetWorkflowRequest_Validate r =
     (if wr_Repo r = [] then Inl (New ''repo is required'')
      else if wr_SHA r = [] then Inl (New ''SHA is required'')
      else if ch_Name (wr_ChainConfig r) = [] then Inl (New ''chain name is required'')
      else if wr_RunnerType r \<noteq> runner_DigitalOcean \<and> wr_RunnerType r \<noteq> runner_Docker then
        Inl (New ''runner type must be one of: DigitalOcean, Docker'')
      else if wr_LongRunningTestnet r \<and> wr_TestnetDuration r \<noteq> [] then
        Inl (New ''can not set duration on long-running testnet'')
      else if \<not> ch_SetSeedNode (wr_ChainConfig r) \<and> \<not> ch_SetPersistentPeers (wr_ChainConfig r) then
        Inl (New ''at least one of SetSeedNode or SetPersistentPeers must be set to true'')
      else if wr_RunnerType r = runner_Docker \<and> wr_LaunchLoadBalancer r then
        Inl (New ''load balancer is not supported for docker runners'')
      else if wr_EthereumLoadTestSpec r \<noteq> None \<and> wr_CosmosLoadTestSpec r \<noteq> None then
        Inl (New ''only one of ethereum of cosmos load test can be specified'')
      else if wr_IsEvmChain r then
        (if wr_CosmosLoadTestSpec r \<noteq> None then
           Inl (New ''can not run cosmos load tests for evm chain'')
         else Inr ())
      else
        (if wr_EthereumLoadTestSpec r \<noteq> None then
           Inl (New ''can not run ethereum load tests for cosmos chain'')
         else Inr ()))"

text \<open>Nodes as the gRPC API describes them.\<close>

record Node =
  n_Name :: string
  n_Address :: string
  n_Rpc :: string
  n_Lcd :: string
  n_Grpc :: string
  n_Evmrpc :: string
  n_Evmws :: string

definition empty_Node :: Node where
  "empty_Node = \<lparr> n_Name = [], n_Address = [], n_Rpc = [], n_Lcd = [], n_Grpc = [],
     n_Evmrpc = [], n_Evmws = [] \<rparr>"

record ImageConfig =
  ic_Name :: string
  ic_Image :: string
  ic_Version :: string

record BuildDockerImageRequest =
  bi_Repo :: string
  bi_SHA :: string
  bi_ImageConfig :: ImageConfig
  bi_CosmosSdkSha :: string
  bi_CometBFTSha :: string

record BuildDockerImageResponse =
  br_FQDNTag :: string
  br_Logs :: string

record LaunchTestnetRequest =
  lt_Name :: string
  lt_IsEvmChain :: bool
  lt_Repo :: string
  lt_SHA :: string
  lt_Image :: string
  lt_BaseImage :: string
  lt_GenesisModifications :: "GenesisKV list"
  lt_RunnerType :: string
  lt_RegionConfigs :: "RegionConfig list"
  lt_NumOfValidators :: uint64
  lt_NumOfNodes :: uint64
  lt_CustomAppConfig :: "gval gomap option"
  lt_CustomConsensusConfig :: "gval gomap option"
  lt_CustomClientConfig :: "gval gomap option"
  lt_AdditionalStartFlags :: "string list"
  lt_ProviderState :: string
  lt_SetPersistentPeers :: bool
  lt_SetSeedNode :: bool
  lt_BaseMnemonic :: string
  lt_NumWallets :: int
  lt_ProviderSpecificConfig :: "string gomap"

record LaunchTestnetResponse =
  lr_ProviderState :: string
  lr_ChainState :: string
  lr_ChainID :: string
  lr_Nodes :: "Node list"
  lr_Validators :: "Node list"

definition empty_LaunchTestnetResponse :: LaunchTestnetResponse where
  "empty_LaunchTestnetResponse = \<lparr> lr_ProviderState = [], lr_ChainState = [], lr_ChainID = [],
     lr_Nodes = [], lr_Validators = [] \<rparr>"

record LoadBalancerDomain =
  lb_Domain :: string
  lb_IPs :: "string list"
  lb_Protocol :: string

record LaunchLoadBalancerRequest =
  lq_ProviderState :: string
  lq_RunnerType :: string
  lq_Domains :: "LoadBalancerDomain list"
  lq_WorkflowID :: string
  lq_IsEvmChain :: bool

record RunLoadTestRequest =
  rl_ChainState :: string
  rl_ProviderState :: string
  rl_LoadTestSpec :: LoadTestSpec
  rl_RunnerType :: string
  rl_IsEvmChain :: bool
  rl_BaseMnemonic :: string
  rl_NumWallets :: int
  rl_CatalystVersion :: string

section \<open>Server configuration\<close>

record Dashboard =
  db_ID :: string
  db_Name :: string
  db_HumanName :: string

record GrafanaConfig =
  gf_URL :: string
  gf_Dashboards :: "Dashboard list"

text \<open>Times are Unix milliseconds here: the function uses nothing else of them.\<close>

definition monitoring_url :: "string \<Rightarrow> int \<Rightarrow> string \<Rightarrow> string \<Rightarrow> GrafanaConfig \<Rightarrow> Dashboard \<Rightarrow> string" where
  "monitoring_url chainID startMilli toParam prov grafana d =
     gf_URL grafana @ ''/d/'' @ db_ID d @ ''/'' @ db_Name d @ ''?orgId=1&var-chain_id='' @ chainID @
     ''&from='' @ Itoa startMilli @ ''&to='' @ toParam @ ''&refresh=auto'' @
     (if prov \<noteq> [] then ''&var-provider='' @ prov else [])"

definition GenerateMonitoringLinks ::
    "string \<Rightarrow> int \<Rightarrow> int option \<Rightarrow> string \<Rightarrow> GrafanaConfig \<Rightarrow> string gomap" where
  "GenerateMonitoringLinks chainID startMilli endMilli prov grafana =
     (let toParam = (case endMilli of None \<Rightarrow> ''now'' | Some t \<Rightarrow> Itoa t)
      in fold (\<lambda>d urls. mput (db_HumanName d) (monitoring_url chainID startMilli toParam prov grafana d) urls)
           (gf_Dashboards grafana) [])"

record RegistryConfig =
  rg_Type :: string
  rg_URL :: string
  rg_ImageName :: string

record BuilderConfig =
  bc_BuildKitAddress :: string
  bc_LocalImageName :: string
  bc_ECR_URL :: string
  bc_ECR_ImageName :: string
  bc_AuthEnvConfigs :: "string gomap"

text \<open>\<open>mode\<close> is the value of the environment variable \<open>REGISTRY_MODE\<close>, empty when unset.\<close>

definition GetActiveRegistry :: "string \<Rightarrow> BuilderConfig \<Rightarrow> RegistryConfig" where
  "GetActiveRegistry env c =
     (let mode = (if env = [] then ''local'' else env)
      in if mode = ''ecr'' then
           \<lparr> rg_Type = ''ecr'', rg_URL = bc_ECR_URL c, rg_ImageName = bc_ECR_ImageName c \<rparr>
         else \<lparr> rg_Type = ''local'', rg_URL = [], rg_ImageName = bc_LocalImageName c \<rparr>)"

record ChainImageConfig =
  ci_Name :: string
  ci_Dockerfile :: string
  ci_AdditionalFiles :: "string list"
  ci_GID :: string
  ci_UID :: string
  ci_BinaryName :: string
  ci_Entrypoint :: "string list"
  ci_HomeDir :: string
  ci_GasPrices :: string

definition empty_ChainImageConfig :: ChainImageConfig where
  "empty_ChainImageConfig = \<lparr> ci_Name = [], ci_Dockerfile = [], ci_AdditionalFiles = [],
     ci_GID = [], ci_UID = [], ci_BinaryName = [], ci_Entrypoint = [], ci_HomeDir = [],
     ci_GasPrices = [] \<rparr>"

section \<open>Lemmas\<close>

lemma runner_neq [simp]: "runner_DigitalOcean \<noteq> runner_Docker" "runner_Docker \<noteq> runner_DigitalOcean"
  by (simp_all add: runner_DigitalOcean_def runner_Docker_def)

lemma Validate_accepts_iff:
  "TestnetWorkflowRequest_Validate r = Inr u \<longleftrightarrow>
     wr_Repo r \<noteq> [] \<and> wr_SHA r \<noteq> [] \<and> ch_Name (wr_ChainConfig r) \<noteq> [] \<and>
     (wr_RunnerType r = runner_DigitalOcean \<or>
      wr_RunnerType r = runner_Docker \<and> \<not> wr_LaunchLoadBalancer r) \<and>
     (wr_LongRunningTestnet r \<longrightarrow> wr_TestnetDuration r = []) \<and>
     (ch_SetSeedNode (wr_ChainConfig r) \<or> ch_SetPersistentPeers (wr_ChainConfig r)) \<and>
     (if wr_IsEvmChain r then wr_CosmosLoadTestSpec r = None else wr_EthereumLoadTestSpec r = None)"
  unfolding TestnetWorkflowRequest_Validate_def
  by (auto simp del: not_None_eq split del: if_split split: if_splits)

lemma keys_GenerateMonitoringLinks:
  "set (keys (GenerateMonitoringLinks c s e p g)) = db_HumanName ` set (gf_Dashboards g)"
proof -
  have "set (keys (fold (\<lambda>d urls. mput (h d) (f d) urls) ds m)) = set (keys m) \<union> h ` set ds"
    for h :: "Dashboard \<Rightarrow> string" and f ds and m :: "string gomap"
    by (induction ds arbitrary: m) (auto simp: dom_update)
  from this [where m = "[]"] show ?thesis by (simp add: GenerateMonitoringLinks_def Let_def)
qed

section \<open>Properties\<close>

text \<open>The workflow request validation accepts a request exactly when repo, SHA and chain name
  are given, the runner is DigitalOcean, or Docker without a load balancer, a long-running
  testnet has no duration, some peer discovery is on, and the only load test is of the chain's own
  kind.\<close>

theorem TestnetWorkflowRequest_Validate_accepts:
  "is_ok (TestnetWorkflowRequest_Validate r) =
     (wr_Repo r \<noteq> [] \<and> wr_SHA r \<noteq> [] \<and> ch_Name (wr_ChainConfig r) \<noteq> [] \<and>
      (wr_RunnerType r = runner_DigitalOcean \<or>
       wr_RunnerType r = runner_Docker \<and> \<not> wr_LaunchLoadBalancer r) \<and>
      \<not> (wr_LongRunningTestnet r \<and> wr_TestnetDuration r \<noteq> []) \<and>
      (ch_SetSeedNode (wr_ChainConfig r) \<or> ch_SetPersistentPeers (wr_ChainConfig r)) \<and>
      (if wr_IsEvmChain r then wr_CosmosLoadTestSpec r = None else wr_EthereumLoadTestSpec r = None))"
  by (auto simp: is_ok_iff Validate_accepts_iff)

end
