(* ===== verification/Node_Config.thy ===== *)
theory Node_Config
  imports Definitions
begin

text \<open>
  The configuration files of a chain node, \<open>petri/cosmos/node/config.go\<close>: the recursive merge of
  modifications into a TOML document, the default configurations, and the operations that change
  \<open>app.toml\<close>, \<open>config.toml\<close> and \<open>client.toml\<close>. The TOML codec is a parameter; the files of the
  node are a map from paths to contents, and \<open>fe\<close> says which reads and writes fail.
\<close>

section \<open>Merging\<close>

definition section_of :: "gval gomap \<Rightarrow> string \<Rightarrow> gval gomap" where
  "section_of c k = (case mget c k of Some (VMap m) \<Rightarrow> m | _ \<Rightarrow> [])"

fun recursiveModifyToml :: "gval gomap \<Rightarrow> gval gomap \<Rightarrow> gval gomap" where
  "recursiveModifyToml c [] = c"
| "recursiveModifyToml c ((k, VMap m) # ms) =
     recursiveModifyToml (mput k (VMap (recursiveModifyToml (section_of c k) m)) c) ms"
| "recursiveModifyToml c ((k, v) # ms) = recursiveModifyToml (mput k v c) ms"

section \<open>Default configurations\<close>

definition GenerateDefaultClientConfig :: "string \<Rightarrow> gval gomap" where
  "GenerateDefaultClientConfig chainID =
     [(''chain-id'', VStr chainID), (''keyring-backend'', VStr ''test''), (''output'', VStr ''text''),
      (''node'', VStr ''http://localhost:26657''), (''broadcast-mode'', VStr ''sync'')]"

definition GenerateDefaultConsensusConfig :: "string \<Rightarrow> gval gomap" where
  "GenerateDefaultConsensusConfig externalAddr =
     [(''log_level'', VStr ''info''),
      (''p2p'', VMap [(''allow_duplicate_ip'', VBool True), (''addr_book_strict'', VBool False),
                      (''external_address'', VStr externalAddr)]),
      (''consensus'', VMap [(''timeout_commit'', VStr ''2s''), (''timeout_propose'', VStr ''2s'')]),
      (''instrumentation'', VMap [(''prometheus'', VBool True)]),
      (''rpc'', VMap [(''laddr'', VStr ''tcp://0.0.0.0:26657''), (''allowed_origins'', VList [VStr ''*''])])]"

definition evm_app_config :: "gval gomap" where
  "evm_app_config =
     [(''evm'', VMap [(''tracer'', VStr []), (''max-tx-gas-wanted'', VInt 0), (''cache-preimage'', VBool False)]),
      (''json-rpc'', VMap
        [(''enable'', VBool True), (''address'', VStr ''127.0.0.1:8545''),
         (''ws-address'', VStr ''127.0.0.1:8546''), (''api'', VStr ''eth,net,web3''),
         (''gas-cap'', VInt 25000000), (''allow-insecure-unlock'', VBool True),
         (''evm-timeout'', VStr ''5s''), (''txfee-cap'', VInt 1), (''filter-cap'', VInt 200),
         (''feehistory-cap'', VInt 100), (''logs-cap'', VInt 10000), (''block-range-cap'', VInt 10000),
         (''http-timeout'', VStr ''30s''), (''http-idle-timeout'', VStr ''2m0s''),
         (''allow-unprotected-txs'', VBool False), (''max-open-connections'', VInt 0),
         (''enable-indexer'', VBool False), (''metrics-address'', VStr ''127.0.0.1:6065''),
         (''fix-revert-gas-refund-height'', VInt 0)])]"

definition GenerateDefaultAppConfig :: "ChainConfig \<Rightarrow> gval gomap" where
  "GenerateDefaultAppConfig c =
     [(''minimum-gas-prices'', VStr (pc_GasPrices c)),
      (''grpc'', VMap [(''address'', VStr ''0.0.0.0:9090'')]),
      (''api'', VMap [(''enable'', VBool True), (''swagger'', VBool True),
                      (''address'', VStr ''tcp://0.0.0.0:1317'')]),
      (''telemetry'', VMap [(''enabled'', VBool True), (''prometheus-retention-time'', VInt 3600)])] @
     (if pc_IsEVMChain c then evm_app_config else [])"

section \<open>The files of a node\<close>

record toml =
  toml_dec :: "string \<Rightarrow> gval gomap result"
  toml_enc :: "gval gomap \<Rightarrow> string result"

record file_env =
  fe_read :: "string \<Rightarrow> error option"
  fe_write :: "string \<Rightarrow> error option"

definition ReadFile :: "file_env \<Rightarrow> string \<Rightarrow> string gomap \<Rightarrow> string result" where
  "ReadFile fe path files =
     (case fe_read fe path of
        Some e \<Rightarrow> Inl e
      | None \<Rightarrow> (case mget files path of None \<Rightarrow> Inl (New ''no such file'') | Some s \<Rightarrow> Inr s))"

definition WriteFile :: "file_env \<Rightarrow> string \<Rightarrow> string \<Rightarrow> string gomap \<Rightarrow> string gomap \<times> unit result" where
  "WriteFile fe path s files =
     (case fe_write fe path of Some e \<Rightarrow> (files, Inl e) | None \<Rightarrow> (mput path s files, Inr ()))"

definition ModifyTomlConfigFile ::
    "toml \<Rightarrow> file_env \<Rightarrow> string \<Rightarrow> gval gomap \<Rightarrow> string gomap \<Rightarrow> string gomap \<times> unit result" where
  "ModifyTomlConfigFile tm fe path mods files =
     (case ReadFile fe path files of
        Inl e \<Rightarrow> (files, Inl (Wrap (''failed to retrieve '' @ path) e))
      | Inr config \<Rightarrow>
          (case toml_dec tm config of
             Inl e \<Rightarrow> (files, Inl (Wrap (''failed to unmarshal '' @ path) e))
           | Inr c \<Rightarrow>
               (case toml_enc tm (recursiveModifyToml c mods) of
                  Inl e \<Rightarrow> (files, Inl e)
                | Inr s \<Rightarrow>
                    (case WriteFile fe path s files of
                       (files', res) \<Rightarrow> (files', wrap_err (''overwriting '' @ path) res)))))"

text \<open>Running file operations one after the other, stopping at the first error.\<close>

definition then_files ::
    "(string gomap \<times> unit result) \<Rightarrow> (string gomap \<Rightarrow> string gomap \<times> unit result) \<Rightarrow> string gomap \<times> unit result" where
  "then_files r f = (case r of (files, Inl e) \<Rightarrow> (files, Inl e) | (files, Inr _) \<Rightarrow> f files)"

definition apply_custom ::
    "toml \<Rightarrow> file_env \<Rightarrow> string \<Rightarrow> string \<Rightarrow> gval gomap option \<Rightarrow> string gomap \<Rightarrow> string gomap \<times> unit result" where
  "apply_custom tm fe kind path custom files =
     (case custom of
        None \<Rightarrow> (files, Inr ())
      | Some [] \<Rightarrow> (files, Inr ())
      | Some mods \<Rightarrow>
          (case ModifyTomlConfigFile tm fe path mods files of
             (files', res) \<Rightarrow> (files', wrap_err (''failed to apply custom '' @ kind @ '' config'') res)))"

definition ApplyCustomConfigs :: "toml \<Rightarrow> file_env \<Rightarrow> ChainConfig \<Rightarrow> string gomap \<Rightarrow> string gomap \<times> unit result" where
  "ApplyCustomConfigs tm fe c files =
     then_files (apply_custom tm fe ''app'' ''config/app.toml'' (pc_CustomAppConfig c) files) (\<lambda>files.
     then_files (apply_custom tm fe ''consensus'' ''config/config.toml'' (pc_CustomConsensusConfig c) files) (\<lambda>files.
       apply_custom tm fe ''client'' ''config/client.toml'' (pc_CustomClientConfig c) files))"

definition SetChainConfigs ::
    "toml \<Rightarrow> file_env \<Rightarrow> ChainConfig \<Rightarrow> string \<Rightarrow> string \<Rightarrow> string gomap \<Rightarrow> string gomap \<times> unit result" where
  "SetChainConfigs tm fe c chainID p2pExternalAddr files =
     then_files (ModifyTomlConfigFile tm fe ''config/app.toml'' (GenerateDefaultAppConfig c) files) (\<lambda>files.
     then_files (ModifyTomlConfigFile tm fe ''config/config.toml'' (GenerateDefaultConsensusConfig p2pExternalAddr) files) (\<lambda>files.
     then_files (ModifyTomlConfigFile tm fe ''config/client.toml'' (GenerateDefaultClientConfig chainID) files) (\<lambda>files.
       ApplyCustomConfigs tm fe c files)))"

definition SetPersistentPeers :: "toml \<Rightarrow> file_env \<Rightarrow> string \<Rightarrow> string gomap \<Rightarrow> string gomap \<times> unit result" where
  "SetPersistentPeers tm fe peers =
     ModifyTomlConfigFile tm fe ''config/config.toml'' [(''p2p'', VMap [(''persistent_peers'', VStr peers)])]"

definition check_bootstrap_peer :: "gval gomap \<Rightarrow> unit result" where
  "check_bootstrap_peer bp =
     (if mget bp ''host'' = None then Inl (New ''bootstrap peer missing host'')
      else if mget bp ''id'' = None then Inl (New ''bootstrap peer missing id'')
      else Inr ())"

definition SetLibP2PBootstrapPeers ::
    "toml \<Rightarrow> file_env \<Rightarrow> gval gomap list \<Rightarrow> string gomap \<Rightarrow> string gomap \<times> unit result" where
  "SetLibP2PBootstrapPeers tm fe peers files =
     (case each check_bootstrap_peer peers of
        Inl e \<Rightarrow> (files, Inl e)
      | Inr _ \<Rightarrow>
          ModifyTomlConfigFile tm fe ''config/config.toml''
            [(''p2p'', VMap [(''libp2p'', VMap [(''bootstrap_peers'', VList (map VMap peers))])])] files)"

definition SetSeedNode :: "toml \<Rightarrow> file_env \<Rightarrow> string \<Rightarrow> string gomap \<Rightarrow> string gomap \<times> unit result" where
  "SetSeedNode tm fe seedNode =
     ModifyTomlConfigFile tm fe ''config/config.toml'' [(''p2p'', VMap [(''seeds'', VStr seedNode)])]"

definition SetSeedMode :: "toml \<Rightarrow> file_env \<Rightarrow> string gomap \<Rightarrow> string gomap \<times> unit result" where
  "SetSeedMode tm fe =
     ModifyTomlConfigFile tm fe ''config/config.toml''
       [(''p2p'', VMap [(''seed_mode'', VBool True), (''seeds'', VStr [])])]"

section \<open>Reading a document along a path\<close>

fun at_path :: "gval gomap \<Rightarrow> string list \<Rightarrow> gval option" where
  "at_path m [] = Some (VMap m)"
| "at_path m (k # ks) =
     (case mget m k of
        None \<Rightarrow> None
      | Some (VMap m') \<Rightarrow> at_path m' ks
      | Some v \<Rightarrow> if ks = [] then Some v else None)"

text \<open>A path along which modifications say nothing.\<close>

fun untouched :: "gval gomap \<Rightarrow> string list \<Rightarrow> bool" where
  "untouched ms [] = False"
| "untouched ms (k # ks) =
     (case mget ms k of None \<Rightarrow> True | Some (VMap m) \<Rightarrow> untouched m ks | Some _ \<Rightarrow> False)"

fun is_table :: "gval \<Rightarrow> bool" where
  "is_table (VMap _) = True"
| "is_table _ = False"

text \<open>A Go map has each key once, at every level.\<close>

fun go_val :: "gval \<Rightarrow> bool" where
  "go_val (VMap m) \<longleftrightarrow> distinct (map fst m) \<and> (\<forall>kv \<in> set m. go_val (snd kv))"
| "go_val _ \<longleftrightarrow> True"

abbreviation go_map :: "gval gomap \<Rightarrow> bool" where
  "go_map m \<equiv> go_val (VMap m)"

section \<open>Lemmas\<close>

definition merged :: "gval gomap \<Rightarrow> string \<Rightarrow> gval \<Rightarrow> gval" where
  "merged c k v = (case v of VMap m \<Rightarrow> VMap (recursiveModifyToml (section_of c k) m) | _ \<Rightarrow> v)"

lemma merged_simps [simp]:
  "merged c k (VMap m) = VMap (recursiveModifyToml (section_of c k) m)" "\<not> is_table v \<Longrightarrow> merged c k v = v"
  by (cases v; simp add: merged_def)+

lemma modify_Cons: "recursiveModifyToml c ((k, v) # ms) = recursiveModifyToml (mput k (merged c k v) c) ms"
  by (cases v) (simp_all add: merged_def)

lemma section_of_cong: "mget c k = mget c' k \<Longrightarrow> section_of c k = section_of c' k"
  by (simp add: section_of_def)

lemma merged_other: "k \<noteq> k' \<Longrightarrow> merged (mput k' x c) k v = merged c k v"
  using section_of_cong [of "mput k' x c" k c] by (cases v) (simp_all add: merged_def)

lemma mget_modify:
  "distinct (keys ms) \<Longrightarrow> mget (recursiveModifyToml c ms) k =
     (case mget ms k of None \<Rightarrow> mget c k | Some v \<Rightarrow> Some (merged c k v))"
proof (induction ms arbitrary: c)
  case (Cons kv ms)
  obtain k' v where kv: "kv = (k', v)" by fastforce
  have fresh: "mget ms k' = None" "distinct (keys ms)" using Cons.prems kv by (auto simp: map_of_eq_None_iff)
  note IH = Cons.IH [OF fresh(2), of "mput k' (merged c k' v) c"]
  show ?case
  proof (cases "k = k'")
    case True
    then show ?thesis using IH fresh(1) kv by (simp add: modify_Cons)
  next
    case False
    then show ?thesis using IH kv by (simp add: modify_Cons merged_other split: option.split)
  qed
qed simp

lemma table_cases: "\<not> is_table v \<or> (\<exists>m. v = VMap m)"
  by (cases v) auto

lemma at_path_Cons:
  "at_path m (k # ks) = (case mget m k of None \<Rightarrow> None
     | Some v \<Rightarrow> if is_table v then at_path (section_of m k) ks else if ks = [] then Some v else None)"
  by (auto simp: section_of_def split: option.split gval.split)

lemma section_of_modify:
  "distinct (keys ms) \<Longrightarrow> mget ms k = Some (VMap m) \<Longrightarrow>
     section_of (recursiveModifyToml c ms) k = recursiveModifyToml (section_of c k) m"
  by (simp add: section_of_def mget_modify)

declare at_path.simps(2) [simp del]

lemma go_map_get: "go_map ms \<Longrightarrow> mget ms k = Some v \<Longrightarrow> go_val v"
  using map_of_SomeD by fastforce

lemma go_map_keys: "go_map ms \<Longrightarrow> distinct (keys ms)"
  by simp

lemma at_path_empty: "at_path [] ks = (if ks = [] then Some (VMap []) else None)"
  by (cases ks) (auto simp: at_path_Cons)

lemma modify_sets:
  "go_map ms \<Longrightarrow> at_path ms p = Some v \<Longrightarrow> \<not> is_table v \<Longrightarrow> at_path (recursiveModifyToml c ms) p = Some v"
proof (induction p arbitrary: c ms)
  case (Cons k ks)
  note dist = go_map_keys [OF Cons.prems(1)]
  from Cons.prems(2) obtain x where x: "mget ms k = Some x" by (auto simp: at_path_Cons split: option.splits)
  show ?case
  proof (cases "is_table x")
    case True
    with table_cases obtain m where m: "x = VMap m" by blast
    then have "at_path (recursiveModifyToml (section_of c k) m) ks = Some v"
      using Cons.IH [of m "section_of c k"] Cons.prems go_map_get [OF Cons.prems(1) x] x
      by (simp add: at_path_Cons section_of_def)
    with x m dist show ?thesis by (simp add: at_path_Cons mget_modify section_of_modify)
  next
    case False
    with x dist Cons.prems show ?thesis by (simp add: at_path_Cons mget_modify split: if_splits)
  qed
qed auto

lemma modify_keeps:
  "go_map ms \<Longrightarrow> untouched ms p \<Longrightarrow> at_path (recursiveModifyToml c ms) p = at_path c p"
proof (induction p arbitrary: c ms)
  case (Cons k ks)
  note dist = go_map_keys [OF Cons.prems(1)]
  show ?case
  proof (cases "mget ms k")
    case None
    then have "mget (recursiveModifyToml c ms) k = mget c k" using dist by (simp add: mget_modify)
    with section_of_cong [OF this] show ?thesis by (simp add: at_path_Cons split: option.split)
  next
    case (Some v)
    with Cons.prems obtain m where m: "v = VMap m" "untouched m ks" by (cases v) auto
    then have ks: "ks \<noteq> []" by auto
    have IH: "at_path (recursiveModifyToml (section_of c k) m) ks = at_path (section_of c k) ks"
      using Cons.IH m go_map_get [OF Cons.prems(1) Some] by simp
    have "at_path c (k # ks) = at_path (section_of c k) ks"
    proof (cases "mget c k")
      case None
      with ks show ?thesis by (simp add: at_path_Cons section_of_def at_path_empty)
    next
      case (Some y)
      with ks show ?thesis by (cases y) (simp_all add: at_path_Cons section_of_def at_path_empty)
    qed
    with Some m dist IH show ?thesis by (simp add: at_path_Cons mget_modify section_of_modify)
  qed
qed simp

definition leaf_at :: "gval gomap \<Rightarrow> string list \<Rightarrow> gval option" where
  "leaf_at m p = (case at_path m p of None \<Rightarrow> None | Some v \<Rightarrow> if is_table v then None else Some v)"

lemma leaf_at_iff: "leaf_at m p = Some v \<longleftrightarrow> at_path m p = Some v \<and> \<not> is_table v"
  by (auto simp: leaf_at_def split: option.splits)

lemma leaf_modify_sets: "go_map ms \<Longrightarrow> leaf_at ms p = Some v \<Longrightarrow> leaf_at (recursiveModifyToml c ms) p = Some v"
  by (simp add: leaf_at_iff modify_sets)

lemma leaf_modify_keeps: "go_map ms \<Longrightarrow> untouched ms p \<Longrightarrow> leaf_at (recursiveModifyToml c ms) p = leaf_at c p"
  by (simp add: leaf_at_def modify_keeps)

lemma then_files_ok:
  "then_files r f = (files', Inr u) \<longleftrightarrow> (\<exists>files v. r = (files, Inr v) \<and> f files = (files', Inr u))"
  by (auto simp: then_files_def split: prod.splits sum.splits)

lemma modify_ok:
  "ModifyTomlConfigFile tm fe path mods files = (files', Inr u) \<longleftrightarrow>
     (\<exists>t c s. mget files path = Some t \<and> fe_read fe path = None \<and> toml_dec tm t = Inr c \<and>
        toml_enc tm (recursiveModifyToml c mods) = Inr s \<and> fe_write fe path = None \<and>
        files' = mput path s files)"
  by (auto simp: ModifyTomlConfigFile_def ReadFile_def WriteFile_def split: sum.splits option.splits)

lemma modify_other_file:
  "path' \<noteq> path \<Longrightarrow> mget (fst (ModifyTomlConfigFile tm fe path mods files)) path' = mget files path'"
  by (auto simp: ModifyTomlConfigFile_def ReadFile_def WriteFile_def split: sum.splits option.splits)

lemma apply_custom_ok:
  "apply_custom tm fe kind path custom files = (files', Inr u) \<longleftrightarrow>
     (if custom = None \<or> custom = Some [] then files' = files
      else ModifyTomlConfigFile tm fe path (the custom) files = (files', Inr u))"
  by (auto simp: apply_custom_def split: option.splits list.splits prod.splits)

lemma default_app_go_map: "go_map (GenerateDefaultAppConfig c)"
  by (cases "pc_IsEVMChain c") (simp_all add: GenerateDefaultAppConfig_def evm_app_config_def)

section \<open>Properties\<close>

text \<open>C13: merging modifications into a document sets every value the modifications give, at whatever
  depth, and leaves every path they do not mention as it was, whatever was there before and whatever
  the order in which the map of modifications is iterated.\<close>

theorem recursiveModifyToml_overrides:
  assumes "go_map ms"
  shows "(leaf_at ms p = Some v \<longrightarrow> leaf_at (recursiveModifyToml c ms) p = Some v) \<and>
    (untouched ms p \<longrightarrow> at_path (recursiveModifyToml c ms) p = at_path c p)"
  using assms leaf_modify_sets modify_keeps by blast

theorem recursiveModifyToml_overrides_witness:
  "leaf_at (recursiveModifyToml [(''p2p'', VMap [(''laddr'', VStr ''x'')])]
      [(''p2p'', VMap [(''seeds'', VStr ''id@ip'')])]) [''p2p'', ''seeds''] = Some (VStr ''id@ip'') \<and>
   at_path (recursiveModifyToml [(''p2p'', VMap [(''laddr'', VStr ''x'')])]
      [(''p2p'', VMap [(''seeds'', VStr ''id@ip'')])]) [''p2p'', ''laddr''] = Some (VStr ''x'')"
  using recursiveModifyToml_overrides [of "[(''p2p'', VMap [(''seeds'', VStr ''id@ip'')])]" "[''p2p'', ''seeds'']"
      "VStr ''id@ip''" "[(''p2p'', VMap [(''laddr'', VStr ''x'')])]"]
    recursiveModifyToml_overrides [of "[(''p2p'', VMap [(''seeds'', VStr ''id@ip'')])]" "[''p2p'', ''laddr'']"
      "VStr ''x''" "[(''p2p'', VMap [(''laddr'', VStr ''x'')])]"]
  by (simp add: leaf_at_def at_path.simps)

text \<open>The text written for a document reads back as one with the same values.\<close>

definition reads_back :: "toml \<Rightarrow> gval gomap \<Rightarrow> gval gomap \<Rightarrow> bool" where
  "reads_back tm d c \<longleftrightarrow> (\<exists>s. toml_enc tm d = Inr s \<and> toml_dec tm s = Inr c) \<and> leaf_at c = leaf_at d"

text \<open>When the chain configuration of a node succeeds, the app config on disk holds every value
  of the custom app config, and every default value the custom config does not mention.\<close>

theorem SetChainConfigs_custom_over_default:
  assumes "SetChainConfigs tm fe cfg chainID addr files = (files', Inr ())"
    and "pc_CustomAppConfig cfg = Some custom" "custom \<noteq> []" "go_map custom"
    and "mget files ''config/app.toml'' = Some t0" "toml_dec tm t0 = Inr c0"
    and "reads_back tm (recursiveModifyToml c0 (GenerateDefaultAppConfig cfg)) c1"
    and "reads_back tm (recursiveModifyToml c1 custom) c2"
  shows "\<exists>t. mget files' ''config/app.toml'' = Some t \<and> toml_dec tm t = Inr c2 \<and>
    (\<forall>p v. leaf_at custom p = Some v \<longrightarrow> leaf_at c2 p = Some v) \<and>
    (\<forall>p v. leaf_at (GenerateDefaultAppConfig cfg) p = Some v \<longrightarrow> untouched custom p \<longrightarrow> leaf_at c2 p = Some v)"
proof -
  let ?app = "''config/app.toml''"
  obtain f1 f2 f3 f4 f5 where steps:
    "ModifyTomlConfigFile tm fe ?app (GenerateDefaultAppConfig cfg) files = (f1, Inr ())"
    "ModifyTomlConfigFile tm fe ''config/config.toml'' (GenerateDefaultConsensusConfig addr) f1 = (f2, Inr ())"
    "ModifyTomlConfigFile tm fe ''config/client.toml'' (GenerateDefaultClientConfig chainID) f2 = (f3, Inr ())"
    "ModifyTomlConfigFile tm fe ?app custom f3 = (f4, Inr ())"
    "apply_custom tm fe ''consensus'' ''config/config.toml'' (pc_CustomConsensusConfig cfg) f4 = (f5, Inr ())"
    "apply_custom tm fe ''client'' ''config/client.toml'' (pc_CustomClientConfig cfg) f5 = (files', Inr ())"
    using assms(1-3) by (auto simp: SetChainConfigs_def ApplyCustomConfigs_def then_files_ok apply_custom_ok)
  obtain s1 where s1: "mget f1 ?app = Some s1" "toml_dec tm s1 = Inr c1"
    using steps(1) assms(5-7) by (auto simp: modify_ok reads_back_def)
  have "mget f3 ?app = mget f1 ?app"
    using modify_other_file [of ?app "''config/config.toml''" tm fe "GenerateDefaultConsensusConfig addr" f1]
      modify_other_file [of ?app "''config/client.toml''" tm fe "GenerateDefaultClientConfig chainID" f2] steps(2,3)
    by simp
  then obtain s2 where s2: "mget f4 ?app = Some s2" "toml_dec tm s2 = Inr c2"
    using steps(4) s1 assms(8) by (auto simp: modify_ok reads_back_def)
  have "mget f5 ?app = mget f4 ?app"
    using steps(5) modify_other_file [of ?app "''config/config.toml''" tm fe _ f4]
    by (auto simp: apply_custom_ok split: if_splits) (metis fst_conv)
  moreover have "mget files' ?app = mget f5 ?app"
    using steps(6) modify_other_file [of ?app "''config/client.toml''" tm fe _ f5]
    by (auto simp: apply_custom_ok split: if_splits) (metis fst_conv)
  ultimately have final: "mget files' ?app = Some s2" using s2(1) by simp
  have leaves: "leaf_at c2 = leaf_at (recursiveModifyToml c1 custom)"
    "leaf_at c1 = leaf_at (recursiveModifyToml c0 (GenerateDefaultAppConfig cfg))"
    using assms(7,8) by (auto simp: reads_back_def)
  show ?thesis
    using final s2(2) leaves leaf_modify_sets [OF assms(4)] leaf_modify_keeps [OF assms(4)]
      leaf_modify_sets [OF default_app_go_map] by metis
qed

definition demo_chain_config :: ChainConfig where
  "demo_chain_config = \<lparr> pc_Name = ''hub'', pc_Denom = ''stake'', pc_Decimals = 6, pc_NumValidators = 1,
     pc_NumNodes = 1, pc_RegionConfig = [], pc_BinaryName = ''gaiad'', pc_Entrypoint = [''gaiad''],
     pc_Image = \<lparr> img_Image = ''img'', img_UID = ''1000'', img_GID = ''1000'' \<rparr>, pc_GasPrices = ''0.1stake'',
     pc_Bech32Prefix = ''cosmos'', pc_HomeDir = ''/gaia'', pc_CoinType = ''118'', pc_ChainId = ''hub'',
     pc_UseGenesisSubCommand = True, pc_AdditionalStartFlags = [], pc_AdditionalPorts = [],
     pc_GenesisDelegation = None, pc_GenesisBalance = None, pc_IsEVMChain = False,
     pc_CustomAppConfig = Some [(''api'', VMap [(''enable'', VBool False)])],
     pc_CustomClientConfig = None, pc_CustomConsensusConfig = None, pc_SetPersistentPeers = True,
     pc_SetSeedNode = False \<rparr>"

definition demo_custom :: "gval gomap" where
  "demo_custom = [(''api'', VMap [(''enable'', VBool False)])]"

definition demo_doc1 :: "gval gomap" where
  "demo_doc1 = recursiveModifyToml [] (GenerateDefaultAppConfig demo_chain_config)"

definition demo_doc2 :: "gval gomap" where
  "demo_doc2 = recursiveModifyToml demo_doc1 demo_custom"

text \<open>A codec that is right on the two app documents of the example.\<close>

definition demo_toml :: toml where
  "demo_toml = \<lparr> toml_dec = (\<lambda>s. if s = ''A1'' then Inr demo_doc1 else if s = ''A2'' then Inr demo_doc2 else Inr []),
     toml_enc = (\<lambda>d. if d = demo_doc1 then Inr ''A1'' else if d = demo_doc2 then Inr ''A2'' else Inr ''X'') \<rparr>"

definition demo_files :: "string gomap" where
  "demo_files = [(''config/app.toml'', []), (''config/config.toml'', []), (''config/client.toml'', [])]"

definition demo_file_env :: file_env where
  "demo_file_env = \<lparr> fe_read = (\<lambda>_. None), fe_write = (\<lambda>_. None) \<rparr>"

lemma demo_docs_differ: "demo_doc1 \<noteq> demo_doc2"
  by (simp add: demo_doc1_def demo_doc2_def demo_custom_def GenerateDefaultAppConfig_def demo_chain_config_def
      section_of_def)

lemma demo_reads_back: "reads_back demo_toml demo_doc1 demo_doc1" "reads_back demo_toml demo_doc2 demo_doc2"
  using demo_docs_differ by (auto simp: reads_back_def demo_toml_def)

lemma demo_modify: "\<exists>s. ModifyTomlConfigFile demo_toml demo_file_env path mods files = (mput path s files, Inr ())"
  if "mget files path = Some t"
  using that by (auto simp: modify_ok demo_toml_def demo_file_env_def)

lemma demo_SetChainConfigs:
  "\<exists>files'. SetChainConfigs demo_toml demo_file_env demo_chain_config ''hub-1'' ''ip'' demo_files = (files', Inr ())"
proof -
  let ?M = "ModifyTomlConfigFile demo_toml demo_file_env"
  obtain f1 where f1: "?M ''config/app.toml'' (GenerateDefaultAppConfig demo_chain_config) demo_files =
      (mput ''config/app.toml'' f1 demo_files, Inr ())"
    using demo_modify [of demo_files "''config/app.toml''"] by (auto simp: demo_files_def)
  obtain f2 where f2: "?M ''config/config.toml'' (GenerateDefaultConsensusConfig ''ip'')
      (mput ''config/app.toml'' f1 demo_files) =
      (mput ''config/config.toml'' f2 (mput ''config/app.toml'' f1 demo_files), Inr ())"
    using demo_modify [of "mput ''config/app.toml'' f1 demo_files" "''config/config.toml''"] by (auto simp: demo_files_def)
  let ?f2 = "mput ''config/config.toml'' f2 (mput ''config/app.toml'' f1 demo_files)"
  obtain f3 where f3: "?M ''config/client.toml'' (GenerateDefaultClientConfig ''hub-1'') ?f2 =
      (mput ''config/client.toml'' f3 ?f2, Inr ())"
    using demo_modify [of ?f2 "''config/client.toml''"] by (auto simp: demo_files_def)
  let ?f3 = "mput ''config/client.toml'' f3 ?f2"
  obtain f4 where f4: "?M ''config/app.toml'' [(''api'', VMap [(''enable'', VBool False)])] ?f3 =
      (mput ''config/app.toml'' f4 ?f3, Inr ())"
    using demo_modify [of ?f3 "''config/app.toml''"] by auto
  have "pc_CustomAppConfig demo_chain_config = Some [(''api'', VMap [(''enable'', VBool False)])]"
    "pc_CustomConsensusConfig demo_chain_config = None" "pc_CustomClientConfig demo_chain_config = None"
    by (simp_all add: demo_chain_config_def)
  then show ?thesis
    by (simp add: SetChainConfigs_def ApplyCustomConfigs_def then_files_def apply_custom_def f1 f2 f3 f4)
qed

theorem SetChainConfigs_custom_over_default_witness:
  "\<exists>files' t. SetChainConfigs demo_toml demo_file_env demo_chain_config ''hub-1'' ''ip'' demo_files = (files', Inr ()) \<and>
    mget files' ''config/app.toml'' = Some t \<and> toml_dec demo_toml t = Inr demo_doc2 \<and>
    leaf_at demo_doc2 [''api'', ''enable''] = Some (VBool False) \<and>
    leaf_at demo_doc2 [''grpc'', ''address''] = Some (VStr ''0.0.0.0:9090'')"
proof -
  obtain files' where run: "SetChainConfigs demo_toml demo_file_env demo_chain_config ''hub-1'' ''ip'' demo_files =
      (files', Inr ())" using demo_SetChainConfigs by blast
  have facts: "pc_CustomAppConfig demo_chain_config = Some demo_custom" "demo_custom \<noteq> []" "go_map demo_custom"
    "mget demo_files ''config/app.toml'' = Some []" "toml_dec demo_toml [] = Inr []"
    by (simp_all add: demo_chain_config_def demo_custom_def demo_files_def demo_toml_def)
  have leaves: "leaf_at demo_custom [''api'', ''enable''] = Some (VBool False)"
    "leaf_at (GenerateDefaultAppConfig demo_chain_config) [''grpc'', ''address''] = Some (VStr ''0.0.0.0:9090'')"
    "untouched demo_custom [''grpc'', ''address'']"
    by (simp_all add: demo_custom_def leaf_at_def at_path.simps GenerateDefaultAppConfig_def)
  have reads: "reads_back demo_toml (recursiveModifyToml [] (GenerateDefaultAppConfig demo_chain_config)) demo_doc1"
    "reads_back demo_toml (recursiveModifyToml demo_doc1 demo_custom) demo_doc2"
    using demo_reads_back by (simp_all only: demo_doc1_def demo_doc2_def)
  from SetChainConfigs_custom_over_default [OF run facts reads] run leaves
  show ?thesis by blast
qed

end
