(* ===== verification/Chain_Nodes.thy ===== *)
theory Chain_Nodes
  imports Messages Node_Config "HOL-Library.Multiset"
begin

text \<open>
  The nodes of a chain: which nodes a chain config asks for, with which names and options
  (\<open>createRegionalNodes\<close>, \<open>createLocalNodes\<close>, \<open>createRegionalNodeOptions\<close> and \<open>CreateChain\<close> of
  \<open>petri/cosmos/chain/chain.go\<close>), the task behind a node (\<open>CreateNode\<close> and \<open>BinCommand\<close> of
  \<open>petri/cosmos/node/node.go\<close>), and the peer strings of \<open>petri/cosmos/chain/peers.go\<close>. Nodes are
  created by concurrent goroutines: the order in which they finish is the parameter \<open>sched\<close>, a
  reordering of the jobs.
\<close>

section \<open>Options and definitions\<close>

type_synonym modifier = "TaskDefinition \<Rightarrow> NodeConfig \<Rightarrow> TaskDefinition"

record NodeOptions =
  no_NodeDefinitionModifier :: "modifier option"

definition applyRegionConfig :: "RegionConfig \<Rightarrow> TaskDefinition \<Rightarrow> TaskDefinition" where
  "applyRegionConfig region def =
     (let cfg = (case td_ProviderSpecificConfig def of None \<Rightarrow> [] | Some m \<Rightarrow> m);
          cfg1 = mput ''image_id'' ''210084437'' (mput ''region'' (rc_Name region) cfg);
          cfg2 = (if mget cfg1 ''size'' = None then mput ''size'' ''s-4vcpu-8gb'' cfg1 else cfg1)
      in def\<lparr>td_ProviderSpecificConfig := Some cfg2\<rparr>)"

definition createRegionalNodeOptions :: "NodeOptions \<Rightarrow> RegionConfig \<Rightarrow> NodeOptions" where
  "createRegionalNodeOptions baseOpts region =
     (case no_NodeDefinitionModifier baseOpts of
        None \<Rightarrow> baseOpts\<lparr>no_NodeDefinitionModifier := Some (\<lambda>def _. applyRegionConfig region def)\<rparr>
      | Some f \<Rightarrow> baseOpts\<lparr>no_NodeDefinitionModifier := Some (\<lambda>def nc. applyRegionConfig region (f def nc))\<rparr>)"

definition node_entrypoint :: "ChainConfig \<Rightarrow> string list" where
  "node_entrypoint c = (if pc_Entrypoint c \<noteq> [] then pc_Entrypoint c else [pc_BinaryName c])"

definition node_definition :: "NodeConfig \<Rightarrow> TaskDefinition" where
  "node_definition nc =
     (let c = nc_ChainConfig nc
      in \<lparr> td_Name = nc_Name nc, td_Image = pc_Image c,
           td_Ports = [''9464'', ''9090'', ''26656'', ''26657'', ''26660'', ''1317''] @ pc_AdditionalPorts c,
           td_Environment = [(''GODEBUG'', ''blockprofilerate=1''),
                             (''OTEL_EXPERIMENTAL_CONFIG_FILE'', ''/etc/otel.yaml'')],
           td_DataDir = pc_HomeDir c,
           td_Entrypoint = node_entrypoint c @ [''--home'', pc_HomeDir c, ''start''] @ pc_AdditionalStartFlags c,
           td_Command = [], td_Args = [], td_ProviderSpecificConfig = None \<rparr>)"

text \<open>\<open>ct\<close> is the provider's \<open>CreateTask\<close>; what it gives back is the task of the node.\<close>

record 't node =
  nd_Task :: 't
  nd_Config :: NodeConfig

definition CreateNode ::
    "(TaskDefinition \<Rightarrow> 't result) \<Rightarrow> string \<Rightarrow> NodeConfig \<Rightarrow> NodeOptions \<Rightarrow> 't node result" where
  "CreateNode ct providerType nc opts =
     (case NodeConfig_ValidateBasic providerType nc of
        Inl e \<Rightarrow> Inl (Wrap ''failed to validate node config'' e)
      | Inr _ \<Rightarrow>
          let def = (case no_NodeDefinitionModifier opts of
                       None \<Rightarrow> node_definition nc | Some f \<Rightarrow> f (node_definition nc) nc)
          in (case ct def of Inl e \<Rightarrow> Inl e | Inr task \<Rightarrow> Inr \<lparr> nd_Task = task, nd_Config = nc \<rparr>))"

definition BinCommand :: "ChainConfig \<Rightarrow> string list \<Rightarrow> string list" where
  "BinCommand c command = pc_BinaryName c # command @ [''--home'', pc_HomeDir c]"

section \<open>The nodes of a chain\<close>

datatype role = Validator | FullNode

record job =
  jb_role :: role
  jb_config :: NodeConfig
  jb_options :: NodeOptions

definition role_name :: "role \<Rightarrow> string" where
  "role_name r = (case r of Validator \<Rightarrow> ''validator'' | FullNode \<Rightarrow> ''node'')"

definition regional_job :: "ChainConfig \<Rightarrow> NodeOptions \<Rightarrow> RegionConfig \<Rightarrow> role \<Rightarrow> nat \<Rightarrow> job" where
  "regional_job config opts region r i =
     \<lparr> jb_role = r,
       jb_config = \<lparr> nc_Name = pc_Name config @ ''-'' @ role_name r @ ''-'' @ show_nat i @ ''-'' @ rc_Name region,
                     nc_Index = int i, nc_ChainConfig = config \<rparr>,
       jb_options = createRegionalNodeOptions opts region \<rparr>"

text \<open>The loop over the regions, with the running indices of validators and nodes.\<close>

fun regional_jobs :: "ChainConfig \<Rightarrow> NodeOptions \<Rightarrow> nat \<Rightarrow> nat \<Rightarrow> RegionConfig list \<Rightarrow> job list" where
  "regional_jobs config opts vi ni [] = []"
| "regional_jobs config opts vi ni (region # rs) =
     map (regional_job config opts region Validator) [vi ..< vi + nat (rc_NumValidators region)] @
     map (regional_job config opts region FullNode) [ni ..< ni + nat (rc_NumNodes region)] @
     regional_jobs config opts (vi + nat (rc_NumValidators region)) (ni + nat (rc_NumNodes region)) rs"

definition local_job :: "ChainConfig \<Rightarrow> NodeOptions \<Rightarrow> role \<Rightarrow> nat \<Rightarrow> job" where
  "local_job config opts r i =
     \<lparr> jb_role = r,
       jb_config = \<lparr> nc_Name = pc_Name config @ ''-'' @ role_name r @ ''-'' @ show_nat i,
                     nc_Index = int i, nc_ChainConfig = config \<rparr>,
       jb_options = opts \<rparr>"

definition local_jobs :: "ChainConfig \<Rightarrow> NodeOptions \<Rightarrow> job list" where
  "local_jobs config opts =
     map (local_job config opts Validator) [0 ..< nat (pc_NumValidators config)] @
     map (local_job config opts FullNode) [0 ..< nat (pc_NumNodes config)]"

text \<open>The error group: every job runs; the error of the first job to fail is returned, otherwise the
  nodes in the order their goroutines appended them.\<close>

definition run_job ::
    "(NodeConfig \<Rightarrow> NodeOptions \<Rightarrow> 'n result) \<Rightarrow> job \<Rightarrow> (role \<times> 'n) result" where
  "run_job creator j = and_then (creator (jb_config j) (jb_options j)) (\<lambda>n. Inr (jb_role j, n))"

definition run_jobs ::
    "(job list \<Rightarrow> job list) \<Rightarrow> (NodeConfig \<Rightarrow> NodeOptions \<Rightarrow> 'n result) \<Rightarrow> job list \<Rightarrow> ('n list \<times> 'n list) result" where
  "run_jobs sched creator js =
     and_then (each (run_job creator) (sched js)) (\<lambda>out.
       Inr (map snd (filter (\<lambda>(r, _). r = Validator) out), map snd (filter (\<lambda>(r, _). r = FullNode) out)))"

definition createRegionalNodes ::
    "(job list \<Rightarrow> job list) \<Rightarrow> (NodeConfig \<Rightarrow> NodeOptions \<Rightarrow> 'n result) \<Rightarrow> ChainConfig \<Rightarrow> NodeOptions \<Rightarrow>
     ('n list \<times> 'n list) result" where
  "createRegionalNodes sched creator config opts =
     run_jobs sched creator (regional_jobs config opts 0 0 (pc_RegionConfig config))"

definition createLocalNodes ::
    "(job list \<Rightarrow> job list) \<Rightarrow> (NodeConfig \<Rightarrow> NodeOptions \<Rightarrow> 'n result) \<Rightarrow> ChainConfig \<Rightarrow> NodeOptions \<Rightarrow>
     ('n list \<times> 'n list) result" where
  "createLocalNodes sched creator config opts = run_jobs sched creator (local_jobs config opts)"

record 'n chain_options =
  co_ModifyGenesis :: "(string \<Rightarrow> string result) option"
  co_NodeOptions :: NodeOptions
  co_NodeCreator :: "(NodeConfig \<Rightarrow> NodeOptions \<Rightarrow> 'n result) option"
  co_WalletConfig :: WalletConfig
  co_AdditionalAccounts :: int
  co_BaseMnemonic :: string

definition ChainOptions_ValidateBasic :: "'n chain_options \<Rightarrow> unit result" where
  "ChainOptions_ValidateBasic o' =
     (case WalletConfig_ValidateBasic (co_WalletConfig o') of
        Inl e \<Rightarrow> Inl (Wrap ''wallet config is invalid'' e)
      | Inr _ \<Rightarrow> if co_NodeCreator o' = None then Inl (New ''node creator cannot be nil'') else Inr ())"

record 'n chain =
  cn_Config :: ChainConfig
  cn_Validators :: "'n list"
  cn_Nodes :: "'n list"
  cn_useExternalAddresses :: bool

definition CreateChain ::
    "(job list \<Rightarrow> job list) \<Rightarrow> string \<Rightarrow> ChainConfig \<Rightarrow> 'n chain_options \<Rightarrow> 'n chain result" where
  "CreateChain sched providerType config opts =
     (case ChainConfig_ValidateBasic providerType config of
        Inl e \<Rightarrow> Inl (Wrap ''failed to validate chain config'' e)
      | Inr _ \<Rightarrow>
          (case ChainOptions_ValidateBasic opts of
             Inl e \<Rightarrow> Inl (Wrap ''failed to validate chain options'' e)
           | Inr _ \<Rightarrow>
               and_then
                 (if providerType = provider_DigitalOcean
                  then createRegionalNodes sched (the (co_NodeCreator opts)) config (co_NodeOptions opts)
                  else createLocalNodes sched (the (co_NodeCreator opts)) config (co_NodeOptions opts))
                 (\<lambda>(validators, nodes).
                    Inr \<lparr> cn_Config = config, cn_Validators = validators, cn_Nodes = nodes,
                          cn_useExternalAddresses = (providerType = provider_DigitalOcean) \<rparr>)))"

section \<open>Peers\<close>

text \<open>What the peer code asks of a node.\<close>

record peer =
  pe_NodeId :: "string result"
  pe_IP :: "string result"
  pe_PrivateIP :: "string result"
  pe_External :: "string result"
  pe_PeerID :: "string result"

definition peerHostExternal :: "peer \<Rightarrow> string result" where
  "peerHostExternal n = pe_External n"

definition peerHostInternal :: "peer \<Rightarrow> string result" where
  "peerHostInternal n = and_then (pe_IP n) (\<lambda>ip. Inr (ip @ '':26656''))"

definition peerHostPrivate :: "peer \<Rightarrow> string result" where
  "peerHostPrivate n = and_then (pe_PrivateIP n) (\<lambda>ip. Inr (ip @ '':26656''))"

definition comet_peer :: "bool \<Rightarrow> peer \<Rightarrow> string result" where
  "comet_peer useExternal n =
     and_then (wrap_err ''node id'' (pe_NodeId n)) (\<lambda>nodeID.
     and_then (wrap_err ''host'' (if useExternal then peerHostExternal n else peerHostInternal n)) (\<lambda>host.
       Inr (nodeID @ ''@'' @ host)))"

definition AsCometPeerString :: "bool \<Rightarrow> peer list \<Rightarrow> string result" where
  "AsCometPeerString useExternal peers =
     and_then (each (comet_peer useExternal) peers) (\<lambda>ss. Inr (Join '','' ss))"

definition libp2p_peer :: "bool \<Rightarrow> peer \<Rightarrow> gval gomap result" where
  "libp2p_peer isDocker n =
     and_then (wrap_err ''host'' (if isDocker then peerHostInternal n else peerHostPrivate n)) (\<lambda>host.
     and_then (wrap_err ''peer id'' (pe_PeerID n)) (\<lambda>i.
       Inr [(''host'', VStr host), (''id'', VStr i), (''persistent'', VBool True)]))"

definition AsLibP2PBootstrapPeers :: "bool \<Rightarrow> peer list \<Rightarrow> gval gomap list result" where
  "AsLibP2PBootstrapPeers isDocker peers = each (libp2p_peer isDocker) peers"

definition composeLibP2PBootstrapPeers :: "bool \<Rightarrow> peer list list \<Rightarrow> gval gomap list result" where
  "composeLibP2PBootstrapPeers useExternalAddress peerSets =
     and_then (each (\<lambda>ps. if ps = [] then Inr []
                          else wrap_err ''failed to get libp2p bootstrap peers for peer set''
                                 (AsLibP2PBootstrapPeers (\<not> useExternalAddress) ps)) peerSets)
       (\<lambda>out. Inr (concat out))"

section \<open>Lemmas\<close>

definition job_key :: "job \<Rightarrow> role \<times> int" where
  "job_key j = (jb_role j, nc_Index (jb_config j))"

definition job_name :: "job \<Rightarrow> string" where
  "job_name j = nc_Name (jb_config j)"

lemma role_name_no_dash: "CHR ''-'' \<notin> set (role_name r)"
  by (cases r) (simp_all add: role_name_def)

lemma role_name_inj [simp]: "role_name r = role_name r' \<longleftrightarrow> r = r'"
  by (cases r; cases r') (simp_all add: role_name_def)

lemma regional_name_key:
  assumes "job_name (regional_job c opts reg r i) = job_name (regional_job c opts reg' r' i')"
  shows "r = r' \<and> i = i'"
proof -
  from assms have "role_name r @ CHR ''-'' # show_nat i @ CHR ''-'' # rc_Name reg =
      role_name r' @ CHR ''-'' # show_nat i' @ CHR ''-'' # rc_Name reg'"
    by (simp add: job_name_def regional_job_def)
  then have roles: "role_name r = role_name r'"
    and "show_nat i @ CHR ''-'' # rc_Name reg = show_nat i' @ CHR ''-'' # rc_Name reg'"
    using append_sep_inject [OF role_name_no_dash role_name_no_dash] by blast+
  then have "show_nat i = show_nat i'"
    using append_sep_inject [OF dash_notin_show_nat dash_notin_show_nat] by blast
  with roles show ?thesis by simp
qed

lemma local_name_key:
  assumes "job_name (local_job c opts r i) = job_name (local_job c opts r' i')"
  shows "r = r' \<and> i = i'"
proof -
  from assms have "role_name r @ CHR ''-'' # show_nat i = role_name r' @ CHR ''-'' # show_nat i'"
    by (simp add: job_name_def local_job_def)
  with append_sep_inject [OF role_name_no_dash role_name_no_dash] show ?thesis by (metis role_name_inj show_nat_inject)
qed

lemma job_key_simps [simp]:
  "job_key (regional_job c opts reg r i) = (r, int i)" "job_key (local_job c opts r i) = (r, int i)"
  by (simp_all add: job_key_def regional_job_def local_job_def)

lemma regional_jobs_range:
  "j \<in> set (regional_jobs c opts vi ni rs) \<Longrightarrow>
     \<exists>reg \<in> set rs. \<exists>r i. j = regional_job c opts reg r i \<and> (case r of Validator \<Rightarrow> vi \<le> i | FullNode \<Rightarrow> ni \<le> i)"
proof (induction c opts vi ni rs rule: regional_jobs.induct)
  case (2 c opts vi ni region rs)
  from "2.prems" consider
      (v) i where "vi \<le> i" "j = regional_job c opts region Validator i"
    | (n) i where "ni \<le> i" "j = regional_job c opts region FullNode i"
    | (rest) "j \<in> set (regional_jobs c opts (vi + nat (rc_NumValidators region)) (ni + nat (rc_NumNodes region)) rs)"
    by auto
  then show ?case
  proof cases
    case v
    then show ?thesis by (intro bexI [of _ region] exI [of _ Validator] exI [of _ i]) auto
  next
    case n
    then show ?thesis by (intro bexI [of _ region] exI [of _ FullNode] exI [of _ i]) auto
  next
    case rest
    with "2.IH" obtain reg r i where "reg \<in> set rs" "j = regional_job c opts reg r i"
        "case r of Validator \<Rightarrow> vi + nat (rc_NumValidators region) \<le> i | FullNode \<Rightarrow> ni + nat (rc_NumNodes region) \<le> i"
      by blast
    then show ?thesis by (intro bexI [of _ reg] exI [of _ r] exI [of _ i]) (auto split: role.splits)
  qed
qed simp

lemma distinct_regional_keys: "distinct (map job_key (regional_jobs c opts vi ni rs))"
proof (induction c opts vi ni rs rule: regional_jobs.induct)
  case (2 c opts vi ni region rs)
  let ?rest = "regional_jobs c opts (vi + nat (rc_NumValidators region)) (ni + nat (rc_NumNodes region)) rs"
  have later: "case r of Validator \<Rightarrow> int (vi + nat (rc_NumValidators region)) \<le> k
      | FullNode \<Rightarrow> int (ni + nat (rc_NumNodes region)) \<le> k" if "(r, k) \<in> job_key ` set ?rest" for r k
    using that by (auto dest!: regional_jobs_range split: role.splits)
  have v: "(Validator, int i) \<noteq> job_key j" if "i < vi + nat (rc_NumValidators region)" "j \<in> set ?rest" for i j
    using later [of Validator "int i"] that by (intro notI) (simp del: of_nat_add int_nat_eq)
  have n: "(FullNode, int i) \<noteq> job_key j" if "i < ni + nat (rc_NumNodes region)" "j \<in> set ?rest" for i j
    using later [of FullNode "int i"] that by (intro notI) (simp del: of_nat_add int_nat_eq)
  show ?case using "2.IH" v n by (auto simp: distinct_map comp_def inj_on_def)
qed simp

lemma distinct_regional_names: "distinct (map job_name (regional_jobs c opts 0 0 rs))"
proof -
  have "inj_on job_name (set (regional_jobs c opts 0 0 rs))"
  proof (rule inj_onI)
    fix x y assume xy: "x \<in> set (regional_jobs c opts 0 0 rs)" "y \<in> set (regional_jobs c opts 0 0 rs)"
      "job_name x = job_name y"
    from xy(1,2) obtain rx ix gx ry iy gy where
      "x = regional_job c opts gx rx ix" "y = regional_job c opts gy ry iy"
      by (meson regional_jobs_range)
    with xy(3) have "job_key x = job_key y" using regional_name_key by auto
    with xy(1,2) distinct_regional_keys [of c opts 0 0 rs] show "x = y"
      by (auto simp: distinct_map dest: inj_onD)
  qed
  moreover have "distinct (regional_jobs c opts 0 0 rs)"
    using distinct_regional_keys by (metis distinct_map)
  ultimately show ?thesis by (simp add: distinct_map)
qed

lemma distinct_local_names: "distinct (map job_name (local_jobs c opts))"
proof -
  have "distinct (map job_name (map (local_job c opts r) [0..<n]))" for r n
    using local_name_key by (auto simp: distinct_map comp_def inj_on_def)
  moreover have "job_name (local_job c opts Validator i) \<noteq> job_name (local_job c opts FullNode j)" for i j
    using local_name_key by blast
  ultimately show ?thesis by (auto simp: local_jobs_def)
qed

lemma count_regional:
  "length (filter (\<lambda>j. jb_role j = Validator) (regional_jobs c opts vi ni rs)) = (\<Sum>r \<leftarrow> rs. nat (rc_NumValidators r))"
  "length (filter (\<lambda>j. jb_role j = FullNode) (regional_jobs c opts vi ni rs)) = (\<Sum>r \<leftarrow> rs. nat (rc_NumNodes r))"
  by (induction c opts vi ni rs rule: regional_jobs.induct)
     (simp_all add: filter_map comp_def regional_job_def filter_empty_conv)

lemma count_local:
  "length (filter (\<lambda>j. jb_role j = Validator) (local_jobs c opts)) = nat (pc_NumValidators c)"
  "length (filter (\<lambda>j. jb_role j = FullNode) (local_jobs c opts)) = nat (pc_NumNodes c)"
  by (simp_all add: local_jobs_def filter_map comp_def local_job_def filter_empty_conv)

lemma run_jobs_counts:
  assumes "run_jobs sched creator js = Inr (vs, ns)" "mset (sched js) = mset js"
  shows "length vs = length (filter (\<lambda>j. jb_role j = Validator) js)"
    and "length ns = length (filter (\<lambda>j. jb_role j = FullNode) js)"
proof -
  from assms(1) obtain out where out: "each (run_job creator) (sched js) = Inr out"
    and vs: "vs = map snd (filter (\<lambda>(r, _). r = Validator) out)"
    and ns: "ns = map snd (filter (\<lambda>(r, _). r = FullNode) out)"
    by (auto simp: run_jobs_def and_then_eq_Inr)
  have "list_all2 (\<lambda>j x. run_job creator j = Inr x) (sched js) out" using out by (simp add: each_Inr_iff)
  then have "list_all2 (\<lambda>j x. jb_role j = fst x) (sched js) out"
    by (rule list_all2_mono) (auto simp: run_job_def and_then_eq_Inr)
  then have "map jb_role (sched js) = map fst out"
    by (auto simp: list_all2_conv_all_nth intro!: nth_equalityI)
  then have roles: "length (filter (\<lambda>x. fst x = r) out) = length (filter (\<lambda>j. jb_role j = r) (sched js))" for r
    by (metis (mono_tags, lifting) comp_def filter_cong filter_map length_map)
  have same: "length (filter P (sched js)) = length (filter P js)" for P
    using assms(2) by (metis mset_filter size_mset)
  have "vs = map snd (filter (\<lambda>x. fst x = Validator) out)" "ns = map snd (filter (\<lambda>x. fst x = FullNode) out)"
    by (simp_all add: vs ns case_prod_beta')
  then show "length vs = length (filter (\<lambda>j. jb_role j = Validator) js)"
    "length ns = length (filter (\<lambda>j. jb_role j = FullNode) js)"
    using roles same by simp_all
qed

lemma applyRegionConfig_cfg:
  "\<exists>cfg. td_ProviderSpecificConfig (applyRegionConfig region def) = Some cfg \<and>
     mget cfg ''region'' = Some (rc_Name region) \<and> mget cfg ''image_id'' = Some ''210084437'' \<and>
     mget cfg ''size'' = (case Option.bind (td_ProviderSpecificConfig def) (\<lambda>m. mget m ''size'') of
                            None \<Rightarrow> Some ''s-4vcpu-8gb'' | Some x \<Rightarrow> Some x)"
  by (auto simp: applyRegionConfig_def Let_def split: option.splits)

lemma base_ports_valid:
  "list_all (\<lambda>p. is_ok (validate_port p)) [''9464'', ''9090'', ''26656'', ''26657'', ''26660'', ''1317'']"
  by (simp add: validate_port_def ParseUint_def is_digit_def digits_val_def)

lemma image_id_valid: "is_ok (ParseInt ''210084437'')"
  by (simp add: ParseInt_def ParseUint_def is_digit_def digits_val_def)

lemma node_definition_valid:
  assumes "NodeConfig_ValidateBasic p nc = Inr ()"
    and "list_all (\<lambda>p. is_ok (validate_port p)) (pc_AdditionalPorts (nc_ChainConfig nc))"
  shows "TaskDefinition_ValidateBasic (node_definition nc) = Inr ()"
proof -
  have chain: "ChainConfig_ValidateBasic p (nc_ChainConfig nc) = Inr ()" "nc_Name nc \<noteq> []"
    using assms(1) by (auto simp: NodeConfig_ValidateBasic_def split: if_splits)
  then have "ImageDefinition_ValidateBasic (pc_Image (nc_ChainConfig nc)) = Inr ()"
    by (auto simp: ChainConfig_ValidateBasic_def split: if_splits sum.splits)
  moreover have "is_ok (each validate_port (td_Ports (node_definition nc)))"
    using assms(2) base_ports_valid unfolding each_validate_port_iff
    by (auto simp: node_definition_def Let_def list_all_iff)
  ultimately show ?thesis
    using chain(2) by (auto simp: TaskDefinition_ValidateBasic_def node_definition_def Let_def is_ok_iff)
qed

lemma CreateChain_Inr:
  assumes "CreateChain sched p config opts = Inr ch"
  shows "ChainConfig_ValidateBasic p config = Inr () \<and>
    run_jobs sched (the (co_NodeCreator opts))
      (if p = provider_DigitalOcean then regional_jobs config (co_NodeOptions opts) 0 0 (pc_RegionConfig config)
       else local_jobs config (co_NodeOptions opts)) = Inr (cn_Validators ch, cn_Nodes ch)"
  using assms
  by (auto simp: CreateChain_def createRegionalNodes_def createLocalNodes_def and_then_eq_Inr
      split: sum.splits if_splits)

section \<open>Properties\<close>

text \<open>All the nodes and validators a chain config asks for have different names, on DigitalOcean and
  on Docker, whatever the regions and the chain's name.\<close>

theorem node_names_distinct:
  "distinct (map job_name (regional_jobs config opts 0 0 (pc_RegionConfig config))) \<and>
   distinct (map job_name (local_jobs config opts))"
  by (simp add: distinct_regional_names distinct_local_names)



text \<open>The peer string lists every peer, in order, as node id and host separated by commas: split
  at the commas it gives back the peers, provided no id or host contains a comma; it fails only if some
  peer cannot be resolved.\<close>

theorem AsCometPeerString_lists_peers:
  assumes "peers \<noteq> []" "list_all (\<lambda>n. case comet_peer ext n of Inl _ \<Rightarrow> False | Inr s \<Rightarrow> CHR '','' \<notin> set s) peers"
  shows "\<exists>s. AsCometPeerString ext peers = Inr s \<and>
    map Inr (Split (CHR '','') s) = map (comet_peer ext) peers"
proof -
  define f where "f n = (case comet_peer ext n of Inr s \<Rightarrow> s)" for n
  have f: "comet_peer ext n = Inr (f n)" "CHR '','' \<notin> set (f n)" if "n \<in> set peers" for n
    using assms(2) that by (auto simp: list_all_iff f_def split: sum.splits)
  have "each (comet_peer ext) peers = Inr (map f peers)" using f(1) by (rule each_total)
  moreover have "Split (CHR '','') (Join '','' (map f peers)) = map f peers"
    using f(2) assms(1) by (intro Split_Join) auto
  ultimately show ?thesis using f(1) by (simp add: AsCometPeerString_def)
qed

section \<open>Witnesses\<close>

definition demo_regional_config :: ChainConfig where
  "demo_regional_config = demo_chain_config\<lparr>pc_RegionConfig :=
     [\<lparr> rc_Name = ''nyc1'', rc_NumValidators = 2, rc_NumNodes = 1 \<rparr>,
      \<lparr> rc_Name = ''fra1'', rc_NumValidators = 1, rc_NumNodes = 0 \<rparr>]\<rparr>"

definition demo_options :: "string chain_options" where
  "demo_options = \<lparr> co_ModifyGenesis = None, co_NodeOptions = \<lparr> no_NodeDefinitionModifier = None \<rparr>,
     co_NodeCreator = Some (\<lambda>nc _. Inr (nc_Name nc)),
     co_WalletConfig = \<lparr> wc_DerivationFn = Some (\<lambda>_ _ _. Inr []), wc_GenerationFn = Some (\<lambda>x. x),
       wc_Bech32Prefix = ''cosmos'', wc_HDPath = Some [], wc_SigningAlgorithm = ''secp256k1'' \<rparr>,
     co_AdditionalAccounts = 0, co_BaseMnemonic = [] \<rparr>"

lemma demo_regional_valid: "ChainConfig_ValidateBasic provider_DigitalOcean demo_regional_config = Inr ()"
  by (simp add: ChainConfig_ValidateBasic_def demo_regional_config_def demo_chain_config_def validate_topology_def
      RegionConfig_ValidateBasic_def validRegions_def ImageDefinition_ValidateBasic_def ParseUint_def is_digit_def
      digits_val_def)

lemma demo_chain_created: "\<exists>ch. CreateChain rev provider_DigitalOcean demo_regional_config demo_options = Inr ch"
proof -
  have "\<exists>out. run_jobs rev (\<lambda>nc _. Inr (nc_Name nc)) js = Inr out" for js :: "job list"
    using each_total [of "rev js" "run_job (\<lambda>nc _. Inr (nc_Name nc))" "\<lambda>j. (jb_role j, nc_Name (jb_config j))"]
    by (simp add: run_jobs_def run_job_def)
  then obtain vs ns where "createRegionalNodes rev (\<lambda>nc _. Inr (nc_Name nc)) demo_regional_config
      \<lparr> no_NodeDefinitionModifier = None \<rparr> = Inr (vs, ns)"
    by (metis createRegionalNodes_def prod.collapse)
  then show ?thesis
    by (simp add: CreateChain_def demo_regional_valid ChainOptions_ValidateBasic_def WalletConfig_ValidateBasic_def
        demo_options_def)
qed



definition demo_peer :: peer where
  "demo_peer = \<lparr> pe_NodeId = Inr ''id'', pe_IP = Inr ''10.0.0.1'', pe_PrivateIP = Inr ''10.0.0.1'',
     pe_External = Inr ''1.2.3.4:26656'', pe_PeerID = Inr ''12D3'' \<rparr>"

theorem AsCometPeerString_lists_peers_witness:
  "\<exists>s. AsCometPeerString False [demo_peer, demo_peer] = Inr s \<and>
     map Inr (Split (CHR '','') s) = map (comet_peer False) [demo_peer, demo_peer]"
  by (rule AsCometPeerString_lists_peers)
    (simp_all add: comet_peer_def peerHostInternal_def demo_peer_def)

end
