(* ===== verification/Chain_Genesis.thy ===== *)
theory Chain_Genesis
  imports Messages "HOL-Library.Multiset"
begin

text \<open>
  The genesis file of a chain: \<open>UpdateGenesisBalances\<close>, \<open>UpdateGenesisAccounts\<close>, the additional
  accounts and their balances of \<open>petri/cosmos/chain/chain.go\<close>, and \<open>ModifyGenesis\<close> of
  \<open>genesis.go\<close>. A \<open>big.Int\<close> is an integer; the JSON and protobuf codecs, \<open>sjson\<close> and the wallet
  derivation are parameters, and so is the order in which the final supply map is iterated.
\<close>

section \<open>Data\<close>

record Coin =
  co_Denom :: string
  co_Amount :: int

record Account =
  ac_Type :: string
  ac_Address :: string
  ac_AccountNumber :: string
  ac_Sequence :: string

record Balance =
  ba_Address :: string
  ba_Coins :: "Coin list"

text \<open>The protobuf messages of the bank module; amounts are decimal texts there. The fields the
  code does not touch are \<open>bg_Rest\<close>.\<close>

record pb_Coin =
  pco_Denom :: string
  pco_Amount :: string

record BankBalance =
  bb_Address :: string
  bb_Coins :: "pb_Coin list"

record BankGenesis =
  bg_Balances :: "BankBalance list"
  bg_Supply :: "pb_Coin list"
  bg_Rest :: "gval gomap"

text \<open>\<open>new(big.Int).SetString(s, 10)\<close>.\<close>

definition big_SetString :: "string \<Rightarrow> int option" where
  "big_SetString s =
     (let body = (if s \<noteq> [] \<and> (hd s = CHR ''-'' \<or> hd s = CHR ''+'') then tl s else s)
      in if body = [] \<or> \<not> list_all is_digit body then None
         else Some (if hd s = CHR ''-'' then - int (digits_val body) else int (digits_val body)))"

section \<open>Balances and supply\<close>

definition coin_to_proto :: "Coin \<Rightarrow> pb_Coin" where
  "coin_to_proto c = \<lparr> pco_Denom = co_Denom c, pco_Amount = Itoa (co_Amount c) \<rparr>"

definition balance_to_proto :: "Balance \<Rightarrow> BankBalance" where
  "balance_to_proto b = \<lparr> bb_Address = ba_Address b, bb_Coins = map coin_to_proto (ba_Coins b) \<rparr>"

definition track_coin :: "Coin \<Rightarrow> int gomap \<Rightarrow> int gomap" where
  "track_coin c m =
     mput (co_Denom c) ((case mget m (co_Denom c) of None \<Rightarrow> 0 | Some a \<Rightarrow> a) + co_Amount c) m"

definition additionalSupply :: "Balance list \<Rightarrow> int gomap" where
  "additionalSupply bals = fold (\<lambda>b m. fold track_coin (ba_Coins b) m) bals []"

fun parse_supply :: "pb_Coin list \<Rightarrow> int gomap \<Rightarrow> int gomap result" where
  "parse_supply [] m = Inr m"
| "parse_supply (c # cs) m =
     (case big_SetString (pco_Amount c) of
        None \<Rightarrow> Inl (New (''failed to parse supply amount: '' @ pco_Amount c))
      | Some a \<Rightarrow> parse_supply cs (mput (pco_Denom c) a m))"

definition merge_supply :: "int gomap \<Rightarrow> int gomap \<Rightarrow> int gomap" where
  "merge_supply additional supplyMap =
     fold (\<lambda>(denom, amount) m.
        case mget m denom of Some existing \<Rightarrow> mput denom (existing + amount) m | None \<Rightarrow> mput denom amount m)
       additional supplyMap"

definition update_bank :: "(int gomap \<Rightarrow> int gomap) \<Rightarrow> Balance list \<Rightarrow> BankGenesis \<Rightarrow> BankGenesis result" where
  "update_bank ord bals g =
     and_then (parse_supply (bg_Supply g) []) (\<lambda>supplyMap.
       Inr (g\<lparr>bg_Balances := bg_Balances g @ map balance_to_proto bals,
              bg_Supply := map (\<lambda>(denom, amount). \<lparr> pco_Denom = denom, pco_Amount = Itoa amount \<rparr>)
                (ord (merge_supply (additionalSupply bals) supplyMap))\<rparr>))"

record genesis_codec =
  gc_json_enc :: "gval gomap \<Rightarrow> string result"
  gc_bank_dec :: "string \<Rightarrow> BankGenesis result"
  gc_bank_enc :: "BankGenesis \<Rightarrow> string result"
  gc_json_dec :: "string \<Rightarrow> gval gomap result"

text \<open>A checked type assertion \<open>m[k].(map[string]any)\<close> that the code does not check: it panics.\<close>

definition sub_map :: "gval gomap \<Rightarrow> string \<Rightarrow> gval gomap result" where
  "sub_map m k =
     (case mget m k of Some (VMap x) \<Rightarrow> Inr x | _ \<Rightarrow> Inl (Panic ''interface conversion''))"

definition UpdateGenesisBalances ::
    "genesis_codec \<Rightarrow> (int gomap \<Rightarrow> int gomap) \<Rightarrow> Balance list \<Rightarrow> gval gomap \<Rightarrow> gval gomap result" where
  "UpdateGenesisBalances gc ord bals data =
     and_then (sub_map data ''app_state'') (\<lambda>appstate.
     and_then (sub_map appstate ''bank'') (\<lambda>bankData.
     and_then (wrap_err ''failed to marshal bank data'' (gc_json_enc gc bankData)) (\<lambda>bankBytes.
     and_then (wrap_err ''failed to unmarshal bank genesis'' (gc_bank_dec gc bankBytes)) (\<lambda>bankGenesis.
     and_then (update_bank ord bals bankGenesis) (\<lambda>bankGenesis'.
     and_then (wrap_err ''failed to marshal updated bank genesis'' (gc_bank_enc gc bankGenesis')) (\<lambda>updatedBytes.
     and_then (wrap_err ''failed to unmarshal updated bank data'' (gc_json_dec gc updatedBytes)) (\<lambda>updated.
       Inr (mput ''app_state'' (VMap (mput ''bank'' (VMap updated) appstate)) data))))))))"

section \<open>Accounts\<close>

definition account_value :: "Account \<Rightarrow> gval" where
  "account_value acc =
     VMap [(''@type'', VStr (ac_Type acc)), (''address'', VStr (ac_Address acc)), (''pub_key'', VNil),
           (''account_number'', VStr (ac_AccountNumber acc)), (''sequence'', VStr (ac_Sequence acc))]"

definition UpdateGenesisAccounts :: "Account list \<Rightarrow> gval gomap \<Rightarrow> gval gomap result" where
  "UpdateGenesisAccounts accounts data =
     and_then (sub_map data ''app_state'') (\<lambda>appstate.
     and_then (sub_map appstate ''auth'') (\<lambda>auth.
       (case mget auth ''accounts'' of
          Some (VList genesisAccounts) \<Rightarrow>
            Inr (mput ''app_state'' (VMap (mput ''auth'' (VMap (mput ''accounts''
                   (VList (genesisAccounts @ map account_value accounts)) auth)) appstate)) data)
        | _ \<Rightarrow> Inl (Panic ''interface conversion''))))"

definition eth_secp256k1 :: string where "eth_secp256k1 = ''eth_secp256k1''"

definition accountType :: string where "accountType = ''/cosmos.auth.v1beta1.BaseAccount''"

definition additionalAccountPassphrase :: "WalletConfig \<Rightarrow> nat \<Rightarrow> string" where
  "additionalAccountPassphrase walletCfg index =
     (if index = 0 \<and> wc_SigningAlgorithm walletCfg = eth_secp256k1 then [] else show_nat index)"

text \<open>\<open>nw keyName mnemonic passphrase cfg\<close> is the formatted address of \<open>wallet.NewWallet\<close>.\<close>

type_synonym new_wallet = "string \<Rightarrow> string \<Rightarrow> string \<Rightarrow> WalletConfig \<Rightarrow> string result"

definition build_account :: "new_wallet \<Rightarrow> WalletConfig \<Rightarrow> string \<Rightarrow> nat \<Rightarrow> nat \<Rightarrow> Account result" where
  "build_account nw walletCfg baseMnemonic startingAccNum i =
     (case nw (''additionalaccount'' @ show_nat i) baseMnemonic (additionalAccountPassphrase walletCfg i) walletCfg of
        Inl e \<Rightarrow> Inl (Wrap (''failed to create wallet '' @ show_nat (i + 1)) e)
      | Inr address \<Rightarrow>
          Inr \<lparr> ac_Type = accountType, ac_Address = address,
                ac_AccountNumber = show_nat (startingAccNum + i), ac_Sequence = ''0'' \<rparr>)"

definition buildAccounts :: "new_wallet \<Rightarrow> WalletConfig \<Rightarrow> string \<Rightarrow> nat \<Rightarrow> nat \<Rightarrow> Account list result" where
  "buildAccounts nw walletCfg baseMnemonic startingAccNum n =
     each (build_account nw walletCfg baseMnemonic startingAccNum) [0..<n]"

definition buildBalances :: "Account list \<Rightarrow> Coin list \<Rightarrow> Balance list" where
  "buildBalances accounts funds = map (\<lambda>acc. \<lparr> ba_Address = ac_Address acc, ba_Coins = funds \<rparr>) accounts"

section \<open>Modifying the genesis\<close>

text \<open>\<open>setb\<close> is \<open>sjson.SetBytes\<close>; \<open>%v\<close> puts the text of its error into the message.\<close>

fun modify_genesis_from ::
    "(string \<Rightarrow> string \<Rightarrow> gval \<Rightarrow> string result) \<Rightarrow> nat \<Rightarrow> GenesisKV list \<Rightarrow> string \<Rightarrow> string result" where
  "modify_genesis_from setb idx [] out = Inr out"
| "modify_genesis_from setb idx (kv # kvs) out =
     (case setb out (gk_Key kv) (gk_Value kv) of
        Inl e \<Rightarrow> Inl (New (''failed to set value (index:'' @ show_nat idx @ '') in genesis json: '' @ Error_str e))
      | Inr out' \<Rightarrow> modify_genesis_from setb (Suc idx) kvs out')"

definition ModifyGenesis ::
    "(string \<Rightarrow> string \<Rightarrow> gval \<Rightarrow> string result) \<Rightarrow> GenesisKV list \<Rightarrow> string \<Rightarrow> string result" where
  "ModifyGenesis setb genesisKV genbz = modify_genesis_from setb 0 genesisKV genbz"

section \<open>Lemmas\<close>

lemma big_SetString_Itoa [simp]: "big_SetString (Itoa i) = Some i"
proof (cases "i < 0")
  case True
  then show ?thesis using show_nat_digits [of "nat (- i)"] by (simp add: big_SetString_def Itoa_def)
next
  case False
  then show ?thesis using show_nat_digits [of "nat i"] by (simp add: big_SetString_def Itoa_def Let_def)
qed

text \<open>Amounts by denomination.\<close>

definition amount_in :: "Coin list \<Rightarrow> string \<Rightarrow> int" where
  "amount_in cs d = (\<Sum>c \<leftarrow> cs. if co_Denom c = d then co_Amount c else 0)"

definition credited :: "Balance list \<Rightarrow> string \<Rightarrow> int" where
  "credited bals d = (\<Sum>b \<leftarrow> bals. amount_in (ba_Coins b) d)"

definition pb_amount_in :: "pb_Coin list \<Rightarrow> string \<Rightarrow> int" where
  "pb_amount_in cs d =
     (\<Sum>c \<leftarrow> cs. if pco_Denom c = d then (case big_SetString (pco_Amount c) of None \<Rightarrow> 0 | Some a \<Rightarrow> a) else 0)"

definition total_balance :: "BankGenesis \<Rightarrow> string \<Rightarrow> int" where
  "total_balance g d = (\<Sum>b \<leftarrow> bg_Balances g. pb_amount_in (bb_Coins b) d)"

definition total_supply :: "BankGenesis \<Rightarrow> string \<Rightarrow> int" where
  "total_supply g d = pb_amount_in (bg_Supply g) d"

definition get0 :: "int gomap \<Rightarrow> string \<Rightarrow> int" where
  "get0 m d = (case mget m d of None \<Rightarrow> 0 | Some a \<Rightarrow> a)"

lemma get0_mput [simp]: "get0 (mput k v m) d = (if d = k then v else get0 m d)"
  by (simp add: get0_def)

lemma get0_track: "get0 (track_coin c m) d = get0 m d + (if co_Denom c = d then co_Amount c else 0)"
  by (auto simp: track_coin_def get0_def)

lemma get0_fold_track: "get0 (fold track_coin cs m) d = get0 m d + amount_in cs d"
  by (induction cs arbitrary: m) (auto simp: amount_in_def get0_track)

lemma get0_additionalSupply: "get0 (additionalSupply bals) d = credited bals d"
proof -
  have "get0 (fold (\<lambda>b m. fold track_coin (ba_Coins b) m) bals m) d = get0 m d + credited bals d" for m
    by (induction bals arbitrary: m) (auto simp: credited_def get0_fold_track)
  from this [of "[]"] show ?thesis by (simp add: additionalSupply_def get0_def)
qed

lemma distinct_additionalSupply: "distinct (keys (additionalSupply bals))"
proof -
  have "distinct (keys m) \<Longrightarrow> distinct (keys (fold track_coin cs m))" for m cs
    by (induction cs arbitrary: m) (simp_all add: track_coin_def distinct_keys_mput)
  then have "distinct (keys m) \<Longrightarrow> distinct (keys (fold (\<lambda>b m. fold track_coin (ba_Coins b) m) bals m))" for m
    by (induction bals arbitrary: m) simp_all
  from this [of "[]"] show ?thesis by (simp add: additionalSupply_def)
qed

lemma get0_merge: "distinct (keys add) \<Longrightarrow> get0 (merge_supply add m) d = get0 m d + get0 add d"
proof (induction add arbitrary: m)
  case Nil
  then show ?case by (simp add: merge_supply_def get0_def)
next
  case (Cons x add)
  obtain k a where x: "x = (k, a)" by fastforce
  let ?m = "mput k (get0 m k + a) m"
  have step: "merge_supply (x # add) m = merge_supply add ?m"
    by (auto simp: merge_supply_def x get0_def split: option.splits)
  have fresh: "mget add k = None" using Cons.prems x by (auto simp: map_of_eq_None_iff)
  from Cons.IH [of ?m] Cons.prems x have "get0 (merge_supply add ?m) d = get0 ?m d + get0 add d" by simp
  with step fresh show ?case by (auto simp: x get0_def)
qed

lemma distinct_merge: "distinct (keys m) \<Longrightarrow> distinct (keys (merge_supply add m))"
proof (induction add arbitrary: m)
  case (Cons x add)
  then show ?case
    by (cases x) (auto simp: merge_supply_def distinct_keys_mput split: option.splits)
qed (simp add: merge_supply_def)

lemma parse_supply_Inr:
  assumes "parse_supply cs m = Inr m'" "distinct (map pco_Denom cs)" "distinct (keys m)"
    and "\<And>c. c \<in> set cs \<Longrightarrow> mget m (pco_Denom c) = None"
  shows "distinct (keys m') \<and> get0 m' d = get0 m d + pb_amount_in cs d"
  using assms
proof (induction cs m rule: parse_supply.induct)
  case (1 m)
  then show ?case by (simp add: pb_amount_in_def)
next
  case (2 c cs m)
  then obtain a where a: "big_SetString (pco_Amount c) = Some a"
      "parse_supply cs (mput (pco_Denom c) a m) = Inr m'"
    by (auto split: option.splits)
  have new: "pco_Denom x \<noteq> pco_Denom c" if "x \<in> set cs" for x
    using that "2.prems"(2) by (auto simp: image_iff)
  have "distinct (keys m') \<and> get0 m' d = get0 (mput (pco_Denom c) a m) d + pb_amount_in cs d"
  proof (rule "2.IH" [OF a])
    show "distinct (map pco_Denom cs)" using "2.prems"(2) by simp
    show "distinct (keys (mput (pco_Denom c) a m))" using "2.prems"(3) by (rule distinct_keys_mput)
    show "mget (mput (pco_Denom c) a m) (pco_Denom x) = None" if "x \<in> set cs" for x
      using that new "2.prems"(4) by simp
  qed
  moreover have "get0 m (pco_Denom c) = 0" using 2 by (simp add: get0_def)
  ultimately show ?case using a(1) by (auto simp: pb_amount_in_def)
qed

lemma pb_amount_entries:
  "distinct (keys m) \<Longrightarrow>
     pb_amount_in (map (\<lambda>(denom, amount). \<lparr> pco_Denom = denom, pco_Amount = Itoa amount \<rparr>) m) d = get0 m d"
proof (induction m)
  case (Cons x m)
  obtain k a where x: "x = (k, a)" by fastforce
  have "mget m k = None" using Cons.prems x by (auto simp: map_of_eq_None_iff)
  then show ?case using Cons x by (auto simp: pb_amount_in_def get0_def)
qed (simp add: pb_amount_in_def get0_def)

lemma pb_amount_coins: "pb_amount_in (map coin_to_proto cs) d = amount_in cs d"
  by (induction cs) (auto simp: pb_amount_in_def amount_in_def coin_to_proto_def)

lemma update_bank_amounts:
  assumes "update_bank ord bals g = Inr g'" "distinct (map pco_Denom (bg_Supply g))"
    and "\<And>m. mset (ord m) = mset m"
  shows "total_supply g' d = total_supply g d + credited bals d"
    and "total_balance g' d = total_balance g d + credited bals d"
proof -
  from assms(1) obtain sm where sm: "parse_supply (bg_Supply g) [] = Inr sm"
    and g': "g' = g\<lparr>bg_Balances := bg_Balances g @ map balance_to_proto bals,
        bg_Supply := map (\<lambda>(denom, amount). \<lparr> pco_Denom = denom, pco_Amount = Itoa amount \<rparr>)
          (ord (merge_supply (additionalSupply bals) sm))\<rparr>"
    by (auto simp: update_bank_def and_then_eq_Inr)
  let ?m = "merge_supply (additionalSupply bals) sm"
  have p: "distinct (keys sm)" "\<And>d. get0 sm d = pb_amount_in (bg_Supply g) d"
    using parse_supply_Inr [OF sm assms(2)] by (auto simp: get0_def)
  have dm: "distinct (keys ?m)" using distinct_merge p(1) .
  have perm: "mset (ord ?m) = mset ?m" using assms(3) .
  then have "mset (keys (ord ?m)) = mset (keys ?m)" by simp
  with dm have "distinct (keys (ord ?m))" using mset_eq_imp_distinct_iff by blast
  moreover have "mget (ord ?m) = mget ?m"
    using perm dm by (metis calculation map_of_eqI map_of_inject_set mset_eq_setD)
  ultimately have "total_supply g' d = get0 ?m d"
    using pb_amount_entries [of "ord ?m" d] by (simp add: g' total_supply_def get0_def)
  with get0_merge [OF distinct_additionalSupply, of bals sm d] p(2) [of d]
  show "total_supply g' d = total_supply g d + credited bals d"
    by (simp add: get0_additionalSupply total_supply_def)
  have "(\<Sum>b \<leftarrow> map balance_to_proto bals. pb_amount_in (bb_Coins b) d) = credited bals d"
    by (induction bals) (auto simp: credited_def balance_to_proto_def pb_amount_coins)
  then show "total_balance g' d = total_balance g d + credited bals d"
    by (simp add: g' total_balance_def)
qed

text \<open>Reading the bank state out of a genesis document, and what writing it back needs of the codecs.\<close>

definition bank_of :: "genesis_codec \<Rightarrow> gval gomap \<Rightarrow> BankGenesis result" where
  "bank_of gc data =
     and_then (sub_map data ''app_state'') (\<lambda>appstate.
     and_then (sub_map appstate ''bank'') (\<lambda>bankData.
     and_then (gc_json_enc gc bankData) (gc_bank_dec gc)))"

definition bank_roundtrips :: "genesis_codec \<Rightarrow> BankGenesis \<Rightarrow> bool" where
  "bank_roundtrips gc g =
     (case gc_bank_enc gc g of
        Inl _ \<Rightarrow> False
      | Inr s \<Rightarrow> (case gc_json_dec gc s of
                   Inl _ \<Rightarrow> False
                 | Inr u \<Rightarrow> and_then (gc_json_enc gc u) (gc_bank_dec gc) = Inr g))"

lemma sub_map_mput [simp]: "sub_map (mput k v m) k' = (if k' = k then (case v of VMap x \<Rightarrow> Inr x
    | _ \<Rightarrow> Inl (Panic ''interface conversion'')) else sub_map m k')"
  by (simp add: sub_map_def)

lemma UpdateGenesisBalances_bank:
  assumes "bank_of gc data = Inr g" "update_bank ord bals g = Inr g'" "bank_roundtrips gc g'"
  shows "\<exists>data'. UpdateGenesisBalances gc ord bals data = Inr data' \<and> bank_of gc data' = Inr g' \<and>
    (\<forall>k. k \<noteq> ''app_state'' \<longrightarrow> mget data' k = mget data k)"
proof -
  from assms(1) obtain appstate bankData b where read:
    "sub_map data ''app_state'' = Inr appstate" "sub_map appstate ''bank'' = Inr bankData"
    "gc_json_enc gc bankData = Inr b" "gc_bank_dec gc b = Inr g"
    by (auto simp: bank_of_def and_then_eq_Inr)
  from assms(3) obtain s u where written: "gc_bank_enc gc g' = Inr s" "gc_json_dec gc s = Inr u"
    "and_then (gc_json_enc gc u) (gc_bank_dec gc) = Inr g'"
    by (auto simp: bank_roundtrips_def split: sum.splits)
  show ?thesis
    by (simp add: UpdateGenesisBalances_def bank_of_def read assms(2) written)
qed

lemma credited_buildBalances: "credited (buildBalances accs funds) d = int (length accs) * amount_in funds d"
  by (induction accs) (auto simp: credited_def buildBalances_def algebra_simps)

lemma passphrase_inj: "inj_on (additionalAccountPassphrase cfg) A"
  by (auto simp: inj_on_def additionalAccountPassphrase_def eq_commute [of "[]"] split: if_splits)

lemma buildAccounts_numbers:
  assumes "buildAccounts nw cfg mnemonic start n = Inr accs"
  shows "map ac_AccountNumber accs = map (\<lambda>i. show_nat (start + i)) [0..<n]"
proof -
  from assms have all2: "list_all2 (\<lambda>i acc. build_account nw cfg mnemonic start i = Inr acc) [0..<n] accs"
    by (simp add: buildAccounts_def each_Inr_iff)
  have "list_all2 (\<lambda>i acc. ac_AccountNumber acc = show_nat (start + i)) [0..<n] accs"
    by (rule list_all2_mono [OF all2]) (auto simp: build_account_def split: sum.splits)
  then show ?thesis by (auto simp: list_all2_conv_all_nth intro!: nth_equalityI)
qed

section \<open>Properties\<close>

text \<open>C6: adding balances to a genesis raises, for every denomination, the recorded supply by exactly
  what the balances were raised by, in whatever order maps are iterated: a genesis whose supply is
  the sum of its balances stays one. Everything outside the application state is kept.\<close>

theorem UpdateGenesisBalances_conserves_supply:
  assumes "bank_of gc data = Inr g" "update_bank ord bals g = Inr g'" "bank_roundtrips gc g'"
    and "distinct (map pco_Denom (bg_Supply g))" "\<And>m. mset (ord m) = mset m"
  shows "\<exists>data'. UpdateGenesisBalances gc ord bals data = Inr data' \<and> bank_of gc data' = Inr g' \<and>
    (\<forall>d. total_supply g' d = total_supply g d + credited bals d \<and>
         total_balance g' d = total_balance g d + credited bals d) \<and>
    (\<forall>k. k \<noteq> ''app_state'' \<longrightarrow> mget data' k = mget data k)"
  using UpdateGenesisBalances_bank [OF assms(1-3)] update_bank_amounts [OF assms(2,4,5)] by auto

definition demo_bank :: BankGenesis where
  "demo_bank = \<lparr> bg_Balances = [\<lparr> bb_Address = ''a'', bb_Coins = [\<lparr> pco_Denom = ''stake'', pco_Amount = ''7'' \<rparr>] \<rparr>],
     bg_Supply = [\<lparr> pco_Denom = ''stake'', pco_Amount = ''7'' \<rparr>], bg_Rest = [] \<rparr>"

definition demo_bals :: "Balance list" where
  "demo_bals = [\<lparr> ba_Address = ''b'', ba_Coins = [\<lparr> co_Denom = ''stake'', co_Amount = 5 \<rparr>] \<rparr>]"

definition demo_bank' :: BankGenesis where
  "demo_bank' = demo_bank\<lparr>bg_Balances := bg_Balances demo_bank @ map balance_to_proto demo_bals,
     bg_Supply := [\<lparr> pco_Denom = ''stake'', pco_Amount = Itoa 12 \<rparr>]\<rparr>"

definition demo_genesis_codec :: genesis_codec where
  "demo_genesis_codec = \<lparr> gc_json_enc = (\<lambda>m. if m = [] then Inr ''old'' else Inr ''new''),
     gc_bank_dec = (\<lambda>s. if s = ''old'' then Inr demo_bank else Inr demo_bank'),
     gc_bank_enc = (\<lambda>_. Inr ''new''), gc_json_dec = (\<lambda>_. Inr [(''supply'', VNil)]) \<rparr>"

definition demo_genesis :: "gval gomap" where
  "demo_genesis = [(''chain_id'', VStr ''hub-1''), (''app_state'', VMap [(''bank'', VMap [])])]"

theorem UpdateGenesisBalances_conserves_supply_witness:
  "\<exists>data'. UpdateGenesisBalances demo_genesis_codec rev demo_bals demo_genesis = Inr data' \<and>
    bank_of demo_genesis_codec data' = Inr demo_bank' \<and>
    total_supply demo_bank' ''stake'' = total_supply demo_bank ''stake'' + 5 \<and>
    mget data' ''chain_id'' = Some (VStr ''hub-1'')"
proof -
  have bank: "bank_of demo_genesis_codec demo_genesis = Inr demo_bank"
    by (simp add: bank_of_def demo_genesis_def demo_genesis_codec_def sub_map_def)
  have upd: "update_bank rev demo_bals demo_bank = Inr demo_bank'"
    by (simp add: update_bank_def demo_bank_def demo_bank'_def demo_bals_def big_SetString_def digits_val_def
        is_digit_def merge_supply_def additionalSupply_def track_coin_def)
  have rt: "bank_roundtrips demo_genesis_codec demo_bank'"
    by (simp add: bank_roundtrips_def demo_genesis_codec_def)
  have dist: "distinct (map pco_Denom (bg_Supply demo_bank))" by (simp add: demo_bank_def)
  have five: "credited demo_bals ''stake'' = 5" by (simp add: credited_def demo_bals_def amount_in_def)
  have id: "mget demo_genesis ''chain_id'' = Some (VStr ''hub-1'')" by (simp add: demo_genesis_def)
  obtain data' where d: "UpdateGenesisBalances demo_genesis_codec rev demo_bals demo_genesis = Inr data'"
    "bank_of demo_genesis_codec data' = Inr demo_bank'"
    "\<forall>d. total_supply demo_bank' d = total_supply demo_bank d + credited demo_bals d \<and>
         total_balance demo_bank' d = total_balance demo_bank d + credited demo_bals d"
    "\<forall>k. k \<noteq> ''app_state'' \<longrightarrow> mget data' k = mget demo_genesis k"
    using UpdateGenesisBalances_conserves_supply [OF bank upd rt dist, of] by (auto simp del: not_None_eq)
  from d(4) have "mget data' ''chain_id'' = mget demo_genesis ''chain_id''" by simp
  with d(1,2) d(3) [rule_format, of "''stake''"] five id show ?thesis by auto
qed

text \<open>The additional accounts get consecutive, distinct account numbers, are derived with distinct
  passphrases, and funding each of them with the same coins adds exactly that many times the coins.\<close>

theorem buildAccounts_distinct:
  assumes "buildAccounts nw cfg mnemonic start n = Inr accs"
  shows "map ac_AccountNumber accs = map (\<lambda>i. show_nat (start + i)) [0..<n] \<and>
    distinct (map ac_AccountNumber accs) \<and>
    distinct (map (additionalAccountPassphrase cfg) [0..<n]) \<and>
    credited (buildBalances accs funds) d = int n * amount_in funds d"
proof -
  have "length accs = n" using each_length [OF assms [unfolded buildAccounts_def]] by simp
  then show ?thesis
    using buildAccounts_numbers [OF assms] passphrase_inj
    by (simp add: distinct_map inj_on_def credited_buildBalances) (meson passphrase_inj inj_onD)
qed

definition demo_new_wallet :: new_wallet where
  "demo_new_wallet name mnemonic pass cfg = Inr (''cosmos1'' @ pass)"

definition demo_wallet_config :: WalletConfig where
  "demo_wallet_config = \<lparr> wc_DerivationFn = Some (\<lambda>_ _ _. Inr []), wc_GenerationFn = Some (\<lambda>x. x),
     wc_Bech32Prefix = ''cosmos'', wc_HDPath = Some [], wc_SigningAlgorithm = ''eth_secp256k1'' \<rparr>"

theorem buildAccounts_distinct_witness:
  "\<exists>accs. buildAccounts demo_new_wallet demo_wallet_config ''m'' 3 2 = Inr accs \<and>
    map ac_AccountNumber accs = [show_nat 3, show_nat 4] \<and>
    credited (buildBalances accs [\<lparr> co_Denom = ''stake'', co_Amount = 5 \<rparr>]) ''stake'' = 10"
proof -
  have "buildAccounts demo_new_wallet demo_wallet_config ''m'' 3 2 =
      Inr (map (\<lambda>i. \<lparr> ac_Type = accountType,
        ac_Address = ''cosmos1'' @ additionalAccountPassphrase demo_wallet_config i,
        ac_AccountNumber = show_nat (3 + i), ac_Sequence = ''0'' \<rparr>) [0..<2])"
    unfolding buildAccounts_def by (rule each_total) (simp add: build_account_def demo_new_wallet_def)
  from buildAccounts_distinct [OF this, of "[\<lparr> co_Denom = ''stake'', co_Amount = 5 \<rparr>]" "''stake''"] this
  show ?thesis by (simp add: amount_in_def upt_rec)
qed

end
