(* ===== verification/Chain_Init.thy ===== *)
theory Chain_Init
  imports Chain_Nodes Chain_Genesis
begin

text \<open>
  Bringing a chain up: the setup of validators and nodes (\<open>petri/cosmos/node/node.go\<close>,
  \<open>keys.go\<close>, \<open>genesis.go\<close>), the genesis operations, the configuration of every node and \<open>Init\<close>,
  \<open>Teardown\<close> and the waiting loops of \<open>petri/cosmos/chain/chain.go\<close>. The state is the files and the
  run state of every node. What the containers and the chain binary do is the parameter \<open>W\<close>, one
  \<open>node_world\<close> per node name; the libraries are \<open>L\<close>. In a group of goroutines each works on its
  own node, so only the choice of the error that is returned depends on the schedule: \<open>pick\<close>.
\<close>

section \<open>Nodes and their world\<close>

record node_world =
  wd_file :: file_env
  wd_run :: "string list \<Rightarrow> string gomap \<Rightarrow> string gomap \<times> (int \<times> string \<times> string) result"
  wd_IP :: "string result"
  wd_PrivateIP :: "string result"
  wd_External :: "string \<Rightarrow> string result"
  wd_Start :: "error option"
  wd_Destroy :: "error option"
  wd_wallet :: "string \<Rightarrow> WalletConfig \<Rightarrow> (string \<times> string) result"
  wd_node_key :: "string \<Rightarrow> (string \<times> string result) result"

type_synonym world = "string \<Rightarrow> node_world"

record cnode =
  nk_Config :: NodeConfig
  nk_Files :: "string gomap"
  nk_Running :: bool

abbreviation nk_Name :: "cnode \<Rightarrow> string" where
  "nk_Name n \<equiv> nc_Name (nk_Config n)"

abbreviation nk_Chain :: "cnode \<Rightarrow> ChainConfig" where
  "nk_Chain n \<equiv> nc_ChainConfig (nk_Config n)"

text \<open>A file operation on a node.\<close>

definition on_files :: "(string gomap \<Rightarrow> string gomap \<times> 'a result) \<Rightarrow> cnode \<Rightarrow> cnode \<times> 'a result" where
  "on_files f n = (case f (nk_Files n) of (files, res) \<Rightarrow> (n\<lparr>nk_Files := files\<rparr>, res))"

text \<open>A command of the node that must run and exit with zero.\<close>

definition run_checked :: "world \<Rightarrow> string \<Rightarrow> string \<Rightarrow> string list \<Rightarrow> cnode \<Rightarrow> cnode \<times> unit result" where
  "run_checked W msg failed command n =
     andThen (wrapping msg (on_files (wd_run (W (nk_Name n)) command) n)) (\<lambda>n (code, stdout, stderr).
       (n, if code \<noteq> 0
           then Inl (New (failed @ '' (exit code '' @ Itoa code @ ''): '' @ stderr @ '', stdout: '' @ stdout))
           else Inr ()))"

section \<open>Keys and files of a node\<close>

definition sh :: "string \<Rightarrow> string list" where
  "sh script = [''/bin/sh'', ''-c'', script]"

text \<open>A mnemonic is words separated by spaces, so \<open>%q\<close> puts it between quotes. The exit code of the
  command is not looked at.\<close>

definition RecoverKey :: "world \<Rightarrow> string \<Rightarrow> string \<Rightarrow> cnode \<Rightarrow> cnode \<times> unit result" where
  "RecoverKey W name mnemonic n =
     (let c = nk_Chain n;
          command = [''sh'', ''-c'', ''echo '' @ [CHR 0x22] @ mnemonic @ [CHR 0x22] @ '' | '' @ pc_BinaryName c @
            '' keys add '' @ name @ '' --recover --keyring-backend test --coin-type '' @ pc_CoinType c @
            '' --home '' @ pc_HomeDir c @ '' --output json'']
      in case on_files (wd_run (W (nk_Name n)) command) n of
           (n', Inl e) \<Rightarrow> (n', Inl e)
         | (n', Inr _) \<Rightarrow> (n', Inr ()))"

definition CreateWallet :: "world \<Rightarrow> string \<Rightarrow> WalletConfig \<Rightarrow> cnode \<Rightarrow> cnode \<times> (string \<times> string) result" where
  "CreateWallet W name cfg n =
     (case wd_wallet (W (nk_Name n)) name cfg of
        Inl e \<Rightarrow> (n, Inl e)
      | Inr w \<Rightarrow> andThen (RecoverKey W name (fst w) n) (\<lambda>n _. (n, Inr w)))"

definition node_read :: "world \<Rightarrow> string \<Rightarrow> cnode \<Rightarrow> string result" where
  "node_read W path n = ReadFile (wd_file (W (nk_Name n))) path (nk_Files n)"

definition node_write :: "world \<Rightarrow> string \<Rightarrow> string \<Rightarrow> cnode \<Rightarrow> cnode \<times> unit result" where
  "node_write W path s n = on_files (WriteFile (wd_file (W (nk_Name n))) path s) n"

definition nodeKey :: "world \<Rightarrow> cnode \<Rightarrow> (string \<times> string result) result" where
  "nodeKey W n =
     and_then (wrap_err ''getting node_key.json content'' (node_read W ''config/node_key.json'' n)) (\<lambda>j.
       wrap_err ''unmarshaling node_key.json'' (wd_node_key (W (nk_Name n)) j))"

definition NodeId :: "world \<Rightarrow> cnode \<Rightarrow> string result" where
  "NodeId W n = and_then (nodeKey W n) (\<lambda>k. Inr (fst k))"

definition GenesisFileContent :: "world \<Rightarrow> cnode \<Rightarrow> string result" where
  "GenesisFileContent W n = node_read W ''config/genesis.json'' n"

definition OverwriteGenesisFile :: "world \<Rightarrow> string \<Rightarrow> cnode \<Rightarrow> cnode \<times> unit result" where
  "OverwriteGenesisFile W bz n = node_write W ''config/genesis.json'' bz n"

text \<open>Reads the genesis transaction of \<open>src\<close> and writes it on \<open>dst\<close>.\<close>

definition CopyGenTx :: "world \<Rightarrow> cnode \<Rightarrow> cnode \<Rightarrow> cnode \<times> unit result" where
  "CopyGenTx W src dst =
     (case NodeId W src of
        Inl e \<Rightarrow> (dst, Inl e)
      | Inr nid \<Rightarrow>
          let path = ''config/gentx/gentx-'' @ nid @ ''.json''
          in (case node_read W path src of
                Inl e \<Rightarrow> (dst, Inl e)
              | Inr gentx \<Rightarrow> node_write W path gentx dst))"

definition as_peer :: "world \<Rightarrow> cnode \<Rightarrow> peer" where
  "as_peer W n =
     \<lparr> pe_NodeId = NodeId W n, pe_IP = wd_IP (W (nk_Name n)), pe_PrivateIP = wd_PrivateIP (W (nk_Name n)),
       pe_External = wd_External (W (nk_Name n)) ''26656'',
       pe_PeerID = and_then (wrap_err ''comet public key'' (nodeKey W n)) (\<lambda>k. snd k) \<rparr>"

section \<open>Setting up validators and nodes\<close>

definition coin_string :: "Coin \<Rightarrow> string" where
  "coin_string c = Itoa (co_Amount c) @ co_Denom c"

definition genesis_sub :: "bool \<Rightarrow> string list" where
  "genesis_sub useGenesisSubCommand = (if useGenesisSubCommand then [''genesis''] else [])"

definition init_script :: "cnode \<Rightarrow> string" where
  "init_script n = Join '' '' (BinCommand (nk_Chain n) [''init'', nk_Name n, ''--chain-id'', pc_ChainId (nk_Chain n)])"

definition nl :: string where "nl = [CHR 0x0A]"

definition script_head :: string where "script_head = ''#!/bin/sh'' @ nl @ ''set -e'' @ nl"

definition add_account_line :: "bool \<Rightarrow> ChainConfig \<Rightarrow> string \<Rightarrow> string \<Rightarrow> string" where
  "add_account_line sub c address amount =
     Join '' '' (BinCommand c (genesis_sub sub @ [''add-genesis-account'', address, amount, ''--keyring-backend'', ''test''])) @ nl"

definition gentx_line :: "ChainConfig \<Rightarrow> Coin \<Rightarrow> string" where
  "gentx_line c deleg =
     Join '' '' (BinCommand c (genesis_sub (pc_UseGenesisSubCommand c) @ [''gentx'', ''validator'', coin_string deleg, ''--keyring-backend'', ''test'',
       ''--chain-id'', pc_ChainId c])) @ nl"

definition set_client_config :: "toml \<Rightarrow> world \<Rightarrow> cnode \<Rightarrow> cnode \<times> unit result" where
  "set_client_config tm W n =
     on_files (ModifyTomlConfigFile tm (wd_file (W (nk_Name n))) ''config/client.toml''
       (GenerateDefaultClientConfig (pc_ChainId (nk_Chain n)))) n"

definition SetupValidator ::
    "toml \<Rightarrow> world \<Rightarrow> WalletConfig \<Rightarrow> Coin list \<Rightarrow> Coin \<Rightarrow> cnode \<Rightarrow> cnode \<times> (string \<times> string) result" where
  "SetupValidator tm W wcfg amounts deleg n =
     andThen (wrapping ''failed to generate wallet'' (CreateWallet W ''validator'' wcfg n)) (\<lambda>n w.
     andThen (run_checked W ''failed to run validator init'' ''validator init failed'' (sh (init_script n)) n) (\<lambda>n _.
     andThen (set_client_config tm W n) (\<lambda>n _.
     andThen (run_checked W ''failed to run validator genesis setup'' ''validator genesis setup failed''
        (sh (script_head @ add_account_line (pc_UseGenesisSubCommand (nk_Chain n)) (nk_Chain n) (snd w) (Join '','' (map coin_string amounts)) @
             gentx_line (nk_Chain n) deleg)) n) (\<lambda>n _.
       (n, Inr w)))))"

definition SetupNode :: "toml \<Rightarrow> world \<Rightarrow> cnode \<Rightarrow> cnode \<times> unit result" where
  "SetupNode tm W n =
     andThen (run_checked W ''failed to setup node'' ''node setup failed'' (sh (init_script n)) n) (\<lambda>n _.
       set_client_config tm W n)"

section \<open>The chain\<close>

record cluster =
  cl_Config :: ChainConfig
  cl_Validators :: "cnode list"
  cl_Nodes :: "cnode list"
  cl_External :: bool
  cl_Wallets :: "(string \<times> string) option list"
  cl_Faucet :: "(string \<times> string) option"

record chain_libs =
  li_toml :: toml
  li_MulRaw :: "int \<Rightarrow> int \<Rightarrow> int result"
  li_codec :: genesis_codec
  li_data_dec :: "string \<Rightarrow> gval gomap result"
  li_data_enc :: "gval gomap \<Rightarrow> string result"
  li_ord :: "int gomap \<Rightarrow> int gomap"
  li_NewWallet :: new_wallet
  li_pick :: "error list \<Rightarrow> error"

definition errors_of :: "'a result list \<Rightarrow> error list" where
  "errors_of rs = List.map_filter (\<lambda>r. case r of Inl e \<Rightarrow> Some e | Inr _ \<Rightarrow> None) rs"

definition eg_Wait :: "(error list \<Rightarrow> error) \<Rightarrow> error list \<Rightarrow> unit result" where
  "eg_Wait pick es = (if es = [] then Inr () else Inl (pick es))"

text \<open>One group of goroutines over all validators and nodes.\<close>

definition for_all_nodes ::
    "chain_libs \<Rightarrow> (cnode \<Rightarrow> cnode \<times> unit result) \<Rightarrow> cluster \<Rightarrow> cluster \<times> unit result" where
  "for_all_nodes L f c =
     (let vs = map f (cl_Validators c); ns = map f (cl_Nodes c)
      in (c\<lparr>cl_Validators := map fst vs, cl_Nodes := map fst ns\<rparr>,
          eg_Wait (li_pick L) (errors_of (map snd vs @ map snd ns))))"

definition setup_all :: "chain_libs \<Rightarrow> world \<Rightarrow> WalletConfig \<Rightarrow> Coin list \<Rightarrow> Coin \<Rightarrow> cluster \<Rightarrow> cluster \<times> unit result" where
  "setup_all L W wcfg amounts deleg c =
     (let vs = map (SetupValidator (li_toml L) W wcfg amounts deleg) (cl_Validators c);
          ns = map (SetupNode (li_toml L) W) (cl_Nodes c)
      in (c\<lparr>cl_Validators := map fst vs, cl_Nodes := map fst ns,
            cl_Wallets := map (\<lambda>v. case snd v of Inl _ \<Rightarrow> None | Inr w \<Rightarrow> Some w) vs\<rparr>,
          eg_Wait (li_pick L)
            (map (\<lambda>e. New (''error in validator setup: '' @ Error_str e)) (errors_of (map snd vs)) @
             errors_of (map snd ns))))"

text \<open>\<open>int64(math.Pow10(int(decimals)))\<close> on amd64: a power that does not fit gives the smallest
  \<open>int64\<close>, a negative exponent gives zero.\<close>

definition decimalPow :: "uint64 \<Rightarrow> int" where
  "decimalPow d =
     (let n = int_of_uint64 d
      in if n < 0 then 0 else if n \<le> 18 then 10 ^ nat n else - (2 ^ 63))"

definition index_panic :: error where
  "index_panic = Panic ''index out of range''"

definition GetFullNode :: "(nat \<Rightarrow> nat) \<Rightarrow> cluster \<Rightarrow> (role \<times> nat) result" where
  "GetFullNode rnd c =
     (if cl_Nodes c \<noteq> [] then Inr (FullNode, rnd (length (cl_Nodes c)) mod length (cl_Nodes c))
      else if cl_Validators c \<noteq> [] then Inr (Validator, rnd (length (cl_Validators c)) mod length (cl_Validators c))
      else Inl (Panic ''invalid argument to Intn''))"

definition update_node :: "role \<times> nat \<Rightarrow> (cnode \<Rightarrow> cnode \<times> 'a result) \<Rightarrow> cluster \<Rightarrow> cluster \<times> 'a result" where
  "update_node k f c =
     (case k of
        (FullNode, i) \<Rightarrow>
          (case f (cl_Nodes c ! i) of (n, r) \<Rightarrow> (c\<lparr>cl_Nodes := (cl_Nodes c)[i := n]\<rparr>, r))
      | (Validator, i) \<Rightarrow>
          (case f (cl_Validators c ! i) of (n, r) \<Rightarrow> (c\<lparr>cl_Validators := (cl_Validators c)[i := n]\<rparr>, r)))"

text \<open>\<open>BuildWallet\<close> with an empty mnemonic, on a random full node.\<close>

definition BuildFaucetWallet ::
    "world \<Rightarrow> (nat \<Rightarrow> nat) \<Rightarrow> WalletConfig \<Rightarrow> cluster \<Rightarrow> cluster \<times> (string \<times> string) result" where
  "BuildFaucetWallet W rnd wcfg c =
     (case GetFullNode rnd c of
        Inl e \<Rightarrow> (c, Inl e)
      | Inr k \<Rightarrow> update_node k (CreateWallet W ''faucet'' wcfg) c)"

section \<open>Genesis operations\<close>

text \<open>The loop over the validators after the first: their lines of the script, and the copies of
  their genesis transactions onto the first validator.\<close>

fun copy_gentxs ::
    "world \<Rightarrow> bool \<Rightarrow> ChainConfig \<Rightarrow> string \<Rightarrow> (cnode \<times> (string \<times> string) option) list \<Rightarrow> cnode \<Rightarrow> string \<Rightarrow>
     cnode \<times> string result" where
  "copy_gentxs W sub c amount [] first script = (first, Inr script)"
| "copy_gentxs W sub c amount ((v, w) # vs) first script =
     (case w of
        None \<Rightarrow> (first, Inl (Panic ''nil wallet''))
      | Some (_, address) \<Rightarrow>
          andThen (wrapping (''failed to copy gentx from '' @ nk_Name v) (CopyGenTx W v first)) (\<lambda>first _.
            copy_gentxs W sub c amount vs first (script @ add_account_line sub c address amount)))"

definition collect_line :: "bool \<Rightarrow> ChainConfig \<Rightarrow> string" where
  "collect_line sub c = Join '' '' (BinCommand c (genesis_sub sub @ [''collect-gentxs''])) @ nl"

definition add_accounts :: "chain_libs \<Rightarrow> world \<Rightarrow> Account list \<Rightarrow> Balance list \<Rightarrow> cnode \<Rightarrow> cnode \<times> unit result" where
  "add_accounts L W accounts balances v =
     (case and_then (wrap_err ''failed to get genesis file'' (GenesisFileContent W v)) (\<lambda>bz.
           and_then (li_data_dec L bz) (\<lambda>data.
           and_then (wrap_err ''failed to update genesis accounts'' (UpdateGenesisAccounts accounts data)) (\<lambda>data.
           and_then (wrap_err ''failed to update genesis balances''
              (UpdateGenesisBalances (li_codec L) (li_ord L) balances data)) (\<lambda>data.
             li_data_enc L data)))) of
        Inl e \<Rightarrow> (v, Inl e)
      | Inr bz \<Rightarrow> wrapping ''failed to overwrite genesis file for validator'' (OverwriteGenesisFile W bz v))"

definition for_validators ::
    "chain_libs \<Rightarrow> (cnode \<Rightarrow> cnode \<times> unit result) \<Rightarrow> cluster \<Rightarrow> cluster \<times> unit result" where
  "for_validators L f c =
     (let vs = map f (cl_Validators c)
      in (c\<lparr>cl_Validators := map fst vs\<rparr>, eg_Wait (li_pick L) (errors_of (map snd vs))))"

definition add_all_accounts ::
    "chain_libs \<Rightarrow> world \<Rightarrow> WalletConfig \<Rightarrow> Coin list \<Rightarrow> string \<Rightarrow> int \<Rightarrow> cluster \<Rightarrow> cluster \<times> unit result" where
  "add_all_accounts L W wcfg amounts baseMnemonic num c =
     (if num > 0 then
        (if baseMnemonic = [] then (c, Inl (New ''base-mnemonic is required when additional accounts > 0''))
         else case buildAccounts (li_NewWallet L) wcfg baseMnemonic (length (cl_Validators c) + 1) (nat num) of
                Inl e \<Rightarrow> (c, Inl (Wrap ''failed to build additional accounts'' e))
              | Inr accounts \<Rightarrow>
                  wrapping ''failed to add additional accounts''
                    (for_validators L (add_accounts L W accounts (buildBalances accounts amounts)) c))
      else (c, Inr ()))"

definition executeGenesisOperations ::
    "chain_libs \<Rightarrow> world \<Rightarrow> WalletConfig \<Rightarrow> string \<Rightarrow> Coin list \<Rightarrow> string \<Rightarrow> int \<Rightarrow> cluster \<Rightarrow> cluster \<times> unit result" where
  "executeGenesisOperations L W wcfg faucetAddress amounts baseMnemonic num c =
     (case cl_Validators c of
        [] \<Rightarrow> (c, Inl index_panic)
      | first # rest \<Rightarrow>
          let sub = pc_UseGenesisSubCommand (cl_Config c);
              amount = Join '','' (map coin_string amounts);
              script = script_head @ add_account_line sub (nk_Chain first) faucetAddress amount
          in (case copy_gentxs W sub (nk_Chain first) amount (zip rest (tl (cl_Wallets c))) first script of
                (first, Inl e) \<Rightarrow> (c\<lparr>cl_Validators := first # rest\<rparr>, Inl e)
              | (first, Inr script) \<Rightarrow>
                  (case run_checked W ''failed to run final genesis script'' ''final genesis script failed''
                          (sh (script @ collect_line sub (nk_Chain first))) first of
                     (first, Inl e) \<Rightarrow> (c\<lparr>cl_Validators := first # rest\<rparr>, Inl e)
                   | (first, Inr _) \<Rightarrow>
                       add_all_accounts L W wcfg amounts baseMnemonic num (c\<lparr>cl_Validators := first # rest\<rparr>))))"

section \<open>Configuring a node\<close>

definition p2p_address :: "world \<Rightarrow> bool \<Rightarrow> cnode \<Rightarrow> string result" where
  "p2p_address W useExternal n =
     (if useExternal
      then wrap_err ''failed to get external address for p2p port'' (wd_External (W (nk_Name n)) ''26656'')
      else and_then (wrap_err ''failed to get ip for p2p port'' (wd_IP (W (nk_Name n)))) (\<lambda>ip. Inr (ip @ '':26656'')))"

text \<open>The peer sets only read \<open>node_key.json\<close> and the addresses of the peers, which no goroutine of
  the group writes, so they are the values before the group starts.\<close>

definition configureNode ::
    "toml \<Rightarrow> world \<Rightarrow> ChainConfig \<Rightarrow> string \<Rightarrow> peer list \<Rightarrow> peer list \<Rightarrow> bool \<Rightarrow> cnode \<Rightarrow> cnode \<times> unit result" where
  "configureNode tm W chainConfig genbz persistentPeers seeds useExternal n =
     (let fe = wd_file (W (nk_Name n))
      in andThen (OverwriteGenesisFile W genbz n) (\<lambda>n _.
         andThen (n, p2p_address W useExternal n) (\<lambda>n addr.
         andThen (on_files (SetChainConfigs tm fe (nk_Chain n) (pc_ChainId chainConfig) addr) n) (\<lambda>n _.
         andThen (n, wrap_err ''failed to get comet peer string for persistent peers''
                       (AsCometPeerString useExternal persistentPeers)) (\<lambda>n persistent.
         andThen (on_files (SetPersistentPeers tm fe persistent) n) (\<lambda>n _.
         andThen (n, wrap_err ''failed to get comet peer string for seeds'' (AsCometPeerString useExternal seeds)) (\<lambda>n seed.
         andThen (on_files (SetSeedNode tm fe seed) n) (\<lambda>n _.
           if UseLibP2P chainConfig then
             andThen (n, wrap_err ''failed to compose lib-p2p bootstrap peers''
                           (composeLibP2PBootstrapPeers useExternal [seeds, persistentPeers])) (\<lambda>n bps.
               wrapping ''failed to set lib-p2p bootstrap peers'' (on_files (SetLibP2PBootstrapPeers tm fe bps) n))
           else (n, Inr ())))))))))"

definition start_node :: "world \<Rightarrow> cnode \<Rightarrow> cnode \<times> unit result" where
  "start_node W n =
     (case wd_Start (W (nk_Name n)) of
        Some e \<Rightarrow> (n, Inl e)
      | None \<Rightarrow> (n\<lparr>nk_Running := True\<rparr>, Inr ()))"

section \<open>Init\<close>

text \<open>The first part of \<open>Init\<close>: the coins, the setup of every node, the faucet wallet, the genesis
  operations, and the genesis of the first validator after the modifications.\<close>

definition genesis_coins :: "chain_libs \<Rightarrow> ChainConfig \<Rightarrow> (Coin list \<times> Coin) result" where
  "genesis_coins L c =
     and_then (li_MulRaw L (GetGenesisBalance c) (decimalPow (pc_Decimals c))) (\<lambda>balance.
     and_then (li_MulRaw L (GetGenesisDelegation c) (decimalPow (pc_Decimals c))) (\<lambda>deleg.
       Inr ([\<lparr> co_Denom = pc_Denom c, co_Amount = balance \<rparr>], \<lparr> co_Denom = pc_Denom c, co_Amount = deleg \<rparr>)))"

definition final_genesis :: "world \<Rightarrow> (string \<Rightarrow> string result) option \<Rightarrow> cluster \<Rightarrow> string result" where
  "final_genesis W modify c =
     (case cl_Validators c of
        [] \<Rightarrow> Inl index_panic
      | first # _ \<Rightarrow>
          and_then (GenesisFileContent W first) (\<lambda>genbz. case modify of None \<Rightarrow> Inr genbz | Some f \<Rightarrow> f genbz))"

definition init_genesis ::
    "chain_libs \<Rightarrow> world \<Rightarrow> (nat \<Rightarrow> nat) \<Rightarrow> 'n chain_options \<Rightarrow> cluster \<Rightarrow> cluster \<times> string result" where
  "init_genesis L W rnd opts c =
     andThen (c, wrap_err ''failed to validate chain options'' (ChainOptions_ValidateBasic opts)) (\<lambda>c _.
     andThen (c, genesis_coins L (cl_Config c)) (\<lambda>c (amounts, deleg).
     andThen (setup_all L W (co_WalletConfig opts) amounts deleg c) (\<lambda>c _.
     andThen (BuildFaucetWallet W rnd (co_WalletConfig opts) c) (\<lambda>c faucet.
     andThen (executeGenesisOperations L W (co_WalletConfig opts) (snd faucet) amounts (co_BaseMnemonic opts)
                (co_AdditionalAccounts opts) (c\<lparr>cl_Faucet := Some faucet\<rparr>)) (\<lambda>c _.
       (c, final_genesis W (co_ModifyGenesis opts) c))))))"

definition seed_peers :: "world \<Rightarrow> cluster \<Rightarrow> peer list result" where
  "seed_peers W c =
     (if pc_SetSeedNode (cl_Config c) then
        (case cl_Nodes c of
           [] \<Rightarrow> Inl (New ''no nodes available to be used as seed '')
         | seedNode # _ \<Rightarrow> Inr [as_peer W seedNode])
      else Inr [])"

definition persistent_peers :: "world \<Rightarrow> cluster \<Rightarrow> peer list" where
  "persistent_peers W c =
     (if pc_SetPersistentPeers (cl_Config c) then map (as_peer W) (cl_Nodes c @ cl_Validators c) else [])"

definition set_seed_mode :: "chain_libs \<Rightarrow> world \<Rightarrow> cluster \<Rightarrow> cluster \<times> unit result" where
  "set_seed_mode L W c =
     (case cl_Nodes c of
        [] \<Rightarrow> (c, Inr ())
      | seedNode # ns \<Rightarrow>
          if pc_SetSeedNode (cl_Config c) then
            (case on_files (SetSeedMode (li_toml L) (wd_file (W (nk_Name seedNode)))) seedNode of
               (seedNode', res) \<Rightarrow>
                 (c\<lparr>cl_Nodes := seedNode' # ns\<rparr>, wrap_err (''failed to set seed mode on '' @ nk_Name seedNode) res))
          else (c, Inr ()))"

definition Init :: "chain_libs \<Rightarrow> world \<Rightarrow> (nat \<Rightarrow> nat) \<Rightarrow> 'n chain_options \<Rightarrow> cluster \<Rightarrow> cluster \<times> unit result" where
  "Init L W rnd opts c =
     andThen (init_genesis L W rnd opts c) (\<lambda>c genbz.
     andThen (c, seed_peers W c) (\<lambda>c seeds.
     andThen (for_all_nodes L (configureNode (li_toml L) W (cl_Config c) genbz (persistent_peers W c) seeds (cl_External c)) c) (\<lambda>c _.
     andThen (set_seed_mode L W c) (\<lambda>c _.
       for_all_nodes L (start_node W) c))))"

section \<open>Teardown, heights and packaged state\<close>

text \<open>\<open>Teardown\<close> destroys one node after the other; the result is the names of those destroyed.\<close>

fun destroy_each :: "world \<Rightarrow> cnode list \<Rightarrow> string list \<times> unit result" where
  "destroy_each W [] = ([], Inr ())"
| "destroy_each W (n # ns) =
     (case wd_Destroy (W (nk_Name n)) of
        Some e \<Rightarrow> ([], Inl e)
      | None \<Rightarrow> (case destroy_each W ns of (gone, res) \<Rightarrow> (nk_Name n # gone, res)))"

definition Teardown :: "world \<Rightarrow> cluster \<Rightarrow> string list \<times> unit result" where
  "Teardown W c =
     andThen (destroy_each W (cl_Validators c)) (\<lambda>gone _.
       case destroy_each W (cl_Nodes c) of (gone', res) \<Rightarrow> (gone @ gone', res))"

text \<open>What a waiting loop sees, one element per turn of its \<open>select\<close>: the context is done, or the
  ticker fired and the height was asked for. A loop still waiting when the list ends is \<open>None\<close>;
  otherwise its result comes with the turns it has not used.\<close>

datatype turn = is_Done: Done error | Tick "uint64 result"

fun WaitForHeight :: "uint64 \<Rightarrow> turn list \<Rightarrow> (unit result \<times> turn list) option" where
  "WaitForHeight desired [] = None"
| "WaitForHeight desired (Done e # ts) = Some (Inl e, ts)"
| "WaitForHeight desired (Tick (Inl e) # ts) = WaitForHeight desired ts"
| "WaitForHeight desired (Tick (Inr height) # ts) =
     (if desired \<le> height then Some (Inr (), ts) else WaitForHeight desired ts)"

definition WaitForBlocks :: "uint64 \<Rightarrow> uint64 result \<Rightarrow> turn list \<Rightarrow> (unit result \<times> turn list) option" where
  "WaitForBlocks delta start ts =
     (case start of Inl e \<Rightarrow> Some (Inl e, ts) | Inr h \<Rightarrow> WaitForHeight (h + delta) ts)"

lemma WaitForHeight_uses: "WaitForHeight d ts = Some (r, ts') \<Longrightarrow> length ts' < length ts"
  by (induction d ts rule: WaitForHeight.induct) (auto split: if_splits)

text \<open>The outer loop of \<open>WaitForStartup\<close>: each of its own ticks runs a whole \<open>WaitForHeight\<close>, and an
  error of that, the context's included, only makes it go round again. An outer tick asks for no
  height itself, so what it carries is not read.\<close>

function WaitForStartup :: "turn list \<Rightarrow> (unit result \<times> turn list) option" where
  "WaitForStartup [] = None"
| "WaitForStartup (Done e # ts) = Some (Inl e, ts)"
| "WaitForStartup (Tick h # ts) =
     (case WaitForHeight 1 ts of
        None \<Rightarrow> None
      | Some (Inr _, ts') \<Rightarrow> Some (Inr (), ts')
      | Some (Inl _, ts') \<Rightarrow> WaitForStartup ts')"
  by pat_completeness auto
termination
  by (relation "measure length") (auto dest: WaitForHeight_uses)

record PackagedState =
  ps_Config :: ChainConfig
  ps_ValidatorStates :: "string list"
  ps_NodeStates :: "string list"
  ps_ValidatorWallets :: "string list"
  ps_FaucetWallet :: string

record 'n packed_chain =
  pk_Config :: ChainConfig
  pk_Validators :: "'n list"
  pk_Nodes :: "'n list"
  pk_ValidatorWallets :: "(string \<times> string) option list"
  pk_FaucetWallet :: "(string \<times> string) option"
  pk_useExternalAddresses :: bool

definition wallet_mnemonic :: "(string \<times> string) option \<Rightarrow> string result" where
  "wallet_mnemonic w = (case w of None \<Rightarrow> Inl (Panic ''nil wallet'') | Some (m, _) \<Rightarrow> Inr m)"

text \<open>\<open>ser\<close> and \<open>res\<close> are the \<open>Serialize\<close> method of a node and the node restorer, \<open>enc\<close> and \<open>dec\<close> the
  JSON codec of the packaged state, \<open>nw\<close> the derivation of a wallet from its mnemonic.\<close>

definition Serialize :: "('n \<Rightarrow> string result) \<Rightarrow> (PackagedState \<Rightarrow> string result) \<Rightarrow> 'n packed_chain \<Rightarrow> string result" where
  "Serialize ser enc c =
     and_then (each ser (pk_Validators c)) (\<lambda>vs.
     and_then (each ser (pk_Nodes c)) (\<lambda>ns.
     and_then (each wallet_mnemonic (pk_ValidatorWallets c)) (\<lambda>ws.
       enc \<lparr> ps_Config = pk_Config c, ps_ValidatorStates = vs, ps_NodeStates = ns, ps_ValidatorWallets = ws,
             ps_FaucetWallet = (case pk_FaucetWallet c of None \<Rightarrow> [] | Some (m, _) \<Rightarrow> m) \<rparr>)))"

definition group_results :: "(error list \<Rightarrow> error) \<Rightarrow> 'a result list \<Rightarrow> 'b result list \<Rightarrow> ('a list \<times> 'b list) result" where
  "group_results pick rs qs =
     (case errors_of rs @ errors_of qs of
        [] \<Rightarrow> Inr (map projr rs, map projr qs)
      | es \<Rightarrow> Inl (pick es))"

definition RestoreChain ::
    "(string \<Rightarrow> 'n result) \<Rightarrow> (string \<Rightarrow> PackagedState result) \<Rightarrow> (error list \<Rightarrow> error) \<Rightarrow>
     (string \<Rightarrow> (string \<times> string) result) \<Rightarrow> string \<Rightarrow> 'n packed_chain result" where
  "RestoreChain res dec pick nw state =
     and_then (dec state) (\<lambda>ps.
     and_then (group_results pick (map res (ps_ValidatorStates ps)) (map res (ps_NodeStates ps))) (\<lambda>(vs, ns).
     and_then (each (\<lambda>m. wrap_err ''failed to restore validator wallet'' (nw m)) (ps_ValidatorWallets ps)) (\<lambda>ws.
     and_then (if ps_FaucetWallet ps = [] then Inr None
               else and_then (wrap_err ''failed to restore faucet wallet'' (nw (ps_FaucetWallet ps))) (\<lambda>w. Inr (Some w))) (\<lambda>f.
       Inr \<lparr> pk_Config = ps_Config ps, pk_Validators = vs, pk_Nodes = ns, pk_ValidatorWallets = map Some ws,
             pk_FaucetWallet = f, pk_useExternalAddresses = False \<rparr>))))"

section \<open>Lemmas\<close>

named_theorems node_frame \<open>steps that keep the config and the run state of a node\<close>
named_theorems genesis_frame \<open>steps that keep the genesis file of a node\<close>

text \<open>The same node, up to its files.\<close>

definition same_node :: "cnode \<Rightarrow> cnode \<Rightarrow> bool" where
  "same_node n m \<longleftrightarrow> nk_Config m = nk_Config n \<and> nk_Running m = nk_Running n"

lemma same_node_refl [simp, intro!]: "same_node n n"
  by (simp add: same_node_def)

lemma same_on_files [node_frame]: "same_node n m \<Longrightarrow> same_node n (fst (on_files f m))"
  by (auto simp: same_node_def on_files_def split: prod.splits)

lemma same_andThen [node_frame]:
  "same_node n (fst r) \<Longrightarrow> (\<And>m x. same_node n m \<Longrightarrow> same_node n (fst (f m x))) \<Longrightarrow> same_node n (fst (andThen r f))"
  by (rule andThen_inv)

lemma same_run_checked [node_frame]: "same_node n m \<Longrightarrow> same_node n (fst (run_checked W a b cmd m))"
  unfolding run_checked_def by (intro node_frame) (auto intro: node_frame)

lemma same_RecoverKey [node_frame]: "same_node n m \<Longrightarrow> same_node n (fst (RecoverKey W name mn m))"
proof -
  assume "same_node n m"
  then have "same_node n (fst (on_files f m))" for f :: "string gomap \<Rightarrow> string gomap \<times> (int \<times> string \<times> string) result"
    by (rule same_on_files)
  then show ?thesis by (simp add: RecoverKey_def Let_def split_beta split: sum.split)
qed

lemma same_CreateWallet [node_frame]: "same_node n m \<Longrightarrow> same_node n (fst (CreateWallet W name cfg m))"
  by (auto simp: CreateWallet_def split: sum.splits intro!: node_frame)

lemma same_SetupValidator [node_frame]: "same_node n m \<Longrightarrow> same_node n (fst (SetupValidator tm W wcfg am de m))"
  unfolding SetupValidator_def by (auto simp: set_client_config_def intro!: node_frame)

lemma same_SetupNode [node_frame]: "same_node n m \<Longrightarrow> same_node n (fst (SetupNode tm W m))"
  unfolding SetupNode_def by (auto simp: set_client_config_def intro!: node_frame)

lemma same_node_write [node_frame]: "same_node n m \<Longrightarrow> same_node n (fst (node_write W path s m))"
  by (simp add: node_write_def node_frame)

lemma same_CopyGenTx [node_frame]: "same_node n m \<Longrightarrow> same_node n (fst (CopyGenTx W src m))"
  by (auto simp: CopyGenTx_def Let_def split: sum.splits intro!: node_frame)

lemma same_copy_gentxs [node_frame]: "same_node n m \<Longrightarrow> same_node n (fst (copy_gentxs W sub c am vs m script))"
  by (induction W sub c am vs m script rule: copy_gentxs.induct)
    (auto split: option.splits intro!: node_frame)

lemma same_add_accounts [node_frame]: "same_node n m \<Longrightarrow> same_node n (fst (add_accounts L W ac ba m))"
  by (auto simp: add_accounts_def OverwriteGenesisFile_def split: sum.splits intro!: node_frame)

lemma same_configureNode [node_frame]: "same_node n m \<Longrightarrow> same_node n (fst (configureNode tm W cc bz pp ss ext m))"
  unfolding configureNode_def OverwriteGenesisFile_def Let_def
  by (auto intro!: node_frame split: if_splits)

section \<open>The genesis of a configured node\<close>

definition has_genesis :: "string \<Rightarrow> cnode \<Rightarrow> bool" where
  "has_genesis bz n \<longleftrightarrow> mget (nk_Files n) ''config/genesis.json'' = Some bz"

lemma then_files_other:
  "mget (fst r) p = x \<Longrightarrow> (\<And>files. mget files p = x \<Longrightarrow> mget (fst (f files)) p = x) \<Longrightarrow> mget (fst (then_files r f)) p = x"
  by (auto simp: then_files_def split: prod.splits sum.splits)

lemma apply_custom_other: "p \<noteq> path \<Longrightarrow> mget (fst (apply_custom tm fe kind path custom files)) p = mget files p"
  using modify_other_file [of p path tm fe _ files]
  by (auto simp: apply_custom_def split: option.splits list.splits prod.splits) (metis fst_conv)+

lemma SetChainConfigs_other:
  "p \<notin> {''config/app.toml'', ''config/config.toml'', ''config/client.toml''} \<Longrightarrow>
     mget (fst (SetChainConfigs tm fe c i a files)) p = mget files p"
  unfolding SetChainConfigs_def ApplyCustomConfigs_def
  by (intro then_files_other) (simp_all add: modify_other_file apply_custom_other)

lemma SetLibP2P_other: "p \<noteq> ''config/config.toml'' \<Longrightarrow> mget (fst (SetLibP2PBootstrapPeers tm fe ps files)) p = mget files p"
  by (auto simp: SetLibP2PBootstrapPeers_def modify_other_file split: sum.splits)

lemma genesis_on_files [genesis_frame]:
  "has_genesis bz n \<Longrightarrow> (\<And>files. mget (fst (f files)) ''config/genesis.json'' = mget files ''config/genesis.json'') \<Longrightarrow>
     has_genesis bz (fst (on_files f n))"
  by (auto simp: has_genesis_def on_files_def split: prod.splits) (metis fst_conv)

lemma genesis_andThen [genesis_frame]:
  "has_genesis bz (fst r) \<Longrightarrow> (\<And>m x. has_genesis bz m \<Longrightarrow> has_genesis bz (fst (f m x))) \<Longrightarrow>
     has_genesis bz (fst (andThen r f))"
  by (rule andThen_inv)

lemma overwrite_has_genesis: "OverwriteGenesisFile W bz n = (n', Inr ()) \<Longrightarrow> has_genesis bz n'"
  by (auto simp: OverwriteGenesisFile_def node_write_def on_files_def WriteFile_def has_genesis_def
      split: option.splits)

lemmas file_others = modify_other_file SetChainConfigs_other SetLibP2P_other

lemma configured_has_genesis:
  assumes "configureNode tm W cc bz pp ss ext n = (n', Inr ())"
  shows "has_genesis bz n'"
proof -
  obtain m where m: "OverwriteGenesisFile W bz n = (m, Inr ())"
    using assms by (auto simp: configureNode_def Let_def andThen_ok)
  have "has_genesis bz (fst (configureNode tm W cc bz pp ss ext n))"
    unfolding configureNode_def Let_def andThen_def [of "OverwriteGenesisFile W bz n"] m prod.case sum.case
    by (intro genesis_frame) (auto simp: overwrite_has_genesis [OF m] SetPersistentPeers_def SetSeedNode_def file_others
        intro!: genesis_frame split: if_splits)
  then show ?thesis using assms by simp
qed

section \<open>The chain as a whole\<close>

abbreviation all_nodes :: "cluster \<Rightarrow> cnode list" where
  "all_nodes c \<equiv> cl_Validators c @ cl_Nodes c"

text \<open>The same nodes, up to their files.\<close>

definition same_cluster :: "cluster \<Rightarrow> cluster \<Rightarrow> bool" where
  "same_cluster c d \<longleftrightarrow> list_all2 same_node (cl_Validators c) (cl_Validators d) \<and>
     list_all2 same_node (cl_Nodes c) (cl_Nodes d) \<and> cl_Config d = cl_Config c"

lemma same_node_trans: "same_node a b \<Longrightarrow> same_node b c \<Longrightarrow> same_node a c"
  by (simp add: same_node_def)

lemma same_nodes_trans: "list_all2 same_node a b \<Longrightarrow> list_all2 same_node b c \<Longrightarrow> list_all2 same_node a c"
  by (rule list_all2_trans [OF same_node_trans])

lemma same_nodes_map: "list_all2 same_node xs ys \<Longrightarrow> (\<And>n. same_node n (f n)) \<Longrightarrow> list_all2 same_node xs (map f ys)"
  unfolding list_all2_map2 by (erule list_all2_mono) (blast intro: same_node_trans)

lemma same_nodes_upd:
  "list_all2 same_node xs ys \<Longrightarrow> same_node (ys ! i) n \<Longrightarrow> list_all2 same_node xs (ys[i := n])"
  by (cases "i < length ys") (auto simp: list_all2_conv_all_nth nth_list_update same_node_def)

lemma same_nodes_refl [simp]: "list_all2 same_node xs xs"
  by (simp add: list_all2_refl)

lemma same_cluster_refl [simp]: "same_cluster c c"
  by (simp add: same_cluster_def)

lemma same_cluster_trans: "same_cluster a b \<Longrightarrow> same_cluster b c \<Longrightarrow> same_cluster a c"
  by (auto simp: same_cluster_def intro: same_nodes_trans)

text \<open>What a group of goroutines relies on: the step each of them runs changes nothing of its node but
  the files.\<close>

locale node_step =
  fixes f :: "cnode \<Rightarrow> cnode \<times> 'a result"
  assumes keeps_node: "same_node n (fst (f n))"
begin

lemma keeps_nodes: "list_all2 same_node ns (map (fst \<circ> f) ns)"
  by (rule same_nodes_map) (simp_all add: keeps_node)

end

locale group_step = node_step f for f :: "cnode \<Rightarrow> cnode \<times> unit result"
begin

lemma for_all_nodes_same: "same_cluster c (fst (for_all_nodes L f c))"
  using keeps_nodes by (simp add: for_all_nodes_def Let_def same_cluster_def comp_def)

lemma for_validators_same: "same_cluster c (fst (for_validators L f c))"
  using keeps_nodes by (simp add: for_validators_def Let_def same_cluster_def comp_def)

end

interpretation validator_setup: node_step "SetupValidator tm W wcfg am de" for tm W wcfg am de
  by unfold_locales (intro node_frame same_node_refl)

interpretation node_setup: group_step "SetupNode tm W" for tm W
  by unfold_locales (intro node_frame same_node_refl)

interpretation account_step: group_step "add_accounts L W ac ba" for L W ac ba
  by unfold_locales (intro node_frame same_node_refl)

interpretation configuring: group_step "configureNode tm W cc bz pp ss ext" for tm W cc bz pp ss ext
  by unfold_locales (intro node_frame same_node_refl)

lemma setup_all_same: "same_cluster c (fst (setup_all L W wcfg am de c))"
  using validator_setup.keeps_nodes node_setup.keeps_nodes
  by (simp add: setup_all_def Let_def same_cluster_def comp_def)

lemma faucet_same: "same_cluster c (fst (BuildFaucetWallet W rnd wcfg c))"
  using same_CreateWallet [OF same_node_refl]
  by (auto simp: BuildFaucetWallet_def update_node_def same_cluster_def split_beta
      split: sum.split role.split intro!: same_nodes_upd)

lemma add_all_same: "same_cluster c (fst (add_all_accounts L W wcfg am bm num c))"
  using account_step.for_validators_same by (auto simp: add_all_accounts_def split: sum.split)

lemma genesis_ops_same: "same_cluster c (fst (executeGenesisOperations L W wcfg fa am bm num c))"
proof (cases "cl_Validators c")
  case Nil
  then show ?thesis by (simp add: executeGenesisOperations_def)
next
  case (Cons first rest)
  have head: "same_cluster c (c\<lparr>cl_Validators := v # rest\<rparr>)" if "same_node first v" for v
    using that Cons by (simp add: same_cluster_def)
  let ?sub = "pc_UseGenesisSubCommand (cl_Config c)"
  let ?script = "script_head @ add_account_line ?sub (nk_Chain first) fa (Join '','' (map coin_string am))"
  obtain v r where copy: "copy_gentxs W ?sub (nk_Chain first) (Join '','' (map coin_string am)) (zip rest (tl (cl_Wallets c)))
      first ?script = (v, r)" by fastforce
  from same_copy_gentxs [OF same_node_refl [of first]] copy have v: "same_node first v" by (metis fst_conv)
  show ?thesis
  proof (cases r)
    case (Inl e)
    then show ?thesis using Cons copy head [OF v] by (simp add: executeGenesisOperations_def Let_def)
  next
    case (Inr script)
    obtain v' r' where run: "run_checked W ''failed to run final genesis script'' ''final genesis script failed''
        (sh (script @ collect_line ?sub (nk_Chain v))) v = (v', r')" by fastforce
    with same_run_checked [OF v] have v': "same_node first v'" by (metis fst_conv)
    have "same_cluster c (fst (add_all_accounts L W wcfg am bm num (c\<lparr>cl_Validators := v' # rest\<rparr>)))"
      using same_cluster_trans [OF head [OF v'] add_all_same] .
    then show ?thesis
      using Cons copy Inr run head [OF v'] by (cases r') (simp_all add: executeGenesisOperations_def Let_def)
  qed
qed

lemma init_genesis_same: "same_cluster c (fst (init_genesis L W rnd opts c))"
proof -
  note step = same_cluster_trans
  have faucet: "same_cluster c (d\<lparr>cl_Faucet := f\<rparr>)" if "same_cluster c d" for d f
    using that by (simp add: same_cluster_def)
  show ?thesis
    unfolding init_genesis_def
    by (intro andThen_inv [where P = "same_cluster c"])
      (auto split: prod.split intro!: andThen_inv [where P = "same_cluster c"] step [OF _ setup_all_same]
        step [OF _ faucet_same] step [OF faucet genesis_ops_same])
qed

lemma seed_mode_same: "same_cluster c (fst (set_seed_mode L W c))"
proof (cases "cl_Nodes c")
  case (Cons n ns)
  then show ?thesis
    by (simp add: set_seed_mode_def same_cluster_def split_beta same_on_files)
qed (simp add: set_seed_mode_def)

lemma errors_of_empty: "errors_of rs = [] \<longleftrightarrow> (\<forall>r \<in> set rs. is_ok r)"
  by (induction rs) (auto simp: errors_of_def is_ok_def map_filter_simps split: sum.split)

lemma is_ok_unit: "is_ok (r :: unit result) \<longleftrightarrow> r = Inr ()"
  by (cases r) (auto simp: is_ok_def)

lemma for_all_nodes_ok:
  "for_all_nodes L f c = (c', Inr ()) \<Longrightarrow>
     (\<forall>n \<in> set (all_nodes c'). \<exists>m \<in> set (all_nodes c). f m = (n, Inr ()))"
proof -
  assume "for_all_nodes L f c = (c', Inr ())"
  then have nodes: "all_nodes c' = map (fst \<circ> f) (all_nodes c)" and ok: "\<forall>m \<in> set (all_nodes c). snd (f m) = Inr ()"
    by (auto simp: for_all_nodes_def Let_def eg_Wait_def errors_of_empty is_ok_unit split: if_splits)
  show ?thesis
  proof
    fix n
    assume "n \<in> set (all_nodes c')"
    then obtain m where "m \<in> set (all_nodes c)" "n = fst (f m)" unfolding nodes by auto
    then show "\<exists>m \<in> set (all_nodes c). f m = (n, Inr ())" using ok by (metis prod.collapse)
  qed
qed

lemma seed_mode_genesis: 
  "\<forall>n \<in> set (all_nodes c). has_genesis bz n \<Longrightarrow> \<forall>n \<in> set (all_nodes (fst (set_seed_mode L W c))). has_genesis bz n"
  by (cases "cl_Nodes c")
    (auto simp: set_seed_mode_def split_beta SetSeedMode_def modify_other_file intro!: genesis_on_files)

lemma start_genesis: 
  "\<forall>n \<in> set (all_nodes c). has_genesis bz n \<Longrightarrow> \<forall>n \<in> set (all_nodes (fst (for_all_nodes L (start_node W) c))). has_genesis bz n"
  by (auto simp: for_all_nodes_def Let_def start_node_def has_genesis_def split: option.split)

lemma same_nodes_iff:
  "list_all2 same_node xs ys \<longleftrightarrow> map nk_Config ys = map nk_Config xs \<and> map nk_Running ys = map nk_Running xs"
  by (auto simp: list_all2_conv_all_nth same_node_def list_eq_iff_nth_eq)

lemma same_running:
  assumes "same_cluster c d" "\<forall>n \<in> set (all_nodes c). \<not> nk_Running n"
  shows "\<forall>n \<in> set (all_nodes d). \<not> nk_Running n"
proof -
  from assms(1) have "map nk_Running (all_nodes d) = map nk_Running (all_nodes c)"
    by (simp add: same_cluster_def same_nodes_iff)
  then have "nk_Running ` set (all_nodes d) = nk_Running ` set (all_nodes c)" by (metis set_map)
  with assms(2) show ?thesis by auto
qed

lemma started_node: "start_node W m = (n, Inr ()) \<Longrightarrow> nk_Running n"
  by (auto simp: start_node_def split: option.splits)

lemma start_config: "map nk_Config (map (fst \<circ> start_node W) ns) = map nk_Config ns"
  by (simp add: start_node_def split: option.split)

definition configure_all :: "chain_libs \<Rightarrow> world \<Rightarrow> string \<Rightarrow> peer list \<Rightarrow> cluster \<Rightarrow> cluster \<times> unit result" where
  "configure_all L W bz seeds c =
     for_all_nodes L (configureNode (li_toml L) W (cl_Config c) bz (persistent_peers W c) seeds (cl_External c)) c"

lemma configure_all_same: "same_cluster c (fst (configure_all L W bz seeds c))"
  unfolding configure_all_def by (rule configuring.for_all_nodes_same)

lemma configure_all_genesis:
  "configure_all L W bz seeds c = (c', Inr ()) \<Longrightarrow> \<forall>n \<in> set (all_nodes c'). has_genesis bz n"
  unfolding configure_all_def using for_all_nodes_ok configured_has_genesis by blast

text \<open>A run of \<open>Init\<close> either stops before the nodes are started, or starts them with the genesis on
  every node.\<close>

lemma Init_cases:
  assumes "Init L W rnd opts c = (c', res)"
  obtains (early) e where "same_cluster c c'" "res = Inl e"
  | (late) c1 bz c3 where "init_genesis L W rnd opts c = (c1, Inr bz)" "same_cluster c c3"
      "\<forall>n \<in> set (all_nodes c3). has_genesis bz n" "for_all_nodes L (start_node W) c3 = (c', res)"
proof -
  obtain c1 g where g: "init_genesis L W rnd opts c = (c1, g)" by fastforce
  with init_genesis_same [of c L W rnd opts] have s1: "same_cluster c c1" by simp
  show thesis
  proof (cases "(\<exists>e. g = Inl e) \<or> (\<exists>e. seed_peers W c1 = Inl e)")
    case True
    then show thesis using assms g s1 early by (auto simp: Init_def andThen_def split: sum.splits)
  next
    case False
    then obtain bz seeds where ok: "g = Inr bz" "seed_peers W c1 = Inr seeds" by (metis sum.exhaust)
    obtain c2 r2 where r2: "configure_all L W bz seeds c1 = (c2, r2)" by fastforce
    with same_cluster_trans [OF s1 configure_all_same] have s2: "same_cluster c c2" by (metis fst_conv)
    obtain c3 r3 where r3: "set_seed_mode L W c2 = (c3, r3)" by fastforce
    with same_cluster_trans [OF s2 seed_mode_same] have s3: "same_cluster c c3" by (metis fst_conv)
    have run: "Init L W rnd opts c = andThen (c2, r2) (\<lambda>c2 _. andThen (set_seed_mode L W c2) (\<lambda>c _.
        for_all_nodes L (start_node W) c))"
      using g ok r2 by (simp add: Init_def andThen_def configure_all_def)
    show thesis
    proof (cases "r2 = Inr () \<and> r3 = Inr ()")
      case True
      then have "configure_all L W bz seeds c1 = (c2, Inr ())" "fst (set_seed_mode L W c2) = c3" using r2 r3 by simp_all
      then have "\<forall>n \<in> set (all_nodes c3). has_genesis bz n"
        using seed_mode_genesis [OF configure_all_genesis] by metis
      then show thesis using late [of c1 bz c3] g ok s3 assms run True r3 by (simp add: andThen_def)
    next
      case False
      then show thesis using early assms run r3 s2 s3 by (cases r2; cases r3) (auto simp: andThen_def)
    qed
  qed
qed

lemma Init_success:
  assumes "Init L W rnd opts c = (c', Inr ())"
  shows "\<exists>c1 bz. init_genesis L W rnd opts c = (c1, Inr bz) \<and> (\<forall>n \<in> set (all_nodes c'). has_genesis bz n \<and> nk_Running n)"
  using assms
proof (cases rule: Init_cases)
  case (late c1 bz c3)
  then have "\<forall>n \<in> set (all_nodes c'). has_genesis bz n" using start_genesis [of c3 bz L W] by simp
  moreover have "\<forall>n \<in> set (all_nodes c'). nk_Running n"
    using for_all_nodes_ok [OF late(4)] started_node by blast
  ultimately show ?thesis using late(1) by blast
qed simp

lemma Init_keeps_nodes:
  assumes "Init L W rnd opts c = (c', res)"
  shows "map nk_Config (cl_Validators c') = map nk_Config (cl_Validators c) \<and>
    map nk_Config (cl_Nodes c') = map nk_Config (cl_Nodes c)"
  using assms
proof (cases rule: Init_cases)
  case early
  then show ?thesis by (simp add: same_cluster_def same_nodes_iff)
next
  case (late c1 bz c3)
  then have "map nk_Config (cl_Validators c') = map nk_Config (cl_Validators c3)"
    "map nk_Config (cl_Nodes c') = map nk_Config (cl_Nodes c3)"
    using start_config [of W] by (auto simp: for_all_nodes_def Let_def)
  then show ?thesis using late(2) by (simp add: same_cluster_def same_nodes_iff)
qed

section \<open>Properties\<close>

text \<open>C3: when Init succeeds, every validator and every node runs, with the same genesis file: the
  one collected on the first validator, as modified.\<close>

theorem Init_agrees_on_genesis:
  assumes "Init L W rnd opts c = (c', Inr ())"
  shows "\<exists>c1 bz. init_genesis L W rnd opts c = (c1, Inr bz) \<and>
    (\<forall>n \<in> set (cl_Validators c' @ cl_Nodes c'). mget (nk_Files n) ''config/genesis.json'' = Some bz \<and> nk_Running n)"
  using Init_success [OF assms] by (auto simp: has_genesis_def)

definition demo_init_files :: "string gomap" where
  "demo_init_files = [(''config/app.toml'', []), (''config/config.toml'', []), (''config/client.toml'', []),
     (''config/genesis.json'', ''G''), (''config/node_key.json'', ''K''), (''config/gentx/gentx-id.json'', ''T'')]"

text \<open>A world in which every command succeeds and leaves the files \<open>init\<close> writes.\<close>

definition demo_world :: world where
  "demo_world name = \<lparr> wd_file = demo_file_env, wd_run = (\<lambda>_ files. (mcopy demo_init_files files, Inr (0, [], []))),
     wd_IP = Inr ''10.0.0.1'', wd_PrivateIP = Inr ''10.0.0.1'', wd_External = (\<lambda>_. Inr ''h:1''),
     wd_Start = None, wd_Destroy = None, wd_wallet = (\<lambda>_ _. Inr (''words'', ''cosmos1'')),
     wd_node_key = (\<lambda>_. Inr (''id'', Inr ''peer'')) \<rparr>"

definition demo_libs :: chain_libs where
  "demo_libs = \<lparr> li_toml = \<lparr> toml_dec = (\<lambda>_. Inr []), toml_enc = (\<lambda>_. Inr ''T'') \<rparr>, li_MulRaw = (\<lambda>a b. Inr (a * b)),
     li_codec = demo_genesis_codec, li_data_dec = (\<lambda>_. Inl (New [])), li_data_enc = (\<lambda>_. Inl (New [])), li_ord = (\<lambda>m. m),
     li_NewWallet = (\<lambda>_ _ _ _. Inl (New [])), li_pick = hd \<rparr>"

definition demo_node :: "string \<Rightarrow> cnode" where
  "demo_node name = \<lparr> nk_Config = \<lparr> nc_Name = name, nc_Index = 0, nc_ChainConfig = demo_chain_config \<rparr>,
     nk_Files = [], nk_Running = False \<rparr>"

definition demo_cluster :: cluster where
  "demo_cluster = \<lparr> cl_Config = demo_chain_config, cl_Validators = [demo_node ''hub-validator-0''],
     cl_Nodes = [demo_node ''hub-node-0''], cl_External = False, cl_Wallets = [None], cl_Faucet = None \<rparr>"

definition demo_init :: "cluster \<times> unit result" where
  "demo_init = Init demo_libs demo_world (\<lambda>_. 0) (demo_options\<lparr>co_ModifyGenesis := Some (\<lambda>g. Inr (g @ ''!''))\<rparr>) demo_cluster"

lemma demo_world_simps [simp]:
  "wd_file (demo_world x) = demo_file_env" "wd_IP (demo_world x) = Inr ''10.0.0.1''" "wd_Start (demo_world x) = None"
  "wd_External (demo_world x) port = Inr ''h:1''"
  "wd_wallet (demo_world x) = (\<lambda>_ _. Inr (''words'', ''cosmos1''))"
  "wd_run (demo_world x) cmd files = (mcopy demo_init_files files, Inr (0, [], []))"
  "wd_node_key (demo_world x) j = Inr (''id'', Inr ''peer'')"
  "fe_read demo_file_env path = None" "fe_write demo_file_env path = None"
  by (simp_all add: demo_world_def demo_file_env_def)

lemma demo_run_checked [simp]: "run_checked demo_world a b cmd n = (n\<lparr>nk_Files := mcopy demo_init_files (nk_Files n)\<rparr>, Inr ())"
  by (simp add: run_checked_def andThen_def wrapping_def on_files_def wrap_err_def)

lemma demo_wallet [simp]:
  "CreateWallet demo_world name cfg n = (n\<lparr>nk_Files := mcopy demo_init_files (nk_Files n)\<rparr>, Inr (''words'', ''cosmos1''))"
  by (simp add: CreateWallet_def RecoverKey_def Let_def andThen_def on_files_def)

lemma demo_modify_file [simp]:
  "mget files path = Some t \<Longrightarrow>
     ModifyTomlConfigFile (li_toml demo_libs) demo_file_env path mods files = (mput path ''T'' files, Inr ())"
  by (simp add: ModifyTomlConfigFile_def ReadFile_def WriteFile_def wrap_err_def demo_libs_def)

definition demo_validator :: cnode where
  "demo_validator = (demo_node ''hub-validator-0'')\<lparr>nk_Files := demo_init_files\<rparr>"

definition demo_full :: cnode where
  "demo_full = (demo_node ''hub-node-0'')\<lparr>nk_Files := mput ''config/client.toml'' ''T'' demo_init_files\<rparr>"

lemma demo_setup:
  "setup_all demo_libs demo_world w am de demo_cluster =
     (demo_cluster\<lparr>cl_Validators := [demo_validator], cl_Nodes := [demo_full],
        cl_Wallets := [Some (''words'', ''cosmos1'')]\<rparr>, Inr ())"
  by (simp add: setup_all_def demo_cluster_def Let_def SetupValidator_def SetupNode_def wrapping_def demo_node_def
      set_client_config_def on_files_def demo_init_files_def errors_of_def eg_Wait_def map_filter_simps andThen_def
      wrap_err_def demo_validator_def demo_full_def)

lemma demo_faucet:
  "BuildFaucetWallet demo_world (\<lambda>_. 0) w (demo_cluster\<lparr>cl_Validators := vs, cl_Nodes := [demo_full], cl_Wallets := ws\<rparr>) =
     (demo_cluster\<lparr>cl_Validators := vs, cl_Nodes := [demo_full\<lparr>nk_Files := demo_init_files\<rparr>], cl_Wallets := ws\<rparr>,
      Inr (''words'', ''cosmos1''))"
  by (simp add: BuildFaucetWallet_def GetFullNode_def update_node_def demo_full_def demo_init_files_def)

lemma demo_operations:
  "executeGenesisOperations demo_libs demo_world w fa am bm 0
     (c\<lparr>cl_Validators := [demo_validator], cl_Nodes := ns, cl_Wallets := [Some x], cl_Faucet := f\<rparr>) =
     (c\<lparr>cl_Validators := [demo_validator], cl_Nodes := ns, cl_Wallets := [Some x], cl_Faucet := f\<rparr>, Inr ())"
  by (simp add: executeGenesisOperations_def Let_def add_all_accounts_def demo_validator_def demo_init_files_def)

lemma demo_init_genesis:
  assumes "ChainOptions_ValidateBasic opts = Inr ()" "co_AdditionalAccounts opts = 0"
    and "co_ModifyGenesis opts = Some f" "f ''G'' = Inr g"
  shows "init_genesis demo_libs demo_world (\<lambda>_. 0) opts demo_cluster =
     (demo_cluster\<lparr>cl_Validators := [demo_validator], cl_Nodes := [demo_full\<lparr>nk_Files := demo_init_files\<rparr>],
        cl_Wallets := [Some (''words'', ''cosmos1'')], cl_Faucet := Some (''words'', ''cosmos1'')\<rparr>, Inr g)"
proof -
  obtain am de where coins: "genesis_coins demo_libs demo_chain_config = Inr (am, de)"
    by (simp add: genesis_coins_def demo_libs_def and_then_def)
  have fields: "cl_Config demo_cluster = demo_chain_config" by (simp add: demo_cluster_def)
  have read: "GenesisFileContent demo_world demo_validator = Inr ''G''"
    by (simp add: GenesisFileContent_def node_read_def ReadFile_def demo_validator_def demo_init_files_def)
  show ?thesis
    by (simp add: init_genesis_def andThen_def wrap_err_def assms fields coins demo_setup demo_faucet demo_operations
        final_genesis_def read and_then_def)
qed

definition demo_configured :: "string \<Rightarrow> string gomap" where
  "demo_configured g = [(''config/app.toml'', ''T''), (''config/config.toml'', ''T''), (''config/client.toml'', ''T''),
     (''config/genesis.json'', g), (''config/node_key.json'', ''K''), (''config/gentx/gentx-id.json'', ''T'')]"

lemma demo_peer: "NodeId demo_world n = Inr ''id''" if "nk_Files n = demo_init_files"
  using that by (simp add: NodeId_def nodeKey_def node_read_def ReadFile_def and_then_def wrap_err_def demo_init_files_def)

lemma demo_peers:
  "\<forall>n \<in> set ns. nk_Files n = demo_init_files \<Longrightarrow> \<exists>s. AsCometPeerString False (map (as_peer demo_world) ns) = Inr s"
proof -
  assume "\<forall>n \<in> set ns. nk_Files n = demo_init_files"
  then have "\<exists>ss. each (comet_peer False) (map (as_peer demo_world) ns) = Inr ss"
    by (induction ns) (auto simp: comet_peer_def peerHostInternal_def as_peer_def demo_peer and_then_def wrap_err_def)
  then show ?thesis by (auto simp: AsCometPeerString_def and_then_def)
qed

lemma demo_config_fields:
  "pc_CustomAppConfig demo_chain_config = Some [(''api'', VMap [(''enable'', VBool False)])]"
  "pc_CustomConsensusConfig demo_chain_config = None" "pc_CustomClientConfig demo_chain_config = None"
  "pc_SetSeedNode demo_chain_config = False" "pc_SetPersistentPeers demo_chain_config = True"
  "UseLibP2P demo_chain_config = False"
  by (simp_all add: demo_chain_config_def UseLibP2P_def)

lemma demo_configure:
  assumes "\<forall>n \<in> set ns. nk_Files n = demo_init_files" "nk_Files n = demo_init_files" "nk_Chain n = demo_chain_config"
  shows "configureNode (li_toml demo_libs) demo_world demo_chain_config g (map (as_peer demo_world) ns) [] False n =
     (n\<lparr>nk_Files := demo_configured g\<rparr>, Inr ())"
proof -
  obtain s where "AsCometPeerString False (map (as_peer demo_world) ns) = Inr s" using demo_peers [OF assms(1)] by blast
  moreover have "AsCometPeerString False [] = Inr []" by (simp add: AsCometPeerString_def and_then_def)
  moreover have "p2p_address demo_world False m = Inr ''10.0.0.1:26656''" for m
    by (simp add: p2p_address_def and_then_def wrap_err_def)
  ultimately show ?thesis
    using assms(2,3)
    by (simp add: configureNode_def andThen_def OverwriteGenesisFile_def node_write_def WriteFile_def on_files_def
        SetChainConfigs_def ApplyCustomConfigs_def then_files_def apply_custom_def demo_config_fields wrap_err_def
        SetPersistentPeers_def SetSeedNode_def demo_init_files_def demo_configured_def)
qed

lemma demo_Init:
  assumes "ChainOptions_ValidateBasic opts = Inr ()" "co_AdditionalAccounts opts = 0"
    and "co_ModifyGenesis opts = Some f" "f ''G'' = Inr g"
  shows "\<exists>c'. Init demo_libs demo_world (\<lambda>_. 0) opts demo_cluster = (c', Inr ()) \<and>
    cl_Wallets c' = [Some (''words'', ''cosmos1'')]"
proof -
  let ?n = "demo_full\<lparr>nk_Files := demo_init_files\<rparr>"
  let ?ns = "[?n, demo_validator]"
  have files: "nk_Files demo_validator = demo_init_files" "nk_Chain demo_validator = demo_chain_config"
    "nk_Chain demo_full = demo_chain_config"
    by (simp_all add: demo_validator_def demo_full_def demo_node_def)
  have cluster: "cl_Config demo_cluster = demo_chain_config" "cl_External demo_cluster = False"
    by (simp_all add: demo_cluster_def)
  note configured = demo_configure [of ?ns demo_validator g] demo_configure [of ?ns ?n g]
  show ?thesis
    using configured
    by (simp add: Init_def demo_init_genesis [OF assms] andThen_def seed_peers_def cluster demo_config_fields
        persistent_peers_def files for_all_nodes_def Let_def errors_of_def eg_Wait_def map_filter_simps set_seed_mode_def
        start_node_def)
qed

abbreviation demo_init_options :: "string chain_options" where
  "demo_init_options \<equiv> demo_options\<lparr>co_ModifyGenesis := Some (\<lambda>g. Inr (g @ ''!''))\<rparr>"

lemma demo_init_options:
  "ChainOptions_ValidateBasic demo_init_options = Inr ()" "co_AdditionalAccounts demo_init_options = 0"
  "co_ModifyGenesis demo_init_options = Some (\<lambda>g. Inr (g @ ''!''))"
  by (simp_all add: ChainOptions_ValidateBasic_def demo_options_def WalletConfig_ValidateBasic_def)

lemma demo_init_ok: "\<exists>c'. demo_init = (c', Inr ())"
  unfolding demo_init_def using demo_Init [OF demo_init_options] by auto

theorem Init_agrees_on_genesis_witness:
  "\<exists>c'. demo_init = (c', Inr ()) \<and>
     (\<forall>n \<in> set (cl_Validators c' @ cl_Nodes c'). mget (nk_Files n) ''config/genesis.json'' = Some ''G!'' \<and> nk_Running n)"
proof -
  obtain c' where c': "demo_init = (c', Inr ())" using demo_init_ok by blast
  from Init_agrees_on_genesis [OF c' [unfolded demo_init_def]] show ?thesis
    using c' by (auto simp: demo_init_genesis [OF demo_init_options])
qed

text \<open>No node is started before every node holds the final genesis. Whether Init succeeds or
  fails, a chain in which some node runs, and none ran before, has the genesis on every node; and the
  nodes are still those of the chain, in their order.\<close>

theorem Init_starts_only_configured:
  assumes "Init L W rnd opts c = (c', res)" "\<forall>n \<in> set (cl_Validators c @ cl_Nodes c). \<not> nk_Running n"
  shows "map nk_Config (cl_Validators c') = map nk_Config (cl_Validators c) \<and>
    map nk_Config (cl_Nodes c') = map nk_Config (cl_Nodes c) \<and>
    ((\<exists>n \<in> set (cl_Validators c' @ cl_Nodes c'). nk_Running n) \<longrightarrow>
     (\<exists>c1 bz. init_genesis L W rnd opts c = (c1, Inr bz) \<and>
       (\<forall>n \<in> set (cl_Validators c' @ cl_Nodes c'). mget (nk_Files n) ''config/genesis.json'' = Some bz)))"
  using assms(1)
proof (cases rule: Init_cases)
  case early
  with same_running [OF early(1) assms(2)] Init_keeps_nodes [OF assms(1)] show ?thesis by simp
next
  case (late c1 bz c3)
  then have "\<forall>n \<in> set (all_nodes c'). has_genesis bz n" using start_genesis [of c3 bz L W] by simp
  then show ?thesis using late(1) Init_keeps_nodes [OF assms(1)] by (simp add: has_genesis_def)
qed

theorem Init_starts_only_configured_witness:
  "\<exists>c'. demo_init = (c', Inr ()) \<and> map nk_Config (cl_Nodes c') = map nk_Config (cl_Nodes demo_cluster)"
proof -
  obtain c' where c': "demo_init = (c', Inr ())" using demo_init_ok by blast
  have "\<forall>n \<in> set (cl_Validators demo_cluster @ cl_Nodes demo_cluster). \<not> nk_Running n"
    by (simp add: demo_cluster_def demo_node_def)
  from Init_starts_only_configured [OF c' [unfolded demo_init_def] this] c' show ?thesis by blast
qed

definition reached :: "uint64 \<Rightarrow> turn list \<Rightarrow> bool" where
  "reached d ts \<longleftrightarrow> (\<exists>before h rest. ts = before @ Tick (Inr h) # rest \<and> d \<le> h \<and> list_all (\<lambda>t. \<not> is_Done t) before)"

lemma reached_Nil [simp]: "\<not> reached d []"
  by (simp add: reached_def)

lemma reached_Cons [simp]: "reached d (t # ts) \<longleftrightarrow> (\<exists>h. t = Tick (Inr h) \<and> d \<le> h) \<or> (\<not> is_Done t \<and> reached d ts)"
proof
  assume "reached d (t # ts)"
  then obtain before h rest where ts: "t # ts = before @ Tick (Inr h) # rest" "d \<le> h" "list_all (\<lambda>t. \<not> is_Done t) before"
    by (auto simp: reached_def)
  then show "(\<exists>h. t = Tick (Inr h) \<and> d \<le> h) \<or> (\<not> is_Done t \<and> reached d ts)"
    by (cases before) (auto simp: reached_def)
next
  assume "(\<exists>h. t = Tick (Inr h) \<and> d \<le> h) \<or> (\<not> is_Done t \<and> reached d ts)"
  then show "reached d (t # ts)"
  proof (elim disjE exE conjE)
    fix h
    assume "t = Tick (Inr h)" "d \<le> h"
    then show ?thesis unfolding reached_def by (intro exI [of _ "[]"]) simp
  next
    assume "\<not> is_Done t" "reached d ts"
    then obtain before h rest where "ts = before @ Tick (Inr h) # rest" "d \<le> h" "list_all (\<lambda>t. \<not> is_Done t) before"
      by (auto simp: reached_def)
    with \<open>\<not> is_Done t\<close> show ?thesis unfolding reached_def by (intro exI [of _ "t # before"]) simp
  qed
qed

text \<open>The wait for a height returns without an error exactly when some poll reports the wanted
  height before the context is done; polls that fail, or report less, only make it go on.\<close>

theorem WaitForHeight_returns:
  "(\<exists>rest. WaitForHeight desired ts = Some (Inr (), rest)) \<longleftrightarrow>
   (\<exists>before h rest. ts = before @ Tick (Inr h) # rest \<and> desired \<le> h \<and> list_all (\<lambda>t. \<not> is_Done t) before)"
  unfolding reached_def [symmetric]
  by (induction desired ts rule: WaitForHeight.induct) auto

lemma each_ok: "(\<And>x. x \<in> set xs \<Longrightarrow> f x = Inr (g x)) \<Longrightarrow> each f xs = Inr (map g xs)"
  by (induction xs) auto

lemma each_map: "each f (map h xs) = each (\<lambda>x. f (h x)) xs"
  by (induction xs) (auto split: sum.split)

lemma errors_of_ok: "errors_of (map Inr xs) = []"
  by (simp add: errors_of_empty is_ok_def)

text \<open>Restoring a serialized chain gives back its config, its nodes in their order and all its
  wallets, but not whether external addresses are used: that is not part of the packaged state.\<close>

theorem RestoreChain_Serialize:
  assumes "\<And>n. n \<in> set (pk_Validators c) \<union> set (pk_Nodes c) \<Longrightarrow> \<exists>s. ser n = Inr s \<and> res s = Inr n"
    and "\<And>ps s. enc ps = Inr s \<Longrightarrow> dec s = Inr ps"
    and "\<And>w. w \<in> set (pk_ValidatorWallets c) \<Longrightarrow> w \<noteq> None \<and> nw (fst (the w)) = Inr (the w)"
    and "\<And>w. pk_FaucetWallet c = Some w \<Longrightarrow> fst w \<noteq> [] \<and> nw (fst w) = Inr w"
    and "Serialize ser enc c = Inr state"
  shows "RestoreChain res dec pick nw state = Inr (c\<lparr>pk_useExternalAddresses := False\<rparr>)"
proof -
  define st where "st n = projr (ser n)" for n
  have st: "ser n = Inr (st n)" "res (st n) = Inr n" if "n \<in> set (pk_Validators c) \<union> set (pk_Nodes c)" for n
    using assms(1) [OF that] by (auto simp: st_def)
  have restored: "map res (map st ns) = map Inr ns" if "set ns \<subseteq> set (pk_Validators c) \<union> set (pk_Nodes c)" for ns
    using that st by auto
  have w: "wallet_mnemonic w = Inr (fst (the w))" if "w \<in> set (pk_ValidatorWallets c)" for w
    using assms(3) [OF that] by (auto simp: wallet_mnemonic_def)
  have ws: "each (\<lambda>m. wrap_err ''failed to restore validator wallet'' (nw m)) (map (fst \<circ> the) (pk_ValidatorWallets c)) =
      Inr (map the (pk_ValidatorWallets c))" "map (Some \<circ> the) (pk_ValidatorWallets c) = pk_ValidatorWallets c"
    using assms(3) by (auto simp: each_map wrap_err_def comp_def intro!: each_ok map_idI)
  let ?ps = "\<lparr> ps_Config = pk_Config c, ps_ValidatorStates = map st (pk_Validators c), ps_NodeStates = map st (pk_Nodes c),
     ps_ValidatorWallets = map (fst \<circ> the) (pk_ValidatorWallets c),
     ps_FaucetWallet = (case pk_FaucetWallet c of None \<Rightarrow> [] | Some (m, _) \<Rightarrow> m) \<rparr>"
  have "Serialize ser enc c = enc ?ps"
    using st(1) w by (simp add: Serialize_def and_then_def each_ok comp_def)
  with assms(2,5) have dec: "dec state = Inr ?ps" by simp
  have "group_results pick (map res (map st (pk_Validators c))) (map res (map st (pk_Nodes c))) =
      Inr (pk_Validators c, pk_Nodes c)"
    unfolding restored [OF Un_upper1] restored [OF Un_upper2] by (simp add: group_results_def errors_of_ok comp_def)
  then show ?thesis
    using dec ws assms(4)
    by (cases "pk_FaucetWallet c") (auto simp: RestoreChain_def and_then_def wrap_err_def)
qed

definition demo_package :: PackagedState where
  "demo_package = \<lparr> ps_Config = demo_chain_config, ps_ValidatorStates = [''v''], ps_NodeStates = [],
     ps_ValidatorWallets = [''m''], ps_FaucetWallet = ''f'' \<rparr>"

definition demo_packed :: "string packed_chain" where
  "demo_packed = \<lparr> pk_Config = demo_chain_config, pk_Validators = [''v''], pk_Nodes = [],
     pk_ValidatorWallets = [Some (''m'', ''a'')], pk_FaucetWallet = Some (''f'', ''a''), pk_useExternalAddresses = True \<rparr>"

theorem RestoreChain_Serialize_witness:
  "RestoreChain Inr (\<lambda>_. Inr demo_package) hd (\<lambda>m. Inr (m, ''a'')) ''X'' = Inr (demo_packed\<lparr>pk_useExternalAddresses := False\<rparr>)"
proof (rule RestoreChain_Serialize [where ser = Inr and enc = "\<lambda>ps. if ps = demo_package then Inr ''X'' else Inl (New [])"])
  show "Serialize Inr (\<lambda>ps. if ps = demo_package then Inr ''X'' else Inl (New [])) demo_packed = Inr ''X''"
    by (simp add: Serialize_def and_then_def wallet_mnemonic_def demo_packed_def demo_package_def)
qed (auto simp: demo_packed_def split: if_splits)

end
