(* ===== verification/Sql.thy ===== *)
theory Sql
  imports Prelude "HOL-Library.Multiset"
begin

text \<open>
  The SQL statements the server issues, over a table as the list of its rows in rowid order:
  \<open>INSERT\<close> into a table with a unique key, \<open>UPDATE ... WHERE\<close>, \<open>DELETE ... WHERE\<close>,
  \<open>ORDER BY\<close> (rows that tie keep their rowid order) and \<open>LIMIT ... OFFSET ...\<close>, where a
  negative limit means no limit and a negative offset counts as zero. What a client may rely on is
  the interface \<open>keyed_store\<close>.
\<close>

section \<open>Statements\<close>

definition sql_lookup :: "('r \<Rightarrow> 'k) \<Rightarrow> 'k \<Rightarrow> 'r list \<Rightarrow> 'r option" where
  "sql_lookup key k rows = find (\<lambda>r. key r = k) rows"

definition sql_insert :: "('r \<Rightarrow> 'k) \<Rightarrow> 'r \<Rightarrow> 'r list \<Rightarrow> 'r list option" where
  "sql_insert key r rows = (if list_ex (\<lambda>q. key q = key r) rows then None else Some (rows @ [r]))"

definition sql_update :: "('r \<Rightarrow> 'k) \<Rightarrow> 'k \<Rightarrow> ('r \<Rightarrow> 'r) \<Rightarrow> 'r list \<Rightarrow> 'r list" where
  "sql_update key k f rows = map (\<lambda>r. if key r = k then f r else r) rows"

definition sql_delete :: "('r \<Rightarrow> 'k) \<Rightarrow> 'k \<Rightarrow> 'r list \<Rightarrow> 'r list" where
  "sql_delete key k rows = filter (\<lambda>r. key r \<noteq> k) rows"

definition sql_matches :: "('r \<Rightarrow> 'k) \<Rightarrow> 'k \<Rightarrow> 'r list \<Rightarrow> nat" where
  "sql_matches key k rows = length (filter (\<lambda>r. key r = k) rows)"

definition sql_limit :: "int \<Rightarrow> int \<Rightarrow> 'r list \<Rightarrow> 'r list" where
  "sql_limit limit offset rows =
     (let rest = drop (nat offset) rows in if limit < 0 then rest else take (nat limit) rest)"

section \<open>The interface a client of a table relies on\<close>

locale keyed_store =
  fixes lookup :: "'s \<Rightarrow> 'k \<Rightarrow> 'r option"
    and ins :: "'r \<Rightarrow> 's \<Rightarrow> 's option"
    and modify :: "'k \<Rightarrow> ('r \<Rightarrow> 'r) \<Rightarrow> 's \<Rightarrow> 's"
    and remove :: "'k \<Rightarrow> 's \<Rightarrow> 's"
    and key :: "'r \<Rightarrow> 'k"
    and inv :: "'s \<Rightarrow> bool"
  assumes lookup_key: "inv s \<Longrightarrow> lookup s k = Some r \<Longrightarrow> key r = k"
    and ins_None: "inv s \<Longrightarrow> ins r s = None \<longleftrightarrow> lookup s (key r) \<noteq> None"
    and ins_Some: "inv s \<Longrightarrow> ins r s = Some s' \<Longrightarrow> lookup s' = (lookup s)(key r \<mapsto> r)"
    and modify_law: "inv s \<Longrightarrow> (\<And>r. key (f r) = key r) \<Longrightarrow>
      lookup (modify k f s) = (lookup s)(k := map_option f (lookup s k))"
    and remove_law: "inv s \<Longrightarrow> lookup (remove k s) = (lookup s)(k := None)"
    and inv_modify: "inv s \<Longrightarrow> (\<And>r. key (f r) = key r) \<Longrightarrow> inv (modify k f s)"
    and inv_remove: "inv s \<Longrightarrow> inv (remove k s)"
begin

lemma ins_fresh: "inv s \<Longrightarrow> lookup s (key r) = None \<Longrightarrow> \<exists>s'. ins r s = Some s'"
  by (metis ins_None option.exhaust)

lemma ins_lookup_same: "inv s \<Longrightarrow> ins r s = Some s' \<Longrightarrow> lookup s' (key r) = Some r"
  by (simp add: ins_Some)

lemma ins_lookup_other: "inv s \<Longrightarrow> ins r s = Some s' \<Longrightarrow> k \<noteq> key r \<Longrightarrow> lookup s' k = lookup s k"
  by (simp add: ins_Some)

lemma modify_lookup_same:
  "inv s \<Longrightarrow> (\<And>r. key (f r) = key r) \<Longrightarrow> lookup (modify k f s) k = map_option f (lookup s k)"
  by (simp add: modify_law)

lemma modify_lookup_other:
  "inv s \<Longrightarrow> (\<And>r. key (f r) = key r) \<Longrightarrow> k' \<noteq> k \<Longrightarrow> lookup (modify k f s) k' = lookup s k'"
  by (simp add: modify_law)

lemma modify_absent:
  assumes "inv s" "\<And>r. key (f r) = key r" "lookup s k = None"
  shows "lookup (modify k f s) = lookup s"
proof -
  have "lookup (modify k f s) = (lookup s)(k := None)"
    using assms by (simp add: modify_law)
  also have "\<dots> = lookup s" using assms(3) by auto
  finally show ?thesis .
qed

lemma modify_twice:
  assumes "inv s" "\<And>r. key (f r) = key r" "\<And>r. key (g r) = key r"
  shows "lookup (modify k g (modify k f s)) = lookup (modify k (g \<circ> f) s)"
  using assms by (simp add: modify_law inv_modify option.map_comp)

lemma remove_lookup_same: "inv s \<Longrightarrow> lookup (remove k s) k = None"
  by (simp add: remove_law)

lemma remove_lookup_other: "inv s \<Longrightarrow> k' \<noteq> k \<Longrightarrow> lookup (remove k s) k' = lookup s k'"
  by (simp add: remove_law)

lemma remove_ins:
  assumes "inv s" "inv s'" "ins r s = Some s'"
  shows "lookup (remove (key r) s') = lookup s"
proof -
  have absent: "lookup s (key r) = None" using assms ins_None by (metis option.distinct(1))
  have "lookup (remove (key r) s') = (lookup s)(key r := None)"
    using assms by (simp add: remove_law ins_Some)
  with absent show ?thesis by (metis fun_upd_triv)
qed

end

section \<open>Lemmas on the statements\<close>

lemma sql_lookup_key: "sql_lookup key k rows = Some r \<Longrightarrow> key r = k"
  by (auto simp: sql_lookup_def find_Some_iff)

lemma sql_lookup_mem: "sql_lookup key k rows = Some r \<Longrightarrow> r \<in> set rows"
  by (auto simp: sql_lookup_def find_Some_iff)

lemma sql_lookup_None_iff: "sql_lookup key k rows = None \<longleftrightarrow> k \<notin> key ` set rows"
  by (auto simp: sql_lookup_def find_None_iff)

lemma sql_lookup_distinct:
  "distinct (map key rows) \<Longrightarrow> r \<in> set rows \<Longrightarrow> sql_lookup key (key r) rows = Some r"
  by (induction rows) (auto simp: sql_lookup_def)

lemma find_append: "find P (xs @ ys) = (case find P xs of None \<Rightarrow> find P ys | Some x \<Rightarrow> Some x)"
  by (induction xs) auto

lemma sql_insert_None_iff: "sql_insert key r rows = None \<longleftrightarrow> sql_lookup key (key r) rows \<noteq> None"
  by (auto simp: sql_insert_def sql_lookup_None_iff list_ex_iff image_iff) metis

lemma sql_insert_Some_iff:
  "sql_insert key r rows = Some rows' \<longleftrightarrow> sql_lookup key (key r) rows = None \<and> rows' = rows @ [r]"
  by (auto simp: sql_insert_def sql_lookup_None_iff list_ex_iff image_iff) metis+

lemma sql_lookup_insert:
  "sql_insert key r rows = Some rows' \<Longrightarrow>
     sql_lookup key k rows' = (if k = key r then Some r else sql_lookup key k rows)"
  by (auto simp: sql_insert_Some_iff sql_lookup_def find_append split: option.splits)

lemma sql_lookup_update:
  assumes "\<And>r. key (f r) = key r"
  shows "sql_lookup key k' (sql_update key k f rows) =
    (if k' = k then map_option f (sql_lookup key k rows) else sql_lookup key k' rows)"
  using assms by (induction rows) (auto simp: sql_lookup_def sql_update_def)

lemma sql_lookup_delete:
  "sql_lookup key k' (sql_delete key k rows) = (if k' = k then None else sql_lookup key k' rows)"
  by (induction rows) (auto simp: sql_lookup_def sql_delete_def)

lemma map_key_update: "(\<And>r. key (f r) = key r) \<Longrightarrow> map key (sql_update key k f rows) = map key rows"
  by (simp add: sql_update_def)

lemma map_update_frame:
  "(\<And>r. g (f r) = g r) \<Longrightarrow> map g (sql_update key k f rows) = map g rows"
  by (simp add: sql_update_def)

lemma sql_matches_0: "sql_matches key k rows = 0 \<longleftrightarrow> sql_lookup key k rows = None"
  by (auto simp: sql_matches_def sql_lookup_None_iff filter_empty_conv)

lemma sql_update_absent: "sql_lookup key k rows = None \<Longrightarrow> sql_update key k f rows = rows"
  by (induction rows) (auto simp: sql_update_def sql_lookup_def split: if_splits)

lemma sql_delete_absent: "sql_lookup key k rows = None \<Longrightarrow> sql_delete key k rows = rows"
  by (induction rows) (auto simp: sql_delete_def sql_lookup_def split: if_splits)

lemma distinct_sql_delete: "distinct (map g rows) \<Longrightarrow> distinct (map g (sql_delete key k rows))"
  by (simp add: sql_delete_def distinct_map_filter)

lemma set_sql_delete: "set (sql_delete key k rows) \<subseteq> set rows"
  by (auto simp: sql_delete_def)

lemma length_sql_limit:
  "0 \<le> limit \<Longrightarrow> length (sql_limit limit offset rows) = min (nat limit) (length rows - nat offset)"
  by (simp add: sql_limit_def)

lemma set_sql_limit: "set (sql_limit limit offset rows) \<subseteq> set rows"
  by (auto simp: sql_limit_def Let_def dest: in_set_takeD in_set_dropD split: if_splits)

text \<open>A table with a unique key keeps the contract.\<close>

lemma sql_keyed_store:
  "keyed_store (\<lambda>rows k. sql_lookup key k rows) (sql_insert key) (sql_update key) (sql_delete key) key
     (\<lambda>rows. distinct (map key rows))"
proof
  fix rows r k assume "sql_lookup key k rows = Some r"
  then show "key r = k" by (rule sql_lookup_key)
next
  fix rows r
  show "sql_insert key r rows = None \<longleftrightarrow> sql_lookup key (key r) rows \<noteq> None"
    by (rule sql_insert_None_iff)
next
  fix rows r rows' assume "sql_insert key r rows = Some rows'"
  then show "(\<lambda>k. sql_lookup key k rows') = (\<lambda>k. sql_lookup key k rows)(key r \<mapsto> r)"
    by (auto simp: fun_eq_iff sql_lookup_insert)
next
  fix rows k f assume "\<And>r. key (f r) = key r"
  then show "(\<lambda>k'. sql_lookup key k' (sql_update key k f rows)) =
      (\<lambda>k. sql_lookup key k rows)(k := map_option f (sql_lookup key k rows))"
    and "distinct (map key rows) \<Longrightarrow> distinct (map key (sql_update key k f rows))"
    by (auto simp: fun_eq_iff sql_lookup_update map_key_update)
next
  fix rows k
  show "(\<lambda>k'. sql_lookup key k' (sql_delete key k rows)) = (\<lambda>k. sql_lookup key k rows)(k := None)"
    by (auto simp: fun_eq_iff sql_lookup_delete)
  show "distinct (map key rows) \<Longrightarrow> distinct (map key (sql_delete key k rows))"
    by (rule distinct_sql_delete)
qed

text \<open>Consecutive pages of one size, read until they cover the table, give back the whole
  table.\<close>

lemma sql_limit_pages:
  assumes "0 < sz"
  shows "concat (map (\<lambda>p. sql_limit (int sz) (int (p * sz)) rows) [0..<n]) = take (n * sz) rows"
proof (induction n)
  case (Suc n)
  have "sql_limit (int sz) (int (n * sz)) rows = take sz (drop (n * sz) rows)"
    by (simp add: sql_limit_def flip: of_nat_mult)
  then show ?case
    using Suc by (simp add: take_add add.commute [of sz])
qed simp

end
