(* ===== verification/Store.thy ===== *)
theory Store
  imports Sql Messages "HOL-Library.Product_Lexorder"
begin

text \<open>
  The database layer of the server: \<open>server/db/models.go\<close>, \<open>server/db/sqlite.go\<close> and
  \<open>server/db/database.go\<close>. A table is the list of its rows; the columns that hold JSON are
  texts, written and read by the codecs of \<open>encoding/json\<close> and \<open>protojson\<close>, which are the
  parameter \<open>cd\<close>. Whatever SQLite reports besides the statement's own outcome (a failed
  statement, scan, iteration or row count) is the parameter \<open>ev\<close>, so that every error branch of
  the code is a branch here. Times are nanoseconds; a nil slice and an empty one are the same
  list, as no reader of these columns tells them apart.
\<close>

section \<open>Models\<close>

datatype WorkflowStatus =
    STATUS_UNSPECIFIED
  | STATUS_RUNNING
  | STATUS_COMPLETED
  | STATUS_FAILED
  | STATUS_CANCELED
  | STATUS_TERMINATED
  | STATUS_CONTINUED_AS_NEW
  | STATUS_TIMED_OUT
  | STATUS_OTHER int

fun WorkflowStatusToString :: "WorkflowStatus \<Rightarrow> string" where
  "WorkflowStatusToString STATUS_UNSPECIFIED = ''pending''"
| "WorkflowStatusToString STATUS_RUNNING = ''running''"
| "WorkflowStatusToString STATUS_COMPLETED = ''completed''"
| "WorkflowStatusToString STATUS_FAILED = ''failed''"
| "WorkflowStatusToString STATUS_CANCELED = ''canceled''"
| "WorkflowStatusToString STATUS_TERMINATED = ''terminated''"
| "WorkflowStatusToString STATUS_CONTINUED_AS_NEW = ''running''"
| "WorkflowStatusToString STATUS_TIMED_OUT = ''failed''"
| "WorkflowStatusToString (STATUS_OTHER _) = ''unknown''"

definition StringToWorkflowStatus :: "string \<Rightarrow> WorkflowStatus" where
  "StringToWorkflowStatus s =
     (if s = ''pending'' then STATUS_UNSPECIFIED
      else if s = ''running'' then STATUS_RUNNING
      else if s = ''completed'' then STATUS_COMPLETED
      else if s = ''failed'' then STATUS_FAILED
      else if s = ''canceled'' then STATUS_CANCELED
      else if s = ''terminated'' then STATUS_TERMINATED
      else STATUS_UNSPECIFIED)"

record WalletInfo =
  wi_FaucetAddress :: string
  wi_FaucetMnemonic :: string
  wi_UserAddresses :: "string list"
  wi_UserMnemonics :: "string list"

record Workflow =
  wf_ID :: nat
  wf_WorkflowID :: string
  wf_Nodes :: "Node list"
  wf_Validators :: "Node list"
  wf_LoadBalancers :: "Node list"
  wf_Wallets :: "WalletInfo option"
  wf_MonitoringLinks :: "string gomap"
  wf_Status :: WorkflowStatus
  wf_Config :: TestnetWorkflowRequest
  wf_LoadTestSpec :: "string option"
  wf_Provider :: string
  wf_TemplateID :: string
  wf_RunName :: string
  wf_CreatedAt :: int
  wf_UpdatedAt :: int

record WorkflowUpdate =
  up_Nodes :: "Node list option"
  up_Validators :: "Node list option"
  up_LoadBalancers :: "Node list option"
  up_Wallets :: "WalletInfo option"
  up_MonitoringLinks :: "string gomap option"
  up_Status :: "WorkflowStatus option"
  up_Provider :: "string option"
  up_TemplateID :: "string option"
  up_RunName :: "string option"

definition empty_update :: WorkflowUpdate where
  "empty_update = \<lparr> up_Nodes = None, up_Validators = None, up_LoadBalancers = None,
     up_Wallets = None, up_MonitoringLinks = None, up_Status = None, up_Provider = None,
     up_TemplateID = None, up_RunName = None \<rparr>"

record WorkflowTemplate =
  wt_ID :: string
  wt_Description :: string
  wt_Config :: TestnetWorkflowRequest
  wt_CreatedAt :: int
  wt_CreatedBy :: string

text \<open>Codecs: \<open>json.Marshal\<close>, \<open>json.Unmarshal\<close>, and \<open>protojson\<close> for the wallets.\<close>

record codec =
  enc_nodes :: "Node list \<Rightarrow> string result"
  dec_nodes :: "string \<Rightarrow> Node list result"
  enc_wallets :: "WalletInfo \<Rightarrow> string result"
  enc_wallets_pb :: "WalletInfo \<Rightarrow> string result"
  dec_wallets_pb :: "string \<Rightarrow> WalletInfo result"
  enc_links :: "string gomap \<Rightarrow> string result"
  dec_links :: "string \<Rightarrow> string gomap result"
  enc_config :: "TestnetWorkflowRequest \<Rightarrow> string result"
  dec_config :: "string \<Rightarrow> TestnetWorkflowRequest result"

definition NodesJSON :: "codec \<Rightarrow> Workflow \<Rightarrow> string result" where
  "NodesJSON cd w = enc_nodes cd (wf_Nodes w)"

definition ValidatorsJSON :: "codec \<Rightarrow> Workflow \<Rightarrow> string result" where
  "ValidatorsJSON cd w = enc_nodes cd (wf_Validators w)"

definition LoadBalancersJSON :: "codec \<Rightarrow> Workflow \<Rightarrow> string result" where
  "LoadBalancersJSON cd w = enc_nodes cd (wf_LoadBalancers w)"

definition WalletsJSON :: "codec \<Rightarrow> Workflow \<Rightarrow> string result" where
  "WalletsJSON cd w = (case wf_Wallets w of None \<Rightarrow> Inr ''{}'' | Some x \<Rightarrow> enc_wallets cd x)"

definition ConfigJSON :: "codec \<Rightarrow> Workflow \<Rightarrow> string result" where
  "ConfigJSON cd w = enc_config cd (wf_Config w)"

definition LoadTestSpecJSON :: "Workflow \<Rightarrow> string result" where
  "LoadTestSpecJSON w = (case wf_LoadTestSpec w of None \<Rightarrow> Inr ''{}'' | Some x \<Rightarrow> Inr x)"

section \<open>Tables\<close>

record workflow_row =
  r_id :: nat
  r_workflow_id :: string
  r_nodes :: string
  r_validators :: string
  r_loadbalancers :: string
  r_wallets :: string
  r_monitoring_links :: string
  r_status :: WorkflowStatus
  r_config :: string
  r_load_test_spec :: string
  r_provider :: string
  r_template_id :: string
  r_run_name :: string
  r_created_at :: int
  r_updated_at :: int

record template_row =
  tr_template_id :: string
  tr_description :: string
  tr_config :: string
  tr_created_at :: int
  tr_created_by :: string

text \<open>The tables of the migrations; \<open>t_seq\<close> is the last id \<open>AUTOINCREMENT\<close> gave out.\<close>

record Tables =
  t_workflows :: "workflow_row list"
  t_seq :: nat
  t_templates :: "template_row list"

definition empty_Tables :: Tables where
  "empty_Tables = \<lparr> t_workflows = [], t_seq = 0, t_templates = [] \<rparr>"

text \<open>
  What a call may meet: the clock, a failure of the statement, of the scan of the \<open>i\<close>-th row, of
  the iteration after some rows, and of \<open>RowsAffected\<close>.
\<close>

record sql_env =
  sq_now :: int
  sq_stmt :: "error option"
  sq_scan :: "nat \<Rightarrow> error option"
  sq_iter :: "(nat \<times> error) option"
  sq_affected :: "error option"

definition sql_ok :: "int \<Rightarrow> sql_env" where
  "sql_ok now = \<lparr> sq_now = now, sq_stmt = None, sq_scan = (\<lambda>_. None), sq_iter = None, sq_affected = None \<rparr>"

fun scan_rows :: "(nat \<Rightarrow> error option) \<Rightarrow> string \<Rightarrow> ('r \<Rightarrow> 'a result) \<Rightarrow> nat \<Rightarrow> 'r list \<Rightarrow> 'a list result" where
  "scan_rows sc msg dec i [] = Inr []"
| "scan_rows sc msg dec i (r # rs) =
     (case sc i of
        Some e \<Rightarrow> Inl (Wrap msg e)
      | None \<Rightarrow>
          (case dec r of
             Inl e \<Rightarrow> Inl e
           | Inr x \<Rightarrow>
               (case scan_rows sc msg dec (Suc i) rs of Inl e \<Rightarrow> Inl e | Inr xs \<Rightarrow> Inr (x # xs))))"

text \<open>\<open>Query\<close>, the \<open>rows.Next\<close> loop and \<open>rows.Err\<close>.\<close>

definition query_rows ::
    "sql_env \<Rightarrow> string \<Rightarrow> string \<Rightarrow> ('r \<Rightarrow> 'a result) \<Rightarrow> 'r list \<Rightarrow> 'a list result" where
  "query_rows ev qmsg smsg dec rows =
     (case sq_stmt ev of
        Some e \<Rightarrow> Inl (Wrap qmsg e)
      | None \<Rightarrow>
          (case sq_iter ev of
             None \<Rightarrow> scan_rows (sq_scan ev) smsg dec 0 rows
           | Some (n, e) \<Rightarrow>
               (case scan_rows (sq_scan ev) smsg dec 0 (take n rows) of
                  Inl e' \<Rightarrow> Inl e'
                | Inr _ \<Rightarrow> Inl (Wrap ''error iterating rows'' e))))"

text \<open>\<open>Exec\<close> of a statement that changes the tables, then \<open>RowsAffected\<close>.\<close>

definition exec_affected ::
    "sql_env \<Rightarrow> string \<Rightarrow> string \<Rightarrow> nat \<Rightarrow> Tables \<Rightarrow> Tables \<Rightarrow> Tables \<times> unit result" where
  "exec_affected ev msg missing n t t' =
     (case sq_stmt ev of
        Some e \<Rightarrow> (t, Inl (Wrap msg e))
      | None \<Rightarrow>
          (case sq_affected ev of
             Some e \<Rightarrow> (t', Inl (Wrap ''failed to get rows affected'' e))
           | None \<Rightarrow> (t', if n = 0 then Inl (New missing) else Inr ())))"

section \<open>Workflows\<close>

definition encode_workflow :: "codec \<Rightarrow> nat \<Rightarrow> int \<Rightarrow> Workflow \<Rightarrow> workflow_row result" where
  "encode_workflow cd i now w =
     and_then (wrap_err ''failed to marshal nodes'' (NodesJSON cd w)) (\<lambda>nodesJSON.
     and_then (wrap_err ''failed to marshal validators'' (ValidatorsJSON cd w)) (\<lambda>validatorsJSON.
     and_then (wrap_err ''failed to marshal loadbalancers'' (LoadBalancersJSON cd w)) (\<lambda>loadBalancersJSON.
     and_then (wrap_err ''failed to marshal wallets'' (WalletsJSON cd w)) (\<lambda>walletsJSON.
     and_then (wrap_err ''failed to marshal config'' (ConfigJSON cd w)) (\<lambda>configJSON.
     and_then (wrap_err ''failed to marshal monitoring links'' (enc_links cd (wf_MonitoringLinks w))) (\<lambda>linksJSON.
     and_then (wrap_err ''failed to marshal load test spec'' (LoadTestSpecJSON w)) (\<lambda>specJSON.
       Inr \<lparr> r_id = i, r_workflow_id = wf_WorkflowID w, r_nodes = nodesJSON,
             r_validators = validatorsJSON, r_loadbalancers = loadBalancersJSON,
             r_wallets = walletsJSON, r_monitoring_links = linksJSON, r_status = wf_Status w,
             r_config = configJSON, r_load_test_spec = specJSON, r_provider = wf_Provider w,
             r_template_id = wf_TemplateID w, r_run_name = wf_RunName w,
             r_created_at = now, r_updated_at = now \<rparr>)))))))"

definition CreateWorkflow :: "codec \<Rightarrow> sql_env \<Rightarrow> Workflow \<Rightarrow> Tables \<Rightarrow> Tables \<times> Workflow result" where
  "CreateWorkflow cd ev w t =
     (case encode_workflow cd (Suc (t_seq t)) (sq_now ev) w of
        Inl e \<Rightarrow> (t, Inl e)
      | Inr row \<Rightarrow>
          (case sq_stmt ev of
             Some e \<Rightarrow> (t, Inl (Wrap ''failed to create workflow'' e))
           | None \<Rightarrow>
               (case sql_insert r_workflow_id row (t_workflows t) of
                  None \<Rightarrow> (t, Inl (Wrap ''failed to create workflow''
                                 (New ''UNIQUE constraint failed: workflows.workflow_id'')))
                | Some rows \<Rightarrow>
                    (t\<lparr>t_workflows := rows, t_seq := Suc (t_seq t)\<rparr>,
                     Inr (w\<lparr>wf_ID := Suc (t_seq t), wf_CreatedAt := sq_now ev, wf_UpdatedAt := sq_now ev\<rparr>)))))"

text \<open>The decoding of a row; \<open>sfx\<close> is what the list operations add to every message.\<close>

definition decode_wallets :: "codec \<Rightarrow> string \<Rightarrow> string \<Rightarrow> WalletInfo option result" where
  "decode_wallets cd sfx s =
     (if s \<noteq> [] \<and> s \<noteq> ''{}'' then
        and_then (wrap_err (''failed to unmarshal wallets'' @ sfx) (dec_wallets_pb cd s)) (\<lambda>x. Inr (Some x))
      else Inr None)"

definition decode_spec :: "string \<Rightarrow> string option" where
  "decode_spec s = (if s \<noteq> [] \<and> s \<noteq> ''{}'' then Some s else None)"

definition decode_row :: "codec \<Rightarrow> string \<Rightarrow> workflow_row \<Rightarrow> Workflow result" where
  "decode_row cd sfx r =
     and_then (wrap_err (''failed to unmarshal nodes'' @ sfx) (dec_nodes cd (r_nodes r))) (\<lambda>nodes.
     and_then (wrap_err (''failed to unmarshal validators'' @ sfx) (dec_nodes cd (r_validators r))) (\<lambda>validators.
     and_then (wrap_err (''failed to unmarshal loadbalancers'' @ sfx) (dec_nodes cd (r_loadbalancers r))) (\<lambda>lbs.
     and_then (decode_wallets cd sfx (r_wallets r)) (\<lambda>wallets.
     and_then (wrap_err (''failed to unmarshal config'' @ sfx) (dec_config cd (r_config r))) (\<lambda>config.
     and_then (wrap_err (''failed to unmarshal monitoring links'' @ sfx) (dec_links cd (r_monitoring_links r))) (\<lambda>links.
       Inr \<lparr> wf_ID = r_id r, wf_WorkflowID = r_workflow_id r, wf_Nodes = nodes,
             wf_Validators = validators, wf_LoadBalancers = lbs, wf_Wallets = wallets,
             wf_MonitoringLinks = links, wf_Status = r_status r, wf_Config = config,
             wf_LoadTestSpec = decode_spec (r_load_test_spec r),
             wf_Provider = r_provider r, wf_TemplateID = r_template_id r, wf_RunName = r_run_name r,
             wf_CreatedAt = r_created_at r, wf_UpdatedAt = r_updated_at r \<rparr>))))))"

definition GetWorkflow :: "codec \<Rightarrow> sql_env \<Rightarrow> string \<Rightarrow> Tables \<Rightarrow> Workflow result" where
  "GetWorkflow cd ev workflowID t =
     (case sq_stmt ev of
        Some e \<Rightarrow> Inl (Wrap ''failed to get workflow'' e)
      | None \<Rightarrow>
          (case sql_lookup r_workflow_id workflowID (t_workflows t) of
             None \<Rightarrow> Inl (New (''workflow not found: '' @ workflowID))
           | Some r \<Rightarrow>
               (case sq_scan ev 0 of
                  Some e \<Rightarrow> Inl (Wrap ''failed to get workflow'' e)
                | None \<Rightarrow> decode_row cd [] r)))"

text \<open>The assignments of the \<open>UPDATE\<close> statement, in the order the code appends them.\<close>

datatype set_part =
    SetNodes string
  | SetValidators string
  | SetLoadBalancers string
  | SetWallets string
  | SetMonitoringLinks string
  | SetStatus WorkflowStatus
  | SetProvider string
  | SetTemplateID string
  | SetRunName string
  | SetUpdatedAt int

definition encoded_part :: "string \<Rightarrow> ('a \<Rightarrow> string result) \<Rightarrow> (string \<Rightarrow> set_part) \<Rightarrow> 'a option \<Rightarrow> set_part list result" where
  "encoded_part msg enc part x =
     (case x of None \<Rightarrow> Inr [] | Some v \<Rightarrow> and_then (wrap_err msg (enc v)) (\<lambda>s. Inr [part s]))"

definition plain_part :: "('a \<Rightarrow> set_part) \<Rightarrow> 'a option \<Rightarrow> set_part list" where
  "plain_part part x = (case x of None \<Rightarrow> [] | Some v \<Rightarrow> [part v])"

definition set_parts :: "codec \<Rightarrow> WorkflowUpdate \<Rightarrow> set_part list result" where
  "set_parts cd u =
     and_then (encoded_part ''failed to marshal nodes'' (enc_nodes cd) SetNodes (up_Nodes u)) (\<lambda>p1.
     and_then (encoded_part ''failed to marshal validators'' (enc_nodes cd) SetValidators (up_Validators u)) (\<lambda>p2.
     and_then (encoded_part ''failed to marshal loadbalancers'' (enc_nodes cd) SetLoadBalancers (up_LoadBalancers u)) (\<lambda>p3.
     and_then (encoded_part ''failed to marshal wallets'' (enc_wallets_pb cd) SetWallets (up_Wallets u)) (\<lambda>p4.
     and_then (encoded_part ''failed to marshal monitoring links'' (enc_links cd) SetMonitoringLinks (up_MonitoringLinks u)) (\<lambda>p5.
       Inr (p1 @ p2 @ p3 @ p4 @ p5 @ plain_part SetStatus (up_Status u) @
            plain_part SetProvider (up_Provider u) @ plain_part SetTemplateID (up_TemplateID u) @
            plain_part SetRunName (up_RunName u)))))))"

fun apply_part :: "set_part \<Rightarrow> workflow_row \<Rightarrow> workflow_row" where
  "apply_part (SetNodes s) r = r\<lparr>r_nodes := s\<rparr>"
| "apply_part (SetValidators s) r = r\<lparr>r_validators := s\<rparr>"
| "apply_part (SetLoadBalancers s) r = r\<lparr>r_loadbalancers := s\<rparr>"
| "apply_part (SetWallets s) r = r\<lparr>r_wallets := s\<rparr>"
| "apply_part (SetMonitoringLinks s) r = r\<lparr>r_monitoring_links := s\<rparr>"
| "apply_part (SetStatus st) r = r\<lparr>r_status := st\<rparr>"
| "apply_part (SetProvider s) r = r\<lparr>r_provider := s\<rparr>"
| "apply_part (SetTemplateID s) r = r\<lparr>r_template_id := s\<rparr>"
| "apply_part (SetRunName s) r = r\<lparr>r_run_name := s\<rparr>"
| "apply_part (SetUpdatedAt x) r = r\<lparr>r_updated_at := x\<rparr>"

text \<open>The trigger \<open>update_workflows_updated_at\<close> of the first migration: an update that leaves
  \<open>updated_at\<close> as it was sets it to \<open>CURRENT_TIMESTAMP\<close>, which has whole seconds.\<close>

definition updated_at_trigger :: "int \<Rightarrow> workflow_row \<Rightarrow> workflow_row \<Rightarrow> workflow_row" where
  "updated_at_trigger now old new =
     (if r_updated_at new = r_updated_at old
      then new\<lparr>r_updated_at := now - now mod 1000000000\<rparr> else new)"

definition update_row :: "int \<Rightarrow> set_part list \<Rightarrow> workflow_row \<Rightarrow> workflow_row" where
  "update_row now parts r = updated_at_trigger now r (fold apply_part parts r)"

definition UpdateWorkflow :: "codec \<Rightarrow> sql_env \<Rightarrow> string \<Rightarrow> WorkflowUpdate \<Rightarrow> Tables \<Rightarrow> Tables \<times> unit result" where
  "UpdateWorkflow cd ev workflowID u t =
     (case set_parts cd u of
        Inl e \<Rightarrow> (t, Inl e)
      | Inr parts \<Rightarrow>
          if parts = [] then (t, Inl (New ''no fields to update''))
          else
            exec_affected ev ''failed to update workflow'' (''workflow not found: '' @ workflowID)
              (sql_matches r_workflow_id workflowID (t_workflows t)) t
              (t\<lparr>t_workflows := sql_update r_workflow_id workflowID
                   (update_row (sq_now ev) (parts @ [SetUpdatedAt (sq_now ev)])) (t_workflows t)\<rparr>))"

definition list_sfx :: "workflow_row \<Rightarrow> string" where
  "list_sfx r = '' for workflow '' @ r_workflow_id r"

definition running_first :: "workflow_row \<Rightarrow> nat \<times> int" where
  "running_first r = (if r_status r = STATUS_RUNNING then 0 else 1, - r_created_at r)"

definition ListWorkflows :: "codec \<Rightarrow> sql_env \<Rightarrow> int \<Rightarrow> int \<Rightarrow> Tables \<Rightarrow> Workflow list result" where
  "ListWorkflows cd ev limit offset t =
     query_rows ev ''failed to list workflows'' ''failed to scan workflow''
       (\<lambda>r. decode_row cd (list_sfx r) r)
       (sql_limit limit offset (sort_key running_first (t_workflows t)))"

definition CountWorkflows :: "sql_env \<Rightarrow> Tables \<Rightarrow> nat result" where
  "CountWorkflows ev t =
     (case sq_stmt ev of
        Some e \<Rightarrow> Inl (Wrap ''failed to count workflows'' e)
      | None \<Rightarrow>
          (case sq_scan ev 0 of
             Some e \<Rightarrow> Inl (Wrap ''failed to count workflows'' e)
           | None \<Rightarrow> Inr (length (t_workflows t))))"

definition DeleteWorkflow :: "sql_env \<Rightarrow> string \<Rightarrow> Tables \<Rightarrow> Tables \<times> unit result" where
  "DeleteWorkflow ev workflowID t =
     exec_affected ev ''failed to delete workflow'' (''workflow not found: '' @ workflowID)
       (sql_matches r_workflow_id workflowID (t_workflows t)) t
       (t\<lparr>t_workflows := sql_delete r_workflow_id workflowID (t_workflows t)\<rparr>)"

definition ListTemplateWorkflows ::
    "codec \<Rightarrow> sql_env \<Rightarrow> string \<Rightarrow> int \<Rightarrow> int \<Rightarrow> Tables \<Rightarrow> Workflow list result" where
  "ListTemplateWorkflows cd ev templateID limit offset t =
     query_rows ev ''failed to list template workflows'' ''failed to scan template workflow''
       (\<lambda>r. decode_row cd (list_sfx r) r)
       (sql_limit limit offset
         (sort_key (\<lambda>r. - r_created_at r) (filter (\<lambda>r. r_template_id r = templateID) (t_workflows t))))"

section \<open>Templates\<close>

definition CreateWorkflowTemplate ::
    "codec \<Rightarrow> sql_env \<Rightarrow> WorkflowTemplate \<Rightarrow> Tables \<Rightarrow> Tables \<times> unit result" where
  "CreateWorkflowTemplate cd ev wt t =
     (case enc_config cd (wt_Config wt) of
        Inl e \<Rightarrow> (t, Inl (Wrap ''failed to marshal config'' e))
      | Inr configJSON \<Rightarrow>
          (case sq_stmt ev of
             Some e \<Rightarrow> (t, Inl (Wrap ''failed to create workflow template'' e))
           | None \<Rightarrow>
               (case sql_insert tr_template_id
                       \<lparr> tr_template_id = wt_ID wt, tr_description = wt_Description wt,
                         tr_config = configJSON, tr_created_at = sq_now ev,
                         tr_created_by = wt_CreatedBy wt \<rparr> (t_templates t) of
                  None \<Rightarrow> (t, Inl (Wrap ''failed to create workflow template''
                                 (New ''UNIQUE constraint failed: workflow_templates.template_id'')))
                | Some rows \<Rightarrow> (t\<lparr>t_templates := rows\<rparr>, Inr ()))))"

definition decode_template :: "codec \<Rightarrow> string \<Rightarrow> template_row \<Rightarrow> WorkflowTemplate result" where
  "decode_template cd sfx r =
     and_then (wrap_err (''failed to unmarshal config'' @ sfx) (dec_config cd (tr_config r))) (\<lambda>config.
       Inr \<lparr> wt_ID = tr_template_id r, wt_Description = tr_description r, wt_Config = config,
             wt_CreatedAt = tr_created_at r, wt_CreatedBy = tr_created_by r \<rparr>)"

definition GetWorkflowTemplate :: "codec \<Rightarrow> sql_env \<Rightarrow> string \<Rightarrow> Tables \<Rightarrow> WorkflowTemplate result" where
  "GetWorkflowTemplate cd ev templateID t =
     (case sq_stmt ev of
        Some e \<Rightarrow> Inl (Wrap ''failed to get workflow template'' e)
      | None \<Rightarrow>
          (case sql_lookup tr_template_id templateID (t_templates t) of
             None \<Rightarrow> Inl (New (''workflow template not found: '' @ templateID))
           | Some r \<Rightarrow>
               (case sq_scan ev 0 of
                  Some e \<Rightarrow> Inl (Wrap ''failed to get workflow template'' e)
                | None \<Rightarrow> decode_template cd [] r)))"

definition UpdateWorkflowTemplate ::
    "codec \<Rightarrow> sql_env \<Rightarrow> string \<Rightarrow> WorkflowTemplate \<Rightarrow> Tables \<Rightarrow> Tables \<times> unit result" where
  "UpdateWorkflowTemplate cd ev templateID wt t =
     (case enc_config cd (wt_Config wt) of
        Inl e \<Rightarrow> (t, Inl (Wrap ''failed to marshal config'' e))
      | Inr configJSON \<Rightarrow>
          exec_affected ev ''failed to update workflow template''
            (''workflow template not found: '' @ templateID)
            (sql_matches tr_template_id templateID (t_templates t)) t
            (t\<lparr>t_templates := sql_update tr_template_id templateID
                 (\<lambda>r. r\<lparr>tr_description := wt_Description wt, tr_config := configJSON\<rparr>) (t_templates t)\<rparr>))"

definition ListWorkflowTemplates ::
    "codec \<Rightarrow> sql_env \<Rightarrow> int \<Rightarrow> int \<Rightarrow> Tables \<Rightarrow> WorkflowTemplate list result" where
  "ListWorkflowTemplates cd ev limit offset t =
     query_rows ev ''failed to list workflow templates'' ''failed to scan workflow template''
       (\<lambda>r. decode_template cd ('' for template '' @ tr_template_id r) r)
       (sql_limit limit offset (sort_key (\<lambda>r. - tr_created_at r) (t_templates t)))"

definition DeleteWorkflowTemplate :: "sql_env \<Rightarrow> string \<Rightarrow> Tables \<Rightarrow> Tables \<times> unit result" where
  "DeleteWorkflowTemplate ev templateID t =
     exec_affected ev ''failed to delete workflow template''
       (''workflow template not found: '' @ templateID)
       (sql_matches tr_template_id templateID (t_templates t)) t
       (t\<lparr>t_templates := sql_delete tr_template_id templateID (t_templates t)\<rparr>)"

section \<open>The database service\<close>

definition service_CreateWorkflow ::
    "codec \<Rightarrow> sql_env \<Rightarrow> string \<Rightarrow> TestnetWorkflowRequest \<Rightarrow> string \<Rightarrow> Tables \<Rightarrow> Tables \<times> unit result" where
  "service_CreateWorkflow cd ev workflowID config status t =
     (case CreateWorkflow cd ev
             \<lparr> wf_ID = 0, wf_WorkflowID = workflowID, wf_Nodes = [], wf_Validators = [],
               wf_LoadBalancers = [], wf_Wallets = None, wf_MonitoringLinks = [],
               wf_Status = StringToWorkflowStatus status, wf_Config = config, wf_LoadTestSpec = None,
               wf_Provider = [], wf_TemplateID = [], wf_RunName = [], wf_CreatedAt = 0,
               wf_UpdatedAt = 0 \<rparr> t of
        (t', Inl e) \<Rightarrow> (t', Inl (Wrap ''failed to create workflow record'' e))
      | (t', Inr _) \<Rightarrow> (t', Inr ()))"

definition service_update :: "codec \<Rightarrow> sql_env \<Rightarrow> string \<Rightarrow> string \<Rightarrow> WorkflowUpdate \<Rightarrow> Tables \<Rightarrow> Tables \<times> unit result" where
  "service_update cd ev msg workflowID u t =
     (case UpdateWorkflow cd ev workflowID u t of (t', res) \<Rightarrow> (t', wrap_err msg res))"

definition UpdateWorkflowStatus :: "codec \<Rightarrow> sql_env \<Rightarrow> string \<Rightarrow> string \<Rightarrow> Tables \<Rightarrow> Tables \<times> unit result" where
  "UpdateWorkflowStatus cd ev workflowID status =
     service_update cd ev ''failed to update workflow status'' workflowID
       (empty_update\<lparr>up_Status := Some (StringToWorkflowStatus status)\<rparr>)"

definition UpdateWorkflowNodes ::
    "codec \<Rightarrow> sql_env \<Rightarrow> string \<Rightarrow> Node list \<Rightarrow> Node list \<Rightarrow> Tables \<Rightarrow> Tables \<times> unit result" where
  "UpdateWorkflowNodes cd ev workflowID nodes validators =
     service_update cd ev ''failed to update workflow nodes'' workflowID
       (empty_update\<lparr>up_Nodes := Some nodes, up_Validators := Some validators\<rparr>)"

definition UpdateWorkflowMonitoring ::
    "codec \<Rightarrow> sql_env \<Rightarrow> string \<Rightarrow> string gomap \<Rightarrow> Tables \<Rightarrow> Tables \<times> unit result" where
  "UpdateWorkflowMonitoring cd ev workflowID links =
     service_update cd ev ''failed to update workflow monitoring'' workflowID
       (empty_update\<lparr>up_MonitoringLinks := Some links\<rparr>)"

definition UpdateWorkflowLoadBalancers ::
    "codec \<Rightarrow> sql_env \<Rightarrow> string \<Rightarrow> Node list \<Rightarrow> Tables \<Rightarrow> Tables \<times> unit result" where
  "UpdateWorkflowLoadBalancers cd ev workflowID lbs =
     service_update cd ev ''failed to update workflow loadbalancers'' workflowID
       (empty_update\<lparr>up_LoadBalancers := Some lbs\<rparr>)"

definition service_CreateWorkflowTemplate ::
    "codec \<Rightarrow> sql_env \<Rightarrow> string \<Rightarrow> string \<Rightarrow> TestnetWorkflowRequest \<Rightarrow> string \<Rightarrow> Tables \<Rightarrow> Tables \<times> unit result" where
  "service_CreateWorkflowTemplate cd ev templateID description config createdBy t =
     (case CreateWorkflowTemplate cd ev
             \<lparr> wt_ID = templateID, wt_Description = description, wt_Config = config,
               wt_CreatedAt = 0, wt_CreatedBy = createdBy \<rparr> t of
        (t', res) \<Rightarrow> (t', wrap_err ''failed to create workflow template'' res))"

section \<open>The table invariant and the operations that keep it\<close>

definition db_inv :: "Tables \<Rightarrow> bool" where
  "db_inv t \<longleftrightarrow>
     distinct (map r_workflow_id (t_workflows t)) \<and> distinct (map r_id (t_workflows t)) \<and>
     list_all (\<lambda>r. 0 < r_id r \<and> r_id r \<le> t_seq t) (t_workflows t) \<and>
     distinct (map tr_template_id (t_templates t))"

text \<open>The calls a client makes, in any order and with any outcome of the SQL layer.\<close>

datatype db_op =
    OpCreate Workflow
  | OpUpdate string WorkflowUpdate
  | OpDelete string
  | OpCreateTemplate WorkflowTemplate
  | OpUpdateTemplate string WorkflowTemplate
  | OpDeleteTemplate string

fun exec_op :: "codec \<Rightarrow> sql_env \<times> db_op \<Rightarrow> Tables \<Rightarrow> Tables" where
  "exec_op cd (ev, OpCreate w) t = fst (CreateWorkflow cd ev w t)"
| "exec_op cd (ev, OpUpdate k u) t = fst (UpdateWorkflow cd ev k u t)"
| "exec_op cd (ev, OpDelete k) t = fst (DeleteWorkflow ev k t)"
| "exec_op cd (ev, OpCreateTemplate wt) t = fst (CreateWorkflowTemplate cd ev wt t)"
| "exec_op cd (ev, OpUpdateTemplate k wt) t = fst (UpdateWorkflowTemplate cd ev k wt t)"
| "exec_op cd (ev, OpDeleteTemplate k) t = fst (DeleteWorkflowTemplate ev k t)"

definition run_ops :: "codec \<Rightarrow> (sql_env \<times> db_op) list \<Rightarrow> Tables \<Rightarrow> Tables" where
  "run_ops cd ops t = fold (exec_op cd) ops t"

lemma sql_ok_simps [simp]:
  "sq_now (sql_ok n) = n" "sq_stmt (sql_ok n) = None" "sq_scan (sql_ok n) i = None"
  "sq_iter (sql_ok n) = None" "sq_affected (sql_ok n) = None"
  by (simp_all add: sql_ok_def)

lemma exec_affected_cases:
  "fst (exec_affected ev msg missing n t t') = t \<or> fst (exec_affected ev msg missing n t t') = t'"
  by (auto simp: exec_affected_def split: option.splits)

lemma apply_part_frame [simp, frame_simps]:
  "r_id (apply_part p r) = r_id r" "r_workflow_id (apply_part p r) = r_workflow_id r"
  "r_config (apply_part p r) = r_config r" "r_load_test_spec (apply_part p r) = r_load_test_spec r"
  "r_created_at (apply_part p r) = r_created_at r"
  by (cases p; simp)+

lemma fold_apply_part_frame [simp, frame_simps]:
  "r_id (fold apply_part ps r) = r_id r" "r_workflow_id (fold apply_part ps r) = r_workflow_id r"
  "r_config (fold apply_part ps r) = r_config r"
  "r_load_test_spec (fold apply_part ps r) = r_load_test_spec r"
  "r_created_at (fold apply_part ps r) = r_created_at r"
  by (induction ps arbitrary: r) simp_all

lemma update_row_frame [simp, frame_simps]:
  "r_id (update_row now ps r) = r_id r" "r_workflow_id (update_row now ps r) = r_workflow_id r"
  "r_config (update_row now ps r) = r_config r"
  "r_load_test_spec (update_row now ps r) = r_load_test_spec r"
  "r_created_at (update_row now ps r) = r_created_at r"
  by (simp_all add: update_row_def updated_at_trigger_def)

lemma encode_workflow_Inr:
  "encode_workflow cd i now w = Inr row \<Longrightarrow> r_id row = i \<and> r_workflow_id row = wf_WorkflowID w"
  by (auto simp: encode_workflow_def and_then_eq_Inr)

text \<open>Both tables are keyed stores.\<close>

interpretation workflows: keyed_store
  "\<lambda>rows k. sql_lookup r_workflow_id k rows" "sql_insert r_workflow_id" "sql_update r_workflow_id"
  "sql_delete r_workflow_id" r_workflow_id "\<lambda>rows. distinct (map r_workflow_id rows)"
  by (rule sql_keyed_store)

interpretation templates: keyed_store
  "\<lambda>rows k. sql_lookup tr_template_id k rows" "sql_insert tr_template_id" "sql_update tr_template_id"
  "sql_delete tr_template_id" tr_template_id "\<lambda>rows. distinct (map tr_template_id rows)"
  by (rule sql_keyed_store)

lemma db_inv_create: "db_inv t \<Longrightarrow> db_inv (fst (CreateWorkflow cd ev w t))"
  by (auto simp: CreateWorkflow_def db_inv_def sql_insert_Some_iff sql_lookup_None_iff list_all_iff
      dest!: encode_workflow_Inr split: sum.splits option.splits)

lemma db_inv_update: "db_inv t \<Longrightarrow> db_inv (fst (UpdateWorkflow cd ev k u t))"
proof -
  assume inv: "db_inv t"
  have "db_inv (t\<lparr>t_workflows := sql_update r_workflow_id k (update_row now ps) (t_workflows t)\<rparr>)" for now ps
  proof -
    have "list_all (\<lambda>r. 0 < r_id r \<and> r_id r \<le> t_seq t)
        (sql_update r_workflow_id k (update_row now ps) (t_workflows t))"
      using inv by (auto simp: db_inv_def list_all_iff sql_update_def)
    then show ?thesis using inv by (simp add: db_inv_def map_key_update map_update_frame)
  qed
  with inv show ?thesis
    unfolding UpdateWorkflow_def using exec_affected_cases
    by (auto split: sum.splits) (metis inv)
qed

lemma db_inv_delete: "db_inv t \<Longrightarrow> db_inv (fst (DeleteWorkflow ev k t))"
proof -
  assume inv: "db_inv t"
  then have "db_inv (t\<lparr>t_workflows := sql_delete r_workflow_id k (t_workflows t)\<rparr>)"
    using set_sql_delete [of r_workflow_id k "t_workflows t"]
    by (auto simp: db_inv_def distinct_sql_delete list_all_iff)
  with inv show ?thesis unfolding DeleteWorkflow_def using exec_affected_cases by metis
qed

lemma db_inv_create_template: "db_inv t \<Longrightarrow> db_inv (fst (CreateWorkflowTemplate cd ev wt t))"
  by (auto simp: CreateWorkflowTemplate_def db_inv_def sql_insert_Some_iff sql_lookup_None_iff
      split: sum.splits option.splits)

lemma db_inv_update_template: "db_inv t \<Longrightarrow> db_inv (fst (UpdateWorkflowTemplate cd ev k wt t))"
proof -
  assume inv: "db_inv t"
  then have "db_inv (t\<lparr>t_templates := sql_update tr_template_id k
      (\<lambda>r. r\<lparr>tr_description := d, tr_config := c\<rparr>) (t_templates t)\<rparr>)" for d c
    by (simp add: db_inv_def map_key_update)
  with inv show ?thesis
    unfolding UpdateWorkflowTemplate_def using exec_affected_cases
    by (auto split: sum.splits) (metis inv)
qed

lemma db_inv_delete_template: "db_inv t \<Longrightarrow> db_inv (fst (DeleteWorkflowTemplate ev k t))"
proof -
  assume inv: "db_inv t"
  then have "db_inv (t\<lparr>t_templates := sql_delete tr_template_id k (t_templates t)\<rparr>)"
    by (simp add: db_inv_def distinct_sql_delete)
  with inv show ?thesis unfolding DeleteWorkflowTemplate_def using exec_affected_cases by metis
qed

lemmas db_inv_ops = db_inv_create db_inv_update db_inv_delete db_inv_create_template
  db_inv_update_template db_inv_delete_template

lemma db_inv_exec_op: "db_inv t \<Longrightarrow> db_inv (exec_op cd op t)"
  by (induction cd op t rule: exec_op.induct) (simp_all add: db_inv_ops)

lemma db_inv_run_ops: "db_inv t \<Longrightarrow> db_inv (run_ops cd ops t)"
  unfolding run_ops_def by (induction ops arbitrary: t) (simp_all add: db_inv_exec_op)

lemma db_inv_empty [simp]: "db_inv empty_Tables"
  by (simp add: db_inv_def empty_Tables_def)

lemma db_inv_keys:
  "db_inv t \<Longrightarrow> distinct (map r_workflow_id (t_workflows t))"
  "db_inv t \<Longrightarrow> distinct (map tr_template_id (t_templates t))"
  by (simp_all add: db_inv_def)

section \<open>The abstract store: workflows by id\<close>

text \<open>A client sees a partial map from workflow ids to workflows; a row that does not decode is
  absent from it.\<close>

definition db_abs :: "codec \<Rightarrow> Tables \<Rightarrow> string \<Rightarrow> Workflow option" where
  "db_abs cd t k =
     (case sql_lookup r_workflow_id k (t_workflows t) of
        None \<Rightarrow> None
      | Some r \<Rightarrow> (case decode_row cd [] r of Inl _ \<Rightarrow> None | Inr w \<Rightarrow> Some w))"

text \<open>What is asked of the codecs, value by value: the text written reads back as the value.\<close>

definition stored :: "('a \<Rightarrow> string result) \<Rightarrow> (string \<Rightarrow> 'a result) \<Rightarrow> 'a \<Rightarrow> bool" where
  "stored enc dec x = (case enc x of Inl _ \<Rightarrow> False | Inr s \<Rightarrow> dec s = Inr x)"

definition wallets_stored :: "(WalletInfo \<Rightarrow> string result) \<Rightarrow> (string \<Rightarrow> WalletInfo result) \<Rightarrow> WalletInfo \<Rightarrow> bool" where
  "wallets_stored enc dec x =
     (case enc x of Inl _ \<Rightarrow> False | Inr s \<Rightarrow> s \<noteq> [] \<and> s \<noteq> ''{}'' \<and> dec s = Inr x)"

definition workflow_encodable :: "codec \<Rightarrow> Workflow \<Rightarrow> bool" where
  "workflow_encodable cd w \<longleftrightarrow>
     stored (enc_nodes cd) (dec_nodes cd) (wf_Nodes w) \<and>
     stored (enc_nodes cd) (dec_nodes cd) (wf_Validators w) \<and>
     stored (enc_nodes cd) (dec_nodes cd) (wf_LoadBalancers w) \<and>
     (case wf_Wallets w of None \<Rightarrow> True | Some x \<Rightarrow> wallets_stored (enc_wallets cd) (dec_wallets_pb cd) x) \<and>
     stored (enc_config cd) (dec_config cd) (wf_Config w) \<and>
     stored (enc_links cd) (dec_links cd) (wf_MonitoringLinks w) \<and>
     wf_LoadTestSpec w \<noteq> Some [] \<and> wf_LoadTestSpec w \<noteq> Some ''{}''"

definition update_encodable :: "codec \<Rightarrow> WorkflowUpdate \<Rightarrow> bool" where
  "update_encodable cd u \<longleftrightarrow>
     pred_option (stored (enc_nodes cd) (dec_nodes cd)) (up_Nodes u) \<and>
     pred_option (stored (enc_nodes cd) (dec_nodes cd)) (up_Validators u) \<and>
     pred_option (stored (enc_nodes cd) (dec_nodes cd)) (up_LoadBalancers u) \<and>
     pred_option (wallets_stored (enc_wallets_pb cd) (dec_wallets_pb cd)) (up_Wallets u) \<and>
     pred_option (stored (enc_links cd) (dec_links cd)) (up_MonitoringLinks u)"

definition or_old :: "'a option \<Rightarrow> 'a \<Rightarrow> 'a" where
  "or_old x old = (case x of None \<Rightarrow> old | Some v \<Rightarrow> v)"

text \<open>The update on the abstract side: a given field replaces the old one, \<open>updated_at\<close> moves.\<close>

definition apply_update :: "int \<Rightarrow> WorkflowUpdate \<Rightarrow> Workflow \<Rightarrow> Workflow" where
  "apply_update now u w =
     w\<lparr>wf_Nodes := or_old (up_Nodes u) (wf_Nodes w),
       wf_Validators := or_old (up_Validators u) (wf_Validators w),
       wf_LoadBalancers := or_old (up_LoadBalancers u) (wf_LoadBalancers w),
       wf_Wallets := (case up_Wallets u of None \<Rightarrow> wf_Wallets w | Some x \<Rightarrow> Some x),
       wf_MonitoringLinks := or_old (up_MonitoringLinks u) (wf_MonitoringLinks w),
       wf_Status := or_old (up_Status u) (wf_Status w),
       wf_Provider := or_old (up_Provider u) (wf_Provider w),
       wf_TemplateID := or_old (up_TemplateID u) (wf_TemplateID w),
       wf_RunName := or_old (up_RunName u) (wf_RunName w),
       wf_UpdatedAt := (if now = wf_UpdatedAt w then now - now mod 1000000000 else now)\<rparr>"

lemma or_old_simps [simp]: "or_old None y = y" "or_old (Some x) y = x"
  by (simp_all add: or_old_def)

lemma stored_iff: "stored enc dec x \<longleftrightarrow> (\<exists>s. enc x = Inr s \<and> dec s = Inr x)"
  by (cases "enc x") (auto simp: stored_def)

lemma wallets_stored_iff:
  "wallets_stored enc dec x \<longleftrightarrow> (\<exists>s. enc x = Inr s \<and> s \<noteq> [] \<and> s \<noteq> ''{}'' \<and> dec s = Inr x)"
  by (cases "enc x") (auto simp: wallets_stored_def)

lemma GetWorkflow_abs: "GetWorkflow cd (sql_ok now) k t = Inr w \<longleftrightarrow> db_abs cd t k = Some w"
  by (auto simp: GetWorkflow_def db_abs_def split: option.splits sum.splits)

lemma decode_wallets_sfx: "decode_wallets cd sfx s = Inr x \<longleftrightarrow> decode_wallets cd [] s = Inr x"
  by (auto simp: decode_wallets_def and_then_eq_Inr)

lemma decode_row_sfx: "decode_row cd sfx r = Inr w \<longleftrightarrow> decode_row cd [] r = Inr w"
  by (simp only: decode_row_def and_then_eq_Inr wrap_err_eq_Inr decode_wallets_sfx [of cd sfx])

lemma decode_row_key: "decode_row cd sfx r = Inr w \<Longrightarrow>
    wf_ID w = r_id r \<and> wf_WorkflowID w = r_workflow_id r \<and> wf_Status w = r_status r \<and>
    wf_CreatedAt w = r_created_at r \<and> wf_TemplateID w = r_template_id r"
  by (auto simp: decode_row_def and_then_eq_Inr)

lemma decode_encode:
  assumes "workflow_encodable cd w"
  shows "\<exists>row. encode_workflow cd i now w = Inr row \<and> r_workflow_id row = wf_WorkflowID w \<and>
    decode_row cd sfx row = Inr (w\<lparr>wf_ID := i, wf_CreatedAt := now, wf_UpdatedAt := now\<rparr>)"
proof -
  have spec: "\<exists>s. LoadTestSpecJSON w = Inr s \<and> decode_spec s = wf_LoadTestSpec w"
  proof (cases "wf_LoadTestSpec w")
    case (Some y)
    with assms have "y \<noteq> [] \<and> y \<noteq> ''{}''" by (simp add: workflow_encodable_def)
    with Some show ?thesis by (simp add: LoadTestSpecJSON_def decode_spec_def)
  qed (simp add: LoadTestSpecJSON_def decode_spec_def)
  have wallets: "\<exists>s. WalletsJSON cd w = Inr s \<and> decode_wallets cd sfx s = Inr (wf_Wallets w)"
  proof (cases "wf_Wallets w")
    case None
    then show ?thesis by (simp add: WalletsJSON_def decode_wallets_def)
  next
    case (Some y)
    with assms have "wallets_stored (enc_wallets cd) (dec_wallets_pb cd) y"
      by (simp add: workflow_encodable_def)
    then obtain s where "enc_wallets cd y = Inr s" "s \<noteq> []" "s \<noteq> ''{}''" "dec_wallets_pb cd s = Inr y"
      unfolding wallets_stored_iff by blast
    with Some show ?thesis by (simp add: WalletsJSON_def decode_wallets_def)
  qed
  obtain s where s: "LoadTestSpecJSON w = Inr s"
      "decode_spec s = wf_LoadTestSpec w"
    using spec by blast
  obtain x where x: "WalletsJSON cd w = Inr x" "decode_wallets cd sfx x = Inr (wf_Wallets w)"
    using wallets by blast
  obtain n v l c m where texts:
      "enc_nodes cd (wf_Nodes w) = Inr n" "dec_nodes cd n = Inr (wf_Nodes w)"
      "enc_nodes cd (wf_Validators w) = Inr v" "dec_nodes cd v = Inr (wf_Validators w)"
      "enc_nodes cd (wf_LoadBalancers w) = Inr l" "dec_nodes cd l = Inr (wf_LoadBalancers w)"
      "enc_config cd (wf_Config w) = Inr c" "dec_config cd c = Inr (wf_Config w)"
      "enc_links cd (wf_MonitoringLinks w) = Inr m" "dec_links cd m = Inr (wf_MonitoringLinks w)"
    using assms unfolding workflow_encodable_def stored_iff by blast
  show ?thesis
    by (simp add: encode_workflow_def decode_row_def NodesJSON_def ValidatorsJSON_def
        LoadBalancersJSON_def ConfigJSON_def texts s x)
qed

lemma create_sql_ok:
  assumes "workflow_encodable cd w" "sql_lookup r_workflow_id (wf_WorkflowID w) (t_workflows t) = None"
  shows "\<exists>row. CreateWorkflow cd (sql_ok now) w t =
      (t\<lparr>t_workflows := t_workflows t @ [row], t_seq := Suc (t_seq t)\<rparr>,
       Inr (w\<lparr>wf_ID := Suc (t_seq t), wf_CreatedAt := now, wf_UpdatedAt := now\<rparr>)) \<and>
    sql_insert r_workflow_id row (t_workflows t) = Some (t_workflows t @ [row]) \<and>
    r_workflow_id row = wf_WorkflowID w \<and>
    decode_row cd [] row = Inr (w\<lparr>wf_ID := Suc (t_seq t), wf_CreatedAt := now, wf_UpdatedAt := now\<rparr>)"
proof -
  have fresh: "sql_insert r_workflow_id row (t_workflows t) = Some (t_workflows t @ [row])"
    if "r_workflow_id row = wf_WorkflowID w" for row
    using that assms(2) by (simp add: sql_insert_Some_iff)
  from decode_encode [OF assms(1), of "Suc (t_seq t)" now "[]"] obtain row where
    row: "encode_workflow cd (Suc (t_seq t)) now w = Inr row" "r_workflow_id row = wf_WorkflowID w"
      "decode_row cd [] row = Inr (w\<lparr>wf_ID := Suc (t_seq t), wf_CreatedAt := now, wf_UpdatedAt := now\<rparr>)"
    by blast
  have "CreateWorkflow cd (sql_ok now) w t =
      (t\<lparr>t_workflows := t_workflows t @ [row], t_seq := Suc (t_seq t)\<rparr>,
       Inr (w\<lparr>wf_ID := Suc (t_seq t), wf_CreatedAt := now, wf_UpdatedAt := now\<rparr>))"
    by (simp add: CreateWorkflow_def row fresh)
  with row fresh show ?thesis by blast
qed

text \<open>The effect of the assignments on a row, column by column.\<close>

definition new_text :: "('a \<Rightarrow> string result) \<Rightarrow> 'a option \<Rightarrow> string \<Rightarrow> string" where
  "new_text enc x old =
     (case x of None \<Rightarrow> old | Some v \<Rightarrow> (case enc v of Inl _ \<Rightarrow> old | Inr s \<Rightarrow> s))"

lemma encoded_part_Inr:
  "encoded_part msg enc part x = Inr ps \<Longrightarrow>
     ps = (case x of None \<Rightarrow> [] | Some v \<Rightarrow> [part (new_text enc x [])]) \<and>
     (\<forall>v. x = Some v \<longrightarrow> is_ok (enc v))"
  by (auto simp: encoded_part_def new_text_def and_then_eq_Inr split: option.splits)

lemma new_text_old: "x = Some v \<Longrightarrow> is_ok (enc v) \<Longrightarrow> new_text enc x a = new_text enc x b"
  by (auto simp: new_text_def is_ok_iff)

lemma fold_encoded_part:
  assumes "encoded_part msg enc part x = Inr ps"
    and "\<And>s r. apply_part (part s) r = upd (\<lambda>_. s) r" "\<And>r. upd (\<lambda>_. get r) r = r"
  shows "fold apply_part ps r = upd (\<lambda>_. new_text enc x (get r)) r"
proof (cases x)
  case None
  with assms show ?thesis by (simp add: encoded_part_def new_text_def)
next
  case (Some v)
  with encoded_part_Inr [OF assms(1)] have "ps = [part (new_text enc x [])]" "is_ok (enc v)" by auto
  with assms(2) new_text_old [OF Some, of enc "[]" "get r"] show ?thesis by simp
qed

lemma fold_plain_part:
  assumes "\<And>v r. apply_part (part v) r = upd (\<lambda>_. v) r" "\<And>r. upd (\<lambda>_. get r) r = r"
  shows "fold apply_part (plain_part part x) r = upd (\<lambda>_. or_old x (get r)) r"
  using assms by (cases x) (simp_all add: plain_part_def)

lemmas fold_parts =
  fold_encoded_part [where part = SetNodes and upd = r_nodes_update and get = r_nodes]
  fold_encoded_part [where part = SetValidators and upd = r_validators_update and get = r_validators]
  fold_encoded_part [where part = SetLoadBalancers and upd = r_loadbalancers_update and get = r_loadbalancers]
  fold_encoded_part [where part = SetWallets and upd = r_wallets_update and get = r_wallets]
  fold_encoded_part [where part = SetMonitoringLinks and upd = r_monitoring_links_update
    and get = r_monitoring_links]
  fold_plain_part [where part = SetStatus and upd = r_status_update and get = r_status]
  fold_plain_part [where part = SetProvider and upd = r_provider_update and get = r_provider]
  fold_plain_part [where part = SetTemplateID and upd = r_template_id_update and get = r_template_id]
  fold_plain_part [where part = SetRunName and upd = r_run_name_update and get = r_run_name]

lemma fold_set_parts:
  assumes "set_parts cd u = Inr ps"
  shows "fold apply_part ps r =
    r\<lparr>r_nodes := new_text (enc_nodes cd) (up_Nodes u) (r_nodes r),
      r_validators := new_text (enc_nodes cd) (up_Validators u) (r_validators r),
      r_loadbalancers := new_text (enc_nodes cd) (up_LoadBalancers u) (r_loadbalancers r),
      r_wallets := new_text (enc_wallets_pb cd) (up_Wallets u) (r_wallets r),
      r_monitoring_links := new_text (enc_links cd) (up_MonitoringLinks u) (r_monitoring_links r),
      r_status := or_old (up_Status u) (r_status r),
      r_provider := or_old (up_Provider u) (r_provider r),
      r_template_id := or_old (up_TemplateID u) (r_template_id r),
      r_run_name := or_old (up_RunName u) (r_run_name r)\<rparr>"
proof -
  obtain p1 p2 p3 p4 p5 where parts:
    "encoded_part ''failed to marshal nodes'' (enc_nodes cd) SetNodes (up_Nodes u) = Inr p1"
    "encoded_part ''failed to marshal validators'' (enc_nodes cd) SetValidators (up_Validators u) = Inr p2"
    "encoded_part ''failed to marshal loadbalancers'' (enc_nodes cd) SetLoadBalancers (up_LoadBalancers u) = Inr p3"
    "encoded_part ''failed to marshal wallets'' (enc_wallets_pb cd) SetWallets (up_Wallets u) = Inr p4"
    "encoded_part ''failed to marshal monitoring links'' (enc_links cd) SetMonitoringLinks (up_MonitoringLinks u) = Inr p5"
    and ps: "ps = p1 @ p2 @ p3 @ p4 @ p5 @ plain_part SetStatus (up_Status u) @
            plain_part SetProvider (up_Provider u) @ plain_part SetTemplateID (up_TemplateID u) @
            plain_part SetRunName (up_RunName u)"
    using assms unfolding set_parts_def and_then_eq_Inr by blast
  show ?thesis
    by (simp add: ps fold_parts(1) [OF parts(1)] fold_parts(2) [OF parts(2)]
        fold_parts(3) [OF parts(3)] fold_parts(4) [OF parts(4)] fold_parts(5) [OF parts(5)]
        fold_parts(6-9))
qed

lemma dec_new_text:
  assumes "pred_option (stored enc dec) x" "dec old = Inr y"
  shows "dec (new_text enc x old) = Inr (or_old x y)"
  using assms by (cases x) (auto simp: new_text_def stored_iff)

lemma decode_wallets_new_text:
  assumes "pred_option (wallets_stored enc (dec_wallets_pb cd)) x" "decode_wallets cd sfx old = Inr y"
  shows "decode_wallets cd sfx (new_text enc x old) = Inr (case x of None \<Rightarrow> y | Some v \<Rightarrow> Some v)"
proof (cases x)
  case (Some v)
  with assms(1) obtain s where "enc v = Inr s" "s \<noteq> []" "s \<noteq> ''{}''" "dec_wallets_pb cd s = Inr v"
    by (auto simp: wallets_stored_iff)
  with Some show ?thesis by (simp add: new_text_def decode_wallets_def)
qed (use assms in \<open>simp add: new_text_def\<close>)

lemma decode_row_Inr:
  "decode_row cd sfx r = Inr w \<longleftrightarrow>
     dec_nodes cd (r_nodes r) = Inr (wf_Nodes w) \<and> dec_nodes cd (r_validators r) = Inr (wf_Validators w) \<and>
     dec_nodes cd (r_loadbalancers r) = Inr (wf_LoadBalancers w) \<and>
     decode_wallets cd sfx (r_wallets r) = Inr (wf_Wallets w) \<and>
     dec_config cd (r_config r) = Inr (wf_Config w) \<and>
     dec_links cd (r_monitoring_links r) = Inr (wf_MonitoringLinks w) \<and>
     wf_ID w = r_id r \<and> wf_WorkflowID w = r_workflow_id r \<and> wf_Status w = r_status r \<and>
     wf_LoadTestSpec w = decode_spec (r_load_test_spec r) \<and> wf_Provider w = r_provider r \<and>
     wf_TemplateID w = r_template_id r \<and> wf_RunName w = r_run_name r \<and>
     wf_CreatedAt w = r_created_at r \<and> wf_UpdatedAt w = r_updated_at r"
  by (cases w) (auto simp: decode_row_def and_then_eq_Inr)

lemma decode_update_row:
  assumes "set_parts cd u = Inr ps" "update_encodable cd u" "decode_row cd [] r = Inr w"
  shows "decode_row cd [] (update_row now (ps @ [SetUpdatedAt now]) r) = Inr (apply_update now u w)"
  using assms(2,3)
  by (simp add: decode_row_Inr update_row_def updated_at_trigger_def fold_set_parts [OF assms(1)]
      apply_update_def update_encodable_def dec_new_text decode_wallets_new_text)

lemma set_parts_total: "update_encodable cd u \<Longrightarrow> \<exists>ps. set_parts cd u = Inr ps"
  by (auto simp: set_parts_def encoded_part_def update_encodable_def stored_iff wallets_stored_iff
      split: option.splits)

lemma set_parts_Nil: "set_parts cd u = Inr [] \<longleftrightarrow> u = empty_update"
  by (cases u) (auto simp: set_parts_def encoded_part_def plain_part_def and_then_eq_Inr empty_update_def
      split: option.splits)

lemma create_step:
  assumes "db_inv t" "workflow_encodable cd w"
    and "sql_lookup r_workflow_id (wf_WorkflowID w) (t_workflows t) = None"
  shows "snd (CreateWorkflow cd (sql_ok now) w t) =
      Inr (w\<lparr>wf_ID := Suc (t_seq t), wf_CreatedAt := now, wf_UpdatedAt := now\<rparr>) \<and>
    db_abs cd (fst (CreateWorkflow cd (sql_ok now) w t)) = (db_abs cd t)(wf_WorkflowID w \<mapsto>
      w\<lparr>wf_ID := Suc (t_seq t), wf_CreatedAt := now, wf_UpdatedAt := now\<rparr>)"
proof -
  let ?w = "w\<lparr>wf_ID := Suc (t_seq t), wf_CreatedAt := now, wf_UpdatedAt := now\<rparr>"
  obtain row where row: "CreateWorkflow cd (sql_ok now) w t =
        (t\<lparr>t_workflows := t_workflows t @ [row], t_seq := Suc (t_seq t)\<rparr>, Inr ?w)"
      "sql_insert r_workflow_id row (t_workflows t) = Some (t_workflows t @ [row])"
      "r_workflow_id row = wf_WorkflowID w" "decode_row cd [] row = Inr ?w"
    using create_sql_ok [OF assms(2,3), of now] by blast
  have "db_abs cd (t\<lparr>t_workflows := t_workflows t @ [row], t_seq := Suc (t_seq t)\<rparr>) =
      (db_abs cd t)(wf_WorkflowID w \<mapsto> ?w)"
    using workflows.ins_lookup_same [OF db_inv_keys(1) [OF assms(1)] row(2)]
      workflows.ins_lookup_other [OF db_inv_keys(1) [OF assms(1)] row(2)] row(3,4)
    by (simp add: db_abs_def fun_eq_iff)
  with row(1) show ?thesis by simp
qed

lemma update_step:
  assumes "db_inv t" "update_encodable cd u" "u \<noteq> empty_update" "db_abs cd t k = Some w"
  shows "snd (UpdateWorkflow cd (sql_ok now) k u t) = Inr () \<and>
    db_abs cd (fst (UpdateWorkflow cd (sql_ok now) k u t)) = (db_abs cd t)(k \<mapsto> apply_update now u w)"
proof -
  obtain ps where ps: "set_parts cd u = Inr ps" "ps \<noteq> []"
    using set_parts_total [OF assms(2)] set_parts_Nil assms(3) by metis
  obtain r where r: "sql_lookup r_workflow_id k (t_workflows t) = Some r" "decode_row cd [] r = Inr w"
    using assms(4) by (auto simp: db_abs_def split: option.splits sum.splits)
  let ?f = "update_row now (ps @ [SetUpdatedAt now])"
  let ?t = "t\<lparr>t_workflows := sql_update r_workflow_id k ?f (t_workflows t)\<rparr>"
  have "UpdateWorkflow cd (sql_ok now) k u t = (?t, Inr ())"
    using ps r(1) sql_matches_0 [of r_workflow_id k "t_workflows t"]
    by (simp add: UpdateWorkflow_def exec_affected_def)
  moreover have "db_abs cd ?t = (db_abs cd t)(k \<mapsto> apply_update now u w)"
    using workflows.modify_law [OF db_inv_keys(1) [OF assms(1)], of ?f k] r
      decode_update_row [OF ps(1) assms(2) r(2), of now]
    by (auto simp: db_abs_def fun_eq_iff)
  ultimately show ?thesis by simp
qed

section \<open>Listing and paging\<close>

lemma scan_rows_each: "(\<And>i. sc i = None) \<Longrightarrow> scan_rows sc msg dec i rs = each dec rs"
  by (induction rs arbitrary: i) (auto split: sum.splits)

lemma query_rows_ok: "query_rows (sql_ok now) qm sm dec rows = each dec rows"
  by (simp add: query_rows_def scan_rows_each)

lemma query_rows_Inr: "query_rows ev qm sm dec rows = Inr xs \<Longrightarrow> each dec rows = Inr xs"
proof -
  have "scan_rows sc sm dec i rows = Inr xs \<Longrightarrow> each dec rows = Inr xs" for sc i
    by (induction rows arbitrary: i xs) (auto split: option.splits sum.splits)
  moreover assume "query_rows ev qm sm dec rows = Inr xs"
  ultimately show ?thesis
    by (cases "sq_stmt ev"; cases "sq_iter ev") (auto simp: query_rows_def split: sum.splits)
qed

definition row_view :: "codec \<Rightarrow> workflow_row \<Rightarrow> Workflow" where
  "row_view cd r = (case decode_row cd [] r of Inr w \<Rightarrow> w)"

lemma row_view: "is_ok (decode_row cd [] r) \<Longrightarrow> decode_row cd sfx r = Inr (row_view cd r)"
  by (auto simp: row_view_def is_ok_iff decode_row_sfx [of cd sfx])

lemma row_view_fields:
  assumes "is_ok (decode_row cd [] r)"
  shows "wf_ID (row_view cd r) = r_id r" "wf_WorkflowID (row_view cd r) = r_workflow_id r"
    "wf_Status (row_view cd r) = r_status r" "wf_CreatedAt (row_view cd r) = r_created_at r"
    "wf_TemplateID (row_view cd r) = r_template_id r"
  using decode_row_key [OF row_view [OF assms, of "[]"]] by auto

definition list_key :: "Workflow \<Rightarrow> nat \<times> int" where
  "list_key w = (if wf_Status w = STATUS_RUNNING then 0 else 1, - wf_CreatedAt w)"

lemma list_key_row_view: "is_ok (decode_row cd [] r) \<Longrightarrow> list_key (row_view cd r) = running_first r"
  by (simp add: list_key_def running_first_def row_view_fields)

lemma ListWorkflows_ok:
  assumes "list_all (\<lambda>r. is_ok (decode_row cd [] r)) (t_workflows t)"
  shows "ListWorkflows cd (sql_ok now) limit offset t =
    Inr (map (row_view cd) (sql_limit limit offset (sort_key running_first (t_workflows t))))"
  unfolding ListWorkflows_def query_rows_ok
proof (rule each_total)
  fix r assume "r \<in> set (sql_limit limit offset (sort_key running_first (t_workflows t)))"
  with set_sql_limit have "r \<in> set (t_workflows t)" by fastforce
  with assms show "decode_row cd (list_sfx r) r = Inr (row_view cd r)"
    by (simp add: row_view list_all_iff)
qed

section \<open>Properties\<close>


text \<open>Creating a workflow with a fresh id succeeds, gives it the next row id and the current
  time, and on the abstract store adds exactly that workflow: reading it back gives all its
  fields, and every other workflow is as before.\<close>

theorem CreateWorkflow_refines:
  assumes "db_inv t" "workflow_encodable cd w"
    and "sql_lookup r_workflow_id (wf_WorkflowID w) (t_workflows t) = None"
  shows "\<exists>t'. CreateWorkflow cd (sql_ok now) w t =
      (t', Inr (w\<lparr>wf_ID := Suc (t_seq t), wf_CreatedAt := now, wf_UpdatedAt := now\<rparr>)) \<and>
    db_abs cd t' = (db_abs cd t)(wf_WorkflowID w \<mapsto>
      w\<lparr>wf_ID := Suc (t_seq t), wf_CreatedAt := now, wf_UpdatedAt := now\<rparr>)"
  using create_step [OF assms] by (metis prod.collapse)

text \<open>A concrete store for the witnesses: codecs that are right on the values used there.\<close>

definition demo_request :: TestnetWorkflowRequest where
  "demo_request = \<lparr> wr_Repo = ''gaia'', wr_SHA = ''abc'', wr_IsEvmChain = False,
     wr_ChainConfig = empty_ChainsConfig\<lparr>ch_Name := ''hub'', ch_SetSeedNode := True\<rparr>,
     wr_RunnerType = ''Docker'', wr_CosmosSdkSha = [], wr_CometBFTSha = [],
     wr_EthereumLoadTestSpec = None, wr_CosmosLoadTestSpec = None, wr_LongRunningTestnet = False,
     wr_LaunchLoadBalancer = False, wr_TestnetDuration = ''1h'', wr_NumWallets = 10,
     wr_BaseMnemonic = [], wr_CatalystVersion = [], wr_ProviderSpecificConfig = [] \<rparr>"

definition demo_codec :: codec where
  "demo_codec = \<lparr> enc_nodes = (\<lambda>_. Inr ''[]''), dec_nodes = (\<lambda>_. Inr []),
     enc_wallets = (\<lambda>_. Inr ''{w}''), enc_wallets_pb = (\<lambda>_. Inr ''{w}''),
     dec_wallets_pb = (\<lambda>_. Inl (New ''no wallets'')), enc_links = (\<lambda>_. Inr ''{}''),
     dec_links = (\<lambda>_. Inr []), enc_config = (\<lambda>_. Inr ''config''), dec_config = (\<lambda>_. Inr demo_request) \<rparr>"

definition demo_workflow :: Workflow where
  "demo_workflow = \<lparr> wf_ID = 0, wf_WorkflowID = ''wf-1'', wf_Nodes = [], wf_Validators = [],
     wf_LoadBalancers = [], wf_Wallets = None, wf_MonitoringLinks = [], wf_Status = STATUS_RUNNING,
     wf_Config = demo_request, wf_LoadTestSpec = Some ''spec'', wf_Provider = ''Docker'',
     wf_TemplateID = [], wf_RunName = [], wf_CreatedAt = 0, wf_UpdatedAt = 0 \<rparr>"

definition demo_tables :: Tables where
  "demo_tables = fst (CreateWorkflow demo_codec (sql_ok 7) demo_workflow empty_Tables)"

lemma demo_encodable: "workflow_encodable demo_codec demo_workflow"
  by (simp add: workflow_encodable_def stored_def demo_codec_def demo_workflow_def)

lemma demo_tables_rows:
  "\<exists>row. demo_tables = \<lparr> t_workflows = [row], t_seq = 1, t_templates = [] \<rparr> \<and>
     r_workflow_id row = ''wf-1'' \<and>
     decode_row demo_codec [] row = Inr (demo_workflow\<lparr>wf_ID := 1, wf_CreatedAt := 7, wf_UpdatedAt := 7\<rparr>)"
proof -
  have "sql_lookup r_workflow_id (wf_WorkflowID demo_workflow) (t_workflows empty_Tables) = None"
    by (simp add: empty_Tables_def sql_lookup_def)
  from create_sql_ok [OF demo_encodable this, of 7] show ?thesis
    by (auto simp: demo_tables_def empty_Tables_def demo_workflow_def)
qed

lemma demo_tables_facts:
  "db_inv demo_tables"
  "db_abs demo_codec demo_tables ''wf-1'' =
     Some (demo_workflow\<lparr>wf_ID := 1, wf_CreatedAt := 7, wf_UpdatedAt := 7\<rparr>)"
  "list_all (\<lambda>r. is_ok (decode_row demo_codec [] r)) (t_workflows demo_tables)"
  "length (t_workflows demo_tables) = 1"
  using demo_tables_rows db_inv_create [OF db_inv_empty]
  by (auto simp: db_abs_def sql_lookup_def demo_tables_def)

theorem CreateWorkflow_refines_witness:
  "\<exists>t'. CreateWorkflow demo_codec (sql_ok 7) demo_workflow empty_Tables =
      (t', Inr (demo_workflow\<lparr>wf_ID := 1, wf_CreatedAt := 7, wf_UpdatedAt := 7\<rparr>)) \<and>
    db_abs demo_codec t' ''wf-1'' =
      Some (demo_workflow\<lparr>wf_ID := 1, wf_CreatedAt := 7, wf_UpdatedAt := 7\<rparr>)"
proof -
  have "sql_lookup r_workflow_id (wf_WorkflowID demo_workflow) (t_workflows empty_Tables) = None"
    by (simp add: empty_Tables_def sql_lookup_def)
  from CreateWorkflow_refines [OF db_inv_empty demo_encodable this, of 7] show ?thesis
    by (auto simp: empty_Tables_def demo_workflow_def)
qed

text \<open>C4: an update with at least one field, of a workflow that is there, succeeds, and on the
  abstract store it replaces exactly the given fields and the update time of that workflow: every field
  not given and every other workflow is as before.\<close>

theorem UpdateWorkflow_refines:
  assumes "db_inv t" "update_encodable cd u" "u \<noteq> empty_update" "db_abs cd t k = Some w"
  shows "\<exists>t'. UpdateWorkflow cd (sql_ok now) k u t = (t', Inr ()) \<and>
    db_abs cd t' = (db_abs cd t)(k \<mapsto> apply_update now u w)"
  using update_step [OF assms] by (metis prod.collapse)

theorem UpdateWorkflow_refines_witness:
  "\<exists>t'. UpdateWorkflow demo_codec (sql_ok 9) ''wf-1'' (empty_update\<lparr>up_Status := Some STATUS_FAILED\<rparr>) demo_tables =
      (t', Inr ()) \<and>
    db_abs demo_codec t' ''wf-1'' = Some (demo_workflow\<lparr>wf_ID := 1, wf_CreatedAt := 7,
      wf_UpdatedAt := 9, wf_Status := STATUS_FAILED\<rparr>)"
proof -
  have "update_encodable demo_codec (empty_update\<lparr>up_Status := Some STATUS_FAILED\<rparr>)"
    "empty_update\<lparr>up_Status := Some STATUS_FAILED\<rparr> \<noteq> empty_update"
    by (simp_all add: update_encodable_def empty_update_def)
  from UpdateWorkflow_refines [OF demo_tables_facts(1) this demo_tables_facts(2), of 9]
  show ?thesis by (auto simp: apply_update_def empty_update_def demo_workflow_def)
qed

text \<open>C32: an update that returns an error, other than a failure to read the number of rows, leaves
  the database as it was; so do a failed creation and a failed deletion.\<close>

theorem failed_operations_change_nothing:
  assumes "sq_affected ev = None"
  shows "(snd (UpdateWorkflow cd ev k u t) = Inl e \<longrightarrow> fst (UpdateWorkflow cd ev k u t) = t) \<and>
    (snd (DeleteWorkflow ev k t) = Inl e \<longrightarrow> fst (DeleteWorkflow ev k t) = t) \<and>
    (snd (CreateWorkflow cd ev w t) = Inl e \<longrightarrow> fst (CreateWorkflow cd ev w t) = t)"
  using assms sql_matches_0 [of r_workflow_id k "t_workflows t"]
    sql_update_absent [of r_workflow_id k "t_workflows t"]
    sql_delete_absent [of r_workflow_id k "t_workflows t"]
  by (auto simp: UpdateWorkflow_def DeleteWorkflow_def CreateWorkflow_def exec_affected_def
      split: sum.splits option.splits)

theorem failed_operations_change_nothing_witness:
  "fst (UpdateWorkflow demo_codec (sql_ok 9) ''none'' (empty_update\<lparr>up_Provider := Some ''x''\<rparr>) empty_Tables) =
     empty_Tables"
proof -
  have "snd (UpdateWorkflow demo_codec (sql_ok 9) ''none'' (empty_update\<lparr>up_Provider := Some ''x''\<rparr>) empty_Tables) =
      Inl (New ''workflow not found: none'')"
    by (simp add: UpdateWorkflow_def set_parts_def encoded_part_def plain_part_def empty_update_def
        exec_affected_def sql_matches_def empty_Tables_def)
  then show ?thesis using failed_operations_change_nothing [of "sql_ok 9"] by simp
qed

text \<open>Reading the workflow list page by page, with pages that cover the table, gives every
  workflow exactly once, the running ones first and each group by decreasing creation time.\<close>

theorem ListWorkflows_pages:
  assumes "list_all (\<lambda>r. is_ok (decode_row cd [] r)) (t_workflows t)"
    and "0 < sz" "length (t_workflows t) \<le> n * sz"
  shows "\<exists>pages. each (\<lambda>p. ListWorkflows cd (sql_ok now) (int sz) (int (p * sz)) t) [0..<n] = Inr pages \<and>
    sorted (map list_key (concat pages)) \<and>
    mset (map wf_WorkflowID (concat pages)) = mset (map r_workflow_id (t_workflows t))"
proof -
  let ?rows = "sort_key running_first (t_workflows t)"
  let ?pages = "map (\<lambda>p. map (row_view cd) (sql_limit (int sz) (int (p * sz)) ?rows)) [0..<n]"
  have ok: "is_ok (decode_row cd [] r)" if "r \<in> set ?rows" for r
    using that assms(1) by (simp add: list_all_iff)
  have all: "concat ?pages = map (row_view cd) ?rows"
  proof -
    have "concat ?pages = map (row_view cd) (concat (map (\<lambda>p. sql_limit (int sz) (int (p * sz)) ?rows) [0..<n]))"
      by (simp add: map_concat comp_def)
    also have "\<dots> = map (row_view cd) ?rows"
      unfolding sql_limit_pages [OF assms(2)] using assms(3) by simp
    finally show ?thesis .
  qed
  have "each (\<lambda>p. ListWorkflows cd (sql_ok now) (int sz) (int (p * sz)) t) [0..<n] = Inr ?pages"
    by (rule each_total) (rule ListWorkflows_ok [OF assms(1)])
  moreover have "map list_key (concat ?pages) = map running_first ?rows"
    unfolding all by (simp add: ok list_key_row_view)
  moreover have "map wf_WorkflowID (concat ?pages) = map r_workflow_id ?rows"
    unfolding all by (simp add: ok row_view_fields)
  moreover have "mset (map r_workflow_id ?rows) = mset (map r_workflow_id (t_workflows t))"
    by simp
  ultimately show ?thesis using sorted_sort_key [of running_first "t_workflows t"]
    by (intro exI [of _ ?pages]) (simp only: simp_thms)
qed

theorem ListWorkflows_pages_witness:
  "\<exists>pages. each (\<lambda>p. ListWorkflows demo_codec (sql_ok 8) (int 2) (int (p * 2)) demo_tables) [0..<3] = Inr pages \<and>
    sorted (map list_key (concat pages)) \<and>
    mset (map wf_WorkflowID (concat pages)) = mset (map r_workflow_id (t_workflows demo_tables))"
  by (rule ListWorkflows_pages [OF demo_tables_facts(3)]) (simp_all add: demo_tables_facts)

text \<open>The textual status of a workflow reads back as the status exactly for the six statuses
  the API knows; a timed-out workflow reads back as failed, a continued one as running and an unknown
  one as pending.\<close>

theorem WorkflowStatus_roundtrip:
  "StringToWorkflowStatus (WorkflowStatusToString s) =
     (case s of STATUS_TIMED_OUT \<Rightarrow> STATUS_FAILED | STATUS_CONTINUED_AS_NEW \<Rightarrow> STATUS_RUNNING
      | STATUS_OTHER _ \<Rightarrow> STATUS_UNSPECIFIED | _ \<Rightarrow> s)"
  by (cases s) (simp_all add: StringToWorkflowStatus_def)

end
