(* ===== verification/Service.thy ===== *)
theory Service
  imports Store
begin

text \<open>
  The gRPC service of the server, \<open>server/services/workflow/workflow.go\<close>: every handler over
  the database of theory \<open>Store\<close> and the Temporal client. The client's answers, the codecs of
  \<open>encoding/json\<close> and \<open>yaml.v3\<close>, and the formats of \<open>time\<close> are parameters; the calls that make
  Temporal do something are recorded in the state, so that a theorem can say when a workflow is
  started. Each database call takes its own outcome of the SQL layer.
\<close>

section \<open>Messages of the API\<close>

record pb_GenesisKV =
  pg_Key :: string
  pg_Value :: string

record pb_RegionConfig =
  pr_Name :: string
  pr_NumOfNodes :: uint64
  pr_NumOfValidators :: uint64

record pb_ChainConfig =
  pcc_Name :: string
  pcc_NumOfNodes :: uint64
  pcc_NumOfValidators :: uint64
  pcc_GenesisModifications :: "pb_GenesisKV list"
  pcc_Image :: string
  pcc_CustomAppConfig :: string
  pcc_CustomConsensusConfig :: string
  pcc_CustomClientConfig :: string
  pcc_SetSeedNode :: bool
  pcc_SetPersistentPeers :: bool
  pcc_RegionConfigs :: "pb_RegionConfig list"
  pcc_Version :: string

record pb_CreateWorkflowRequest =
  cw_Repo :: string
  cw_Sha :: string
  cw_IsEvmChain :: bool
  cw_ChainConfig :: "pb_ChainConfig option"
  cw_RunnerType :: string
  cw_EncodedLoadTestSpec :: string
  cw_LongRunningTestnet :: bool
  cw_TestnetDuration :: string
  cw_NumWallets :: int32
  cw_LaunchLoadBalancer :: bool
  cw_CatalystVersion :: string
  cw_BaseMnemonic :: string
  cw_CosmosSdkSha :: string
  cw_CometbftSha :: string
  cw_ProviderConfig :: "string gomap"

record pb_Workflow =
  pw_WorkflowId :: string
  pw_Status :: string
  pw_Nodes :: "Node list"
  pw_Validators :: "Node list"
  pw_LoadBalancers :: "Node list"
  pw_Monitoring :: "string gomap"
  pw_Config :: pb_CreateWorkflowRequest
  pw_LoadTestSpec :: string
  pw_Wallets :: "WalletInfo option"
  pw_Provider :: string
  pw_StartTime :: string
  pw_EndTime :: string

record pb_WorkflowSummary =
  ws_WorkflowId :: string
  ws_Status :: string
  ws_StartTime :: string
  ws_Repo :: string
  ws_Sha :: string
  ws_Provider :: string
  ws_TemplateId :: string
  ws_RunName :: string

record pb_WorkflowListResponse =
  wl_Workflows :: "pb_WorkflowSummary list"
  wl_ReturnedCount :: int32
  wl_Total :: int32

record pb_UpdateWorkflowDataRequest =
  ud_WorkflowId :: string
  ud_LoadBalancers :: "Node list"
  ud_Monitoring :: "string gomap"
  ud_Nodes :: "Node list"
  ud_Validators :: "Node list"
  ud_Wallets :: "WalletInfo option"
  ud_Provider :: string

record pb_WorkflowTemplate =
  pt_Id :: string
  pt_Description :: string
  pt_TemplateConfig :: pb_CreateWorkflowRequest
  pt_CreatedAt :: string
  pt_CreatedBy :: string

record pb_WorkflowTemplateSummary =
  ps_Id :: string
  ps_Description :: string
  ps_CreatedAt :: string
  ps_RunCount :: int32

record pb_TemplateRun =
  pn_RunId :: string
  pn_WorkflowId :: string
  pn_TemplateId :: string
  pn_Sha :: string
  pn_RunName :: string
  pn_Status :: string
  pn_StartedAt :: string
  pn_CompletedAt :: string
  pn_MonitoringLinks :: "string gomap"
  pn_Provider :: string

section \<open>What the handlers call\<close>

record libs =
  ParseDuration :: "string \<Rightarrow> int result"
  json_map_dec :: "string \<Rightarrow> gval gomap option result"
  json_map_enc :: "gval gomap \<Rightarrow> string result"
  json_any_dec :: "string \<Rightarrow> gval result"
  json_any_enc :: "gval \<Rightarrow> string result"
  spec_json_dec :: "string \<Rightarrow> LoadTestSpec result"
  yaml_dec :: "string \<Rightarrow> LoadTestSpec result"
  yaml_enc :: "LoadTestSpec \<Rightarrow> string result"
  fmt_RFC3339 :: "int \<Rightarrow> string"
  fmt_datetime :: "int \<Rightarrow> string"

record WorkflowExecutionInfo =
  we_Status :: WorkflowStatus
  we_StartTime :: "int option"
  we_CloseTime :: "int option"

record temporal =
  tc_ExecuteWorkflow :: "TestnetWorkflowRequest \<Rightarrow> string result"
  tc_Describe :: "string \<Rightarrow> WorkflowExecutionInfo result"
  tc_Cancel :: "string \<Rightarrow> unit result"
  tc_Signal :: "string \<Rightarrow> string \<Rightarrow> unit result"

datatype temporal_call =
    CallExecute TestnetWorkflowRequest
  | CallCancel string
  | CallSignal string string

record service =
  sv_db :: Tables
  sv_calls :: "temporal_call list"

section \<open>Helpers\<close>

definition DefaultBaseMnemonic :: string where
  "DefaultBaseMnemonic = ''copper push brief egg scan entry inform record adjust fossil boss egg comic alien upon aspect dry avoid interest fury window hint race symptom''"

definition unquote :: "string \<Rightarrow> string" where
  "unquote s =
     (if length s \<ge> 2 \<and> hd s = CHR 0x22 \<and> last s = CHR 0x22 then butlast (tl s) else s)"

fun numeric_from :: "nat \<Rightarrow> string \<Rightarrow> bool" where
  "numeric_from i [] = True"
| "numeric_from i (c # cs) =
     (if \<not> is_digit c \<and> c \<noteq> CHR ''.'' \<and> (i > 0 \<or> c \<noteq> CHR ''-'') then False
      else numeric_from (Suc i) cs)"

definition isNumericString :: "string \<Rightarrow> bool" where
  "isNumericString s = numeric_from 0 (unquote s)"

definition convertProtoNodes :: "Node list \<Rightarrow> Node list" where
  "convertProtoNodes ns =
     map (\<lambda>n. empty_Node\<lparr>n_Name := n_Name n, n_Address := n_Address n, n_Rpc := n_Rpc n,
                n_Lcd := n_Lcd n, n_Grpc := n_Grpc n\<rparr>) ns"

definition isWorkflowTerminal :: "WorkflowStatus \<Rightarrow> bool" where
  "isWorkflowTerminal st \<longleftrightarrow>
     st = STATUS_COMPLETED \<or> st = STATUS_FAILED \<or> st = STATUS_CANCELED \<or> st = STATUS_TERMINATED"

definition parseJSONConfig :: "libs \<Rightarrow> string \<Rightarrow> gval gomap option" where
  "parseJSONConfig L s =
     (if s = [] then None else case json_map_dec L s of Inl _ \<Rightarrow> None | Inr config \<Rightarrow> config)"

definition marshalJSONConfig :: "libs \<Rightarrow> gval gomap option \<Rightarrow> string" where
  "marshalJSONConfig L config =
     (case config of
        None \<Rightarrow> []
      | Some m \<Rightarrow> (case json_map_enc L m of Inl _ \<Rightarrow> [] | Inr s \<Rightarrow> s))"

definition decodeLoadTestSpec :: "libs \<Rightarrow> string \<Rightarrow> LoadTestSpec result" where
  "decodeLoadTestSpec L s = yaml_dec L s"

definition encodeLoadTestSpec :: "libs \<Rightarrow> LoadTestSpec \<Rightarrow> string result" where
  "encodeLoadTestSpec L s = yaml_enc L s"

definition region_of_proto :: "pb_RegionConfig \<Rightarrow> RegionConfig" where
  "region_of_proto rc = \<lparr> rc_Name = pr_Name rc, rc_NumValidators = int_of_uint64 (pr_NumOfValidators rc),
     rc_NumNodes = int_of_uint64 (pr_NumOfNodes rc) \<rparr>"

definition region_to_proto :: "RegionConfig \<Rightarrow> pb_RegionConfig" where
  "region_to_proto rc = \<lparr> pr_Name = rc_Name rc, pr_NumOfNodes = uint64_of_int (rc_NumNodes rc),
     pr_NumOfValidators = uint64_of_int (rc_NumValidators rc) \<rparr>"

text \<open>A genesis modification of a request: numeric strings stay strings, other values are JSON
  when they parse as JSON.\<close>

definition genesis_of_proto :: "libs \<Rightarrow> pb_GenesisKV \<Rightarrow> GenesisKV" where
  "genesis_of_proto L gm =
     (if isNumericString (pg_Value gm) then \<lparr> gk_Key = pg_Key gm, gk_Value = VStr (pg_Value gm) \<rparr>
      else case json_any_dec L (pg_Value gm) of
             Inr v \<Rightarrow> \<lparr> gk_Key = pg_Key gm, gk_Value = v \<rparr>
           | Inl _ \<Rightarrow> \<lparr> gk_Key = pg_Key gm, gk_Value = VStr (pg_Value gm) \<rparr>)"

text \<open>The reverse, in \<open>GetWorkflow\<close>: a value that does not marshal is skipped.\<close>

definition genesis_to_proto :: "libs \<Rightarrow> GenesisKV \<Rightarrow> pb_GenesisKV option" where
  "genesis_to_proto L gm =
     (case gk_Value gm of
        VStr v \<Rightarrow> Some \<lparr> pg_Key = gk_Key gm, pg_Value = v \<rparr>
      | v \<Rightarrow> (case json_any_enc L v of
                Inl _ \<Rightarrow> None
              | Inr s \<Rightarrow> Some \<lparr> pg_Key = gk_Key gm, pg_Value = s \<rparr>))"

definition set_load_test :: "LoadTestSpec \<Rightarrow> TestnetWorkflowRequest \<Rightarrow> TestnetWorkflowRequest" where
  "set_load_test spec r =
     (if lts_Kind spec = ''eth'' then r\<lparr>wr_EthereumLoadTestSpec := Some spec\<rparr>
      else if lts_Kind spec = ''cosmos'' then r\<lparr>wr_CosmosLoadTestSpec := Some spec\<rparr>
      else r)"

definition encoded_spec :: "libs \<Rightarrow> TestnetWorkflowRequest \<Rightarrow> string" where
  "encoded_spec L r =
     (case wr_EthereumLoadTestSpec r of
        Some spec \<Rightarrow> (case encodeLoadTestSpec L spec of Inl _ \<Rightarrow> [] | Inr s \<Rightarrow> s)
      | None \<Rightarrow>
          (case wr_CosmosLoadTestSpec r of
             Some spec \<Rightarrow> (case encodeLoadTestSpec L spec of Inl _ \<Rightarrow> [] | Inr s \<Rightarrow> s)
           | None \<Rightarrow> []))"

section \<open>Creating a workflow\<close>

definition request_base :: "pb_CreateWorkflowRequest \<Rightarrow> TestnetWorkflowRequest" where
  "request_base req = \<lparr> wr_Repo = cw_Repo req, wr_SHA = cw_Sha req, wr_IsEvmChain = cw_IsEvmChain req,
     wr_ChainConfig = empty_ChainsConfig, wr_RunnerType = cw_RunnerType req,
     wr_CosmosSdkSha = cw_CosmosSdkSha req, wr_CometBFTSha = cw_CometbftSha req,
     wr_EthereumLoadTestSpec = None, wr_CosmosLoadTestSpec = None,
     wr_LongRunningTestnet = cw_LongRunningTestnet req,
     wr_LaunchLoadBalancer = cw_LaunchLoadBalancer req,
     wr_TestnetDuration = cw_TestnetDuration req, wr_NumWallets = int_of_int32 (cw_NumWallets req),
     wr_BaseMnemonic = cw_BaseMnemonic req, wr_CatalystVersion = cw_CatalystVersion req,
     wr_ProviderSpecificConfig = cw_ProviderConfig req \<rparr>"

definition chain_of_proto :: "libs \<Rightarrow> pb_ChainConfig \<Rightarrow> ChainsConfig" where
  "chain_of_proto L c = \<lparr> ch_Name = pcc_Name c, ch_Image = pcc_Image c, ch_Version = pcc_Version c,
     ch_GenesisModifications = map (genesis_of_proto L) (pcc_GenesisModifications c),
     ch_NumOfNodes = pcc_NumOfNodes c, ch_NumOfValidators = pcc_NumOfValidators c,
     ch_RegionConfigs = map region_of_proto (pcc_RegionConfigs c),
     ch_CustomAppConfig = parseJSONConfig L (pcc_CustomAppConfig c),
     ch_CustomConsensusConfig = parseJSONConfig L (pcc_CustomConsensusConfig c),
     ch_CustomClientConfig = parseJSONConfig L (pcc_CustomClientConfig c),
     ch_SetSeedNode = pcc_SetSeedNode c, ch_SetPersistentPeers = pcc_SetPersistentPeers c \<rparr>"

text \<open>The request a call of \<open>CreateWorkflow\<close> builds, up to and including \<open>Validate\<close>.\<close>

definition build_request :: "libs \<Rightarrow> pb_CreateWorkflowRequest \<Rightarrow> TestnetWorkflowRequest result" where
  "build_request L req0 =
     and_then (if cw_TestnetDuration req0 \<noteq> [] then
                 wrap_err (''invalid testnet duration format '' @ [CHR 0x27] @ cw_TestnetDuration req0 @ [CHR 0x27])
                   (ParseDuration L (cw_TestnetDuration req0))
               else Inr 0) (\<lambda>_.
     let req = (if cw_BaseMnemonic req0 = [] then req0\<lparr>cw_BaseMnemonic := DefaultBaseMnemonic\<rparr> else req0)
     in and_then
       (case cw_ChainConfig req of
          None \<Rightarrow> Inr (request_base req)
        | Some c \<Rightarrow>
            if \<not> pcc_SetSeedNode c \<and> \<not> pcc_SetPersistentPeers c then
              Inl (New ''at least one of SetSeedNode or SetPersistentPeers must be set to true'')
            else Inr ((request_base req)\<lparr>wr_ChainConfig := chain_of_proto L c\<rparr>)) (\<lambda>r.
     and_then
       (if cw_EncodedLoadTestSpec req \<noteq> [] then
          and_then (decodeLoadTestSpec L (cw_EncodedLoadTestSpec req)) (\<lambda>spec. Inr (set_load_test spec r))
        else Inr r) (\<lambda>r'.
     and_then (wrap_err ''workflow request validation failed'' (TestnetWorkflowRequest_Validate r'))
       (\<lambda>_. Inr r'))))"

definition new_workflow :: "string \<Rightarrow> TestnetWorkflowRequest \<Rightarrow> Workflow" where
  "new_workflow workflowID r = \<lparr> wf_ID = 0, wf_WorkflowID = workflowID, wf_Nodes = [],
     wf_Validators = [], wf_LoadBalancers = [], wf_Wallets = None, wf_MonitoringLinks = [],
     wf_Status = STATUS_RUNNING, wf_Config = r, wf_LoadTestSpec = None, wf_Provider = [],
     wf_TemplateID = [], wf_RunName = [], wf_CreatedAt = 0, wf_UpdatedAt = 0 \<rparr>"

definition svc_CreateWorkflow ::
    "libs \<Rightarrow> temporal \<Rightarrow> codec \<Rightarrow> sql_env \<Rightarrow> pb_CreateWorkflowRequest \<Rightarrow> service \<Rightarrow> service \<times> string result" where
  "svc_CreateWorkflow L tc cd ev req s =
     (case build_request L req of
        Inl e \<Rightarrow> (s, Inl e)
      | Inr r \<Rightarrow>
          let s1 = s\<lparr>sv_calls := sv_calls s @ [CallExecute r]\<rparr>
          in (case tc_ExecuteWorkflow tc r of
                Inl e \<Rightarrow> (s1, Inl (Wrap ''failed to execute workflow'' e))
              | Inr workflowID \<Rightarrow>
                  (s1\<lparr>sv_db := fst (CreateWorkflow cd ev (new_workflow workflowID r) (sv_db s1))\<rparr>,
                   Inr workflowID)))"

section \<open>Reading workflows\<close>

definition chain_to_proto :: "libs \<Rightarrow> ChainsConfig \<Rightarrow> pb_ChainConfig" where
  "chain_to_proto L c = \<lparr> pcc_Name = ch_Name c, pcc_NumOfNodes = ch_NumOfNodes c,
     pcc_NumOfValidators = ch_NumOfValidators c,
     pcc_GenesisModifications = List.map_filter (genesis_to_proto L) (ch_GenesisModifications c),
     pcc_Image = ch_Image c,
     pcc_CustomAppConfig = marshalJSONConfig L (ch_CustomAppConfig c),
     pcc_CustomConsensusConfig = marshalJSONConfig L (ch_CustomConsensusConfig c),
     pcc_CustomClientConfig = marshalJSONConfig L (ch_CustomClientConfig c),
     pcc_SetSeedNode = ch_SetSeedNode c, pcc_SetPersistentPeers = ch_SetPersistentPeers c,
     pcc_RegionConfigs = map region_to_proto (ch_RegionConfigs c), pcc_Version = ch_Version c \<rparr>"

definition config_to_proto :: "libs \<Rightarrow> TestnetWorkflowRequest \<Rightarrow> pb_CreateWorkflowRequest" where
  "config_to_proto L r = \<lparr> cw_Repo = wr_Repo r, cw_Sha = wr_SHA r, cw_IsEvmChain = wr_IsEvmChain r,
     cw_ChainConfig = Some (chain_to_proto L (wr_ChainConfig r)), cw_RunnerType = wr_RunnerType r,
     cw_EncodedLoadTestSpec = encoded_spec L r, cw_LongRunningTestnet = wr_LongRunningTestnet r,
     cw_TestnetDuration = wr_TestnetDuration r, cw_NumWallets = int32_of_int (wr_NumWallets r),
     cw_LaunchLoadBalancer = wr_LaunchLoadBalancer r, cw_CatalystVersion = wr_CatalystVersion r,
     cw_BaseMnemonic = wr_BaseMnemonic r, cw_CosmosSdkSha = wr_CosmosSdkSha r,
     cw_CometbftSha = wr_CometBFTSha r, cw_ProviderConfig = wr_ProviderSpecificConfig r \<rparr>"

definition stored_spec_text :: "libs \<Rightarrow> string option \<Rightarrow> string result" where
  "stored_spec_text L spec =
     (case spec of
        None \<Rightarrow> Inr []
      | Some s \<Rightarrow> (case spec_json_dec L s of Inl _ \<Rightarrow> Inr [] | Inr x \<Rightarrow> encodeLoadTestSpec L x))"

definition svc_GetWorkflow ::
    "libs \<Rightarrow> temporal \<Rightarrow> codec \<Rightarrow> sql_env \<Rightarrow> string \<Rightarrow> service \<Rightarrow> pb_Workflow result" where
  "svc_GetWorkflow L tc cd ev workflowID s =
     and_then (wrap_err ''failed to get workflow'' (GetWorkflow cd ev workflowID (sv_db s))) (\<lambda>w.
     and_then (wrap_err ''failed to describe workflow'' (tc_Describe tc workflowID)) (\<lambda>desc.
     and_then (stored_spec_text L (wf_LoadTestSpec w)) (\<lambda>spec.
       Inr \<lparr> pw_WorkflowId = workflowID, pw_Status = WorkflowStatusToString (we_Status desc),
             pw_Nodes = wf_Nodes w, pw_Validators = wf_Validators w,
             pw_LoadBalancers = wf_LoadBalancers w, pw_Monitoring = wf_MonitoringLinks w,
             pw_Config = config_to_proto L (wf_Config w), pw_LoadTestSpec = spec,
             pw_Wallets = wf_Wallets w, pw_Provider = wf_Provider w,
             pw_StartTime = (case we_StartTime desc of None \<Rightarrow> [] | Some x \<Rightarrow> fmt_RFC3339 L x),
             pw_EndTime = (case we_CloseTime desc of None \<Rightarrow> [] | Some x \<Rightarrow> fmt_RFC3339 L x) \<rparr>)))"

definition workflow_summary :: "libs \<Rightarrow> Workflow \<Rightarrow> pb_WorkflowSummary" where
  "workflow_summary L w = \<lparr> ws_WorkflowId = wf_WorkflowID w,
     ws_Status = WorkflowStatusToString (wf_Status w), ws_StartTime = fmt_datetime L (wf_CreatedAt w),
     ws_Repo = wr_Repo (wf_Config w), ws_Sha = wr_SHA (wf_Config w), ws_Provider = wf_Provider w,
     ws_TemplateId = wf_TemplateID w, ws_RunName = wf_RunName w \<rparr>"

definition svc_ListWorkflows ::
    "libs \<Rightarrow> codec \<Rightarrow> sql_env \<Rightarrow> sql_env \<Rightarrow> int32 \<Rightarrow> int32 \<Rightarrow> service \<Rightarrow> pb_WorkflowListResponse result" where
  "svc_ListWorkflows L cd ev1 ev2 limit offset s =
     and_then (wrap_err ''failed to count workflows'' (CountWorkflows ev1 (sv_db s))) (\<lambda>totalCount.
     and_then (wrap_err ''failed to list workflows''
        (ListWorkflows cd ev2 (int_of_int32 limit) (int_of_int32 offset) (sv_db s))) (\<lambda>ws.
       Inr \<lparr> wl_Workflows = map (workflow_summary L) ws, wl_ReturnedCount = int32_of_int (int (length ws)),
             wl_Total = int32_of_int (int totalCount) \<rparr>))"

section \<open>Control and updates\<close>

definition svc_CancelWorkflow :: "temporal \<Rightarrow> string \<Rightarrow> service \<Rightarrow> service \<times> string result" where
  "svc_CancelWorkflow tc workflowID s =
     (s\<lparr>sv_calls := sv_calls s @ [CallCancel workflowID]\<rparr>,
      and_then (wrap_err ''failed to cancel workflow'' (tc_Cancel tc workflowID)) (\<lambda>_. Inr workflowID))"

definition svc_SignalWorkflow :: "temporal \<Rightarrow> string \<Rightarrow> string \<Rightarrow> service \<Rightarrow> service \<times> string result" where
  "svc_SignalWorkflow tc workflowID signal s =
     (s\<lparr>sv_calls := sv_calls s @ [CallSignal workflowID signal]\<rparr>,
      and_then (wrap_err ''failed to signal workflow'' (tc_Signal tc workflowID signal)) (\<lambda>_. Inr workflowID))"

definition svc_RunLoadTest :: "string \<Rightarrow> string \<Rightarrow> service \<Rightarrow> service \<times> string result" where
  "svc_RunLoadTest workflowID spec s = (s, Inr workflowID)"

definition nonempty :: "'a list \<Rightarrow> 'a list option" where
  "nonempty xs = (if xs = [] then None else Some xs)"

definition update_of_request :: "pb_UpdateWorkflowDataRequest \<Rightarrow> WorkflowUpdate" where
  "update_of_request req =
     empty_update\<lparr>up_LoadBalancers := nonempty (convertProtoNodes (ud_LoadBalancers req)),
       up_MonitoringLinks := nonempty (ud_Monitoring req),
       up_Nodes := nonempty (convertProtoNodes (ud_Nodes req)),
       up_Validators := nonempty (convertProtoNodes (ud_Validators req)),
       up_Wallets := ud_Wallets req, up_Provider := nonempty (ud_Provider req)\<rparr>"

definition svc_UpdateWorkflowData ::
    "codec \<Rightarrow> sql_env \<Rightarrow> pb_UpdateWorkflowDataRequest \<Rightarrow> service \<Rightarrow> service \<times> string result" where
  "svc_UpdateWorkflowData cd ev req s =
     (case UpdateWorkflow cd ev (ud_WorkflowId req) (update_of_request req) (sv_db s) of
        (t, res) \<Rightarrow>
          (s\<lparr>sv_db := t\<rparr>,
           and_then (wrap_err ''failed to update workflow data'' res) (\<lambda>_. Inr (ud_WorkflowId req))))"

text \<open>The periodic refresh; \<open>ev k\<close> is the outcome of the update of workflow \<open>k\<close>.\<close>

definition refresh_one :: "temporal \<Rightarrow> codec \<Rightarrow> (string \<Rightarrow> sql_env) \<Rightarrow> Workflow \<Rightarrow> Tables \<Rightarrow> Tables" where
  "refresh_one tc cd ev w t =
     (if isWorkflowTerminal (wf_Status w) then t
      else case tc_Describe tc (wf_WorkflowID w) of
             Inl _ \<Rightarrow> t
           | Inr desc \<Rightarrow>
               if we_Status desc \<noteq> wf_Status w
               then fst (UpdateWorkflow cd (ev (wf_WorkflowID w)) (wf_WorkflowID w)
                      (empty_update\<lparr>up_Status := Some (we_Status desc)\<rparr>) t)
               else t)"

definition UpdateWorkflowStatuses ::
    "temporal \<Rightarrow> codec \<Rightarrow> sql_env \<Rightarrow> (string \<Rightarrow> sql_env) \<Rightarrow> service \<Rightarrow> service" where
  "UpdateWorkflowStatuses tc cd evl ev s =
     (case ListWorkflows cd evl 1000 0 (sv_db s) of
        Inl _ \<Rightarrow> s
      | Inr ws \<Rightarrow> s\<lparr>sv_db := fold (refresh_one tc cd ev) ws (sv_db s)\<rparr>)"

section \<open>Templates\<close>

definition convertProtoToWorkflowRequest :: "libs \<Rightarrow> pb_CreateWorkflowRequest \<Rightarrow> TestnetWorkflowRequest" where
  "convertProtoToWorkflowRequest L req =
     (let r = (request_base req)\<lparr>wr_BaseMnemonic := [], wr_CatalystVersion := []\<rparr>;
          r1 = (case cw_ChainConfig req of
                  None \<Rightarrow> r
                | Some c \<Rightarrow> r\<lparr>wr_ChainConfig := (chain_of_proto L c)\<lparr>ch_Version := [],
                     ch_GenesisModifications := map (\<lambda>gm. \<lparr> gk_Key = pg_Key gm, gk_Value = VStr (pg_Value gm) \<rparr>)
                       (pcc_GenesisModifications c)\<rparr>\<rparr>)
      in if cw_EncodedLoadTestSpec req \<noteq> [] then
           (case decodeLoadTestSpec L (cw_EncodedLoadTestSpec req) of
              Inl _ \<Rightarrow> r1
            | Inr spec \<Rightarrow> set_load_test spec r1)
         else r1)"

definition template_genesis_to_proto :: "libs \<Rightarrow> GenesisKV \<Rightarrow> pb_GenesisKV" where
  "template_genesis_to_proto L gm = \<lparr> pg_Key = gk_Key gm,
     pg_Value = (case gk_Value gm of
                   VNil \<Rightarrow> []
                 | VStr v \<Rightarrow> v
                 | v \<Rightarrow> (case json_any_enc L v of Inl _ \<Rightarrow> [] | Inr s \<Rightarrow> s)) \<rparr>"

definition convertWorkflowRequestToProto :: "libs \<Rightarrow> TestnetWorkflowRequest \<Rightarrow> pb_CreateWorkflowRequest" where
  "convertWorkflowRequestToProto L r =
     (config_to_proto L r)\<lparr>cw_CatalystVersion := [], cw_BaseMnemonic := [],
        cw_ChainConfig := Some ((chain_to_proto L (wr_ChainConfig r))\<lparr>pcc_Version := [],
          pcc_GenesisModifications :=
            map (template_genesis_to_proto L) (ch_GenesisModifications (wr_ChainConfig r))\<rparr>)\<rparr>"

definition convertTemplateToProto :: "libs \<Rightarrow> WorkflowTemplate \<Rightarrow> pb_WorkflowTemplate" where
  "convertTemplateToProto L wt = \<lparr> pt_Id = wt_ID wt, pt_Description = wt_Description wt,
     pt_TemplateConfig = convertWorkflowRequestToProto L (wt_Config wt),
     pt_CreatedAt = fmt_RFC3339 L (wt_CreatedAt wt), pt_CreatedBy = wt_CreatedBy wt \<rparr>"

text \<open>A request without its template config makes the conversion dereference nil.\<close>

definition nil_config :: error where
  "nil_config = Panic ''invalid memory address or nil pointer dereference''"

definition svc_CreateWorkflowTemplate ::
    "libs \<Rightarrow> codec \<Rightarrow> sql_env \<Rightarrow> string \<Rightarrow> string \<Rightarrow> pb_CreateWorkflowRequest option \<Rightarrow> service \<Rightarrow>
     service \<times> string result" where
  "svc_CreateWorkflowTemplate L cd ev i description config s =
     (case config of
        None \<Rightarrow> (s, Inl nil_config)
      | Some c \<Rightarrow>
          (case CreateWorkflowTemplate cd ev
                  \<lparr> wt_ID = i, wt_Description = description,
                    wt_Config = convertProtoToWorkflowRequest L c, wt_CreatedAt = 0, wt_CreatedBy = [] \<rparr>
                  (sv_db s) of
             (t, res) \<Rightarrow> (s\<lparr>sv_db := t\<rparr>,
               and_then (wrap_err ''failed to create workflow template'' res) (\<lambda>_. Inr i))))"

definition svc_GetWorkflowTemplate ::
    "libs \<Rightarrow> codec \<Rightarrow> sql_env \<Rightarrow> string \<Rightarrow> service \<Rightarrow> pb_WorkflowTemplate result" where
  "svc_GetWorkflowTemplate L cd ev i s =
     and_then (wrap_err ''failed to get workflow template'' (GetWorkflowTemplate cd ev i (sv_db s)))
       (\<lambda>wt. Inr (convertTemplateToProto L wt))"

definition getTemplateRunCount :: "codec \<Rightarrow> sql_env \<Rightarrow> string \<Rightarrow> service \<Rightarrow> nat result" where
  "getTemplateRunCount cd ev i s =
     and_then (ListTemplateWorkflows cd ev i 1000 0 (sv_db s)) (\<lambda>ws. Inr (length ws))"

definition svc_ListWorkflowTemplates ::
    "libs \<Rightarrow> codec \<Rightarrow> sql_env \<Rightarrow> (string \<Rightarrow> sql_env) \<Rightarrow> int32 \<Rightarrow> int32 \<Rightarrow> service \<Rightarrow>
     (pb_WorkflowTemplateSummary list \<times> int32) result" where
  "svc_ListWorkflowTemplates L cd ev evc limit offset s =
     (let limit' = (if int_of_int32 limit \<le> 0 then 100 else int_of_int32 limit)
      in and_then (wrap_err ''failed to list workflow templates''
            (ListWorkflowTemplates cd ev limit' (int_of_int32 offset) (sv_db s))) (\<lambda>ts.
         and_then (each (\<lambda>wt.
              and_then (wrap_err ''failed to get template run count''
                  (getTemplateRunCount cd (evc (wt_ID wt)) (wt_ID wt) s)) (\<lambda>n.
                Inr \<lparr> ps_Id = wt_ID wt, ps_Description = wt_Description wt,
                      ps_CreatedAt = fmt_RFC3339 L (wt_CreatedAt wt), ps_RunCount = int32_of_int (int n) \<rparr>)) ts)
           (\<lambda>out. Inr (out, int32_of_int (int (length out))))))"

definition svc_UpdateWorkflowTemplate ::
    "libs \<Rightarrow> codec \<Rightarrow> sql_env \<Rightarrow> string \<Rightarrow> string \<Rightarrow> pb_CreateWorkflowRequest option \<Rightarrow> service \<Rightarrow>
     service \<times> string result" where
  "svc_UpdateWorkflowTemplate L cd ev i description config s =
     (case config of
        None \<Rightarrow> (s, Inl nil_config)
      | Some c \<Rightarrow>
          (case UpdateWorkflowTemplate cd ev i
                  \<lparr> wt_ID = [], wt_Description = description,
                    wt_Config = convertProtoToWorkflowRequest L c, wt_CreatedAt = 0, wt_CreatedBy = [] \<rparr>
                  (sv_db s) of
             (t, res) \<Rightarrow> (s\<lparr>sv_db := t\<rparr>,
               and_then (wrap_err ''failed to update workflow template'' res) (\<lambda>_. Inr i))))"

definition svc_DeleteWorkflowTemplate :: "sql_env \<Rightarrow> string \<Rightarrow> service \<Rightarrow> service \<times> string result" where
  "svc_DeleteWorkflowTemplate ev i s =
     (case DeleteWorkflowTemplate ev i (sv_db s) of
        (t, res) \<Rightarrow> (s\<lparr>sv_db := t\<rparr>,
          and_then (wrap_err ''failed to delete workflow template'' res) (\<lambda>_. Inr i)))"

definition svc_ExecuteWorkflowTemplate ::
    "libs \<Rightarrow> temporal \<Rightarrow> codec \<Rightarrow> sql_env \<Rightarrow> sql_env \<Rightarrow> sql_env \<Rightarrow> string \<Rightarrow> string \<Rightarrow> string \<Rightarrow> service \<Rightarrow>
     service \<times> string result" where
  "svc_ExecuteWorkflowTemplate L tc cd ev1 ev2 ev3 i sha runName s =
     (case GetWorkflowTemplate cd ev1 i (sv_db s) of
        Inl e \<Rightarrow> (s, Inl (Wrap ''failed to get workflow template'' e))
      | Inr wt \<Rightarrow>
          (case svc_CreateWorkflow L tc cd ev2
                  (convertWorkflowRequestToProto L ((wt_Config wt)\<lparr>wr_SHA := sha\<rparr>)) s of
             (s1, Inl e) \<Rightarrow> (s1, Inl (Wrap ''failed to create workflow from template'' e))
           | (s1, Inr workflowID) \<Rightarrow>
               (s1\<lparr>sv_db := fst (UpdateWorkflow cd ev3 workflowID
                      (empty_update\<lparr>up_TemplateID := Some i, up_RunName := Some runName\<rparr>) (sv_db s1))\<rparr>,
                Inr workflowID)))"

definition template_run :: "libs \<Rightarrow> Workflow \<Rightarrow> pb_TemplateRun" where
  "template_run L w = \<lparr> pn_RunId = wf_RunName w, pn_WorkflowId = wf_WorkflowID w,
     pn_TemplateId = wf_TemplateID w, pn_Sha = wr_SHA (wf_Config w), pn_RunName = wf_RunName w,
     pn_Status = WorkflowStatusToString (wf_Status w), pn_StartedAt = fmt_RFC3339 L (wf_CreatedAt w),
     pn_CompletedAt = (if isWorkflowTerminal (wf_Status w) then fmt_RFC3339 L (wf_UpdatedAt w) else []),
     pn_MonitoringLinks = wf_MonitoringLinks w, pn_Provider = wf_Provider w \<rparr>"

definition svc_GetTemplateRunHistory ::
    "libs \<Rightarrow> codec \<Rightarrow> sql_env \<Rightarrow> string \<Rightarrow> int32 \<Rightarrow> int32 \<Rightarrow> service \<Rightarrow>
     (pb_TemplateRun list \<times> int32) result" where
  "svc_GetTemplateRunHistory L cd ev i limit offset s =
     (let limit' = (if int_of_int32 limit \<le> 0 then 50 else int_of_int32 limit)
      in and_then (wrap_err ''failed to list template workflows''
            (ListTemplateWorkflows cd ev i limit' (int_of_int32 offset) (sv_db s)))
           (\<lambda>ws. Inr (map (template_run L) ws, int32_of_int (int (length ws)))))"

section \<open>Lemmas on the handlers\<close>

lemma build_request_valid: "build_request L req = Inr r \<Longrightarrow> TestnetWorkflowRequest_Validate r = Inr ()"
  by (auto simp: build_request_def and_then_eq_Inr Let_def)

lemma set_load_test_frame [simp]:
  "wr_ChainConfig (set_load_test spec r) = wr_ChainConfig r"
  "wr_BaseMnemonic (set_load_test spec r) = wr_BaseMnemonic r"
  by (simp_all add: set_load_test_def)

lemma build_request_chain:
  assumes "build_request L req = Inr r"
  shows "\<exists>c. cw_ChainConfig req = Some c \<and> wr_ChainConfig r = chain_of_proto L c"
proof -
  from build_request_valid [OF assms] have "ch_Name (wr_ChainConfig r) \<noteq> []"
    by (simp add: Validate_accepts_iff)
  with assms show ?thesis
    by (auto simp: build_request_def and_then_eq_Inr Let_def request_base_def empty_ChainsConfig_def
        split: option.splits if_splits)
qed

lemma build_request_mnemonic: "build_request L req = Inr r \<Longrightarrow> wr_BaseMnemonic r \<noteq> []"
  by (auto simp: build_request_def and_then_eq_Inr Let_def request_base_def DefaultBaseMnemonic_def
      split: option.splits if_splits)

lemma region_roundtrip: "region_to_proto (region_of_proto rc) = rc"
  by (simp add: region_to_proto_def region_of_proto_def uint64_roundtrip)

text \<open>
  What the round trip of a request through the API needs of the codecs, checked on the texts of that
  request: each custom config, each genesis value and the load test spec reads back as itself.
\<close>

definition config_text_stable :: "libs \<Rightarrow> string \<Rightarrow> bool" where
  "config_text_stable L s \<longleftrightarrow> marshalJSONConfig L (parseJSONConfig L s) = s"

definition spec_text_stable :: "libs \<Rightarrow> string \<Rightarrow> bool" where
  "spec_text_stable L s \<longleftrightarrow> s = [] \<or>
     (case yaml_dec L s of
        Inl _ \<Rightarrow> False
      | Inr spec \<Rightarrow> (lts_Kind spec = ''eth'' \<or> lts_Kind spec = ''cosmos'') \<and> yaml_enc L spec = Inr s)"

definition chain_texts_stable :: "libs \<Rightarrow> pb_ChainConfig \<Rightarrow> bool" where
  "chain_texts_stable L c \<longleftrightarrow> config_text_stable L (pcc_CustomAppConfig c) \<and>
     config_text_stable L (pcc_CustomConsensusConfig c) \<and> config_text_stable L (pcc_CustomClientConfig c)"

definition genesis_stable :: "libs \<Rightarrow> pb_ChainConfig \<Rightarrow> bool" where
  "genesis_stable L c \<longleftrightarrow>
     list_all (\<lambda>gm. genesis_to_proto L (genesis_of_proto L gm) = Some gm) (pcc_GenesisModifications c)"

lemma map_filter_stable: "list_all (\<lambda>x. f (g x) = Some x) xs \<Longrightarrow> List.map_filter f (map g xs) = xs"
  by (induction xs) (auto simp: List.map_filter_simps)

lemma chain_roundtrip:
  "chain_texts_stable L c \<Longrightarrow> genesis_stable L c \<Longrightarrow> chain_to_proto L (chain_of_proto L c) = c"
  by (cases c) (simp add: chain_to_proto_def chain_of_proto_def chain_texts_stable_def config_text_stable_def
      genesis_stable_def map_filter_stable region_roundtrip comp_def)

lemma encoded_spec_roundtrip:
  assumes "spec_text_stable L s" "s \<noteq> []" "yaml_dec L s = Inr spec"
    and "wr_EthereumLoadTestSpec r = None" "wr_CosmosLoadTestSpec r = None"
  shows "encoded_spec L (set_load_test spec r) = s"
  using assms by (auto simp: spec_text_stable_def encoded_spec_def set_load_test_def encodeLoadTestSpec_def)

lemma config_to_proto_set_load_test:
  "config_to_proto L (set_load_test spec r) =
     (config_to_proto L r)\<lparr>cw_EncodedLoadTestSpec := encoded_spec L (set_load_test spec r)\<rparr>"
  by (simp add: config_to_proto_def set_load_test_def)

lemma build_request_roundtrip:
  assumes "build_request L req = Inr r" "cw_ChainConfig req = Some c"
    and "chain_texts_stable L c" "genesis_stable L c" "spec_text_stable L (cw_EncodedLoadTestSpec req)"
  shows "config_to_proto L r =
    (if cw_BaseMnemonic req = [] then req\<lparr>cw_BaseMnemonic := DefaultBaseMnemonic\<rparr> else req)"
proof -
  define req' where "req' = (if cw_BaseMnemonic req = [] then req\<lparr>cw_BaseMnemonic := DefaultBaseMnemonic\<rparr> else req)"
  define r0 where "r0 = (request_base req')\<lparr>wr_ChainConfig := chain_of_proto L c\<rparr>"
  have same: "cw_ChainConfig req' = Some c" "cw_EncodedLoadTestSpec req' = cw_EncodedLoadTestSpec req"
    using assms(2) by (simp_all add: req'_def)
  have r: "r = (if cw_EncodedLoadTestSpec req = [] then r0
      else (case yaml_dec L (cw_EncodedLoadTestSpec req) of Inr spec \<Rightarrow> set_load_test spec r0))"
    using assms(1) same
    by (auto simp: build_request_def and_then_eq_Inr Let_def req'_def r0_def decodeLoadTestSpec_def
        split: if_splits)
  have base: "config_to_proto L r0 = req'\<lparr>cw_EncodedLoadTestSpec := []\<rparr>"
    using chain_roundtrip [OF assms(3,4)] same
    by (cases req') (simp add: config_to_proto_def r0_def request_base_def encoded_spec_def int32_roundtrip)
  have none: "wr_EthereumLoadTestSpec r0 = None" "wr_CosmosLoadTestSpec r0 = None"
    by (simp_all add: r0_def request_base_def)
  have "config_to_proto L r = req'"
  proof (cases "cw_EncodedLoadTestSpec req = []")
    case True
    then show ?thesis using r base same by (cases req') simp
  next
    case False
    with assms(5) obtain spec where spec: "yaml_dec L (cw_EncodedLoadTestSpec req) = Inr spec"
      by (auto simp: spec_text_stable_def split: sum.splits)
    with False r encoded_spec_roundtrip [OF assms(5) False spec none] base same show ?thesis
      by (cases req') (simp add: config_to_proto_set_load_test)
  qed
  then show ?thesis by (simp add: req'_def)
qed

text \<open>The status refresh on the abstract store.\<close>

definition refreshed :: "temporal \<Rightarrow> int \<Rightarrow> Workflow \<Rightarrow> Workflow" where
  "refreshed tc now w =
     (if isWorkflowTerminal (wf_Status w) then w
      else case tc_Describe tc (wf_WorkflowID w) of
             Inl _ \<Rightarrow> w
           | Inr desc \<Rightarrow>
               if we_Status desc \<noteq> wf_Status w
               then apply_update now (empty_update\<lparr>up_Status := Some (we_Status desc)\<rparr>) w else w)"

lemma status_update_encodable [simp]: "update_encodable cd (empty_update\<lparr>up_Status := st\<rparr>)"
  by (simp add: update_encodable_def empty_update_def)

lemma status_update_nonempty [simp]: "empty_update\<lparr>up_Status := Some st\<rparr> \<noteq> empty_update"
  by (simp add: empty_update_def)

lemma refresh_one_step:
  assumes "db_inv t" "db_abs cd t (wf_WorkflowID w) = Some w"
  shows "db_inv (refresh_one tc cd (\<lambda>_. sql_ok now) w t)"
    and "db_abs cd (refresh_one tc cd (\<lambda>_. sql_ok now) w t) =
      (db_abs cd t)(wf_WorkflowID w \<mapsto> refreshed tc now w)"
proof -
  show "db_inv (refresh_one tc cd (\<lambda>_. sql_ok now) w t)"
    using assms(1) by (simp add: refresh_one_def db_inv_update split: sum.split)
  show "db_abs cd (refresh_one tc cd (\<lambda>_. sql_ok now) w t) =
      (db_abs cd t)(wf_WorkflowID w \<mapsto> refreshed tc now w)"
    using assms update_step [OF assms(1) status_update_encodable status_update_nonempty assms(2)]
    by (auto simp: refresh_one_def refreshed_def fun_upd_idem split: sum.split)
qed

lemma fold_refresh:
  assumes "db_inv t" "distinct (map wf_WorkflowID ws)"
    and "\<And>w. w \<in> set ws \<Longrightarrow> db_abs cd t (wf_WorkflowID w) = Some w"
  shows "db_abs cd (fold (refresh_one tc cd (\<lambda>_. sql_ok now)) ws t) k =
    (if k \<in> wf_WorkflowID ` set ws then map_option (refreshed tc now) (db_abs cd t k) else db_abs cd t k)"
  using assms
proof (induction ws arbitrary: t)
  case (Cons w ws)
  let ?t = "refresh_one tc cd (\<lambda>_. sql_ok now) w t"
  have w: "db_abs cd t (wf_WorkflowID w) = Some w" using Cons.prems by simp
  note step = refresh_one_step [OF Cons.prems(1) w, of tc now]
  have others: "db_abs cd ?t (wf_WorkflowID v) = Some v" if "v \<in> set ws" for v
  proof -
    have "wf_WorkflowID v \<noteq> wf_WorkflowID w" using that Cons.prems(2) by (auto simp: image_iff)
    then show ?thesis using that Cons.prems(3) step(2) by simp
  qed
  have "distinct (map wf_WorkflowID ws)" using Cons.prems(2) by simp
  from Cons.IH [OF step(1) this others] show ?case
    using Cons.prems(2) w step(2) by auto
qed simp

lemma all_listed:
  assumes "list_all (\<lambda>r. is_ok (decode_row cd [] r)) (t_workflows t)" "length (t_workflows t) \<le> 1000"
  shows "ListWorkflows cd (sql_ok n) 1000 0 t =
    Inr (map (row_view cd) (sort_key running_first (t_workflows t)))"
  using ListWorkflows_ok [OF assms(1)] assms(2) by (simp add: sql_limit_def)

lemma db_abs_row_view:
  assumes "db_inv t" "r \<in> set (t_workflows t)" "is_ok (decode_row cd [] r)"
  shows "db_abs cd t (r_workflow_id r) = Some (row_view cd r)"
proof -
  have "sql_lookup r_workflow_id (r_workflow_id r) (t_workflows t) = Some r"
    using sql_lookup_distinct [OF db_inv_keys(1) [OF assms(1)] assms(2)] .
  with row_view [OF assms(3), of "[]"] show ?thesis by (simp add: db_abs_def)
qed

lemma db_abs_domain: "db_abs cd t k \<noteq> None \<Longrightarrow> k \<in> r_workflow_id ` set (t_workflows t)"
  by (auto simp: db_abs_def dest: sql_lookup_key sql_lookup_mem split: option.splits)

lemma genesis_proto_eta [simp]: "\<lparr> pg_Key = pg_Key g, pg_Value = pg_Value g \<rparr> = g"
  by simp

section \<open>Properties\<close>

text \<open>C25: a call of CreateWorkflow asks Temporal to start at most one workflow, only with a request
  that passes validation and carries a mnemonic; if it returns an error the database is as before, and if
  it returns an id, that is the id Temporal gave to the request that was started.\<close>

theorem svc_CreateWorkflow_starts_only_valid:
  assumes "svc_CreateWorkflow L tc cd ev req s = (s', res)"
  shows "\<exists>calls. sv_calls s' = sv_calls s @ calls \<and> length calls \<le> 1 \<and>
    list_all (\<lambda>c. \<exists>r. c = CallExecute r \<and> TestnetWorkflowRequest_Validate r = Inr () \<and> wr_BaseMnemonic r \<noteq> []) calls \<and>
    (case res of
       Inl _ \<Rightarrow> sv_db s' = sv_db s
     | Inr k \<Rightarrow> \<exists>r. calls = [CallExecute r] \<and> tc_ExecuteWorkflow tc r = Inr k)"
proof (cases "build_request L req")
  case (Inl e)
  with assms show ?thesis by (auto simp: svc_CreateWorkflow_def)
next
  case (Inr r)
  note valid = build_request_valid [OF Inr] build_request_mnemonic [OF Inr]
  show ?thesis
    using assms Inr valid
    by (intro exI [of _ "[CallExecute r]"]) (auto simp: svc_CreateWorkflow_def Let_def split: sum.splits)
qed


definition demo_libs :: libs where
  "demo_libs = \<lparr> ParseDuration = (\<lambda>s. if s = ''1h'' then Inr 3600000000000 else Inl (New ''invalid duration'')),
     json_map_dec = (\<lambda>_. Inl (New ''not json'')), json_map_enc = (\<lambda>_. Inl (New ''no'')),
     json_any_dec = (\<lambda>_. Inl (New ''not json'')), json_any_enc = (\<lambda>_. Inl (New ''no'')),
     spec_json_dec = (\<lambda>_. Inl (New ''not json'')), yaml_dec = (\<lambda>_. Inl (New ''not yaml'')),
     yaml_enc = (\<lambda>_. Inl (New ''no'')), fmt_RFC3339 = Itoa, fmt_datetime = Itoa \<rparr>"

definition demo_proto :: pb_CreateWorkflowRequest where
  "demo_proto = \<lparr> cw_Repo = ''gaia'', cw_Sha = ''abc'', cw_IsEvmChain = False,
     cw_ChainConfig = Some \<lparr> pcc_Name = ''hub'', pcc_NumOfNodes = 1, pcc_NumOfValidators = 2,
       pcc_GenesisModifications = [\<lparr> pg_Key = ''app_state.x'', pg_Value = ''12'' \<rparr>], pcc_Image = ''img'',
       pcc_CustomAppConfig = [], pcc_CustomConsensusConfig = [], pcc_CustomClientConfig = [],
       pcc_SetSeedNode = True, pcc_SetPersistentPeers = False,
       pcc_RegionConfigs = [\<lparr> pr_Name = ''nyc1'', pr_NumOfNodes = 1, pr_NumOfValidators = 2 \<rparr>],
       pcc_Version = ''v1'' \<rparr>,
     cw_RunnerType = ''Docker'', cw_EncodedLoadTestSpec = [], cw_LongRunningTestnet = False,
     cw_TestnetDuration = ''1h'', cw_NumWallets = 10, cw_LaunchLoadBalancer = False,
     cw_CatalystVersion = ''c1'', cw_BaseMnemonic = ''m'', cw_CosmosSdkSha = [], cw_CometbftSha = [],
     cw_ProviderConfig = [] \<rparr>"

definition demo_built :: TestnetWorkflowRequest where
  "demo_built = (request_base demo_proto)\<lparr>wr_ChainConfig := chain_of_proto demo_libs (the (cw_ChainConfig demo_proto))\<rparr>"

definition demo_temporal :: temporal where
  "demo_temporal = \<lparr> tc_ExecuteWorkflow = (\<lambda>_. Inr ''wf-2''),
     tc_Describe = (\<lambda>_. Inr \<lparr> we_Status = STATUS_COMPLETED, we_StartTime = Some 5, we_CloseTime = None \<rparr>),
     tc_Cancel = (\<lambda>_. Inr ()), tc_Signal = (\<lambda>_ _. Inr ()) \<rparr>"

definition demo_service :: service where
  "demo_service = \<lparr> sv_db = demo_tables, sv_calls = [] \<rparr>"

text \<open>A codec that is right on the request built from \<open>demo_proto\<close>.\<close>

definition demo_codec2 :: codec where
  "demo_codec2 = demo_codec\<lparr>dec_config := (\<lambda>_. Inr demo_built)\<rparr>"

lemma demo_built: "build_request demo_libs demo_proto = Inr demo_built"
  by (simp add: build_request_def demo_proto_def demo_libs_def demo_built_def request_base_def Let_def
      TestnetWorkflowRequest_Validate_def chain_of_proto_def runner_Docker_def runner_DigitalOcean_def)

lemma demo_stable:
  "chain_texts_stable demo_libs (the (cw_ChainConfig demo_proto))"
  "genesis_stable demo_libs (the (cw_ChainConfig demo_proto))"
  "spec_text_stable demo_libs (cw_EncodedLoadTestSpec demo_proto)"
  "cw_ChainConfig demo_proto = Some (the (cw_ChainConfig demo_proto))"
  by (simp_all add: chain_texts_stable_def config_text_stable_def genesis_stable_def spec_text_stable_def
      demo_proto_def parseJSONConfig_def marshalJSONConfig_def genesis_of_proto_def genesis_to_proto_def
      isNumericString_def unquote_def is_digit_def)

theorem svc_CreateWorkflow_starts_only_valid_witness:
  "\<exists>s' r. svc_CreateWorkflow demo_libs demo_temporal demo_codec2 (sql_ok 9) demo_proto demo_service = (s', Inr ''wf-2'') \<and>
     sv_calls s' = [CallExecute r] \<and> TestnetWorkflowRequest_Validate r = Inr ()"
proof -
  obtain s' where out: "svc_CreateWorkflow demo_libs demo_temporal demo_codec2 (sql_ok 9) demo_proto demo_service =
      (s', Inr ''wf-2'')"
    by (simp add: svc_CreateWorkflow_def demo_built demo_temporal_def)
  have "sv_calls demo_service = []" by (simp add: demo_service_def)
  with svc_CreateWorkflow_starts_only_valid [OF out] out show ?thesis by auto
qed


text \<open>A template gives back the request it was made from except for three fields that the
  conversions drop: the chain's version, the base mnemonic and the catalyst version.\<close>

theorem template_roundtrip_drops:
  assumes "cw_ChainConfig req = Some c" "chain_texts_stable L c"
    and "spec_text_stable L (cw_EncodedLoadTestSpec req)"
  shows "convertWorkflowRequestToProto L (convertProtoToWorkflowRequest L req) =
    req\<lparr>cw_CatalystVersion := [], cw_BaseMnemonic := [], cw_ChainConfig := Some (c\<lparr>pcc_Version := []\<rparr>)\<rparr>"
proof -
  define r0 where "r0 = (request_base req)\<lparr>wr_BaseMnemonic := [], wr_CatalystVersion := [],
    wr_ChainConfig := (chain_of_proto L c)\<lparr>ch_Version := [],
      ch_GenesisModifications := map (\<lambda>gm. \<lparr> gk_Key = pg_Key gm, gk_Value = VStr (pg_Value gm) \<rparr>)
        (pcc_GenesisModifications c)\<rparr>\<rparr>"
  have none: "wr_EthereumLoadTestSpec r0 = None" "wr_CosmosLoadTestSpec r0 = None"
    by (simp_all add: r0_def request_base_def)
  have base: "convertWorkflowRequestToProto L r0 = req\<lparr>cw_CatalystVersion := [], cw_BaseMnemonic := [],
      cw_EncodedLoadTestSpec := [], cw_ChainConfig := Some (c\<lparr>pcc_Version := []\<rparr>)\<rparr>"
    using assms(1,2)
    by (cases req; cases c) (simp add: convertWorkflowRequestToProto_def config_to_proto_def r0_def
        request_base_def encoded_spec_def chain_to_proto_def chain_of_proto_def chain_texts_stable_def
        config_text_stable_def int32_roundtrip region_roundtrip comp_def template_genesis_to_proto_def)
  have step: "convertWorkflowRequestToProto L (set_load_test spec r) =
      (convertWorkflowRequestToProto L r)\<lparr>cw_EncodedLoadTestSpec := encoded_spec L (set_load_test spec r)\<rparr>"
    for spec r
    by (simp add: convertWorkflowRequestToProto_def config_to_proto_set_load_test)
  show ?thesis
  proof (cases "cw_EncodedLoadTestSpec req = []")
    case True
    then have "convertProtoToWorkflowRequest L req = r0"
      using assms(1) by (simp add: convertProtoToWorkflowRequest_def r0_def)
    with base True show ?thesis by (cases req) simp
  next
    case False
    with assms(3) obtain spec where spec: "yaml_dec L (cw_EncodedLoadTestSpec req) = Inr spec"
      by (auto simp: spec_text_stable_def split: sum.splits)
    have "convertProtoToWorkflowRequest L req = set_load_test spec r0"
      using assms(1) False spec
      by (simp add: convertProtoToWorkflowRequest_def r0_def decodeLoadTestSpec_def)
    with step [of spec r0] base encoded_spec_roundtrip [OF assms(3) False spec none] show ?thesis
      by (cases req) simp
  qed
qed

theorem template_roundtrip_drops_witness:
  "convertWorkflowRequestToProto demo_libs (convertProtoToWorkflowRequest demo_libs demo_proto) =
     demo_proto\<lparr>cw_CatalystVersion := [], cw_BaseMnemonic := [],
       cw_ChainConfig := Some ((the (cw_ChainConfig demo_proto))\<lparr>pcc_Version := []\<rparr>)\<rparr>"
  using template_roundtrip_drops [OF demo_stable(4,1,3)] .



text \<open>The run count shown for a template is the number of its workflows, capped at a
  thousand.\<close>

theorem getTemplateRunCount_capped:
  assumes "getTemplateRunCount cd ev i s = Inr n"
  shows "n = min 1000 (length (filter (\<lambda>r. r_template_id r = i) (t_workflows (sv_db s))))"
proof -
  from assms obtain ws where ws: "ListTemplateWorkflows cd ev i 1000 0 (sv_db s) = Inr ws" "n = length ws"
    by (auto simp: getTemplateRunCount_def and_then_eq_Inr)
  from each_length [OF query_rows_Inr [OF ws(1) [unfolded ListTemplateWorkflows_def]]] ws(2)
  show ?thesis by (simp add: sql_limit_def min.commute)
qed

theorem getTemplateRunCount_capped_witness:
  "getTemplateRunCount demo_codec (sql_ok 1) ''t'' \<lparr> sv_db = empty_Tables, sv_calls = [] \<rparr> = Inr 0 \<and>
   (0::nat) = min 1000 (length (filter (\<lambda>r. r_template_id r = ''t'') (t_workflows empty_Tables)))"
proof -
  have "getTemplateRunCount demo_codec (sql_ok 1) ''t'' \<lparr> sv_db = empty_Tables, sv_calls = [] \<rparr> = Inr 0"
    by (simp add: getTemplateRunCount_def ListTemplateWorkflows_def query_rows_ok empty_Tables_def sql_limit_def)
  from getTemplateRunCount_capped [OF this] this show ?thesis by simp
qed

end
