(* ===== verification/Util.thy ===== *)
theory Util
  imports Prelude
begin

text \<open>
  The helpers of \<open>util/util.go\<close> and \<open>petri/core/util\<close>: compression of states on the wire,
  random names, the cleaning of container output and the polling loop. The \<open>gzip\<close> writer and
  reader are parameters, as are the random numbers and the outcomes of the polled function.
\<close>

section \<open>Compression\<close>

record gzip =
  gz_write :: "string \<Rightarrow> error option"
  gz_close :: "string \<Rightarrow> error option"
  gz_bytes :: "string \<Rightarrow> string"
  gz_open :: "string \<Rightarrow> error option"
  gz_read :: "string \<Rightarrow> string result"

definition CompressData :: "gzip \<Rightarrow> string \<Rightarrow> string result" where
  "CompressData gz data =
     (if data = [] then Inr data
      else case gz_write gz data of
             Some e \<Rightarrow> Inl (Wrap ''failed to compress data'' e)
           | None \<Rightarrow>
               (case gz_close gz data of
                  Some e \<Rightarrow> Inl (Wrap ''failed to close gzip writer'' e)
                | None \<Rightarrow> Inr (gz_bytes gz data)))"

definition DecompressData :: "gzip \<Rightarrow> string \<Rightarrow> string result" where
  "DecompressData gz data =
     (if data = [] then Inr data
      else case gz_open gz data of
             Some e \<Rightarrow> Inl (Wrap ''failed to create gzip reader'' e)
           | None \<Rightarrow>
               (case gz_read gz data of
                  Inl e \<Rightarrow> Inl (Wrap ''failed to decompress data'' e)
                | Inr x \<Rightarrow> Inr x))"

text \<open>What \<open>compress/gzip\<close> documents, on one value: writing to memory succeeds, the output has a
  header and so is not empty, and reading it gives the input back.\<close>

definition gzip_law :: "gzip \<Rightarrow> string \<Rightarrow> bool" where
  "gzip_law gz data \<longleftrightarrow> gz_write gz data = None \<and> gz_close gz data = None \<and>
     gz_bytes gz data \<noteq> [] \<and> gz_open gz (gz_bytes gz data) = None \<and> gz_read gz (gz_bytes gz data) = Inr data"

section \<open>Strings\<close>

definition letterRunes :: string where
  "letterRunes = ''abcdefghijklmnopqrstuvwxyzABCDEFGHIJKLMNOPQRSTUVWXYZ''"

text \<open>\<open>rnd\<close> are the numbers \<open>rand.Intn\<close> returns, in order.\<close>

definition RandomString :: "(nat \<Rightarrow> nat) \<Rightarrow> nat \<Rightarrow> string" where
  "RandomString rnd n = map (\<lambda>i. letterRunes ! (rnd i mod length letterRunes)) [0..<n]"

definition trim :: "(char \<Rightarrow> bool) \<Rightarrow> string \<Rightarrow> string" where
  "trim p s = rev (dropWhile p (rev (dropWhile p s)))"

definition printable :: "char \<Rightarrow> bool" where
  "printable c \<longleftrightarrow> 0x20 \<le> (of_char c :: nat) \<and> (of_char c :: nat) \<le> 0x7E"

definition ascii_space :: "char \<Rightarrow> bool" where
  "ascii_space c \<longleftrightarrow> c = CHR 0x20 \<or> 0x09 \<le> (of_char c :: nat) \<and> (of_char c :: nat) \<le> 0x0D"

definition CleanDockerOutput :: "string \<Rightarrow> string" where
  "CleanDockerOutput stdout =
     trim (\<lambda>c. c = CHR 0x0A \<or> c = CHR ''.'') (trim ascii_space (trim (\<lambda>c. \<not> printable c) stdout))"

section \<open>Polling\<close>

text \<open>\<open>polls\<close> are the outcomes of the polled function at the successive intervals before the timeout;
  when they are used up the context is done.\<close>

fun WaitForCondition :: "string \<Rightarrow> bool result list \<Rightarrow> unit result" where
  "WaitForCondition secs [] = Inl (New (''failed waiting for condition after '' @ secs @ '' seconds''))"
| "WaitForCondition secs (p # ps) =
     (case p of
        Inl e \<Rightarrow> Inl (New (''error occurred while waiting for condition: '' @ Error_str e))
      | Inr True \<Rightarrow> Inr ()
      | Inr False \<Rightarrow> WaitForCondition secs ps)"

section \<open>Lemmas\<close>

lemma compress_law:
  "gzip_law gz data \<Longrightarrow> \<exists>x. CompressData gz data = Inr x \<and> DecompressData gz x = Inr data \<and> (x = [] \<longleftrightarrow> data = [])"
  by (cases "data = []") (auto simp: gzip_law_def CompressData_def DecompressData_def)

lemma length_RandomString [simp]: "length (RandomString rnd n) = n"
  by (simp add: RandomString_def)

lemma RandomString_letters: "set (RandomString rnd n) \<subseteq> set letterRunes"
proof
  fix c assume "c \<in> set (RandomString rnd n)"
  then obtain i where "c = letterRunes ! (rnd i mod length letterRunes)" by (auto simp: RandomString_def)
  moreover have "rnd i mod length letterRunes < length letterRunes" by (simp add: letterRunes_def)
  ultimately show "c \<in> set letterRunes" using nth_mem by blast
qed

section \<open>Properties\<close>

text \<open>Data decompresses to what was compressed, and only empty data compresses to empty
  data, so the workflow's test for a provider state tells a stored state from none.\<close>

theorem CompressData_roundtrip:
  assumes "gzip_law gz data"
  shows "\<exists>x. CompressData gz data = Inr x \<and> DecompressData gz x = Inr data \<and> (x = [] \<longleftrightarrow> data = [])"
  using assms by (rule compress_law)

definition demo_gzip :: gzip where
  "demo_gzip = \<lparr> gz_write = (\<lambda>_. None), gz_close = (\<lambda>_. None), gz_bytes = (\<lambda>s. CHR ''z'' # s),
     gz_open = (\<lambda>s. if s \<noteq> [] \<and> hd s = CHR ''z'' then None else Some (New ''gzip: invalid header'')),
     gz_read = (\<lambda>s. Inr (tl s)) \<rparr>"

lemma demo_gzip_law: "gzip_law demo_gzip s"
  by (simp add: gzip_law_def demo_gzip_def)

theorem CompressData_roundtrip_witness:
  "\<exists>x. CompressData demo_gzip ''state'' = Inr x \<and> DecompressData demo_gzip x = Inr ''state'' \<and> x \<noteq> []"
  using CompressData_roundtrip [OF demo_gzip_law [of "''state''"]] by auto

text \<open>Waiting for a condition succeeds exactly when, among the polls before the timeout, the
  first one that is not a plain "not yet" reports the condition.\<close>

theorem WaitForCondition_succeeds:
  "is_ok (WaitForCondition secs ps) =
     (case dropWhile (\<lambda>p. p = Inr False) ps of [] \<Rightarrow> False | p # _ \<Rightarrow> p = Inr True)"
  by (induction secs ps rule: WaitForCondition.induct) (auto split: sum.splits bool.splits)

end
