(* ===== verification/Activities.thy ===== *)
theory Activities
  imports Chain_Init Service Util
begin

text \<open>
  The testnet activities, \<open>activities/testnet/testnet.go\<close>, on top of the chain: the chain config built
  from a request, the options of its nodes, launching a testnet (\<open>CreateChain\<close>, \<open>Init\<close>,
  \<open>WaitForStartup\<close> and the states and addresses that go into the response), and creating and tearing
  down a provider. Providers, AWS and the codecs are parameters.
\<close>

section \<open>The chain config of a request\<close>

definition cosmosDenom :: string where "cosmosDenom = ''stake''"
definition evmDenom :: string where "evmDenom = ''atest''"
definition DefaultEvmChainID :: string where "DefaultEvmChainID = ''262144''"

text \<open>The two wallet configs; the derivation functions come from the SDK.\<close>

record wallet_configs =
  wk_Cosmos :: WalletConfig
  wk_Evm :: WalletConfig

text \<open>\<open>big.Int\<close> values live behind pointers: \<open>Mul\<close> writes the product into its receiver \<open>z\<close> and
  returns \<open>z\<close>.\<close>

type_synonym big_store = "nat \<Rightarrow> int"

definition big_Mul :: "nat \<Rightarrow> nat \<Rightarrow> int \<Rightarrow> big_store \<Rightarrow> big_store \<times> nat" where
  "big_Mul z x y st = (st(z := st x * y), z)"

definition evm_genesis_amounts :: "uint64 \<Rightarrow> int \<times> int" where
  "evm_genesis_amounts numOfValidators =
     (let deleg = 0;
          st = (\<lambda>_. 0)(deleg := 10000000000000000000000000)
      in case big_Mul deleg deleg (int_of_uint64 (numOfValidators + 2)) st of
           (st', genBal) \<Rightarrow> (st' deleg, st' genBal))"

definition set_evm_chain_id :: "string \<Rightarrow> gval gomap option \<Rightarrow> gval gomap" where
  "set_evm_chain_id chainID custom =
     (let m = (case custom of None \<Rightarrow> [] | Some m \<Rightarrow> m);
          m' = (case mget m ''evm'' of None \<Rightarrow> mput ''evm'' (VMap []) m | Some VNil \<Rightarrow> mput ''evm'' (VMap []) m | Some _ \<Rightarrow> m)
      in case mget m' ''evm'' of
           Some (VMap evm) \<Rightarrow> mput ''evm'' (VMap (mput ''evm-chain-id'' (VStr chainID) evm)) m'
         | _ \<Rightarrow> m')"

definition base_chain_config :: "LaunchTestnetRequest \<Rightarrow> ChainImageConfig gomap \<Rightarrow> ChainConfig" where
  "base_chain_config req images =
     (let im = (case mget images (lt_BaseImage req) of None \<Rightarrow> empty_ChainImageConfig | Some c \<Rightarrow> c)
      in \<lparr> pc_Name = lt_Name req, pc_Denom = cosmosDenom, pc_Decimals = 6,
           pc_NumValidators = int_of_uint64 (lt_NumOfValidators req), pc_NumNodes = int_of_uint64 (lt_NumOfNodes req),
           pc_RegionConfig = lt_RegionConfigs req, pc_BinaryName = ci_BinaryName im, pc_Entrypoint = ci_Entrypoint im,
           pc_Image = \<lparr> img_Image = lt_Image req, img_UID = ci_UID im, img_GID = ci_GID im \<rparr>,
           pc_GasPrices = ci_GasPrices im, pc_Bech32Prefix = ''cosmos'', pc_HomeDir = ci_HomeDir im,
           pc_CoinType = ''118'', pc_ChainId = lt_Name req, pc_UseGenesisSubCommand = True,
           pc_AdditionalStartFlags = lt_AdditionalStartFlags req, pc_AdditionalPorts = [],
           pc_GenesisDelegation = None, pc_GenesisBalance = None, pc_IsEVMChain = False,
           pc_CustomAppConfig = lt_CustomAppConfig req, pc_CustomClientConfig = lt_CustomClientConfig req,
           pc_CustomConsensusConfig = lt_CustomConsensusConfig req, pc_SetPersistentPeers = lt_SetPersistentPeers req,
           pc_SetSeedNode = lt_SetSeedNode req \<rparr>)"

definition evm_chain_config :: "uint64 \<Rightarrow> ChainConfig \<Rightarrow> ChainConfig" where
  "evm_chain_config numOfValidators c =
     (case evm_genesis_amounts numOfValidators of (deleg, genBal) \<Rightarrow>
        c\<lparr>pc_Denom := evmDenom, pc_IsEVMChain := True, pc_ChainId := DefaultEvmChainID, pc_CoinType := ''60'',
          pc_AdditionalStartFlags := pc_AdditionalStartFlags c @
            [''--json-rpc.api'', ''eth,net,web3,txpool,debug'', ''--json-rpc.address'', ''0.0.0.0:8545'',
             ''--json-rpc.ws-address'', ''0.0.0.0:8546'', ''--json-rpc.enable''],
          pc_AdditionalPorts := [''8545'', ''8546'', ''8100''],
          pc_CustomAppConfig := Some (set_evm_chain_id DefaultEvmChainID (pc_CustomAppConfig c)),
          pc_GenesisDelegation := Some deleg, pc_GenesisBalance := Some genBal\<rparr>)"

definition constructChainConfig ::
    "wallet_configs \<Rightarrow> LaunchTestnetRequest \<Rightarrow> ChainImageConfig gomap \<Rightarrow> ChainConfig \<times> WalletConfig" where
  "constructChainConfig wk req images =
     (if lt_IsEvmChain req
      then (evm_chain_config (lt_NumOfValidators req) (base_chain_config req images), wk_Evm wk)
      else (base_chain_config req images, wk_Cosmos wk))"

section \<open>Options of the nodes\<close>

record auth_codec =
  au_base64_dec :: "string \<Rightarrow> string result"
  au_base64_enc :: "string \<Rightarrow> string"
  au_json :: "string gomap \<Rightarrow> string result"

definition convertECRTokenToDockerAuth :: "auth_codec \<Rightarrow> string \<Rightarrow> string result" where
  "convertECRTokenToDockerAuth au ecrToken =
     and_then (wrap_err ''failed to decode ECR token'' (au_base64_dec au ecrToken)) (\<lambda>decoded.
       case Split (CHR '':'') decoded of
         [user, pw] \<Rightarrow>
           and_then (wrap_err ''failed to marshal auth config'' (au_json au [(''username'', user), (''password'', pw)]))
             (\<lambda>j. Inr (au_base64_enc au j))
       | _ \<Rightarrow> Inl (New ''invalid ECR token format''))"

text \<open>The activity: \<open>ac_Token\<close> is \<open>None\<close> without an AWS config, otherwise what the registry answers.\<close>

record activity =
  ac_RegistryType :: string
  ac_Token :: "string result option"
  ac_Auth :: auth_codec
  ac_Chains :: "ChainImageConfig gomap"
  ac_Wallets :: wallet_configs
  ac_Grafana :: GrafanaConfig
  ac_GRPCClient :: bool
  ac_gzip :: gzip

text \<open>Failures are only logged: without a token there is no authentication.\<close>

definition docker_auth :: "activity \<Rightarrow> string" where
  "docker_auth a =
     (if ac_RegistryType a = ''ecr'' then
        (case ac_Token a of
           None \<Rightarrow> []
         | Some (Inl _) \<Rightarrow> []
         | Some (Inr token) \<Rightarrow>
             (case convertECRTokenToDockerAuth (ac_Auth a) token of Inl _ \<Rightarrow> [] | Inr auth \<Rightarrow> auth))
      else [])"

definition node_modifier :: "string \<Rightarrow> string gomap \<Rightarrow> modifier" where
  "node_modifier dockerAuth specific def nc =
     (let cfg = (case td_ProviderSpecificConfig def of None \<Rightarrow> [] | Some m \<Rightarrow> m);
          cfg1 = (if dockerAuth \<noteq> [] then mput ''docker_auth'' dockerAuth cfg else cfg)
      in def\<lparr>td_ProviderSpecificConfig := Some (mcopy specific cfg1)\<rparr>)"

section \<open>Addresses\<close>

definition getNodeExternalAddresses :: "world \<Rightarrow> cnode \<Rightarrow> bool \<Rightarrow> Node result" where
  "getNodeExternalAddresses W n isEvmChain =
     (let ext = wd_External (W (nk_Name n))
      in and_then (ext ''1317'') (\<lambda>lcdIp.
         and_then (ext ''26657'') (\<lambda>cometIp.
         and_then (ext ''9090'') (\<lambda>grpcIp.
         and_then (wd_IP (W (nk_Name n))) (\<lambda>ip.
           let node = \<lparr> n_Name = nk_Name n, n_Address = ip, n_Rpc = ''http://'' @ cometIp, n_Lcd = ''http://'' @ lcdIp,
                        n_Grpc = grpcIp, n_Evmrpc = [], n_Evmws = [] \<rparr>
           in if isEvmChain then
                and_then (ext ''8545'') (\<lambda>evmRpcIp.
                and_then (ext ''8546'') (\<lambda>evmWsIp.
                  Inr (node\<lparr>n_Evmrpc := ''http://'' @ evmRpcIp, n_Evmws := ''ws://'' @ evmWsIp\<rparr>)))
              else Inr node)))))"

section \<open>Launching a testnet\<close>

text \<open>A restored or created provider as the activities use it. Its state changes as tasks are
  created, so what \<open>SerializeProvider\<close> gives depends on how far the launch has come.\<close>

datatype stage = Fresh | CreateFailed | InitFailed | Launched

record 't infra =
  if_Name :: string
  if_CreateTask :: "TaskDefinition \<Rightarrow> 't result"
  if_Serialize :: "stage \<Rightarrow> string result"
  if_SerializeNode :: "cnode \<Rightarrow> string result"
  if_Teardown :: "unit result"

record 't providers =
  pr_DockerCreate :: "string \<Rightarrow> 't infra result"
  pr_DOCreate :: "string \<Rightarrow> 't infra result"
  pr_DockerRestore :: "string \<Rightarrow> 't infra result"
  pr_DORestore :: "string \<Rightarrow> 't infra result"

definition RestoreProvider :: "'t providers \<Rightarrow> string \<Rightarrow> string \<Rightarrow> 't infra result" where
  "RestoreProvider pr runnerType providerState =
     (if runnerType = runner_Docker then pr_DockerRestore pr providerState else pr_DORestore pr providerState)"

text \<open>\<open>GetType\<close> of the provider of a runner.\<close>

definition provider_type :: "string \<Rightarrow> string" where
  "provider_type runnerType = (if runnerType = runner_Docker then provider_Docker else provider_DigitalOcean)"

definition CreateProvider :: "'t providers \<Rightarrow> string \<Rightarrow> string \<Rightarrow> string result" where
  "CreateProvider pr runnerType name =
     and_then (if runnerType = runner_Docker then pr_DockerCreate pr name else pr_DOCreate pr name) (\<lambda>p. if_Serialize p Fresh)"

definition TeardownProvider :: "gzip \<Rightarrow> 't providers \<Rightarrow> string \<Rightarrow> string \<Rightarrow> unit result" where
  "TeardownProvider gz pr runnerType providerState =
     (if providerState = [] then Inr ()
      else and_then (wrap_err ''failed to decompress provider state'' (DecompressData gz providerState)) (\<lambda>st.
           and_then (RestoreProvider pr runnerType st) (\<lambda>p. if_Teardown p)))"

definition updateWorkflowData ::
    "activity \<Rightarrow> string \<Rightarrow> Node list \<Rightarrow> Node list \<Rightarrow> string \<Rightarrow> int \<Rightarrow> string \<Rightarrow> pb_UpdateWorkflowDataRequest list" where
  "updateWorkflowData a workflowID nodes validators chainID startTime prov =
     (if \<not> ac_GRPCClient a then []
      else [\<lparr> ud_WorkflowId = workflowID, ud_LoadBalancers = [],
              ud_Monitoring = GenerateMonitoringLinks chainID startTime None prov (ac_Grafana a),
              ud_Nodes = nodes, ud_Validators = validators, ud_Wallets = None, ud_Provider = prov \<rparr>])"

text \<open>A non-retryable application error: its message and, as its type, the text of the cause.\<close>

definition app_error :: "string \<Rightarrow> error \<Rightarrow> error" where
  "app_error msg e = Wrap msg (New (Error_str e))"

definition as_app_error :: "string \<Rightarrow> 'a result \<Rightarrow> 'a result" where
  "as_app_error msg r = (case r of Inl e \<Rightarrow> Inl (app_error msg e) | Inr x \<Rightarrow> Inr x)"

text \<open>The state in the response of a launch that failed.\<close>

definition failed_launch ::
    "activity \<Rightarrow> 't infra \<Rightarrow> stage \<Rightarrow> string \<Rightarrow> error \<Rightarrow> LaunchTestnetResponse \<Rightarrow> LaunchTestnetResponse \<times> unit result" where
  "failed_launch a p st msg e resp =
     (case if_Serialize p st of
        Inl se \<Rightarrow> (resp, Inl (app_error ''failed to serialize provider'' se))
      | Inr state \<Rightarrow>
          (case CompressData (ac_gzip a) state of
             Inl ce \<Rightarrow> (resp, Inl (app_error ''failed to compress provider state'' ce))
           | Inr compressed \<Rightarrow> (resp\<lparr>lr_ProviderState := compressed\<rparr>, Inl (app_error msg e))))"

text \<open>The chain \<open>CreateChain\<close> returns, before anything has run on its nodes.\<close>

definition cluster_of :: "'t node chain \<Rightarrow> cluster" where
  "cluster_of ch =
     (let fresh = (\<lambda>n. \<lparr> nk_Config = nd_Config n, nk_Files = [], nk_Running = False \<rparr>)
      in \<lparr> cl_Config = cn_Config ch, cl_Validators = map fresh (cn_Validators ch), cl_Nodes = map fresh (cn_Nodes ch),
           cl_External = cn_useExternalAddresses ch, cl_Wallets = map (\<lambda>_. None) (cn_Validators ch), cl_Faucet = None \<rparr>)"

definition packed_of :: "cluster \<Rightarrow> cnode packed_chain" where
  "packed_of c = \<lparr> pk_Config = cl_Config c, pk_Validators = cl_Validators c, pk_Nodes = cl_Nodes c,
     pk_ValidatorWallets = cl_Wallets c, pk_FaucetWallet = cl_Faucet c, pk_useExternalAddresses = cl_External c \<rparr>"

text \<open>The part of \<open>LaunchTestnet\<close> after the chain has started: states, then addresses.\<close>

definition launch_states ::
    "activity \<Rightarrow> 't infra \<Rightarrow> (PackagedState \<Rightarrow> string result) \<Rightarrow> cluster \<Rightarrow> LaunchTestnetResponse \<Rightarrow>
     LaunchTestnetResponse \<times> unit result" where
  "launch_states a p enc c resp =
     andThen (resp, as_app_error ''failed to serialize provider'' (if_Serialize p Launched)) (\<lambda>resp providerState.
     andThen (resp, as_app_error ''failed to compress provider state'' (CompressData (ac_gzip a) providerState)) (\<lambda>resp x.
     andThen (resp\<lparr>lr_ProviderState := x\<rparr>,
        as_app_error ''failed to serialize chain'' (Serialize (if_SerializeNode p) enc (packed_of c))) (\<lambda>resp chainState.
     andThen (resp, as_app_error ''failed to compress chain state'' (CompressData (ac_gzip a) chainState)) (\<lambda>resp y.
       (resp\<lparr>lr_ChainState := y\<rparr>, Inr ())))))"

record launch_setting =
  ls_WorkflowID :: string
  ls_StartTime :: int
  ls_sched :: "job list \<Rightarrow> job list"
  ls_libs :: chain_libs
  ls_world :: world
  ls_rnd :: "nat \<Rightarrow> nat"
  ls_setbytes :: "string \<Rightarrow> string \<Rightarrow> gval \<Rightarrow> string result"
  ls_turns :: "turn list"
  ls_enc :: "PackagedState \<Rightarrow> string result"

definition launch_options ::
    "launch_setting \<Rightarrow> activity \<Rightarrow> 't infra \<Rightarrow> LaunchTestnetRequest \<Rightarrow> WalletConfig \<Rightarrow> bool \<Rightarrow> 't node chain_options" where
  "launch_options s a p req walletConfig for_init =
     \<lparr> co_ModifyGenesis = (if for_init then Some (ModifyGenesis (ls_setbytes s) (lt_GenesisModifications req)) else None),
       co_NodeOptions = \<lparr> no_NodeDefinitionModifier =
         Some (node_modifier (docker_auth a) (lt_ProviderSpecificConfig req)) \<rparr>,
       co_NodeCreator = Some (CreateNode (if_CreateTask p) (provider_type (lt_RunnerType req))),
       co_WalletConfig = walletConfig,
       co_AdditionalAccounts = (if for_init then lt_NumWallets req else 0),
       co_BaseMnemonic = (if for_init then lt_BaseMnemonic req else []) \<rparr>"

definition launch_addresses :: "launch_setting \<Rightarrow> LaunchTestnetRequest \<Rightarrow> cluster \<Rightarrow> (Node list \<times> Node list) result" where
  "launch_addresses s req c =
     and_then (each (\<lambda>n. getNodeExternalAddresses (ls_world s) n (lt_IsEvmChain req)) (cl_Validators c)) (\<lambda>vs.
     and_then (each (\<lambda>n. getNodeExternalAddresses (ls_world s) n (lt_IsEvmChain req)) (cl_Nodes c)) (\<lambda>ns.
       Inr (vs, ns)))"

definition launch_started ::
    "launch_setting \<Rightarrow> activity \<Rightarrow> 't infra \<Rightarrow> LaunchTestnetRequest \<Rightarrow> ChainConfig \<Rightarrow> cluster \<Rightarrow> LaunchTestnetResponse \<Rightarrow>
     LaunchTestnetResponse \<times> unit result \<times> pb_UpdateWorkflowDataRequest list" where
  "launch_started s a p req chainConfig c resp =
     (case launch_states a p (ls_enc s) c resp of
        (resp, Inl e) \<Rightarrow> (resp, Inl e, [])
      | (resp, Inr _) \<Rightarrow>
          (case launch_addresses s req c of
             Inl e \<Rightarrow> (resp, Inl e, [])
           | Inr (vs, ns) \<Rightarrow>
               (resp\<lparr>lr_Nodes := ns, lr_Validators := vs\<rparr>, Inr (),
                updateWorkflowData a (ls_WorkflowID s) ns vs (pc_ChainId chainConfig) (ls_StartTime s) (if_Name p))))"

text \<open>The activity once the chain object exists.\<close>

definition launch_chain ::
    "launch_setting \<Rightarrow> activity \<Rightarrow> 't infra \<Rightarrow> LaunchTestnetRequest \<Rightarrow> ChainConfig \<Rightarrow> WalletConfig \<Rightarrow> cluster \<Rightarrow>
     (LaunchTestnetResponse \<times> unit result \<times> pb_UpdateWorkflowDataRequest list) option" where
  "launch_chain s a p req chainConfig walletConfig c =
     (let resp = empty_LaunchTestnetResponse\<lparr>lr_ChainID := pc_ChainId chainConfig\<rparr>
      in case Init (ls_libs s) (ls_world s) (ls_rnd s) (launch_options s a p req walletConfig True) c of
           (c, Inl e) \<Rightarrow>
             (case failed_launch a p InitFailed ''failed to init chain'' e resp of (resp, res) \<Rightarrow> Some (resp, res, []))
         | (c, Inr _) \<Rightarrow>
             (case WaitForStartup (ls_turns s) of
                None \<Rightarrow> None
              | Some (Inl e, _) \<Rightarrow> Some (resp, Inl (app_error ''failed to wait for chain startup'' e), [])
              | Some (Inr _, _) \<Rightarrow> Some (launch_started s a p req chainConfig c resp)))"

text \<open>The whole activity: \<open>None\<close> when the wait for the first block never ends, otherwise the response,
  the error if any, and the updates sent to the server.\<close>

definition LaunchTestnet ::
    "launch_setting \<Rightarrow> activity \<Rightarrow> 't providers \<Rightarrow> LaunchTestnetRequest \<Rightarrow>
     (LaunchTestnetResponse \<times> unit result \<times> pb_UpdateWorkflowDataRequest list) option" where
  "LaunchTestnet s a pr req =
     (case RestoreProvider pr (lt_RunnerType req) (lt_ProviderState req) of
        Inl e \<Rightarrow> Some (empty_LaunchTestnetResponse, Inl e, [])
      | Inr p \<Rightarrow>
          let cw = constructChainConfig (ac_Wallets a) req (ac_Chains a)
          in (case CreateChain (ls_sched s) (provider_type (lt_RunnerType req)) (fst cw)
                     (launch_options s a p req (snd cw) False) of
                Inl e \<Rightarrow>
                  (case failed_launch a p CreateFailed ''failed to create chain'' e empty_LaunchTestnetResponse of
                     (resp, res) \<Rightarrow> Some (resp, res, []))
              | Inr ch \<Rightarrow> launch_chain s a p req (fst cw) (snd cw) (cluster_of ch)))"

section \<open>Lemmas\<close>

lemma as_app_error_ok: "as_app_error msg r = Inr x \<longleftrightarrow> r = Inr x"
  by (auto simp: as_app_error_def split: sum.splits)

lemma launch_states_ok:
  "launch_states a p enc c resp = (resp', Inr ()) \<longleftrightarrow>
     (\<exists>st x cs y. if_Serialize p Launched = Inr st \<and> CompressData (ac_gzip a) st = Inr x \<and>
        Serialize (if_SerializeNode p) enc (packed_of c) = Inr cs \<and> CompressData (ac_gzip a) cs = Inr y \<and>
        resp' = resp\<lparr>lr_ProviderState := x, lr_ChainState := y\<rparr>)"
  by (auto simp: launch_states_def andThen_ok as_app_error_ok)

lemma launch_states_frame:
  "lr_Nodes (fst (launch_states a p enc c resp)) = lr_Nodes resp" 
  by (auto simp: launch_states_def andThen_def split: sum.splits)

lemma address_name: "getNodeExternalAddresses W n evm = Inr x \<Longrightarrow> n_Name x = nk_Name n"
  by (auto simp: getNodeExternalAddresses_def Let_def and_then_def split: sum.splits if_splits)

lemma addresses_names:
  "each (\<lambda>n. getNodeExternalAddresses W n evm) ns = Inr xs \<Longrightarrow> map n_Name xs = map nk_Name ns"
  by (induction ns arbitrary: xs) (auto dest: address_name split: sum.splits)

lemma launch_addresses_names:
  "launch_addresses s req c = Inr (vs, ns) \<Longrightarrow>
     map n_Name vs = map nk_Name (cl_Validators c) \<and> map n_Name ns = map nk_Name (cl_Nodes c)"
  by (auto simp: launch_addresses_def and_then_def dest!: addresses_names split: sum.splits)

lemma launch_chain_ok:
  assumes "launch_chain s a p req cc wc c = Some (resp, Inr (), ups)"
  obtains c' rest st x where
    "Init (ls_libs s) (ls_world s) (ls_rnd s) (launch_options s a p req wc True) c = (c', Inr ())"
    "WaitForStartup (ls_turns s) = Some (Inr (), rest)"
    "if_Serialize p Launched = Inr st" "CompressData (ac_gzip a) st = Inr x" "lr_ProviderState resp = x"
    "launch_addresses s req c' = Inr (lr_Validators resp, lr_Nodes resp)"
    "ups = updateWorkflowData a (ls_WorkflowID s) (lr_Nodes resp) (lr_Validators resp) (pc_ChainId cc) (ls_StartTime s) (if_Name p)"
proof -
  obtain c' where c': "Init (ls_libs s) (ls_world s) (ls_rnd s) (launch_options s a p req wc True) c = (c', Inr ())"
    using assms by (auto simp: launch_chain_def Let_def failed_launch_def split: sum.splits prod.splits)
  moreover obtain rest where rest: "WaitForStartup (ls_turns s) = Some (Inr (), rest)"
    using assms c' by (auto simp: launch_chain_def Let_def split: option.splits prod.splits sum.splits)
  moreover have "launch_started s a p req cc c' (empty_LaunchTestnetResponse\<lparr>lr_ChainID := pc_ChainId cc\<rparr>) = (resp, Inr (), ups)"
    using assms c' rest by (simp add: launch_chain_def Let_def)
  ultimately show thesis
    using that by (auto simp: launch_started_def launch_states_ok split: prod.splits sum.splits)
qed

lemma LaunchTestnet_ok:
  assumes "LaunchTestnet s a pr req = Some (resp, Inr (), ups)"
  obtains p ch where "RestoreProvider pr (lt_RunnerType req) (lt_ProviderState req) = Inr p"
    "CreateChain (ls_sched s) (provider_type (lt_RunnerType req)) (fst (constructChainConfig (ac_Wallets a) req (ac_Chains a)))
       (launch_options s a p req (snd (constructChainConfig (ac_Wallets a) req (ac_Chains a))) False) = Inr ch"
    "launch_chain s a p req (fst (constructChainConfig (ac_Wallets a) req (ac_Chains a)))
       (snd (constructChainConfig (ac_Wallets a) req (ac_Chains a))) (cluster_of ch) = Some (resp, Inr (), ups)"
  using assms that
  by (auto simp: LaunchTestnet_def Let_def failed_launch_def split: sum.splits prod.splits)

lemma cluster_of_names:
  "map nk_Name (cl_Validators (cluster_of ch)) = map (nc_Name \<circ> nd_Config) (cn_Validators ch)"
  "map nk_Name (cl_Nodes (cluster_of ch)) = map (nc_Name \<circ> nd_Config) (cn_Nodes ch)"
  by (simp_all add: cluster_of_def Let_def)

lemma names_of_configs: "map nk_Config ns = map nk_Config ms \<Longrightarrow> map nk_Name ns = map nk_Name ms"
  by (metis (no_types, lifting) map_eq_conv map_map comp_apply)

section \<open>Properties\<close>

text \<open>C7: a launch that succeeds has created the whole chain of the request, every node of it runs with
  one genesis, the response names the validators and nodes in their order and holds the compressed
  state of the provider, and the server is told of exactly these nodes.\<close>

theorem LaunchTestnet_reports_running_chain:
  assumes "LaunchTestnet s a pr req = Some (resp, Inr (), ups)"
  shows "\<exists>p ch c bz state.
    RestoreProvider pr (lt_RunnerType req) (lt_ProviderState req) = Inr p \<and>
    CreateChain (ls_sched s) (provider_type (lt_RunnerType req)) (fst (constructChainConfig (ac_Wallets a) req (ac_Chains a)))
       (launch_options s a p req (snd (constructChainConfig (ac_Wallets a) req (ac_Chains a))) False) = Inr ch \<and>
    Init (ls_libs s) (ls_world s) (ls_rnd s)
       (launch_options s a p req (snd (constructChainConfig (ac_Wallets a) req (ac_Chains a))) True) (cluster_of ch) = (c, Inr ()) \<and>
    (\<forall>n \<in> set (cl_Validators c @ cl_Nodes c). nk_Running n \<and> mget (nk_Files n) ''config/genesis.json'' = Some bz) \<and>
    map n_Name (lr_Validators resp) = map (nc_Name \<circ> nd_Config) (cn_Validators ch) \<and>
    map n_Name (lr_Nodes resp) = map (nc_Name \<circ> nd_Config) (cn_Nodes ch) \<and>
    if_Serialize p Launched = Inr state \<and> CompressData (ac_gzip a) state = Inr (lr_ProviderState resp) \<and>
    map ud_Nodes ups = (if ac_GRPCClient a then [lr_Nodes resp] else []) \<and>
    map ud_Validators ups = (if ac_GRPCClient a then [lr_Validators resp] else [])"
proof -
  let ?cw = "constructChainConfig (ac_Wallets a) req (ac_Chains a)"
  from assms obtain p ch where p: "RestoreProvider pr (lt_RunnerType req) (lt_ProviderState req) = Inr p"
    "CreateChain (ls_sched s) (provider_type (lt_RunnerType req)) (fst ?cw) (launch_options s a p req (snd ?cw) False) = Inr ch"
    "launch_chain s a p req (fst ?cw) (snd ?cw) (cluster_of ch) = Some (resp, Inr (), ups)"
    by (rule LaunchTestnet_ok)
  from p(3) obtain c rest st x where c:
    "Init (ls_libs s) (ls_world s) (ls_rnd s) (launch_options s a p req (snd ?cw) True) (cluster_of ch) = (c, Inr ())"
    "WaitForStartup (ls_turns s) = Some (Inr (), rest)"
    "if_Serialize p Launched = Inr st" "CompressData (ac_gzip a) st = Inr x" "lr_ProviderState resp = x"
    "launch_addresses s req c = Inr (lr_Validators resp, lr_Nodes resp)"
    "ups = updateWorkflowData a (ls_WorkflowID s) (lr_Nodes resp) (lr_Validators resp) (pc_ChainId (fst ?cw)) (ls_StartTime s) (if_Name p)"
    by (rule launch_chain_ok)
  have names: "map n_Name (lr_Validators resp) = map (nc_Name \<circ> nd_Config) (cn_Validators ch)"
    "map n_Name (lr_Nodes resp) = map (nc_Name \<circ> nd_Config) (cn_Nodes ch)"
    using launch_addresses_names [OF c(6)] Init_keeps_nodes [OF c(1)] names_of_configs cluster_of_names by metis+
  obtain bz where "\<forall>n \<in> set (cl_Validators c @ cl_Nodes c). nk_Running n \<and> mget (nk_Files n) ''config/genesis.json'' = Some bz"
    using Init_success [OF c(1)] by (auto simp: has_genesis_def)
  moreover have "map ud_Nodes ups = (if ac_GRPCClient a then [lr_Nodes resp] else [])"
    "map ud_Validators ups = (if ac_GRPCClient a then [lr_Validators resp] else [])"
    using c(7) by (simp_all add: updateWorkflowData_def)
  ultimately show ?thesis using p(1,2) c(1,3,4,5) names by blast
qed

definition demo_wallet_config :: WalletConfig where
  "demo_wallet_config = \<lparr> wc_DerivationFn = Some (\<lambda>_ _ _. Inr []), wc_GenerationFn = Some (\<lambda>x. x),
     wc_Bech32Prefix = ''cosmos'', wc_HDPath = Some [], wc_SigningAlgorithm = ''secp256k1'' \<rparr>"

definition demo_activity :: activity where
  "demo_activity = \<lparr> ac_RegistryType = ''local'', ac_Token = None,
     ac_Auth = \<lparr> au_base64_dec = Inr, au_base64_enc = (\<lambda>s. s), au_json = (\<lambda>_. Inr []) \<rparr>,
     ac_Chains = [(''gaia'', \<lparr> ci_Name = ''gaia'', ci_Dockerfile = [], ci_AdditionalFiles = [], ci_GID = ''1000'', ci_UID = ''1000'',
       ci_BinaryName = ''gaiad'', ci_Entrypoint = [''gaiad''], ci_HomeDir = ''/gaia'', ci_GasPrices = ''0.1stake'' \<rparr>)],
     ac_Wallets = \<lparr> wk_Cosmos = demo_wallet_config, wk_Evm = demo_wallet_config \<rparr>,
     ac_Grafana = \<lparr> gf_URL = [], gf_Dashboards = [] \<rparr>, ac_GRPCClient = True, ac_gzip = demo_gzip \<rparr>"

definition demo_infra :: "unit infra" where
  "demo_infra = \<lparr> if_Name = ''ib-x'', if_CreateTask = (\<lambda>_. Inr ()), if_Serialize = (\<lambda>_. Inr ''state''),
     if_SerializeNode = (\<lambda>_. Inr ''node''), if_Teardown = Inr () \<rparr>"

definition demo_providers :: "unit providers" where
  "demo_providers = \<lparr> pr_DockerCreate = (\<lambda>_. Inr demo_infra), pr_DOCreate = (\<lambda>_. Inr demo_infra),
     pr_DockerRestore = (\<lambda>_. Inr demo_infra), pr_DORestore = (\<lambda>_. Inr demo_infra) \<rparr>"

definition demo_launch_request :: LaunchTestnetRequest where
  "demo_launch_request = \<lparr> lt_Name = ''hub'', lt_IsEvmChain = False, lt_Repo = ''gaia'', lt_SHA = ''abc'', lt_Image = ''img'',
     lt_BaseImage = ''gaia'', lt_GenesisModifications = [], lt_RunnerType = ''Docker'', lt_RegionConfigs = [],
     lt_NumOfValidators = 1, lt_NumOfNodes = 1, lt_CustomAppConfig = Some [(''api'', VMap [(''enable'', VBool False)])],
     lt_CustomConsensusConfig = None, lt_CustomClientConfig = None, lt_AdditionalStartFlags = [],
     lt_ProviderState = ''state'', lt_SetPersistentPeers = True, lt_SetSeedNode = False, lt_BaseMnemonic = [],
     lt_NumWallets = 0, lt_ProviderSpecificConfig = [] \<rparr>"

definition demo_setting :: launch_setting where
  "demo_setting = \<lparr> ls_WorkflowID = ''wf'', ls_StartTime = 0, ls_sched = rev, ls_libs = Chain_Init.demo_libs, ls_world = demo_world,
     ls_rnd = (\<lambda>_. 0), ls_setbytes = (\<lambda>s _ _. Inr s), ls_turns = [Tick (Inr 0), Tick (Inr 0), Tick (Inr 3)],
     ls_enc = (\<lambda>_. Inr ''chain'') \<rparr>"

lemma demo_construct: "constructChainConfig (ac_Wallets demo_activity) demo_launch_request (ac_Chains demo_activity) =
    (demo_chain_config, demo_wallet_config)"
  by (simp add: constructChainConfig_def base_chain_config_def demo_launch_request_def demo_activity_def demo_chain_config_def
      cosmosDenom_def int_of_uint64_def)

lemma demo_launch_options:
  "ChainOptions_ValidateBasic (launch_options demo_setting demo_activity demo_infra demo_launch_request demo_wallet_config b) = Inr ()"
  "co_AdditionalAccounts (launch_options demo_setting demo_activity demo_infra demo_launch_request demo_wallet_config True) = 0"
  "co_ModifyGenesis (launch_options demo_setting demo_activity demo_infra demo_launch_request demo_wallet_config True) =
     Some (ModifyGenesis (ls_setbytes demo_setting) [])"
  by (simp_all add: ChainOptions_ValidateBasic_def launch_options_def demo_wallet_config_def WalletConfig_ValidateBasic_def
      demo_launch_request_def)

lemma demo_created:
  "\<exists>ch. CreateChain rev provider_Docker demo_chain_config
     (launch_options demo_setting demo_activity demo_infra demo_launch_request demo_wallet_config False) = Inr ch \<and>
     cluster_of ch = demo_cluster"
proof -
  have valid: "ChainConfig_ValidateBasic provider_Docker demo_chain_config = Inr ()"
    by (simp add: ChainConfig_ValidateBasic_def demo_chain_config_def validate_topology_def provider_Docker_def
        provider_DigitalOcean_def ImageDefinition_ValidateBasic_def ParseUint_def is_digit_def digits_val_def)
  have jobs: "local_jobs demo_chain_config opts = [local_job demo_chain_config opts Validator 0, local_job demo_chain_config opts FullNode 0]" for opts
    by (simp add: local_jobs_def demo_chain_config_def)
  have node: "CreateNode (if_CreateTask demo_infra) provider_Docker nc opts = Inr \<lparr> nd_Task = (), nd_Config = nc \<rparr>"
    if "nc_ChainConfig nc = demo_chain_config" "nc_Name nc \<noteq> []" for nc opts
    using that valid by (simp add: CreateNode_def NodeConfig_ValidateBasic_def demo_infra_def Let_def)
  have names: "pc_Name demo_chain_config = ''hub''" by (simp add: demo_chain_config_def)
  have zero: "show_nat 0 = ''0''" by code_simp
  have creator: "co_NodeCreator (launch_options demo_setting demo_activity demo_infra demo_launch_request demo_wallet_config False) =
      Some (CreateNode (if_CreateTask demo_infra) provider_Docker)"
    by (simp add: launch_options_def demo_launch_request_def provider_type_def runner_Docker_def)
  have "provider_Docker \<noteq> provider_DigitalOcean" by (simp add: provider_Docker_def provider_DigitalOcean_def)
  then show ?thesis
    by (simp add: CreateChain_def valid demo_launch_options createLocalNodes_def creator
        run_jobs_def jobs run_job_def local_job_def and_then_def node role_name_def names zero cluster_of_def Let_def
        demo_cluster_def demo_node_def)
qed

lemma demo_launch: "\<exists>resp ups. LaunchTestnet demo_setting demo_activity demo_providers demo_launch_request = Some (resp, Inr (), ups)"
proof -
  let ?opts = "launch_options demo_setting demo_activity demo_infra demo_launch_request demo_wallet_config True"
  obtain ch where ch: "CreateChain rev provider_Docker demo_chain_config
     (launch_options demo_setting demo_activity demo_infra demo_launch_request demo_wallet_config False) = Inr ch"
    "cluster_of ch = demo_cluster" using demo_created by blast
  have "ModifyGenesis (ls_setbytes demo_setting) [] ''G'' = Inr ''G''" by (simp add: ModifyGenesis_def)
  from demo_Init [OF demo_launch_options this] obtain c where
    c: "Init Chain_Init.demo_libs demo_world (\<lambda>_. 0) ?opts demo_cluster = (c, Inr ())"
      "cl_Wallets c = [Some (''words'', ''cosmos1'')]" by blast
  have restored: "RestoreProvider demo_providers (lt_RunnerType demo_launch_request) st = Inr demo_infra" for st
    by (simp add: RestoreProvider_def demo_providers_def)
  have fields: "ls_libs demo_setting = Chain_Init.demo_libs" "ls_world demo_setting = demo_world"
    "ls_rnd demo_setting = (\<lambda>_. 0)" "ls_sched demo_setting = rev" "WaitForStartup (ls_turns demo_setting) = Some (Inr (), [])"
    "provider_type (lt_RunnerType demo_launch_request) = provider_Docker" "ac_gzip demo_activity = demo_gzip"
    by (simp_all add: demo_setting_def demo_launch_request_def provider_type_def runner_Docker_def demo_activity_def)
  have ser: "\<exists>x. each (if_SerializeNode demo_infra) ns = Inr x" "\<exists>x. each (\<lambda>n. getNodeExternalAddresses demo_world n False) ns = Inr x" for ns
    by (induction ns) (auto simp: demo_infra_def getNodeExternalAddresses_def and_then_def)
  have serialized: "Serialize (if_SerializeNode demo_infra) (ls_enc demo_setting) (packed_of c) = Inr ''chain''"
    using ser(1) [of "cl_Validators c"] ser(1) [of "cl_Nodes c"] c(2)
    by (auto simp: Serialize_def packed_of_def and_then_def wallet_mnemonic_def demo_setting_def)
  have addresses: "\<exists>vs ns. launch_addresses demo_setting demo_launch_request c = Inr (vs, ns)"
    using ser(2) [of "cl_Validators c"] ser(2) [of "cl_Nodes c"] fields
    by (auto simp: launch_addresses_def and_then_def demo_launch_request_def)
  have zipped: "CompressData demo_gzip (CHR ''s'' # s) = Inr (''z'' @ CHR ''s'' # s)" "CompressData demo_gzip ''chain'' = Inr ''zchain''" for s
    by (simp_all add: CompressData_def demo_gzip_def)
  have "\<exists>resp ups. launch_started demo_setting demo_activity demo_infra demo_launch_request demo_chain_config c r = (resp, Inr (), ups)" for r
    using addresses serialized zipped fields
    by (auto simp: launch_started_def launch_states_def andThen_def as_app_error_def demo_infra_def)
  then show ?thesis
    by (simp add: LaunchTestnet_def restored demo_construct ch fields launch_chain_def c)
qed

theorem LaunchTestnet_reports_running_chain_witness:
  "\<exists>resp ups. LaunchTestnet demo_setting demo_activity demo_providers demo_launch_request = Some (resp, Inr (), ups) \<and>
     map n_Name (lr_Validators resp) = [''hub-validator-0''] \<and> map n_Name (lr_Nodes resp) = [''hub-node-0'']"
proof -
  obtain resp ups where run: "LaunchTestnet demo_setting demo_activity demo_providers demo_launch_request = Some (resp, Inr (), ups)"
    using demo_launch by blast
  obtain ch where ch: "CreateChain rev provider_Docker demo_chain_config
     (launch_options demo_setting demo_activity demo_infra demo_launch_request demo_wallet_config False) = Inr ch"
    "cluster_of ch = demo_cluster" using demo_created by blast
  have fields: "ls_sched demo_setting = rev" "provider_type (lt_RunnerType demo_launch_request) = provider_Docker"
    "RestoreProvider demo_providers (lt_RunnerType demo_launch_request) st = Inr demo_infra" for st
    by (simp_all add: demo_setting_def demo_launch_request_def provider_type_def runner_Docker_def RestoreProvider_def demo_providers_def)
  from LaunchTestnet_reports_running_chain [OF run]
  have "map n_Name (lr_Validators resp) = map (nc_Name \<circ> nd_Config) (cn_Validators ch)"
    "map n_Name (lr_Nodes resp) = map (nc_Name \<circ> nd_Config) (cn_Nodes ch)"
    using ch(1) by (auto simp: demo_construct fields)
  with run show ?thesis
    unfolding cluster_of_names [symmetric] ch(2) by (auto simp: demo_cluster_def demo_node_def)
qed

lemma evm_amounts:
  "evm_genesis_amounts n = (10000000000000000000000000 * int_of_uint64 (n + 2), 10000000000000000000000000 * int_of_uint64 (n + 2))"
  by (simp add: evm_genesis_amounts_def Let_def big_Mul_def)

text \<open>For an EVM request the self-delegation of a validator is the whole genesis balance of an
  account: both point to the one number that the multiplication overwrote.\<close>

theorem evm_delegation_is_balance:
  assumes "lt_IsEvmChain req"
  shows "GetGenesisDelegation (fst (constructChainConfig wk req images)) = GetGenesisBalance (fst (constructChainConfig wk req images)) \<and>
    GetGenesisBalance (fst (constructChainConfig wk req images)) =
      10000000000000000000000000 * int_of_uint64 (lt_NumOfValidators req + 2)"
  using assms
  by (simp add: constructChainConfig_def evm_chain_config_def evm_amounts GetGenesisDelegation_def GetGenesisBalance_def)

theorem evm_delegation_is_balance_witness:
  "GetGenesisDelegation (fst (constructChainConfig (ac_Wallets demo_activity)
     (demo_launch_request\<lparr>lt_IsEvmChain := True, lt_NumOfValidators := 4\<rparr>) [])) = 60000000000000000000000000"
  using evm_delegation_is_balance [of "demo_launch_request\<lparr>lt_IsEvmChain := True, lt_NumOfValidators := 4\<rparr>"
      "ac_Wallets demo_activity" "[]"]
  by (simp add: int_of_uint64_def)

lemma Split_two: "CHR '':'' \<notin> set u \<Longrightarrow> CHR '':'' \<notin> set pw \<Longrightarrow> Split (CHR '':'') (u @ CHR '':'' # pw) = [u, pw]"
  by (simp add: Split_append_sep Split_no_sep)

lemma Split_count: "length (Split c s) = Suc (count_list s c)"
  by (induction s) (auto split: list.splits)

text \<open>A registry token is turned into credentials exactly when it decodes to text with one colon;
  then the user name is what stands before it and the password what stands after.\<close>

theorem convertECRTokenToDockerAuth_splits:
  assumes "au_base64_dec au token = Inr decoded" "\<And>m. is_ok (au_json au m)"
  shows "(is_ok (convertECRTokenToDockerAuth au token) \<longleftrightarrow> count_list decoded (CHR '':'') = 1) \<and>
    (CHR '':'' \<notin> set u \<longrightarrow> CHR '':'' \<notin> set pw \<longrightarrow> decoded = u @ CHR '':'' # pw \<longrightarrow>
      (\<exists>j. au_json au [(''username'', u), (''password'', pw)] = Inr j \<and>
        convertECRTokenToDockerAuth au token = Inr (au_base64_enc au j)))"
proof -
  have json: "\<exists>j. au_json au m = Inr j" for m using assms(2) [of m] by (auto simp: is_ok_def split: sum.splits)
  have two: "length (Split (CHR '':'') decoded) = 2 \<longleftrightarrow> (\<exists>a b. Split (CHR '':'') decoded = [a, b])"
    by (auto simp: length_Suc_conv numeral_2_eq_2)
  have ok: "is_ok (convertECRTokenToDockerAuth au token) \<longleftrightarrow> length (Split (CHR '':'') decoded) = 2"
  proof (cases "\<exists>a b. Split (CHR '':'') decoded = [a, b]")
    case True
    then obtain a b where "Split (CHR '':'') decoded = [a, b]" by blast
    with two assms(1) json show ?thesis
      by (auto simp: convertECRTokenToDockerAuth_def and_then_def wrap_err_def is_ok_def)
        (metis (no_types, lifting) json old.sum.simps(6))
  next
    case False
    with two assms(1) show ?thesis
      by (auto simp: convertECRTokenToDockerAuth_def and_then_def wrap_err_def is_ok_def split: list.splits)
  qed
  have "\<exists>j. au_json au [(''username'', u), (''password'', pw)] = Inr j \<and>
        convertECRTokenToDockerAuth au token = Inr (au_base64_enc au j)"
    if "CHR '':'' \<notin> set u" "CHR '':'' \<notin> set pw" "decoded = u @ CHR '':'' # pw"
    using that assms(1) json [of "[(''username'', u), (''password'', pw)]"]
    by (auto simp: convertECRTokenToDockerAuth_def and_then_def wrap_err_def Split_two)
  with ok show ?thesis by (simp add: Split_count)
qed

theorem convertECRTokenToDockerAuth_splits_witness:
  "convertECRTokenToDockerAuth \<lparr> au_base64_dec = (\<lambda>_. Inr ''AWS:pw''), au_base64_enc = (\<lambda>s. ''b'' @ s),
     au_json = (\<lambda>m. Inr (Join ''+'' (map snd m))) \<rparr> ''tok'' = Inr ''bAWS+pw''"
  using convertECRTokenToDockerAuth_splits [of "\<lparr> au_base64_dec = (\<lambda>_. Inr ''AWS:pw''), au_base64_enc = (\<lambda>s. ''b'' @ s),
     au_json = (\<lambda>m. Inr (Join ''+'' (map snd m))) \<rparr>" "''tok''" "''AWS:pw''" "''AWS''" "''pw''"]
  by (simp add: is_ok_def)

end
