(* ===== verification/Testnet_Workflow.thy ===== *)
theory Testnet_Workflow
  imports Messages Util "HOL-Library.Multiset"
begin

text \<open>
  The Temporal workflow of \<open>workflows/testnet/testnet.go\<close>. The activities, the cancellation of the
  workflow's context and the order in which a map is iterated are the environment \<open>en\<close>; a run
  yields the list of the activities and timers it starts, in order, and its result. A cancelled
  context shows as the error \<open>Canceled\<close> of the activity that was running, or as \<open>en_canceled\<close> when
  the workflow was waiting in its selector, so the theorems cover a cancellation at every point.
\<close>

section \<open>Environment and events\<close>

record wf_environment =
  en_build :: "BuildDockerImageRequest \<Rightarrow> BuildDockerImageResponse result"
  en_create :: "string \<Rightarrow> string \<Rightarrow> string result"
  en_launch :: "LaunchTestnetRequest \<Rightarrow> LaunchTestnetResponse result"
  en_loadbalancer :: "LaunchLoadBalancerRequest \<Rightarrow> string result"
  en_loadtest :: "RunLoadTestRequest \<Rightarrow> unit result"
  en_canceled :: bool
  en_gzip :: gzip
  en_order :: "string gomap \<Rightarrow> string gomap"
  en_duration :: "string \<Rightarrow> int result"

datatype event =
    EvBuild BuildDockerImageRequest
  | EvCreateProvider string string
  | EvLaunch LaunchTestnetRequest
  | EvLoadBalancer LaunchLoadBalancerRequest
  | EvLoadTest RunLoadTestRequest
  | EvTimer int
  | EvSelect
  | EvAwaitLoadTest
  | EvTeardown string string

section \<open>Waiting and teardown\<close>

text \<open>Durations are nanoseconds.\<close>

definition defaultRuntime :: int where "defaultRuntime = 120000000000"

definition longRunningTimer :: int where "longRunningTimer = 24 * 365 * 10 * 3600000000000"

definition waitForTestnetCompletion :: "wf_environment \<Rightarrow> TestnetWorkflowRequest \<Rightarrow> event" where
  "waitForTestnetCompletion en req =
     (if wr_LongRunningTestnet req then EvTimer longRunningTimer
      else
        let testnetDuration =
          (if wr_TestnetDuration req \<noteq> [] then
             (case en_duration en (wr_TestnetDuration req) of Inl _ \<Rightarrow> defaultRuntime | Inr d \<Rightarrow> d)
           else defaultRuntime)
        in EvTimer (max testnetDuration defaultRuntime))"

text \<open>The outcome of the teardown activity is only logged.\<close>

definition teardownProvider :: "string \<Rightarrow> string \<Rightarrow> event" where
  "teardownProvider runnerType providerState = EvTeardown runnerType providerState"

section \<open>Launching\<close>

definition launch_request :: "TestnetWorkflowRequest \<Rightarrow> BuildDockerImageResponse \<Rightarrow> string \<Rightarrow> LaunchTestnetRequest" where
  "launch_request req build providerState =
     (let c = wr_ChainConfig req
      in \<lparr> lt_Name = ch_Name c, lt_IsEvmChain = wr_IsEvmChain req, lt_Repo = wr_Repo req,
           lt_SHA = wr_SHA req, lt_Image = br_FQDNTag build, lt_BaseImage = ch_Image c,
           lt_GenesisModifications = ch_GenesisModifications c, lt_RunnerType = wr_RunnerType req,
           lt_RegionConfigs = ch_RegionConfigs c, lt_NumOfValidators = ch_NumOfValidators c,
           lt_NumOfNodes = ch_NumOfNodes c, lt_CustomAppConfig = ch_CustomAppConfig c,
           lt_CustomConsensusConfig = ch_CustomConsensusConfig c,
           lt_CustomClientConfig = ch_CustomClientConfig c, lt_AdditionalStartFlags = [],
           lt_ProviderState = providerState, lt_SetPersistentPeers = ch_SetPersistentPeers c,
           lt_SetSeedNode = ch_SetSeedNode c, lt_BaseMnemonic = wr_BaseMnemonic req,
           lt_NumWallets = wr_NumWallets req,
           lt_ProviderSpecificConfig = wr_ProviderSpecificConfig req \<rparr>)"

record launched =
  ln_chainState :: string
  ln_providerState :: string
  ln_nodes :: "Node list"
  ln_validators :: "Node list"
  ln_err :: "error option"

definition launchTestnet ::
    "wf_environment \<Rightarrow> TestnetWorkflowRequest \<Rightarrow> string \<Rightarrow> BuildDockerImageResponse \<Rightarrow> event list \<times> launched" where
  "launchTestnet en req runName build =
     (let e1 = EvCreateProvider (wr_RunnerType req) runName
      in case en_create en (wr_RunnerType req) runName of
           Inl e \<Rightarrow> ([e1], \<lparr> ln_chainState = [], ln_providerState = [], ln_nodes = [],
                             ln_validators = [], ln_err = Some e \<rparr>)
         | Inr providerState \<Rightarrow>
             let lr = launch_request req build providerState
             in case en_launch en lr of
                  Inl e \<Rightarrow>
                    ([e1, EvLaunch lr],
                     \<lparr> ln_chainState = [],
                       ln_providerState = (case CompressData (en_gzip en) providerState of
                                             Inl _ \<Rightarrow> providerState | Inr x \<Rightarrow> x),
                       ln_nodes = [], ln_validators = [], ln_err = Some e \<rparr>)
                | Inr resp \<Rightarrow>
                    ([e1, EvLaunch lr],
                     \<lparr> ln_chainState = lr_ChainState resp, ln_providerState = lr_ProviderState resp,
                       ln_nodes = lr_Nodes resp, ln_validators = lr_Validators resp, ln_err = None \<rparr>))"

definition domainTypes :: "bool \<Rightarrow> string gomap" where
  "domainTypes isEvmChain =
     [(''grpc'', ''9090''), (''rpc'', ''26657''), (''lcd'', ''1317'')] @
     (if isEvmChain then [(''evmrpc'', ''8545''), (''evmws'', ''8546'')] else [])"

definition processDomainInfo ::
    "wf_environment \<Rightarrow> string \<Rightarrow> Node list \<Rightarrow> Node list \<Rightarrow> bool \<Rightarrow> LoadBalancerDomain list" where
  "processDomainInfo en chainName nodes validators isEvmChain =
     map (\<lambda>(domainType, port).
        \<lparr> lb_Domain = chainName @ ''-'' @ domainType,
          lb_IPs = map (\<lambda>n. n_Address n @ '':'' @ port) (nodes @ validators),
          lb_Protocol = (if domainType = ''grpc'' then ''grpc'' else ''http'') \<rparr>)
       (en_order en (domainTypes isEvmChain))"

definition launchLoadBalancer ::
    "wf_environment \<Rightarrow> TestnetWorkflowRequest \<Rightarrow> string \<Rightarrow> string \<Rightarrow> Node list \<Rightarrow> Node list \<Rightarrow>
     event list \<times> string \<times> error option" where
  "launchLoadBalancer en req workflowID providerState nodes validators =
     (if wr_RunnerType req \<noteq> runner_DigitalOcean then ([], providerState, None)
      else
        let lq = \<lparr> lq_ProviderState = providerState, lq_RunnerType = wr_RunnerType req,
                   lq_Domains = processDomainInfo en (ch_Name (wr_ChainConfig req)) nodes validators
                     (wr_IsEvmChain req),
                   lq_WorkflowID = workflowID, lq_IsEvmChain = wr_IsEvmChain req \<rparr>
        in case en_loadbalancer en lq of
             Inl e \<Rightarrow> ([EvLoadBalancer lq], providerState, Some e)
           | Inr st \<Rightarrow> ([EvLoadBalancer lq], st, None))"

definition load_test_request ::
    "TestnetWorkflowRequest \<Rightarrow> string \<Rightarrow> string \<Rightarrow> LoadTestSpec \<Rightarrow> RunLoadTestRequest" where
  "load_test_request req chainState providerState spec =
     \<lparr> rl_ChainState = chainState, rl_ProviderState = providerState, rl_LoadTestSpec = spec,
       rl_RunnerType = wr_RunnerType req, rl_IsEvmChain = wr_IsEvmChain req,
       rl_BaseMnemonic = wr_BaseMnemonic req, rl_NumWallets = wr_NumWallets req,
       rl_CatalystVersion = wr_CatalystVersion req \<rparr>"

text \<open>The future of the load test, if one is started. Its result only reaches the log here.\<close>

definition runLoadTest :: "TestnetWorkflowRequest \<Rightarrow> string \<Rightarrow> string \<Rightarrow> RunLoadTestRequest option" where
  "runLoadTest req chainState providerState =
     (case wr_EthereumLoadTestSpec req of
        Some spec \<Rightarrow> Some (load_test_request req chainState providerState spec)
      | None \<Rightarrow>
          (case wr_CosmosLoadTestSpec req of
             Some spec \<Rightarrow> Some (load_test_request req chainState providerState spec)
           | None \<Rightarrow> None))"

section \<open>The workflow\<close>

text \<open>The part of \<open>startWorkflow\<close> after the testnet is up: load test, timer, selector.\<close>

definition run_until_shutdown ::
    "wf_environment \<Rightarrow> TestnetWorkflowRequest \<Rightarrow> string \<Rightarrow> string \<Rightarrow> event list \<times> unit result" where
  "run_until_shutdown en req chainState providerState =
     (let loadTest = runLoadTest req chainState providerState;
          started = (case loadTest of None \<Rightarrow> [] | Some r \<Rightarrow> [EvLoadTest r]);
          waited = started @ [waitForTestnetCompletion en req, EvSelect]
      in case loadTest of
           None \<Rightarrow> (waited, Inr ())
         | Some r \<Rightarrow>
             if en_canceled en then (waited, Inr ())
             else (waited @ [EvAwaitLoadTest], en_loadtest en r))"

text \<open>\<open>startWorkflow\<close> without its deferred teardown: the events, the value of \<open>providerState\<close> on
  return, which the deferred function reads, and the result.\<close>

definition start_body ::
    "wf_environment \<Rightarrow> TestnetWorkflowRequest \<Rightarrow> string \<Rightarrow> BuildDockerImageResponse \<Rightarrow> string \<Rightarrow>
     event list \<times> string \<times> unit result" where
  "start_body en req runName build workflowID =
     (case launchTestnet en req runName build of
        (tr1, l) \<Rightarrow>
          (case ln_err l of
             Some e \<Rightarrow> (tr1, ln_providerState l, Inl e)
           | None \<Rightarrow>
               (case (if wr_LaunchLoadBalancer req
                      then launchLoadBalancer en req workflowID (ln_providerState l) (ln_nodes l) (ln_validators l)
                      else ([], ln_providerState l, None)) of
                  (tr2, st, Some e) \<Rightarrow> (tr1 @ tr2, st, Inl e)
                | (tr2, st, None) \<Rightarrow>
                    (case run_until_shutdown en req (ln_chainState l) st of
                       (tr3, res) \<Rightarrow> (tr1 @ tr2 @ tr3, st, res)))))"

definition startWorkflow ::
    "wf_environment \<Rightarrow> TestnetWorkflowRequest \<Rightarrow> string \<Rightarrow> BuildDockerImageResponse \<Rightarrow> string \<Rightarrow>
     event list \<times> unit result" where
  "startWorkflow en req runName build workflowID =
     (case start_body en req runName build workflowID of
        (tr, st, res) \<Rightarrow>
          (tr @ (if st \<noteq> [] then [teardownProvider (wr_RunnerType req) st] else []), res))"

definition build_image_request :: "TestnetWorkflowRequest \<Rightarrow> BuildDockerImageRequest" where
  "build_image_request req = \<lparr> bi_Repo = wr_Repo req, bi_SHA = wr_SHA req,
     bi_ImageConfig = \<lparr> ic_Name = ch_Name (wr_ChainConfig req), ic_Image = ch_Image (wr_ChainConfig req),
       ic_Version = ch_Version (wr_ChainConfig req) \<rparr>,
     bi_CosmosSdkSha = wr_CosmosSdkSha req, bi_CometBFTSha = wr_CometBFTSha req \<rparr>"

definition testnet_Workflow ::
    "wf_environment \<Rightarrow> TestnetWorkflowRequest \<Rightarrow> string \<Rightarrow> (nat \<Rightarrow> nat) \<Rightarrow> event list \<times> unit result" where
  "testnet_Workflow en req workflowID rnd =
     (case TestnetWorkflowRequest_Validate req of
        Inl e \<Rightarrow> ([], Inl (Wrap ''invalid workflow options'' (New (Error_str e))))
      | Inr _ \<Rightarrow>
          let runName = ''ib-'' @ RandomString rnd 6;
              b = build_image_request req
          in case en_build en b of
               Inl e \<Rightarrow> ([EvBuild b], Inl e)
             | Inr build \<Rightarrow>
                 (case startWorkflow en req runName build workflowID of
                    (tr, Inl e) \<Rightarrow> (EvBuild b # tr, if errors_Is e Canceled then Inr () else Inl e)
                  | (tr, Inr _) \<Rightarrow> (EvBuild b # tr, Inr ())))"

section \<open>The life cycle as a state machine\<close>

text \<open>
  The protocol the workflow promises to the providers and activities, as an automaton on events. The
  state \<open>Held st\<close> has the provider state that a teardown has to release, in the form the teardown
  activity expects.
\<close>

datatype lifecycle =
    Idle
  | Built
  | Created
  | Held string
  | Waiting string
  | TornDown

inductive lc_step :: "wf_environment \<Rightarrow> lifecycle \<Rightarrow> event \<Rightarrow> lifecycle \<Rightarrow> bool" for en where
  build: "lc_step en Idle (EvBuild b) Built"
| create: "lc_step en Built (EvCreateProvider rt name) Created"
| launch_failed: "en_launch en lr = Inl e \<Longrightarrow> CompressData (en_gzip en) (lt_ProviderState lr) = Inr st \<Longrightarrow>
    lc_step en Created (EvLaunch lr) (Held st)"
| launched: "en_launch en lr = Inr resp \<Longrightarrow> lc_step en Created (EvLaunch lr) (Held (lr_ProviderState resp))"
| lb_failed: "en_loadbalancer en lq = Inl e \<Longrightarrow> lq_ProviderState lq = st \<Longrightarrow>
    lc_step en (Held st) (EvLoadBalancer lq) (Held st)"
| lb_up: "en_loadbalancer en lq = Inr st' \<Longrightarrow> lq_ProviderState lq = st \<Longrightarrow>
    lc_step en (Held st) (EvLoadBalancer lq) (Held st')"
| load_test: "rl_ProviderState r = st \<Longrightarrow> lc_step en (Held st) (EvLoadTest r) (Held st)"
| timer: "defaultRuntime \<le> d \<Longrightarrow> lc_step en (Held st) (EvTimer d) (Waiting st)"
| select: "lc_step en (Waiting st) EvSelect (Held st)"
| await: "lc_step en (Held st) EvAwaitLoadTest (Held st)"
| teardown: "st \<noteq> [] \<Longrightarrow> lc_step en (Held st) (EvTeardown rt st) TornDown"

inductive lc_path :: "wf_environment \<Rightarrow> lifecycle \<Rightarrow> event list \<Rightarrow> lifecycle \<Rightarrow> bool" for en where
  Nil: "lc_path en s [] s"
| Cons: "lc_step en s ev s' \<Longrightarrow> lc_path en s' evs s'' \<Longrightarrow> lc_path en s (ev # evs) s''"

inductive_simps lc_path_Nil [simp]: "lc_path en s [] s'"
inductive_simps lc_path_Cons: "lc_path en s (ev # evs) s'"
inductive_cases lc_torn_down: "lc_step en TornDown ev s'"

definition is_teardown :: "event \<Rightarrow> bool" where
  "is_teardown ev = (case ev of EvTeardown _ _ \<Rightarrow> True | _ \<Rightarrow> False)"

section \<open>Lemmas\<close>

lemmas lc_intros = lc_step.intros lc_path.intros

lemma lc_path_append: "lc_path en s xs s' \<Longrightarrow> lc_path en s' ys s'' \<Longrightarrow> lc_path en s (xs @ ys) s''"
  by (induction rule: lc_path.induct) (auto intro: lc_path.intros)

text \<open>What the workflow relies on: compression works on the created state, and an activity that
  succeeds returns a provider state.\<close>

definition activities_return_state :: "wf_environment \<Rightarrow> bool" where
  "activities_return_state en \<longleftrightarrow>
     (\<forall>rt nm st. en_create en rt nm = Inr st \<longrightarrow> st \<noteq> [] \<and> gzip_law (en_gzip en) st) \<and>
     (\<forall>lr resp. en_launch en lr = Inr resp \<longrightarrow> lr_ProviderState resp \<noteq> []) \<and>
     (\<forall>lq st. en_loadbalancer en lq = Inr st \<longrightarrow> st \<noteq> [])"

lemma timer_bound: "\<exists>d. waitForTestnetCompletion en req = EvTimer d \<and> defaultRuntime \<le> d"
  by (auto simp: waitForTestnetCompletion_def Let_def longRunningTimer_def defaultRuntime_def)

lemma run_until_shutdown_path: "lc_path en (Held st) (fst (run_until_shutdown en req cs st)) (Held st)"
proof -
  obtain d where d: "waitForTestnetCompletion en req = EvTimer d" "defaultRuntime \<le> d"
    using timer_bound by blast
  have wait: "lc_path en (Held st) [EvTimer d, EvSelect] (Held st)"
    using d(2) by (auto intro: lc_intros)
  have lt: "lc_path en (Held st) [EvLoadTest r] (Held st)" if "runLoadTest req cs st = Some r" for r
    using that by (auto simp: runLoadTest_def load_test_request_def intro!: lc_intros split: option.splits)
  have aw: "lc_path en (Held st) [EvAwaitLoadTest] (Held st)" by (auto intro: lc_intros)
  show ?thesis
  proof (cases "runLoadTest req cs st")
    case None
    then show ?thesis using wait d(1) by (simp add: run_until_shutdown_def)
  next
    case (Some r)
    have "lc_path en (Held st) ([EvLoadTest r] @ [EvTimer d, EvSelect]) (Held st)"
      using lc_path_append [OF lt [OF Some] wait] .
    moreover from lc_path_append [OF this aw]
    have "lc_path en (Held st) (([EvLoadTest r] @ [EvTimer d, EvSelect]) @ [EvAwaitLoadTest]) (Held st)" .
    ultimately show ?thesis using Some d(1) by (simp add: run_until_shutdown_def Let_def)
  qed
qed

lemma loadBalancer_path:
  assumes "activities_return_state en" "st \<noteq> []"
    and "launchLoadBalancer en req k st ns vs = (tr, st', e)"
  shows "lc_path en (Held st) tr (Held st') \<and> st' \<noteq> []"
  using assms
  by (auto simp: launchLoadBalancer_def Let_def activities_return_state_def intro!: lc_intros
      split: if_splits sum.splits)

lemma launchTestnet_path:
  assumes "activities_return_state en" "launchTestnet en req nm build = (tr, l)"
  shows "if is_ok (en_create en (wr_RunnerType req) nm)
    then lc_path en Built tr (Held (ln_providerState l)) \<and> ln_providerState l \<noteq> []
    else lc_path en Built tr Created \<and> ln_providerState l = [] \<and> ln_err l \<noteq> None"
proof (cases "en_create en (wr_RunnerType req) nm")
  case (Inl e)
  then show ?thesis using assms(2) by (auto simp: launchTestnet_def intro!: lc_intros)
next
  case (Inr st)
  let ?lr = "launch_request req build st"
  have st: "lt_ProviderState ?lr = st" by (simp add: launch_request_def Let_def)
  from assms(1) Inr have "st \<noteq> []" "gzip_law (en_gzip en) st" by (auto simp: activities_return_state_def)
  with compress_law obtain x where x: "CompressData (en_gzip en) st = Inr x" "x \<noteq> []" by blast
  show ?thesis
  proof (cases "en_launch en ?lr")
    case (Inl e)
    with assms(2) Inr x st show ?thesis
      by (auto simp: launchTestnet_def Let_def intro!: lc_intros)
  next
    case l: (Inr resp)
    with assms(1) have "lr_ProviderState resp \<noteq> []" by (auto simp: activities_return_state_def)
    with assms(2) Inr l show ?thesis
      by (auto simp: launchTestnet_def Let_def intro!: lc_intros)
  qed
qed

lemma start_body_path:
  assumes "activities_return_state en" "start_body en req nm build k = (tr, st, res)"
  shows "if is_ok (en_create en (wr_RunnerType req) nm)
    then lc_path en Built tr (Held st) \<and> st \<noteq> [] else lc_path en Built tr Created \<and> st = []"
proof -
  obtain tr1 l where l: "launchTestnet en req nm build = (tr1, l)" by fastforce
  note path1 = launchTestnet_path [OF assms(1) l]
  show ?thesis
  proof (cases "ln_err l")
    case (Some e)
    with assms(2) l path1 show ?thesis by (auto simp: start_body_def)
  next
    case None
    with path1 have ok: "is_ok (en_create en (wr_RunnerType req) nm)"
      and p1: "lc_path en Built tr1 (Held (ln_providerState l))" "ln_providerState l \<noteq> []"
      by (auto split: if_splits)
    obtain tr2 st2 e2 where lb: "(if wr_LaunchLoadBalancer req
        then launchLoadBalancer en req k (ln_providerState l) (ln_nodes l) (ln_validators l)
        else ([], ln_providerState l, None)) = (tr2, st2, e2)" by (metis prod.collapse)
    with loadBalancer_path [OF assms(1) p1(2)] p1(2)
    have p2: "lc_path en (Held (ln_providerState l)) tr2 (Held st2)" "st2 \<noteq> []"
      by (auto split: if_splits)
    obtain tr3 r3 where r3: "run_until_shutdown en req (ln_chainState l) st2 = (tr3, r3)" by fastforce
    from run_until_shutdown_path [of en st2 req "ln_chainState l"] r3
    have p3: "lc_path en (Held st2) tr3 (Held st2)" by simp
    have "tr = (case e2 of None \<Rightarrow> tr1 @ tr2 @ tr3 | Some _ \<Rightarrow> tr1 @ tr2)" "st = st2"
      using assms(2) l None lb r3 by (auto simp: start_body_def split: option.splits)
    with ok p1 p2 p3 show ?thesis by (auto intro!: lc_path_append split: option.splits)
  qed
qed

lemma startWorkflow_path:
  assumes "activities_return_state en"
  shows "lc_path en Built (fst (startWorkflow en req nm build k))
    (if is_ok (en_create en (wr_RunnerType req) nm) then TornDown else Created)"
proof -
  obtain tr st res where b: "start_body en req nm build k = (tr, st, res)" by (metis prod.collapse)
  show ?thesis
    using start_body_path [OF assms b] b
    by (auto simp: startWorkflow_def teardownProvider_def intro!: lc_path_append lc_intros split: if_splits)
qed

lemma start_body_no_teardown:
  "start_body en req nm build k = (tr, st, res) \<Longrightarrow> list_all (\<lambda>ev. \<not> is_teardown ev) tr"
  by (auto simp: start_body_def launchTestnet_def launchLoadBalancer_def run_until_shutdown_def Let_def
      is_teardown_def waitForTestnetCompletion_def
      split: if_splits option.splits sum.splits prod.splits)

lemma trace_cases:
  "fst (testnet_Workflow en req k rnd) = [] \<or>
   (\<exists>b. fst (testnet_Workflow en req k rnd) = [EvBuild b]) \<or>
   (\<exists>b build. is_ok (TestnetWorkflowRequest_Validate req) \<and> fst (testnet_Workflow en req k rnd) =
      EvBuild b # fst (startWorkflow en req (''ib-'' @ RandomString rnd 6) build k))"
proof (cases "TestnetWorkflowRequest_Validate req")
  case (Inl e)
  then show ?thesis by (simp add: testnet_Workflow_def)
next
  case valid: (Inr u)
  show ?thesis
  proof (cases "en_build en (build_image_request req)")
    case (Inl e)
    with valid show ?thesis by (simp add: testnet_Workflow_def)
  next
    case (Inr build)
    obtain tr res where "startWorkflow en req (''ib-'' @ RandomString rnd 6) build k = (tr, res)" by fastforce
    with valid Inr have "fst (testnet_Workflow en req k rnd) = EvBuild (build_image_request req) #
        fst (startWorkflow en req (''ib-'' @ RandomString rnd 6) build k)"
      by (cases res) (simp_all add: testnet_Workflow_def)
    with valid show ?thesis by (intro disjI2 exI [of _ "build_image_request req"] exI [of _ build]) simp
  qed
qed

definition creates :: "wf_environment \<Rightarrow> event \<Rightarrow> bool" where
  "creates en ev = (case ev of EvCreateProvider rt nm \<Rightarrow> is_ok (en_create en rt nm) | _ \<Rightarrow> False)"

lemma creates_launch:
  "list_ex (creates en) (fst (launchTestnet en req nm build)) = is_ok (en_create en (wr_RunnerType req) nm)"
  by (auto simp: launchTestnet_def Let_def creates_def split: sum.splits)

lemma creates_other:
  "\<not> list_ex (creates en) (fst (run_until_shutdown en req cs st))"
  "\<not> list_ex (creates en) (fst (launchLoadBalancer en req k st ns vs))"
  by (auto simp: run_until_shutdown_def launchLoadBalancer_def waitForTestnetCompletion_def Let_def
      creates_def split: option.splits sum.splits)

lemma creates_body:
  assumes "start_body en req nm build k = (tr, st, res)"
  shows "list_ex (creates en) tr = is_ok (en_create en (wr_RunnerType req) nm)"
proof -
  obtain tr1 l where l: "launchTestnet en req nm build = (tr1, l)" by fastforce
  obtain tr2 st2 e2 where lb: "(if wr_LaunchLoadBalancer req
      then launchLoadBalancer en req k (ln_providerState l) (ln_nodes l) (ln_validators l)
      else ([], ln_providerState l, None)) = (tr2, st2, e2)" by (metis prod.collapse)
  obtain tr3 r3 where r3: "run_until_shutdown en req (ln_chainState l) st2 = (tr3, r3)" by fastforce
  have "\<not> list_ex (creates en) tr2"
    using lb creates_other(2) [of en req k "ln_providerState l" "ln_nodes l" "ln_validators l"]
    by (auto split: if_splits)
  moreover have "\<not> list_ex (creates en) tr3" using creates_other(1) r3 by (metis fst_conv)
  moreover have "list_ex (creates en) tr1 = is_ok (en_create en (wr_RunnerType req) nm)"
    using creates_launch l by (metis fst_conv)
  moreover have "tr = tr1 \<or> tr = tr1 @ tr2 \<or> tr = tr1 @ tr2 @ tr3"
    using assms l lb r3 by (auto simp: start_body_def split: option.splits)
  ultimately show ?thesis by auto
qed

lemma creates_startWorkflow:
  "list_ex (creates en) (fst (startWorkflow en req nm build k)) = is_ok (en_create en (wr_RunnerType req) nm)"
proof -
  obtain tr st res where b: "start_body en req nm build k = (tr, st, res)" by (metis prod.collapse)
  from creates_body [OF b] b show ?thesis
    by (simp add: startWorkflow_def teardownProvider_def creates_def)
qed

lemma timers_of_run: "list_all (\<lambda>ev. case ev of EvTimer d \<Rightarrow> defaultRuntime \<le> d | _ \<Rightarrow> True)
    (fst (startWorkflow en req nm build k))"
proof -
  obtain d where d: "waitForTestnetCompletion en req = EvTimer d" "defaultRuntime \<le> d"
    using timer_bound by blast
  then show ?thesis
    by (auto simp: startWorkflow_def teardownProvider_def start_body_def launchTestnet_def launchLoadBalancer_def
        run_until_shutdown_def Let_def split: if_splits option.splits sum.splits prod.splits)
qed

section \<open>Properties\<close>

text \<open>C1: every run of the workflow, however its activities fail and whenever it is cancelled,
  follows the life cycle build, create, launch, load balancer, load test, wait, teardown, each activity
  being given the provider state of the one before; a run that created a provider ends torn
  down, with the last provider state in the compressed form the teardown activity reads, and a run that
  did not create one has nothing to tear down.\<close>

theorem workflow_follows_lifecycle:
  assumes "activities_return_state en"
  shows "\<exists>s. lc_path en Idle (fst (testnet_Workflow en req k rnd)) s \<and>
    (if list_ex (creates en) (fst (testnet_Workflow en req k rnd))
     then s = TornDown else s \<in> {Idle, Built, Created})"
proof -
  consider "fst (testnet_Workflow en req k rnd) = []"
    | b where "fst (testnet_Workflow en req k rnd) = [EvBuild b]"
    | b build where "fst (testnet_Workflow en req k rnd) =
        EvBuild b # fst (startWorkflow en req (''ib-'' @ RandomString rnd 6) build k)"
    using trace_cases [of en req k rnd] by blast
  then show ?thesis
  proof cases
    case 1
    then show ?thesis by (auto intro: lc_intros)
  next
    case (2 b)
    then show ?thesis by (auto simp: creates_def intro!: lc_intros exI [of _ Built])
  next
    case (3 b build)
    let ?nm = "''ib-'' @ RandomString rnd 6"
    let ?final = "if is_ok (en_create en (wr_RunnerType req) ?nm) then TornDown else Created"
    have path: "lc_path en Idle (fst (testnet_Workflow en req k rnd)) ?final"
      unfolding 3 by (intro lc_path.Cons [OF lc_step.build] startWorkflow_path assms)
    have "list_ex (creates en) (fst (testnet_Workflow en req k rnd)) \<longleftrightarrow> is_ok (en_create en (wr_RunnerType req) ?nm)"
      unfolding 3 by (simp add: creates_startWorkflow) (simp add: creates_def)
    with path show ?thesis by (intro exI [of _ ?final]) simp
  qed
qed

definition demo_wf_request :: TestnetWorkflowRequest where
  "demo_wf_request = \<lparr> wr_Repo = ''gaia'', wr_SHA = ''abc'', wr_IsEvmChain = False,
     wr_ChainConfig = empty_ChainsConfig\<lparr>ch_Name := ''hub'', ch_SetSeedNode := True\<rparr>,
     wr_RunnerType = ''Docker'', wr_CosmosSdkSha = [], wr_CometBFTSha = [],
     wr_EthereumLoadTestSpec = None, wr_CosmosLoadTestSpec = None, wr_LongRunningTestnet = False,
     wr_LaunchLoadBalancer = False, wr_TestnetDuration = [], wr_NumWallets = 10,
     wr_BaseMnemonic = [], wr_CatalystVersion = [], wr_ProviderSpecificConfig = [] \<rparr>"

text \<open>An environment whose launch activity is cancelled.\<close>

definition demo_env :: wf_environment where
  "demo_env = \<lparr> en_build = (\<lambda>_. Inr \<lparr> br_FQDNTag = ''tag'', br_Logs = [] \<rparr>),
     en_create = (\<lambda>_ _. Inr ''state''), en_launch = (\<lambda>_. Inl Canceled),
     en_loadbalancer = (\<lambda>_. Inl Canceled), en_loadtest = (\<lambda>_. Inr ()), en_canceled = False,
     en_gzip = demo_gzip, en_order = rev, en_duration = (\<lambda>_. Inl (New ''no'')) \<rparr>"

lemma demo_env_state: "activities_return_state demo_env"
  by (simp add: activities_return_state_def demo_env_def demo_gzip_law)

lemma demo_env_create: "en_create demo_env rt nm = Inr ''state''"
  by (simp add: demo_env_def)

lemma demo_run:
  "testnet_Workflow demo_env demo_wf_request ''wf'' (\<lambda>_. 0) =
     ([EvBuild (build_image_request demo_wf_request), EvCreateProvider ''Docker'' ''ib-aaaaaa'',
       EvLaunch (launch_request demo_wf_request \<lparr> br_FQDNTag = ''tag'', br_Logs = [] \<rparr> ''state''),
       EvTeardown ''Docker'' ''zstate''], Inr ())"
proof -
  have "TestnetWorkflowRequest_Validate demo_wf_request = Inr ()"
    by (simp add: Validate_accepts_iff demo_wf_request_def runner_Docker_def)
  moreover have "RandomString (\<lambda>_. 0) 6 = ''aaaaaa''"
    by (simp add: RandomString_def letterRunes_def upt_rec)
  moreover have "wr_RunnerType demo_wf_request = ''Docker''" by (simp add: demo_wf_request_def)
  ultimately show ?thesis
    by (simp add: testnet_Workflow_def startWorkflow_def start_body_def launchTestnet_def Let_def
        teardownProvider_def demo_env_def CompressData_def demo_gzip_def)
qed

theorem workflow_follows_lifecycle_witness:
  "lc_path demo_env Idle (fst (testnet_Workflow demo_env demo_wf_request ''wf'' (\<lambda>_. 0))) TornDown"
  using workflow_follows_lifecycle [OF demo_env_state, of demo_wf_request "''wf''" "\<lambda>_. 0"]
  by (auto simp: demo_run creates_def demo_env_create)

text \<open>No run tears a provider down twice, and nothing follows a teardown, whatever the
  activities do.\<close>

theorem teardown_at_most_once_and_last:
  "list_all (\<lambda>ev. \<not> is_teardown ev) (butlast (fst (testnet_Workflow en req k rnd)))"
proof -
  have "list_all (\<lambda>ev. \<not> is_teardown ev) (butlast (EvBuild b # fst (startWorkflow en req nm build k)))" for b nm build
  proof -
    obtain tr st res where "start_body en req nm build k = (tr, st, res)" by (metis prod.collapse)
    with start_body_no_teardown [OF this] show ?thesis
      by (auto simp: startWorkflow_def butlast_append is_teardown_def list_all_iff dest: in_set_butlastD)
  qed
  with trace_cases [of en req k rnd] show ?thesis by auto
qed

text \<open>The testnet is never shut down by its timer before two minutes, and a testnet with a duration
  that parses runs at least that long.\<close>

theorem testnet_runs_long_enough:
  "list_all (\<lambda>ev. case ev of EvTimer d \<Rightarrow> defaultRuntime \<le> d | _ \<Rightarrow> True) (fst (testnet_Workflow en req k rnd)) \<and>
   (case waitForTestnetCompletion en req of
      EvTimer d \<Rightarrow> d = (if wr_LongRunningTestnet req then longRunningTimer
                        else case en_duration en (wr_TestnetDuration req) of
                               Inl _ \<Rightarrow> defaultRuntime
                             | Inr x \<Rightarrow> if wr_TestnetDuration req = [] then defaultRuntime else max x defaultRuntime)
    | _ \<Rightarrow> False)"
proof
  show "list_all (\<lambda>ev. case ev of EvTimer d \<Rightarrow> defaultRuntime \<le> d | _ \<Rightarrow> True) (fst (testnet_Workflow en req k rnd))"
    using trace_cases [of en req k rnd] timers_of_run by auto
qed (simp add: waitForTestnetCompletion_def Let_def split: sum.split)



text \<open>Whatever order the map of domain types is iterated in, the load balancer gets one domain per
  protocol, with distinct names, and each forwards to every node and validator on that protocol's
  port.\<close>

theorem processDomainInfo_covers:
  assumes "mset (en_order en (domainTypes evm)) = mset (domainTypes evm)"
  shows "distinct (map lb_Domain (processDomainInfo en chain ns vs evm)) \<and>
    length (processDomainInfo en chain ns vs evm) = (if evm then 5 else 3) \<and>
    list_all (\<lambda>d. list_ex (\<lambda>(ty, port). lb_Domain d = chain @ ''-'' @ ty \<and>
        lb_IPs d = map (\<lambda>n. n_Address n @ '':'' @ port) (ns @ vs)) (domainTypes evm))
      (processDomainInfo en chain ns vs evm)"
proof -
  let ?o = "en_order en (domainTypes evm)"
  have "mset (map fst ?o) = mset (map fst (domainTypes evm))"
    using assms by simp
  moreover have "distinct (map fst (domainTypes evm))" by (cases evm) (simp_all add: domainTypes_def)
  ultimately have dist: "distinct (map fst ?o)" using mset_eq_imp_distinct_iff by blast
  have "map lb_Domain (processDomainInfo en chain ns vs evm) = map (\<lambda>ty. chain @ ''-'' @ ty) (map fst ?o)"
    by (simp add: processDomainInfo_def case_prod_beta)
  with dist have "distinct (map lb_Domain (processDomainInfo en chain ns vs evm))"
    by (simp add: distinct_map inj_on_def)
  moreover have "length ?o = length (domainTypes evm)" using assms by (rule mset_eq_length)
  moreover have "set ?o = set (domainTypes evm)" using assms by (rule mset_eq_setD)
  ultimately show ?thesis
    by (auto simp: processDomainInfo_def domainTypes_def list_all_iff list_ex_iff)
qed

theorem processDomainInfo_covers_witness:
  "length (processDomainInfo demo_env ''hub'' [empty_Node] [] True) = 5 \<and>
   distinct (map lb_Domain (processDomainInfo demo_env ''hub'' [empty_Node] [] True))"
  using processDomainInfo_covers [of demo_env True "''hub''" "[empty_Node]" "[]"]
  by (simp add: demo_env_def)

end
