(* ===== verification/Cleanup.thy ===== *)
theory Cleanup
  imports Prelude
begin

text \<open>
  The cleanup command, \<open>cmd/cleanup/main.go\<close>: listing the droplets and firewalls of the account page
  by page, working out which groups of resources are to be kept, and deleting the rest. The
  DigitalOcean API and the clock are parameters. The listing loop ends only if some page is short, so
  it is a partial function: \<open>None\<close> is a loop that never returns.
\<close>

section \<open>The command\<close>

record Droplet =
  dr_ID :: int
  dr_Name :: string
  dr_Tags :: "string list"
  dr_Created :: string

record Firewall =
  fw_ID :: string
  fw_Name :: string

record flags =
  fl_dryRun :: bool
  fl_namePrefix :: string
  fl_longRunning :: string

definition extractPrefix :: "string \<Rightarrow> string" where
  "extractPrefix dropletName =
     (let parts = Split (CHR ''-'') dropletName
      in if 3 \<le> length parts then Join ''-'' (take 3 parts) else dropletName)"

definition PerPage :: nat where "PerPage = 200"

text \<open>The paging loop the three functions share, from page \<open>page\<close> on; \<open>get\<close> is one call of the API.\<close>

partial_function (option) list_pages ::
    "string \<Rightarrow> (nat \<Rightarrow> 'a list result) \<Rightarrow> nat \<Rightarrow> 'a list \<Rightarrow> 'a list result option" where
  "list_pages msg get page acc =
     (case get page of
        Inl e \<Rightarrow> Some (Inl (Wrap msg e))
      | Inr xs \<Rightarrow> if length xs < PerPage then Some (Inr (acc @ xs)) else list_pages msg get (page + 1) (acc @ xs))"

text \<open>The clock and \<open>time.Parse\<close>, in nanoseconds.\<close>

record clock =
  ck_Now :: int
  ck_Parse :: "string \<Rightarrow> int result"

definition thirty_minutes :: int where "thirty_minutes = 30 * 60 * 1000000000"

text \<open>Whether a droplet makes the command keep its group: it is tagged, its creation time cannot be
  read, or it is recent.\<close>

definition marks :: "flags \<Rightarrow> clock \<Rightarrow> Droplet \<Rightarrow> bool" where
  "marks fl ck d =
     (if fl_longRunning fl \<in> set (dr_Tags d) then True
      else case ck_Parse ck (dr_Created d) of
             Inl _ \<Rightarrow> True
           | Inr createdAt \<Rightarrow> ck_Now ck - createdAt < thirty_minutes)"

fun mark_skipped :: "flags \<Rightarrow> clock \<Rightarrow> Droplet list \<Rightarrow> bool gomap \<Rightarrow> bool gomap" where
  "mark_skipped fl ck [] skipped = skipped"
| "mark_skipped fl ck (d # ds) skipped =
     (if \<not> HasPrefix (dr_Name d) (fl_namePrefix fl) then mark_skipped fl ck ds skipped
      else if mget skipped (extractPrefix (dr_Name d)) = Some True then mark_skipped fl ck ds skipped
      else if marks fl ck d then mark_skipped fl ck ds (mput (extractPrefix (dr_Name d)) True skipped)
      else mark_skipped fl ck ds skipped)"

definition getSkippedDropletPrefixes ::
    "flags \<Rightarrow> clock \<Rightarrow> (nat \<Rightarrow> Droplet list result) \<Rightarrow> bool gomap result option" where
  "getSkippedDropletPrefixes fl ck get =
     (case list_pages ''failed to list droplets'' get 1 [] of
        None \<Rightarrow> None
      | Some (Inl e) \<Rightarrow> Some (Inl e)
      | Some (Inr allDroplets) \<Rightarrow> Some (Inr (mark_skipped fl ck allDroplets [])))"

definition shouldSkipResource :: "string \<Rightarrow> bool gomap \<Rightarrow> bool" where
  "shouldSkipResource resourceName skipped = (mget skipped (extractPrefix resourceName) = Some True)"

definition to_delete :: "flags \<Rightarrow> bool gomap \<Rightarrow> ('r \<Rightarrow> string) \<Rightarrow> 'r list \<Rightarrow> 'r list" where
  "to_delete fl skipped name rs =
     filter (\<lambda>r. HasPrefix (name r) (fl_namePrefix fl) \<and> \<not> shouldSkipResource (name r) skipped) rs"

text \<open>The deletions: an error is logged and the loop goes on. The result is the resources the API
  deleted, in order.\<close>

definition delete_each :: "('r \<Rightarrow> error option) \<Rightarrow> 'r list \<Rightarrow> 'r list" where
  "delete_each del rs = filter (\<lambda>r. del r = None) rs"

definition cleanup_listed ::
    "string \<Rightarrow> flags \<Rightarrow> (nat \<Rightarrow> 'r list result) \<Rightarrow> ('r \<Rightarrow> error option) \<Rightarrow> ('r \<Rightarrow> string) \<Rightarrow> bool gomap \<Rightarrow>
     ('r list \<times> unit result) option" where
  "cleanup_listed msg fl get del name skipped =
     (case list_pages msg get 1 [] of
        None \<Rightarrow> None
      | Some (Inl e) \<Rightarrow> Some ([], Inl e)
      | Some (Inr xs) \<Rightarrow>
          if fl_dryRun fl then Some ([], Inr ())
          else Some (delete_each del (to_delete fl skipped name xs), Inr ()))"

definition cleanupDroplets ::
    "flags \<Rightarrow> (nat \<Rightarrow> Droplet list result) \<Rightarrow> (int \<Rightarrow> error option) \<Rightarrow> bool gomap \<Rightarrow> (Droplet list \<times> unit result) option" where
  "cleanupDroplets fl get del skipped =
     cleanup_listed ''failed to list droplets'' fl get (\<lambda>d. del (dr_ID d)) dr_Name skipped"

definition cleanupFirewalls ::
    "flags \<Rightarrow> (nat \<Rightarrow> Firewall list result) \<Rightarrow> (string \<Rightarrow> error option) \<Rightarrow> bool gomap \<Rightarrow> (Firewall list \<times> unit result) option" where
  "cleanupFirewalls fl get del skipped =
     cleanup_listed ''failed to list firewalls'' fl get (\<lambda>f. del (fw_ID f)) fw_Name skipped"

text \<open>The API as the command sees it. The droplets are listed twice, and may have changed between.\<close>

record do_api =
  api_First :: "nat \<Rightarrow> Droplet list result"
  api_Second :: "nat \<Rightarrow> Droplet list result"
  api_Firewalls :: "nat \<Rightarrow> Firewall list result"
  api_DeleteDroplet :: "int \<Rightarrow> error option"
  api_DeleteFirewall :: "string \<Rightarrow> error option"

text \<open>\<open>main\<close> after the flags: what was deleted, and the message it exits with, if any.\<close>

definition cleanup_main :: "flags \<Rightarrow> clock \<Rightarrow> do_api \<Rightarrow> (Droplet list \<times> Firewall list \<times> unit result) option" where
  "cleanup_main fl ck api =
     (case getSkippedDropletPrefixes fl ck (api_First api) of
        None \<Rightarrow> None
      | Some (Inl e) \<Rightarrow> Some ([], [], Inl (Wrap ''Failed to get skipped droplet prefixes'' e))
      | Some (Inr skipped) \<Rightarrow>
          (case cleanupDroplets fl (api_Second api) (api_DeleteDroplet api) skipped of
             None \<Rightarrow> None
           | Some (ds, Inl e) \<Rightarrow> Some (ds, [], Inl (Wrap ''Failed to cleanup droplets'' e))
           | Some (ds, Inr _) \<Rightarrow>
               (case cleanupFirewalls fl (api_Firewalls api) (api_DeleteFirewall api) skipped of
                  None \<Rightarrow> None
                | Some (fs, Inl e) \<Rightarrow> Some (ds, fs, Inl (Wrap ''Failed to cleanup firewalls'' e))
                | Some (fs, Inr _) \<Rightarrow> Some (ds, fs, Inr ()))))"

section \<open>Lemmas\<close>

text \<open>What the loop relies on: the API numbers the pages of the resources from one and returns each
  as a slice.\<close>

locale paged_listing =
  fixes get :: "nat \<Rightarrow> 'a list result" and xs :: "'a list"
  assumes page: "get (Suc p) = Inr (take PerPage (drop (p * PerPage) xs))"
begin

lemma list_pages_from: "list_pages msg get (Suc p) (take (p * PerPage) xs) = Some (Inr xs)"
proof (induction "length xs - p * PerPage" arbitrary: p rule: less_induct)
  case less
  have pos: "0 < PerPage" by (simp add: PerPage_def)
  let ?rest = "drop (p * PerPage) xs"
  show ?case
  proof (cases "length ?rest < PerPage")
    case True
    then have "take PerPage ?rest = ?rest" by simp
    with True show ?thesis by (subst list_pages.simps) (simp add: page)
  next
    case False
    then have "length xs - Suc p * PerPage < length xs - p * PerPage" using pos by simp
    note IH = less [OF this]
    have "take (p * PerPage) xs @ take PerPage ?rest = take (Suc p * PerPage) xs"
      by (simp add: take_add [symmetric] add.commute)
    with False IH show ?thesis by (subst list_pages.simps) (simp add: page)
  qed
qed

lemma lists_everything: "list_pages msg get (Suc 0) [] = Some (Inr xs)"
  using list_pages_from [of msg 0] by simp

end

definition pages_of :: "'a list \<Rightarrow> nat \<Rightarrow> 'a list result" where
  "pages_of xs page = Inr (take PerPage (drop ((page - 1) * PerPage) xs))"

interpretation account_pages: paged_listing "pages_of xs" xs for xs
  by unfold_locales (simp add: pages_of_def)

declare account_pages.lists_everything [simp]

text \<open>A group that is kept, in an account with these droplets.\<close>

definition protected :: "flags \<Rightarrow> clock \<Rightarrow> Droplet list \<Rightarrow> string \<Rightarrow> bool" where
  "protected fl ck ds p \<longleftrightarrow>
     (\<exists>d \<in> set ds. HasPrefix (dr_Name d) (fl_namePrefix fl) \<and> extractPrefix (dr_Name d) = p \<and> marks fl ck d)"

lemma mark_skipped_iff:
  "mget (mark_skipped fl ck ds skipped) p = Some True \<longleftrightarrow> mget skipped p = Some True \<or> protected fl ck ds p"
proof (induction fl ck ds skipped rule: mark_skipped.induct)
  case (1 fl ck skipped)
  then show ?case by (simp add: protected_def)
next
  case (2 fl ck d ds skipped)
  then show ?case by (auto simp: protected_def update_conv)
qed

lemma skip_iff: "shouldSkipResource name (mark_skipped fl ck ds []) \<longleftrightarrow> protected fl ck ds (extractPrefix name)"
  by (simp add: shouldSkipResource_def mark_skipped_iff)

lemma protected_tagged:
  "d \<in> set ds \<Longrightarrow> HasPrefix (dr_Name d) (fl_namePrefix fl) \<Longrightarrow> fl_longRunning fl \<in> set (dr_Tags d) \<Longrightarrow>
     protected fl ck ds (extractPrefix (dr_Name d))"
  by (auto simp: protected_def marks_def)

lemma cleanup_listed_spares:
  "cleanup_listed msg fl get del name (mark_skipped fl ck ds []) = Some (rs, r) \<Longrightarrow> protected fl ck ds p \<Longrightarrow>
     \<forall>x \<in> set rs. extractPrefix (name x) \<noteq> p"
  by (auto simp: cleanup_listed_def delete_each_def to_delete_def skip_iff split: option.splits sum.splits if_splits)

section \<open>Properties\<close>

text \<open>C5: on an account whose resources do not change during the run, the command ends, and, unless
  it is a dry run, it deletes exactly those droplets and firewalls that carry the name prefix, whose
  group holds no droplet that is tagged, recent or of unreadable age, and that the API agrees to
  delete.\<close>

theorem cleanup_deletes_exactly:
  assumes "api_First api = pages_of ds" "api_Second api = pages_of ds" "api_Firewalls api = pages_of fs"
  shows "cleanup_main fl ck api =
    (if fl_dryRun fl then Some ([], [], Inr ())
     else Some (filter (\<lambda>d. HasPrefix (dr_Name d) (fl_namePrefix fl) \<and>
                  \<not> protected fl ck ds (extractPrefix (dr_Name d)) \<and> api_DeleteDroplet api (dr_ID d) = None) ds,
                filter (\<lambda>f. HasPrefix (fw_Name f) (fl_namePrefix fl) \<and>
                  \<not> protected fl ck ds (extractPrefix (fw_Name f)) \<and> api_DeleteFirewall api (fw_ID f) = None) fs,
                Inr ()))"
  using assms
  by (simp add: cleanup_main_def getSkippedDropletPrefixes_def cleanupDroplets_def cleanupFirewalls_def
      cleanup_listed_def to_delete_def delete_each_def skip_iff conj_ac)

definition demo_flags :: flags where
  "demo_flags = \<lparr> fl_dryRun = False, fl_namePrefix = ''petri'', fl_longRunning = ''LONG_RUNNING'' \<rparr>"

definition demo_clock :: clock where
  "demo_clock = \<lparr> ck_Now = 10 ^ 15, ck_Parse = (\<lambda>s. if s = ''old'' then Inr 0 else if s = ''new'' then Inr (10 ^ 15)
     else Inl (New ''time'')) \<rparr>"

definition demo_droplets :: "Droplet list" where
  "demo_droplets =
     [\<lparr> dr_ID = 1, dr_Name = ''petri-ib-a-validator-0'', dr_Tags = [''LONG_RUNNING''], dr_Created = ''old'' \<rparr>,
      \<lparr> dr_ID = 2, dr_Name = ''petri-ib-a-node-0'', dr_Tags = [], dr_Created = ''old'' \<rparr>,
      \<lparr> dr_ID = 3, dr_Name = ''petri-ib-b-node-0'', dr_Tags = [], dr_Created = ''old'' \<rparr>,
      \<lparr> dr_ID = 4, dr_Name = ''other'', dr_Tags = [], dr_Created = ''old'' \<rparr>]"

definition demo_api :: "Droplet list \<Rightarrow> Droplet list \<Rightarrow> do_api" where
  "demo_api before now = \<lparr> api_First = pages_of before, api_Second = pages_of now,
     api_Firewalls = pages_of [\<lparr> fw_ID = ''x'', fw_Name = ''petri-ib-a'' \<rparr>, \<lparr> fw_ID = ''y'', fw_Name = ''petri-ib-b-firewall'' \<rparr>],
     api_DeleteDroplet = (\<lambda>_. None), api_DeleteFirewall = (\<lambda>_. None) \<rparr>"

lemma demo_cleanup:
  "cleanup_main demo_flags demo_clock (demo_api demo_droplets demo_droplets) =
     Some ([\<lparr> dr_ID = 3, dr_Name = ''petri-ib-b-node-0'', dr_Tags = [], dr_Created = ''old'' \<rparr>],
       [\<lparr> fw_ID = ''y'', fw_Name = ''petri-ib-b-firewall'' \<rparr>], Inr ())"
  by (simp add: cleanup_main_def getSkippedDropletPrefixes_def demo_api_def cleanupDroplets_def cleanup_listed_def
      cleanupFirewalls_def to_delete_def delete_each_def shouldSkipResource_def demo_flags_def demo_droplets_def
      HasPrefix_def extractPrefix_def marks_def demo_clock_def thirty_minutes_def)

theorem cleanup_deletes_exactly_witness:
  "cleanup_main demo_flags demo_clock (demo_api demo_droplets demo_droplets) =
     Some ([\<lparr> dr_ID = 3, dr_Name = ''petri-ib-b-node-0'', dr_Tags = [], dr_Created = ''old'' \<rparr>],
       [\<lparr> fw_ID = ''y'', fw_Name = ''petri-ib-b-firewall'' \<rparr>], Inr ())"
  using cleanup_deletes_exactly [of "demo_api demo_droplets demo_droplets" demo_droplets
      "[\<lparr> fw_ID = ''x'', fw_Name = ''petri-ib-a'' \<rparr>, \<lparr> fw_ID = ''y'', fw_Name = ''petri-ib-b-firewall'' \<rparr>]"
      demo_flags demo_clock]
  by (simp add: demo_api_def demo_flags_def demo_droplets_def HasPrefix_def protected_def extractPrefix_def marks_def
      demo_clock_def thirty_minutes_def)

text \<open>The droplets of one group are kept or deleted together, and a tagged droplet is never
  deleted, also when the account changes between the two listings, so long as the tagged droplet was
  there in the first.\<close>

theorem cleanup_keeps_long_running:
  assumes "cleanup_main fl ck api = Some (deleted, fws, res)" "api_First api = pages_of before"
    and "d \<in> set before" "HasPrefix (dr_Name d) (fl_namePrefix fl)" "fl_longRunning fl \<in> set (dr_Tags d)"
  shows "(\<forall>x \<in> set deleted. extractPrefix (dr_Name x) \<noteq> extractPrefix (dr_Name d)) \<and>
    (\<forall>f \<in> set fws. extractPrefix (fw_Name f) \<noteq> extractPrefix (dr_Name d))"
proof -
  note p = protected_tagged [OF assms(3-5), of ck]
  let ?skipped = "mark_skipped fl ck before []"
  obtain r where ds: "cleanupDroplets fl (api_Second api) (api_DeleteDroplet api) ?skipped = Some (deleted, r)"
    and fs: "fws = [] \<or> (\<exists>r. cleanupFirewalls fl (api_Firewalls api) (api_DeleteFirewall api) ?skipped = Some (fws, r))"
    using assms(1,2) by (auto simp: cleanup_main_def getSkippedDropletPrefixes_def split: option.splits sum.splits)
  show ?thesis
    using ds fs cleanup_listed_spares [where name = dr_Name, OF _ p] cleanup_listed_spares [where name = fw_Name, OF _ p]
    unfolding cleanupDroplets_def cleanupFirewalls_def by fastforce
qed

theorem cleanup_keeps_long_running_witness:
  "extractPrefix ''petri-ib-b-node-0'' \<noteq> extractPrefix (dr_Name (hd demo_droplets)) \<and>
   fl_longRunning demo_flags \<in> set (dr_Tags (hd demo_droplets))"
  using cleanup_keeps_long_running [of demo_flags demo_clock "demo_api demo_droplets demo_droplets"
      "[\<lparr> dr_ID = 3, dr_Name = ''petri-ib-b-node-0'', dr_Tags = [], dr_Created = ''old'' \<rparr>]"
      "[\<lparr> fw_ID = ''y'', fw_Name = ''petri-ib-b-firewall'' \<rparr>]" "Inr ()" demo_droplets "hd demo_droplets"]
    demo_cleanup
  by (simp add: demo_api_def demo_flags_def demo_droplets_def HasPrefix_def)

text \<open>A droplet created between the two listings is deleted however young it is.\<close>

lemma cleanup_deletes_new_droplet:
  "let d = \<lparr> dr_ID = 5, dr_Name = ''petri-ib-c-node-0'', dr_Tags = [''LONG_RUNNING''], dr_Created = ''new'' \<rparr>
   in \<exists>fws. cleanup_main demo_flags demo_clock (demo_api [] [d]) = Some ([d], fws, Inr ())"
  by (simp add: Let_def cleanup_main_def getSkippedDropletPrefixes_def demo_api_def cleanupDroplets_def cleanup_listed_def
      cleanupFirewalls_def to_delete_def delete_each_def shouldSkipResource_def demo_flags_def HasPrefix_def)

end
