(* ===== verification/Builder.thy ===== *)
theory Builder
  imports Messages
begin

text \<open>
  The image builder activity, \<open>activities/builder/builder.go\<close>: which image a request names, what BuildKit
  is asked to build for it, and when the build is skipped. AWS, BuildKit, the file system and the Docker
  command line are the parameter \<open>be\<close>; the calls that change something are recorded.
\<close>

section \<open>Tags and replacements\<close>

definition dependencies :: "string gomap" where
  "dependencies = [(''cometbft/cometbft'', ''github.com/cometbft/cometbft''),
     (''cosmos/cosmos-sdk'', ''github.com/cosmos/cosmos-sdk''), (''cosmos/evm'', ''github.com/cosmos/evm'')]"

definition repoOwners :: "string gomap" where
  "repoOwners = [(''cometbft'', ''cometbft''), (''cosmos-sdk'', ''cosmos''), (''gaia'', ''cosmos''), (''evm'', ''cosmos'')]"

definition generateReplace :: "string gomap \<Rightarrow> string \<Rightarrow> string \<Rightarrow> string \<Rightarrow> string" where
  "generateReplace deps owner repo tag =
     mget_str deps (owner @ ''/'' @ repo) @ ''=github.com/'' @ owner @ ''/'' @ repo @ ''@'' @ tag"

definition generateMultipleReplaces :: "BuildDockerImageRequest \<Rightarrow> string" where
  "generateMultipleReplaces req = Join '' ''
     ((if bi_Repo req = ''cometbft''
       then [generateReplace dependencies (mget_str repoOwners (bi_Repo req)) (bi_Repo req) (bi_SHA req)] else []) @
      (if bi_CosmosSdkSha req \<noteq> []
       then [generateReplace dependencies (mget_str repoOwners ''cosmos-sdk'') ''cosmos-sdk'' (bi_CosmosSdkSha req)] else []) @
      (if bi_CometBFTSha req \<noteq> []
       then [generateReplace dependencies (mget_str repoOwners ''cometbft'') ''cometbft'' (bi_CometBFTSha req)] else []))"

definition tag_friendly :: "string \<Rightarrow> string" where
  "tag_friendly v = map (\<lambda>c. if c = CHR ''@'' \<or> c = CHR ''/'' then CHR ''-'' else c) v"

definition generateTag :: "BuildDockerImageRequest \<Rightarrow> string" where
  "generateTag req =
     (let repo = bi_Repo req; sha = bi_SHA req
      in if repo = ''cometbft''
         then ic_Image (bi_ImageConfig req) @ ''-'' @ ic_Version (bi_ImageConfig req) @ ''-'' @ repo @ ''-'' @ sha
         else repo @ ''-'' @ sha @
              (if bi_CosmosSdkSha req \<noteq> [] then ''-sdk-'' @ tag_friendly (bi_CosmosSdkSha req) else []) @
              (if bi_CometBFTSha req \<noteq> [] then ''-comet-'' @ tag_friendly (bi_CometBFTSha req) else []))"

text \<open>The build arguments of a request, and the attributes they become.\<close>

definition buildArguments :: "BuildDockerImageRequest \<Rightarrow> string gomap" where
  "buildArguments req =
     (let args = [(''GIT_SHA'', generateTag req)]; replaceCmd = generateMultipleReplaces req
      in if bi_Repo req = ''cometbft''
         then mput ''REPLACE_CMD'' replaceCmd (mput ''CHAIN_TAG'' (ic_Version (bi_ImageConfig req))
                (mput ''CHAIN_SRC'' ''https://github.com/cosmos/cosmos-sdk'' args))
         else let args = mput ''CHAIN_SRC'' (''https://github.com/'' @ mget_str repoOwners (bi_Repo req) @ ''/'' @ bi_Repo req)
                           (mput ''CHAIN_TAG'' (bi_SHA req) args)
              in if replaceCmd \<noteq> [] then mput ''REPLACE_CMD'' replaceCmd args else args)"

definition frontendAttrs :: "BuildDockerImageRequest \<Rightarrow> string gomap" where
  "frontendAttrs req =
     fold (\<lambda>(k, v). mput (''build-arg:'' @ k) v) (buildArguments req)
       [(''filename'', ''Dockerfile''), (''target'', []), (''platform'', ''linux/amd64'')]"

section \<open>The registry\<close>

record export =
  ex_Type :: string
  ex_Output :: "string option"
  ex_Attrs :: "string gomap"

record solve =
  so_Attrs :: "string gomap"
  so_Files :: "string gomap"
  so_Auth :: "(string \<times> string) gomap"
  so_Exports :: "export list"

datatype build_call = CreateRepository string | Solve solve | DockerLoad string

record builder_env =
  be_CallerIdentity :: "string result"
  be_DescribeRepositories :: "string \<Rightarrow> string \<Rightarrow> string list result"
  be_RepositoryNotFound :: "error \<Rightarrow> bool"
  be_CreateRepository :: "string \<Rightarrow> unit result"
  be_DescribeImages :: "string \<Rightarrow> string \<Rightarrow> string \<Rightarrow> nat result"
  be_ImageNotFound :: "error \<Rightarrow> bool"
  be_Token :: "string result"
  be_Base64 :: "string \<Rightarrow> string result"
  be_Connect :: "string \<Rightarrow> unit result"
  be_ReadFile :: "string \<Rightarrow> string result"
  be_CreateTemp :: "string result"
  be_Solve :: "solve \<Rightarrow> string result"
  be_Load :: "string \<Rightarrow> (error \<times> string) option"

record builder =
  ba_BuildKitAddress :: string
  ba_Chains :: "ChainImageConfig gomap"
  ba_Registry :: RegistryConfig

definition getAuthenticationToken :: "builder_env \<Rightarrow> (string \<times> string) result" where
  "getAuthenticationToken be =
     and_then (be_Token be) (\<lambda>token.
     and_then (wrap_err ''failed to decode token'' (be_Base64 be token)) (\<lambda>decoded.
       case Split (CHR '':'') decoded of
         [u, p] \<Rightarrow> Inr (u, p)
       | _ \<Rightarrow> Inl (New ''invalid token format'')))"

definition createRepositoryIfNotExists :: "builder_env \<Rightarrow> builder \<Rightarrow> build_call list \<times> unit result" where
  "createRepositoryIfNotExists be a =
     (let name = rg_ImageName (ba_Registry a)
      in case be_CallerIdentity be of
           Inl e \<Rightarrow> ([], Inl (Wrap ''failed to fetch STS identity'' e))
         | Inr account \<Rightarrow>
             (case be_DescribeRepositories be account name of
                Inr (_ # _) \<Rightarrow> ([], Inr ())
              | Inr [] \<Rightarrow> ([CreateRepository name], be_CreateRepository be name)
              | Inl e \<Rightarrow> if \<not> be_RepositoryNotFound be e then ([], Inl e)
                         else ([CreateRepository name], be_CreateRepository be name)))"

definition imageExistsInECR :: "builder_env \<Rightarrow> builder \<Rightarrow> string \<Rightarrow> bool result" where
  "imageExistsInECR be a tag =
     and_then (wrap_err ''failed to fetch STS identity'' (be_CallerIdentity be)) (\<lambda>account.
       case be_DescribeImages be account (rg_ImageName (ba_Registry a)) tag of
         Inl e \<Rightarrow> if be_ImageNotFound be e then Inr False else Inl e
       | Inr n \<Rightarrow> Inr (n > 0))"

section \<open>Building\<close>

definition context_files :: "builder_env \<Rightarrow> ChainImageConfig \<Rightarrow> string gomap result" where
  "context_files be cfg =
     and_then (wrap_err (''failed to read dockerfile from '' @ ci_Dockerfile cfg) (be_ReadFile be (ci_Dockerfile cfg))) (\<lambda>dockerfile.
     and_then (each (\<lambda>f. and_then (wrap_err (''failed to read file '' @ f) (be_ReadFile be f)) (\<lambda>c. Inr (path_Base f, c)))
         (ci_AdditionalFiles cfg)) (\<lambda>files.
       Inr (fold (\<lambda>(n, c). mput n c) files [(''Dockerfile'', dockerfile)])))"

definition fqdn :: "builder \<Rightarrow> string \<Rightarrow> string" where
  "fqdn a tag =
     (let r = ba_Registry a
      in if rg_Type r = ''ecr'' then rg_URL r @ ''/'' @ rg_ImageName r @ '':'' @ tag else rg_ImageName r @ '':'' @ tag)"

text \<open>From the connection to BuildKit on, with the registry's credentials.\<close>

definition build_image ::
    "builder_env \<Rightarrow> builder \<Rightarrow> BuildDockerImageRequest \<Rightarrow> string \<Rightarrow> string \<Rightarrow> build_call list \<times> BuildDockerImageResponse result" where
  "build_image be a req username password =
     (let tag = generateTag req; ecr = rg_Type (ba_Registry a) = ''ecr''; key = ic_Image (bi_ImageConfig req);
          auth = (if ecr \<and> username \<noteq> [] \<and> password \<noteq> [] then [(rg_URL (ba_Registry a), (username, password))] else [])
      in case be_Connect be (ba_BuildKitAddress a) of
           Inl e \<Rightarrow> ([], Inl e)
         | Inr _ \<Rightarrow>
             (case mget (ba_Chains a) key of
                None \<Rightarrow> ([], Inl (New (''image config not found for '' @ key)))
              | Some cfg \<Rightarrow>
                  (case context_files be cfg of
                     Inl e \<Rightarrow> ([], Inl e)
                   | Inr files \<Rightarrow>
                       if ecr then
                         let s = \<lparr> so_Attrs = frontendAttrs req, so_Files = files, so_Auth = auth,
                               so_Exports = [\<lparr> ex_Type = ''image'', ex_Output = None,
                                 ex_Attrs = [(''name'', fqdn a tag), (''push'', ''true'')] \<rparr>] \<rparr>
                         in ([Solve s], and_then (be_Solve be s) (\<lambda>logs. Inr \<lparr> br_FQDNTag = fqdn a tag, br_Logs = logs \<rparr>))
                       else
                         (case be_CreateTemp be of
                            Inl e \<Rightarrow> ([], Inl (Wrap ''failed to create temp file'' e))
                          | Inr tmp \<Rightarrow>
                              let s = \<lparr> so_Attrs = frontendAttrs req, so_Files = files, so_Auth = auth,
                                    so_Exports = [\<lparr> ex_Type = ''docker'', ex_Output = Some tmp,
                                      ex_Attrs = [(''name'', fqdn a tag)] \<rparr>] \<rparr>
                              in (case be_Solve be s of
                                    Inl e \<Rightarrow> ([Solve s], Inl e)
                                  | Inr logs \<Rightarrow>
                                      ([Solve s, DockerLoad tmp],
                                       case be_Load be tmp of
                                         Some (e, output) \<Rightarrow>
                                           Inl (Wrap ''failed to load image into docker'' (New (Error_str e @ '', output: '' @ output)))
                                       | None \<Rightarrow> Inr \<lparr> br_FQDNTag = fqdn a tag, br_Logs = logs \<rparr>))))))"

text \<open>In ECR, once the repository is there: nothing to do when it has the tag.\<close>

definition build_unless_exists ::
    "builder_env \<Rightarrow> builder \<Rightarrow> BuildDockerImageRequest \<Rightarrow> build_call list \<Rightarrow> build_call list \<times> BuildDockerImageResponse result" where
  "build_unless_exists be a req calls =
     (case imageExistsInECR be a (generateTag req) of
        Inl e \<Rightarrow> (calls, Inl (Wrap ''failed to check if image exists'' e))
      | Inr True \<Rightarrow> (calls, Inr \<lparr> br_FQDNTag = fqdn a (generateTag req),
            br_Logs = ''Image already exists in ECR, skipped build'' @ [CHR 0x0A] \<rparr>)
      | Inr False \<Rightarrow>
          (case getAuthenticationToken be of
             Inl e \<Rightarrow> (calls, Inl e)
           | Inr (u, p) \<Rightarrow> (case build_image be a req u p of (calls', r) \<Rightarrow> (calls @ calls', r))))"

definition BuildDockerImage ::
    "builder_env \<Rightarrow> builder \<Rightarrow> BuildDockerImageRequest \<Rightarrow> build_call list \<times> BuildDockerImageResponse result" where
  "BuildDockerImage be a req =
     (if rg_Type (ba_Registry a) \<noteq> ''ecr'' then build_image be a req [] []
      else andThen (createRepositoryIfNotExists be a) (\<lambda>calls _. build_unless_exists be a req calls))"

section \<open>What a tag determines\<close>

definition is_hex :: "char \<Rightarrow> bool" where
  "is_hex c \<longleftrightarrow> is_digit c \<or> c \<in> set ''abcdef''"

text \<open>Requests that build a chain of a known repository from commits.\<close>

definition commit_request :: "BuildDockerImageRequest \<Rightarrow> bool" where
  "commit_request req \<longleftrightarrow> bi_Repo req \<in> {''cosmos-sdk'', ''gaia'', ''evm''} \<and> list_all is_hex (bi_SHA req) \<and>
     list_all is_hex (bi_CosmosSdkSha req) \<and> list_all is_hex (bi_CometBFTSha req)"

lemma hex_no_mark: "list_all is_hex s \<Longrightarrow> \<forall>c \<in> set s. c \<noteq> CHR ''-'' \<and> c \<noteq> CHR ''@'' \<and> c \<noteq> CHR ''/''"
  by (auto simp: list_all_iff is_hex_def is_digit_def)

lemma tag_friendly_hex: "list_all is_hex s \<Longrightarrow> tag_friendly s = s"
  unfolding tag_friendly_def using hex_no_mark by (intro map_idI) auto

lemma split_at_dash:
  assumes "list_all is_hex a" "list_all is_hex b" "a @ x = b @ y" "x = [] \<or> hd x = CHR ''-''" "y = [] \<or> hd y = CHR ''-''"
  shows "a = b \<and> x = y"
proof -
  have t: "takeWhile (\<lambda>c. c \<noteq> CHR ''-'') (s @ z) = s" if "list_all is_hex s" "z = [] \<or> hd z = CHR ''-''" for s z :: string
    using that hex_no_mark[of s] by (cases z) (auto simp: takeWhile_append2 takeWhile_eq_all_conv)
  have "a = b" using t[OF assms(1,4)] t[OF assms(2,5)] assms(3) by simp
  then show ?thesis using assms(3) by simp
qed

definition sdk_part :: "string \<Rightarrow> string" where
  "sdk_part s = (if s \<noteq> [] then ''-sdk-'' @ s else [])"

definition comet_part :: "string \<Rightarrow> string" where
  "comet_part c = (if c \<noteq> [] then ''-comet-'' @ c else [])"

lemma commit_tag:
  assumes "commit_request r"
  shows "generateTag r = bi_Repo r @ ''-'' @ bi_SHA r @ sdk_part (bi_CosmosSdkSha r) @ comet_part (bi_CometBFTSha r)"
  using assms by (auto simp: generateTag_def commit_request_def Let_def sdk_part_def comet_part_def tag_friendly_hex)

lemma comet_part_inj: "comet_part c = comet_part c' \<Longrightarrow> c = c'"
  by (auto simp: comet_part_def split: if_splits)

lemma parts_inj:
  assumes "list_all is_hex s" "list_all is_hex s'" "sdk_part s @ comet_part c = sdk_part s' @ comet_part c'"
  shows "s = s' \<and> c = c'"
proof -
  have dash: "comet_part z = [] \<or> hd (comet_part z) = CHR ''-''" for z by (simp add: comet_part_def)
  show ?thesis
  proof (cases "s = []")
    case True
    then have "s' = []" using assms(3) by (auto simp: sdk_part_def comet_part_def split: if_splits)
    then show ?thesis using True assms(3) comet_part_inj by (auto simp: sdk_part_def)
  next
    case False
    then have "s' \<noteq> []" using assms(3) by (auto simp: sdk_part_def comet_part_def split: if_splits)
    then have "s @ comet_part c = s' @ comet_part c'" using False assms(3) by (simp add: sdk_part_def)
    then show ?thesis using split_at_dash[OF assms(1,2)] dash comet_part_inj by blast
  qed
qed

lemma tag_inj:
  assumes r: "commit_request r" and r': "commit_request r'" and tag: "generateTag r = generateTag r'"
  shows "bi_Repo r = bi_Repo r' \<and> bi_SHA r = bi_SHA r' \<and> bi_CosmosSdkSha r = bi_CosmosSdkSha r' \<and> bi_CometBFTSha r = bi_CometBFTSha r'"
proof -
  have repo: "bi_Repo r = bi_Repo r'"
    using r r' tag unfolding commit_tag[OF r] commit_tag[OF r'] commit_request_def by auto
  then have "bi_SHA r @ sdk_part (bi_CosmosSdkSha r) @ comet_part (bi_CometBFTSha r) =
      bi_SHA r' @ sdk_part (bi_CosmosSdkSha r') @ comet_part (bi_CometBFTSha r')"
    using tag unfolding commit_tag[OF r] commit_tag[OF r'] by simp
  moreover have "sdk_part s @ comet_part c = [] \<or> hd (sdk_part s @ comet_part c) = CHR ''-''" for s c
    by (simp add: sdk_part_def comet_part_def)
  moreover have hex: "list_all is_hex (bi_SHA r)" "list_all is_hex (bi_SHA r')" "list_all is_hex (bi_CosmosSdkSha r)"
    "list_all is_hex (bi_CosmosSdkSha r')" using r r' unfolding commit_request_def by blast+
  ultimately have "bi_SHA r = bi_SHA r'" and rest: "sdk_part (bi_CosmosSdkSha r) @ comet_part (bi_CometBFTSha r) =
      sdk_part (bi_CosmosSdkSha r') @ comet_part (bi_CometBFTSha r')"
    using split_at_dash[OF hex(1,2)] by blast+
  then show ?thesis using repo parts_inj[OF hex(3,4) rest] by blast
qed

lemma attrs_cong:
  assumes "bi_Repo r = bi_Repo r'" "bi_SHA r = bi_SHA r'" "bi_CosmosSdkSha r = bi_CosmosSdkSha r'"
    "bi_CometBFTSha r = bi_CometBFTSha r'" "bi_Repo r \<noteq> ''cometbft''"
  shows "frontendAttrs r = frontendAttrs r'"
proof -
  have "generateMultipleReplaces r = generateMultipleReplaces r'" "generateTag r = generateTag r'"
    using assms by (simp_all add: generateMultipleReplaces_def generateTag_def)
  then show ?thesis using assms by (simp add: frontendAttrs_def buildArguments_def)
qed

text \<open>A build that returns an image either found it in the registry, and then solved nothing, or solved exactly
  the request's build once and exported it under the tag it returns.\<close>

definition solves :: "build_call list \<Rightarrow> solve list" where
  "solves calls = concat (map (\<lambda>c. case c of Solve s \<Rightarrow> [s] | _ \<Rightarrow> []) calls)"

lemma build_image_ok:
  assumes "build_image be a req u p = (calls, Inr resp)"
  shows "br_FQDNTag resp = fqdn a (generateTag req) \<and>
    (\<exists>s. solves calls = [s] \<and> so_Attrs s = frontendAttrs req \<and> map (\<lambda>x. mget (ex_Attrs x) ''name'') (so_Exports s) = [Some (fqdn a (generateTag req))])"
  using assms by (auto simp: build_image_def Let_def solves_def and_then_def split: sum.splits option.splits if_splits)

lemma createRepository_solves: "solves (fst (createRepositoryIfNotExists be a)) = []"
  by (auto simp: createRepositoryIfNotExists_def Let_def solves_def split: sum.splits list.splits)

lemma solves_append: "solves (xs @ ys) = solves xs @ solves ys"
  by (simp add: solves_def)

lemma BuildDockerImage_ok:
  assumes "BuildDockerImage be a req = (calls, Inr resp)"
  shows "br_FQDNTag resp = fqdn a (generateTag req) \<and>
    (solves calls = [] \<and> imageExistsInECR be a (generateTag req) = Inr True \<or>
     (\<exists>s. solves calls = [s] \<and> so_Attrs s = frontendAttrs req \<and>
        map (\<lambda>x. mget (ex_Attrs x) ''name'') (so_Exports s) = [Some (fqdn a (generateTag req))]))"
proof (cases "rg_Type (ba_Registry a) = ''ecr''")
  case False
  then show ?thesis using assms build_image_ok by (simp add: BuildDockerImage_def)
next
  case True
  then obtain c where c: "createRepositoryIfNotExists be a = (c, Inr ())" and rest: "build_unless_exists be a req c = (calls, Inr resp)"
    using assms by (auto simp: BuildDockerImage_def andThen_ok)
  have none: "solves c = []" using createRepository_solves[of be a] c by simp
  show ?thesis
  proof (cases "imageExistsInECR be a (generateTag req) = Inr True")
    case True
    then show ?thesis using rest none by (auto simp: build_unless_exists_def)
  next
    case False
    then obtain u p calls' where "build_image be a req u p = (calls', Inr resp)" "calls = c @ calls'"
      using rest by (auto simp: build_unless_exists_def split: sum.splits bool.splits prod.splits)
    then show ?thesis using build_image_ok none by (simp add: solves_append)
  qed
qed

lemma same_tag_same_build:
  assumes "commit_request r" and "commit_request r'" and "generateTag r = generateTag r'"
  shows "frontendAttrs r = frontendAttrs r'"
proof -
  have "bi_Repo r \<noteq> ''cometbft''" using assms(1) by (auto simp: commit_request_def)
  then show ?thesis using tag_inj[OF assms] attrs_cong[of r r'] by simp
qed

lemma fqdn_inj: "fqdn a t = fqdn a t' \<longleftrightarrow> t = t'"
  by (auto simp: fqdn_def Let_def)

section \<open>A builder\<close>

definition demo_builder_env :: builder_env where
  "demo_builder_env = \<lparr> be_CallerIdentity = Inr ''acc'', be_DescribeRepositories = \<lambda>_ _. Inr [''r''], be_RepositoryNotFound = \<lambda>_. False,
     be_CreateRepository = \<lambda>_. Inr (), be_DescribeImages = \<lambda>_ _ _. Inr 0, be_ImageNotFound = \<lambda>_. False, be_Token = Inr ''t'',
     be_Base64 = \<lambda>_. Inr ''AWS:pw'', be_Connect = \<lambda>_. Inr (), be_ReadFile = \<lambda>_. Inr ''FROM x'', be_CreateTemp = Inr ''/tmp/i'',
     be_Solve = \<lambda>_. Inr ''ok'', be_Load = \<lambda>_. None \<rparr>"

definition demo_builder :: builder where
  "demo_builder = \<lparr> ba_BuildKitAddress = ''bk'', ba_Chains = [(''x'', empty_ChainImageConfig), (''y'', empty_ChainImageConfig)],
     ba_Registry = \<lparr> rg_Type = ''ecr'', rg_URL = ''ecr.aws'', rg_ImageName = ''skip'' \<rparr> \<rparr>"

definition demo_build :: "string \<Rightarrow> BuildDockerImageRequest" where
  "demo_build img = \<lparr> bi_Repo = ''evm'', bi_SHA = ''0a1'', bi_ImageConfig = \<lparr> ic_Name = ''n'', ic_Image = img, ic_Version = ''v1'' \<rparr>,
     bi_CosmosSdkSha = ''b2'', bi_CometBFTSha = [] \<rparr>"

section \<open>Properties\<close>



end
