(* ===== verification/Load_Balancer.thy ===== *)
theory Load_Balancer
  imports Service Testnet_Workflow
begin

text \<open>
  The load balancer: the Caddy application of \<open>petri/core/apps/loadbalancer.go\<close> and the activity of
  \<open>activities/loadbalancer/loadbalancer.go\<close>. The provider's calls are recorded in order; what each answers,
  the parameter \<open>le\<close>, may depend on the calls made so far.
\<close>

section \<open>Definitions\<close>

definition LoadBalancerDomain_Validate :: "LoadBalancerDomain \<Rightarrow> unit result" where
  "LoadBalancerDomain_Validate d =
     (if lb_Domain d = [] then Inl (New ''domain must be specified'')
      else if lb_IPs d = [] then Inl (New ''at least one IP must be specified'')
      else if lb_Protocol d \<noteq> ''http'' \<and> lb_Protocol d \<noteq> ''grpc''
      then Inl (New (''protocol must be either '' @ [CHR 0x27] @ ''http'' @ [CHR 0x27] @ '' or '' @ [CHR 0x27] @ ''grpc'' @ [CHR 0x27]))
      else Inr ())"

text \<open>A certificate or key is \<open>None\<close> when it is nil.\<close>

record LoadBalancerDefinition =
  ld_DigitalOceanConfig :: "string gomap"
  ld_Domains :: "LoadBalancerDomain list"
  ld_SSLCertificate :: "string option"
  ld_SSLKey :: "string option"

definition bytes :: "string option \<Rightarrow> string" where
  "bytes b = (case b of None \<Rightarrow> [] | Some s \<Rightarrow> s)"

text \<open>Each turn of the loop overwrites the error.\<close>

definition LoadBalancerDefinition_Validate :: "LoadBalancerDefinition \<Rightarrow> unit result" where
  "LoadBalancerDefinition_Validate def =
     (if ld_Domains def = [] then Inl (New ''at least one domain must be specified'')
      else if bytes (ld_SSLKey def) = [] \<and> bytes (ld_SSLCertificate def) \<noteq> []
      then Inl (New ''SSL key must be provided if SSL certificate is specified'')
      else if bytes (ld_SSLCertificate def) = [] \<and> bytes (ld_SSLKey def) \<noteq> []
      then Inl (New ''SSL certificate must be provided if SSL key is specified'')
      else foldl (\<lambda>err d. LoadBalancerDomain_Validate d) (Inr ()) (ld_Domains def))"

section \<open>The Caddyfile\<close>

abbreviation nl_tab :: string where "nl_tab \<equiv> [CHR 0x0A, CHR 0x09]"
abbreviation tab :: string where "tab \<equiv> [CHR 0x09]"

definition CaddyTlsTemplate :: string where
  "CaddyTlsTemplate = ''tls /caddy/cert.pem /caddy/key.pem''"

definition CaddyHttpDomainTemplate :: "string \<Rightarrow> string \<Rightarrow> string \<Rightarrow> string" where
  "CaddyHttpDomainTemplate site ips tls =
     site @ '' {'' @ nl_tab @ ''log'' @ nl_tab @ nl_tab @ ''handle {'' @ nl_tab @ tab @ ''reverse_proxy '' @ ips @ '' '' @ nl_tab @ ''}'' @
     [CHR 0x0A] @ nl_tab @ tls @ [CHR 0x0A] @ ''}'' @ [CHR 0x0A]"

definition CaddyGrpcDomainTemplate :: "string \<Rightarrow> string \<Rightarrow> string \<Rightarrow> string" where
  "CaddyGrpcDomainTemplate site ips tls =
     site @ '' {'' @ nl_tab @ ''log'' @ [CHR 0x0A] @ nl_tab @ ''handle {'' @ nl_tab @ tab @ ''reverse_proxy '' @ ips @ '' {'' @
     nl_tab @ tab @ tab @ ''transport http {'' @ nl_tab @ tab @ tab @ tab @ ''# Use HTTP/2 cleartext for gRPC'' @
     nl_tab @ tab @ tab @ tab @ ''versions h2c'' @ nl_tab @ tab @ tab @ ''}'' @ nl_tab @ tab @ ''}'' @ nl_tab @ ''}'' @
     [CHR 0x0A] @ nl_tab @ tls @ [CHR 0x0A] @ ''}'' @ [CHR 0x0A]"

text \<open>With another protocol the template is empty, and \<open>fmt.Sprintf\<close> reports its arguments as extra.\<close>

definition domain_block :: "string \<Rightarrow> string \<Rightarrow> LoadBalancerDomain \<Rightarrow> string" where
  "domain_block rootDomain tls d =
     (let full = lb_Domain d @ ''.'' @ rootDomain; ips = Join '' '' (lb_IPs d)
      in if lb_Protocol d = ''http'' then CaddyHttpDomainTemplate full ips tls
         else if lb_Protocol d = ''grpc'' then CaddyGrpcDomainTemplate full ips tls
         else ''%!(EXTRA string='' @ full @ '', string='' @ ips @ '', string='' @ tls @ '')'')"

definition has_tls :: "LoadBalancerDefinition \<Rightarrow> bool" where
  "has_tls def \<longleftrightarrow> ld_SSLCertificate def \<noteq> None \<and> ld_SSLKey def \<noteq> None"

definition caddyConfig :: "string \<Rightarrow> LoadBalancerDefinition \<Rightarrow> string" where
  "caddyConfig rootDomain def =
     concat (map (domain_block rootDomain (if has_tls def then CaddyTlsTemplate else [])) (ld_Domains def))"

section \<open>Launching\<close>

datatype lb_call =
    CallCreateTask TaskDefinition
  | CallWriteFile string string
  | CallStart
  | CallGetDroplet
  | CallCreateDomains "string gomap"

record lb_env =
  le_CreateTask :: "lb_call list \<Rightarrow> unit result"
  le_WriteFile :: "lb_call list \<Rightarrow> unit result"
  le_Start :: "lb_call list \<Rightarrow> unit result"
  le_PublicIPv4 :: "lb_call list \<Rightarrow> string result"
  le_CreateDomains :: "lb_call list \<Rightarrow> unit result"
  le_SerializeProvider :: "lb_call list \<Rightarrow> string result"
  le_SerializeTask :: "lb_call list \<Rightarrow> string result"

text \<open>A call: it is recorded, and its answer depends on all calls up to it.\<close>

definition lb_do :: "(lb_call list \<Rightarrow> 'r result) \<Rightarrow> lb_call \<Rightarrow> lb_call list \<Rightarrow> lb_call list \<times> 'r result" where
  "lb_do answer c calls = (calls @ [c], answer (calls @ [c]))"

definition lb_task :: "LoadBalancerDefinition \<Rightarrow> TaskDefinition" where
  "lb_task def = \<lparr> td_Name = ''loadbalancer'', td_Image = \<lparr> img_Image = ''caddy:2-alpine'', img_UID = ''0'', img_GID = ''0'' \<rparr>,
     td_Ports = [], td_Environment = [], td_DataDir = ''/caddy'',
     td_Entrypoint = [''caddy'', ''run'', ''--config'', ''/caddy/Caddyfile''], td_Command = [], td_Args = [],
     td_ProviderSpecificConfig = Some (ld_DigitalOceanConfig def) \<rparr>"

definition domain_records :: "string \<Rightarrow> LoadBalancerDefinition \<Rightarrow> string gomap" where
  "domain_records ip def = fold (\<lambda>d. mput (lb_Domain d) ip) (ld_Domains def) []"

definition write_tls :: "lb_env \<Rightarrow> LoadBalancerDefinition \<Rightarrow> lb_call list \<Rightarrow> lb_call list \<times> unit result" where
  "write_tls le def calls =
     (if \<not> has_tls def then (calls, Inr ())
      else andThen (lb_do (le_WriteFile le) (CallWriteFile ''cert.pem'' (bytes (ld_SSLCertificate def))) calls) (\<lambda>calls _.
           lb_do (le_WriteFile le) (CallWriteFile ''key.pem'' (bytes (ld_SSLKey def))) calls))"

definition LaunchLoadBalancer ::
    "lb_env \<Rightarrow> string \<Rightarrow> LoadBalancerDefinition \<Rightarrow> lb_call list \<Rightarrow> lb_call list \<times> unit result" where
  "LaunchLoadBalancer le rootDomain def calls =
     andThen (lb_do (le_CreateTask le) (CallCreateTask (lb_task def)) calls) (\<lambda>calls _.
     andThen (write_tls le def calls) (\<lambda>calls _.
     andThen (lb_do (le_WriteFile le) (CallWriteFile ''Caddyfile'' (caddyConfig rootDomain def)) calls) (\<lambda>calls _.
     andThen (lb_do (le_Start le) CallStart calls) (\<lambda>calls _.
     andThen (lb_do (le_PublicIPv4 le) CallGetDroplet calls) (\<lambda>calls ip.
       lb_do (le_CreateDomains le) (CallCreateDomains (domain_records ip def)) calls)))))"

section \<open>The activity\<close>

text \<open>The pattern \<open>^(.+?)(?:-(?:rpc|lcd|grpc))\<close>: the shortest non-empty prefix in front of a marker.\<close>

definition marker :: "string \<Rightarrow> bool" where
  "marker s \<longleftrightarrow> HasPrefix s ''-rpc'' \<or> HasPrefix s ''-lcd'' \<or> HasPrefix s ''-grpc''"

fun node_match :: "string \<Rightarrow> string \<Rightarrow> string option" where
  "node_match acc [] = None"
| "node_match acc (c # s) =
     (if acc \<noteq> [] \<and> marker (c # s) then Some (rev acc)
      else if c = CHR 0x0A then None else node_match (c # acc) s)"

definition node_names :: "LoadBalancerDomain list \<Rightarrow> string list" where
  "node_names domains = remdups (concat (map (\<lambda>d. case node_match [] (lb_Domain d) of None \<Rightarrow> [] | Some n \<Rightarrow> [n]) domains))"

definition lb_node :: "string \<Rightarrow> bool \<Rightarrow> string \<Rightarrow> Node" where
  "lb_node root isEvmChain name =
     \<lparr> n_Name = name, n_Address = root, n_Rpc = ''https://'' @ name @ ''-rpc.'' @ root,
       n_Lcd = ''https://'' @ name @ ''-lcd.'' @ root, n_Grpc = name @ ''-grpc.'' @ root,
       n_Evmrpc = (if isEvmChain then ''https://'' @ name @ ''-evmrpc.'' @ root else []),
       n_Evmws = (if isEvmChain then ''wss://'' @ name @ ''-evmws.'' @ root else []) \<rparr>"

record lb_activity =
  la_RootDomain :: string
  la_SSLCertificate :: "string option"
  la_SSLKey :: "string option"
  la_GRPCClient :: bool
  la_gzip :: gzip

text \<open>The update sent to the server; \<open>ord\<close> is the order in which the set of names is iterated.\<close>

definition lb_update ::
    "lb_activity \<Rightarrow> (string list \<Rightarrow> string list) \<Rightarrow> LaunchLoadBalancerRequest \<Rightarrow> pb_UpdateWorkflowDataRequest list" where
  "lb_update a ord req =
     (let nodes = map (lb_node (la_RootDomain a) (lq_IsEvmChain req)) (ord (node_names (lq_Domains req)))
      in if \<not> la_GRPCClient a \<or> nodes = [] then []
         else [\<lparr> ud_WorkflowId = lq_WorkflowID req, ud_LoadBalancers = nodes, ud_Monitoring = [], ud_Nodes = [], ud_Validators = [],
                ud_Wallets = None, ud_Provider = [] \<rparr>])"

record LaunchLoadBalancerResponse =
  ls_ProviderState :: string
  ls_LoadBalancerState :: string
  ls_RootDomain :: string

definition no_lb_response :: LaunchLoadBalancerResponse where
  "no_lb_response = \<lparr> ls_ProviderState = [], ls_LoadBalancerState = [], ls_RootDomain = [] \<rparr>"

text \<open>\<open>restore\<close> gives the provider restored from the state. The error of the update is only logged.\<close>

definition LaunchLoadBalancer_activity ::
    "(string \<Rightarrow> lb_env result) \<Rightarrow> lb_activity \<Rightarrow> (string list \<Rightarrow> string list) \<Rightarrow> LaunchLoadBalancerRequest \<Rightarrow>
     lb_call list \<times> pb_UpdateWorkflowDataRequest list \<times> LaunchLoadBalancerResponse \<times> error option" where
  "LaunchLoadBalancer_activity restore a ord req =
     (if lq_RunnerType req \<noteq> runner_DigitalOcean
      then ([], [], no_lb_response, Some (New ''only digitalocean provider supported for load balancer''))
      else case DecompressData (la_gzip a) (lq_ProviderState req) of
        Inl e \<Rightarrow> ([], [], no_lb_response, Some (Wrap ''failed to decompress provider state'' e))
      | Inr st \<Rightarrow>
          (case restore st of
             Inl e \<Rightarrow> ([], [], no_lb_response, Some (Wrap ''failed to restore provider'' e))
           | Inr le \<Rightarrow>
               let def = \<lparr> ld_DigitalOceanConfig = DigitalOceanDefaultOpts, ld_Domains = lq_Domains req,
                           ld_SSLCertificate = la_SSLCertificate a, ld_SSLKey = la_SSLKey a \<rparr>
               in (case LaunchLoadBalancer le (la_RootDomain a) def [] of
                     (calls, Inl e) \<Rightarrow> (calls, [], no_lb_response, Some (Wrap ''failed to launch load balancer'' e))
                   | (calls, Inr _) \<Rightarrow>
                       (case le_SerializeProvider le calls of
                          Inl e \<Rightarrow> (calls, [], no_lb_response, Some (Wrap ''failed to serialize provider'' e))
                        | Inr state \<Rightarrow>
                            (case CompressData (la_gzip a) state of
                               Inl e \<Rightarrow> (calls, [], no_lb_response, Some (Wrap ''failed to compress provider state'' e))
                             | Inr compressed \<Rightarrow>
                                 (case le_SerializeTask le calls of
                                    Inl e \<Rightarrow> (calls, [], no_lb_response\<lparr>ls_ProviderState := compressed\<rparr>,
                                       Some (Wrap ''failed to serialize load balancer task'' e))
                                  | Inr lbs \<Rightarrow>
                                      (calls, lb_update a ord req,
                                       \<lparr> ls_ProviderState = compressed, ls_LoadBalancerState = lbs, ls_RootDomain = la_RootDomain a \<rparr>,
                                       None)))))))"

section \<open>The order of the calls\<close>

definition up_calls :: "string \<Rightarrow> LoadBalancerDefinition \<Rightarrow> lb_call list" where
  "up_calls rootDomain def =
     [CallCreateTask (lb_task def)] @
     (if has_tls def then [CallWriteFile ''cert.pem'' (bytes (ld_SSLCertificate def)), CallWriteFile ''key.pem'' (bytes (ld_SSLKey def))] else []) @
     [CallWriteFile ''Caddyfile'' (caddyConfig rootDomain def)] @ [CallStart] @ [CallGetDroplet]"

text \<open>Calls that follow a list until one fails.\<close>

definition follows :: "(lb_call list \<Rightarrow> lb_call list \<times> 'r result) \<Rightarrow> lb_call list \<Rightarrow> bool" where
  "follows f xs \<longleftrightarrow> (\<forall>calls. \<exists>n \<le> length xs. fst (f calls) = calls @ take n xs \<and> (is_ok (snd (f calls)) \<longrightarrow> n = length xs))"

lemma follows_do: "follows (lb_do a c) [c]"
  unfolding follows_def by (intro allI exI[of _ 1]) (simp add: lb_do_def)

lemma follows_none: "follows (\<lambda>calls. (calls, Inr x)) []"
  by (simp add: follows_def)

lemma follows_andThen:
  assumes f: "follows f xs" and g: "\<And>x. follows (\<lambda>calls. g calls x) ys"
  shows "follows (\<lambda>calls. andThen (f calls) g) (xs @ ys)"
  unfolding follows_def
proof
  fix calls
  obtain c r where fc: "f calls = (c, r)" by fastforce
  obtain n where n: "n \<le> length xs" "c = calls @ take n xs" "is_ok r \<longrightarrow> n = length xs"
    using f fc unfolding follows_def by (metis fst_conv snd_conv)
  show "\<exists>n \<le> length (xs @ ys). fst (andThen (f calls) g) = calls @ take n (xs @ ys) \<and>
      (is_ok (snd (andThen (f calls) g)) \<longrightarrow> n = length (xs @ ys))"
  proof (cases r)
    case (Inl e)
    then show ?thesis using n fc by (intro exI[of _ n]) (simp add: andThen_def)
  next
    case (Inr x)
    then have c: "c = calls @ xs" using n by simp
    obtain m where "m \<le> length ys" "fst (g c x) = c @ take m ys" "is_ok (snd (g c x)) \<longrightarrow> m = length ys"
      using g[of x] unfolding follows_def by blast
    then show ?thesis using fc Inr c by (intro exI[of _ "length xs + m"]) (simp add: andThen_def)
  qed
qed

lemma andThen_assoc: "andThen (andThen r f) g = andThen r (\<lambda>s x. andThen (f s x) g)"
  by (cases r) (auto simp: andThen_def split: sum.splits)

definition lb_up :: "lb_env \<Rightarrow> string \<Rightarrow> LoadBalancerDefinition \<Rightarrow> lb_call list \<Rightarrow> lb_call list \<times> string result" where
  "lb_up le rootDomain def calls =
     andThen (lb_do (le_CreateTask le) (CallCreateTask (lb_task def)) calls) (\<lambda>calls _.
     andThen (write_tls le def calls) (\<lambda>calls _.
     andThen (lb_do (le_WriteFile le) (CallWriteFile ''Caddyfile'' (caddyConfig rootDomain def)) calls) (\<lambda>calls _.
     andThen (lb_do (le_Start le) CallStart calls) (\<lambda>calls _.
       lb_do (le_PublicIPv4 le) CallGetDroplet calls))))"

lemma launch_up: "LaunchLoadBalancer le root def calls =
    andThen (lb_up le root def calls) (\<lambda>calls ip. lb_do (le_CreateDomains le) (CallCreateDomains (domain_records ip def)) calls)"
  by (simp add: LaunchLoadBalancer_def lb_up_def andThen_assoc)

lemma write_tls_follows: "follows (write_tls le def)
    (if has_tls def then [CallWriteFile ''cert.pem'' (bytes (ld_SSLCertificate def)), CallWriteFile ''key.pem'' (bytes (ld_SSLKey def))] else [])"
proof (cases "has_tls def")
  case True
  have "follows (\<lambda>calls. andThen (lb_do (le_WriteFile le) (CallWriteFile ''cert.pem'' (bytes (ld_SSLCertificate def))) calls) (\<lambda>calls _.
       lb_do (le_WriteFile le) (CallWriteFile ''key.pem'' (bytes (ld_SSLKey def))) calls))
     ([CallWriteFile ''cert.pem'' (bytes (ld_SSLCertificate def))] @ [CallWriteFile ''key.pem'' (bytes (ld_SSLKey def))])"
    by (intro follows_andThen follows_do)
  then show ?thesis using True by (simp add: follows_def write_tls_def)
next
  case False
  then show ?thesis by (simp add: follows_def write_tls_def)
qed

lemma lb_up_follows: "follows (lb_up le root def) (up_calls root def)"
  unfolding lb_up_def up_calls_def by (intro follows_andThen follows_do write_tls_follows)

lemma lb_up_answer: "lb_up le root def calls = (c, Inr ip) \<Longrightarrow> le_PublicIPv4 le c = Inr ip"
  by (auto simp: lb_up_def andThen_ok lb_do_def)

lemma domain_records_lookup:
  "mget (domain_records ip def) d = (if d \<in> lb_Domain ` set (ld_Domains def) then Some ip else None)"
proof -
  have "mget (fold (\<lambda>d. mput (lb_Domain d) ip) ds m) d = (if d \<in> lb_Domain ` set ds then Some ip else mget m d)"
    for ds :: "LoadBalancerDomain list" and m
    by (induction ds arbitrary: m) auto
  then show ?thesis by (simp add: domain_records_def)
qed

section \<open>Names\<close>

text \<open>A name in which no marker occurs.\<close>

fun no_marker :: "string \<Rightarrow> bool" where
  "no_marker [] = True"
| "no_marker (c # s) = (\<not> marker (c # s) \<and> no_marker s)"

definition clear_name :: "string \<Rightarrow> bool" where
  "clear_name s \<longleftrightarrow> s \<noteq> [] \<and> CHR 0x0A \<notin> set s \<and> no_marker s"

lemma prefix_before_dash:
  assumes "HasPrefix (t @ CHR ''-'' # r) (CHR ''-'' # p)" "t \<noteq> []" "CHR ''-'' \<notin> set p"
  shows "HasPrefix t (CHR ''-'' # p)"
proof (cases "length (CHR ''-'' # p) \<le> length t")
  case True
  then show ?thesis using assms(1) by (simp add: HasPrefix_def)
next
  case False
  then have k: "length t - 1 < length p" "length t < Suc (length p)" using assms(2) by (cases t; simp)+
  have "(take (Suc (length p)) (t @ CHR ''-'' # r)) ! length t = (CHR ''-'' # p) ! length t"
    using assms(1) by (simp add: HasPrefix_def)
  moreover have "(take (Suc (length p)) (t @ CHR ''-'' # r)) ! length t = CHR ''-''" using k by (simp add: nth_append)
  moreover have "(CHR ''-'' # p) ! length t = p ! (length t - 1)" using assms(2) by (simp add: nth_Cons')
  ultimately have "CHR ''-'' \<in> set p" using k(1) by (metis nth_mem)
  then show ?thesis using assms(3) by simp
qed

lemma marker_before_dash: "marker (t @ CHR ''-'' # r) \<Longrightarrow> t \<noteq> [] \<Longrightarrow> marker t"
  unfolding marker_def using prefix_before_dash[of t r "''rpc''"] prefix_before_dash[of t r "''lcd''"] prefix_before_dash[of t r "''grpc''"]
  by auto

lemma node_match_prefix:
  assumes "no_marker s" "CHR 0x0A \<notin> set s" "s \<noteq> [] \<or> acc \<noteq> []" "marker (CHR ''-'' # r)"
  shows "node_match acc (s @ CHR ''-'' # r) = Some (rev acc @ s)"
  using assms
proof (induction s arbitrary: acc)
  case (Cons c s)
  then have "\<not> marker ((c # s) @ CHR ''-'' # r)" using marker_before_dash[of "c # s" r] by auto
  then show ?case using Cons by auto
qed simp

lemma node_match_other: "no_marker s \<Longrightarrow> node_match acc s = None"
  by (induction s arbitrary: acc) auto

lemma not_marker_tail: "c \<noteq> CHR ''-'' \<Longrightarrow> \<not> marker (c # s)"
  by (simp add: marker_def HasPrefix_def)

lemma no_marker_append: "no_marker s \<Longrightarrow> no_marker (CHR ''-'' # t) \<Longrightarrow> no_marker (s @ CHR ''-'' # t)"
proof (induction s)
  case (Cons c s)
  then show ?case using marker_before_dash[of "c # s" t] by auto
qed simp

lemma domain_node_match:
  assumes "clear_name chain" "ty \<in> {''grpc'', ''rpc'', ''lcd'', ''evmrpc'', ''evmws''}"
  shows "node_match [] (chain @ CHR ''-'' # ty) = (if ty \<in> {''evmrpc'', ''evmws''} then None else Some chain)"
proof (cases "ty \<in> {''evmrpc'', ''evmws''}")
  case True
  then have "no_marker (CHR ''-'' # ty)" by (auto simp: marker_def HasPrefix_def)
  then show ?thesis using True assms(1) node_match_other[OF no_marker_append] by (simp add: clear_name_def)
next
  case False
  then have m: "marker (CHR ''-'' # ty)" using assms(2) by (auto simp: marker_def HasPrefix_def)
  have "node_match [] (chain @ CHR ''-'' # ty) = Some (rev [] @ chain)"
    by (rule node_match_prefix) (use assms(1) m in \<open>auto simp: clear_name_def\<close>)
  then show ?thesis using False by simp
qed

lemma remdups_all_same: "set xs = {x} \<Longrightarrow> remdups xs = [x]"
  by (induction xs) (auto simp: subset_singleton_iff split: if_splits)

lemma domain_types: "fst ` set (domainTypes evm) =
    (if evm then {''grpc'', ''rpc'', ''lcd'', ''evmrpc'', ''evmws''} else {''grpc'', ''rpc'', ''lcd''})"
  by (cases evm) (simp_all add: domainTypes_def insert_commute)

lemma domains_of_chain:
  assumes "set (en_order en (domainTypes evm)) = set (domainTypes evm)"
  shows "lb_Domain ` set (processDomainInfo en chain ns vs evm) = (\<lambda>ty. chain @ CHR ''-'' # ty) ` fst ` set (domainTypes evm)"
  unfolding assms[symmetric] by (simp add: processDomainInfo_def image_image case_prod_beta)

lemma node_names_of_chain:
  assumes "clear_name chain" "set (en_order en (domainTypes evm)) = set (domainTypes evm)"
  shows "node_names (processDomainInfo en chain ns vs evm) = [chain]"
proof -
  let ?ds = "processDomainInfo en chain ns vs evm" and ?T = "fst ` set (domainTypes evm)"
  let ?m = "\<lambda>d. case node_match [] d of None \<Rightarrow> [] | Some n \<Rightarrow> [n]"
  have m: "?m (chain @ CHR ''-'' # ty) = (if ty \<in> {''evmrpc'', ''evmws''} then [] else [chain])" if "ty \<in> ?T" for ty
    using domain_node_match[OF assms(1), of ty] that unfolding domain_types by (auto split: if_splits)
  have "set (concat (map (\<lambda>d. ?m (lb_Domain d)) ?ds)) = (\<Union>d \<in> lb_Domain ` set ?ds. set (?m d))" by simp
  also have "\<dots> = (\<Union>ty \<in> ?T. set (?m (chain @ CHR ''-'' # ty)))" unfolding domains_of_chain[OF assms(2)] by simp
  also have "\<dots> = (\<Union>ty \<in> ?T. set (if ty \<in> {''evmrpc'', ''evmws''} then [] else [chain]))" using m by simp
  also have "\<dots> = {chain}" unfolding domain_types by (cases evm) simp_all
  finally show ?thesis unfolding node_names_def by (rule remdups_all_same)
qed

section \<open>Properties\<close>


definition demo_lb_env :: lb_env where
  "demo_lb_env = \<lparr> le_CreateTask = \<lambda>_. Inr (), le_WriteFile = \<lambda>_. Inr (), le_Start = \<lambda>_. Inr (), le_PublicIPv4 = \<lambda>_. Inr ''10.0.0.7'',
     le_CreateDomains = \<lambda>_. Inr (), le_SerializeProvider = \<lambda>_. Inr ''p'', le_SerializeTask = \<lambda>_. Inr ''t'' \<rparr>"

definition demo_lb :: LoadBalancerDefinition where
  "demo_lb = \<lparr> ld_DigitalOceanConfig = [], ld_Domains = [\<lparr> lb_Domain = ''a-rpc'', lb_IPs = [''1.2.3.4:80''], lb_Protocol = ''http'' \<rparr>],
     ld_SSLCertificate = Some ''c'', ld_SSLKey = Some ''k'' \<rparr>"


text \<open>The links the server shows for a testnet's load balancer are served by it: for the domains the
  workflow asks for, the activity reports exactly one load balancer, named after the chain, and the host of
  every address it reports is one of the domains the load balancer was given.\<close>

theorem reported_links_are_served:
  assumes "clear_name chain" and "set (en_order en (domainTypes (lq_IsEvmChain req))) = set (domainTypes (lq_IsEvmChain req))"
    and "lq_Domains req = processDomainInfo en chain ns vs (lq_IsEvmChain req)"
    and "la_GRPCClient a" and "ord [chain] = [chain]"
  shows "map ud_LoadBalancers (lb_update a ord req) = [[lb_node (la_RootDomain a) (lq_IsEvmChain req) chain]] \<and>
    (\<forall>ty. ty \<in> (if lq_IsEvmChain req then {''grpc'', ''rpc'', ''lcd'', ''evmrpc'', ''evmws''} else {''grpc'', ''rpc'', ''lcd''}) \<longrightarrow>
       chain @ ''-'' @ ty \<in> lb_Domain ` set (lq_Domains req))"
proof -
  have "lb_Domain ` set (lq_Domains req) = (\<lambda>ty. chain @ CHR ''-'' # ty) ` fst ` set (domainTypes (lq_IsEvmChain req))"
    unfolding assms(3) by (rule domains_of_chain[OF assms(2)])
  then have served: "\<forall>ty. ty \<in> (if lq_IsEvmChain req then {''grpc'', ''rpc'', ''lcd'', ''evmrpc'', ''evmws''} else {''grpc'', ''rpc'', ''lcd''}) \<longrightarrow>
       chain @ ''-'' @ ty \<in> lb_Domain ` set (lq_Domains req)" unfolding domain_types by simp
  have "node_names (lq_Domains req) = [chain]" unfolding assms(3) by (rule node_names_of_chain[OF assms(1,2)])
  then have "map ud_LoadBalancers (lb_update a ord req) = [[lb_node (la_RootDomain a) (lq_IsEvmChain req) chain]]"
    using assms(4,5) by (simp add: lb_update_def)
  then show ?thesis using served by blast
qed

definition demo_lb_activity :: lb_activity where
  "demo_lb_activity = \<lparr> la_RootDomain = ''x.io'', la_SSLCertificate = None, la_SSLKey = None, la_GRPCClient = True, la_gzip = demo_gzip \<rparr>"

definition demo_lb_request :: LaunchLoadBalancerRequest where
  "demo_lb_request = \<lparr> lq_ProviderState = [], lq_RunnerType = runner_DigitalOcean,
     lq_Domains = processDomainInfo demo_env ''hub-1'' [empty_Node] [] True, lq_WorkflowID = ''w'', lq_IsEvmChain = True \<rparr>"

theorem reported_links_are_served_witness:
  "map ud_LoadBalancers (lb_update demo_lb_activity id demo_lb_request) = [[lb_node ''x.io'' True ''hub-1'']]"
proof -
  have "clear_name ''hub-1''" by code_simp
  from reported_links_are_served[OF this, of demo_env demo_lb_request "[empty_Node]" "[]" demo_lb_activity id] show ?thesis
    by (simp add: demo_lb_request_def demo_lb_activity_def demo_env_def)
qed

end
