(* ===== verification/Docker_Task.thy ===== *)
theory Docker_Task
  imports Definitions
begin

text \<open>
  Tasks of the Docker provider: \<open>petri/core/provider/docker/task.go\<close>, the volume operations of
  \<open>volume.go\<close>, and the image pull of \<open>clients/docker_client.go\<close>. The daemon is a state \<open>'d\<close> with the
  client's calls as the parameter \<open>dk\<close>; what happens in it while the program sleeps is \<open>dk_Sleep\<close>, and
  the context may be done in any state. Between two looks at a container time may pass as well. Task
  states live in a store, since the provider's map and a task share them by pointer. Loops that may run for ever are partial functions.
\<close>

section \<open>The daemon\<close>

datatype TaskStatus = TASK_STATUS_UNDEFINED | TASK_RUNNING | TASK_STOPPED | TASK_PAUSED | TASK_RESTARTING

record PortBinding =
  pb_HostIP :: string
  pb_HostPort :: string

type_synonym PortMap = "PortBinding list gomap"

record ContainerSpec =
  cs_Name :: string
  cs_Image :: string
  cs_Entrypoint :: "string list"
  cs_Cmd :: "string list"
  cs_Hostname :: string
  cs_User :: string
  cs_Labels :: "string gomap"
  cs_Env :: "string list"
  cs_ExposedPorts :: "string list"
  cs_Mounts :: "(string \<times> string) list"
  cs_Binds :: "string list"
  cs_AutoRemove :: bool
  cs_PortBindings :: PortMap
  cs_NetworkMode :: string
  cs_IPv4 :: "(string \<times> string) option"

definition empty_spec :: ContainerSpec where
  "empty_spec = \<lparr> cs_Name = [], cs_Image = [], cs_Entrypoint = [], cs_Cmd = [], cs_Hostname = [], cs_User = [],
     cs_Labels = [], cs_Env = [], cs_ExposedPorts = [], cs_Mounts = [], cs_Binds = [], cs_AutoRemove = False,
     cs_PortBindings = [], cs_NetworkMode = [], cs_IPv4 = None \<rparr>"

record ContainerJSON =
  cj_Name :: string
  cj_Status :: string
  cj_Networks :: "string gomap"

record NetworkSpec =
  ns_Name :: string
  ns_Scope :: string
  ns_Driver :: string
  ns_Options :: "string gomap"
  ns_Labels :: "string gomap"
  ns_Subnet :: string
  ns_Gateway :: string

record NetworkInfo =
  ni_ID :: string
  ni_Name :: string
  ni_IPAM :: "(string \<times> string) list"

text \<open>What the \<open>select\<close> after \<open>ContainerWait\<close> receives.\<close>

datatype wait_outcome = WaitDone error | WaitErr "unit result" | WaitResult "string option" int

type_synonym tar = "(string \<times> string) list"

text \<open>An archive being read: reading the next header may fail, and so may reading the content of an entry.\<close>

type_synonym tar_entry = "string \<times> string result"

record 'd docker =
  dk_Connect :: "unit result"
  dk_Ping :: "'d \<Rightarrow> unit result"
  dk_HasImage :: "string \<Rightarrow> 'd \<Rightarrow> bool"
  dk_Pull :: "string \<Rightarrow> string \<Rightarrow> 'd \<Rightarrow> 'd \<times> unit result"
  dk_ContainerCreate :: "ContainerSpec \<Rightarrow> 'd \<Rightarrow> 'd \<times> string result"
  dk_ContainerStart :: "string \<Rightarrow> 'd \<Rightarrow> 'd \<times> unit result"
  dk_ContainerStop :: "string \<Rightarrow> 'd \<Rightarrow> 'd \<times> unit result"
  dk_ContainerRemove :: "string \<Rightarrow> bool \<Rightarrow> 'd \<Rightarrow> 'd \<times> unit result"
  dk_ContainerLogs :: "string \<Rightarrow> 'd \<Rightarrow> (string \<times> string) result result"
  dk_ContainerInspect :: "string \<Rightarrow> 'd \<Rightarrow> ContainerJSON result"
  dk_IsErrNotFound :: "error \<Rightarrow> bool"
  dk_ContainerWait :: "string \<Rightarrow> 'd \<Rightarrow> 'd \<times> wait_outcome"
  dk_CopyTo :: "string \<Rightarrow> string \<Rightarrow> tar \<Rightarrow> 'd \<Rightarrow> 'd \<times> unit result"
  dk_CopyFrom :: "string \<Rightarrow> string \<Rightarrow> 'd \<Rightarrow> tar_entry result list result"
  dk_Tar :: "string \<Rightarrow> string \<Rightarrow> tar result"
  dk_VolumeInspect :: "string \<Rightarrow> 'd \<Rightarrow> string result"
  dk_VolumeCreate :: "string \<Rightarrow> string gomap \<Rightarrow> 'd \<Rightarrow> 'd \<times> string result"
  dk_VolumeRemove :: "string \<Rightarrow> 'd \<Rightarrow> 'd \<times> unit result"
  dk_NetworkCreate :: "NetworkSpec \<Rightarrow> 'd \<Rightarrow> 'd \<times> string result"
  dk_NetworkInspect :: "string \<Rightarrow> 'd \<Rightarrow> NetworkInfo result"
  dk_NetworkRemove :: "string \<Rightarrow> 'd \<Rightarrow> 'd \<times> unit result"
  dk_ExecCreate :: "string \<Rightarrow> string list \<Rightarrow> 'd \<Rightarrow> 'd \<times> string result"
  dk_ExecAttach :: "string \<Rightarrow> 'd \<Rightarrow> 'd \<times> unit result"
  dk_ExecInspect :: "string \<Rightarrow> 'd \<Rightarrow> (bool \<times> int) result"
  dk_ExecOutput :: "string \<Rightarrow> 'd \<Rightarrow> (string \<times> string) result"
  dk_Sleep :: "'d \<Rightarrow> 'd"
  dk_Done :: "'d \<Rightarrow> error option"
  dk_UnixNano :: "'d \<Rightarrow> int"
  dk_FreePort :: "'d \<Rightarrow> 'd \<times> int result"

text \<open>The client's pull: nothing to do when the image is there. A failed request and a broken response
  are wrapped alike.\<close>

definition ImagePull :: "'d docker \<Rightarrow> string \<Rightarrow> string \<Rightarrow> 'd \<Rightarrow> 'd \<times> unit result" where
  "ImagePull dk ref auth d =
     (if dk_HasImage dk ref d then (d, Inr ()) else wrapping ''failed to pull docker image'' (dk_Pull dk ref auth d))"

section \<open>State of the program\<close>

record VolumeState =
  vs_Name :: string
  vs_Size :: string

record TaskState =
  ts_Id :: string
  ts_Name :: string
  ts_Volume :: "VolumeState option"
  ts_Definition :: TaskDefinition
  ts_Status :: TaskStatus
  ts_IpAddress :: string
  ts_BuilderImageName :: string
  ts_NetworkName :: string
  ts_PortBindings :: PortMap

text \<open>A task is a pointer into the store \<open>ho_heap\<close>; the provider's map \<open>ho_TaskStates\<close> holds pointers
  too. \<open>ho_alloc\<close> is the address allocator.\<close>

record ('d, 'a) host =
  ho_docker :: 'd
  ho_heap :: "TaskState list"
  ho_Name :: string
  ho_NetworkID :: string
  ho_NetworkName :: string
  ho_NetworkCIDR :: string
  ho_NetworkGateway :: string
  ho_BuilderImageName :: string
  ho_TaskStates :: "nat gomap"
  ho_alloc :: 'a

definition on_docker :: "('d \<Rightarrow> 'd \<times> 'r result) \<Rightarrow> ('d, 'a) host \<Rightarrow> ('d, 'a) host \<times> 'r result" where
  "on_docker f h = (case f (ho_docker h) of (d, r) \<Rightarrow> (h\<lparr>ho_docker := d\<rparr>, r))"

definition GetState :: "nat \<Rightarrow> ('d, 'a) host \<Rightarrow> TaskState" where
  "GetState t h = ho_heap h ! t"

definition set_status :: "nat \<Rightarrow> TaskStatus \<Rightarrow> ('d, 'a) host \<Rightarrow> ('d, 'a) host" where
  "set_status t s h = h\<lparr>ho_heap := (ho_heap h)[t := (ho_heap h ! t)\<lparr>ts_Status := s\<rparr>]\<rparr>"

section \<open>Status\<close>

definition status_of :: "string \<Rightarrow> TaskStatus" where
  "status_of s =
     (if s = ''created'' then TASK_STOPPED else if s = ''running'' then TASK_RUNNING
      else if s = ''paused'' then TASK_PAUSED else if s = ''restarting'' then TASK_RESTARTING
      else if s = ''removing'' then TASK_STOPPED else if s = ''exited'' then TASK_STOPPED
      else if s = ''dead'' then TASK_STOPPED else TASK_STATUS_UNDEFINED)"

definition GetStatus :: "'d docker \<Rightarrow> string \<Rightarrow> 'd \<Rightarrow> TaskStatus result" where
  "GetStatus dk i d = and_then (dk_ContainerInspect dk i d) (\<lambda>j. Inr (status_of (cj_Status j)))"

partial_function (option) WaitForStatus ::
    "'d docker \<Rightarrow> string \<Rightarrow> TaskStatus \<Rightarrow> 'd \<Rightarrow> ('d \<times> unit result) option" where
  "WaitForStatus dk i desired d =
     (case dk_Done dk d of
        Some e \<Rightarrow> Some (d, Inl e)
      | None \<Rightarrow>
          (case GetStatus dk i d of
             Inl e \<Rightarrow> Some (d, Inl e)
           | Inr s \<Rightarrow> if s = desired then Some (d, Inr ()) else WaitForStatus dk i desired (dk_Sleep dk d)))"

text \<open>Starting or stopping: the call, the wait, then the status in the shared state.\<close>

definition change_status ::
    "'d docker \<Rightarrow> (string \<Rightarrow> 'd \<Rightarrow> 'd \<times> unit result) \<Rightarrow> TaskStatus \<Rightarrow> nat \<Rightarrow> ('d, 'a) host \<Rightarrow>
     (('d, 'a) host \<times> unit result) option" where
  "change_status dk call s t h =
     (case on_docker (call (ts_Id (GetState t h))) h of
        (h, Inl e) \<Rightarrow> Some (h, Inl e)
      | (h, Inr _) \<Rightarrow>
          Option.bind (WaitForStatus dk (ts_Id (GetState t h)) s (ho_docker h)) (\<lambda>(d, r).
            Some (case r of
                    Inl e \<Rightarrow> (h\<lparr>ho_docker := d\<rparr>, Inl e)
                  | Inr _ \<Rightarrow> (set_status t s (h\<lparr>ho_docker := d\<rparr>), Inr ()))))"

definition Task_Start :: "'d docker \<Rightarrow> nat \<Rightarrow> ('d, 'a) host \<Rightarrow> (('d, 'a) host \<times> unit result) option" where
  "Task_Start dk t h = change_status dk (dk_ContainerStart dk) TASK_RUNNING t h"

definition Task_Stop :: "'d docker \<Rightarrow> nat \<Rightarrow> ('d, 'a) host \<Rightarrow> (('d, 'a) host \<times> unit result) option" where
  "Task_Stop dk t h = change_status dk (dk_ContainerStop dk) TASK_STOPPED t h"

definition removeTask :: "string \<Rightarrow> ('d, 'a) host \<Rightarrow> ('d, 'a) host" where
  "removeTask taskID h = h\<lparr>ho_TaskStates := AList.delete taskID (ho_TaskStates h)\<rparr>"

definition Task_Destroy :: "'d docker \<Rightarrow> nat \<Rightarrow> ('d, 'a) host \<Rightarrow> ('d, 'a) host \<times> unit result" where
  "Task_Destroy dk t h =
     andThen (on_docker (dk_ContainerRemove dk (ts_Id (GetState t h)) True) h) (\<lambda>h _.
       (removeTask (ts_Id (GetState t h)) h, Inr ()))"

text \<open>Reading the logs, then splitting the stream, may each fail.\<close>

definition Task_Logs :: "'d docker \<Rightarrow> nat \<Rightarrow> ('d, 'a) host \<Rightarrow> string result" where
  "Task_Logs dk t h =
     and_then (dk_ContainerLogs dk (ts_Id (GetState t h)) (ho_docker h)) (\<lambda>copied.
     and_then copied (\<lambda>(stdout, stderr). Inr (stdout @ stderr)))"

definition GetDefinition :: "nat \<Rightarrow> ('d, 'a) host \<Rightarrow> TaskDefinition" where
  "GetDefinition t h = ts_Definition (GetState t h)"

section \<open>Addresses\<close>

definition GetExternalAddress :: "string \<Rightarrow> TaskState \<Rightarrow> string result" where
  "GetExternalAddress port state =
     (case mget (ts_PortBindings state) (port @ ''/tcp'') of
        Some (b # _) \<Rightarrow> Inr (''0.0.0.0:'' @ pb_HostPort b)
      | _ \<Rightarrow> Inl (New (''port '' @ port @ '' not found'')))"

definition GetIP :: "'d docker \<Rightarrow> TaskState \<Rightarrow> 'd \<Rightarrow> string result" where
  "GetIP dk state d =
     and_then (dk_ContainerInspect dk (ts_Id state) d) (\<lambda>j.
       case mget (cj_Networks j) (ts_NetworkName state) of
         None \<Rightarrow> Inl (Panic ''nil pointer dereference'')
       | Some ip \<Rightarrow> Inr ip)"

definition GetPrivateIP :: "'d docker \<Rightarrow> TaskState \<Rightarrow> 'd \<Rightarrow> string result" where
  "GetPrivateIP dk state d = GetIP dk state d"

section \<open>Commands\<close>

text \<open>The loop that waits for a command to finish.\<close>

partial_function (option) exec_wait :: "'d docker \<Rightarrow> string \<Rightarrow> 'd \<Rightarrow> ('d \<times> int result) option" where
  "exec_wait dk x d =
     (case dk_Done dk d of
        Some e \<Rightarrow> Some (d, Inl e)
      | None \<Rightarrow>
          (case dk_ExecInspect dk x d of
             Inl e \<Rightarrow> Some (d, Inl e)
           | Inr (running, code) \<Rightarrow> if running then exec_wait dk x (dk_Sleep dk d) else Some (d, Inr code)))"

definition runCommand ::
    "'d docker \<Rightarrow> string \<Rightarrow> string list \<Rightarrow> 'd \<Rightarrow> ('d \<times> (string \<times> string \<times> int) result) option" where
  "runCommand dk i cmd d =
     (case dk_ExecCreate dk i cmd d of
        (d, Inl e) \<Rightarrow> Some (d, Inl e)
      | (d, Inr x) \<Rightarrow>
          (case dk_ExecAttach dk x d of
             (d, Inl e) \<Rightarrow> Some (d, Inl e)
           | (d, Inr _) \<Rightarrow>
               Option.bind (exec_wait dk x (dk_Sleep dk d)) (\<lambda>(d, r).
                 Some (d, and_then r (\<lambda>code. and_then (dk_ExecOutput dk x d) (\<lambda>(out, err). Inr (out, err, code)))))))"

definition envs :: "string gomap \<Rightarrow> string list" where
  "envs env = map (\<lambda>(k, v). k @ ''='' @ v) env"

text \<open>The container a command runs in while the task is stopped: the task's image and volume, asleep.\<close>

definition exec_definition :: "int \<Rightarrow> TaskState \<Rightarrow> TaskDefinition" where
  "exec_definition now state =
     (ts_Definition state)\<lparr>td_Entrypoint := [''/bin/sh'', ''-c''], td_Command := [''sleep 36000''],
       td_Name := ts_Name state @ ''-exec-'' @ Itoa ((now div 1000000000) mod 3000), td_Ports := []\<rparr>"

definition exec_spec :: "TaskState \<Rightarrow> TaskDefinition \<Rightarrow> ContainerSpec" where
  "exec_spec state def = empty_spec\<lparr>cs_Name := td_Name def, cs_Image := img_Image (td_Image def),
     cs_Entrypoint := td_Entrypoint def, cs_Cmd := td_Command def, cs_Hostname := td_Name def,
     cs_Env := envs (td_Environment def),
     cs_Mounts := (case ts_Volume state of None \<Rightarrow> [] | Some v \<Rightarrow> [(vs_Name v, td_DataDir def)]),
     cs_NetworkMode := ts_NetworkName state\<rparr>"

definition temp_state :: "string \<Rightarrow> TaskState \<Rightarrow> TaskDefinition \<Rightarrow> TaskState" where
  "temp_state i state def = \<lparr> ts_Id = i, ts_Name = td_Name def, ts_Volume = None, ts_Definition = def,
     ts_Status = TASK_STOPPED, ts_IpAddress = [], ts_BuilderImageName = [], ts_NetworkName = ts_NetworkName state,
     ts_PortBindings = [] \<rparr>"

text \<open>\<open>RunCommand\<close> with \<open>runCommandWhileStopped\<close>, which call each other. The deferred removal of the
  temporary task only logs its error.\<close>

partial_function (option) RunCommand ::
    "'d docker \<Rightarrow> string list \<Rightarrow> nat \<Rightarrow> ('d, 'a) host \<Rightarrow> (('d, 'a) host \<times> (string \<times> string \<times> int) result) option" where
  "RunCommand dk cmd t h =
     (let state = GetState t h
      in case GetStatus dk (ts_Id state) (ho_docker h) of
           Inl e \<Rightarrow> Some (h, Inl e)
         | Inr status \<Rightarrow>
             if status = TASK_RUNNING then
               Option.bind (runCommand dk (ts_Id state) cmd (ho_docker h)) (\<lambda>(d, r). Some (h\<lparr>ho_docker := d\<rparr>, r))
             else
               (case TaskDefinition_ValidateBasic (ts_Definition state) of
                  Inl e \<Rightarrow> Some (h, Inl (Wrap ''failed to validate task definition'' e))
                | Inr _ \<Rightarrow>
                    let h = h\<lparr>ho_docker := dk_Sleep dk (ho_docker h)\<rparr>
                    in (case GetStatus dk (ts_Id state) (ho_docker h) of
                       Inl e \<Rightarrow> Some (h, Inl e)
                     | Inr status2 \<Rightarrow>
                         if status2 = TASK_RUNNING then RunCommand dk cmd t h
                         else
                           let def = exec_definition (dk_UnixNano dk (ho_docker h)) state
                           in (case on_docker (dk_ContainerCreate dk (exec_spec state def)) h of
                                 (h, Inl e) \<Rightarrow> Some (h, Inl e)
                               | (h, Inr i) \<Rightarrow>
                                   let temp = length (ho_heap h)
                                   in Option.bind (Task_Start dk temp (h\<lparr>ho_heap := ho_heap h @ [temp_state i state def]\<rparr>)) (\<lambda>(h, r).
                                        case r of
                                          Inl e \<Rightarrow> Some (h, Inl e)
                                        | Inr _ \<Rightarrow>
                                            Option.bind (RunCommand dk cmd temp h) (\<lambda>(h, out).
                                              Some (fst (Task_Destroy dk temp h), out)))))))"

section \<open>Volumes\<close>

definition providerLabelName :: string where "providerLabelName = ''petri-provider''"

definition mountPath :: string where "mountPath = ''/mnt/dockervolume''"

definition CreateVolume :: "'d docker \<Rightarrow> string \<Rightarrow> VolumeDefinition \<Rightarrow> 'd \<Rightarrow> 'd \<times> string result" where
  "CreateVolume dk providerName def d =
     (case VolumeDefinition_ValidateBasic def of
        Inl e \<Rightarrow> (d, Inl (Wrap ''failed to validate volume definition'' e))
      | Inr _ \<Rightarrow>
          (case dk_VolumeInspect dk (vd_Name def) d of
             Inr existing \<Rightarrow> (d, Inr existing)
           | Inl _ \<Rightarrow> dk_VolumeCreate dk (vd_Name def) [(providerLabelName, providerName)] d))"

definition DestroyVolume :: "'d docker \<Rightarrow> string \<Rightarrow> 'd \<Rightarrow> 'd \<times> unit result" where
  "DestroyVolume dk i d = dk_VolumeRemove dk i d"

text \<open>The deferred removal of a helper container: nothing to do when it is already gone, and an error of
  the removal is only logged.\<close>

definition remove_helper :: "'d docker \<Rightarrow> string \<Rightarrow> 'd \<Rightarrow> 'd" where
  "remove_helper dk cid d =
     (case dk_ContainerInspect dk cid d of
        Inl e \<Rightarrow> if dk_IsErrNotFound dk e then d else fst (dk_ContainerRemove dk cid False d)
      | Inr _ \<Rightarrow> fst (dk_ContainerRemove dk cid False d))"

text \<open>Starting a helper container and waiting for it: the flag tells whether it ran to its end, and so
  removed itself.\<close>

definition run_helper ::
    "'d docker \<Rightarrow> string \<Rightarrow> string \<Rightarrow> string \<Rightarrow> string \<Rightarrow> 'd \<Rightarrow> 'd \<times> bool \<times> unit result" where
  "run_helper dk startMsg waitMsg exitMsg cid d =
     (case dk_ContainerStart dk cid d of
        (d, Inl e) \<Rightarrow> (d, False, Inl (Wrap startMsg e))
      | (d, Inr _) \<Rightarrow>
          (case dk_ContainerWait dk cid d of
             (d, WaitDone e) \<Rightarrow> (d, False, Inl e)
           | (d, WaitErr r) \<Rightarrow> (d, False, r)
           | (d, WaitResult (Some msg) code) \<Rightarrow> (d, True, Inl (New (waitMsg @ '': '' @ msg)))
           | (d, WaitResult None code) \<Rightarrow>
               (d, True, if code \<noteq> 0 then Inl (New (exitMsg @ '' exited '' @ Itoa code)) else Inr ())))"

text \<open>A helper container around a body: pull the builder image, create, run the body, remove.\<close>

definition with_helper ::
    "'d docker \<Rightarrow> string \<Rightarrow> ContainerSpec \<Rightarrow> (string \<Rightarrow> 'd \<Rightarrow> 'd \<times> bool \<times> 'r result) \<Rightarrow> 'd \<Rightarrow> 'd \<times> 'r result" where
  "with_helper dk builder spec body d =
     andThen (ImagePull dk builder [] d) (\<lambda>d _.
     andThen (wrapping ''creating container'' (dk_ContainerCreate dk spec d)) (\<lambda>d cid.
       case body cid d of (d, autoRemoved, r) \<Rightarrow> (if autoRemoved then d else remove_helper dk cid d, r)))"

definition writefile_spec :: "int \<Rightarrow> string \<Rightarrow> string \<Rightarrow> ContainerSpec" where
  "writefile_spec now builder volumeName = empty_spec\<lparr>cs_Name := ''petri-writefile-'' @ Itoa now, cs_Image := builder,
     cs_Entrypoint := [''sh'', ''-c''],
     cs_Cmd := [''chown -R '' @ [CHR 0x22] @ ''$(stat -c '' @ [CHR 0x27] @ ''%u:%g'' @ [CHR 0x27] @ '' '' @ [CHR 0x22] @ ''$1'' @
                [CHR 0x22] @ '')'' @ [CHR 0x22] @ '' '' @ [CHR 0x22] @ ''$2'' @ [CHR 0x22], ''_'', mountPath, mountPath],
     cs_User := ''0:0'', cs_Binds := [volumeName @ '':'' @ mountPath], cs_AutoRemove := True\<rparr>"

definition no_volume :: "TaskState \<Rightarrow> error" where
  "no_volume state = New (''no volumes found for container '' @ ts_Id state)"

text \<open>\<open>WriteTar\<close> and \<open>WriteFile\<close> differ in where the archive comes from: \<open>archive\<close>.\<close>

definition write_archive :: "'d docker \<Rightarrow> tar result \<Rightarrow> TaskState \<Rightarrow> 'd \<Rightarrow> 'd \<times> unit result" where
  "write_archive dk archive state d =
     (case ts_Volume state of
        None \<Rightarrow> (d, Inl (no_volume state))
      | Some v \<Rightarrow>
          with_helper dk (ts_BuilderImageName state)
            (writefile_spec (dk_UnixNano dk d) (ts_BuilderImageName state) (vs_Name v))
            (\<lambda>cid d.
               case archive of
                 Inl e \<Rightarrow> (d, False, Inl e)
               | Inr tar \<Rightarrow>
                   (case dk_CopyTo dk cid mountPath tar d of
                      (d, Inl e) \<Rightarrow> (d, False, Inl (Wrap ''copying tar to container'' e))
                    | (d, Inr _) \<Rightarrow>
                        run_helper dk ''starting write-file container'' ''waiting for write-file container''
                          ''chown on new file'' cid d)) d)"

definition WriteTar :: "'d docker \<Rightarrow> tar result \<Rightarrow> TaskState \<Rightarrow> 'd \<Rightarrow> 'd \<times> unit result" where
  "WriteTar dk file state d = write_archive dk (wrap_err ''opening file'' file) state d"

definition Task_WriteFile :: "'d docker \<Rightarrow> string \<Rightarrow> string \<Rightarrow> TaskState \<Rightarrow> 'd \<Rightarrow> 'd \<times> unit result" where
  "Task_WriteFile dk relPath content state d = write_archive dk (dk_Tar dk relPath content) state d"

fun read_tar :: "string \<Rightarrow> string \<Rightarrow> tar_entry result list \<Rightarrow> string result" where
  "read_tar relPath want [] = Inl (New (''path '' @ [CHR 0x22] @ relPath @ [CHR 0x22] @ '' not found in tar from container''))"
| "read_tar relPath want (Inl e # hs) = Inl (Wrap ''reading tar from container'' e)"
| "read_tar relPath want (Inr (name, content) # hs) = (if name \<noteq> want then read_tar relPath want hs else content)"

definition getfile_spec :: "string \<Rightarrow> bool \<Rightarrow> int \<Rightarrow> string \<Rightarrow> string \<Rightarrow> ContainerSpec" where
  "getfile_spec kind auto now builder volumeName = empty_spec\<lparr>cs_Name := ''petri-'' @ kind @ ''-'' @ Itoa now,
     cs_Image := builder, cs_User := ''0'', cs_Binds := [volumeName @ '':'' @ mountPath], cs_AutoRemove := auto\<rparr>"

definition Task_ReadFile :: "'d docker \<Rightarrow> string \<Rightarrow> TaskState \<Rightarrow> 'd \<Rightarrow> 'd \<times> string result" where
  "Task_ReadFile dk relPath state d =
     (case ts_Volume state of
        None \<Rightarrow> (d, Inl (no_volume state))
      | Some v \<Rightarrow>
          with_helper dk (ts_BuilderImageName state)
            (getfile_spec ''getfile'' False (dk_UnixNano dk d) (ts_BuilderImageName state) (vs_Name v))
            (\<lambda>cid d. (d, False,
               and_then (wrap_err ''copying from container'' (dk_CopyFrom dk cid (path_Join mountPath relPath) d)) (\<lambda>entries.
                 read_tar relPath (path_Base relPath) entries))) d)"

text \<open>The files \<open>DownloadDir\<close> writes below \<open>localPath\<close>, up to the first error; \<open>mkdir\<close> and \<open>wr\<close> are the
  local file system.\<close>

fun extract_tar :: "(string \<Rightarrow> error option) \<Rightarrow> string \<Rightarrow> tar_entry result list \<Rightarrow> string gomap \<times> unit result" where
  "extract_tar wr localPath [] = ([], Inr ())"
| "extract_tar wr localPath (Inl e # hs) = ([], Inl e)"
| "extract_tar wr localPath (Inr (name, Inl e) # hs) = ([], Inl e)"
| "extract_tar wr localPath (Inr (name, Inr content) # hs) =
     (let file = path_Join localPath (path_Base name)
      in if path_Base name = [] then extract_tar wr localPath hs
         else case wr file of
                Some e \<Rightarrow> ([], Inl e)
              | None \<Rightarrow> (case extract_tar wr localPath hs of (fs, r) \<Rightarrow> ((file, content) # fs, r)))"

definition DownloadDir ::
    "'d docker \<Rightarrow> error option \<Rightarrow> (string \<Rightarrow> error option) \<Rightarrow> string \<Rightarrow> string \<Rightarrow> TaskState \<Rightarrow> 'd \<Rightarrow>
     'd \<times> (string gomap \<times> unit result) result" where
  "DownloadDir dk mkdir wr relPath localPath state d =
     (case ts_Volume state of
        None \<Rightarrow> (d, Inl (no_volume state))
      | Some v \<Rightarrow>
          with_helper dk (ts_BuilderImageName state)
            (getfile_spec ''getdir'' True (dk_UnixNano dk d) (ts_BuilderImageName state) (vs_Name v))
            (\<lambda>cid d. (d, False,
               and_then (dk_CopyFrom dk cid (path_Join mountPath relPath) d) (\<lambda>entries.
                 case mkdir of Some e \<Rightarrow> Inl e | None \<Rightarrow> Inr (extract_tar wr localPath entries)))) d)"

definition setowner_spec :: "int \<Rightarrow> string \<Rightarrow> string \<Rightarrow> string \<Rightarrow> string \<Rightarrow> string \<Rightarrow> ContainerSpec" where
  "setowner_spec now builder providerName volumeName uid gid = empty_spec\<lparr>cs_Name := ''petri-setowner-'' @ Itoa now,
     cs_Image := builder, cs_Entrypoint := [''sh'', ''-c''],
     cs_Cmd := [''chown '' @ [CHR 0x22] @ ''$2:$3'' @ [CHR 0x22] @ '' '' @ [CHR 0x22] @ ''$1'' @ [CHR 0x22] @ '' && chmod 0700 '' @
                [CHR 0x22] @ ''$1'' @ [CHR 0x22], ''_'', mountPath, uid, gid],
     cs_Labels := [(providerLabelName, providerName)], cs_User := ''0'',
     cs_Binds := [volumeName @ '':'' @ mountPath], cs_AutoRemove := True\<rparr>"

definition SetVolumeOwner ::
    "'d docker \<Rightarrow> string \<Rightarrow> string \<Rightarrow> string \<Rightarrow> string \<Rightarrow> string \<Rightarrow> 'd \<Rightarrow> 'd \<times> unit result" where
  "SetVolumeOwner dk builder providerName volumeName uid gid d =
     with_helper dk builder (setowner_spec (dk_UnixNano dk d) builder providerName volumeName uid gid)
       (run_helper dk ''starting volume-owner container'' ''waiting for volume-owner container'' ''configuring volume'') d"

end
