(* ===== verification/Load_Test.thy ===== *)
theory Load_Test
  imports Messages Util Docker_Task
begin

text \<open>
  The load test activity, \<open>activities/loadtest/loadtest.go\<close>: the load generator's configuration, its task,
  the wait for its result, and the state returned on every path. The restored provider and chain are
  parameters: their calls that change something are recorded in order, and what each answers may depend on
  the calls made so far; an error of \<open>Destroy\<close> is only logged, so it is no answer. The loop reads a list of the turns of its \<open>select\<close>; when the list ends it is still waiting.
\<close>

section \<open>Interfaces\<close>

datatype lt_call = LtCreateTask TaskDefinition | LtWriteFile string string | LtStart | LtDestroy

record lt_env =
  te_CreateTask :: "lt_call list \<Rightarrow> unit result"
  te_WriteFile :: "lt_call list \<Rightarrow> unit result"
  te_Start :: "lt_call list \<Rightarrow> unit result"
  te_ReadFile :: "string \<Rightarrow> lt_call list \<Rightarrow> string result"
  te_Logs :: "(lt_call list \<Rightarrow> string result) option"
  te_SerializeProvider :: "lt_call list \<Rightarrow> string result"

record lt_chain =
  tc_ChainId :: string
  tc_Denom :: string
  tc_Bech32Prefix :: string
  tc_NodeIPs :: "string result list"
  tc_ValidatorIPs :: "string result list"
  tc_Serialize :: "lt_call list \<Rightarrow> string result"

text \<open>Packages of other repositories: gzip, the load generator's types, YAML and JSON. \<open>tl_eth\<close> gives the fields of
  a chain configuration that is one for Ethereum.\<close>

record 'r lt_libs =
  tl_gzip :: gzip
  tl_eth :: "gval \<Rightarrow> gval gomap option"
  tl_Validate :: "LoadTestSpec \<Rightarrow> unit result"
  tl_Marshal :: "LoadTestSpec \<Rightarrow> string result"
  tl_yaml_Unmarshal :: "string \<Rightarrow> gval gomap result"
  tl_yaml_Marshal :: "gval gomap \<Rightarrow> string result"
  tl_json_Unmarshal :: "string \<Rightarrow> 'r result"

record 'r RunLoadTestResponse =
  rr_ProviderState :: string
  rr_ChainState :: string
  rr_Result :: "'r option"
  rr_TaskLogs :: string
  rr_LoadTestConfig :: string
  rr_StoppedReason :: string

definition empty_load_response :: "'r RunLoadTestResponse" where
  "empty_load_response = \<lparr> rr_ProviderState = [], rr_ChainState = [], rr_Result = None, rr_TaskLogs = [], rr_LoadTestConfig = [],
     rr_StoppedReason = [] \<rparr>"

section \<open>Logs and configuration\<close>

definition maxLoadTestTaskLogBytes :: int where "maxLoadTestTaskLogBytes = 256 * 1024"

definition truncation_marker :: string where
  "truncation_marker = ''[truncated task logs; showing tail]'' @ [CHR 0x0A]"

definition truncateTaskLogs :: "string \<Rightarrow> int \<Rightarrow> string" where
  "truncateTaskLogs logs maxBytes =
     (if maxBytes \<le> 0 \<or> int (length logs) \<le> maxBytes then logs
      else if maxBytes \<le> int (length truncation_marker) then take (nat maxBytes) truncation_marker
      else let keepBytes = maxBytes - int (length truncation_marker)
           in truncation_marker @ drop (nat (int (length logs) - keepBytes)) logs)"

definition readTaskLogs :: "lt_env \<Rightarrow> lt_call list \<Rightarrow> string" where
  "readTaskLogs te calls =
     (case te_Logs te of
        None \<Rightarrow> []
      | Some logs \<Rightarrow> (case logs calls of Inl _ \<Rightarrow> [] | Inr l \<Rightarrow> truncateTaskLogs l maxLoadTestTaskLogBytes))"

definition redactLoadTestConfig :: "'r lt_libs \<Rightarrow> string \<Rightarrow> string result" where
  "redactLoadTestConfig libs configBytes =
     and_then (tl_yaml_Unmarshal libs configBytes) (\<lambda>cfg.
       tl_yaml_Marshal libs
         (if mget cfg ''base_mnemonic'' \<noteq> None then mput ''base_mnemonic'' (VStr ''[REDACTED]'') cfg else cfg))"

definition StoppedByConditionError_Error :: "string \<Rightarrow> string" where
  "StoppedByConditionError_Error reason =
     (if reason = [] then ''load test stopped by condition'' else ''load test stopped by condition: '' @ reason)"

section \<open>The specification\<close>

definition load_nodes :: "lt_chain \<Rightarrow> string list result" where
  "load_nodes c = and_then (each (\<lambda>r. r) (tc_NodeIPs c)) (\<lambda>nodes. if nodes = [] then each (\<lambda>r. r) (tc_ValidatorIPs c) else Inr nodes)"

definition eth_addresses :: "string list \<Rightarrow> gval" where
  "eth_addresses nodes = VList (map (\<lambda>ip. VMap [(''RPC'', VStr (''http://'' @ ip @ '':8545'')), (''Websocket'', VStr (''ws://'' @ ip @ '':8546''))]) nodes)"

definition cosmos_addresses :: "string list \<Rightarrow> gval" where
  "cosmos_addresses nodes = VList (map (\<lambda>ip. VMap [(''GRPC'', VStr (ip @ '':9090'')), (''RPC'', VStr (''http://'' @ ip @ '':26657''))]) nodes)"

definition load_chain_config :: "'r lt_libs \<Rightarrow> lt_chain \<Rightarrow> LoadTestSpec \<Rightarrow> string list \<Rightarrow> gval result" where
  "load_chain_config libs c spec nodes =
     (if lts_Kind spec = ''eth'' then
        let cfg = (case Option.bind (mget (lts_Fields spec) ''ChainCfg'') (tl_eth libs) of None \<Rightarrow> [] | Some m \<Rightarrow> m)
        in Inr (VMap (mput ''NodesAddresses'' (eth_addresses nodes) cfg))
      else if lts_Kind spec = ''cosmos'' then
        Inr (VMap [(''GasDenom'', VStr (tc_Denom c)), (''Bech32Prefix'', VStr (tc_Bech32Prefix c)),
                   (''NodesAddresses'', cosmos_addresses nodes)])
      else Inl (New (''unknown load test spec kind: '' @ lts_Kind spec)))"

definition generateLoadTestSpec :: "'r lt_libs \<Rightarrow> lt_chain \<Rightarrow> string \<Rightarrow> LoadTestSpec \<Rightarrow> string \<Rightarrow> int \<Rightarrow> string result" where
  "generateLoadTestSpec libs c chainID spec baseMnemonic numWallets =
     and_then (load_nodes c) (\<lambda>nodes.
     and_then (load_chain_config libs c spec nodes) (\<lambda>cfg.
       let f = mput ''BaseMnemonic'' (VStr baseMnemonic) (mput ''ChainID'' (VStr chainID) (mput ''ChainCfg'' cfg (lts_Fields spec)));
           f = (if mget f ''NumWallets'' = None \<or> mget f ''NumWallets'' = Some (VInt 0) then mput ''NumWallets'' (VInt numWallets) f else f);
           spec = spec\<lparr>lts_Fields := f\<rparr>
       in and_then (wrap_err ''failed to validate custom load test config'' (tl_Validate libs spec)) (\<lambda>_. tl_Marshal libs spec)))"

section \<open>Ending\<close>

definition also_failed :: "error \<Rightarrow> string \<Rightarrow> error \<Rightarrow> error" where
  "also_failed e msg e' = New (Error_str e @ ''; also failed to '' @ msg @ '': '' @ Error_str e')"

definition handleLoadTestError ::
    "'r lt_libs \<Rightarrow> lt_env \<Rightarrow> lt_chain option \<Rightarrow> bool \<Rightarrow> string \<Rightarrow> error \<Rightarrow> string \<Rightarrow> lt_call list \<Rightarrow>
     lt_call list \<times> 'r RunLoadTestResponse \<times> error option" where
  "handleLoadTestError libs te chain hasTask loadTestConfig originalErr errMsg calls =
     (let res = empty_load_response\<lparr>rr_LoadTestConfig := loadTestConfig, rr_TaskLogs := (if hasTask then readTaskLogs te calls else [])\<rparr>;
          wrapped = Wrap errMsg originalErr
      in case te_SerializeProvider te calls of
           Inl e \<Rightarrow> (calls, res, Some (also_failed wrapped ''serialize provider'' e))
         | Inr st \<Rightarrow>
             (case CompressData (tl_gzip libs) st of
                Inl e \<Rightarrow> (calls, res, Some (also_failed wrapped ''compress provider state'' e))
              | Inr z \<Rightarrow>
                  let res = res\<lparr>rr_ProviderState := z\<rparr>
                  in (case chain of
                        None \<Rightarrow> (calls, res, Some wrapped)
                      | Some c \<Rightarrow>
                          (case tc_Serialize c calls of
                             Inl e \<Rightarrow> (calls, res, Some (also_failed wrapped ''serialize chain'' e))
                           | Inr cs \<Rightarrow>
                               (case CompressData (tl_gzip libs) cs of
                                  Inl e \<Rightarrow> (calls, res, Some (also_failed wrapped ''compress chain state'' e))
                                | Inr cz \<Rightarrow> (calls, res\<lparr>rr_ChainState := cz\<rparr>, Some wrapped))))))"

text \<open>Destroying the task and packing the state, as a finished and a stopped load test both do: \<open>what\<close> words the
  errors, \<open>res\<close> is the response without states, \<open>err\<close> the error when all goes well.\<close>

definition pack_states ::
    "'r lt_libs \<Rightarrow> lt_env \<Rightarrow> lt_chain \<Rightarrow> string \<Rightarrow> 'r RunLoadTestResponse \<Rightarrow> string \<Rightarrow> error option \<Rightarrow> lt_call list \<Rightarrow>
     lt_call list \<times> 'r RunLoadTestResponse \<times> error option" where
  "pack_states libs te c what res reason err calls =
     (case te_SerializeProvider te calls of
        Inl e \<Rightarrow> (calls, res, Some (Wrap (what @ '', but failed to serialize provider'') e))
      | Inr st \<Rightarrow>
          (case CompressData (tl_gzip libs) st of
             Inl e \<Rightarrow> (calls, res, Some (Wrap (what @ '', but failed to compress provider state'') e))
           | Inr z \<Rightarrow>
               (case tc_Serialize c calls of
                  Inl e \<Rightarrow> (calls, res\<lparr>rr_ProviderState := z\<rparr>, Some (Wrap (what @ '', but failed to serialize chain'') e))
                | Inr cs \<Rightarrow>
                    (case CompressData (tl_gzip libs) cs of
                       Inl e \<Rightarrow> (calls, res\<lparr>rr_ProviderState := z\<rparr>, Some (Wrap (what @ '', but failed to compress chain state'') e))
                     | Inr cz \<Rightarrow> (calls, res\<lparr>rr_ProviderState := z, rr_ChainState := cz, rr_StoppedReason := reason\<rparr>, err)))))"

definition stopLoadTestByCondition ::
    "'r lt_libs \<Rightarrow> lt_env \<Rightarrow> lt_chain \<Rightarrow> string \<Rightarrow> string \<Rightarrow> lt_call list \<Rightarrow> lt_call list \<times> 'r RunLoadTestResponse \<times> error option" where
  "stopLoadTestByCondition libs te c loadTestConfig reason calls =
     pack_states libs te c ''load test stopped by condition''
       (empty_load_response\<lparr>rr_TaskLogs := readTaskLogs te calls, rr_LoadTestConfig := loadTestConfig\<rparr>)
       reason (Some (New (StoppedByConditionError_Error reason))) (calls @ [LtDestroy])"

definition finishLoadTest ::
    "'r lt_libs \<Rightarrow> lt_env \<Rightarrow> lt_chain \<Rightarrow> string \<Rightarrow> lt_call list \<Rightarrow> lt_call list \<times> 'r RunLoadTestResponse \<times> error option" where
  "finishLoadTest libs te c loadTestConfig calls =
     (case te_ReadFile te ''load_test.json'' calls of
        Inl e \<Rightarrow> handleLoadTestError libs te (Some c) True loadTestConfig e ''failed to read result file'' calls
      | Inr bytes \<Rightarrow>
          (case tl_json_Unmarshal libs bytes of
             Inl e \<Rightarrow> handleLoadTestError libs te (Some c) True loadTestConfig e ''failed to parse result file'' calls
           | Inr result \<Rightarrow>
               pack_states libs te c ''load test succeeded''
                 (empty_load_response\<lparr>rr_Result := Some result, rr_TaskLogs := readTaskLogs te calls, rr_LoadTestConfig := loadTestConfig\<rparr>)
                 [] None (calls @ [LtDestroy])))"

section \<open>The activity\<close>

text \<open>A turn of the loop: the context is done, or the ticker fires, with what the stop condition says, if there is
  one, and the status of the task.\<close>

datatype lt_turn = LtDone error | LtTick "(bool \<times> string) option" "TaskStatus result"

fun load_loop ::
    "'r lt_libs \<Rightarrow> lt_env \<Rightarrow> lt_chain \<Rightarrow> string \<Rightarrow> lt_call list \<Rightarrow> lt_turn list \<Rightarrow>
     (lt_call list \<times> 'r RunLoadTestResponse \<times> error option) option" where
  "load_loop libs te c cfg calls [] = None"
| "load_loop libs te c cfg calls (LtDone e # turns) =
     Some (handleLoadTestError libs te (Some c) True cfg e ''context cancelled'' calls)"
| "load_loop libs te c cfg calls (LtTick stop status # turns) =
     (case stop of
        Some (True, reason) \<Rightarrow> Some (stopLoadTestByCondition libs te c cfg reason calls)
      | _ \<Rightarrow> (case status of
                Inr TASK_STOPPED \<Rightarrow> Some (finishLoadTest libs te c cfg calls)
              | _ \<Rightarrow> load_loop libs te c cfg calls turns))"

definition catalyst_task :: "string \<Rightarrow> TaskDefinition" where
  "catalyst_task version = \<lparr> td_Name = ''catalyst'',
     td_Image = \<lparr> img_Image = ''ghcr.io/skip-mev/catalyst'' @ (if version \<noteq> [] then '':'' @ version else []), img_UID = ''100'', img_GID = ''100'' \<rparr>,
     td_Ports = [], td_Environment = [(''DEV_LOGGING'', ''true'')], td_DataDir = ''/tmp/catalyst'', td_Entrypoint = [],
     td_Command = [''/tmp/catalyst/loadtest.yml''], td_Args = [], td_ProviderSpecificConfig = Some DigitalOceanDefaultOpts \<rparr>"

definition run_catalyst ::
    "'r lt_libs \<Rightarrow> lt_env \<Rightarrow> lt_chain \<Rightarrow> RunLoadTestRequest \<Rightarrow> string \<Rightarrow> string \<Rightarrow> lt_turn list \<Rightarrow>
     (lt_call list \<times> 'r RunLoadTestResponse \<times> error option) option" where
  "run_catalyst libs te c req configBytes cfg turns =
     (let calls = [LtCreateTask (catalyst_task (rl_CatalystVersion req))]
      in case te_CreateTask te calls of
           Inl e \<Rightarrow> Some (handleLoadTestError libs te (Some c) False cfg e ''failed to create task'' calls)
         | Inr _ \<Rightarrow>
             let calls = calls @ [LtWriteFile ''loadtest.yml'' configBytes]
             in (case te_WriteFile te calls of
                   Inl e \<Rightarrow> Some (handleLoadTestError libs te (Some c) True cfg e ''failed to write config file to task'' calls)
                 | Inr _ \<Rightarrow>
                     let calls = calls @ [LtStart]
                     in (case te_Start te calls of
                           Inl e \<Rightarrow> Some (handleLoadTestError libs te (Some c) True cfg e ''failed to start task'' calls)
                         | Inr _ \<Rightarrow> load_loop libs te c cfg calls turns)))"

definition RunLoadTest ::
    "'r lt_libs \<Rightarrow> (string \<Rightarrow> string \<Rightarrow> lt_env result) \<Rightarrow> (bool \<Rightarrow> string \<Rightarrow> lt_chain result) \<Rightarrow> RunLoadTestRequest \<Rightarrow> lt_turn list \<Rightarrow>
     (lt_call list \<times> 'r RunLoadTestResponse \<times> error option) option" where
  "RunLoadTest libs restoreProvider restoreChain req turns =
     (case DecompressData (tl_gzip libs) (rl_ProviderState req) of
        Inl e \<Rightarrow> Some ([], empty_load_response, Some (Wrap ''failed to decompress provider state'' e))
      | Inr st \<Rightarrow>
          (case restoreProvider (rl_RunnerType req) st of
             Inl e \<Rightarrow> Some ([], empty_load_response, Some (Wrap ''failed to restore provider'' e))
           | Inr te \<Rightarrow>
               (case DecompressData (tl_gzip libs) (rl_ChainState req) of
                  Inl e \<Rightarrow> Some ([], empty_load_response, Some (Wrap ''failed to decompress chain state'' e))
                | Inr cs \<Rightarrow>
                    (case restoreChain (rl_IsEvmChain req) cs of
                       Inl e \<Rightarrow> Some (handleLoadTestError libs te None False [] e ''failed to restore chain'' [])
                     | Inr c \<Rightarrow>
                         (case generateLoadTestSpec libs c (tc_ChainId c) (rl_LoadTestSpec req) (rl_BaseMnemonic req) (rl_NumWallets req) of
                            Inl e \<Rightarrow> Some (handleLoadTestError libs te (Some c) False [] e ''failed to generate load test config'' [])
                          | Inr configBytes \<Rightarrow>
                              let cfg = (case redactLoadTestConfig libs configBytes of
                                           Inl e \<Rightarrow> ''failed to redact load test config: '' @ Error_str e
                                         | Inr s \<Rightarrow> s)
                              in run_catalyst libs te c req configBytes cfg turns)))))"

section \<open>Lemmas\<close>

definition turn_ends :: "lt_turn \<Rightarrow> bool" where
  "turn_ends t = (case t of LtDone _ \<Rightarrow> True | LtTick stop status \<Rightarrow> (\<exists>r. stop = Some (True, r)) \<or> status = Inr TASK_STOPPED)"

lemma load_loop_cases:
  "load_loop libs te c cfg calls turns =
     (case dropWhile (\<lambda>t. \<not> turn_ends t) turns of
        [] \<Rightarrow> None
      | LtDone e # _ \<Rightarrow> Some (handleLoadTestError libs te (Some c) True cfg e ''context cancelled'' calls)
      | LtTick (Some (True, reason)) _ # _ \<Rightarrow> Some (stopLoadTestByCondition libs te c cfg reason calls)
      | LtTick _ _ # _ \<Rightarrow> Some (finishLoadTest libs te c cfg calls))"
  by (induction libs te c cfg calls turns rule: load_loop.induct)
     (auto simp: turn_ends_def split: option.splits bool.splits sum.splits TaskStatus.splits)

text \<open>The state of the provider that an outcome must carry: the one after the last call.\<close>

definition packs_provider :: "'r lt_libs \<Rightarrow> lt_env \<Rightarrow> lt_call list \<times> 'r RunLoadTestResponse \<times> error option \<Rightarrow> bool" where
  "packs_provider libs te out = (\<forall>s z. te_SerializeProvider te (fst out) = Inr s \<longrightarrow> CompressData (tl_gzip libs) s = Inr z \<longrightarrow>
     rr_ProviderState (fst (snd out)) = z)"

lemma packs_handle: "packs_provider libs te (handleLoadTestError libs te c t cfg e m calls)"
  by (auto simp: packs_provider_def handleLoadTestError_def Let_def split: sum.splits option.splits)

lemma packs_states: "packs_provider libs te (pack_states libs te c what res reason err calls)"
  by (auto simp: packs_provider_def pack_states_def split: sum.splits)

lemma handle_ends [simp]:
  "fst (handleLoadTestError libs te c t cfg e m calls) = calls"
  "snd (snd (handleLoadTestError libs te c t cfg e m calls)) \<noteq> None"
  "rr_Result (fst (snd (handleLoadTestError libs te c t cfg e m calls))) = None"
  "rr_LoadTestConfig (fst (snd (handleLoadTestError libs te c t cfg e m calls))) = cfg"
  "rr_TaskLogs (fst (snd (handleLoadTestError libs te c t cfg e m calls))) = (if t then readTaskLogs te calls else [])"
  by (auto simp: handleLoadTestError_def empty_load_response_def Let_def split: sum.splits option.splits)

lemma pack_states_ends [simp]:
  "fst (pack_states libs te c what res reason err calls) = calls"
  "err \<noteq> None \<Longrightarrow> snd (snd (pack_states libs te c what res reason err calls)) \<noteq> None"
  "rr_Result (fst (snd (pack_states libs te c what res reason err calls))) = rr_Result res"
  "rr_LoadTestConfig (fst (snd (pack_states libs te c what res reason err calls))) = rr_LoadTestConfig res"
  "rr_TaskLogs (fst (snd (pack_states libs te c what res reason err calls))) = rr_TaskLogs res"
  by (auto simp: pack_states_def split: sum.splits)

lemma truncateTaskLogs_bound:
  assumes "0 < m"
  shows "int (length (truncateTaskLogs l m)) \<le> m"
  using assms by (auto simp: truncateTaskLogs_def Let_def)

lemma readTaskLogs_bound: "int (length (readTaskLogs te calls)) \<le> maxLoadTestTaskLogBytes"
  using truncateTaskLogs_bound[of maxLoadTestTaskLogBytes]
  by (auto simp: readTaskLogs_def maxLoadTestTaskLogBytes_def split: option.splits sum.splits)

definition load_calls :: "RunLoadTestRequest \<Rightarrow> string \<Rightarrow> lt_call list" where
  "load_calls req configBytes = [LtCreateTask (catalyst_task (rl_CatalystVersion req)), LtWriteFile ''loadtest.yml'' configBytes, LtStart, LtDestroy]"

definition lt_good :: "'r lt_libs \<Rightarrow> lt_env \<Rightarrow> RunLoadTestRequest \<Rightarrow> string \<Rightarrow> string \<Rightarrow> lt_call list \<times> 'r RunLoadTestResponse \<times> error option \<Rightarrow> bool" where
  "lt_good libs te req configBytes cfg out \<longleftrightarrow>
     packs_provider libs te out \<and> (\<exists>k. fst out = take k (load_calls req configBytes)) \<and>
     (snd (snd out) = None \<longrightarrow> rr_Result (fst (snd out)) \<noteq> None) \<and>
     (rr_Result (fst (snd out)) \<noteq> None \<longrightarrow> fst out = load_calls req configBytes) \<and>
     rr_LoadTestConfig (fst (snd out)) = cfg \<and> int (length (rr_TaskLogs (fst (snd out)))) \<le> maxLoadTestTaskLogBytes"

lemma good_handle:
  "calls = take k (load_calls req configBytes) \<Longrightarrow> lt_good libs te req configBytes cfg (handleLoadTestError libs te c t cfg e m calls)"
  using readTaskLogs_bound[of te calls]
  by (auto simp: lt_good_def packs_handle maxLoadTestTaskLogBytes_def)

lemma good_stop:
  assumes "calls = take 3 (load_calls req configBytes)"
  shows "lt_good libs te req configBytes cfg (stopLoadTestByCondition libs te c cfg reason calls)"
proof -
  have "calls @ [LtDestroy] = take 4 (load_calls req configBytes)" using assms by (simp add: load_calls_def)
  then show ?thesis using readTaskLogs_bound[of te calls]
    by (simp add: lt_good_def stopLoadTestByCondition_def packs_states empty_load_response_def del: not_None_eq) (rule exI[of _ 4], rule refl)
qed

lemma good_finish:
  assumes "calls = take 3 (load_calls req configBytes)"
  shows "lt_good libs te req configBytes cfg (finishLoadTest libs te c cfg calls)"
proof -
  have "calls @ [LtDestroy] = take 4 (load_calls req configBytes)" "calls @ [LtDestroy] = load_calls req configBytes"
    using assms by (simp_all add: load_calls_def)
  then have "\<And>r. lt_good libs te req configBytes cfg (pack_states libs te c ''load test succeeded''
      (empty_load_response\<lparr>rr_Result := Some r, rr_TaskLogs := readTaskLogs te calls, rr_LoadTestConfig := cfg\<rparr>) [] None (calls @ [LtDestroy]))"
    using readTaskLogs_bound[of te calls] by (auto simp: lt_good_def packs_states)
  then show ?thesis by (simp add: finishLoadTest_def good_handle[OF assms] split: sum.splits)
qed

lemma good_loop:
  assumes "calls = take 3 (load_calls req configBytes)" and "load_loop libs te c cfg calls turns = Some out"
  shows "lt_good libs te req configBytes cfg out"
  using assms(2) good_handle[OF assms(1)] good_stop[OF assms(1)] good_finish[OF assms(1)]
  by (auto simp: load_loop_cases split: list.splits lt_turn.splits option.splits prod.splits bool.splits)

lemma good_catalyst:
  assumes "run_catalyst libs te c req configBytes cfg turns = Some out"
  shows "lt_good libs te req configBytes cfg out"
proof -
  have c1: "[LtCreateTask (catalyst_task (rl_CatalystVersion req))] = take 1 (load_calls req configBytes)"
    and c2: "[LtCreateTask (catalyst_task (rl_CatalystVersion req)), LtWriteFile ''loadtest.yml'' configBytes] = take 2 (load_calls req configBytes)"
    and c3: "[LtCreateTask (catalyst_task (rl_CatalystVersion req)), LtWriteFile ''loadtest.yml'' configBytes, LtStart] = take 3 (load_calls req configBytes)"
    by (simp_all add: load_calls_def)
  show ?thesis using assms good_loop[OF c3, of libs te c cfg turns out]
    by (auto simp: run_catalyst_def Let_def good_handle[OF c1] good_handle[OF c2] good_handle[OF c3] split: sum.splits)
qed

lemma loop_returns:
  assumes "\<exists>t \<in> set turns. turn_ends t"
  shows "load_loop libs te c cfg calls turns \<noteq> None"
proof -
  obtain t ts where "dropWhile (\<lambda>t. \<not> turn_ends t) turns = t # ts"
    using assms dropWhile_eq_Nil_conv[of "\<lambda>t. \<not> turn_ends t" turns] by (cases "dropWhile (\<lambda>t. \<not> turn_ends t) turns") auto
  then show ?thesis unfolding load_loop_cases
    by (simp split: lt_turn.splits option.splits prod.splits bool.splits del: not_None_eq)
qed

lemma catalyst_returns:
  "\<exists>t \<in> set turns. turn_ends t \<Longrightarrow> run_catalyst libs te c req configBytes cfg turns \<noteq> None"
  using loop_returns[of turns libs te c cfg] by (simp add: run_catalyst_def Let_def split: sum.splits del: not_None_eq)

text \<open>The configuration a response shows.\<close>

definition shown_config :: "'r lt_libs \<Rightarrow> string \<Rightarrow> bool" where
  "shown_config libs s \<longleftrightarrow> s = [] \<or> (\<exists>e. s = ''failed to redact load test config: '' @ Error_str e) \<or>
     (\<exists>m. tl_yaml_Marshal libs m = Inr s \<and> (mget m ''base_mnemonic'' = None \<or> mget m ''base_mnemonic'' = Some (VStr ''[REDACTED]'')))"

lemma shown_redacted:
  "shown_config libs (case redactLoadTestConfig libs b of Inl e \<Rightarrow> ''failed to redact load test config: '' @ Error_str e | Inr s \<Rightarrow> s)"
proof (cases "redactLoadTestConfig libs b")
  case Inl
  then show ?thesis by (auto simp: shown_config_def)
next
  case (Inr s)
  then obtain m where "tl_yaml_Marshal libs (if mget m ''base_mnemonic'' \<noteq> None then mput ''base_mnemonic'' (VStr ''[REDACTED]'') m else m) = Inr s"
    by (auto simp: redactLoadTestConfig_def and_then_def split: sum.splits)
  then have "\<exists>m. tl_yaml_Marshal libs m = Inr s \<and> (mget m ''base_mnemonic'' = None \<or> mget m ''base_mnemonic'' = Some (VStr ''[REDACTED]''))"
    by (intro exI[of _ "if mget m ''base_mnemonic'' \<noteq> None then mput ''base_mnemonic'' (VStr ''[REDACTED]'') m else m"]) simp
  then show ?thesis using Inr by (simp add: shown_config_def)
qed

lemma RunLoadTest_good:
  assumes "DecompressData (tl_gzip libs) (rl_ProviderState req) = Inr st" and "restoreProvider (rl_RunnerType req) st = Inr te"
    and "DecompressData (tl_gzip libs) (rl_ChainState req) = Inr cs"
    and "RunLoadTest libs restoreProvider restoreChain req turns = Some out"
  shows "\<exists>configBytes cfg. lt_good libs te req configBytes cfg out \<and> shown_config libs cfg"
proof (cases "restoreChain (rl_IsEvmChain req) cs")
  case (Inl e)
  then show ?thesis using assms good_handle[of "[]" 0 req "[]" libs te "[]" None False e "''failed to restore chain''"]
    by (auto simp: RunLoadTest_def shown_config_def)
next
  case (Inr c)
  show ?thesis
  proof (cases "generateLoadTestSpec libs c (tc_ChainId c) (rl_LoadTestSpec req) (rl_BaseMnemonic req) (rl_NumWallets req)")
    case (Inl e)
    then show ?thesis using assms Inr good_handle[of "[]" 0 req "[]" libs te "[]" "Some c" False e "''failed to generate load test config''"]
      by (auto simp: RunLoadTest_def shown_config_def)
  next
    case (Inr b)
    have "run_catalyst libs te c req b
        (case redactLoadTestConfig libs b of Inl e \<Rightarrow> ''failed to redact load test config: '' @ Error_str e | Inr s \<Rightarrow> s) turns = Some out"
      using assms \<open>restoreChain (rl_IsEvmChain req) cs = Inr c\<close> Inr by (simp add: RunLoadTest_def)
    then show ?thesis using good_catalyst shown_redacted by blast
  qed
qed

lemma RunLoadTest_returns:
  "\<exists>t \<in> set turns. turn_ends t \<Longrightarrow> RunLoadTest libs restoreProvider restoreChain req turns \<noteq> None"
  by (simp add: RunLoadTest_def Let_def catalyst_returns split: sum.splits del: not_None_eq)

section \<open>Properties\<close>


text \<open>C40: What a load test shows of itself is bounded and hides the mnemonic: the task's logs in the response are
  at most 256 KiB, and the configuration in it is empty, a note that redacting failed, or the YAML of a
  configuration whose base mnemonic is absent or replaced.\<close>

theorem load_test_shows_no_mnemonic:
  assumes "RunLoadTest libs restoreProvider restoreChain req turns = Some (calls, resp, err)"
  shows "int (length (rr_TaskLogs resp)) \<le> maxLoadTestTaskLogBytes \<and> shown_config libs (rr_LoadTestConfig resp)"
proof -
  have early: ?thesis if "resp = empty_load_response"
    using that by (simp add: empty_load_response_def shown_config_def maxLoadTestTaskLogBytes_def)
  show ?thesis
  proof (cases "DecompressData (tl_gzip libs) (rl_ProviderState req)")
    case Inl
    then show ?thesis using assms early by (simp add: RunLoadTest_def)
  next
    case st: (Inr st)
    show ?thesis
    proof (cases "restoreProvider (rl_RunnerType req) st")
      case Inl
      then show ?thesis using assms early st by (simp add: RunLoadTest_def)
    next
      case te: (Inr te)
      show ?thesis
      proof (cases "DecompressData (tl_gzip libs) (rl_ChainState req)")
        case Inl
        then show ?thesis using assms early st te by (simp add: RunLoadTest_def)
      next
        case Inr
        then obtain b cfg where "lt_good libs te req b cfg (calls, resp, err) \<and> shown_config libs cfg"
          using RunLoadTest_good[OF st te Inr assms] by blast
        then show ?thesis by (auto simp: lt_good_def)
      qed
    qed
  qed
qed

text \<open>A run on a chain of one validator whose load generator stops at the second turn.\<close>

definition demo_lt_libs :: "string lt_libs" where
  "demo_lt_libs = \<lparr> tl_gzip = demo_gzip, tl_eth = (\<lambda>_. None), tl_Validate = (\<lambda>_. Inr ()), tl_Marshal = (\<lambda>_. Inr ''kind: cosmos''),
     tl_yaml_Unmarshal = (\<lambda>_. Inr [(''base_mnemonic'', VStr ''secret'')]),
     tl_yaml_Marshal = (\<lambda>m. case mget m ''base_mnemonic'' of Some (VStr s) \<Rightarrow> Inr (''base_mnemonic: '' @ s) | _ \<Rightarrow> Inr ''{}''),
     tl_json_Unmarshal = Inr \<rparr>"

definition demo_lt_env :: lt_env where
  "demo_lt_env = \<lparr> te_CreateTask = (\<lambda>_. Inr ()), te_WriteFile = (\<lambda>_. Inr ()), te_Start = (\<lambda>_. Inr ()), te_ReadFile = (\<lambda>_ _. Inr ''report''),
     te_Logs = Some (\<lambda>_. Inr ''done''), te_SerializeProvider = (\<lambda>h. Inr (replicate (Suc (length h)) CHR ''p'')) \<rparr>"

definition demo_lt_chain :: lt_chain where
  "demo_lt_chain = \<lparr> tc_ChainId = ''hub-1'', tc_Denom = ''stake'', tc_Bech32Prefix = ''cosmos'', tc_NodeIPs = [], tc_ValidatorIPs = [Inr ''10.0.0.1''],
     tc_Serialize = (\<lambda>_. Inr ''c'') \<rparr>"

definition demo_lt_request :: RunLoadTestRequest where
  "demo_lt_request = \<lparr> rl_ChainState = ''zc'', rl_ProviderState = ''zp'', rl_LoadTestSpec = \<lparr> lts_Kind = ''cosmos'', lts_Fields = [] \<rparr>,
     rl_RunnerType = ''Docker'', rl_IsEvmChain = False, rl_BaseMnemonic = ''secret'', rl_NumWallets = 3, rl_CatalystVersion = [] \<rparr>"

abbreviation demo_lt_run :: "(lt_call list \<times> string RunLoadTestResponse \<times> error option) option" where
  "demo_lt_run \<equiv> RunLoadTest demo_lt_libs (\<lambda>_ _. Inr demo_lt_env) (\<lambda>_ _. Inr demo_lt_chain) demo_lt_request
     [LtTick None (Inr TASK_RUNNING), LtTick None (Inr TASK_STOPPED)]"

lemmas demo_lt_defs = demo_lt_libs_def demo_lt_env_def demo_lt_chain_def demo_lt_request_def demo_gzip_def


theorem load_test_shows_no_mnemonic_witness:
  "\<exists>calls resp err. demo_lt_run = Some (calls, resp, err) \<and> err = None \<and> rr_LoadTestConfig resp = ''base_mnemonic: [REDACTED]'' \<and>
     shown_config demo_lt_libs (rr_LoadTestConfig resp)"
proof -
  have "map_option (\<lambda>(calls, resp, err). (err, rr_LoadTestConfig resp)) demo_lt_run = Some (None, ''base_mnemonic: [REDACTED]'')" by code_simp
  then obtain calls resp err where "demo_lt_run = Some (calls, resp, err)" "err = None" "rr_LoadTestConfig resp = ''base_mnemonic: [REDACTED]''" by auto
  then show ?thesis using load_test_shows_no_mnemonic[of demo_lt_libs] by blast
qed

end
