(* ===== verification/Docker_Provider.thy ===== *)
theory Docker_Provider
  imports Docker_Task
begin

text \<open>
  The Docker provider: \<open>petri/core/provider/docker/provider.go\<close>, \<open>network.go\<close> and \<open>util.go\<close>. Its state
  is the record \<open>host\<close> of theory \<open>Docker_Task\<close>. The address allocator, a package of its own, is the
  parameter \<open>al\<close>, on addresses in their textual form; the codecs of the states are parameters. The
  order in which the map of tasks is iterated is the order of its list.
\<close>

section \<open>Networks and addresses\<close>

record 'a allocator =
  al_ParseCIDR :: "string \<Rightarrow> string result"
  al_New :: "string \<Rightarrow> 'a result"
  al_Allocate :: "string \<Rightarrow> 'a \<Rightarrow> 'a result"
  al_Next :: "'a \<Rightarrow> ('a \<times> string) result"

text \<open>\<open>subnet1\<close> and \<open>subnet2\<close> are the random numbers of \<open>initNetwork\<close>.\<close>

definition initNetwork :: "'d docker \<Rightarrow> nat \<Rightarrow> nat \<Rightarrow> string \<Rightarrow> string \<Rightarrow> 'd \<Rightarrow> 'd \<times> NetworkInfo result" where
  "initNetwork dk subnet1 subnet2 name networkName d =
     (let prefix = ''192.'' @ show_nat subnet1 @ ''.'' @ show_nat subnet2
      in andThen (dk_NetworkCreate dk \<lparr> ns_Name = networkName, ns_Scope = ''local'', ns_Driver = ''bridge'',
           ns_Options = [(''com.docker.network.bridge.enable_icc'', ''true''),
             (''com.docker.network.bridge.enable_ip_masquerade'', ''true''),
             (''com.docker.network.bridge.host_binding_ipv4'', ''0.0.0.0''),
             (''com.docker.network.driver.mtu'', ''1500'')],
           ns_Labels = [(providerLabelName, name)],
           ns_Subnet = prefix @ ''.0/24'', ns_Gateway = prefix @ ''.1'' \<rparr> d) (\<lambda>d i.
         (d, dk_NetworkInspect dk i d)))"

definition ensureNetwork :: "'d docker \<Rightarrow> string \<Rightarrow> string \<Rightarrow> string \<Rightarrow> 'd \<Rightarrow> unit result" where
  "ensureNetwork dk networkID networkName networkCIDR d =
     and_then (dk_NetworkInspect dk networkID d) (\<lambda>n.
       if ni_ID n \<noteq> networkID then Inl (New (''network ID mismatch: '' @ ni_ID n @ '' != '' @ networkID))
       else if ni_Name n \<noteq> networkName then Inl (New (''network name mismatch: '' @ ni_Name n @ '' != '' @ networkName))
       else if length (ni_IPAM n) \<noteq> 1 then Inl (New (''unexpected number of IPAM configs: '' @ show_nat (length (ni_IPAM n))))
       else if fst (hd (ni_IPAM n)) \<noteq> networkCIDR
       then Inl (New (''network CIDR mismatch: '' @ fst (hd (ni_IPAM n)) @ '' != '' @ networkCIDR))
       else Inr ())"

definition destroyNetwork :: "'d docker \<Rightarrow> ('d, 'a) host \<Rightarrow> ('d, 'a) host \<times> unit result" where
  "destroyNetwork dk h = on_docker (dk_NetworkRemove dk (ho_NetworkID h)) h"

text \<open>Each listener is closed again before the next port is asked for; a failure to open or to close it
  is the failure of \<open>dk_FreePort\<close>.\<close>

definition nextAvailablePort :: "'d docker \<Rightarrow> 'd \<Rightarrow> 'd \<times> PortBinding result" where
  "nextAvailablePort dk d =
     andThen (dk_FreePort dk d) (\<lambda>d port. (d, Inr \<lparr> pb_HostIP = ''0.0.0.0'', pb_HostPort = Itoa port \<rparr>))"

definition nextAvailableIP :: "'a allocator \<Rightarrow> ('d, 'a) host \<Rightarrow> ('d, 'a) host \<times> string result" where
  "nextAvailableIP al h =
     (case al_Next al (ho_alloc h) of
        Inl e \<Rightarrow> (h, Inl e)
      | Inr (a, ip) \<Rightarrow> (h\<lparr>ho_alloc := a\<rparr>, Inr ip))"

definition convertTaskDefinitionPortsToPortSet :: "TaskDefinition \<Rightarrow> string list" where
  "convertTaskDefinitionPortsToPortSet def = remdups (map (\<lambda>p. p @ ''/tcp'') (td_Ports def))"

fun GeneratePortBindings :: "'d docker \<Rightarrow> string list \<Rightarrow> PortMap \<Rightarrow> 'd \<Rightarrow> 'd \<times> PortMap result" where
  "GeneratePortBindings dk [] m d = (d, Inr m)"
| "GeneratePortBindings dk (port # ps) m d =
     andThen (nextAvailablePort dk d) (\<lambda>d pb. GeneratePortBindings dk ps (mput port [pb] m) d)"

section \<open>Creating and restoring a provider\<close>

definition new_host ::
    "'d \<Rightarrow> string \<Rightarrow> string \<Rightarrow> string \<Rightarrow> string \<Rightarrow> string \<Rightarrow> string \<Rightarrow> TaskState gomap \<Rightarrow> 'a \<Rightarrow> ('d, 'a) host" where
  "new_host d name nid nname cidr gateway builder tasks a =
     \<lparr> ho_docker = d, ho_heap = map snd tasks, ho_Name = name, ho_NetworkID = nid, ho_NetworkName = nname,
       ho_NetworkCIDR = cidr, ho_NetworkGateway = gateway, ho_BuilderImageName = builder,
       ho_TaskStates = zip (keys tasks) [0..<length tasks], ho_alloc = a \<rparr>"

text \<open>The error of \<open>NewCIDRRange\<close> is looked at only after the allocator has been used.\<close>

definition Docker_CreateProvider ::
    "'d docker \<Rightarrow> 'a allocator \<Rightarrow> nat \<Rightarrow> nat \<Rightarrow> string \<Rightarrow> 'd \<Rightarrow> 'd \<times> ('d, 'a) host result" where
  "Docker_CreateProvider dk al subnet1 subnet2 providerName d =
     andThen (d, and_then (dk_Connect dk) (\<lambda>_. dk_Ping dk d)) (\<lambda>d _.
       if providerName = [] then (d, Inl (New ''provider name cannot be empty''))
       else
         let networkName = ''petri-'' @ providerName
         in andThen (initNetwork dk subnet1 subnet2 providerName networkName d) (\<lambda>d n.
              case ni_IPAM n of
                [] \<Rightarrow> (d, Inl (New ''network does not have an IPAM config''))
              | (subnet, gateway) # _ \<Rightarrow>
                  (d, and_then (al_ParseCIDR al subnet) (\<lambda>cidr.
                      case al_New al cidr of
                        Inl e \<Rightarrow> Inl (Panic ''nil pointer dereference'')
                      | Inr a \<Rightarrow>
                          and_then (wrap_err ''failed to allocate gateway ip'' (al_Allocate al gateway a)) (\<lambda>a.
                            Inr (new_host d providerName (ni_ID n) networkName cidr gateway ''busybox:latest'' [] a))))))"

record ProviderState =
  st_TaskStates :: "TaskState gomap"
  st_Name :: string
  st_NetworkID :: string
  st_NetworkName :: string
  st_NetworkCIDR :: string
  st_NetworkGateway :: string
  st_BuilderImageName :: string

definition provider_state :: "('d, 'a) host \<Rightarrow> ProviderState" where
  "provider_state h = \<lparr> st_TaskStates = map (\<lambda>(k, t). (k, ho_heap h ! t)) (ho_TaskStates h), st_Name = ho_Name h,
     st_NetworkID = ho_NetworkID h, st_NetworkName = ho_NetworkName h, st_NetworkCIDR = ho_NetworkCIDR h,
     st_NetworkGateway = ho_NetworkGateway h, st_BuilderImageName = ho_BuilderImageName h \<rparr>"

definition SerializeProvider :: "(ProviderState \<Rightarrow> string result) \<Rightarrow> ('d, 'a) host \<Rightarrow> string result" where
  "SerializeProvider enc h = enc (provider_state h)"

fun allocate_all :: "'a allocator \<Rightarrow> string list \<Rightarrow> 'a \<Rightarrow> 'a result" where
  "allocate_all al [] a = Inr a"
| "allocate_all al (ip # ips) a =
     and_then (wrap_err ''failed to restore ip allocator state'' (al_Allocate al ip a)) (allocate_all al ips)"

definition Docker_RestoreProvider ::
    "'d docker \<Rightarrow> 'a allocator \<Rightarrow> (string \<Rightarrow> ProviderState result) \<Rightarrow> string \<Rightarrow> 'd \<Rightarrow> ('d, 'a) host result" where
  "Docker_RestoreProvider dk al dec state d =
     and_then (dec state) (\<lambda>st.
     and_then (dk_Connect dk) (\<lambda>_.
     and_then (dk_Ping dk d) (\<lambda>_.
     and_then (wrap_err ''failed to parse cidr mask from state'' (al_ParseCIDR al (st_NetworkCIDR st))) (\<lambda>cidr.
     and_then (wrap_err ''failed to create ip allocator from state'' (al_New al cidr)) (\<lambda>a.
     and_then (wrap_err ''failed to allocate gateway ip'' (al_Allocate al (st_NetworkGateway st) a)) (\<lambda>a.
     and_then (allocate_all al (map (ts_IpAddress \<circ> snd) (st_TaskStates st)) a) (\<lambda>a.
     and_then (wrap_err ''failed to reconcilliate the docker network''
        (ensureNetwork dk (st_NetworkID st) (st_NetworkName st) (st_NetworkCIDR st) d)) (\<lambda>_.
       Inr (new_host d (st_Name st) (st_NetworkID st) (st_NetworkName st) (st_NetworkCIDR st) (st_NetworkGateway st)
              (st_BuilderImageName st) (st_TaskStates st) a)))))))))"

section \<open>Tasks\<close>

definition portsLabelName :: string where "portsLabelName = ''petri-ports''"
definition nodeNameLabelName :: string where "nodeNameLabelName = ''petri-node-name''"

definition registry_auth :: "TaskDefinition \<Rightarrow> string" where
  "registry_auth def =
     (case td_ProviderSpecificConfig def of
        None \<Rightarrow> []
      | Some m \<Rightarrow> if IsECRImage (img_Image (td_Image def)) then mget_str m ''docker_auth'' else [])"

text \<open>The data volume of a task, with its owner set.\<close>

definition data_volume ::
    "'d docker \<Rightarrow> string \<Rightarrow> string \<Rightarrow> string \<Rightarrow> TaskDefinition \<Rightarrow> 'd \<Rightarrow> 'd \<times> VolumeState option result" where
  "data_volume dk builder providerName taskName def d =
     (if td_DataDir def = [] then (d, Inr None)
      else
        let volumeName = taskName @ ''-data''
        in case CreateVolume dk providerName
                  \<lparr> vd_Name = volumeName, vd_MountPath = td_DataDir def, vd_Size = ''10GB'' \<rparr> d of
             (d, Inl e) \<Rightarrow> (d, Inl (New (''failed to create dataDir: '' @ Error_str e)))
           | (d, Inr _) \<Rightarrow>
               (case SetVolumeOwner dk builder providerName volumeName (img_UID (td_Image def)) (img_GID (td_Image def)) d of
                  (d, Inl e) \<Rightarrow> (d, Inl (New (''failed to set volume owner: '' @ Error_str e)))
                | (d, Inr _) \<Rightarrow> (d, Inr (Some \<lparr> vs_Name = volumeName, vs_Size = ''10GB'' \<rparr>))))"

text \<open>Everything before the address is allocated: it only uses the daemon. \<open>ord\<close> is the order in which
  the set of ports is iterated.\<close>

definition prepare_task ::
    "'d docker \<Rightarrow> (string list \<Rightarrow> string list) \<Rightarrow> string \<Rightarrow> string \<Rightarrow> TaskDefinition \<Rightarrow> 'd \<Rightarrow>
     'd \<times> (PortMap \<times> VolumeState option) result" where
  "prepare_task dk ord builder providerName def d =
     andThen (d, wrap_err ''failed to validate task definition'' (TaskDefinition_ValidateBasic def)) (\<lambda>d _.
     andThen (ImagePull dk builder [] d) (\<lambda>d _.
     andThen (if dk_HasImage dk (img_Image (td_Image def)) d then (d, Inr ())
              else ImagePull dk (img_Image (td_Image def)) (registry_auth def) d) (\<lambda>d _.
       case GeneratePortBindings dk (ord (convertTaskDefinitionPortsToPortSet def)) [] d of
         (d, Inl e) \<Rightarrow> (d, Inl (New (''failed to allocate task ports: '' @ Error_str e)))
       | (d, Inr bindings) \<Rightarrow>
           andThen (data_volume dk builder providerName (providerName @ ''-'' @ td_Name def) def d) (\<lambda>d vol.
             (d, Inr (bindings, vol))))))"

definition task_spec :: "TaskDefinition \<Rightarrow> string \<Rightarrow> PortMap \<Rightarrow> VolumeState option \<Rightarrow> string \<Rightarrow> ('d, 'a) host \<Rightarrow> ContainerSpec" where
  "task_spec def taskName bindings vol ip h = empty_spec\<lparr>cs_Name := taskName, cs_Image := img_Image (td_Image def),
     cs_Entrypoint := td_Entrypoint def, cs_Cmd := td_Command def, cs_Hostname := taskName,
     cs_Labels := [(providerLabelName, ho_Name h), (portsLabelName, Join '','' (td_Ports def)), (nodeNameLabelName, td_Name def)],
     cs_Env := envs (td_Environment def), cs_ExposedPorts := convertTaskDefinitionPortsToPortSet def,
     cs_Mounts := (case vol of None \<Rightarrow> [] | Some v \<Rightarrow> [(vs_Name v, td_DataDir def)]),
     cs_PortBindings := bindings, cs_NetworkMode := ho_NetworkName h, cs_IPv4 := Some (ho_NetworkName h, ip)\<rparr>"

definition add_task :: "TaskState \<Rightarrow> ('d, 'a) host \<Rightarrow> ('d, 'a) host" where
  "add_task ts h = h\<lparr>ho_heap := ho_heap h @ [ts], ho_TaskStates := mput (ts_Id ts) (length (ho_heap h)) (ho_TaskStates h)\<rparr>"

definition new_task :: "TaskDefinition \<Rightarrow> PortMap \<Rightarrow> VolumeState option \<Rightarrow> string \<Rightarrow> string \<Rightarrow> ('d, 'a) host \<Rightarrow> TaskState" where
  "new_task def bindings vol ip i h = \<lparr> ts_Id = i, ts_Name = ho_Name h @ ''-'' @ td_Name def, ts_Volume = vol,
     ts_Definition = def, ts_Status = TASK_STOPPED, ts_IpAddress = ip, ts_BuilderImageName = ho_BuilderImageName h,
     ts_NetworkName = ho_NetworkName h, ts_PortBindings = bindings \<rparr>"

definition CreateTask ::
    "'d docker \<Rightarrow> 'a allocator \<Rightarrow> (string list \<Rightarrow> string list) \<Rightarrow> TaskDefinition \<Rightarrow> ('d, 'a) host \<Rightarrow> ('d, 'a) host \<times> nat result" where
  "CreateTask dk al ord def h =
     andThen (on_docker (prepare_task dk ord (ho_BuilderImageName h) (ho_Name h) def) h) (\<lambda>h (bindings, vol).
     andThen (nextAvailableIP al h) (\<lambda>h ip.
     andThen (on_docker (dk_ContainerCreate dk (task_spec def (ho_Name h @ ''-'' @ td_Name def) bindings vol ip h)) h) (\<lambda>h i.
       (add_task (new_task def bindings vol ip i h) h, Inr (length (ho_heap h))))))"

definition SerializeTask :: "(TaskState \<Rightarrow> string result) \<Rightarrow> nat \<Rightarrow> ('d, 'a) host \<Rightarrow> string result" where
  "SerializeTask enc t h = enc (GetState t h)"

definition ensureVolume :: "'d docker \<Rightarrow> TaskState \<Rightarrow> 'd \<Rightarrow> unit result" where
  "ensureVolume dk state d =
     (case ts_Volume state of
        None \<Rightarrow> Inr ()
      | Some v \<Rightarrow>
          and_then (wrap_err ''failed to inspect volume'' (dk_VolumeInspect dk (vs_Name v) d)) (\<lambda>name.
            if name \<noteq> vs_Name v
            then Inl (New (''volume name mismatch, expected: '' @ vs_Name v @ '', got: '' @ name)) else Inr ()))"

definition status_number :: "TaskStatus \<Rightarrow> string" where
  "status_number s = (case s of TASK_STATUS_UNDEFINED \<Rightarrow> ''0'' | TASK_RUNNING \<Rightarrow> ''1'' | TASK_STOPPED \<Rightarrow> ''2''
     | TASK_PAUSED \<Rightarrow> ''3'' | TASK_RESTARTING \<Rightarrow> ''4'')"

definition ensureTask :: "'d docker \<Rightarrow> TaskState \<Rightarrow> 'd \<Rightarrow> unit result" where
  "ensureTask dk state d =
     and_then (wrap_err ''failed to inspect container'' (dk_ContainerInspect dk (ts_Id state) d)) (\<lambda>j.
     and_then (wrap_err ''failed to get task status'' (GetStatus dk (ts_Id state) d)) (\<lambda>actual.
       if actual \<noteq> ts_Status state
       then Inl (New (''task status mismatch, expected: '' @ status_number (ts_Status state) @ '', got: '' @ status_number actual))
       else if cj_Name j \<noteq> ''/'' @ ts_Name state
       then Inl (New (''task name mismatch, expected: '' @ ts_Name state @ '', got: '' @ cj_Name j))
       else ensureVolume dk state d))"

text \<open>The restored task has a state of its own: the provider's map does not point to it.\<close>

definition DeserializeTask ::
    "'d docker \<Rightarrow> (string \<Rightarrow> TaskState result) \<Rightarrow> string \<Rightarrow> ('d, 'a) host \<Rightarrow> ('d, 'a) host \<times> nat result" where
  "DeserializeTask dk dec bz h =
     (case dec bz of
        Inl e \<Rightarrow> (h, Inl e)
      | Inr state \<Rightarrow>
          (case ensureTask dk state (ho_docker h) of
             Inl e \<Rightarrow> (h, Inl e)
           | Inr _ \<Rightarrow> (h\<lparr>ho_heap := ho_heap h @ [state]\<rparr>, Inr (length (ho_heap h)))))"

section \<open>Teardown\<close>

fun teardown_tasks :: "'d docker \<Rightarrow> TaskState list \<Rightarrow> 'd \<Rightarrow> 'd \<times> unit result" where
  "teardown_tasks dk [] d = (d, Inr ())"
| "teardown_tasks dk (task # ts) d =
     andThen (dk_ContainerRemove dk (ts_Id task) False d) (\<lambda>d _.
     andThen (case ts_Volume task of None \<Rightarrow> (d, Inr ()) | Some v \<Rightarrow> dk_VolumeRemove dk (vs_Name v) d) (\<lambda>d _.
       teardown_tasks dk ts d))"

definition Docker_Teardown :: "'d docker \<Rightarrow> ('d, 'a) host \<Rightarrow> ('d, 'a) host \<times> unit result" where
  "Docker_Teardown dk h =
     andThen (on_docker (teardown_tasks dk (map (\<lambda>(k, t). ho_heap h ! t) (ho_TaskStates h))) h) (\<lambda>h _.
       destroyNetwork dk h)"

end
