(* ===== verification/Docker_Lifecycle.thy ===== *)
theory Docker_Lifecycle
  imports Docker_Provider
begin

text \<open>
  What the Docker provider promises over its life: any sequence of creating, starting, stopping,
  writing to and destroying tasks, whatever the daemon answers, keeps the provider's map and the
  addresses of its tasks consistent; a state serialised on the way can be restored; and a teardown that
  succeeds leaves no container of the provider behind. The daemon and the address allocator enter
  through \<open>daemon_law\<close> and \<open>allocator_law\<close>: \<open>conts\<close> tells which containers exist, with what they were created
  from, and \<open>used\<close> which addresses are taken.
\<close>

section \<open>The daemon and the allocator\<close>

text \<open>No container appears but ones that the daemon removes itself when they exit.\<close>

definition tame :: "('d \<Rightarrow> string \<rightharpoonup> ContainerSpec) \<Rightarrow> 'd \<Rightarrow> 'd \<Rightarrow> bool" where
  "tame conts d d' \<longleftrightarrow> (\<forall>i s. conts d' i = Some s \<longrightarrow> conts d i = Some s \<or> cs_AutoRemove s)"

lemma tame_refl [simp]: "tame conts d d"
  by (simp add: tame_def)

lemma tame_trans: "tame conts d d' \<Longrightarrow> tame conts d' d'' \<Longrightarrow> tame conts d d''"
  unfolding tame_def by blast

text \<open>Creating a container adds that one, removing one successfully takes it away, and nothing else adds any.\<close>

definition daemon_law :: "'d docker \<Rightarrow> ('d \<Rightarrow> string \<rightharpoonup> ContainerSpec) \<Rightarrow> bool" where
  "daemon_law dk conts \<longleftrightarrow>
     (\<forall>spec d d' r i s. dk_ContainerCreate dk spec d = (d', r) \<longrightarrow> conts d' i = Some s \<longrightarrow>
        conts d i = Some s \<or> (r = Inr i \<and> s = spec)) \<and>
     (\<forall>i v d d' r. dk_ContainerRemove dk i v d = (d', r) \<longrightarrow> tame conts d d' \<and> (r = Inr () \<longrightarrow> conts d' i = None)) \<and>
     (\<forall>f \<in> {dk_ContainerStart dk, dk_ContainerStop dk, dk_VolumeRemove dk, dk_NetworkRemove dk}.
        \<forall>i d. tame conts d (fst (f i d))) \<and>
     (\<forall>i d. tame conts d (fst (dk_ContainerWait dk i d))) \<and>
     (\<forall>i p t d. tame conts d (fst (dk_CopyTo dk i p t d))) \<and>
     (\<forall>i a d. tame conts d (fst (dk_Pull dk i a d))) \<and>
     (\<forall>i l d. tame conts d (fst (dk_VolumeCreate dk i l d))) \<and>
     (\<forall>n d. tame conts d (fst (dk_NetworkCreate dk n d))) \<and>
     (\<forall>d. tame conts d (fst (dk_FreePort dk d))) \<and>
     (\<forall>d. tame conts d (dk_Sleep dk d))"

text \<open>The allocator hands out addresses that are not taken, and takes an address on request exactly when
  it is in its pool and free.\<close>

definition allocator_law :: "'a allocator \<Rightarrow> ('a \<Rightarrow> string set) \<Rightarrow> ('a \<Rightarrow> string set) \<Rightarrow> bool" where
  "allocator_law al pool used \<longleftrightarrow>
     (\<forall>c a. al_New al c = Inr a \<longrightarrow> used a = {}) \<and>
     (\<forall>a a' ip. al_Next al a = Inr (a', ip) \<longrightarrow> ip \<in> pool a \<and> ip \<notin> used a \<and> used a' = insert ip (used a) \<and> pool a' = pool a) \<and>
     (\<forall>a ip. (\<exists>a'. al_Allocate al ip a = Inr a') \<longleftrightarrow> ip \<in> pool a \<and> ip \<notin> used a) \<and>
     (\<forall>a a' ip. al_Allocate al ip a = Inr a' \<longrightarrow> used a' = insert ip (used a) \<and> pool a' = pool a)"

section \<open>What one operation does to the containers\<close>

definition mild :: "('d \<Rightarrow> string \<rightharpoonup> ContainerSpec) \<Rightarrow> ('d \<Rightarrow> 'd \<times> 'r) \<Rightarrow> bool" where
  "mild conts f \<longleftrightarrow> (\<forall>d. tame conts d (fst (f d)))"

lemma mildI: "(\<And>d. tame conts d (fst (f d))) \<Longrightarrow> mild conts f"
  by (simp add: mild_def)

lemma mildD: "mild conts f \<Longrightarrow> f d = (d', r) \<Longrightarrow> tame conts d d'"
  by (metis fst_conv mild_def)

lemma tame_andThen:
  assumes "tame conts d (fst r)" "\<And>d' x. r = (d', Inr x) \<Longrightarrow> tame conts d' (fst (g d' x))"
  shows "tame conts d (fst (andThen r g))"
  using assms by (auto simp: andThen_def split: prod.splits sum.splits intro: tame_trans)

lemma fst_on_docker: "tame conts (ho_docker h) (fst (f (ho_docker h))) \<Longrightarrow> tame conts (ho_docker h) (ho_docker (fst (on_docker f h)))"
  by (cases "f (ho_docker h)") (simp add: on_docker_def)

lemma daemon_lawD:
  assumes "daemon_law dk conts"
  shows "tame conts d (fst (dk_ContainerRemove dk i v d))" "tame conts d (fst (dk_ContainerStart dk i d))"
    "tame conts d (fst (dk_ContainerStop dk i d))" "tame conts d (fst (dk_VolumeRemove dk i d))"
    "tame conts d (fst (dk_NetworkRemove dk i d))" "tame conts d (fst (dk_ContainerWait dk i d))"
    "tame conts d (fst (dk_CopyTo dk i p t d))" "tame conts d (fst (dk_Pull dk i a d))"
    "tame conts d (fst (dk_VolumeCreate dk i l d))" "tame conts d (fst (dk_FreePort dk d))"
    "tame conts d (dk_Sleep dk d)" "tame conts d (fst (dk_NetworkCreate dk n d))"
  using assms unfolding daemon_law_def by (simp_all add: prod_eq_iff)

lemma create_new:
  assumes "daemon_law dk conts" "dk_ContainerCreate dk spec d = (d', r)" "conts d' i = Some s"
  shows "conts d i = Some s \<or> (r = Inr i \<and> s = spec)"
  using assms by (simp add: daemon_law_def)

lemma removed:
  assumes "daemon_law dk conts" "dk_ContainerRemove dk i v d = (d', Inr ())"
  shows "conts d' i = None"
  using assms by (simp add: daemon_law_def)

lemma create_auto:
  assumes "daemon_law dk conts" "cs_AutoRemove spec"
  shows "tame conts d (fst (dk_ContainerCreate dk spec d))"
  using create_new[OF assms(1), of spec d] assms(2) unfolding tame_def by (metis prod.collapse)

lemma pull_tame: "daemon_law dk conts \<Longrightarrow> tame conts d (fst (ImagePull dk ref auth d))"
  by (simp add: ImagePull_def daemon_lawD)

lemma remove_helper_tame: "daemon_law dk conts \<Longrightarrow> tame conts d (remove_helper dk cid d)"
  by (simp add: remove_helper_def daemon_lawD split: sum.splits)

lemma run_helper_tame: "daemon_law dk conts \<Longrightarrow> tame conts d (fst (run_helper dk a b c cid d))"
  using daemon_lawD(2)[of dk conts d cid] daemon_lawD(6)[of dk conts _ cid]
  by (auto simp: run_helper_def split: prod.splits sum.splits wait_outcome.splits option.splits)
     (metis fst_conv tame_trans)+

lemma with_helper_tame:
  assumes "daemon_law dk conts" "cs_AutoRemove spec" "\<And>cid d. tame conts d (fst (body cid d))"
  shows "tame conts d (fst (with_helper dk builder spec body d))"
  unfolding with_helper_def
proof (intro tame_andThen)
  fix d'' cid
  show "tame conts d'' (fst (case body cid d'' of (d, autoRemoved, r) \<Rightarrow> (if autoRemoved then d else remove_helper dk cid d, r)))"
    using assms(3)[of d'' cid] remove_helper_tame[OF assms(1)] by (auto split: prod.splits intro: tame_trans)
qed (simp_all add: pull_tame create_auto assms)

lemma owner_tame: "daemon_law dk conts \<Longrightarrow> tame conts d (fst (SetVolumeOwner dk b p v u g d))"
  unfolding SetVolumeOwner_def by (rule with_helper_tame) (simp_all add: setowner_spec_def run_helper_tame)

lemma write_body_tame:
  assumes "daemon_law dk conts"
  shows "tame conts d (fst (case archive of
           Inl e \<Rightarrow> (d, False, Inl e)
         | Inr tar \<Rightarrow> (case dk_CopyTo dk cid p tar d of
              (d, Inl e) \<Rightarrow> (d, False, Inl (Wrap m e))
            | (d, Inr _) \<Rightarrow> run_helper dk a b c cid d)))"
proof (cases archive)
  case (Inr tar)
  obtain d1 r where c: "dk_CopyTo dk cid p tar d = (d1, r)" by fastforce
  have "tame conts d d1" using daemon_lawD(7)[OF assms, of d cid p tar] c by simp
  then show ?thesis using Inr c run_helper_tame[OF assms] by (cases r) (auto intro: tame_trans)
qed simp

lemma write_tame: "daemon_law dk conts \<Longrightarrow> tame conts d (fst (write_archive dk archive state d))"
  unfolding write_archive_def
  by (cases "ts_Volume state") (simp_all add: writefile_spec_def with_helper_tame write_body_tame)

lemma volume_tame: "daemon_law dk conts \<Longrightarrow> tame conts d (fst (CreateVolume dk p v d))"
  by (simp add: CreateVolume_def daemon_lawD split: sum.splits)

lemma ports_tame: "daemon_law dk conts \<Longrightarrow> tame conts d (fst (GeneratePortBindings dk ps m d))"
  by (induction ps arbitrary: m d)
     (auto simp: nextAvailablePort_def daemon_lawD intro!: tame_andThen)

lemma wait_tame:
  assumes law: "daemon_law dk conts" and "WaitForStatus dk i s d = Some y"
  shows "tame conts d (fst y)"
proof -
  have "dk' = dk \<longrightarrow> tame conts d (fst y)" if "WaitForStatus dk' i s d = Some y" for dk'
  proof (rule WaitForStatus.raw_induct[where P = "\<lambda>dk' i s d y. dk' = dk \<longrightarrow> tame conts d (fst y)", OF _ that])
    fix W dk' i s d y
    assume W: "\<And>dk' i s d y. W dk' i s d = Some y \<Longrightarrow> dk' = dk \<longrightarrow> tame conts d (fst y)"
      and step: "(case dk_Done dk' d of
        Some e \<Rightarrow> Some (d, Inl e)
      | None \<Rightarrow>
          (case GetStatus dk' i d of
             Inl e \<Rightarrow> Some (d, Inl e)
           | Inr st \<Rightarrow> if st = s then Some (d, Inr ()) else W dk' i s (dk_Sleep dk' d))) = Some y"
    show "dk' = dk \<longrightarrow> tame conts d (fst y)"
      using step W[of dk i s "dk_Sleep dk d" y] tame_trans[OF daemon_lawD(11)[OF law], of d "fst y"]
      by (auto split: option.splits sum.splits if_splits)
  qed
  then show ?thesis using assms by blast
qed

lemma data_volume_tame:
  assumes "daemon_law dk conts"
  shows "tame conts d (fst (data_volume dk b p n def d))"
proof (cases "td_DataDir def = []")
  case False
  let ?v = "\<lparr> vd_Name = n @ ''-data'', vd_MountPath = td_DataDir def, vd_Size = ''10GB'' \<rparr>"
  obtain d1 r where c: "CreateVolume dk p ?v d = (d1, r)" by fastforce
  obtain d2 r2 where o: "SetVolumeOwner dk b p (n @ ''-data'') (img_UID (td_Image def)) (img_GID (td_Image def)) d1 = (d2, r2)"
    by fastforce
  have "tame conts d d1" "tame conts d1 d2"
    using volume_tame[OF assms, of d p ?v] owner_tame[OF assms, of d1 b p] c o by (metis fst_conv)+
  then show ?thesis using False c o by (auto simp: data_volume_def Let_def split: sum.splits intro: tame_trans)
qed (simp add: data_volume_def)

lemma prepare_task_tame:
  assumes law: "daemon_law dk conts"
  shows "tame conts d (fst (prepare_task dk ord b p def d))"
proof -
  have bind: "tame conts d (fst (case GeneratePortBindings dk ps [] d of
      (d, Inl e) \<Rightarrow> (d, Inl (New (m @ Error_str e)))
    | (d, Inr bs) \<Rightarrow> andThen (data_volume dk b p n def d) (\<lambda>d vol. (d, Inr (bs, vol)))))" for d ps m n
  proof (cases "GeneratePortBindings dk ps [] d")
    case (Pair d1 r)
    have v: "tame conts d1 (fst (andThen (data_volume dk b p n def d1) (\<lambda>d vol. (d, Inr (bs, vol)))))" for bs :: PortMap
      by (rule tame_andThen) (simp_all add: data_volume_tame[OF law])
    have "tame conts d d1" using ports_tame[OF law, of d ps "[]"] Pair by simp
    then show ?thesis using Pair v by (auto split: sum.splits intro: tame_trans)
  qed
  show ?thesis
    unfolding prepare_task_def by (intro tame_andThen bind) (simp_all add: pull_tame[OF law])
qed

section \<open>The invariant of the provider\<close>

definition task_ips :: "('d, 'a) host \<Rightarrow> string list" where
  "task_ips h = map (\<lambda>(k, t). ts_IpAddress (ho_heap h ! t)) (ho_TaskStates h)"

text \<open>The map of tasks is keyed by the identifiers of the containers, and the addresses of the tasks differ
  from each other and from the gateway's and are marked as taken.\<close>

definition host_ok :: "('a \<Rightarrow> string set) \<Rightarrow> ('d, 'a) host \<Rightarrow> bool" where
  "host_ok used h \<longleftrightarrow>
     distinct (keys (ho_TaskStates h)) \<and>
     (\<forall>(k, t) \<in> set (ho_TaskStates h). t < length (ho_heap h) \<and> ts_Id (ho_heap h ! t) = k) \<and>
     distinct (ho_NetworkGateway h # task_ips h) \<and>
     set (ho_NetworkGateway h # task_ips h) \<subseteq> used (ho_alloc h)"

text \<open>Every container there is was there before, or is removed by the daemon itself, or is a recorded task.\<close>

definition recorded :: "('d \<Rightarrow> string \<rightharpoonup> ContainerSpec) \<Rightarrow> (string \<rightharpoonup> ContainerSpec) \<Rightarrow> ('d, 'a) host \<Rightarrow> bool" where
  "recorded conts before h \<longleftrightarrow>
     (\<forall>i s. conts (ho_docker h) i = Some s \<longrightarrow> before i = Some s \<or> cs_AutoRemove s \<or> i \<in> set (keys (ho_TaskStates h)))"

lemma set_mput: "set (mput k v m) \<subseteq> insert (k, v) (set m)"
  by (induction m) auto

lemma mput_keeps: "(k', v') \<in> set m \<Longrightarrow> k' \<noteq> k \<Longrightarrow> (k', v') \<in> set (mput k v m)"
  by (induction m) auto

lemma image_mput: "f ` set (mput k v m) \<subseteq> insert (f (k, v)) (f ` set m)"
  using image_mono[OF set_mput] by (metis image_insert)

lemma distinct_map_mput:
  assumes "distinct (map f m)" "f (k, v) \<notin> f ` set m"
  shows "distinct (map f (mput k v m))"
  using assms
proof (induction m)
  case (Cons x m)
  have "f x \<notin> f ` set (mput k v m)" using image_mput[of f k v m] Cons.prems by auto
  then show ?case using Cons by (cases x) auto
qed simp

lemma host_ok_add_task:
  assumes ok: "host_ok used h" and ip: "ts_IpAddress ts \<notin> used (ho_alloc h)"
    and a: "used a = insert (ts_IpAddress ts) (used (ho_alloc h))"
  shows "host_ok used (add_task ts (h\<lparr>ho_docker := d, ho_alloc := a\<rparr>))"
proof -
  let ?h = "add_task ts (h\<lparr>ho_docker := d, ho_alloc := a\<rparr>)" and ?n = "length (ho_heap h)"
  let ?m = "mput (ts_Id ts) ?n (ho_TaskStates h)"
  define f where "f = (\<lambda>(k :: string, t). ts_IpAddress ((ho_heap h @ [ts]) ! t))"
  have old: "map f (ho_TaskStates h) = task_ips h"
    using ok by (auto simp: task_ips_def host_ok_def nth_append f_def)
  then have old_set: "f ` set (ho_TaskStates h) = set (task_ips h)" by (metis list.set_map)
  have ips: "task_ips ?h = map f ?m" by (simp add: task_ips_def add_task_def f_def)
  have fresh: "ts_IpAddress ts \<notin> set (ho_NetworkGateway h # task_ips h)"
    using ok ip unfolding host_ok_def by blast
  have new: "f (ts_Id ts, ?n) = ts_IpAddress ts" by (simp add: f_def)
  have "distinct (task_ips ?h)"
    unfolding ips by (rule distinct_map_mput) (use ok fresh in \<open>simp_all add: old old_set new host_ok_def\<close>)
  moreover have sub: "set (task_ips ?h) \<subseteq> insert (ts_IpAddress ts) (set (task_ips h))"
    using image_mput[of f "ts_Id ts" ?n "ho_TaskStates h"] by (simp add: ips new old_set)
  moreover have "t < length (ho_heap h @ [ts]) \<and> ts_Id ((ho_heap h @ [ts]) ! t) = k" if "(k, t) \<in> set ?m" for k t
  proof -
    have "(k, t) = (ts_Id ts, ?n) \<or> (k, t) \<in> set (ho_TaskStates h)"
      using that set_mput[of "ts_Id ts" ?n "ho_TaskStates h"] by auto
    then show ?thesis using ok by (auto simp: host_ok_def nth_append)
  qed
  moreover have "distinct (keys ?m)" using ok by (simp add: host_ok_def distinct_keys_mput)
  moreover have "ho_NetworkGateway h \<notin> set (task_ips ?h)" "set (ho_NetworkGateway h # task_ips ?h) \<subseteq> used a"
    using sub fresh ok a by (auto simp: host_ok_def)
  ultimately show ?thesis unfolding host_ok_def by (auto simp: add_task_def)
qed

text \<open>A failed \<open>CreateTask\<close> records nothing, and may only have used up one address; a successful one records
  the new task.\<close>

lemma same_alloc: "(h :: ('d, 'a) host)\<lparr>ho_docker := d, ho_alloc := ho_alloc h\<rparr> = h\<lparr>ho_docker := d\<rparr>"
  by (cases h) simp

lemma swap_alloc: "(h :: ('d, 'a) host)\<lparr>ho_alloc := a, ho_docker := d\<rparr> = h\<lparr>ho_docker := d, ho_alloc := a\<rparr>"
  by (cases h) simp

lemma CreateTask_effect:
  assumes run: "CreateTask dk al ord def h = (h', r)" and law: "daemon_law dk conts"
  obtains (failed) d a e where "h' = h\<lparr>ho_docker := d, ho_alloc := a\<rparr>" "r = Inl e"
      "a = ho_alloc h \<or> (\<exists>ip. al_Next al (ho_alloc h) = Inr (a, ip))" "tame conts (ho_docker h) d"
  | (created) d a ip bindings vol i where
      "al_Next al (ho_alloc h) = Inr (a, ip)" "r = Inr (length (ho_heap h))"
      "h' = add_task (new_task def bindings vol ip i h) (h\<lparr>ho_docker := d, ho_alloc := a\<rparr>)"
      "\<And>j s. conts d j = Some s \<Longrightarrow> conts (ho_docker h) j = Some s \<or> cs_AutoRemove s \<or> j = i"
proof -
  obtain d1 r1 where p: "prepare_task dk ord (ho_BuilderImageName h) (ho_Name h) def (ho_docker h) = (d1, r1)" by fastforce
  then have t1: "tame conts (ho_docker h) d1" using prepare_task_tame[OF law] by (metis fst_conv)
  show thesis
  proof (cases r1)
    case (Inl e)
    have "h' = h\<lparr>ho_docker := d1, ho_alloc := ho_alloc h\<rparr>" "r = Inl e"
      using run p Inl by (auto simp: CreateTask_def on_docker_def andThen_def same_alloc)
    then show thesis using t1 by (intro failed) auto
  next
    case (Inr bv)
    obtain bindings vol where bv: "bv = (bindings, vol)" by fastforce
    show thesis
    proof (cases "al_Next al (ho_alloc h)")
      case (Inl e)
      have "h' = h\<lparr>ho_docker := d1, ho_alloc := ho_alloc h\<rparr>" "r = Inl e"
        using run p Inr bv Inl by (auto simp: CreateTask_def on_docker_def andThen_def nextAvailableIP_def same_alloc)
      then show thesis using t1 by (intro failed) auto
    next
      case next_ip: (Inr aip)
      obtain a ip where aip: "aip = (a, ip)" by fastforce
      let ?spec = "task_spec def (ho_Name h @ ''-'' @ td_Name def) bindings vol ip (h\<lparr>ho_docker := d1, ho_alloc := a\<rparr>)"
      obtain d2 r2 where c: "dk_ContainerCreate dk ?spec d1 = (d2, r2)" by fastforce
      note new = create_new[OF law c]
      have res: "(h', r) = (case r2 of Inl e \<Rightarrow> (h\<lparr>ho_docker := d2, ho_alloc := a\<rparr>, Inl e)
          | Inr i \<Rightarrow> (add_task (new_task def bindings vol ip i h) (h\<lparr>ho_docker := d2, ho_alloc := a\<rparr>), Inr (length (ho_heap h))))"
        using run p Inr bv next_ip aip c
        by (auto simp: CreateTask_def on_docker_def andThen_def nextAvailableIP_def new_task_def swap_alloc split: sum.splits)
      show thesis
      proof (cases r2)
        case (Inl e)
        have "tame conts (ho_docker h) d2" using new Inl t1 unfolding tame_def by blast
        then show thesis using res Inl next_ip aip by (intro failed[where d = d2 and a = a and e = e]) auto
      next
        case i: (Inr i)
        have "conts (ho_docker h) j = Some s \<or> cs_AutoRemove s \<or> j = i" if "conts d2 j = Some s" for j s
          using new[OF that] i t1 unfolding tame_def by blast
        then show thesis using res i next_ip aip by (intro created[where d = d2 and a = a and ip = ip and i = i]) auto
      qed
    qed
  qed
qed

section \<open>Sequences of operations\<close>

text \<open>What a program may do with a provider, whatever each call returns.\<close>

inductive docker_run :: "'d docker \<Rightarrow> 'a allocator \<Rightarrow> ('d, 'a) host \<Rightarrow> ('d, 'a) host \<Rightarrow> bool" for dk al h where
  Begin: "docker_run dk al h h"
| Create: "docker_run dk al h h1 \<Longrightarrow> CreateTask dk al ord def h1 = (h2, r) \<Longrightarrow> docker_run dk al h h2"
| Start: "docker_run dk al h h1 \<Longrightarrow> t < length (ho_heap h1) \<Longrightarrow> Task_Start dk t h1 = Some (h2, r) \<Longrightarrow> docker_run dk al h h2"
| Stop: "docker_run dk al h h1 \<Longrightarrow> t < length (ho_heap h1) \<Longrightarrow> Task_Stop dk t h1 = Some (h2, r) \<Longrightarrow> docker_run dk al h h2"
| Destroy: "docker_run dk al h h1 \<Longrightarrow> t < length (ho_heap h1) \<Longrightarrow> Task_Destroy dk t h1 = (h2, r) \<Longrightarrow> docker_run dk al h h2"
| WriteFile: "docker_run dk al h h1 \<Longrightarrow> t < length (ho_heap h1) \<Longrightarrow>
    on_docker (Task_WriteFile dk path content (GetState t h1)) h1 = (h2, r) \<Longrightarrow> docker_run dk al h h2"

lemma change_status_effect:
  assumes "change_status dk call s t h = Some (h', r)"
    and law: "daemon_law dk conts" and call: "\<And>d. tame conts d (fst (call (ts_Id (GetState t h)) d))"
  obtains d where "tame conts (ho_docker h) d" "h' = h\<lparr>ho_docker := d\<rparr> \<or> h' = set_status t s (h\<lparr>ho_docker := d\<rparr>)"
proof -
  obtain d1 r1 where c: "call (ts_Id (GetState t h)) (ho_docker h) = (d1, r1)" by fastforce
  then have t1: "tame conts (ho_docker h) d1" using call[of "ho_docker h"] by simp
  show thesis
  proof (cases r1)
    case (Inl e)
    have "h' = h\<lparr>ho_docker := d1\<rparr>" using assms(1) c Inl by (simp add: change_status_def on_docker_def)
    then show thesis using t1 that by blast
  next
    case (Inr u)
    then obtain y where w: "WaitForStatus dk (ts_Id (GetState t h)) s d1 = Some y"
      using assms(1) c by (auto simp: change_status_def on_docker_def GetState_def bind_eq_Some_conv)
    obtain d2 r2 where y: "y = (d2, r2)" by fastforce
    have "tame conts (ho_docker h) d2" using tame_trans[OF t1] wait_tame[OF law w] y by simp
    moreover have "h' = h\<lparr>ho_docker := d2\<rparr> \<or> h' = set_status t s (h\<lparr>ho_docker := d2\<rparr>)"
      using assms(1) c w y Inr by (auto simp: change_status_def on_docker_def GetState_def split: sum.splits)
    ultimately show thesis using that by blast
  qed
qed

lemma set_status_ips: "t < length (ho_heap h) \<Longrightarrow> task_ips (set_status t s h) = task_ips h"
  by (auto simp: task_ips_def set_status_def nth_list_update)

lemma set_status_ok: "t < length (ho_heap h) \<Longrightarrow> host_ok used h \<Longrightarrow> host_ok used (set_status t s h)"
  unfolding host_ok_def set_status_ips by (auto simp: set_status_def nth_list_update)

lemma docker_ok [simp]: "host_ok used (h\<lparr>ho_docker := d\<rparr>) = host_ok used h"
  by (simp add: host_ok_def task_ips_def)

lemma remove_ok: "host_ok used h \<Longrightarrow> host_ok used (removeTask i h)"
  unfolding host_ok_def removeTask_def task_ips_def
  by (auto simp: AList.delete_eq distinct_map_filter)

lemma destroy_effect:
  assumes "Task_Destroy dk t h = (h', r)"
  obtains (failed) d e where "dk_ContainerRemove dk (ts_Id (GetState t h)) True (ho_docker h) = (d, Inl e)" "h' = h\<lparr>ho_docker := d\<rparr>"
  | (destroyed) d where "dk_ContainerRemove dk (ts_Id (GetState t h)) True (ho_docker h) = (d, Inr ())"
      "h' = removeTask (ts_Id (GetState t h)) (h\<lparr>ho_docker := d\<rparr>)"
proof -
  obtain d r1 where c: "dk_ContainerRemove dk (ts_Id (GetState t h)) True (ho_docker h) = (d, r1)" by fastforce
  have "h' = (case r1 of Inl e \<Rightarrow> h\<lparr>ho_docker := d\<rparr> | Inr _ \<Rightarrow> removeTask (ts_Id (GetState t h)) (h\<lparr>ho_docker := d\<rparr>))"
    using assms c by (auto simp: Task_Destroy_def on_docker_def andThen_def GetState_def split: sum.splits)
  then show thesis using c failed destroyed by (cases r1) auto
qed

lemma write_effect:
  assumes "daemon_law dk conts" "on_docker (Task_WriteFile dk path content st) h = (h', r)"
  obtains d where "tame conts (ho_docker h) d" "h' = h\<lparr>ho_docker := d\<rparr>"
  using assms write_tame[OF assms(1), of "ho_docker h" "dk_Tar dk path content" st]
  by (cases "Task_WriteFile dk path content st (ho_docker h)") (auto simp: on_docker_def Task_WriteFile_def)

lemma no_daemon_law: "daemon_law dk (\<lambda>_. Map.empty)"
  by (simp add: daemon_law_def tame_def)

lemma host_ok_alloc:
  assumes "allocator_law al pool used" "al_Next al (ho_alloc h) = Inr (a, ip)" "host_ok used h"
  shows "host_ok used (h\<lparr>ho_docker := d, ho_alloc := a\<rparr>)"
proof -
  have "used a = insert ip (used (ho_alloc h))" using assms(1,2) by (simp add: allocator_law_def)
  then show ?thesis using assms(3) by (auto simp: host_ok_def task_ips_def)
qed

lemma change_status_ok:
  assumes "change_status dk call s t h = Some (h', r)" "t < length (ho_heap h)" "host_ok used h"
  shows "host_ok used h'"
proof (rule change_status_effect[OF assms(1) no_daemon_law])
  fix d
  assume "h' = h\<lparr>ho_docker := d\<rparr> \<or> h' = set_status t s (h\<lparr>ho_docker := d\<rparr>)"
  moreover have "host_ok used (set_status t s (h\<lparr>ho_docker := d\<rparr>))" using assms by (simp add: set_status_ok)
  ultimately show ?thesis using assms by auto
qed (simp add: tame_def)

lemma docker_run_ok:
  assumes run: "docker_run dk al h0 h" and law: "allocator_law al pool used" and ok: "host_ok used h0"
  shows "host_ok used h"
  using run
proof induction
  case (Create h1 ord def h2 r)
  show ?case
  proof (cases rule: CreateTask_effect[OF Create.hyps(2) no_daemon_law, case_names failed created])
    case (failed d a e)
    then show ?thesis using Create.IH host_ok_alloc[OF law] by (metis docker_ok same_alloc)
  next
    case (created d a ip bindings vol i)
    have "ip \<notin> used (ho_alloc h1)" "used a = insert ip (used (ho_alloc h1))"
      using law created(1) by (simp_all add: allocator_law_def)
    then show ?thesis unfolding created(3) by (intro host_ok_add_task) (simp_all add: Create.IH new_task_def)
  qed
next
  case (Start h1 t h2 r)
  then show ?case unfolding Task_Start_def by (blast intro: change_status_ok)
next
  case (Stop h1 t h2 r)
  then show ?case unfolding Task_Stop_def by (blast intro: change_status_ok)
next
  case (Destroy h1 t h2 r)
  from Destroy.hyps(3) show ?case by (cases rule: destroy_effect) (simp_all add: Destroy.IH remove_ok)
next
  case (WriteFile h1 t path content h2 r)
  then show ?case using write_effect[OF no_daemon_law WriteFile.hyps(3)] by (metis docker_ok)
qed (rule ok)

lemma create_provider_ok:
  assumes "Docker_CreateProvider dk al s1 s2 name d = (d', Inr h)" and law: "allocator_law al pool used"
  shows "host_ok used h \<and> ho_docker h = d' \<and> ho_TaskStates h = []"
proof -
  from assms(1) obtain cidr a gateway a' i where "al_New al cidr = Inr a" "al_Allocate al gateway a = Inr a'"
    "h = new_host d' name i (''petri-'' @ name) cidr gateway ''busybox:latest'' [] a'"
    by (auto simp: Docker_CreateProvider_def andThen_def and_then_def wrap_err_def Let_def
        split: prod.splits sum.splits if_splits list.splits)
  moreover from this have "gateway \<in> used a'" using law by (auto simp: allocator_law_def)
  ultimately show ?thesis by (simp add: new_host_def host_ok_def task_ips_def)
qed

lemma create_provider_tame:
  assumes "Docker_CreateProvider dk al s1 s2 name d = (d', r)" "daemon_law dk conts"
  shows "tame conts d d'"
proof -
  have "tame conts d (fst (initNetwork dk s1 s2 n m d))" for n m
    by (auto simp: initNetwork_def Let_def intro!: tame_andThen daemon_lawD(12)[OF assms(2)])
  then have "tame conts d (fst (Docker_CreateProvider dk al s1 s2 name d))"
    unfolding Docker_CreateProvider_def by (auto simp: Let_def split: list.splits intro!: tame_andThen)
  then show ?thesis using assms(1) by simp
qed

section \<open>Containers and the teardown\<close>

lemma recorded_tame: "recorded conts before h \<Longrightarrow> tame conts (ho_docker h) d \<Longrightarrow> recorded conts before (h\<lparr>ho_docker := d\<rparr>)"
  unfolding recorded_def tame_def by simp blast

lemma keys_mput: "set (keys (mput k v m)) = insert k (set (keys m))"
  by (induction m) auto

lemma keys_delete: "set (keys (AList.delete k m)) = set (keys m) - {k}"
  by (induction m) auto

lemma recorded_status: "recorded conts before (set_status t s h) = recorded conts before h"
  by (simp add: recorded_def set_status_def)

lemma change_status_recorded:
  assumes "change_status dk call s t h = Some (h', r)" "daemon_law dk conts" "recorded conts before h"
    "\<And>d. tame conts d (fst (call (ts_Id (GetState t h)) d))"
  shows "recorded conts before h'"
proof (rule change_status_effect[OF assms(1,2,4)])
  fix d
  assume t: "tame conts (ho_docker h) d" and h': "h' = h\<lparr>ho_docker := d\<rparr> \<or> h' = set_status t s (h\<lparr>ho_docker := d\<rparr>)"
  note r = recorded_tame[OF assms(3) t]
  from h' show ?thesis
  proof
    assume "h' = set_status t s (h\<lparr>ho_docker := d\<rparr>)"
    then show ?thesis by (simp only: recorded_status r)
  qed (simp only: r)
qed

lemma docker_run_recorded:
  assumes run: "docker_run dk al h0 h" and law: "daemon_law dk conts" and start: "recorded conts before h0"
  shows "recorded conts before h"
  using run
proof induction
  case (Create h1 ord def h2 r)
  show ?case
  proof (cases rule: CreateTask_effect[OF Create.hyps(2) law, case_names failed created])
    case (failed d a e)
    then show ?thesis using recorded_tame[OF Create.IH failed(4)] by (simp add: recorded_def)
  next
    case (created d a ip bindings vol i)
    have "set (keys (ho_TaskStates h2)) = insert i (set (keys (ho_TaskStates h1)))" and d: "ho_docker h2 = d"
      by (simp_all add: created(3) add_task_def new_task_def keys_mput del: set_map)
    then show ?thesis using Create.IH created(4) unfolding recorded_def d by blast
  qed
next
  case (Start h1 t h2 r)
  then show ?case unfolding Task_Start_def by (blast intro: change_status_recorded daemon_lawD(2) law)
next
  case (Stop h1 t h2 r)
  then show ?case unfolding Task_Stop_def by (blast intro: change_status_recorded daemon_lawD(3) law)
next
  case (Destroy h1 t h2 r)
  have t: "tame conts (ho_docker h1) (fst (dk_ContainerRemove dk (ts_Id (GetState t h1)) True (ho_docker h1)))"
    by (rule daemon_lawD(1)[OF law])
  from Destroy.hyps(3) show ?case
  proof (cases rule: destroy_effect)
    case (failed d e)
    then show ?thesis using t recorded_tame[OF Destroy.IH] by simp
  next
    case (destroyed d)
    have "recorded conts before (h1\<lparr>ho_docker := d\<rparr>)" using t destroyed recorded_tame[OF Destroy.IH] by simp
    then show ?thesis using removed[OF law destroyed(1)] unfolding destroyed(2) recorded_def removeTask_def
      by (fastforce simp: keys_delete simp del: set_map)
  qed
next
  case (WriteFile h1 t path content h2 r)
  then show ?case using write_effect[OF law WriteFile.hyps(3)] by (metis recorded_tame)
qed (rule start)

lemma teardown_tasks_removes:
  assumes law: "daemon_law dk conts" and "teardown_tasks dk ts d = (d', Inr ())"
    and "\<And>i s. conts d i = Some s \<Longrightarrow> P i s \<or> cs_AutoRemove s \<or> i \<in> ts_Id ` set ts"
  shows "conts d' i = Some s \<Longrightarrow> P i s \<or> cs_AutoRemove s"
  using assms(2,3)
proof (induction ts arbitrary: d)
  case (Cons task ts)
  obtain d1 d2 u where r: "dk_ContainerRemove dk (ts_Id task) False d = (d1, Inr ())"
    and v: "(case ts_Volume task of None \<Rightarrow> (d1, Inr ()) | Some v \<Rightarrow> dk_VolumeRemove dk (vs_Name v) d1) = (d2, Inr u)"
    and rest: "teardown_tasks dk ts d2 = (d', Inr ())"
    using Cons.prems(2) by (auto simp: andThen_ok)
  have "tame conts d1 d2" using v daemon_lawD(4)[OF law, of d1] by (auto split: option.splits) (metis fst_conv)+
  moreover have "tame conts d d1" using daemon_lawD(1)[OF law, of d "ts_Id task" False] r by simp
  moreover have "conts d1 (ts_Id task) = None" using removed[OF law r] .
  ultimately have "P j s \<or> cs_AutoRemove s \<or> j \<in> ts_Id ` set ts" if "conts d2 j = Some s" for j s
    using that Cons.prems(3)[of j s] unfolding tame_def by fastforce
  then show ?case using Cons.IH[OF Cons.prems(1) rest] by blast
qed auto

lemma Docker_Teardown_removes:
  assumes law: "daemon_law dk conts" and "Docker_Teardown dk h = (h', Inr ())" "recorded conts before h" "host_ok used h"
    and left: "conts (ho_docker h') i = Some s"
  shows "before i = Some s \<or> cs_AutoRemove s"
proof -
  let ?ts = "map (\<lambda>(k, t). ho_heap h ! t) (ho_TaskStates h)"
  obtain d1 d2 where t: "teardown_tasks dk ?ts (ho_docker h) = (d1, Inr ())"
    and n: "dk_NetworkRemove dk (ho_NetworkID h) d1 = (d2, Inr ())" "ho_docker h' = d2"
    using assms(2) by (auto simp: Docker_Teardown_def andThen_ok destroyNetwork_def on_docker_def split: prod.split_asm)
  have "map ts_Id ?ts = keys (ho_TaskStates h)"
    using assms(4) by (auto simp: host_ok_def)
  then have ids: "ts_Id ` set ?ts = set (keys (ho_TaskStates h))" by (metis list.set_map)
  have "before j = Some s \<or> cs_AutoRemove s" if "conts d1 j = Some s" for j s
    using teardown_tasks_removes[OF law t, of "\<lambda>i s. before i = Some s"] assms(3) that unfolding recorded_def ids by blast
  then show ?thesis using left n daemon_lawD(5)[OF law, of d1 "ho_NetworkID h"] unfolding tame_def by (metis fst_conv)
qed

section \<open>Restoring a provider\<close>

lemma allocator_law_pool: "allocator_law al pool used \<Longrightarrow> allocator_law al pool (\<lambda>a. used a \<inter> pool a)"
  unfolding allocator_law_def by (intro conjI allI impI) (auto; blast)+

lemma allocator_lawD:
  assumes "allocator_law al pool used"
  shows "ip \<in> pool a \<Longrightarrow> ip \<notin> used a \<Longrightarrow> \<exists>a'. al_Allocate al ip a = Inr a'"
    "al_Allocate al ip a = Inr a' \<Longrightarrow> ip \<in> pool a"
    "al_Allocate al ip a = Inr a' \<Longrightarrow> used a' = insert ip (used a) \<and> pool a' = pool a"
    "al_New al c = Inr a \<Longrightarrow> used a = {}"
proof -
  have iff: "(\<exists>a'. al_Allocate al ip a = Inr a') \<longleftrightarrow> ip \<in> pool a \<and> ip \<notin> used a"
    using assms by (simp only: allocator_law_def)
  then show "ip \<in> pool a \<Longrightarrow> ip \<notin> used a \<Longrightarrow> \<exists>a'. al_Allocate al ip a = Inr a'"
    "al_Allocate al ip a = Inr a' \<Longrightarrow> ip \<in> pool a" by auto
qed (use assms in \<open>simp_all add: allocator_law_def\<close>)

lemma allocate_all_ok:
  assumes "allocator_law al pool used" "distinct ips" "set ips \<inter> used a = {}" "set ips \<subseteq> pool a"
  shows "\<exists>a'. allocate_all al ips a = Inr a' \<and> used a' = used a \<union> set ips"
  using assms(2-4)
proof (induction ips arbitrary: a)
  case (Cons ip ips)
  obtain a' where a': "al_Allocate al ip a = Inr a'" using allocator_lawD(1)[OF assms(1), of ip a] Cons.prems by auto
  then have "used a' = insert ip (used a)" "pool a' = pool a" using allocator_lawD(3)[OF assms(1)] by auto
  then show ?case using Cons.IH[of a'] Cons.prems a' by (auto simp: and_then_def wrap_err_def)
qed simp

text \<open>What a provider never changes.\<close>

definition same_network :: "('a \<Rightarrow> string set) \<Rightarrow> ('d, 'a) host \<Rightarrow> ('d, 'a) host \<Rightarrow> bool" where
  "same_network pool h h' \<longleftrightarrow> ho_Name h' = ho_Name h \<and> ho_NetworkID h' = ho_NetworkID h \<and> ho_NetworkName h' = ho_NetworkName h \<and>
     ho_NetworkCIDR h' = ho_NetworkCIDR h \<and> ho_NetworkGateway h' = ho_NetworkGateway h \<and> pool (ho_alloc h') = pool (ho_alloc h)"

lemma change_status_network:
  assumes "change_status dk call s t h = Some (h', r)"
  shows "same_network pool h h'"
  by (rule change_status_effect[OF assms no_daemon_law]) (auto simp: tame_def same_network_def set_status_def)

lemma docker_run_network:
  assumes run: "docker_run dk al h0 h" and law: "allocator_law al pool used"
  shows "same_network pool h0 h"
  using run
proof induction
  case (Create h1 ord def h2 r)
  have pool: "al_Next al (ho_alloc h1) = Inr (a, ip) \<Longrightarrow> pool a = pool (ho_alloc h1)" for a ip
    using law by (simp add: allocator_law_def)
  show ?case
  proof (cases rule: CreateTask_effect[OF Create.hyps(2) no_daemon_law, case_names failed created])
    case (failed d a e)
    then have "pool a = pool (ho_alloc h1)" using pool by auto
    then show ?thesis using Create.IH failed(1) by (simp add: same_network_def)
  next
    case (created d a ip bindings vol i)
    then show ?thesis using Create.IH pool by (simp add: same_network_def add_task_def)
  qed
next
  case (Start h1 t h2 r)
  then show ?case using change_status_network[of dk _ _ t h1 h2 r pool] by (simp add: Task_Start_def same_network_def)
next
  case (Stop h1 t h2 r)
  then show ?case using change_status_network[of dk _ _ t h1 h2 r pool] by (simp add: Task_Stop_def same_network_def)
next
  case (Destroy h1 t h2 r)
  from Destroy.hyps(3) show ?case using Destroy.IH by (cases rule: destroy_effect) (simp_all add: same_network_def removeTask_def)
next
  case (WriteFile h1 t path content h2 r)
  show ?case
    by (rule write_effect[OF no_daemon_law WriteFile.hyps(3)]) (use WriteFile.IH in \<open>simp add: same_network_def\<close>)
qed (simp add: same_network_def)

lemma zip_heap: "map (\<lambda>(k, t). (k, map snd tasks ! t)) (zip (keys tasks) [0..<length tasks]) = tasks"
  by (rule nth_equalityI) auto

lemma restored_state: "provider_state (new_host d n i nn c g b tasks a) =
  \<lparr> st_TaskStates = tasks, st_Name = n, st_NetworkID = i, st_NetworkName = nn, st_NetworkCIDR = c, st_NetworkGateway = g,
    st_BuilderImageName = b \<rparr>"
  by (simp add: provider_state_def new_host_def zip_heap)

lemma state_ips: "task_ips h = map (ts_IpAddress \<circ> snd) (st_TaskStates (provider_state h))"
  by (auto simp: provider_state_def task_ips_def)

lemma state_keys: "keys (st_TaskStates (provider_state h)) = keys (ho_TaskStates h)"
  by (auto simp: provider_state_def)

lemma restored_ids:
  "(k, t) \<in> set (ho_TaskStates (new_host d n i nn c g b tasks a)) \<Longrightarrow> t < length tasks \<and> k = fst (tasks ! t)"
  by (auto simp: new_host_def in_set_zip)

lemma restored_ok:
  assumes "host_ok used h" "set (ho_NetworkGateway h # task_ips h) \<subseteq> used a"
  shows "host_ok used (new_host d n i nn c (ho_NetworkGateway h) b (st_TaskStates (provider_state h)) a)"
    (is "host_ok used ?h")
proof -
  let ?ts = "st_TaskStates (provider_state h)"
  have ips: "task_ips ?h = task_ips h" unfolding state_ips by (simp add: restored_state)
  have len: "length ?ts = length (ho_TaskStates h)" by (simp add: provider_state_def)
  have "t < length (ho_heap ?h) \<and> ts_Id (ho_heap ?h ! t) = k" if kt: "(k, t) \<in> set (ho_TaskStates ?h)" for k t
  proof -
    have t: "t < length (ho_TaskStates h)" and k: "k = fst (?ts ! t)" using restored_ids[OF kt] len by auto
    then have "(k, snd (ho_TaskStates h ! t)) \<in> set (ho_TaskStates h)"
      by (auto simp: provider_state_def split: prod.splits) (metis fst_conv nth_mem prod.collapse snd_conv)
    moreover have "ho_heap ?h ! t = ho_heap h ! snd (ho_TaskStates h ! t)"
      using t by (auto simp: new_host_def provider_state_def split: prod.splits)
    ultimately show ?thesis using assms(1) t len by (auto simp: host_ok_def new_host_def)
  qed
  moreover have "keys (ho_TaskStates ?h) = keys (ho_TaskStates h)"
    using state_keys[of ?h] state_keys[of h] by (simp add: restored_state)
  moreover have "ho_NetworkGateway ?h = ho_NetworkGateway h" "ho_alloc ?h = a" by (simp_all add: new_host_def)
  ultimately show ?thesis using assms unfolding host_ok_def ips by auto
qed

lemma create_provider_network:
  assumes "Docker_CreateProvider dk al s1 s2 name d = (d', Inr h)" "allocator_law al pool used"
  obtains subnet a where "al_ParseCIDR al subnet = Inr (ho_NetworkCIDR h)" "al_New al (ho_NetworkCIDR h) = Inr a"
    "pool a = pool (ho_alloc h)"
proof -
  from assms(1) obtain subnet cidr a gateway a' i where n: "al_ParseCIDR al subnet = Inr cidr" "al_New al cidr = Inr a"
    "al_Allocate al gateway a = Inr a'"
    "h = new_host d' name i (''petri-'' @ name) cidr gateway ''busybox:latest'' [] a'"
    by (auto simp: Docker_CreateProvider_def andThen_def and_then_def wrap_err_def Let_def
        split: prod.splits sum.splits if_splits list.splits)
  show thesis
    by (rule that[of subnet a]) (use n allocator_lawD(3)[OF assms(2) n(3)] in \<open>simp_all add: new_host_def\<close>)
qed

lemma Docker_RestoreProvider_ok:
  assumes law: "allocator_law al pool used" and ok: "host_ok used h"
    and cidr: "al_ParseCIDR al (ho_NetworkCIDR h) = Inr (ho_NetworkCIDR h)" "al_New al (ho_NetworkCIDR h) = Inr a"
    and pool: "set (ho_NetworkGateway h # task_ips h) \<subseteq> pool a"
    and codec: "dec bz = Inr (provider_state h)"
    and daemon: "dk_Connect dk = Inr ()" "dk_Ping dk d = Inr ()"
      "ensureNetwork dk (ho_NetworkID h) (ho_NetworkName h) (ho_NetworkCIDR h) d = Inr ()"
  shows "\<exists>h'. Docker_RestoreProvider dk al dec bz d = Inr h' \<and> provider_state h' = provider_state h \<and> host_ok used h'"
proof -
  have "distinct (ho_NetworkGateway h # task_ips h)" using ok by (simp add: host_ok_def)
  moreover have "used a = {}" using allocator_lawD(4)[OF law cidr(2)] .
  ultimately obtain a1 a2 where a: "al_Allocate al (ho_NetworkGateway h) a = Inr a1" "allocate_all al (task_ips h) a1 = Inr a2"
      "used a2 = set (ho_NetworkGateway h # task_ips h)"
    using allocate_all_ok[OF law, of "ho_NetworkGateway h # task_ips h" a] pool
    by (auto simp: and_then_def wrap_err_def split: sum.splits)
  let ?h = "new_host d (ho_Name h) (ho_NetworkID h) (ho_NetworkName h) (ho_NetworkCIDR h) (ho_NetworkGateway h)
    (ho_BuilderImageName h) (st_TaskStates (provider_state h)) a2"
  have "Docker_RestoreProvider dk al dec bz d = Inr ?h"
    using cidr codec daemon a unfolding state_ips
    by (simp add: Docker_RestoreProvider_def and_then_def wrap_err_def provider_state_def)
  moreover have "provider_state ?h = provider_state h" by (simp add: restored_state) (simp add: provider_state_def)
  moreover have "host_ok used ?h" by (rule restored_ok[OF ok]) (simp add: a(3))
  ultimately show ?thesis by blast
qed

section \<open>Waiting for a container\<close>

text \<open>\<open>n\<close> polls see another status, and the next one the desired one.\<close>

definition settles :: "'d docker \<Rightarrow> string \<Rightarrow> TaskStatus \<Rightarrow> nat \<Rightarrow> 'd \<Rightarrow> bool" where
  "settles dk i s n d \<longleftrightarrow>
     (\<forall>k \<le> n. dk_Done dk ((dk_Sleep dk ^^ k) d) = None) \<and>
     (\<forall>k < n. \<exists>s'. GetStatus dk i ((dk_Sleep dk ^^ k) d) = Inr s' \<and> s' \<noteq> s) \<and>
     GetStatus dk i ((dk_Sleep dk ^^ n) d) = Inr s"

lemma WaitForStatus_returns: "settles dk i s n d \<Longrightarrow> WaitForStatus dk i s d = Some ((dk_Sleep dk ^^ n) d, Inr ())"
proof (induction n arbitrary: d)
  case 0
  then show ?case by (subst WaitForStatus.simps) (simp add: settles_def)
next
  case (Suc n)
  have now: "dk_Done dk d = None" "\<exists>s'. GetStatus dk i d = Inr s' \<and> s' \<noteq> s"
    using Suc.prems by (auto simp: settles_def dest: spec[of _ 0])
  have e: "(dk_Sleep dk ^^ k) (dk_Sleep dk d) = (dk_Sleep dk ^^ Suc k) d" for k
    by (simp only: funpow_Suc_right o_apply)
  have "settles dk i s n (dk_Sleep dk d)"
    using Suc.prems unfolding settles_def e by (meson Suc_le_mono Suc_less_eq)
  then show ?case using now Suc.IH by (subst WaitForStatus.simps) (auto simp: e simp del: funpow.simps)
qed

section \<open>A daemon and an allocator\<close>

text \<open>A daemon that has every image and lets every container run: its state is the containers there are, by
  their number, and how many were created. The allocator's state is the list of addresses taken.\<close>

type_synonym demo_daemon = "nat \<times> ContainerSpec gomap"

definition demo_docker :: "demo_daemon docker" where
  "demo_docker = \<lparr> dk_Connect = Inr (), dk_Ping = \<lambda>_. Inr (), dk_HasImage = \<lambda>_ _. True, dk_Pull = \<lambda>_ _ d. (d, Inr ()),
     dk_ContainerCreate = \<lambda>s (n, cs). ((Suc n, mput (show_nat n) s cs), Inr (show_nat n)),
     dk_ContainerStart = \<lambda>_ d. (d, Inr ()), dk_ContainerStop = \<lambda>_ d. (d, Inr ()),
     dk_ContainerRemove = \<lambda>i _ (n, cs). ((n, AList.delete i cs), Inr ()),
     dk_ContainerLogs = \<lambda>_ _. Inr (Inr ([], [])),
     dk_ContainerInspect = \<lambda>i _. Inr \<lparr> cj_Name = i, cj_Status = ''running'', cj_Networks = [] \<rparr>,
     dk_IsErrNotFound = \<lambda>_. False, dk_ContainerWait = \<lambda>i (n, cs). ((n, AList.delete i cs), WaitResult None 0),
     dk_CopyTo = \<lambda>_ _ _ d. (d, Inr ()), dk_CopyFrom = \<lambda>_ _ _. Inr [], dk_Tar = \<lambda>n c. Inr [(n, c)],
     dk_VolumeInspect = \<lambda>v _. Inr v, dk_VolumeCreate = \<lambda>v _ d. (d, Inr v), dk_VolumeRemove = \<lambda>_ d. (d, Inr ()),
     dk_NetworkCreate = \<lambda>_ d. (d, Inr ''net''),
     dk_NetworkInspect = \<lambda>i _. Inr \<lparr> ni_ID = i, ni_Name = ''petri-p'', ni_IPAM = [(''192.1.2.0/24'', ''192.1.2.1'')] \<rparr>,
     dk_NetworkRemove = \<lambda>_ d. (d, Inr ()), dk_ExecCreate = \<lambda>_ _ d. (d, Inr []), dk_ExecAttach = \<lambda>_ d. (d, Inr ()),
     dk_ExecInspect = \<lambda>_ _. Inr (False, 0), dk_ExecOutput = \<lambda>_ _. Inr ([], []), dk_Sleep = id, dk_Done = \<lambda>_. None,
     dk_UnixNano = \<lambda>_. 0, dk_FreePort = \<lambda>d. (d, Inr 0) \<rparr>"

definition demo_pool :: "string list" where
  "demo_pool = [''192.1.2.1'', ''192.1.2.2'', ''192.1.2.3'']"

definition demo_allocator :: "string list allocator" where
  "demo_allocator = \<lparr> al_ParseCIDR = Inr, al_New = \<lambda>_. Inr [],
     al_Allocate = \<lambda>ip a. if ip \<in> set demo_pool \<and> ip \<notin> set a then Inr (ip # a) else Inl (New ''not available''),
     al_Next = \<lambda>a. case filter (\<lambda>ip. ip \<notin> set a) demo_pool of [] \<Rightarrow> Inl (New ''full'') | ip # _ \<Rightarrow> Inr (ip # a, ip) \<rparr>"

lemma demo_allocator_law: "allocator_law demo_allocator (\<lambda>_. set demo_pool) set"
proof -
  have "ip \<in> set demo_pool \<and> ip \<notin> set a \<and> set a' = insert ip (set a)" if "al_Next demo_allocator a = Inr (a', ip)" for a a' ip
  proof (cases "filter (\<lambda>ip. ip \<notin> set a) demo_pool")
    case (Cons x xs)
    then have "x \<in> set (filter (\<lambda>ip. ip \<notin> set a) demo_pool)" by simp
    then have "x \<in> set demo_pool" "x \<notin> set a" by simp_all
    then show ?thesis using that Cons by (auto simp: demo_allocator_def)
  qed (use that in \<open>simp add: demo_allocator_def\<close>)
  moreover have "(\<exists>a'. al_Allocate demo_allocator ip a = Inr a') \<longleftrightarrow> ip \<in> set demo_pool \<and> ip \<notin> set a"
    "al_Allocate demo_allocator ip a = Inr a' \<Longrightarrow> set a' = insert ip (set a)"
    "al_New demo_allocator c = Inr a \<Longrightarrow> set a = {}" for ip a a' c
    by (auto simp: demo_allocator_def split: if_splits)
  ultimately show ?thesis unfolding allocator_law_def by simp
qed

definition demo_conts :: "demo_daemon \<Rightarrow> string \<rightharpoonup> ContainerSpec" where
  "demo_conts d = map_of (snd d)"

lemma demo_daemon_law: "daemon_law demo_docker demo_conts"
  by (auto simp: daemon_law_def demo_docker_def tame_def demo_conts_def delete_conv split: if_splits)

definition demo_task :: TaskDefinition where
  "demo_task = \<lparr> td_Name = ''v0'', td_Image = \<lparr> img_Image = ''img'', img_UID = ''0'', img_GID = ''0'' \<rparr>, td_Ports = [],
     td_Environment = [], td_DataDir = ''/data'', td_Entrypoint = [], td_Command = [], td_Args = [], td_ProviderSpecificConfig = None \<rparr>"

definition demo_start :: demo_daemon where
  "demo_start = (1, [(''other'', empty_spec)])"

definition demo_host :: "(demo_daemon, string list) host" where
  "demo_host = new_host demo_start ''p'' ''net'' ''petri-p'' ''192.1.2.0/24'' ''192.1.2.1'' ''busybox:latest'' [] [''192.1.2.1'']"

lemma demo_create: "Docker_CreateProvider demo_docker demo_allocator 1 2 ''p'' demo_start = (demo_start, Inr demo_host)"
  by code_simp

definition demo_host1 :: "(demo_daemon, string list) host" where
  "demo_host1 =
     (let vol = Some \<lparr> vs_Name = ''p-v0-data'', vs_Size = ''10GB'' \<rparr>;
          spec = task_spec demo_task ''p-v0'' [] vol ''192.1.2.2'' demo_host
      in add_task (new_task demo_task [] vol ''192.1.2.2'' ''2'' demo_host)
           (demo_host\<lparr>ho_docker := (3, [(''other'', empty_spec), (''2'', spec)]), ho_alloc := [''192.1.2.2'', ''192.1.2.1'']\<rparr>))"

lemma demo_valid: "TaskDefinition_ValidateBasic demo_task = Inr ()"
  by (simp add: TaskDefinition_ValidateBasic_def demo_task_def ImageDefinition_ValidateBasic_def ParseUint_def is_digit_def digits_val_def
      is_ok_def)

lemma demo_owner: "SetVolumeOwner demo_docker b p v u g demo_start = ((2, [(''other'', empty_spec)]), Inr ())"
  by (simp add: SetVolumeOwner_def with_helper_def ImagePull_def demo_docker_def andThen_def wrapping_def wrap_err_def run_helper_def
      demo_start_def show_nat.simps digit_char_def AList.delete_eq)

lemma demo_prepare: "prepare_task demo_docker id b p demo_task demo_start =
    ((2, [(''other'', empty_spec)]), Inr ([], Some \<lparr> vs_Name = p @ ''-v0-data'', vs_Size = ''10GB'' \<rparr>))"
proof -
  have v: "CreateVolume demo_docker p v demo_start = (demo_start, Inr (vd_Name v))" if "VolumeDefinition_ValidateBasic v = Inr ()" for v
    using that by (simp add: CreateVolume_def demo_docker_def)
  have "data_volume demo_docker b p (p @ ''-v0'') demo_task demo_start =
      ((2, [(''other'', empty_spec)]), Inr (Some \<lparr> vs_Name = p @ ''-v0-data'', vs_Size = ''10GB'' \<rparr>))"
    by (simp add: data_volume_def v demo_owner demo_task_def VolumeDefinition_ValidateBasic_def)
  then show ?thesis
    unfolding prepare_task_def demo_valid
    by (simp add: andThen_def wrap_err_def ImagePull_def convertTaskDefinitionPortsToPortSet_def demo_task_def)
       (simp add: demo_docker_def)
qed

lemma demo_create_task: "CreateTask demo_docker demo_allocator id demo_task demo_host = (demo_host1, Inr 0)"
proof -
  have c: "dk_ContainerCreate demo_docker spec (2, cs) = ((3, mput ''2'' spec cs), Inr ''2'')" for spec cs
  proof -
    have "show_nat 2 = ''2''" by code_simp
    then show ?thesis by (simp add: demo_docker_def)
  qed
  have n: "al_Next demo_allocator [''192.1.2.1''] = Inr ([''192.1.2.2'', ''192.1.2.1''], ''192.1.2.2'')"
    by (simp add: demo_allocator_def demo_pool_def)
  have "td_Name demo_task = ''v0''" by (simp add: demo_task_def)
  then show ?thesis
    by (simp add: CreateTask_def on_docker_def demo_host_def new_host_def demo_prepare andThen_def nextAvailableIP_def c n
        demo_host1_def Let_def task_spec_def new_task_def)
qed

lemma demo_docker_run: "docker_run demo_docker demo_allocator demo_host demo_host1"
  by (rule Create[OF Begin demo_create_task])

section \<open>Properties\<close>





text \<open>A provider can be restored from its serialised state at any point of its life: if the daemon still
  has the network, restoring accepts the state, and the restored provider has the same state again,
  with every address marked as taken.\<close>

theorem docker_restore_roundtrip:
  assumes create: "Docker_CreateProvider dk al subnet1 subnet2 name d0 = (d', Inr h0)" and run: "docker_run dk al h0 h"
    and law: "allocator_law al pool used"
    and parse: "\<And>s c. al_ParseCIDR al s = Inr c \<Longrightarrow> al_ParseCIDR al c = Inr c"
    and codec: "\<And>bz. enc (provider_state h) = Inr bz \<Longrightarrow> dec bz = Inr (provider_state h)"
    and bz: "SerializeProvider enc h = Inr bz"
    and daemon: "dk_Connect dk = Inr ()" "dk_Ping dk d = Inr ()"
      "ensureNetwork dk (ho_NetworkID h) (ho_NetworkName h) (ho_NetworkCIDR h) d = Inr ()"
  shows "\<exists>h'. Docker_RestoreProvider dk al dec bz d = Inr h' \<and> provider_state h' = provider_state h \<and> host_ok used h'"
proof -
  obtain subnet a where a: "al_ParseCIDR al subnet = Inr (ho_NetworkCIDR h0)" "al_New al (ho_NetworkCIDR h0) = Inr a"
    "pool a = pool (ho_alloc h0)" using create_provider_network[OF create law] by blast
  have net: "same_network pool h0 h" by (rule docker_run_network[OF run law])
  note ok = docker_run_ok[OF run] create_provider_ok[OF create]
  have "host_ok used h" using ok law by blast
  moreover have "host_ok (\<lambda>a. used a \<inter> pool a) h" using ok allocator_law_pool[OF law] by blast
  then have "set (ho_NetworkGateway h # task_ips h) \<subseteq> pool a" using net a(3) by (auto simp: host_ok_def same_network_def)
  ultimately show ?thesis
    using net a parse[OF a(1)] codec bz daemon
    by (intro Docker_RestoreProvider_ok[OF law, where a = a]) (auto simp: same_network_def SerializeProvider_def)
qed

text \<open>C38: Starting a task returns: when the daemon accepts the call and the container is running after finitely
  many polls, before the context is done, the call succeeds and records the task as running, for the task and
  for the provider's map, which share the state.\<close>

theorem Task_Start_returns:
  assumes "dk_ContainerStart dk (ts_Id (GetState t h)) (ho_docker h) = (d, Inr ())"
    and "settles dk (ts_Id (GetState t h)) TASK_RUNNING n d" and "t < length (ho_heap h)"
  shows "\<exists>h'. Task_Start dk t h = Some (h', Inr ()) \<and> ho_docker h' = (dk_Sleep dk ^^ n) d \<and>
    ts_Status (GetState t h') = TASK_RUNNING \<and> ho_TaskStates h' = ho_TaskStates h"
  using assms WaitForStatus_returns[OF assms(2)]
  by (simp add: Task_Start_def change_status_def on_docker_def GetState_def set_status_def)

theorem Task_Start_returns_witness:
  "\<exists>h'. Task_Start demo_docker 0 demo_host1 = Some (h', Inr ()) \<and> ts_Status (GetState 0 h') = TASK_RUNNING"
proof -
  have s: "dk_ContainerStart demo_docker (ts_Id (GetState 0 demo_host1)) (ho_docker demo_host1) = (ho_docker demo_host1, Inr ())"
    by (simp add: demo_docker_def)
  have w: "settles demo_docker (ts_Id (GetState 0 demo_host1)) TASK_RUNNING 0 (ho_docker demo_host1)"
    by (simp add: settles_def demo_docker_def GetStatus_def and_then_def status_of_def)
  have "0 < length (ho_heap demo_host1)" by (simp add: demo_host1_def add_task_def Let_def)
  from Task_Start_returns[OF s w this] show ?thesis by blast
qed

definition demo_dec :: "string \<Rightarrow> ProviderState result" where
  "demo_dec bz = (if bz = ''state'' then Inr (provider_state demo_host1) else Inl (New ''no state''))"

theorem docker_restore_roundtrip_witness:
  "\<exists>h'. Docker_RestoreProvider demo_docker demo_allocator demo_dec ''state'' demo_start = Inr h' \<and>
     provider_state h' = provider_state demo_host1 \<and> host_ok set h'"
proof (rule docker_restore_roundtrip[where enc = "\<lambda>_. Inr ''state''", OF demo_create demo_docker_run demo_allocator_law])
  show "ensureNetwork demo_docker (ho_NetworkID demo_host1) (ho_NetworkName demo_host1) (ho_NetworkCIDR demo_host1) demo_start = Inr ()"
    by code_simp
qed (simp_all add: demo_allocator_def demo_docker_def demo_dec_def SerializeProvider_def)

end
