(* ===== verification/DO_Client.thy ===== *)
theory DO_Client
  imports Docker_Task Util
begin

text \<open>
  What the DigitalOcean provider is built on: the API client of
  \<open>petri/core/provider/digitalocean/client.go\<close>, \<open>tailscale.go\<close>, \<open>telemetry.go\<close> and \<open>util.go\<close>. The library behind
  the client is the parameter \<open>gd\<close> on a state \<open>'g\<close>, the account; each of its calls answers with a value, the
  status code of a response, if there is one, and an error, if there is one.
\<close>

section \<open>The API\<close>

type_synonym 'a response = "'a \<times> int option \<times> error option"

record DropletInfo =
  dr_ID :: int
  dr_Name :: string
  dr_Status :: string
  dr_PublicIPv4 :: "string result"
  dr_PrivateIPv4 :: "string result"

record DropletCreateRequest =
  dq_Name :: string
  dq_Region :: string
  dq_Size :: string
  dq_SSHKeys :: "int list"
  dq_Image :: int
  dq_Tags :: "string list"
  dq_UserData :: string

text \<open>A rule of a firewall: protocol, port range and addresses.\<close>

record FirewallRequest =
  fq_Name :: string
  fq_Tags :: "string list"
  fq_InboundRules :: "(string \<times> string \<times> string list) list"
  fq_OutboundRules :: "(string \<times> string \<times> string list) list"

record DomainRecordEditRequest =
  rq_Type :: string
  rq_Name :: string
  rq_Data :: string
  rq_TTL :: int

record 'g godo =
  gd_DropletCreate :: "DropletCreateRequest \<Rightarrow> 'g \<Rightarrow> 'g \<times> DropletInfo response"
  gd_DropletGet :: "int \<Rightarrow> 'g \<Rightarrow> DropletInfo response"
  gd_DropletList :: "nat \<Rightarrow> 'g \<Rightarrow> DropletInfo list response"
  gd_DropletDeleteByTag :: "string \<Rightarrow> 'g \<Rightarrow> 'g \<times> unit response"
  gd_DropletDelete :: "int \<Rightarrow> 'g \<Rightarrow> 'g \<times> unit response"
  gd_FirewallCreate :: "FirewallRequest \<Rightarrow> 'g \<Rightarrow> 'g \<times> string response"
  gd_FirewallGet :: "string \<Rightarrow> 'g \<Rightarrow> string response"
  gd_FirewallList :: "nat \<Rightarrow> 'g \<Rightarrow> string list response"
  gd_FirewallDelete :: "string \<Rightarrow> 'g \<Rightarrow> 'g \<times> unit response"
  gd_RecordCreate :: "string \<Rightarrow> DomainRecordEditRequest \<Rightarrow> 'g \<Rightarrow> 'g \<times> int response"
  gd_RecordGet :: "string \<Rightarrow> int \<Rightarrow> 'g \<Rightarrow> int response"
  gd_RecordDelete :: "string \<Rightarrow> int \<Rightarrow> 'g \<Rightarrow> 'g \<times> unit response"
  gd_KeyCreate :: "string \<Rightarrow> string \<Rightarrow> 'g \<Rightarrow> 'g \<times> string response"
  gd_KeyDelete :: "string \<Rightarrow> 'g \<Rightarrow> 'g \<times> unit response"
  gd_KeyGet :: "string \<Rightarrow> 'g \<Rightarrow> string response"
  gd_TagCreate :: "string \<Rightarrow> 'g \<Rightarrow> 'g \<times> string response"
  gd_TagList :: "nat \<Rightarrow> 'g \<Rightarrow> string list response"
  gd_TagDelete :: "string \<Rightarrow> 'g \<Rightarrow> 'g \<times> unit response"

definition ErrorResourceNotFound :: error where "ErrorResourceNotFound = New ''resource not found''"
definition ErrorEmptyResponse :: error where "ErrorEmptyResponse = New ''unexpected empty response''"

definition checkResponse :: "int option \<Rightarrow> error option \<Rightarrow> unit result" where
  "checkResponse res err =
     (case err of
        Some e \<Rightarrow> Inl e
      | None \<Rightarrow>
          (case res of
             None \<Rightarrow> Inl ErrorEmptyResponse
           | Some code \<Rightarrow>
               if code = 404 then Inl ErrorResourceNotFound
               else if code > 299 \<or> code < 200 then Inl (New (''unexpected status code: '' @ Itoa code))
               else Inr ()))"

definition received :: "'a response \<Rightarrow> 'a result" where
  "received r = (case r of (v, res, err) \<Rightarrow> and_then (checkResponse res err) (\<lambda>_. Inr v))"

definition CreateDroplet_call :: "'g godo \<Rightarrow> DropletCreateRequest \<Rightarrow> 'g \<Rightarrow> 'g \<times> DropletInfo result" where
  "CreateDroplet_call gd req g = apsnd received (gd_DropletCreate gd req g)"

definition GetDroplet_call :: "'g godo \<Rightarrow> int \<Rightarrow> 'g \<Rightarrow> DropletInfo result" where
  "GetDroplet_call gd i g = received (gd_DropletGet gd i g)"

definition ListDroplets :: "'g godo \<Rightarrow> nat \<Rightarrow> 'g \<Rightarrow> DropletInfo list result" where
  "ListDroplets gd page g = received (gd_DropletList gd page g)"

definition DeleteDropletByTag :: "'g godo \<Rightarrow> string \<Rightarrow> 'g \<Rightarrow> 'g \<times> unit result" where
  "DeleteDropletByTag gd tag g = apsnd received (gd_DropletDeleteByTag gd tag g)"

definition DeleteDropletByID :: "'g godo \<Rightarrow> int \<Rightarrow> 'g \<Rightarrow> 'g \<times> unit result" where
  "DeleteDropletByID gd i g = apsnd received (gd_DropletDelete gd i g)"

definition CreateFirewall_call :: "'g godo \<Rightarrow> FirewallRequest \<Rightarrow> 'g \<Rightarrow> 'g \<times> string result" where
  "CreateFirewall_call gd req g = apsnd received (gd_FirewallCreate gd req g)"

definition GetFirewall :: "'g godo \<Rightarrow> string \<Rightarrow> 'g \<Rightarrow> string result" where
  "GetFirewall gd i g = received (gd_FirewallGet gd i g)"

definition ListFirewalls :: "'g godo \<Rightarrow> nat \<Rightarrow> 'g \<Rightarrow> string list result" where
  "ListFirewalls gd page g = received (gd_FirewallList gd page g)"

definition DeleteFirewall :: "'g godo \<Rightarrow> string \<Rightarrow> 'g \<Rightarrow> 'g \<times> unit result" where
  "DeleteFirewall gd i g = apsnd received (gd_FirewallDelete gd i g)"

definition CreateDomain :: "'g godo \<Rightarrow> string \<Rightarrow> DomainRecordEditRequest \<Rightarrow> 'g \<Rightarrow> 'g \<times> int result" where
  "CreateDomain gd root req g = apsnd received (gd_RecordCreate gd root req g)"

definition GetDomain :: "'g godo \<Rightarrow> string \<Rightarrow> int \<Rightarrow> 'g \<Rightarrow> int result" where
  "GetDomain gd root i g = received (gd_RecordGet gd root i g)"

definition DeleteDomain :: "'g godo \<Rightarrow> string \<Rightarrow> int \<Rightarrow> 'g \<Rightarrow> 'g \<times> unit result" where
  "DeleteDomain gd root i g = apsnd received (gd_RecordDelete gd root i g)"

definition CreateKey :: "'g godo \<Rightarrow> string \<Rightarrow> string \<Rightarrow> 'g \<Rightarrow> 'g \<times> string result" where
  "CreateKey gd name key g = apsnd received (gd_KeyCreate gd name key g)"

definition DeleteKeyByFingerprint :: "'g godo \<Rightarrow> string \<Rightarrow> 'g \<Rightarrow> 'g \<times> unit result" where
  "DeleteKeyByFingerprint gd f g = apsnd received (gd_KeyDelete gd f g)"

definition GetKeyByFingerprint :: "'g godo \<Rightarrow> string \<Rightarrow> 'g \<Rightarrow> string result" where
  "GetKeyByFingerprint gd f g = received (gd_KeyGet gd f g)"

definition CreateTag :: "'g godo \<Rightarrow> string \<Rightarrow> 'g \<Rightarrow> 'g \<times> string result" where
  "CreateTag gd tag g = apsnd received (gd_TagCreate gd tag g)"

definition ListTags :: "'g godo \<Rightarrow> nat \<Rightarrow> 'g \<Rightarrow> string list result" where
  "ListTags gd page g = received (gd_TagList gd page g)"

definition DeleteTag :: "'g godo \<Rightarrow> string \<Rightarrow> 'g \<Rightarrow> 'g \<times> unit result" where
  "DeleteTag gd tag g = apsnd received (gd_TagDelete gd tag g)"

section \<open>Tailscale\<close>

text \<open>Of the server and the local client only whether they are there is kept; what they answer is in the
  environment of theory \<open>DO_Task\<close>.\<close>

record TailscaleSettings =
  tn_AuthKey :: string
  tn_Tags :: "string list"
  tn_Server :: bool
  tn_LocalClient :: bool

definition TailscaleSettings_GetCommand :: "TailscaleSettings \<Rightarrow> string \<Rightarrow> string" where
  "TailscaleSettings_GetCommand ts hostname =
     Join '' '' ([''tailscale'', ''up'', ''--ssh'', ''--authkey'', [CHR 0x22] @ tn_AuthKey ts @ [CHR 0x22], ''--hostname'', hostname] @
       (if tn_Tags ts \<noteq> [] then [''--advertise-tags'', Join '','' (map (\<lambda>tag. ''tag:'' @ tag) (tn_Tags ts))] else []))"

definition TailscaleSettings_ValidateBasic :: "TailscaleSettings \<Rightarrow> unit result" where
  "TailscaleSettings_ValidateBasic ts =
     (if tn_AuthKey ts = [] then Inl (New ''auth key cannot be empty'')
      else if \<not> tn_Server ts then Inl (New ''tailscale server cannot be nil'')
      else if \<not> tn_LocalClient ts then Inl (New ''tailscale client cannot be nil'')
      else if tn_Tags ts = [] then Inl (New ''tags cannot be empty'')
      else Inr ())"

record KeyCapabilities =
  kc_Reusable :: bool
  kc_Ephemeral :: bool
  kc_Preauthorized :: bool
  kc_Tags :: "string list"

text \<open>The Tailscale packages, on a state \<open>'n\<close>: creating a key, starting a server, its local client and the state
  of its backend; time passes in \<open>tp_Sleep\<close>. The base URL is constant, so it always parses.\<close>

record 'n tailscale =
  tp_CreateKey :: "string \<Rightarrow> KeyCapabilities \<Rightarrow> 'n \<Rightarrow> 'n \<times> string result"
  tp_Start :: "string \<Rightarrow> bool \<Rightarrow> string \<Rightarrow> 'n \<Rightarrow> 'n \<times> unit result"
  tp_LocalClient :: "'n \<Rightarrow> unit result"
  tp_BackendState :: "'n \<Rightarrow> string result"
  tp_Sleep :: "'n \<Rightarrow> 'n"

definition GenerateTailscaleAuthKey :: "'n tailscale \<Rightarrow> string \<Rightarrow> string list \<Rightarrow> 'n \<Rightarrow> 'n \<times> string result" where
  "GenerateTailscaleAuthKey tp oauthSecret tags n =
     tp_CreateKey tp oauthSecret \<lparr> kc_Reusable = False, kc_Ephemeral = True, kc_Preauthorized = True,
       kc_Tags = map (\<lambda>tag. ''tag:'' @ tag) tags \<rparr> n"

partial_function (option) await_running :: "'n tailscale \<Rightarrow> 'n \<Rightarrow> ('n \<times> unit result) option" where
  "await_running tp n =
     (case tp_BackendState tp n of
        Inl e \<Rightarrow> Some (n, Inl e)
      | Inr st \<Rightarrow> if st = ''Running'' then Some (n, Inr ()) else await_running tp (tp_Sleep tp n))"

definition SetupTailscale ::
    "'n tailscale \<Rightarrow> string \<Rightarrow> string \<Rightarrow> string \<Rightarrow> string list \<Rightarrow> string list \<Rightarrow> 'n \<Rightarrow> ('n \<times> TailscaleSettings result) option" where
  "SetupTailscale tp serverOauthSecret nodeAuthKey hostname serverTags nodeTags n =
     (case GenerateTailscaleAuthKey tp serverOauthSecret serverTags n of
        (n, Inl e) \<Rightarrow> Some (n, Inl e)
      | (n, Inr authKey) \<Rightarrow>
          (case tp_Start tp authKey True hostname n of
             (n, Inl e) \<Rightarrow> Some (n, Inl e)
           | (n, Inr _) \<Rightarrow>
               (case tp_LocalClient tp n of
                  Inl e \<Rightarrow> Some (n, Inl e)
                | Inr _ \<Rightarrow>
                    Option.bind (await_running tp n) (\<lambda>(n, r).
                      Some (n, and_then r (\<lambda>_. Inr \<lparr> tn_AuthKey = nodeAuthKey, tn_Tags = nodeTags, tn_Server = True, tn_LocalClient = True \<rparr>))))))"

section \<open>Telemetry and user data\<close>

record PrometheusSettings =
  ps_Username :: string
  ps_Password :: string
  ps_URL :: string

record LokiSettings =
  lk_Username :: string
  lk_Password :: string
  lk_URL :: string

record TelemetrySettings =
  tm_Prometheus :: PrometheusSettings
  tm_Loki :: LokiSettings
  tm_Pyroscope :: string

record TelemetryConfig = TelemetrySettings +
  tm_Provider :: string
  tm_NodeName :: string

text \<open>\<open>json\<close> is \<open>json.Marshal\<close>.\<close>

definition TelemetrySettings_GetCommand ::
    "(TelemetryConfig \<Rightarrow> string result) \<Rightarrow> TelemetrySettings \<Rightarrow> string \<Rightarrow> string \<Rightarrow> string list result" where
  "TelemetrySettings_GetCommand json t providerName nodeName =
     and_then (json \<lparr> tm_Prometheus = tm_Prometheus t, tm_Loki = tm_Loki t, tm_Pyroscope = tm_Pyroscope t,
         tm_Provider = providerName, tm_NodeName = nodeName \<rparr>) (\<lambda>config.
       Inr [''echo '' @ [CHR 0x27] @ config @ [CHR 0x27] @ '' > /etc/alloy/telemetry.json'',
            ''echo '' @ [CHR 0x27] @ ''NODE_NAME='' @ nodeName @ [CHR 0x27] @ '' >> /etc/environment'',
            ''systemctl restart alloy''])"

definition convertEnvMapToList :: "string gomap \<Rightarrow> string list" where
  "convertEnvMapToList env = map (\<lambda>(key, value). key @ ''='' @ value) env"

definition formatUserData :: "string list \<Rightarrow> string" where
  "formatUserData commands =
     ''#cloud-config'' @ [CHR 0x0A] @ ''runcmd:'' @ concat (map (\<lambda>command. [CHR 0x0A] @ ''- '' @ command) commands)"

section \<open>Polling\<close>

text \<open>\<open>util.WaitForCondition\<close> on a state that changes while it waits: \<open>n\<close> intervals end before the deadline.\<close>

fun poll :: "string \<Rightarrow> nat \<Rightarrow> ('s \<Rightarrow> 's) \<Rightarrow> ('s \<Rightarrow> 's \<times> bool result) \<Rightarrow> 's \<Rightarrow> 's \<times> unit result" where
  "poll secs 0 slept fn s = (slept s, Inl (New (''failed waiting for condition after '' @ secs @ '' seconds'')))"
| "poll secs (Suc n) slept fn s =
     (case fn (slept s) of
        (s, Inl e) \<Rightarrow> (s, Inl (New (''error occurred while waiting for condition: '' @ Error_str e)))
      | (s, Inr reached) \<Rightarrow> if reached then (s, Inr ()) else poll secs n slept fn s)"

fun poll_outcomes :: "nat \<Rightarrow> ('s \<Rightarrow> 's) \<Rightarrow> ('s \<Rightarrow> 's \<times> bool result) \<Rightarrow> 's \<Rightarrow> bool result list" where
  "poll_outcomes 0 slept fn s = []"
| "poll_outcomes (Suc n) slept fn s = snd (fn (slept s)) # poll_outcomes n slept fn (fst (fn (slept s)))"

text \<open>The polling on a state refines the one on a list of outcomes.\<close>

lemma poll_WaitForCondition: "snd (poll secs n slept fn s) = WaitForCondition secs (poll_outcomes n slept fn s)"
  by (induction n arbitrary: s) (auto split: sum.splits bool.splits prod.splits)

lemma poll_inv:
  assumes "\<And>s. P s \<Longrightarrow> P (slept s)" and "\<And>s. P s \<Longrightarrow> P (fst (fn s))" and "P s"
  shows "P (fst (poll secs n slept fn s))"
  using assms(3)
proof (induction n arbitrary: s)
  case (Suc n)
  then have "P (fst (fn (slept s)))" using assms(1,2) by blast
  then show ?case using Suc.IH by (auto split: prod.splits sum.splits)
qed (simp add: assms(1))

lemma poll_ok:
  assumes "poll secs n slept fn s = (s', Inr ())"
  shows "\<exists>s0. fn s0 = (s', Inr True)"
  using assms by (induction n arbitrary: s) (auto split: prod.splits sum.splits if_splits)

lemma received_ok: "received r = Inr v \<longleftrightarrow> (\<exists>code. r = (v, Some code, None) \<and> 200 \<le> code \<and> code \<le> 299)"
  by (cases r) (auto simp: received_def checkResponse_def and_then_def split: option.splits)

end
