(* ===== verification/DO_Task.thy ===== *)
theory DO_Task
  imports DO_Client
begin

text \<open>
  Tasks of the DigitalOcean provider: \<open>petri/core/provider/digitalocean/task.go\<close>, the task's part of
  \<open>droplet.go\<close> and \<open>tailscale.go\<close>, and \<open>ssh.go\<close>. The world is a pair: the account \<open>'g\<close> and, as \<open>'h\<close>, everything on the
  droplets, which is reached through Docker clients and SSH and cannot change the account. Task states live in a
  store, since a provider's map and its tasks share them by pointer.
\<close>

section \<open>The world\<close>

record container_state =
  co_Status :: string
  co_Running :: bool
  co_ExitCode :: int

text \<open>The Docker client of a droplet. \<open>dc_ContainerList\<close> is the list with limit 1: the most recently created
  container. Attaching gives the output when the stream ends, and splitting it may fail.\<close>

record 'h dclient =
  dc_Ping :: "'h \<Rightarrow> unit result"
  dc_ImageInspect :: "string \<Rightarrow> 'h \<Rightarrow> unit result"
  dc_Pull :: "string \<Rightarrow> string \<Rightarrow> 'h \<Rightarrow> 'h \<times> unit result"
  dc_ContainerCreate :: "ContainerSpec \<Rightarrow> 'h \<Rightarrow> 'h \<times> string result"
  dc_ContainerList :: "'h \<Rightarrow> string list result"
  dc_ContainerStart :: "string \<Rightarrow> 'h \<Rightarrow> 'h \<times> unit result"
  dc_ContainerStop :: "string \<Rightarrow> 'h \<Rightarrow> 'h \<times> unit result"
  dc_ContainerInspect :: "string \<Rightarrow> 'h \<Rightarrow> container_state result"
  dc_ContainerRemove :: "string \<Rightarrow> bool \<Rightarrow> 'h \<Rightarrow> 'h \<times> unit result"
  dc_ExecCreate :: "string \<Rightarrow> string list \<Rightarrow> 'h \<Rightarrow> 'h \<times> string result"
  dc_ExecAttach :: "string \<Rightarrow> 'h \<Rightarrow> 'h \<times> (string \<times> string) result result"
  dc_ExecInspect :: "string \<Rightarrow> 'h \<Rightarrow> (bool \<times> int) result"
  dc_IsErrNotFound :: "error \<Rightarrow> bool"
  dc_IsErrConnectionFailed :: "error \<Rightarrow> bool"

definition dc_ImagePull :: "'h dclient \<Rightarrow> string \<Rightarrow> string \<Rightarrow> 'h \<Rightarrow> 'h \<times> unit result" where
  "dc_ImagePull dc ref auth x =
     (if is_ok (dc_ImageInspect dc ref x) then (x, Inr ()) else wrapping ''failed to pull docker image'' (dc_Pull dc ref auth x))"

text \<open>A peer: its host name and its addresses, each with whether it is an IPv4 address.\<close>

record ('g, 'h) do_env =
  de_godo :: "'g godo"
  de_NewDockerClient :: "string \<Rightarrow> 'h dclient result"
  de_Dial :: "string \<Rightarrow> 'h \<Rightarrow> unit result"
  de_NewClientConn :: "string \<Rightarrow> 'h \<Rightarrow> unit result"
  de_Sftp :: "string \<Rightarrow> 'h \<Rightarrow> unit result"
  de_MkdirAll :: "string \<Rightarrow> string \<Rightarrow> 'h \<Rightarrow> 'h \<times> unit result"
  de_Create :: "string \<Rightarrow> string \<Rightarrow> 'h \<Rightarrow> 'h \<times> unit result"
  de_Write :: "string \<Rightarrow> string \<Rightarrow> string \<Rightarrow> 'h \<Rightarrow> 'h \<times> unit result"
  de_ReadFile :: "string \<Rightarrow> string \<Rightarrow> 'h \<Rightarrow> string result"
  de_Peers :: "'g \<times> 'h \<Rightarrow> (string \<times> (bool \<times> string) list) list result"
  de_Sleep :: "'g \<times> 'h \<Rightarrow> 'g \<times> 'h"
  de_Ticks :: "string \<Rightarrow> 'g \<times> 'h \<Rightarrow> nat"
  de_Done :: "'g \<times> 'h \<Rightarrow> error option"
  de_Unix :: "'g \<times> 'h \<Rightarrow> int"
  de_TelemetryJSON :: "TelemetryConfig \<Rightarrow> string result"
  de_Random :: "'g \<times> 'h \<Rightarrow> nat \<Rightarrow> nat"

definition on_account :: "('g \<Rightarrow> 'g \<times> 'r result) \<Rightarrow> 'g \<times> 'h \<Rightarrow> ('g \<times> 'h) \<times> 'r result" where
  "on_account f w = (case f (fst w) of (g, r) \<Rightarrow> ((g, snd w), r))"

definition on_hosts :: "('h \<Rightarrow> 'h \<times> 'r result) \<Rightarrow> 'g \<times> 'h \<Rightarrow> ('g \<times> 'h) \<times> 'r result" where
  "on_hosts f w = (case f (snd w) of (x, r) \<Rightarrow> ((fst w, x), r))"

section \<open>State\<close>

record DO_TaskState =
  dt_ID :: string
  dt_Name :: string
  dt_TailscaleHostname :: string
  dt_Definition :: TaskDefinition
  dt_Status :: TaskStatus
  dt_ProviderName :: string

text \<open>A provider with its store: \<open>dp_TaskStates\<close> holds pointers into \<open>dp_heap\<close>.\<close>

record ('g, 'h) do_provider =
  dp_world :: "'g \<times> 'h"
  dp_heap :: "DO_TaskState list"
  dp_TaskStates :: "nat gomap"
  dp_Name :: string
  dp_PetriTag :: string
  dp_FirewallID :: string
  dp_DomainIDs :: "int list"

text \<open>A task: the pointer to its state and its Docker client. The cached SSH client of a task is never set, so
  it is not modelled.\<close>

record 'h do_task =
  tk_state :: nat
  tk_docker :: "'h dclient"

definition in_world :: "('g \<times> 'h \<Rightarrow> ('g \<times> 'h) \<times> 'r) \<Rightarrow> ('g, 'h) do_provider \<Rightarrow> ('g, 'h) do_provider \<times> 'r" where
  "in_world f p = (case f (dp_world p) of (w, r) \<Rightarrow> (p\<lparr>dp_world := w\<rparr>, r))"

definition slept :: "('g, 'h) do_env \<Rightarrow> ('g, 'h) do_provider \<Rightarrow> ('g, 'h) do_provider" where
  "slept e p = p\<lparr>dp_world := de_Sleep e (dp_world p)\<rparr>"

definition DO_GetState :: "nat \<Rightarrow> ('g, 'h) do_provider \<Rightarrow> DO_TaskState" where
  "DO_GetState t p = dp_heap p ! t"

definition DO_GetDefinition :: "nat \<Rightarrow> ('g, 'h) do_provider \<Rightarrow> TaskDefinition" where
  "DO_GetDefinition t p = dt_Definition (DO_GetState t p)"

definition DO_set_status :: "nat \<Rightarrow> TaskStatus \<Rightarrow> ('g, 'h) do_provider \<Rightarrow> ('g, 'h) do_provider" where
  "DO_set_status t s p = p\<lparr>dp_heap := (dp_heap p)[t := (dp_heap p ! t)\<lparr>dt_Status := s\<rparr>]\<rparr>"

section \<open>Addresses\<close>

definition getTailscalePeer :: "('g, 'h) do_env \<Rightarrow> DO_TaskState \<Rightarrow> 'g \<times> 'h \<Rightarrow> (string \<times> (bool \<times> string) list) result" where
  "getTailscalePeer e st w =
     and_then (de_Peers e w) (\<lambda>peers.
       case find (\<lambda>peer. fst peer = dt_TailscaleHostname st) peers of
         Some peer \<Rightarrow> Inr peer
       | None \<Rightarrow> Inl (New (''no Tailscale peer found for hostname: '' @ dt_TailscaleHostname st)))"

definition getTailscaleIp :: "('g, 'h) do_env \<Rightarrow> DO_TaskState \<Rightarrow> 'g \<times> 'h \<Rightarrow> string result" where
  "getTailscaleIp e st w =
     and_then (getTailscalePeer e st w) (\<lambda>peer.
       case find fst (snd peer) of
         Some ip \<Rightarrow> Inr (snd ip)
       | None \<Rightarrow> Inl (New ''no IPv4 Tailscale address found''))"

definition DO_GetIP :: "('g, 'h) do_env \<Rightarrow> DO_TaskState \<Rightarrow> 'g \<times> 'h \<Rightarrow> string result" where
  "DO_GetIP e st w = getTailscaleIp e st w"

definition DO_GetDroplet :: "('g, 'h) do_env \<Rightarrow> DO_TaskState \<Rightarrow> 'g \<times> 'h \<Rightarrow> DropletInfo result" where
  "DO_GetDroplet e st w = and_then (ParseInt (dt_ID st)) (\<lambda>i. GetDroplet_call (de_godo e) i (fst w))"

definition DO_GetPrivateIP :: "('g, 'h) do_env \<Rightarrow> DO_TaskState \<Rightarrow> 'g \<times> 'h \<Rightarrow> string result" where
  "DO_GetPrivateIP e st w = and_then (wrap_err ''failed to get droplet'' (DO_GetDroplet e st w)) dr_PrivateIPv4"

text \<open>\<open>net.JoinHostPort\<close> puts a host with a colon in brackets.\<close>

definition JoinHostPort :: "string \<Rightarrow> string \<Rightarrow> string" where
  "JoinHostPort host port =
     (if CHR '':'' \<in> set host then ''['' @ host @ '']:'' @ port else host @ '':'' @ port)"

definition DO_GetExternalAddress :: "('g, 'h) do_env \<Rightarrow> string \<Rightarrow> DO_TaskState \<Rightarrow> 'g \<times> 'h \<Rightarrow> string result" where
  "DO_GetExternalAddress e port st w = and_then (DO_GetIP e st w) (\<lambda>ip. Inr (JoinHostPort ip port))"

section \<open>Status\<close>

definition the_container :: "'h dclient \<Rightarrow> DO_TaskState \<Rightarrow> 'h \<Rightarrow> string result" where
  "the_container dc st x =
     and_then (wrap_err ''failed to retrieve containers'' (dc_ContainerList dc x)) (\<lambda>cs.
       case cs of [c] \<Rightarrow> Inr c | _ \<Rightarrow> Inl (New (''could not find container for '' @ dt_Name st)))"

definition DO_GetStatus :: "('g, 'h) do_env \<Rightarrow> 'h dclient \<Rightarrow> DO_TaskState \<Rightarrow> 'g \<times> 'h \<Rightarrow> TaskStatus result" where
  "DO_GetStatus e dc st w =
     and_then (DO_GetDroplet e st w) (\<lambda>droplet.
       if dr_Status droplet \<noteq> ''active'' then Inr TASK_STOPPED
       else and_then (the_container dc st (snd w)) (\<lambda>c.
            and_then (dc_ContainerInspect dc c (snd w)) (\<lambda>j. Inr (status_of (co_Status j)))))"

definition DO_Start :: "('g, 'h) do_env \<Rightarrow> 'h do_task \<Rightarrow> ('g, 'h) do_provider \<Rightarrow> ('g, 'h) do_provider \<times> unit result" where
  "DO_Start e t p =
     (case the_container (tk_docker t) (DO_GetState (tk_state t) p) (snd (dp_world p)) of
        Inl err \<Rightarrow> (p, Inl err)
      | Inr c \<Rightarrow>
          andThen (in_world (on_hosts (dc_ContainerStart (tk_docker t) c)) p) (\<lambda>p _.
            poll ''300.000000'' (de_Ticks e ''300.000000'' (dp_world p)) (slept e)
              (\<lambda>p. case DO_GetStatus e (tk_docker t) (DO_GetState (tk_state t) p) (dp_world p) of
                     Inl err \<Rightarrow> (p, Inl err)
                   | Inr s \<Rightarrow> if s \<noteq> TASK_RUNNING then (p, Inr False) else (DO_set_status (tk_state t) TASK_RUNNING p, Inr True)) p))"

definition DO_Stop :: "'h do_task \<Rightarrow> ('g, 'h) do_provider \<Rightarrow> ('g, 'h) do_provider \<times> unit result" where
  "DO_Stop t p =
     (case the_container (tk_docker t) (DO_GetState (tk_state t) p) (snd (dp_world p)) of
        Inl err \<Rightarrow> (p, Inl err)
      | Inr c \<Rightarrow> in_world (on_hosts (dc_ContainerStop (tk_docker t) c)) (DO_set_status (tk_state t) TASK_STOPPED p))"

definition deleteDroplet :: "('g, 'h) do_env \<Rightarrow> DO_TaskState \<Rightarrow> 'g \<times> 'h \<Rightarrow> ('g \<times> 'h) \<times> unit result" where
  "deleteDroplet e st w =
     (case DO_GetDroplet e st w of
        Inl err \<Rightarrow> (w, Inl err)
      | Inr droplet \<Rightarrow> on_account (DeleteDropletByID (de_godo e) (dr_ID droplet)) w)"

definition DO_removeTask :: "string \<Rightarrow> ('g, 'h) do_provider \<Rightarrow> ('g, 'h) do_provider" where
  "DO_removeTask taskID p = p\<lparr>dp_TaskStates := AList.delete taskID (dp_TaskStates p)\<rparr>"

definition DO_Destroy :: "('g, 'h) do_env \<Rightarrow> 'h do_task \<Rightarrow> ('g, 'h) do_provider \<Rightarrow> ('g, 'h) do_provider \<times> unit result" where
  "DO_Destroy e t p =
     andThen (in_world (deleteDroplet e (DO_GetState (tk_state t) p)) p) (\<lambda>p _.
       (DO_removeTask (dt_ID (DO_GetState (tk_state t) p)) p, Inr ()))"

text \<open>Not implemented in the source.\<close>

definition DO_Modify :: "TaskDefinition \<Rightarrow> unit result" where
  "DO_Modify def = Inl (Panic ''implement me'')"

definition DO_DownloadDir :: "string \<Rightarrow> string \<Rightarrow> unit result" where
  "DO_DownloadDir s s2 = Inl (Panic ''implement me'')"

text \<open>Waiting for Docker on a new droplet; the client is made in the first turn that has none.\<close>

definition docker_ready ::
    "('g, 'h) do_env \<Rightarrow> nat \<Rightarrow> 'h dclient option \<times> ('g, 'h) do_provider \<Rightarrow> ('h dclient option \<times> ('g, 'h) do_provider) \<times> bool result" where
  "docker_ready e t s =
     (let p = snd s; st = DO_GetState t p
      in case DO_GetDroplet e st (dp_world p) of
           Inl err \<Rightarrow> (s, Inl err)
         | Inr d \<Rightarrow>
             if dr_Status d \<noteq> ''active'' then (s, Inr False)
             else (case DO_GetIP e st (dp_world p) of
                     Inl err \<Rightarrow> (s, Inl err)
                   | Inr ip \<Rightarrow>
                       (case (case fst s of Some dc \<Rightarrow> Inr dc | None \<Rightarrow> de_NewDockerClient e ip) of
                          Inl err \<Rightarrow> (s, Inl err)
                        | Inr dc \<Rightarrow> ((Some dc, p), Inr (is_ok (dc_Ping dc (snd (dp_world p))))))))"

definition waitForDockerStart ::
    "('g, 'h) do_env \<Rightarrow> nat \<Rightarrow> 'h dclient option \<times> ('g, 'h) do_provider \<Rightarrow> ('h dclient option \<times> ('g, 'h) do_provider) \<times> unit result" where
  "waitForDockerStart e t s =
     wrapping ''failed to wait for docker in droplet to become active''
       (poll ''600.000000'' (de_Ticks e ''600.000000'' (dp_world (snd s))) (apsnd (slept e)) (docker_ready e t) s)"

section \<open>Files\<close>

definition SSHDialWithCustomDial :: "('g, 'h) do_env \<Rightarrow> string \<Rightarrow> 'h \<Rightarrow> unit result" where
  "SSHDialWithCustomDial e addr x = and_then (de_Dial e addr x) (\<lambda>_. de_NewClientConn e addr x)"

definition getDropletSSHClient :: "('g, 'h) do_env \<Rightarrow> DO_TaskState \<Rightarrow> 'g \<times> 'h \<Rightarrow> string result" where
  "getDropletSSHClient e st w =
     and_then (DO_GetIP e st w) (\<lambda>ip.
     and_then (SSHDialWithCustomDial e (ip @ '':22'') (snd w)) (\<lambda>_. Inr (ip @ '':22'')))"

definition DO_WriteFile :: "('g, 'h) do_env \<Rightarrow> string \<Rightarrow> string \<Rightarrow> DO_TaskState \<Rightarrow> 'g \<times> 'h \<Rightarrow> ('g \<times> 'h) \<times> unit result" where
  "DO_WriteFile e relPath content st w =
     (let absPath = path_Join ''/docker_volumes'' relPath
      in andThen (w, getDropletSSHClient e st w) (\<lambda>w ssh.
         andThen (w, de_Sftp e ssh (snd w)) (\<lambda>w _.
         andThen (on_hosts (de_MkdirAll e ssh (path_Dir absPath)) w) (\<lambda>w _.
         andThen (on_hosts (de_Create e ssh absPath) w) (\<lambda>w _.
           on_hosts (de_Write e ssh absPath content) w)))))"

definition DO_ReadFile :: "('g, 'h) do_env \<Rightarrow> string \<Rightarrow> DO_TaskState \<Rightarrow> 'g \<times> 'h \<Rightarrow> string result" where
  "DO_ReadFile e relPath st w =
     and_then (getDropletSSHClient e st w) (\<lambda>ssh.
     and_then (de_Sftp e ssh (snd w)) (\<lambda>_.
       de_ReadFile e ssh (path_Join ''/docker_volumes'' relPath) (snd w)))"

section \<open>Commands\<close>

text \<open>The output, the exit code and the error of a command.\<close>

type_synonym command_result = "(string \<times> string \<times> int) \<times> error option"

definition no_output :: "error \<Rightarrow> command_result" where
  "no_output err = (([], [], 0), Some err)"

text \<open>The wait for a command: \<open>dn\<close> is the error of the context, \<open>tick\<close> an interval, \<open>inspect\<close> what \<open>ContainerExecInspect\<close>
  tells of the command.\<close>

partial_function (option) waitForExec ::
    "('w \<Rightarrow> error option) \<Rightarrow> ('w \<Rightarrow> 'w) \<Rightarrow> ('w \<Rightarrow> (bool \<times> int) result) \<Rightarrow> 'w \<Rightarrow> ('w \<times> int \<times> error option) option" where
  "waitForExec dn tick inspect w =
     (case dn w of
        Some err \<Rightarrow> Some (w, 0, Some err)
      | None \<Rightarrow>
          (case inspect (tick w) of
             Inl err \<Rightarrow> Some (tick w, 0, Some err)
           | Inr (running, code) \<Rightarrow>
               if running then waitForExec dn tick inspect (tick w) else Some (tick w, code, None)))"

text \<open>Running a command in a container that is up, as both ways of running one do.\<close>

definition exec_in ::
    "('g, 'h) do_env \<Rightarrow> 'h dclient \<Rightarrow> string \<Rightarrow> string list \<Rightarrow> 'g \<times> 'h \<Rightarrow> (('g \<times> 'h) \<times> command_result) option" where
  "exec_in e dc c cmd w =
     (case on_hosts (dc_ExecCreate dc c cmd) w of
        (w, Inl err) \<Rightarrow> Some (w, no_output err)
      | (w, Inr x) \<Rightarrow>
          (case on_hosts (dc_ExecAttach dc x) w of
             (w, Inl err) \<Rightarrow> Some (w, no_output err)
           | (w, Inr (Inl err)) \<Rightarrow> Some (w, no_output err)
           | (w, Inr (Inr (out, errout))) \<Rightarrow>
               Option.bind (waitForExec (de_Done e) (de_Sleep e) (\<lambda>w. dc_ExecInspect dc x (snd w)) w) (\<lambda>(w, code, err). Some (w, (out, errout, code), err))))"

definition DO_runCommand ::
    "('g, 'h) do_env \<Rightarrow> 'h dclient \<Rightarrow> DO_TaskState \<Rightarrow> string list \<Rightarrow> 'g \<times> 'h \<Rightarrow> (('g \<times> 'h) \<times> command_result) option" where
  "DO_runCommand e dc st cmd w =
     (case the_container dc st (snd w) of Inl err \<Rightarrow> Some (w, no_output err) | Inr c \<Rightarrow> exec_in e dc c cmd w)"

text \<open>The wait for a started container, of which \<open>n\<close> intervals end before the deadline.\<close>

fun await_container :: "('g, 'h) do_env \<Rightarrow> 'h dclient \<Rightarrow> string \<Rightarrow> nat \<Rightarrow> 'g \<times> 'h \<Rightarrow> ('g \<times> 'h) \<times> unit result" where
  "await_container e dc c 0 w = 
     (de_Sleep e w, Inl (New (''error waiting for container to start: '' @
        (case de_Done e (de_Sleep e w) of Some err \<Rightarrow> Error_str err | None \<Rightarrow> ''context deadline exceeded''))))"
| "await_container e dc c (Suc n) w =
     (let w = de_Sleep e w
      in case dc_ContainerInspect dc c (snd w) of
           Inl err \<Rightarrow> (w, Inl err)
         | Inr j \<Rightarrow>
             if co_Running j then (w, Inr ())
             else if co_Status j = ''exited'' \<and> co_ExitCode j \<noteq> 0
             then (w, Inl (New (''container exited with status '' @ Itoa (co_ExitCode j))))
             else await_container e dc c n w)"

definition startContainerWithBlock :: "('g, 'h) do_env \<Rightarrow> 'h dclient \<Rightarrow> string \<Rightarrow> 'g \<times> 'h \<Rightarrow> ('g \<times> 'h) \<times> unit result" where
  "startContainerWithBlock e dc c w =
     andThen (on_hosts (dc_ContainerStart dc c) w) (\<lambda>w _. await_container e dc c (de_Ticks e ''180.000000'' w) w)"

definition executor_spec :: "string \<Rightarrow> DO_TaskState \<Rightarrow> ContainerSpec" where
  "executor_spec containerName st =
     (let def = dt_Definition st
      in empty_spec\<lparr>cs_Name := containerName, cs_Image := img_Image (td_Image def), cs_Entrypoint := [''sh'', ''-c''],
           cs_Cmd := [''sleep 36000''], cs_Hostname := td_Name def, cs_Labels := [(providerLabelName, dt_ProviderName st)],
           cs_Env := convertEnvMapToList (td_Environment def), cs_Mounts := [(''/docker_volumes'', td_DataDir def)],
           cs_NetworkMode := ''host''\<rparr>)"

text \<open>The deferred removal: nothing to do when the container is gone, and its error is only logged.\<close>

definition remove_executor :: "'h dclient \<Rightarrow> string \<Rightarrow> 'h \<Rightarrow> 'h" where
  "remove_executor dc c x =
     (case dc_ContainerInspect dc c x of
        Inl err \<Rightarrow> if dc_IsErrNotFound dc err then x else fst (dc_ContainerRemove dc c True x)
      | Inr _ \<Rightarrow> fst (dc_ContainerRemove dc c True x))"

definition runCommandWhileStopped ::
    "('g, 'h) do_env \<Rightarrow> 'h dclient \<Rightarrow> DO_TaskState \<Rightarrow> string list \<Rightarrow> 'g \<times> 'h \<Rightarrow> (('g \<times> 'h) \<times> command_result) option" where
  "runCommandWhileStopped e dc st cmd w =
     (case TaskDefinition_ValidateBasic (dt_Definition st) of
        Inl err \<Rightarrow> Some (w, no_output (Wrap ''failed to validate task definition'' err))
      | Inr _ \<Rightarrow>
          let containerName = td_Name (dt_Definition st) @ ''-executor-'' @ RandomString (de_Random e w) 5 @ ''-'' @ Itoa (de_Unix e w)
          in (case on_hosts (dc_ContainerCreate dc (executor_spec containerName st)) w of
                (w, Inl err) \<Rightarrow> Some (w, no_output err)
              | (w, Inr c) \<Rightarrow>
                  map_option (\<lambda>(w, r). (apsnd (remove_executor dc c) w, r))
                    (case startContainerWithBlock e dc c w of
                       (w, Inl err) \<Rightarrow> Some (w, no_output err)
                     | (w, Inr _) \<Rightarrow> exec_in e dc c cmd w)))"

definition DO_RunCommand ::
    "('g, 'h) do_env \<Rightarrow> string list \<Rightarrow> 'h do_task \<Rightarrow> ('g, 'h) do_provider \<Rightarrow> (('g, 'h) do_provider \<times> command_result) option" where
  "DO_RunCommand e cmd t p =
     (let st = DO_GetState (tk_state t) p
      in map_option (\<lambda>(w, r). (p\<lparr>dp_world := w\<rparr>, r))
           (case DO_GetStatus e (tk_docker t) st (dp_world p) of
              Inl err \<Rightarrow> Some (dp_world p, no_output err)
            | Inr status \<Rightarrow>
                if status \<noteq> TASK_RUNNING then runCommandWhileStopped e (tk_docker t) st cmd (dp_world p)
                else DO_runCommand e (tk_docker t) st cmd (dp_world p)))"

end
