(* ===== verification/DO_Provider.thy ===== *)
theory DO_Provider
  imports DO_Task
begin

text \<open>
  The DigitalOcean provider: \<open>petri/core/provider/digitalocean/provider.go\<close>, \<open>options.go\<close>, \<open>firewall.go\<close> and the
  provider's part of \<open>droplet.go\<close>. Its state and the world are the record \<open>do_provider\<close> of theory \<open>DO_Task\<close>, its
  settings the record \<open>do_settings\<close>. The codecs of the states are parameters; a decoded state has a map of
  tasks, as every state a provider writes does.
\<close>

section \<open>Settings\<close>

record 'h do_settings =
  se_tailscale :: TailscaleSettings
  se_telemetry :: "TelemetrySettings option"
  se_domain :: string
  se_overrides :: "'h dclient gomap"

type_synonym 'h do_option = "'h do_settings \<Rightarrow> 'h do_settings"

definition WithDockerClients :: "'h dclient gomap \<Rightarrow> 'h do_option" where
  "WithDockerClients clients s = s\<lparr>se_overrides := clients\<rparr>"

definition WithTelemetry :: "TelemetrySettings \<Rightarrow> 'h do_option" where
  "WithTelemetry telemetry s = s\<lparr>se_telemetry := Some telemetry\<rparr>"

definition WithDomain :: "string \<Rightarrow> 'h do_option" where
  "WithDomain domain s = s\<lparr>se_domain := domain\<rparr>"

definition settings :: "TailscaleSettings \<Rightarrow> 'h do_option list \<Rightarrow> 'h do_settings" where
  "settings ts opts = fold (\<lambda>opt s. opt s) opts \<lparr> se_tailscale = ts, se_telemetry = None, se_domain = [], se_overrides = [] \<rparr>"

section \<open>Creating a provider\<close>

definition firewall_request :: "string \<Rightarrow> FirewallRequest" where
  "firewall_request tag =
     (let anywhere = [''0.0.0.0/0'']
      in \<lparr> fq_Name = tag, fq_Tags = [tag],
           fq_InboundRules = [(''tcp'', ''80'', anywhere), (''tcp'', ''443'', anywhere), (''tcp'', ''26656'', anywhere), (''udp'', ''26656'', anywhere)],
           fq_OutboundRules = [(''tcp'', ''0'', anywhere), (''udp'', ''0'', anywhere), (''icmp'', ''0'', anywhere)] \<rparr>)"

definition createFirewall :: "('g, 'h) do_env \<Rightarrow> ('g, 'h) do_provider \<Rightarrow> ('g, 'h) do_provider \<times> string result" where
  "createFirewall e p = in_world (on_account (CreateFirewall_call (de_godo e) (firewall_request (dp_PetriTag p)))) p"

definition createTag :: "('g, 'h) do_env \<Rightarrow> string \<Rightarrow> ('g, 'h) do_provider \<Rightarrow> ('g, 'h) do_provider \<times> string result" where
  "createTag e tagName p = in_world (on_account (CreateTag (de_godo e) tagName)) p"

definition new_provider :: "string \<Rightarrow> 'g \<times> 'h \<Rightarrow> ('g, 'h) do_provider" where
  "new_provider name w = \<lparr> dp_world = w, dp_heap = [], dp_TaskStates = [], dp_Name = name, dp_PetriTag = ''petri-'' @ name,
     dp_FirewallID = [], dp_DomainIDs = [] \<rparr>"

text \<open>\<open>client\<close> tells whether a client is passed. The state is also returned with an error, for the world in it.\<close>

definition NewProviderWithClient ::
    "('g, 'h) do_env \<Rightarrow> string \<Rightarrow> bool \<Rightarrow> TailscaleSettings \<Rightarrow> 'h do_option list \<Rightarrow> 'g \<times> 'h \<Rightarrow>
     ('g, 'h) do_provider \<times> 'h do_settings result" where
  "NewProviderWithClient e providerName client ts opts w =
     (let p = new_provider providerName w
      in if \<not> client then (p, Inl (New ''a valid digital ocean client must be passed when creating a provider''))
         else case TailscaleSettings_ValidateBasic ts of
           Inl err \<Rightarrow> (p, Inl (Wrap ''failed to validate tailscale settings'' err))
         | Inr _ \<Rightarrow>
             andThen (createTag e (dp_PetriTag p) p) (\<lambda>p _.
             andThen (wrapping ''failed to create firewall'' (createFirewall e p)) (\<lambda>p firewall.
               (p\<lparr>dp_FirewallID := firewall\<rparr>, Inr (settings ts opts)))))"

definition NewProvider ::
    "('g, 'h) do_env \<Rightarrow> string \<Rightarrow> string \<Rightarrow> TailscaleSettings \<Rightarrow> 'h do_option list \<Rightarrow> 'g \<times> 'h \<Rightarrow>
     ('g, 'h) do_provider \<times> 'h do_settings result" where
  "NewProvider e providerName token ts opts w =
     (if token = [] then (new_provider providerName w, Inl (New ''a non-empty token must be passed when creating a DigitalOcean provider''))
      else NewProviderWithClient e providerName True ts opts w)"

section \<open>Droplets and tasks\<close>

definition do_config :: "TaskDefinition \<Rightarrow> string gomap" where
  "do_config def = (case td_ProviderSpecificConfig def of None \<Rightarrow> [] | Some m \<Rightarrow> m)"

definition user_data :: "('g, 'h) do_env \<Rightarrow> 'h do_settings \<Rightarrow> TaskDefinition \<Rightarrow> ('g, 'h) do_provider \<Rightarrow> string result" where
  "user_data e s def p =
     (let up = TailscaleSettings_GetCommand (se_tailscale s) (dp_PetriTag p @ ''-'' @ td_Name def)
      in case se_telemetry s of
           None \<Rightarrow> Inr (formatUserData [up])
         | Some t \<Rightarrow>
             and_then (wrap_err ''failed to format telemetry user data''
                (TelemetrySettings_GetCommand (de_TelemetryJSON e) t (dp_Name p) (td_Name def))) (\<lambda>cmds.
               Inr (formatUserData (up # cmds))))"

definition CreateDroplet ::
    "('g, 'h) do_env \<Rightarrow> 'h do_settings \<Rightarrow> TaskDefinition \<Rightarrow> ('g, 'h) do_provider \<Rightarrow> ('g, 'h) do_provider \<times> DropletInfo result" where
  "CreateDroplet e s def p =
     andThen (p, wrap_err ''failed to validate task definition'' (TaskDefinition_ValidateBasic def)) (\<lambda>p _.
     andThen (p, wrap_err ''could not cast digitalocean specific config'' (DigitalOceanTaskConfig_ValidateBasic (do_config def))) (\<lambda>p _.
     andThen (p, wrap_err ''failed to parse image ID'' (ParseInt (mget_str (do_config def) ''image_id''))) (\<lambda>p imageId.
     andThen (p, user_data e s def p) (\<lambda>p userData.
       in_world (on_account (CreateDroplet_call (de_godo e)
         \<lparr> dq_Name = dp_PetriTag p @ ''-'' @ td_Name def, dq_Region = mget_str (do_config def) ''region'',
           dq_Size = mget_str (do_config def) ''size'', dq_SSHKeys = [50241382], dq_Image = imageId,
           dq_Tags = [dp_PetriTag p], dq_UserData = userData \<rparr>)) p))))"

definition new_task_state :: "int \<Rightarrow> TaskDefinition \<Rightarrow> ('g, 'h) do_provider \<Rightarrow> DO_TaskState" where
  "new_task_state dropletID def p = \<lparr> dt_ID = Itoa dropletID, dt_Name = dp_PetriTag p @ ''-'' @ td_Name def,
     dt_TailscaleHostname = dp_PetriTag p @ ''-'' @ td_Name def, dt_Definition = def, dt_Status = TASK_STOPPED, dt_ProviderName = dp_Name p \<rparr>"

definition store_task :: "DO_TaskState \<Rightarrow> ('g, 'h) do_provider \<Rightarrow> ('g, 'h) do_provider" where
  "store_task st p = p\<lparr>dp_heap := dp_heap p @ [st], dp_TaskStates := mput (dt_ID st) (length (dp_heap p)) (dp_TaskStates p)\<rparr>"

definition await_peer :: "('g, 'h) do_env \<Rightarrow> nat \<Rightarrow> ('g, 'h) do_provider \<Rightarrow> ('g, 'h) do_provider \<times> unit result" where
  "await_peer e t p =
     wrapping (''failed to wait for tailscale peer in task '' @ dt_Name (DO_GetState t p))
       (poll ''900.000000'' (de_Ticks e ''900.000000'' (dp_world p)) (slept e)
          (\<lambda>p. (p, Inr (is_ok (getTailscalePeer e (DO_GetState t p) (dp_world p))))) p)"

definition getDockerClientOverride :: "'h do_settings \<Rightarrow> string \<Rightarrow> 'h dclient option" where
  "getDockerClientOverride s task = mget (se_overrides s) task"

definition task_client :: "('g, 'h) do_env \<Rightarrow> 'h do_settings \<Rightarrow> string \<Rightarrow> string \<Rightarrow> 'h dclient result" where
  "task_client e s name ip =
     (case getDockerClientOverride s name of
        Some dc \<Rightarrow> Inr dc
      | None \<Rightarrow> wrap_err ''failed to create docker client'' (de_NewDockerClient e ip))"

fun pull_attempts ::
    "('g, 'h) do_env \<Rightarrow> 'h dclient \<Rightarrow> string \<Rightarrow> string \<Rightarrow> nat \<Rightarrow> error \<Rightarrow> ('g, 'h) do_provider \<Rightarrow> ('g, 'h) do_provider \<times> unit result" where
  "pull_attempts e dc ref auth 0 err p = (p, Inl err)"
| "pull_attempts e dc ref auth (Suc retries) err p =
     (case in_world (on_hosts (dc_ImagePull dc ref auth)) p of
        (p, Inr _) \<Rightarrow> (p, Inr ())
      | (p, Inl err) \<Rightarrow> pull_attempts e dc ref auth retries err (slept e p))"

definition pull_image :: "('g, 'h) do_env \<Rightarrow> 'h dclient \<Rightarrow> TaskDefinition \<Rightarrow> ('g, 'h) do_provider \<Rightarrow> ('g, 'h) do_provider \<times> unit result" where
  "pull_image e dc def p =
     (let ref = img_Image (td_Image def)
      in case dc_ImageInspect dc ref (snd (dp_world p)) of
           Inr _ \<Rightarrow> (p, Inr ())
         | Inl err \<Rightarrow> pull_attempts e dc ref (if IsECRImage ref then mget_str (do_config def) ''docker_auth'' else []) 5 err p)"

definition droplet_spec :: "DO_TaskState \<Rightarrow> ContainerSpec" where
  "droplet_spec st =
     (let def = dt_Definition st
      in empty_spec\<lparr>cs_Name := dt_Name st, cs_Image := img_Image (td_Image def), cs_Entrypoint := td_Entrypoint def,
           cs_Cmd := td_Command def, cs_Hostname := dt_Name st,
           cs_Labels := [(providerLabelName, dt_ProviderName st), (''petri-ports'', Join '','' (td_Ports def)), (''petri-node-name'', td_Name def)],
           cs_Env := convertEnvMapToList (td_Environment def), cs_Mounts := [(''/docker_volumes'', td_DataDir def)],
           cs_NetworkMode := ''host''\<rparr>)"

definition create_container :: "('g, 'h) do_env \<Rightarrow> 'h dclient \<Rightarrow> nat \<Rightarrow> ('g, 'h) do_provider \<Rightarrow> ('g, 'h) do_provider \<times> unit result" where
  "create_container e dc t p =
     wrapping ''failed to create container after retries''
       (poll ''30.000000'' (de_Ticks e ''30.000000'' (dp_world p)) (slept e)
          (\<lambda>p. case in_world (on_hosts (dc_ContainerCreate dc (droplet_spec (DO_GetState t p)))) p of
                 (p, Inl err) \<Rightarrow> (p, if dc_IsErrConnectionFailed dc err then Inr False else Inl err)
               | (p, Inr _) \<Rightarrow> (p, Inr True)) p)"

text \<open>What follows the creation of the droplet, on the task whose state is at \<open>t\<close>.\<close>

definition setup_task ::
    "('g, 'h) do_env \<Rightarrow> 'h do_settings \<Rightarrow> TaskDefinition \<Rightarrow> nat \<Rightarrow> ('g, 'h) do_provider \<Rightarrow> ('g, 'h) do_provider \<times> 'h do_task result" where
  "setup_task e s def t p =
     andThen (await_peer e t p) (\<lambda>p _.
     andThen (p, DO_GetIP e (DO_GetState t p) (dp_world p)) (\<lambda>p ip.
     andThen (p, task_client e s (dt_Name (DO_GetState t p)) ip) (\<lambda>p dc.
     andThen (case waitForDockerStart e t (Some dc, p) of ((_, p), r) \<Rightarrow> (p, wrap_err ''failed to wait for docker start'' r)) (\<lambda>p _.
     andThen (pull_image e dc def p) (\<lambda>p _.
     andThen (create_container e dc t p) (\<lambda>p _.
       (p, Inr \<lparr> tk_state = t, tk_docker = dc \<rparr>)))))))"

definition DO_CreateTask ::
    "('g, 'h) do_env \<Rightarrow> 'h do_settings \<Rightarrow> TaskDefinition \<Rightarrow> ('g, 'h) do_provider \<Rightarrow> ('g, 'h) do_provider \<times> 'h do_task result" where
  "DO_CreateTask e s def p =
     (case TaskDefinition_ValidateBasic def of
        Inl err \<Rightarrow> (p, Inl (Wrap ''failed to validate task definition'' err))
      | Inr _ \<Rightarrow>
          if td_ProviderSpecificConfig def = None then (p, Inl (New (''digitalocean specific config is nil for '' @ td_Name def)))
          else case DigitalOceanTaskConfig_ValidateBasic (do_config def) of
            Inl err \<Rightarrow> (p, Inl (Wrap ''could not cast digitalocean specific config'' err))
          | Inr _ \<Rightarrow>
              andThen (CreateDroplet e s def p) (\<lambda>p droplet.
                setup_task e s def (length (dp_heap p)) (store_task (new_task_state (dr_ID droplet) def p) p)))"

section \<open>State on the wire\<close>

record DO_ProviderState =
  dps_TaskStates :: "DO_TaskState gomap"
  dps_Name :: string
  dps_PetriTag :: string
  dps_FirewallID :: string
  dps_DomainIDs :: "int list"

definition do_state :: "('g, 'h) do_provider \<Rightarrow> DO_ProviderState" where
  "do_state p = \<lparr> dps_TaskStates = map (\<lambda>(k, t). (k, dp_heap p ! t)) (dp_TaskStates p), dps_Name = dp_Name p,
     dps_PetriTag = dp_PetriTag p, dps_FirewallID = dp_FirewallID p, dps_DomainIDs = dp_DomainIDs p \<rparr>"

definition DO_SerializeProvider :: "(DO_ProviderState \<Rightarrow> string result) \<Rightarrow> ('g, 'h) do_provider \<Rightarrow> string result" where
  "DO_SerializeProvider enc p = enc (do_state p)"

definition restored :: "DO_ProviderState \<Rightarrow> 'g \<times> 'h \<Rightarrow> ('g, 'h) do_provider" where
  "restored st w = \<lparr> dp_world = w, dp_heap = map snd (dps_TaskStates st),
     dp_TaskStates = zip (keys (dps_TaskStates st)) [0..<length (dps_TaskStates st)], dp_Name = dps_Name st,
     dp_PetriTag = dps_PetriTag st, dp_FirewallID = dps_FirewallID st, dp_DomainIDs = dps_DomainIDs st \<rparr>"

definition RestoreProviderWithClient ::
    "(string \<Rightarrow> DO_ProviderState result) \<Rightarrow> string \<Rightarrow> bool \<Rightarrow> TailscaleSettings \<Rightarrow> 'h do_option list \<Rightarrow> 'g \<times> 'h \<Rightarrow>
     (('g, 'h) do_provider \<times> 'h do_settings) result" where
  "RestoreProviderWithClient dec state client ts opts w =
     (if \<not> client then Inl (New ''a valid digital ocean client must be passed when restoring the provider'')
      else and_then (dec state) (\<lambda>st. Inr (restored st w, settings ts opts)))"

definition DO_RestoreProvider ::
    "(string \<Rightarrow> DO_ProviderState result) \<Rightarrow> string \<Rightarrow> string \<Rightarrow> TailscaleSettings \<Rightarrow> 'h do_option list \<Rightarrow> 'g \<times> 'h \<Rightarrow>
     (('g, 'h) do_provider \<times> 'h do_settings) result" where
  "DO_RestoreProvider dec state token ts opts w =
     (if token = [] then Inl (New ''a non-empty token must be passed when restoring a DigitalOcean provider'')
      else RestoreProviderWithClient dec state True ts opts w)"

definition DO_SerializeTask :: "(DO_TaskState \<Rightarrow> string result) \<Rightarrow> nat \<Rightarrow> ('g, 'h) do_provider \<Rightarrow> string result" where
  "DO_SerializeTask enc t p = enc (DO_GetState t p)"

definition initializeDeserializedTask :: "('g, 'h) do_env \<Rightarrow> 'h do_settings \<Rightarrow> DO_TaskState \<Rightarrow> 'g \<times> 'h \<Rightarrow> 'h dclient result" where
  "initializeDeserializedTask e s st w =
     (case getDockerClientOverride s (dt_Name st) of
        Some dc \<Rightarrow> Inr dc
      | None \<Rightarrow> and_then (DO_GetIP e st w) (de_NewDockerClient e))"

text \<open>The new task's state is a copy that the provider's map does not know.\<close>

definition DO_DeserializeTask ::
    "('g, 'h) do_env \<Rightarrow> 'h do_settings \<Rightarrow> (string \<Rightarrow> DO_TaskState result) \<Rightarrow> string \<Rightarrow> ('g, 'h) do_provider \<Rightarrow>
     ('g, 'h) do_provider \<times> 'h do_task result" where
  "DO_DeserializeTask e s dec bz p =
     andThen (p, dec bz) (\<lambda>p st.
     andThen (p, initializeDeserializedTask e s st (dp_world p)) (\<lambda>p dc.
       (p\<lparr>dp_heap := dp_heap p @ [st]\<rparr>, Inr \<lparr> tk_state = length (dp_heap p), tk_docker = dc \<rparr>)))"

section \<open>Domains and teardown\<close>

fun create_records :: "('g, 'h) do_env \<Rightarrow> string \<Rightarrow> (string \<times> string) list \<Rightarrow> ('g, 'h) do_provider \<Rightarrow> ('g, 'h) do_provider \<times> unit result" where
  "create_records e root [] p = (p, Inr ())"
| "create_records e root ((domain, ip) # ds) p =
     andThen (wrapping (''failed to create domain '' @ domain)
        (in_world (on_account (CreateDomain (de_godo e) root \<lparr> rq_Type = ''A'', rq_Name = domain, rq_Data = ip, rq_TTL = 300 \<rparr>)) p)) (\<lambda>p i.
       create_records e root ds (p\<lparr>dp_DomainIDs := dp_DomainIDs p @ [i]\<rparr>))"

definition CreateDomains :: "('g, 'h) do_env \<Rightarrow> 'h do_settings \<Rightarrow> string gomap \<Rightarrow> ('g, 'h) do_provider \<Rightarrow> ('g, 'h) do_provider \<times> unit result" where
  "CreateDomains e s domains p =
     (if se_domain s = [] then (p, Inr ()) else create_records e (se_domain s) domains p)"

definition teardownTasks :: "('g, 'h) do_env \<Rightarrow> ('g, 'h) do_provider \<Rightarrow> ('g, 'h) do_provider \<times> unit result" where
  "teardownTasks e p = in_world (on_account (DeleteDropletByTag (de_godo e) (dp_PetriTag p))) p"

definition teardownFirewall :: "('g, 'h) do_env \<Rightarrow> ('g, 'h) do_provider \<Rightarrow> ('g, 'h) do_provider \<times> unit result" where
  "teardownFirewall e p =
     (let delete = in_world (on_account (DeleteFirewall (de_godo e) (dp_FirewallID p))) p
      in case GetFirewall (de_godo e) (dp_FirewallID p) (fst (dp_world p)) of
           Inl err \<Rightarrow> if errors_Is err ErrorResourceNotFound then (p, Inr ()) else delete
         | Inr _ \<Rightarrow> delete)"

definition teardownTag :: "('g, 'h) do_env \<Rightarrow> ('g, 'h) do_provider \<Rightarrow> ('g, 'h) do_provider \<times> unit result" where
  "teardownTag e p = in_world (on_account (DeleteTag (de_godo e) (dp_PetriTag p))) p"

text \<open>The joined error starts from the new error, so earlier ones are lost.\<close>

definition join_domain_error :: "int \<Rightarrow> error \<Rightarrow> error" where
  "join_domain_error i err = New (Error_str err @ [CHR 0x0A] @ ''failed to delete domain '' @ Itoa i @ '': '' @ Error_str err)"

fun delete_records :: "('g, 'h) do_env \<Rightarrow> string \<Rightarrow> int list \<Rightarrow> unit result \<Rightarrow> ('g, 'h) do_provider \<Rightarrow> ('g, 'h) do_provider \<times> unit result" where
  "delete_records e root [] multiErr p = (p, multiErr)"
| "delete_records e root (i # ids) multiErr p =
     (case in_world (on_account (DeleteDomain (de_godo e) root i)) p of
        (p, Inl err) \<Rightarrow> delete_records e root ids (Inl (join_domain_error i err)) p
      | (p, Inr _) \<Rightarrow> delete_records e root ids multiErr p)"

definition teardownDomains :: "('g, 'h) do_env \<Rightarrow> 'h do_settings \<Rightarrow> ('g, 'h) do_provider \<Rightarrow> ('g, 'h) do_provider \<times> unit result" where
  "teardownDomains e s p =
     (if se_domain s = [] then (p, Inr ()) else delete_records e (se_domain s) (dp_DomainIDs p) (Inr ()) p)"

definition DO_Teardown :: "('g, 'h) do_env \<Rightarrow> 'h do_settings \<Rightarrow> ('g, 'h) do_provider \<Rightarrow> ('g, 'h) do_provider \<times> unit result" where
  "DO_Teardown e s p =
     andThen (teardownTasks e p) (\<lambda>p _.
     andThen (teardownFirewall e p) (\<lambda>p _.
     andThen (teardownTag e p) (\<lambda>p _.
       teardownDomains e s p)))"

definition DO_GetType :: string where "DO_GetType = provider_DigitalOcean"

definition DO_GetName :: "('g, 'h) do_provider \<Rightarrow> string" where
  "DO_GetName p = dp_Name p"

end
