(* ===== verification/DO_Steps.thy ===== *)
theory DO_Steps
  imports DO_Provider
begin

text \<open>
  Relations that every operation of a DigitalOcean provider keeps. \<open>world_steps\<close> is for what happens on the
  droplets and while time passes, \<open>provider_steps\<close> extends it to all operations: whoever shows its laws for a
  relation on provider states, one per kind of change, has it for every sequence of operations. Theory
  \<open>DO_Lifecycle\<close> interprets both.
\<close>

section \<open>Sequences of operations\<close>

datatype 'h do_op =
    DoCreateTask TaskDefinition
  | DoStart "'h do_task"
  | DoStop "'h do_task"
  | DoDestroy "'h do_task"
  | DoRunCommand "string list" "'h do_task"
  | DoWriteFile string string "'h do_task"
  | DoCreateDomains "string gomap"
  | DoDeserializeTask string
  | DoSerializeRestore

text \<open>\<open>None\<close> is a command that never returns. \<open>dec\<close> decodes the state of a task.\<close>

fun do_step ::
    "('g, 'h) do_env \<Rightarrow> 'h do_settings \<Rightarrow> (string \<Rightarrow> DO_TaskState result) \<Rightarrow> 'h do_op \<Rightarrow> ('g, 'h) do_provider \<Rightarrow> ('g, 'h) do_provider option" where
  "do_step e s dec (DoCreateTask def) p = Some (fst (DO_CreateTask e s def p))"
| "do_step e s dec (DoStart t) p = Some (fst (DO_Start e t p))"
| "do_step e s dec (DoStop t) p = Some (fst (DO_Stop t p))"
| "do_step e s dec (DoDestroy t) p = Some (fst (DO_Destroy e t p))"
| "do_step e s dec (DoRunCommand cmd t) p = map_option fst (DO_RunCommand e cmd t p)"
| "do_step e s dec (DoWriteFile f c t) p = Some (fst (in_world (DO_WriteFile e f c (DO_GetState (tk_state t) p)) p))"
| "do_step e s dec (DoCreateDomains ds) p = Some (fst (CreateDomains e s ds p))"
| "do_step e s dec (DoDeserializeTask bz) p = Some (fst (DO_DeserializeTask e s dec bz p))"
| "do_step e s dec DoSerializeRestore p = Some (restored (do_state p) (dp_world p))"

fun do_run ::
    "('g, 'h) do_env \<Rightarrow> 'h do_settings \<Rightarrow> (string \<Rightarrow> DO_TaskState result) \<Rightarrow> 'h do_op list \<Rightarrow> ('g, 'h) do_provider \<Rightarrow> ('g, 'h) do_provider option" where
  "do_run e s dec [] p = Some p"
| "do_run e s dec (op # ops) p = Option.bind (do_step e s dec op p) (do_run e s dec ops)"

text \<open>Operations whose steps all lie in a relation.\<close>

definition steps_in :: "(('g, 'h) do_provider \<Rightarrow> ('g, 'h) do_provider \<Rightarrow> bool) \<Rightarrow> (('g, 'h) do_provider \<Rightarrow> ('g, 'h) do_provider \<times> 'r) \<Rightarrow> bool" where
  "steps_in R f \<longleftrightarrow> (\<forall>p. R p (fst (f p)))"

lemma steps_inI: "(\<And>p. R p (fst (f p))) \<Longrightarrow> steps_in R f"
  by (simp add: steps_in_def)

lemma steps_inD: "steps_in R f \<Longrightarrow> R p (fst (f p))"
  by (simp add: steps_in_def)

lemma steps_in_wrapping: "steps_in R f \<Longrightarrow> steps_in R (\<lambda>p. wrapping (m p) (f p))"
  by (simp add: steps_in_def)

lemma steps_in_if: "steps_in R f \<Longrightarrow> steps_in R g \<Longrightarrow> steps_in R (\<lambda>p. if b p then f p else g p)"
  by (simp add: steps_in_def)

lemma steps_in_result:
  assumes "\<And>y. steps_in R (\<lambda>p. f p y)" "\<And>y. steps_in R (\<lambda>p. g p y)"
  shows "steps_in R (\<lambda>p. case r p of Inl y \<Rightarrow> f p y | Inr y \<Rightarrow> g p y)"
  using assms by (auto simp: steps_in_def split: sum.splits)

section \<open>Steps of the world\<close>

text \<open>\<open>W\<close> relates worlds and \<open>R\<close> states of the provider. What happens on the droplets does not touch the account.\<close>

locale world_steps =
  fixes e :: "('g, 'h) do_env"
    and W :: "'g \<times> 'h \<Rightarrow> 'g \<times> 'h \<Rightarrow> bool"
    and R :: "('g, 'h) do_provider \<Rightarrow> ('g, 'h) do_provider \<Rightarrow> bool"
  assumes W_hosts: "fst w' = fst w \<Longrightarrow> W w w'"
    and W_sleep: "W w (de_Sleep e w)"
    and W_trans: "W w w' \<Longrightarrow> W w' w'' \<Longrightarrow> W w w''"
    and R_world: "W (dp_world p) w \<Longrightarrow> R p (p\<lparr>dp_world := w\<rparr>)"
    and R_trans: "R p p' \<Longrightarrow> R p' p'' \<Longrightarrow> R p p''"
begin

lemma W_refl [simp]: "W w w"
  by (rule W_hosts) simp

lemma R_refl [simp]: "R p p"
  using R_world[of p "dp_world p"] by simp

lemma R_slept: "R p (slept e p)"
  unfolding slept_def by (rule R_world) (rule W_sleep)

lemma steps_pure: "steps_in R (\<lambda>p. (p, f p))"
  by (simp add: steps_in_def)

lemma steps_andThen:
  assumes "steps_in R f" "\<And>x. steps_in R (\<lambda>p. g p x)"
  shows "steps_in R (\<lambda>p. andThen (f p) g)"
proof (rule steps_inI)
  fix p
  have "R p (fst (f p))" "\<And>q x. R q (fst (g q x))" using assms by (simp_all add: steps_in_def)
  then show "R p (fst (andThen (f p) g))"
    by (auto simp: andThen_def split: prod.splits sum.splits intro: R_trans)
qed

lemma steps_world:
  assumes "\<And>w. W w (fst (f w))"
  shows "steps_in R (in_world f)"
proof (rule steps_inI)
  fix p
  show "R p (fst (in_world f p))" using R_world[OF assms[of "dp_world p"]] by (auto simp: in_world_def split: prod.splits)
qed

lemma W_on_hosts [simp]: "W w (fst (on_hosts f w))"
  by (rule W_hosts) (simp add: on_hosts_def split: prod.splits)

lemma steps_hosts: "steps_in R (in_world (on_hosts f))"
  by (rule steps_world) simp

lemma steps_poll:
  assumes "steps_in R fn"
  shows "steps_in R (\<lambda>p. poll secs (n p) (slept e) fn p)"
proof (rule steps_inI)
  fix p
  show "R p (fst (poll secs (n p) (slept e) fn p))"
    by (rule poll_inv[where P = "R p"]) (use assms in \<open>auto simp: steps_in_def intro: R_trans R_slept\<close>)
qed

lemmas steps_intros = steps_andThen steps_pure steps_hosts steps_poll steps_in_wrapping steps_in_if steps_in_result

lemma waitForExec_W:
  assumes "waitForExec dn (de_Sleep e) ins w = Some r"
  shows "W w (fst r)"
proof -
  have "tick = de_Sleep e \<longrightarrow> W w (fst r)" if "waitForExec dn tick ins w = Some r" for tick
  proof (rule waitForExec.raw_induct[where P = "\<lambda>dn tick ins w r. tick = de_Sleep e \<longrightarrow> W w (fst r)", OF _ that])
    fix F dn tick ins w r
    assume F: "\<And>dn tick ins w r. F dn tick ins w = Some r \<Longrightarrow> tick = de_Sleep e \<longrightarrow> W w (fst r)"
      and step: "(case dn w of
        Some err \<Rightarrow> Some (w, 0, Some err)
      | None \<Rightarrow>
          (case ins (tick w) of
             Inl err \<Rightarrow> Some (tick w, 0, Some err)
           | Inr (running, code) \<Rightarrow> if running then F dn tick ins (tick w) else Some (tick w, code, None))) = Some r"
    show "tick = de_Sleep e \<longrightarrow> W w (fst r)"
      using step F[of dn "de_Sleep e" ins "de_Sleep e w" r] W_trans[OF W_sleep, of w "fst r"] W_sleep[of w]
      by (auto split: option.splits sum.splits if_splits prod.splits)
  qed
  then show ?thesis using assms by blast
qed

lemma exec_W:
  assumes "exec_in e dc c cmd w = Some r"
  shows "W w (fst r)"
proof -
  obtain w1 x where 1: "on_hosts (dc_ExecCreate dc c cmd) w = (w1, x)" by fastforce
  have w1: "W w w1" using W_on_hosts[of w "dc_ExecCreate dc c cmd"] 1 by simp
  show ?thesis
  proof (cases x)
    case (Inl err)
    then show ?thesis using assms 1 w1 by (auto simp: exec_in_def)
  next
    case (Inr i)
    obtain w2 y where 2: "on_hosts (dc_ExecAttach dc i) w1 = (w2, y)" by fastforce
    then have "W w w2" using W_on_hosts[of w1 "dc_ExecAttach dc i"] w1 W_trans by simp
    then show ?thesis using assms 1 2 Inr waitForExec_W[of _ _ w2]
      by (fastforce simp: exec_in_def Option.bind_eq_Some_conv split: sum.splits intro: W_trans)
  qed
qed

lemma await_W: "W w (fst (await_container e dc c n w))"
proof (induction n arbitrary: w)
  case (Suc n)
  show ?case using Suc[of "de_Sleep e w"] W_sleep[of w] by (auto simp: Let_def split: sum.splits intro: W_trans)
qed (simp add: W_sleep)

lemma start_W: "W w (fst (startContainerWithBlock e dc c w))"
proof -
  obtain w1 r where 1: "on_hosts (dc_ContainerStart dc c) w = (w1, r)" by fastforce
  then have "W w w1" using W_on_hosts[of w "dc_ContainerStart dc c"] by simp
  then show ?thesis using 1 await_W[of w1 dc c] by (auto simp: startContainerWithBlock_def andThen_def split: sum.splits intro: W_trans)
qed

lemma stopped_W:
  assumes "runCommandWhileStopped e dc st cmd w = Some r"
  shows "W w (fst r)"
proof (cases "TaskDefinition_ValidateBasic (dt_Definition st)")
  case (Inl err)
  then show ?thesis using assms by (auto simp: runCommandWhileStopped_def)
next
  case (Inr u)
  let ?n = "td_Name (dt_Definition st) @ ''-executor-'' @ RandomString (de_Random e w) 5 @ ''-'' @ Itoa (de_Unix e w)"
  obtain w1 x where 1: "on_hosts (dc_ContainerCreate dc (executor_spec ?n st)) w = (w1, x)" by fastforce
  then have w1: "W w w1" using W_on_hosts[of w "dc_ContainerCreate dc (executor_spec ?n st)"] by simp
  show ?thesis
  proof (cases x)
    case (Inl err)
    then show ?thesis using assms Inr 1 w1 by (auto simp: runCommandWhileStopped_def Let_def)
  next
    case (Inr c)
    obtain w2 y where 2: "startContainerWithBlock e dc c w1 = (w2, y)" by fastforce
    then have w2: "W w w2" using start_W[of w1 dc c] w1 W_trans by simp
    obtain q where q: "(case (w2, y) of (w, Inl err) \<Rightarrow> Some (w, no_output err) | (w, Inr _) \<Rightarrow> exec_in e dc c cmd w) = Some q"
      and r: "fst r = apsnd (remove_executor dc c) (fst q)"
      using assms \<open>TaskDefinition_ValidateBasic (dt_Definition st) = Inr u\<close> 1 2 Inr
      by (auto simp: runCommandWhileStopped_def Let_def)
    have "W w (fst q)" using q w2 exec_W[of dc c cmd w2 q] by (auto split: sum.splits intro: W_trans)
    moreover have "W (fst q) (fst r)" unfolding r by (rule W_hosts) simp
    ultimately show ?thesis by (rule W_trans)
  qed
qed

lemma R_RunCommand:
  assumes "DO_RunCommand e cmd t p = Some r"
  shows "R p (fst r)"
proof -
  obtain w c where run: "(case DO_GetStatus e (tk_docker t) (DO_GetState (tk_state t) p) (dp_world p) of
              Inl err \<Rightarrow> Some (dp_world p, no_output err)
            | Inr status \<Rightarrow>
                if status \<noteq> TASK_RUNNING then runCommandWhileStopped e (tk_docker t) (DO_GetState (tk_state t) p) cmd (dp_world p)
                else DO_runCommand e (tk_docker t) (DO_GetState (tk_state t) p) cmd (dp_world p)) = Some (w, c)"
    and r: "fst r = p\<lparr>dp_world := w\<rparr>"
    using assms unfolding DO_RunCommand_def Let_def map_option_eq_Some by force
  have "W (dp_world p) w"
    using run stopped_W[of _ _ _ "dp_world p" "(w, c)"] exec_W[of _ _ _ "dp_world p" "(w, c)"]
    by (auto simp: DO_runCommand_def split: sum.splits if_splits)
  then show ?thesis unfolding r by (rule R_world)
qed

lemma W_WriteFile: "W w (fst (DO_WriteFile e relPath content st w))"
  by (rule W_hosts) (auto simp: DO_WriteFile_def Let_def andThen_def on_hosts_def split: prod.splits sum.splits)

lemma steps_pull: "steps_in R (pull_attempts e dc ref auth n err)"
proof (induction n arbitrary: err)
  case (Suc n)
  have "R p (fst (pull_attempts e dc ref auth (Suc n) err p))" for p
  proof -
    obtain p1 r where r: "in_world (on_hosts (dc_ImagePull dc ref auth)) p = (p1, r)" by fastforce
    have "R p p1" using steps_inD[OF steps_hosts, of p "dc_ImagePull dc ref auth"] r by simp
    then show ?thesis using r R_slept[of p1] steps_inD[OF Suc.IH] by (auto split: sum.splits intro: R_trans)
  qed
  then show ?case by (rule steps_inI)
qed (simp add: steps_in_def)

lemma R_docker: "R p (snd (fst (waitForDockerStart e t (dc, p))))"
proof -
  have "R p (snd (fst (poll secs n (apsnd (slept e)) (docker_ready e t) (dc, p))))" for secs n
    by (rule poll_inv[where P = "\<lambda>s. R p (snd s)"])
       (auto simp: docker_ready_def Let_def split: sum.splits intro: R_trans R_slept)
  then show ?thesis by (simp add: waitForDockerStart_def)
qed

lemma steps_container: "steps_in R (create_container e dc t)"
  unfolding create_container_def
proof (intro steps_in_wrapping steps_poll steps_inI)
  fix p :: "('g, 'h) do_provider"
  obtain q r where "in_world (on_hosts (dc_ContainerCreate dc (droplet_spec (DO_GetState t p)))) p = (q, r)" by fastforce
  moreover have "R p (fst (in_world (on_hosts (dc_ContainerCreate dc (droplet_spec (DO_GetState t p)))) p))"
    by (rule steps_inD[OF steps_hosts])
  ultimately show "R p (fst (case in_world (on_hosts (dc_ContainerCreate dc (droplet_spec (DO_GetState t p)))) p of
                 (p, Inl err) \<Rightarrow> (p, if dc_IsErrConnectionFailed dc err then Inr False else Inl err)
               | (p, Inr _) \<Rightarrow> (p, Inr True)))"
    by (auto split: sum.splits)
qed

lemma steps_setup: "steps_in R (setup_task e s def t)"
proof -
  have 1: "steps_in R (await_peer e t)" unfolding await_peer_def by (intro steps_intros)
  have 2: "steps_in R (\<lambda>p. case waitForDockerStart e t (Some dc, p) of ((_, p), r) \<Rightarrow> (p, wrap_err m r))" for dc m
  proof (rule steps_inI)
    fix p
    show "R p (fst (case waitForDockerStart e t (Some dc, p) of ((_, p), r) \<Rightarrow> (p, wrap_err m r)))"
      using R_docker[of p t "Some dc"] by (auto split: prod.splits)
  qed
  have 3: "steps_in R (pull_image e dc def)" for dc
    unfolding pull_image_def Let_def by (intro steps_in_result steps_pure steps_pull)
  show ?thesis unfolding setup_task_def by (intro steps_andThen steps_pure 1 2 3 steps_container)
qed

end

section \<open>Steps of the provider\<close>

locale provider_steps = world_steps e W R
  for e :: "('g, 'h) do_env" and W and R +
  fixes root :: string
  assumes W_delete: "W w (fst (on_account (DeleteDropletByID (de_godo e) i) w))"
    and R_status: "R p (DO_set_status t st p)"
    and R_store: "TaskDefinition_ValidateBasic def = Inr () \<Longrightarrow> R p (store_task (new_task_state i def p) p)"
    and R_append: "R p (p\<lparr>dp_heap := dp_heap p @ [ts]\<rparr>)"
    and R_remove: "R p (DO_removeTask k p)"
    and R_droplet: "dq_Tags req = [dp_PetriTag p] \<Longrightarrow> R p (fst (in_world (on_account (CreateDroplet_call (de_godo e) req)) p))"
    and R_record: "in_world (on_account (CreateDomain (de_godo e) root rreq)) p = (q, r) \<Longrightarrow>
      R p (case r of Inl _ \<Rightarrow> q | Inr i \<Rightarrow> q\<lparr>dp_DomainIDs := dp_DomainIDs q @ [i]\<rparr>)"
    and R_restore: "R p (restored (do_state p) (dp_world p))"
begin

lemma steps_Start: "steps_in R (DO_Start e t)"
  unfolding DO_Start_def
proof (intro steps_intros)
  show "steps_in R (\<lambda>p. (DO_set_status (tk_state t) TASK_RUNNING p, Inr True))" by (simp add: steps_in_def R_status)
qed

lemma steps_Stop: "steps_in R (DO_Stop t)"
  unfolding DO_Stop_def
proof (intro steps_in_result steps_pure steps_inI)
  fix p c
  show "R p (fst (in_world (on_hosts (dc_ContainerStop (tk_docker t) c)) (DO_set_status (tk_state t) TASK_STOPPED p)))"
    by (rule R_trans[OF R_status steps_inD[OF steps_hosts]])
qed

lemma steps_Destroy: "steps_in R (DO_Destroy e t)"
proof -
  have "steps_in R (in_world (deleteDroplet e st))" for st
    by (rule steps_world) (simp add: deleteDroplet_def W_delete split: sum.splits)
  then have "steps_in R (\<lambda>p. in_world (deleteDroplet e (DO_GetState (tk_state t) p)) p)" by (simp add: steps_in_def)
  moreover have "steps_in R (\<lambda>p. (DO_removeTask (f p) p, Inr ()))" for f by (simp add: steps_in_def R_remove)
  ultimately show ?thesis unfolding DO_Destroy_def by (intro steps_andThen)
qed

lemma steps_CreateDroplet: "steps_in R (CreateDroplet e s def)"
  unfolding CreateDroplet_def by (intro steps_andThen steps_pure) (simp add: steps_in_def R_droplet)

lemma steps_CreateTask: "steps_in R (DO_CreateTask e s def)"
proof (cases "TaskDefinition_ValidateBasic def")
  case (Inl err)
  then show ?thesis by (simp add: DO_CreateTask_def steps_in_def)
next
  case (Inr u)
  have "steps_in R (\<lambda>p. setup_task e s def (length (dp_heap p)) (store_task (new_task_state (dr_ID d) def p) p))" for d
  proof (rule steps_inI)
    fix p
    show "R p (fst (setup_task e s def (length (dp_heap p)) (store_task (new_task_state (dr_ID d) def p) p)))"
      using Inr by (intro R_trans[OF R_store steps_inD[OF steps_setup]]) simp
  qed
  then show ?thesis unfolding DO_CreateTask_def
    by (intro steps_in_result steps_in_if steps_andThen steps_pure steps_CreateDroplet)
qed

lemma steps_records: "steps_in R (create_records e root ds)"
proof (induction ds)
  case (Cons d ds)
  obtain domain ip where d: "d = (domain, ip)" by fastforce
  have "R p (fst (create_records e root (d # ds) p))" for p
  proof -
    obtain q r where q: "in_world (on_account (CreateDomain (de_godo e) root \<lparr> rq_Type = ''A'', rq_Name = domain, rq_Data = ip, rq_TTL = 300 \<rparr>)) p = (q, r)"
      by fastforce
    show ?thesis using R_record[OF q] q d steps_inD[OF Cons.IH]
      by (auto simp: andThen_def wrapping_def wrap_err_def split: sum.splits intro: R_trans)
  qed
  then show ?case by (rule steps_inI)
qed (simp add: steps_in_def)

lemma steps_domains: "se_domain s = root \<or> se_domain s = [] \<Longrightarrow> steps_in R (CreateDomains e s ds)"
  unfolding CreateDomains_def using steps_records[of ds] by (auto simp: steps_in_def)

lemma R_step:
  assumes "se_domain s = root \<or> se_domain s = []" "do_step e s dec op p = Some p'"
  shows "R p p'"
proof (cases op)
  case (DoWriteFile f c t)
  have "steps_in R (in_world (DO_WriteFile e f c st))" for st by (rule steps_world) (rule W_WriteFile)
  then show ?thesis using assms(2) DoWriteFile by (auto simp: steps_in_def)
next
  case (DoDeserializeTask bz)
  then show ?thesis using assms(2) by (auto simp: DO_DeserializeTask_def andThen_def R_append split: sum.splits)
next
  case (DoRunCommand cmd t)
  then show ?thesis using assms(2) R_RunCommand by auto
qed (use assms steps_inD[OF steps_CreateTask] steps_inD[OF steps_Start] steps_inD[OF steps_Stop] steps_inD[OF steps_Destroy]
       steps_inD[OF steps_domains] R_restore in auto)

lemma R_run: "se_domain s = root \<or> se_domain s = [] \<Longrightarrow> do_run e s dec ops p = Some p' \<Longrightarrow> R p p'"
proof (induction ops arbitrary: p)
  case (Cons op ops)
  then obtain q where "do_step e s dec op p = Some q" "do_run e s dec ops q = Some p'"
    by (auto simp: Option.bind_eq_Some_conv)
  then show ?case using Cons R_step R_trans by blast
qed simp

end

end
