(* ===== verification/DO_Lifecycle.thy ===== *)
theory DO_Lifecycle
  imports DO_Steps
begin

text \<open>
  What a sequence of operations on a DigitalOcean provider keeps, and what a teardown leaves. The API is known
  only through \<open>account_law\<close>: \<open>droplets\<close> (with their tags), \<open>firewalls\<close> and \<open>records\<close> are what was created through this
  client and exists.
\<close>

section \<open>The account\<close>

record 'g account_view =
  av_droplets :: "'g \<Rightarrow> int \<rightharpoonup> string list"
  av_firewalls :: "'g \<Rightarrow> string set"
  av_records :: "'g \<Rightarrow> (string \<times> int) set"

text \<open>From one state to the next only droplets with tags in \<open>D\<close>, firewalls in \<open>F\<close> and records in \<open>R\<close> appear.\<close>

definition adds :: "'g account_view \<Rightarrow> string list set \<Rightarrow> string set \<Rightarrow> (string \<times> int) set \<Rightarrow> 'g \<Rightarrow> 'g \<Rightarrow> bool" where
  "adds v D F R g g' \<longleftrightarrow>
     (\<forall>i t. av_droplets v g' i = Some t \<longrightarrow> av_droplets v g i = Some t \<or> t \<in> D) \<and>
     av_firewalls v g' \<subseteq> av_firewalls v g \<union> F \<and> av_records v g' \<subseteq> av_records v g \<union> R"

abbreviation nothing :: "'g account_view \<Rightarrow> 'g \<Rightarrow> 'g \<Rightarrow> bool" where
  "nothing v \<equiv> adds v {} {} {}"

text \<open>What the API documents. Creating adds what is asked for; a droplet may appear even when the answer is an
  error. A successful deletion deletes. A firewall that is not found does not exist. Time adds nothing.\<close>

definition account_law :: "('g, 'h) do_env \<Rightarrow> 'g account_view \<Rightarrow> bool" where
  "account_law e v \<longleftrightarrow>
     (\<forall>req g. adds v {dq_Tags req} {} {} g (fst (gd_DropletCreate (de_godo e) req g))) \<and>
     (\<forall>req g. adds v {} {i. received (snd (gd_FirewallCreate (de_godo e) req g)) = Inr i} {} g (fst (gd_FirewallCreate (de_godo e) req g))) \<and>
     (\<forall>root req g. adds v {} {} {(root, i) |i. received (snd (gd_RecordCreate (de_godo e) root req g)) = Inr i} g (fst (gd_RecordCreate (de_godo e) root req g))) \<and>
     (\<forall>tag g. nothing v g (fst (gd_TagCreate (de_godo e) tag g))) \<and>
     (\<forall>i g. nothing v g (fst (gd_DropletDelete (de_godo e) i g))) \<and>
     (\<forall>tag g. nothing v g (fst (gd_DropletDeleteByTag (de_godo e) tag g)) \<and>
        av_records v (fst (gd_DropletDeleteByTag (de_godo e) tag g)) = av_records v g \<and>
        (received (snd (gd_DropletDeleteByTag (de_godo e) tag g)) = Inr () \<longrightarrow>
           (\<forall>i t. av_droplets v (fst (gd_DropletDeleteByTag (de_godo e) tag g)) i = Some t \<longrightarrow> tag \<notin> set t))) \<and>
     (\<forall>i g er. received (gd_FirewallGet (de_godo e) i g) = Inl er \<longrightarrow> errors_Is er ErrorResourceNotFound \<longrightarrow> i \<notin> av_firewalls v g) \<and>
     (\<forall>i g. nothing v g (fst (gd_FirewallDelete (de_godo e) i g)) \<and>
        av_records v (fst (gd_FirewallDelete (de_godo e) i g)) = av_records v g \<and>
        (received (snd (gd_FirewallDelete (de_godo e) i g)) = Inr () \<longrightarrow> i \<notin> av_firewalls v (fst (gd_FirewallDelete (de_godo e) i g)))) \<and>
     (\<forall>tag g. nothing v g (fst (gd_TagDelete (de_godo e) tag g)) \<and> av_records v (fst (gd_TagDelete (de_godo e) tag g)) = av_records v g) \<and>
     (\<forall>root i g. nothing v g (fst (gd_RecordDelete (de_godo e) root i g)) \<and>
        (received (snd (gd_RecordDelete (de_godo e) root i g)) = Inr () \<longrightarrow> (root, i) \<notin> av_records v (fst (gd_RecordDelete (de_godo e) root i g)))) \<and>
     (\<forall>g x. nothing v g (fst (de_Sleep e (g, x))))"

lemma adds_refl [simp]: "adds v D F R g g"
  by (simp add: adds_def)

lemma adds_trans: "adds v D F R g g' \<Longrightarrow> adds v D F R g' g'' \<Longrightarrow> adds v D F R g g''"
  unfolding adds_def by blast

lemma adds_mono: "adds v D F R g g' \<Longrightarrow> D \<subseteq> D' \<Longrightarrow> F \<subseteq> F' \<Longrightarrow> R \<subseteq> R' \<Longrightarrow> adds v D' F' R' g g'"
  unfolding adds_def by blast

lemma nothing_adds: "nothing v g g' \<Longrightarrow> adds v D F R g g'"
  by (rule adds_mono) auto

lemma nothingD:
  assumes "nothing v g g'"
  shows "av_droplets v g' i = Some t \<Longrightarrow> av_droplets v g i = Some t" "av_firewalls v g' \<subseteq> av_firewalls v g" "av_records v g' \<subseteq> av_records v g"
  using assms unfolding adds_def by auto

lemma account_lawD:
  assumes "account_law e v"
  shows "adds v {dq_Tags dreq} {} {} g (fst (CreateDroplet_call (de_godo e) dreq g))"
    "nothing v g (fst (CreateTag (de_godo e) tag g))" "nothing v g (fst (DeleteDropletByID (de_godo e) i g))"
    "nothing v g (fst (DeleteDropletByTag (de_godo e) tag g))" "nothing v g (fst (DeleteFirewall (de_godo e) fid g))"
    "nothing v g (fst (DeleteTag (de_godo e) tag g))" "nothing v g (fst (DeleteDomain (de_godo e) root i g))"
  using assms unfolding account_law_def
  by (simp_all add: CreateDroplet_call_def CreateTag_def DeleteDropletByID_def DeleteDropletByTag_def DeleteFirewall_def DeleteTag_def DeleteDomain_def)

lemma sleep_nothing: "account_law e v \<Longrightarrow> nothing v (fst w) (fst (de_Sleep e w))"
  unfolding account_law_def by (cases w) simp

lemma firewall_created:
  assumes "account_law e v" "CreateFirewall_call (de_godo e) req g = (g', r)"
  shows "adds v {} {i. r = Inr i} {} g g'"
proof -
  have "adds v {} {i. received (snd (gd_FirewallCreate (de_godo e) req g)) = Inr i} {} g (fst (gd_FirewallCreate (de_godo e) req g))"
    using assms(1) unfolding account_law_def by simp
  moreover have "g' = fst (gd_FirewallCreate (de_godo e) req g)" "r = received (snd (gd_FirewallCreate (de_godo e) req g))"
    using assms(2) by (auto simp: CreateFirewall_call_def apsnd_def prod_eq_iff)
  ultimately show ?thesis by simp
qed

lemma record_created:
  assumes "account_law e v" "CreateDomain (de_godo e) root req g = (g', r)"
  shows "adds v {} {} {(root, i) |i. r = Inr i} g g'"
proof -
  have "adds v {} {} {(root, i) |i. received (snd (gd_RecordCreate (de_godo e) root req g)) = Inr i} g (fst (gd_RecordCreate (de_godo e) root req g))"
    using assms(1) unfolding account_law_def by simp
  moreover have "g' = fst (gd_RecordCreate (de_godo e) root req g)" "r = received (snd (gd_RecordCreate (de_godo e) root req g))"
    using assms(2) by (auto simp: CreateDomain_def apsnd_def prod_eq_iff)
  ultimately show ?thesis by simp
qed

lemma droplets_deleted:
  assumes "account_law e v" "DeleteDropletByTag (de_godo e) tag g = (g', Inr ())" "av_droplets v g' i = Some t"
  shows "tag \<notin> set t"
proof -
  have "g' = fst (gd_DropletDeleteByTag (de_godo e) tag g)" "received (snd (gd_DropletDeleteByTag (de_godo e) tag g)) = Inr ()"
    using assms(2) by (auto simp: DeleteDropletByTag_def apsnd_def prod_eq_iff)
  then show ?thesis using assms(1,3) unfolding account_law_def by blast
qed

lemma firewall_deleted:
  assumes "account_law e v" "DeleteFirewall (de_godo e) i g = (g', Inr ())"
  shows "i \<notin> av_firewalls v g'"
proof -
  have "g' = fst (gd_FirewallDelete (de_godo e) i g)" "received (snd (gd_FirewallDelete (de_godo e) i g)) = Inr ()"
    using assms(2) by (auto simp: DeleteFirewall_def apsnd_def prod_eq_iff)
  then show ?thesis using assms(1) unfolding account_law_def by blast
qed

lemma firewall_missing:
  assumes "account_law e v" "GetFirewall (de_godo e) i g = Inl er" "errors_Is er ErrorResourceNotFound"
  shows "i \<notin> av_firewalls v g"
  using assms unfolding account_law_def GetFirewall_def by blast

lemma record_deleted:
  assumes "account_law e v" "DeleteDomain (de_godo e) root i g = (g', Inr ())"
  shows "(root, i) \<notin> av_records v g'"
proof -
  have "g' = fst (gd_RecordDelete (de_godo e) root i g)" "received (snd (gd_RecordDelete (de_godo e) root i g)) = Inr ()"
    using assms(2) by (auto simp: DeleteDomain_def apsnd_def prod_eq_iff)
  then show ?thesis using assms(1) unfolding account_law_def by blast
qed

lemma account_law_records:
  assumes "account_law e v"
  shows "av_records v (fst (DeleteDropletByTag (de_godo e) tag g)) = av_records v g"
    "av_records v (fst (DeleteFirewall (de_godo e) fid g)) = av_records v g"
    "av_records v (fst (DeleteTag (de_godo e) tag g)) = av_records v g"
  using assms unfolding account_law_def by (simp_all add: DeleteDropletByTag_def DeleteFirewall_def DeleteTag_def)

section \<open>Operations\<close>

abbreviation account :: "('g, 'h) do_provider \<Rightarrow> 'g" where
  "account p \<equiv> fst (dp_world p)"

text \<open>What an operation may do to a provider whose domain is \<open>root\<close>: it creates droplets under the provider's
  tag and domain records whose ids it keeps.\<close>

definition keeps :: "'g account_view \<Rightarrow> string \<Rightarrow> ('g, 'h) do_provider \<Rightarrow> ('g, 'h) do_provider \<Rightarrow> bool" where
  "keeps v root p p' \<longleftrightarrow> dp_PetriTag p' = dp_PetriTag p \<and> dp_FirewallID p' = dp_FirewallID p \<and> dp_Name p' = dp_Name p \<and>
     set (dp_DomainIDs p) \<subseteq> set (dp_DomainIDs p') \<and>
     adds v {[dp_PetriTag p]} {} ({root} \<times> set (dp_DomainIDs p')) (account p) (account p')"

lemma keeps_refl [simp]: "keeps v root p p"
  by (simp add: keeps_def)

lemma keeps_trans: "keeps v root p p' \<Longrightarrow> keeps v root p' p'' \<Longrightarrow> keeps v root p p''"
  unfolding keeps_def
  by (intro conjI) (auto intro: adds_trans adds_mono[OF _ order.refl order.refl Sigma_mono])

lemma keeps_same:
  assumes "dp_PetriTag p' = dp_PetriTag p" "dp_FirewallID p' = dp_FirewallID p" "dp_Name p' = dp_Name p" "dp_DomainIDs p' = dp_DomainIDs p"
    and "nothing v (account p) (account p')"
  shows "keeps v root p p'"
  using assms nothing_adds unfolding keeps_def by auto

interpretation account_steps: provider_steps e "\<lambda>w w'. account_law e v \<longrightarrow> nothing v (fst w) (fst w')" "\<lambda>p p'. account_law e v \<longrightarrow> keeps v root p p'" root
  for e v root
proof unfold_locales
  fix i w
  show "account_law e v \<longrightarrow> nothing v (fst w) (fst (fst (on_account (DeleteDropletByID (de_godo e) i) w)))"
    using account_lawD(3)[of e v "fst w" i] by (auto simp: on_account_def split: prod.splits)
next
  fix req :: DropletCreateRequest and p :: "('a, 'b) do_provider"
  assume "dq_Tags req = [dp_PetriTag p]"
  then show "account_law e v \<longrightarrow> keeps v root p (fst (in_world (on_account (CreateDroplet_call (de_godo e) req)) p))"
    using account_lawD(1)[of e v req "account p"]
    by (auto simp: keeps_def in_world_def on_account_def split: prod.splits intro: adds_mono)
next
  fix req and p q :: "('a, 'b) do_provider" and r
  assume "in_world (on_account (CreateDomain (de_godo e) root req)) p = (q, r)"
  then obtain g where g: "CreateDomain (de_godo e) root req (account p) = (g, r)" "q = p\<lparr>dp_world := (g, snd (dp_world p))\<rparr>"
    by (auto simp: in_world_def on_account_def split: prod.splits)
  then show "account_law e v \<longrightarrow> keeps v root p (case r of Inl _ \<Rightarrow> q | Inr i \<Rightarrow> q\<lparr>dp_DomainIDs := dp_DomainIDs q @ [i]\<rparr>)"
    using record_created[of e v root req "account p" g r] by (cases r) (auto simp: keeps_def intro: adds_mono)
qed (auto simp: sleep_nothing DO_set_status_def store_task_def DO_removeTask_def restored_def do_state_def
       intro: adds_trans keeps_trans keeps_same)

lemma keeps_run: "account_law e v \<Longrightarrow> do_run e s dec ops p = Some p' \<Longrightarrow> keeps v (se_domain s) p p'"
  using account_steps.R_run[of s "se_domain s" e dec ops p p' v] by blast

section \<open>The map of tasks\<close>

text \<open>The map's keys are the ids of the states it points to, and every state was made by this provider from a
  valid definition.\<close>

definition tracked_state :: "('g, 'h) do_provider \<Rightarrow> string \<Rightarrow> DO_TaskState \<Rightarrow> bool" where
  "tracked_state p k st \<longleftrightarrow> dt_ID st = k \<and> dt_Name st = dp_PetriTag p @ ''-'' @ td_Name (dt_Definition st) \<and>
     dt_TailscaleHostname st = dt_Name st \<and> dt_ProviderName st = dp_Name p \<and> TaskDefinition_ValidateBasic (dt_Definition st) = Inr ()"

definition tracked :: "('g, 'h) do_provider \<Rightarrow> bool" where
  "tracked p \<longleftrightarrow> distinct (keys (dp_TaskStates p)) \<and>
     (\<forall>(k, t) \<in> set (dp_TaskStates p). t < length (dp_heap p) \<and> tracked_state p k (dp_heap p ! t))"

lemma tracked_same:
  assumes "dp_TaskStates p' = dp_TaskStates p" "dp_Name p' = dp_Name p" "dp_PetriTag p' = dp_PetriTag p"
    and "\<And>t. t < length (dp_heap p) \<Longrightarrow> t < length (dp_heap p') \<and>
      (\<exists>s. dp_heap p' ! t = (dp_heap p ! t)\<lparr>dt_Status := s\<rparr>)"
    and "tracked p"
  shows "tracked p'"
  unfolding tracked_def
proof (intro conjI ballI)
  show "distinct (keys (dp_TaskStates p'))" using assms by (simp add: tracked_def)
next
  fix x assume "x \<in> set (dp_TaskStates p')"
  then obtain k t where x: "x = (k, t)" "(k, t) \<in> set (dp_TaskStates p)" using assms(1) by (metis surj_pair)
  then have "t < length (dp_heap p)" "tracked_state p k (dp_heap p ! t)" using assms(5) by (auto simp: tracked_def)
  then show "case x of (k, t) \<Rightarrow> t < length (dp_heap p') \<and> tracked_state p' k (dp_heap p' ! t)"
    using assms(2,3) assms(4)[of t] x(1) by (auto simp: tracked_state_def)
qed

lemma status_self: "\<exists>s. (st :: DO_TaskState) = st\<lparr>dt_Status := s\<rparr>"
  by (rule exI[of _ "dt_Status st"]) simp

lemma tracked_world: "tracked p \<Longrightarrow> tracked (p\<lparr>dp_world := w, dp_DomainIDs := ds\<rparr>)"
  by (simp add: tracked_def tracked_state_def)

lemma status_update:
  "ta < length h \<Longrightarrow> \<exists>s. h[t := (h ! t)\<lparr>dt_Status := st\<rparr>] ! ta = (h ! ta :: DO_TaskState)\<lparr>dt_Status := s\<rparr>"
  by (cases "t = ta") (auto intro: status_self)

lemma tracked_status: "tracked p \<Longrightarrow> tracked (DO_set_status t st p)"
  by (erule tracked_same[rotated 4]) (simp_all add: DO_set_status_def status_update)

lemma tracked_append: "tracked p \<Longrightarrow> tracked (p\<lparr>dp_heap := dp_heap p @ [ts]\<rparr>)"
  by (erule tracked_same[rotated 4]) (auto simp: nth_append intro: status_self)

lemma set_update_subset: "set (AList.update k v m) \<subseteq> insert (k, v) (set m)"
  by (induction m) auto

lemma tracked_store:
  assumes "tracked p" "TaskDefinition_ValidateBasic def = Inr ()"
  shows "tracked (store_task (new_task_state i def p) p)"
proof -
  let ?st = "new_task_state i def p" and ?n = "length (dp_heap p)"
  have "distinct (keys (AList.update (dt_ID ?st) ?n (dp_TaskStates p)))" using assms(1) by (simp add: tracked_def distinct_keys_mput)
  moreover have "t < Suc ?n \<and> tracked_state p k ((dp_heap p @ [?st]) ! t)" if "(k, t) \<in> set (AList.update (dt_ID ?st) ?n (dp_TaskStates p))" for k t
  proof (cases "(k, t) = (dt_ID ?st, ?n)")
    case True
    then show ?thesis using assms(2) by (simp add: tracked_state_def new_task_state_def)
  next
    case False
    then have "(k, t) \<in> set (dp_TaskStates p)" using that set_update_subset by fastforce
    then show ?thesis using assms(1) by (auto simp: tracked_def nth_append)
  qed
  ultimately show ?thesis by (auto simp: tracked_def store_task_def tracked_state_def)
qed

lemma tracked_remove: "tracked p \<Longrightarrow> tracked (DO_removeTask k p)"
proof -
  assume t: "tracked p"
  have "set (AList.delete k (dp_TaskStates p)) \<subseteq> set (dp_TaskStates p)" by (auto simp: AList.delete_eq)
  then show ?thesis using t distinct_delete[of "dp_TaskStates p" k] by (auto simp: tracked_def DO_removeTask_def tracked_state_def)
qed

lemma tracked_restore: "tracked p \<Longrightarrow> tracked (restored (do_state p) w)"
  by (auto simp: tracked_def restored_def do_state_def tracked_state_def set_zip comp_def case_prod_beta)

interpretation tracked_steps: provider_steps e "\<lambda>_ _. True" "\<lambda>p p'. tracked p \<longrightarrow> tracked p'" root for e root
proof unfold_locales
  fix p q :: "('a, 'b) do_provider" and req r
  assume "in_world (on_account (CreateDomain (de_godo e) root req)) p = (q, r)"
  then obtain w where "q = p\<lparr>dp_world := w\<rparr>" by (auto simp: in_world_def split: prod.splits)
  then show "tracked p \<longrightarrow> tracked (case r of Inl _ \<Rightarrow> q | Inr i \<Rightarrow> q\<lparr>dp_DomainIDs := dp_DomainIDs q @ [i]\<rparr>)"
    by (simp add: tracked_def tracked_state_def split: sum.splits)
next
  fix p :: "('a, 'b) do_provider" and req
  show "tracked p \<longrightarrow> tracked (fst (in_world (on_account (CreateDroplet_call (de_godo e) req)) p))"
    by (simp add: in_world_def tracked_def tracked_state_def split: prod.splits)
qed (auto simp: tracked_status tracked_append tracked_store tracked_remove tracked_restore, auto simp: tracked_def tracked_state_def)

interpretation only_world: world_steps e "\<lambda>_ _. True" "\<lambda>p p'. p' = p\<lparr>dp_world := dp_world p'\<rparr>" for e
  by unfold_locales (simp_all, metis do_provider.surjective do_provider.update_convs(1))

section \<open>Teardown\<close>

lemma account_in_world: "account (fst (in_world (on_account f) p)) = fst (f (account p))"
  by (simp add: in_world_def on_account_def case_prod_beta)

lemma delete_records_adds:
  assumes "account_law e v"
  shows "nothing v (account p) (account (fst (delete_records e root ids m p)))"
proof (induction ids arbitrary: m p)
  case (Cons i ids)
  obtain g r where g: "DeleteDomain (de_godo e) root i (account p) = (g, r)" by fastforce
  then have "nothing v (account p) g" using account_lawD(7)[OF assms, of "account p" root i] by simp
  then show ?case using g Cons[of "p\<lparr>dp_world := (g, snd (dp_world p))\<rparr>"]
    by (auto simp: in_world_def on_account_def split: sum.splits intro: adds_trans)
qed simp

lemma delete_records_gone:
  assumes law: "account_law e v" and "delete_records e root ids m p = (p', Inr ())"
  shows "(\<forall>i \<in> set ids. (root, i) \<notin> av_records v (account p')) \<and> m = Inr ()"
  using assms(2)
proof (induction ids arbitrary: m p)
  case (Cons i ids)
  obtain g r where g: "DeleteDomain (de_godo e) root i (account p) = (g, r)" by fastforce
  let ?q = "p\<lparr>dp_world := (g, snd (dp_world p))\<rparr>"
  show ?case
  proof (cases r)
    case (Inl err)
    then have "delete_records e root ids (Inl (join_domain_error i err)) ?q = (p', Inr ())"
      using g Cons.prems by (simp add: in_world_def on_account_def)
    then show ?thesis using Cons.IH by blast
  next
    case (Inr u)
    then have rest: "delete_records e root ids m ?q = (p', Inr ())" using g Cons.prems by (simp add: in_world_def on_account_def)
    have "(root, i) \<notin> av_records v g" using record_deleted[OF law] g Inr by simp
    moreover have "nothing v g (account p')" using delete_records_adds[OF law, of ?q root ids m] rest by simp
    ultimately have "(root, i) \<notin> av_records v (account p')" by (auto simp: adds_def)
    then show ?thesis using Cons.IH[OF rest] by simp
  qed
qed simp

lemma teardown_steps:
  assumes "DO_Teardown e s p = (p', Inr ())"
  obtains p1 p2 p3 where "teardownTasks e p = (p1, Inr ())" "teardownFirewall e p1 = (p2, Inr ())"
    "teardownTag e p2 = (p3, Inr ())" "teardownDomains e s p3 = (p', Inr ())"
  using assms by (auto simp: DO_Teardown_def andThen_ok)

lemma teardownTasks_gone:
  assumes "account_law e v" "teardownTasks e p = (p1, Inr ())"
  shows "nothing v (account p) (account p1) \<and> (\<forall>i t. av_droplets v (account p1) i = Some t \<longrightarrow> dp_PetriTag p \<notin> set t) \<and>
    dp_FirewallID p1 = dp_FirewallID p \<and> dp_DomainIDs p1 = dp_DomainIDs p"
proof -
  obtain g where g: "DeleteDropletByTag (de_godo e) (dp_PetriTag p) (account p) = (g, Inr ())" "p1 = p\<lparr>dp_world := (g, snd (dp_world p))\<rparr>"
    using assms(2) by (auto simp: teardownTasks_def in_world_def on_account_def split: prod.splits)
  then show ?thesis using droplets_deleted[OF assms(1) g(1)] account_lawD(4)[OF assms(1), of "account p" "dp_PetriTag p"] by auto
qed

lemma teardownFirewall_gone:
  assumes "account_law e v" "teardownFirewall e p = (p2, Inr ())"
  shows "nothing v (account p) (account p2) \<and> dp_FirewallID p \<notin> av_firewalls v (account p2) \<and> dp_DomainIDs p2 = dp_DomainIDs p"
proof (cases "p2 = p \<and> (\<exists>er. GetFirewall (de_godo e) (dp_FirewallID p) (account p) = Inl er \<and> errors_Is er ErrorResourceNotFound)")
  case True
  then show ?thesis using firewall_missing[OF assms(1)] by auto
next
  case False
  then obtain g where g: "DeleteFirewall (de_godo e) (dp_FirewallID p) (account p) = (g, Inr ())" "p2 = p\<lparr>dp_world := (g, snd (dp_world p))\<rparr>"
    using assms(2) by (auto simp: teardownFirewall_def Let_def in_world_def on_account_def split: prod.splits sum.splits if_splits)
  then show ?thesis using firewall_deleted[OF assms(1) g(1)] account_lawD(5)[OF assms(1), of "account p" "dp_FirewallID p"] by auto
qed

lemma teardownTag_adds:
  assumes "account_law e v" "teardownTag e p = (p3, r)"
  shows "nothing v (account p) (account p3) \<and> dp_DomainIDs p3 = dp_DomainIDs p"
  using assms(2) account_lawD(6)[OF assms(1), of "account p" "dp_PetriTag p"]
  by (auto simp: teardownTag_def in_world_def on_account_def split: prod.splits)

lemma teardownDomains_gone:
  assumes "account_law e v" "teardownDomains e s p = (p', Inr ())"
  shows "nothing v (account p) (account p') \<and> (se_domain s \<noteq> [] \<longrightarrow> (\<forall>i \<in> set (dp_DomainIDs p). (se_domain s, i) \<notin> av_records v (account p')))"
  using assms(2) delete_records_gone[OF assms(1)] delete_records_adds[OF assms(1), of p "se_domain s" "dp_DomainIDs p" "Inr ()"]
  by (auto simp: teardownDomains_def split: if_splits)

lemma NewProvider_adds:
  assumes law: "account_law e v" and "NewProvider e name token ts opts w = (p, Inr s)"
  shows "adds v {} {dp_FirewallID p} {} (fst w) (account p) \<and> dp_DomainIDs p = [] \<and> dp_TaskStates p = [] \<and>
    dp_PetriTag p = ''petri-'' @ name \<and> s = settings ts opts"
proof -
  let ?p0 = "new_provider name w"
  obtain q tag q' fw where tag: "createTag e (dp_PetriTag ?p0) ?p0 = (q, Inr tag)" and fw: "createFirewall e q = (q', Inr fw)"
    and p: "p = q'\<lparr>dp_FirewallID := fw\<rparr>" and s: "s = settings ts opts"
    using assms(2) by (auto simp: NewProvider_def NewProviderWithClient_def Let_def andThen_ok wrapping_ok split: if_splits sum.splits)
  have "nothing v (fst w) (account q)"
    using tag account_lawD(2)[OF law, of "fst w" "dp_PetriTag ?p0"]
    by (auto simp: createTag_def in_world_def on_account_def new_provider_def split: prod.splits)
  moreover obtain g where g: "CreateFirewall_call (de_godo e) (firewall_request (dp_PetriTag q)) (account q) = (g, Inr fw)"
    "q' = q\<lparr>dp_world := (g, snd (dp_world q))\<rparr>"
    using fw by (auto simp: createFirewall_def in_world_def on_account_def split: prod.splits)
  moreover have "adds v {} {fw} {} (account q) g" using firewall_created[OF law g(1)] by simp
  moreover have "dp_DomainIDs q = [] \<and> dp_TaskStates q = [] \<and> dp_PetriTag q = ''petri-'' @ name"
    using tag by (auto simp: createTag_def in_world_def new_provider_def split: prod.splits)
  ultimately show ?thesis using p s by (auto intro: adds_trans nothing_adds)
qed

lemma CreateDroplet_world: "fst (CreateDroplet e s def p) = p\<lparr>dp_world := dp_world (fst (CreateDroplet e s def p))\<rparr>"
  by (auto simp: CreateDroplet_def andThen_def in_world_def split: prod.splits sum.splits)

lemma setup_task_ok: "setup_task e s def t p = (p', Inr tk) \<Longrightarrow> tk_state tk = t"
  by (auto simp: setup_task_def andThen_ok)

lemma CreateTask_result:
  assumes "DO_CreateTask e s def p = (p', Inr t)"
  shows "\<exists>i. mget (dp_TaskStates p') (Itoa i) = Some (tk_state t) \<and> DO_GetState (tk_state t) p' = new_task_state i def p"
proof -
  obtain q d where q: "CreateDroplet e s def p = (q, Inr d)"
    and run: "setup_task e s def (length (dp_heap q)) (store_task (new_task_state (dr_ID d) def q) q) = (p', Inr t)"
    using assms by (auto simp: DO_CreateTask_def andThen_ok split: sum.splits if_splits)
  have "q = p\<lparr>dp_world := dp_world q\<rparr>" using CreateDroplet_world[of e s def p] q by simp
  then have same: "dp_heap q = dp_heap p" "dp_TaskStates q = dp_TaskStates p" "new_task_state (dr_ID d) def q = new_task_state (dr_ID d) def p"
    by (metis do_provider.select_convs do_provider.surjective do_provider.update_convs(1) new_task_state_def)+
  have "p' = (store_task (new_task_state (dr_ID d) def q) q)\<lparr>dp_world := dp_world p'\<rparr>"
    using steps_inD[OF only_world.steps_setup, where p = "store_task (new_task_state (dr_ID d) def q) q"] run by (metis fst_conv)
  then obtain w where p': "p' = (store_task (new_task_state (dr_ID d) def q) q)\<lparr>dp_world := w\<rparr>" by blast
  show ?thesis unfolding p' setup_task_ok[OF run] using same
    by (intro exI[of _ "dr_ID d"]) (simp add: store_task_def DO_GetState_def new_task_state_def)
qed

lemma do_state_restored: "do_state (restored (do_state p) w) = do_state p"
  by (auto simp: do_state_def restored_def intro!: nth_equalityI simp: case_prod_beta)

lemma map_of_zip_upt: "map_of xs k = Some y \<Longrightarrow> \<exists>i < length xs. map_of (zip (map fst xs) [n..<n + length xs]) k = Some (n + i) \<and> snd (xs ! i) = y"
proof (induction xs arbitrary: n)
  case (Cons x xs)
  show ?case
  proof (cases "fst x = k")
    case True
    then show ?thesis using Cons.prems by (intro exI[of _ 0]) (cases x, simp add: upt_conv_Cons del: upt_Suc)
  next
    case False
    then obtain i where "i < length xs" "map_of (zip (map fst xs) [Suc n..<Suc n + length xs]) k = Some (Suc n + i)" "snd (xs ! i) = y"
      using Cons.IH[of "Suc n"] Cons.prems by (cases x) auto
    then show ?thesis using False by (intro exI[of _ "Suc i"]) (simp add: upt_conv_Cons del: upt_Suc)
  qed
qed simp

lemma restored_lookup:
  assumes "mget (dp_TaskStates p) k = Some t"
  shows "\<exists>t'. mget (dp_TaskStates (restored (do_state p) w)) k = Some t' \<and> DO_GetState t' (restored (do_state p) w) = DO_GetState t p"
proof -
  have "map_of (dps_TaskStates (do_state p)) k = Some (dp_heap p ! t)"
    using assms map_of_map[of "\<lambda>t. dp_heap p ! t" "dp_TaskStates p"] by (simp add: do_state_def)
  from map_of_zip_upt[OF this, of 0] show ?thesis by (auto simp: restored_def DO_GetState_def)
qed

section \<open>Properties\<close>

text \<open>C8: A DigitalOcean provider leaves nothing behind. After it was created, any sequence of operations on it that
  returns (creating tasks, running, stopping and destroying them, running commands, writing files, creating
  domains, saving and restoring its state), whether they succeeded or not, and a teardown that reports success,
  every droplet and every firewall that exists in the account existed before the provider was created, and so did
  every domain record, if the provider knows its domain.\<close>

theorem do_teardown_leaves_nothing:
  assumes law: "account_law e v" and new: "NewProvider e name token ts opts w = (p0, Inr s)"
    and run: "do_run e s dec ops p0 = Some p" and down: "DO_Teardown e s p = (p', Inr ())"
  shows "(\<forall>i t. av_droplets v (account p') i = Some t \<longrightarrow> av_droplets v (fst w) i = Some t) \<and>
    av_firewalls v (account p') \<subseteq> av_firewalls v (fst w) \<and>
    (se_domain s \<noteq> [] \<longrightarrow> av_records v (account p') \<subseteq> av_records v (fst w))"
proof -
  note created = NewProvider_adds[OF law new]
  note kept = keeps_run[OF law run, unfolded keeps_def]
  obtain p1 p2 p3 where 1: "teardownTasks e p = (p1, Inr ())" and 2: "teardownFirewall e p1 = (p2, Inr ())"
    and 3: "teardownTag e p2 = (p3, Inr ())" and 4: "teardownDomains e s p3 = (p', Inr ())" using down by (rule teardown_steps)
  note 1 = teardownTasks_gone[OF law 1] and 2 = teardownFirewall_gone[OF law 2] and 3 = teardownTag_adds[OF law 3]
    and 4 = teardownDomains_gone[OF law 4]
  have to_p: "adds v {[dp_PetriTag p]} {dp_FirewallID p} ({se_domain s} \<times> set (dp_DomainIDs p)) (fst w) (account p)"
    using created kept by (auto intro: adds_trans adds_mono)
  have n: "nothing v (account p1) (account p')" and n2: "nothing v (account p2) (account p')" and n3: "nothing v (account p3) (account p')"
    using 2 3 4 by (blast intro: adds_trans)+
  have n0: "nothing v (account p) (account p')" using 1 n by (blast intro: adds_trans)
  have "av_droplets v (fst w) i = Some t" if i: "av_droplets v (account p') i = Some t" for i t
  proof -
    have "dp_PetriTag p \<notin> set t" using 1 nothingD(1)[OF n i] by blast
    then show ?thesis using to_p nothingD(1)[OF n0 i] unfolding adds_def by fastforce
  qed
  moreover have "dp_FirewallID p \<notin> av_firewalls v (account p')" using 1 2 nothingD(2)[OF n2] by auto
  then have "av_firewalls v (account p') \<subseteq> av_firewalls v (fst w)" using to_p nothingD(2)[OF n0] unfolding adds_def by blast
  moreover have "av_records v (account p') \<subseteq> av_records v (fst w)" if "se_domain s \<noteq> []"
  proof -
    have "dp_DomainIDs p3 = dp_DomainIDs p" using 1 2 3 by simp
    then have "\<forall>i \<in> set (dp_DomainIDs p). (se_domain s, i) \<notin> av_records v (account p')" using 4 that by simp
    moreover have "av_records v (account p') \<subseteq> av_records v (fst w) \<union> ({se_domain s} \<times> set (dp_DomainIDs p))"
      using to_p nothingD(3)[OF n0] unfolding adds_def by blast
    ultimately show ?thesis by blast
  qed
  ultimately show ?thesis by blast
qed

text \<open>C12: The domain records of a testnet are never deleted. A provider that is restored the way the workflow's
  activities restore it, with a telemetry option only, does not know its domain, and its teardown leaves every
  record in place, even when it reports success.\<close>

theorem teardown_keeps_domain_records:
  assumes law: "account_law e v" and "DO_RestoreProvider dec state token ts [WithTelemetry tel] w = Inr (p, s)"
  shows "av_records v (account (fst (DO_Teardown e s p))) = av_records v (fst w)"
proof -
  obtain st where "p = restored st w" "s = settings ts [WithTelemetry tel]"
    using assms(2) by (cases "dec state") (auto simp: DO_RestoreProvider_def RestoreProviderWithClient_def and_then_def split: if_splits)
  then have s: "se_domain s = []" and w: "dp_world p = w" by (simp_all add: settings_def WithTelemetry_def restored_def)
  note r = account_law_records[OF law]
  have 1: "av_records v (account (fst (teardownTasks e q))) = av_records v (account q)" for q :: "('a, 'b) do_provider"
    unfolding teardownTasks_def by (simp add: account_in_world r)
  have 2: "av_records v (account (fst (teardownFirewall e q))) = av_records v (account q)" for q :: "('a, 'b) do_provider"
    by (simp add: teardownFirewall_def Let_def account_in_world r split: sum.splits)
  have 3: "av_records v (account (fst (teardownTag e q))) = av_records v (account q)" for q :: "('a, 'b) do_provider"
    unfolding teardownTag_def by (simp add: account_in_world r)
  have "av_records v (account (fst (DO_Teardown e s p))) = av_records v (account p)"
    unfolding DO_Teardown_def teardownDomains_def s
    by (intro andThen_inv[where P = "\<lambda>q. av_records v (account q) = av_records v (account p)"]) (simp_all add: 1 2 3)
  then show ?thesis using w by simp
qed

text \<open>C11: A provider knows its tasks. After any sequence of operations from its creation on, its map has distinct
  ids, each of the state it is for, and each state is one of this provider, with the provider's tag in its name and
  host name and a valid definition. A further task that is created is in the map under the id of its droplet,
  stopped, with the definition that was asked for.\<close>

theorem do_tasks_tracked:
  assumes "NewProvider e name token ts opts w = (p0, Inr s)" and "do_run e s dec ops p0 = Some p"
  shows "tracked p \<and> (\<forall>def p' t. DO_CreateTask e s def p = (p', Inr t) \<longrightarrow>
    (\<exists>i. mget (dp_TaskStates p') (Itoa i) = Some (tk_state t) \<and> DO_GetState (tk_state t) p' = new_task_state i def p))"
proof (intro conjI allI impI)
  have "tracked p0"
    using assms(1) by (auto simp: NewProvider_def NewProviderWithClient_def Let_def andThen_ok wrapping_ok createTag_def createFirewall_def
      in_world_def new_provider_def tracked_def split: if_splits sum.splits prod.splits)
  then show "tracked p" using tracked_steps.R_run[of s "se_domain s" e dec ops p0 p] assms(2) by blast
next
  fix def p' t assume "DO_CreateTask e s def p = (p', Inr t)"
  then show "\<exists>i. mget (dp_TaskStates p') (Itoa i) = Some (tk_state t) \<and> DO_GetState (tk_state t) p' = new_task_state i def p"
    by (rule CreateTask_result)
qed

text \<open>A provider survives being saved and restored: from the JSON of its state, a provider with exactly the same
  state is restored, whose map of tasks is as good as before.\<close>

theorem do_restore_roundtrip:
  assumes "DO_SerializeProvider enc p = Inr bz" and "dec bz = Inr (do_state p)" and "token \<noteq> []" and "tracked p"
  shows "\<exists>p'. DO_RestoreProvider dec bz token ts opts w = Inr (p', settings ts opts) \<and> do_state p' = do_state p \<and> tracked p' \<and>
    (\<forall>k t. mget (dp_TaskStates p) k = Some t \<longrightarrow> (\<exists>t'. mget (dp_TaskStates p') k = Some t' \<and> DO_GetState t' p' = DO_GetState t p))"
proof (intro exI[of _ "restored (do_state p) w"] conjI allI impI)
  show "do_state (restored (do_state p) w) = do_state p" by (rule do_state_restored)
  show "tracked (restored (do_state p) w)" using assms(4) by (rule tracked_restore)
  fix k t assume "mget (dp_TaskStates p) k = Some t"
  then show "\<exists>t'. mget (dp_TaskStates (restored (do_state p) w)) k = Some t' \<and> DO_GetState t' (restored (do_state p) w) = DO_GetState t p"
    by (rule restored_lookup)
qed (simp add: assms DO_RestoreProvider_def RestoreProviderWithClient_def and_then_def)

section \<open>A concrete account\<close>

type_synonym demo_account = "(int \<rightharpoonup> string list) \<times> string set \<times> (string \<times> int) set"

definition demo_godo :: "demo_account godo" where
  "demo_godo =
     \<lparr> gd_DropletCreate = \<lambda>req (ds, fs, rs). ((ds(7 \<mapsto> dq_Tags req), fs, rs),
         \<lparr> dr_ID = 7, dr_Name = dq_Name req, dr_Status = ''new'', dr_PublicIPv4 = Inr ''1.2.3.4'', dr_PrivateIPv4 = Inr ''10.1.0.1'' \<rparr>, Some 202, None),
       gd_DropletGet = \<lambda>i (ds, fs, rs). (\<lparr> dr_ID = i, dr_Name = [], dr_Status = ''active'', dr_PublicIPv4 = Inr ''1.2.3.4'', dr_PrivateIPv4 = Inr ''10.1.0.1'' \<rparr>,
         Some (if ds i = None then 404 else 200), None),
       gd_DropletList = \<lambda>_ _. ([], Some 200, None),
       gd_DropletDeleteByTag = \<lambda>tag (ds, fs, rs). ((\<lambda>i. case ds i of None \<Rightarrow> None | Some t \<Rightarrow> if tag \<in> set t then None else Some t, fs, rs), (), Some 204, None),
       gd_DropletDelete = \<lambda>i (ds, fs, rs). ((ds(i := None), fs, rs), (), Some 204, None),
       gd_FirewallCreate = \<lambda>req (ds, fs, rs). ((ds, insert ''fw'' fs, rs), ''fw'', Some 202, None),
       gd_FirewallGet = \<lambda>i (ds, fs, rs). (i, Some (if i \<in> fs then 200 else 404), None),
       gd_FirewallList = \<lambda>_ _. ([], Some 200, None),
       gd_FirewallDelete = \<lambda>i (ds, fs, rs). ((ds, fs - {i}, rs), (), Some 204, None),
       gd_RecordCreate = \<lambda>root req (ds, fs, rs). ((ds, fs, insert (root, 1) rs), 1, Some 201, None),
       gd_RecordGet = \<lambda>root i (ds, fs, rs). (i, Some (if (root, i) \<in> rs then 200 else 404), None),
       gd_RecordDelete = \<lambda>root i (ds, fs, rs). ((ds, fs, rs - {(root, i)}), (), Some 204, None),
       gd_KeyCreate = \<lambda>_ key g. (g, key, Some 201, None), gd_KeyDelete = \<lambda>_ g. (g, (), Some 204, None), gd_KeyGet = \<lambda>f _. (f, Some 200, None),
       gd_TagCreate = \<lambda>tag g. (g, tag, Some 201, None), gd_TagList = \<lambda>_ _. ([], Some 200, None), gd_TagDelete = \<lambda>_ g. (g, (), Some 204, None) \<rparr>"

definition demo_dclient :: "unit dclient" where
  "demo_dclient = \<lparr> dc_Ping = \<lambda>_. Inr (), dc_ImageInspect = \<lambda>_ _. Inr (), dc_Pull = \<lambda>_ _ x. (x, Inr ()), dc_ContainerCreate = \<lambda>_ x. (x, Inr ''c''),
     dc_ContainerList = \<lambda>_. Inr [''c''], dc_ContainerStart = \<lambda>_ x. (x, Inr ()), dc_ContainerStop = \<lambda>_ x. (x, Inr ()),
     dc_ContainerInspect = \<lambda>_ _. Inr \<lparr> co_Status = ''running'', co_Running = True, co_ExitCode = 0 \<rparr>, dc_ContainerRemove = \<lambda>_ _ x. (x, Inr ()),
     dc_ExecCreate = \<lambda>_ _ x. (x, Inr ''x''), dc_ExecAttach = \<lambda>_ x. (x, Inr (Inr ([], []))), dc_ExecInspect = \<lambda>_ _. Inr (False, 0),
     dc_IsErrNotFound = \<lambda>_. False, dc_IsErrConnectionFailed = \<lambda>_. False \<rparr>"

definition demo_do_env :: "(demo_account, unit) do_env" where
  "demo_do_env = \<lparr> de_godo = demo_godo, de_NewDockerClient = \<lambda>_. Inr demo_dclient, de_Dial = \<lambda>_ _. Inr (), de_NewClientConn = \<lambda>_ _. Inr (),
     de_Sftp = \<lambda>_ _. Inr (), de_MkdirAll = \<lambda>_ _ x. (x, Inr ()), de_Create = \<lambda>_ _ x. (x, Inr ()), de_Write = \<lambda>_ _ _ x. (x, Inr ()),
     de_ReadFile = \<lambda>_ _ _. Inr [], de_Peers = \<lambda>_. Inr [(''petri-n-t'', [(True, ''100.64.0.1'')])], de_Sleep = id, de_Ticks = \<lambda>_ _. 1, de_Done = \<lambda>_. None,
     de_Unix = \<lambda>_. 0, de_TelemetryJSON = \<lambda>_. Inr ''{}'', de_Random = \<lambda>_ _. 0 \<rparr>"

definition demo_view :: "demo_account account_view" where
  "demo_view = \<lparr> av_droplets = fst, av_firewalls = \<lambda>g. fst (snd g), av_records = \<lambda>g. snd (snd g) \<rparr>"

lemma demo_account_law: "account_law demo_do_env demo_view"
  unfolding account_law_def demo_do_env_def demo_godo_def demo_view_def adds_def
  by (auto simp: received_def checkResponse_def and_then_def split: option.splits if_splits)

definition demo_do_task :: TaskDefinition where
  "demo_do_task = \<lparr> td_Name = ''t'', td_Image = \<lparr> img_Image = ''i'', img_UID = ''1'', img_GID = ''1'' \<rparr>, td_Ports = [], td_Environment = [],
     td_DataDir = ''/d'', td_Entrypoint = [], td_Command = [], td_Args = [],
     td_ProviderSpecificConfig = Some [(''region'', ''ams3''), (''size'', ''s''), (''image_id'', ''1'')] \<rparr>"

definition demo_tailscale :: TailscaleSettings where
  "demo_tailscale = \<lparr> tn_AuthKey = ''k'', tn_Tags = [''g''], tn_Server = True, tn_LocalClient = True \<rparr>"

abbreviation demo_new :: "(demo_account, unit) do_provider \<times> unit do_settings result" where
  "demo_new \<equiv> NewProvider demo_do_env ''n'' ''k'' demo_tailscale [WithDomain ''x.io''] ((Map.empty, {}, {}), ())"

abbreviation demo_do_settings :: "unit do_settings" where
  "demo_do_settings \<equiv> settings demo_tailscale [WithDomain ''x.io'']"

abbreviation demo_do_ops :: "unit do_op list" where
  "demo_do_ops \<equiv> [DoCreateTask demo_do_task, DoCreateDomains [(''rpc'', ''1.2.3.4'')], DoSerializeRestore]"

lemmas demo_do_defs = demo_do_env_def demo_godo_def demo_dclient_def demo_do_task_def demo_tailscale_def NewProvider_def NewProviderWithClient_def
  settings_def WithDomain_def TailscaleSettings_ValidateBasic_def createTag_def createFirewall_def CreateTag_def CreateFirewall_call_def
  received_def checkResponse_def in_world_def on_account_def on_hosts_def andThen_def and_then_def wrapping_def wrap_err_def new_provider_def Let_def

lemma demo_new_ok: "snd demo_new = Inr demo_do_settings"
  by (simp add: demo_do_defs)

abbreviation demo_do_run :: "(demo_account, unit) do_provider option" where
  "demo_do_run \<equiv> do_run demo_do_env demo_do_settings (\<lambda>_. Inl (New [])) demo_do_ops (fst demo_new)"

lemma demo_numbers [simp]: "show_nat 1 = ''1''" "show_nat 7 = ''7''" "ParseUint ''1'' = Inr 1" "ParseInt ''1'' = Inr 1" "ParseInt ''7'' = Inr 7" "Itoa 7 = ''7''"
proof -
  show 1: "show_nat 1 = ''1''" and 7: "show_nat 7 = ''7''" and "Itoa 7 = ''7''" by code_simp+
  show "ParseUint ''1'' = Inr 1" using ParseUint_show_nat[of 1] by (simp only: 1) simp
  show "ParseInt ''1'' = Inr 1" "ParseInt ''7'' = Inr 7" using ParseInt_Itoa[of 1] ParseInt_Itoa[of 7] 1 7 by (simp_all add: Itoa_def)
qed

lemma demo_do_valid [simp]: "TaskDefinition_ValidateBasic demo_do_task = Inr ()"
  by (simp add: demo_do_task_def TaskDefinition_ValidateBasic_def ImageDefinition_ValidateBasic_def is_ok_def)

lemma demo_config [simp]: "DigitalOceanTaskConfig_ValidateBasic (do_config demo_do_task) = Inr ()" "mget_str (do_config demo_do_task) ''image_id'' = ''1''"
  by (simp_all add: demo_do_task_def do_config_def DigitalOceanTaskConfig_ValidateBasic_def mget_str_def is_ok_def)

lemma demo_do_peer [simp]: "getTailscalePeer demo_do_env st w = (if dt_TailscaleHostname st = ''petri-n-t'' then Inr (''petri-n-t'', [(True, ''100.64.0.1'')])
    else Inl (New (''no Tailscale peer found for hostname: '' @ dt_TailscaleHostname st)))"
  by (simp add: getTailscalePeer_def demo_do_env_def and_then_def)

lemma demo_new_provider: "fst demo_new = (new_provider ''n'' ((Map.empty, {''fw''}, {}), ()))\<lparr>dp_FirewallID := ''fw''\<rparr>"
  by (simp add: demo_do_defs)

lemma demo_setup_ok:
  assumes "DO_GetState t p = new_task_state 7 demo_do_task (fst demo_new)" "fst (account p) 7 \<noteq> None"
  shows "is_ok (snd (setup_task demo_do_env demo_do_settings demo_do_task t p))"
proof -
  have st: "DO_GetState t (slept demo_do_env p) = DO_GetState t p" "slept demo_do_env p = p"
    by (simp_all add: slept_def demo_do_env_def)
  have ticks: "de_Ticks demo_do_env secs w = Suc 0" for secs w by (simp add: demo_do_env_def)
  have host: "dt_TailscaleHostname (DO_GetState t p) = ''petri-n-t''" "dt_ID (DO_GetState t p) = ''7''"
    using assms(1) by (simp_all add: demo_new_provider new_task_state_def new_provider_def demo_do_task_def)
  have ip: "DO_GetIP demo_do_env (DO_GetState t p) (dp_world p) = Inr ''100.64.0.1''"
    by (simp add: DO_GetIP_def getTailscaleIp_def host and_then_def)
  have peer: "await_peer demo_do_env t p = (p, Inr ())"
    by (simp add: await_peer_def ticks st host is_ok_def wrapping_def wrap_err_def)
  have client: "task_client demo_do_env demo_do_settings n i = Inr demo_dclient" for n i
    by (simp add: task_client_def getDockerClientOverride_def settings_def WithDomain_def demo_do_env_def wrap_err_def)
  have drop: "\<exists>d. DO_GetDroplet demo_do_env (DO_GetState t p) (dp_world p) = Inr d \<and> dr_Status d = ''active''"
    using assms(2) host by (cases "account p") (auto simp: DO_GetDroplet_def GetDroplet_call_def demo_do_env_def demo_godo_def received_def checkResponse_def and_then_def)
  then have docker: "waitForDockerStart demo_do_env t (Some demo_dclient, p) = ((Some demo_dclient, p), Inr ())"
    by (auto simp: waitForDockerStart_def ticks docker_ready_def Let_def st ip demo_dclient_def is_ok_def wrapping_def wrap_err_def)
  have pull: "pull_image demo_do_env demo_dclient demo_do_task p = (p, Inr ())" by (simp add: pull_image_def demo_dclient_def Let_def)
  have create: "is_ok (snd (create_container demo_do_env demo_dclient t p))"
    by (simp add: create_container_def ticks st demo_dclient_def in_world_def on_hosts_def is_ok_def wrapping_def wrap_err_def)
  show ?thesis using create
    by (auto simp: setup_task_def andThen_def peer ip client docker pull wrap_err_def is_ok_def split: prod.splits sum.splits)
qed

lemma demo_do_created:
  "is_ok (snd (DO_CreateTask demo_do_env demo_do_settings demo_do_task (fst demo_new)))"
proof -
  have data: "user_data demo_do_env demo_do_settings demo_do_task p = Inr (formatUserData [TailscaleSettings_GetCommand demo_tailscale (dp_PetriTag p @ ''-'' @ ''t'')])" for p
    by (simp add: user_data_def settings_def WithDomain_def demo_do_task_def Let_def)
  have gd: "de_godo demo_do_env = demo_godo" by (simp add: demo_do_env_def)
  let ?p = "(fst demo_new)\<lparr>dp_world := (([7 \<mapsto> [''petri-n'']], {''fw''}, {}), ())\<rparr>"
  have "\<exists>d. CreateDroplet demo_do_env demo_do_settings demo_do_task (fst demo_new) = (?p, Inr d) \<and> dr_ID d = 7"
    by (simp add: CreateDroplet_def andThen_def wrap_err_def data in_world_def on_account_def CreateDroplet_call_def gd demo_godo_def
        demo_new_provider new_provider_def received_def checkResponse_def and_then_def)
  then obtain d where d: "CreateDroplet demo_do_env demo_do_settings demo_do_task (fst demo_new) = (?p, Inr d)" "dr_ID d = 7" by blast
  let ?q = "store_task (new_task_state 7 demo_do_task ?p) ?p"
  have "is_ok (snd (setup_task demo_do_env demo_do_settings demo_do_task 0 ?q))"
    by (rule demo_setup_ok) (simp_all add: DO_GetState_def store_task_def new_task_state_def demo_new_provider new_provider_def)
  moreover have "td_ProviderSpecificConfig demo_do_task \<noteq> None" "length (dp_heap ?p) = 0"
    by (simp_all add: demo_do_task_def demo_new_provider new_provider_def)
  ultimately show ?thesis by (simp add: DO_CreateTask_def andThen_def d)
qed

lemma demo_delete_ok: "snd (delete_records demo_do_env root ids (Inr ()) p) = Inr ()"
proof (induction ids arbitrary: p)
  case (Cons i ids)
  obtain ds fs rs h where w: "dp_world p = ((ds, fs, rs), h)" by (metis surj_pair)
  show ?case using Cons
    by (simp add: in_world_def on_account_def DeleteDomain_def w demo_do_env_def demo_godo_def received_def checkResponse_def and_then_def)
qed simp

lemma demo_teardown_ok: "\<exists>p'. DO_Teardown demo_do_env s p = (p', Inr ())"
proof -
  have 1: "\<exists>q. teardownTasks demo_do_env p = (q, Inr ())" "\<exists>q. teardownTag demo_do_env p = (q, Inr ())"
    "\<exists>q. teardownFirewall demo_do_env p = (q, Inr ())" "\<exists>q. teardownDomains demo_do_env s p = (q, Inr ())" for p
  proof -
    obtain ds fs rs h where w: "dp_world p = ((ds, fs, rs), h)" by (metis surj_pair)
    note d = in_world_def on_account_def w demo_do_env_def demo_godo_def received_def checkResponse_def and_then_def
    show "\<exists>q. teardownTasks demo_do_env p = (q, Inr ())" by (simp add: teardownTasks_def DeleteDropletByTag_def d)
    show "\<exists>q. teardownTag demo_do_env p = (q, Inr ())" by (simp add: teardownTag_def DeleteTag_def d)
    show "\<exists>q. teardownFirewall demo_do_env p = (q, Inr ())"
      by (simp add: teardownFirewall_def GetFirewall_def DeleteFirewall_def Let_def d)
    show "\<exists>q. teardownDomains demo_do_env s p = (q, Inr ())"
      using demo_delete_ok[of "se_domain s" "dp_DomainIDs p" p]
      by (cases "delete_records demo_do_env (se_domain s) (dp_DomainIDs p) (Inr ()) p") (simp add: teardownDomains_def)
  qed
  obtain p1 where p1: "teardownTasks demo_do_env p = (p1, Inr ())" using 1 by blast
  obtain p2 where p2: "teardownFirewall demo_do_env p1 = (p2, Inr ())" using 1 by blast
  obtain p3 where "teardownTag demo_do_env p2 = (p3, Inr ())" using 1 by blast
  then show ?thesis using p1 p2 1(4)[of p3] by (simp add: DO_Teardown_def andThen_def)
qed

lemma demo_do_run_some: "\<exists>p. demo_do_run = Some p"
  by simp

lemma demo_new_eq: "demo_new = (fst demo_new, Inr demo_do_settings)"
  by (simp only: demo_new_ok[symmetric] prod.collapse)

theorem do_teardown_leaves_nothing_witness:
  "\<exists>p p'. demo_do_run = Some p \<and> DO_Teardown demo_do_env demo_do_settings p = (p', Inr ()) \<and>
     (\<forall>i t. fst (account p') i = Some t \<longrightarrow> (Map.empty :: int \<rightharpoonup> string list) i = Some t)"
proof -
  obtain p where p: "demo_do_run = Some p" using demo_do_run_some by blast
  obtain p' where p': "DO_Teardown demo_do_env demo_do_settings p = (p', Inr ())" using demo_teardown_ok by blast
  show ?thesis using do_teardown_leaves_nothing[OF demo_account_law demo_new_eq p p'] p p' by (auto simp: demo_view_def)
qed

theorem teardown_keeps_domain_records_witness:
  "\<exists>p s. DO_RestoreProvider (\<lambda>_. Inr \<lparr> dps_TaskStates = [], dps_Name = ''n'', dps_PetriTag = ''petri-n'', dps_FirewallID = ''fw'', dps_DomainIDs = [1] \<rparr>)
       ''j'' ''k'' demo_tailscale [WithTelemetry \<lparr> tm_Prometheus = \<lparr> ps_Username = [], ps_Password = [], ps_URL = [] \<rparr>,
         tm_Loki = \<lparr> lk_Username = [], lk_Password = [], lk_URL = [] \<rparr>, tm_Pyroscope = [] \<rparr>]
       ((Map.empty, {''fw''}, {(''x.io'', 1)}), ()) = Inr (p, s) \<and>
     snd (DO_Teardown demo_do_env s p) = Inr () \<and> snd (snd (account (fst (DO_Teardown demo_do_env s p)))) = {(''x.io'', 1)}"
  (is "\<exists>p s. ?r = Inr (p, s) \<and> _")
proof -
  obtain p s where r: "?r = Inr (p, s)" by (simp add: DO_RestoreProvider_def RestoreProviderWithClient_def and_then_def)
  obtain p' where "DO_Teardown demo_do_env s p = (p', Inr ())" using demo_teardown_ok by blast
  then show ?thesis using teardown_keeps_domain_records[OF demo_account_law r] r by (auto simp: demo_view_def)
qed

theorem do_tasks_tracked_witness:
  "is_ok (snd (DO_CreateTask demo_do_env demo_do_settings demo_do_task (fst demo_new))) \<and>
   (\<exists>p' t i. DO_CreateTask demo_do_env demo_do_settings demo_do_task (fst demo_new) = (p', Inr t) \<and>
      mget (dp_TaskStates p') (Itoa i) = Some (tk_state t)) \<and> (\<exists>p. demo_do_run = Some p \<and> tracked p)"
proof -
  obtain p where p: "demo_do_run = Some p" using demo_do_run_some by blast
  have "tracked p" using do_tasks_tracked[OF demo_new_eq p] by blast
  moreover obtain p' t where c: "DO_CreateTask demo_do_env demo_do_settings demo_do_task (fst demo_new) = (p', Inr t)"
    using demo_do_created by (metis is_ok_iff prod.collapse)
  moreover have "do_run demo_do_env demo_do_settings (\<lambda>_. Inl (New [])) [] (fst demo_new) = Some (fst demo_new)" by simp
  from do_tasks_tracked[OF demo_new_eq this] have "\<exists>i. mget (dp_TaskStates p') (Itoa i) = Some (tk_state t)" using c by blast
  ultimately show ?thesis using demo_do_created p by blast
qed

theorem do_restore_roundtrip_witness:
  "\<exists>p'. DO_RestoreProvider (\<lambda>_. Inr (do_state (fst demo_new))) ''j'' ''k'' demo_tailscale [] ((Map.empty, {''fw''}, {}), ()) =
      Inr (p', settings demo_tailscale []) \<and> do_state p' = do_state (fst demo_new)"
proof -
  have "tracked (fst demo_new)" by (simp add: demo_new_provider new_provider_def tracked_def)
  then show ?thesis
    using do_restore_roundtrip[of "\<lambda>_. Inr ''j''" "fst demo_new" "''j''" "\<lambda>_. Inr (do_state (fst demo_new))" "''k''" demo_tailscale "[]" "((Map.empty, {''fw''}, {}), ())"]
    by (auto simp: DO_SerializeProvider_def)
qed

end
