(* ===== verification/Report_Intervals.thy ===== *)
theory Report_Intervals
  imports Prelude "HOL-Library.Char_ord" "HOL-Library.List_Lexorder" "HOL-Library.Product_Lexorder"
begin

text \<open>
  Wall-clock accounting of \<open>cmd/local-report-runner/main.go\<close>: the phases of a run against the load window,
  and the union of the intervals in which a class of work was active. A time is its number of
  nanoseconds, the zero time is 0, and \<open>Sub\<close> saturates as \<open>time.Time.Sub\<close> does. The type \<open>float64\<close> is the
  parameter \<open>fl\<close>, so that nothing depends on how its operations round: \<open>fl_ratio\<close> is a decimal constant,
  \<open>fl_Parse\<close> reads a number and tells whether it could, \<open>fl_finite\<close> tells NaN and the infinities apart, \<open>fl_Ceil\<close> and \<open>fl_trunc\<close> convert to an
  integer, and \<open>fl_Float64s\<close> sorts.
\<close>

section \<open>Numbers and times\<close>

record 'f float64 =
  fl_of_int :: "int \<Rightarrow> 'f"
  fl_add :: "'f \<Rightarrow> 'f \<Rightarrow> 'f"
  fl_sub :: "'f \<Rightarrow> 'f \<Rightarrow> 'f"
  fl_mul :: "'f \<Rightarrow> 'f \<Rightarrow> 'f"
  fl_div :: "'f \<Rightarrow> 'f \<Rightarrow> 'f"
  fl_less :: "'f \<Rightarrow> 'f \<Rightarrow> bool"
  fl_eq :: "'f \<Rightarrow> 'f \<Rightarrow> bool"
  fl_Seconds :: "int \<Rightarrow> 'f"
  fl_ratio :: "int \<Rightarrow> int \<Rightarrow> 'f"
  fl_Parse :: "string \<Rightarrow> 'f \<times> bool"
  fl_finite :: "'f \<Rightarrow> bool"
  fl_Ceil :: "'f \<Rightarrow> int"
  fl_trunc :: "'f \<Rightarrow> int"
  fl_Float64s :: "'f list \<Rightarrow> 'f list"

abbreviation fl_zero :: "'f float64 \<Rightarrow> 'f" where
  "fl_zero fl \<equiv> fl_of_int fl 0"

abbreviation fl_pos :: "'f float64 \<Rightarrow> 'f \<Rightarrow> bool" where
  "fl_pos fl x \<equiv> fl_less fl (fl_zero fl) x"

definition IsZero :: "int \<Rightarrow> bool" where
  "IsZero t \<longleftrightarrow> t = 0"

definition Sub :: "int \<Rightarrow> int \<Rightarrow> int" where
  "Sub a b = max (- (2 ^ 63)) (min (a - b) (2 ^ 63 - 1))"

definition minTime :: "int \<Rightarrow> int \<Rightarrow> int" where
  "minTime a b = (if a < b then a else b)"

definition maxTime :: "int \<Rightarrow> int \<Rightarrow> int" where
  "maxTime a b = (if a > b then a else b)"

definition overlapSeconds :: "'f float64 \<Rightarrow> int \<Rightarrow> int \<Rightarrow> int \<Rightarrow> int \<Rightarrow> 'f" where
  "overlapSeconds fl aStart aEnd bStart bEnd =
     (let start = maxTime aStart bStart; stop = minTime aEnd bEnd
      in if \<not> stop > start then fl_zero fl else fl_Seconds fl (Sub stop start))"

section \<open>Phases\<close>

record 'f phaseSpan =
  ph_Name :: string
  ph_Started :: int
  ph_Ended :: int
  ph_Seconds :: 'f
  ph_Note :: string

record 'f loadWindowPhaseOverlap =
  po_Name :: string
  po_Note :: string
  po_Started :: int
  po_Ended :: int
  po_PhaseSeconds :: 'f
  po_BeforeWindowSeconds :: 'f
  po_InWindowSeconds :: 'f
  po_AfterWindowSeconds :: 'f
  po_Classification :: string

text \<open>\<open>startPhase\<close> returns the function that appends the phase; here its two readings of the clock are arguments.\<close>

definition startPhase :: "'f float64 \<Rightarrow> string \<Rightarrow> string \<Rightarrow> int \<Rightarrow> int \<Rightarrow> 'f phaseSpan list \<Rightarrow> 'f phaseSpan list" where
  "startPhase fl name note start stop timeline =
     timeline @ [\<lparr> ph_Name = name, ph_Started = start, ph_Ended = stop, ph_Seconds = fl_Seconds fl (Sub stop start), ph_Note = note \<rparr>]"

fun phaseSeconds :: "'f float64 \<Rightarrow> 'f phaseSpan list \<Rightarrow> string \<Rightarrow> 'f" where
  "phaseSeconds fl [] name = fl_zero fl"
| "phaseSeconds fl (span # spans) name = (if ph_Name span = name then ph_Seconds span else phaseSeconds fl spans name)"

definition classifyLoadWindowPhase :: "'f float64 \<Rightarrow> 'f loadWindowPhaseOverlap \<Rightarrow> string" where
  "classifyLoadWindowPhase fl row =
     (let zero = (\<lambda>x. fl_eq fl x (fl_zero fl)); pos = fl_pos fl;
          before = po_BeforeWindowSeconds row; inside = po_InWindowSeconds row; after = po_AfterWindowSeconds row
      in if zero inside \<and> pos before \<and> zero after then ''before_window''
         else if zero inside \<and> pos after \<and> zero before then ''after_window''
         else if pos before \<and> pos after then ''spans_window''
         else if pos before then ''crosses_window_start''
         else if pos after then ''crosses_window_end''
         else if pos inside then ''inside_window''
         else ''outside_window'')"

definition phase_overlap :: "'f float64 \<Rightarrow> int \<Rightarrow> int \<Rightarrow> 'f phaseSpan \<Rightarrow> 'f loadWindowPhaseOverlap" where
  "phase_overlap fl startedAt endedAt span =
     (let s = ph_Started span; e = ph_Ended span;
          row = \<lparr> po_Name = ph_Name span, po_Note = ph_Note span, po_Started = s, po_Ended = e,
            po_PhaseSeconds = fl_Seconds fl (Sub e s), po_BeforeWindowSeconds = fl_zero fl, po_InWindowSeconds = fl_zero fl,
            po_AfterWindowSeconds = fl_zero fl, po_Classification = [] \<rparr>;
          row = (if s < startedAt then
                   let beforeEnd = minTime e startedAt
                   in if beforeEnd > s then row\<lparr>po_BeforeWindowSeconds := fl_Seconds fl (Sub beforeEnd s)\<rparr> else row
                 else row);
          inStart = maxTime s startedAt; inEnd = minTime e endedAt;
          row = (if inEnd > inStart then row\<lparr>po_InWindowSeconds := fl_Seconds fl (Sub inEnd inStart)\<rparr> else row);
          row = (if e > endedAt then
                   let afterStart = maxTime s endedAt
                   in if e > afterStart then row\<lparr>po_AfterWindowSeconds := fl_Seconds fl (Sub e afterStart)\<rparr> else row
                 else row)
      in row\<lparr>po_Classification := classifyLoadWindowPhase fl row\<rparr>)"

definition summarizeLoadWindowPhaseOverlaps ::
    "'f float64 \<Rightarrow> 'f phaseSpan list \<Rightarrow> int \<Rightarrow> int \<Rightarrow> 'f loadWindowPhaseOverlap list" where
  "summarizeLoadWindowPhaseOverlaps fl spans startedAt endedAt =
     (if spans = [] \<or> IsZero startedAt \<or> IsZero endedAt \<or> \<not> endedAt > startedAt then []
      else map (phase_overlap fl startedAt endedAt)
             (filter (\<lambda>span. \<not> (IsZero (ph_Started span) \<or> IsZero (ph_Ended span) \<or> \<not> ph_Ended span > ph_Started span)) spans))"

section \<open>Intervals\<close>

record 'f loadWindowInterval =
  iv_Name :: string
  iv_Class :: string
  iv_Method :: string
  iv_Source :: string
  iv_Provenance :: string
  iv_Started :: int
  iv_Ended :: int
  iv_Seconds :: 'f
  iv_Note :: string

record 'f loadWindowIntervalAttribution =
  ia_Class :: string
  ia_Method :: string
  ia_Source :: string
  ia_Provenance :: string
  ia_IntervalCount :: nat
  ia_UnionSeconds :: 'f

record clippedClockInterval =
  ci_started :: int
  ci_ended :: int

definition loadWindowIntervalMatchesNode :: "'f loadWindowInterval \<Rightarrow> string \<Rightarrow> bool" where
  "loadWindowIntervalMatchesNode interval nodeName = (if nodeName = [] then True else iv_Name interval = nodeName)"

definition clipLoadWindowInterval :: "'f loadWindowInterval \<Rightarrow> int \<Rightarrow> int \<Rightarrow> clippedClockInterval option" where
  "clipLoadWindowInterval interval windowStart windowEnd =
     (if IsZero (iv_Started interval) \<or> IsZero (iv_Ended interval) \<or> \<not> iv_Ended interval > iv_Started interval then None
      else let started = maxTime (iv_Started interval) windowStart; ended = minTime (iv_Ended interval) windowEnd
           in if \<not> ended > started then None else Some \<lparr> ci_started = started, ci_ended = ended \<rparr>)"

text \<open>The merged intervals with the last one first, and the next interval.\<close>

fun merge_step :: "clippedClockInterval list \<Rightarrow> clippedClockInterval \<Rightarrow> clippedClockInterval list" where
  "merge_step [] interval = [interval]"
| "merge_step (lst # merged) interval =
     (if \<not> ci_started interval > ci_ended lst
      then (if ci_ended interval > ci_ended lst then lst\<lparr>ci_ended := ci_ended interval\<rparr> else lst) # merged
      else interval # lst # merged)"

definition mergeClippedClockIntervals :: "clippedClockInterval list \<Rightarrow> clippedClockInterval list" where
  "mergeClippedClockIntervals intervals =
     (case sort_key (\<lambda>i. (ci_started i, ci_ended i)) intervals of
        [] \<Rightarrow> []
      | i # ordered \<Rightarrow> rev (foldl merge_step [i] ordered))"

definition clippedClockIntervalUnionSeconds :: "'f float64 \<Rightarrow> clippedClockInterval list \<Rightarrow> 'f" where
  "clippedClockIntervalUnionSeconds fl intervals =
     foldl (\<lambda>total i. fl_add fl total (fl_Seconds fl (Sub (ci_ended i) (ci_started i)))) (fl_zero fl)
       (mergeClippedClockIntervals intervals)"

definition sortedSetSummary :: "string list \<Rightarrow> string" where
  "sortedSetSummary values = (if values = [] then [] else Join '', '' (sort (remdups values)))"

text \<open>The clipped intervals of one key, in the order of the list.\<close>

fun clip_all :: "('f loadWindowInterval \<Rightarrow> bool) \<Rightarrow> 'f loadWindowInterval list \<Rightarrow> int \<Rightarrow> int \<Rightarrow>
    ('f loadWindowInterval \<times> clippedClockInterval) list" where
  "clip_all sel [] windowStart windowEnd = []"
| "clip_all sel (interval # intervals) windowStart windowEnd =
     (if \<not> sel interval then clip_all sel intervals windowStart windowEnd
      else case clipLoadWindowInterval interval windowStart windowEnd of
             None \<Rightarrow> clip_all sel intervals windowStart windowEnd
           | Some c \<Rightarrow> (interval, c) # clip_all sel intervals windowStart windowEnd)"

definition interval_key :: "'f loadWindowInterval \<Rightarrow> string \<times> string \<times> string \<times> string" where
  "interval_key i = (iv_Class i, iv_Method i, iv_Source i, iv_Provenance i)"

definition summarizeLoadWindowIntervalAttributions ::
    "'f float64 \<Rightarrow> 'f loadWindowInterval list \<Rightarrow> string \<Rightarrow> int \<Rightarrow> int \<Rightarrow> 'f loadWindowIntervalAttribution list" where
  "summarizeLoadWindowIntervalAttributions fl intervals nodeName windowStart windowEnd =
     (if intervals = [] \<or> IsZero windowStart \<or> IsZero windowEnd \<or> \<not> windowEnd > windowStart then []
      else let clipped = clip_all (\<lambda>i. loadWindowIntervalMatchesNode i nodeName) intervals windowStart windowEnd;
               group = (\<lambda>k. map snd (filter (\<lambda>(i, _). interval_key i = k) clipped))
           in map (\<lambda>k. case k of (c, m, s, p) \<Rightarrow>
                    \<lparr> ia_Class = c, ia_Method = m, ia_Source = s, ia_Provenance = p, ia_IntervalCount = length (group k),
                      ia_UnionSeconds = clippedClockIntervalUnionSeconds fl (group k) \<rparr>)
                (sort (remdups (map (interval_key \<circ> fst) clipped))))"

definition interval_source :: "'f loadWindowInterval \<Rightarrow> string" where
  "interval_source i = (if iv_Provenance i = [] then iv_Source i else iv_Provenance i)"

definition loadWindowIntervalClassUnion ::
    "'f float64 \<Rightarrow> 'f loadWindowInterval list \<Rightarrow> string \<Rightarrow> string \<Rightarrow> int \<Rightarrow> int \<Rightarrow> 'f \<times> nat \<times> string" where
  "loadWindowIntervalClassUnion fl intervals nodeName class windowStart windowEnd =
     (if intervals = [] \<or> class = [] \<or> IsZero windowStart \<or> IsZero windowEnd \<or> \<not> windowEnd > windowStart
      then (fl_zero fl, 0, [])
      else let clipped = clip_all (\<lambda>i. iv_Class i = class \<and> loadWindowIntervalMatchesNode i nodeName) intervals windowStart windowEnd
           in (clippedClockIntervalUnionSeconds fl (map snd clipped), length clipped,
               sortedSetSummary (filter (\<lambda>s. s \<noteq> []) (map (interval_source \<circ> fst) clipped))))"

section \<open>Merging covers the same time\<close>

definition covered :: "clippedClockInterval list \<Rightarrow> int set" where
  "covered is = (\<Union>i \<in> set is. {ci_started i..<ci_ended i})"

text \<open>Every interval of a merged list, last one first, begins after the one before it has ended.\<close>

definition separated :: "clippedClockInterval list \<Rightarrow> bool" where
  "separated ms \<longleftrightarrow> sorted_wrt (\<lambda>b a. ci_ended a < ci_started b) ms \<and> (\<forall>i \<in> set ms. ci_started i < ci_ended i)"

lemma merge_step_covered:
  assumes "separated ms" "ci_started i < ci_ended i" "ms \<noteq> [] \<Longrightarrow> ci_started (hd ms) \<le> ci_started i"
  shows "covered (merge_step ms i) = covered ms \<union> {ci_started i..<ci_ended i}"
  using assms by (cases ms) (auto simp: covered_def separated_def)

lemma merge_step_separated:
  assumes "separated ms" "ci_started i < ci_ended i" "ms \<noteq> [] \<Longrightarrow> ci_started (hd ms) \<le> ci_started i"
  shows "separated (merge_step ms i)"
  using assms by (cases ms) (force simp: separated_def)+

lemma merge_step_hd:
  "ms \<noteq> [] \<Longrightarrow> ci_started (hd ms) \<le> ci_started i \<Longrightarrow> merge_step ms i \<noteq> [] \<and> ci_started (hd (merge_step ms i)) \<le> ci_started i"
  by (cases ms) auto

lemma fold_merge:
  assumes "separated ms" "ms \<noteq> []" "sorted (ci_started (hd ms) # map ci_started is)" "\<forall>i \<in> set is. ci_started i < ci_ended i"
  shows "separated (foldl merge_step ms is) \<and> covered (foldl merge_step ms is) = covered ms \<union> covered is"
  using assms
proof (induction "is" arbitrary: ms)
  case (Cons i js)
  let ?ms = "merge_step ms i"
  have h: "ci_started (hd ms) \<le> ci_started i" using Cons.prems by simp
  have hd': "?ms \<noteq> []" "ci_started (hd ?ms) \<le> ci_started i" using merge_step_hd[OF Cons.prems(2) h] by auto
  have "sorted (ci_started (hd ?ms) # map ci_started js)" using Cons.prems(3) hd' by auto
  then have "separated (foldl merge_step ?ms js) \<and> covered (foldl merge_step ?ms js) = covered ?ms \<union> covered js"
    using Cons.IH[of ?ms] merge_step_separated[OF Cons.prems(1), of i] h hd' Cons.prems by auto
  then show ?case using merge_step_covered[OF Cons.prems(1), of i] h Cons.prems by (auto simp: covered_def)
qed (simp add: covered_def)

lemma merge_covered:
  assumes "\<forall>i \<in> set is. ci_started i < ci_ended i"
  shows "separated (rev (mergeClippedClockIntervals is)) \<and> covered (mergeClippedClockIntervals is) = covered is"
proof (cases "sort_key (\<lambda>i. (ci_started i, ci_ended i)) is")
  case Nil
  then have "is = []" by (metis length_0_conv length_sort)
  then show ?thesis by (simp add: mergeClippedClockIntervals_def separated_def covered_def)
next
  case (Cons j js)
  let ?o = "sort_key (\<lambda>i. (ci_started i, ci_ended i)) is"
  have set: "set (j # js) = set is" using set_sort[of _ "is"] Cons by metis
  have "sorted (map (\<lambda>i. (ci_started i, ci_ended i)) (j # js))" using sorted_sort_key[of _ "is"] Cons by metis
  then have "sorted (map ci_started (j # js))"
    by (auto simp: sorted_wrt_map less_eq_prod_def elim!: sorted_wrt_mono_rel[rotated])
  moreover have "\<forall>i \<in> set (j # js). ci_started i < ci_ended i" using assms set by metis
  ultimately have "separated (foldl merge_step [j] js) \<and> covered (foldl merge_step [j] js) = covered [j] \<union> covered js"
    by (intro fold_merge) (auto simp: separated_def)
  moreover have "covered is = covered [j] \<union> covered js" using set by (auto simp: covered_def)
  ultimately show ?thesis using Cons by (simp add: mergeClippedClockIntervals_def) (simp add: covered_def)
qed

lemma separated_total: "separated ms \<Longrightarrow> (\<Sum>i \<leftarrow> ms. ci_ended i - ci_started i) = int (card (covered ms))"
proof (induction ms)
  case (Cons m ms)
  have disj: "{ci_started m..<ci_ended m} \<inter> covered ms = {}" using Cons.prems by (force simp: separated_def covered_def)
  have fin: "finite (covered ms)" by (simp add: covered_def)
  have "covered (m # ms) = {ci_started m..<ci_ended m} \<union> covered ms" by (simp add: covered_def)
  then have "card (covered (m # ms)) = card {ci_started m..<ci_ended m} + card (covered ms)"
    using disj fin by (simp add: card_Un_disjoint)
  then show ?case using Cons by (simp add: separated_def)
qed (simp add: covered_def)

lemma merge_total:
  assumes "\<forall>i \<in> set is. ci_started i < ci_ended i"
  shows "(\<Sum>i \<leftarrow> mergeClippedClockIntervals is. ci_ended i - ci_started i) = int (card (covered is))"
proof -
  have "(\<Sum>i \<leftarrow> ms. ci_ended i - ci_started i) = (\<Sum>i \<leftarrow> rev ms. ci_ended i - ci_started i)" for ms
    by (simp add: rev_map[symmetric] sum_list_rev)
  moreover have "covered (rev ms) = covered ms" for ms by (simp add: covered_def)
  ultimately show ?thesis using merge_covered[OF assms] separated_total by metis
qed

text \<open>The moments of the window in which an interval that is selected was active.\<close>

definition active :: "('f loadWindowInterval \<Rightarrow> bool) \<Rightarrow> 'f loadWindowInterval list \<Rightarrow> int \<Rightarrow> int \<Rightarrow> int set" where
  "active sel is windowStart windowEnd =
     {t. windowStart \<le> t \<and> t < windowEnd \<and>
         (\<exists>i \<in> set is. sel i \<and> \<not> IsZero (iv_Started i) \<and> \<not> IsZero (iv_Ended i) \<and> iv_Started i \<le> t \<and> t < iv_Ended i)}"

lemma clip_ok: "clipLoadWindowInterval i a b = Some c \<Longrightarrow> ci_started c < ci_ended c \<and> a \<le> ci_started c \<and> ci_ended c \<le> b"
  by (auto simp: clipLoadWindowInterval_def Let_def minTime_def maxTime_def split: if_splits)

lemma clip_all_set: "(i, c) \<in> set (clip_all sel is a b) \<longleftrightarrow> i \<in> set is \<and> sel i \<and> clipLoadWindowInterval i a b = Some c"
  by (induction "is") (auto split: option.splits)

lemma clip_all_covered: "covered (map snd (clip_all sel is a b)) = active sel is a b"
proof (intro set_eqI iffI)
  fix t assume "t \<in> covered (map snd (clip_all sel is a b))"
  then obtain i c where "(i, c) \<in> set (clip_all sel is a b)" "ci_started c \<le> t" "t < ci_ended c" by (auto simp: covered_def)
  then show "t \<in> active sel is a b" unfolding clip_all_set active_def
    by (auto simp: clipLoadWindowInterval_def Let_def minTime_def maxTime_def split: if_splits intro!: bexI[of _ i])
next
  fix t assume "t \<in> active sel is a b"
  then obtain i where i: "i \<in> set is" "sel i" "\<not> IsZero (iv_Started i)" "\<not> IsZero (iv_Ended i)"
      "a \<le> t" "t < b" "iv_Started i \<le> t" "t < iv_Ended i" by (auto simp: active_def)
  let ?c = "\<lparr> ci_started = maxTime (iv_Started i) a, ci_ended = minTime (iv_Ended i) b \<rparr>"
  have "clipLoadWindowInterval i a b = Some ?c"
    using i by (simp add: clipLoadWindowInterval_def minTime_def maxTime_def)
  then have "(i, ?c) \<in> set (clip_all sel is a b)" using i by (simp add: clip_all_set)
  then have "?c \<in> set (map snd (clip_all sel is a b))" by (metis image_eqI list.set_map snd_conv)
  moreover have "ci_started ?c \<le> t \<and> t < ci_ended ?c" using i by (simp add: minTime_def maxTime_def)
  ultimately show "t \<in> covered (map snd (clip_all sel is a b))" unfolding covered_def by (meson UN_I atLeastLessThan_iff)
qed

lemma Sub_exact: "0 \<le> a - b \<Longrightarrow> a - b < 2 ^ 63 \<Longrightarrow> Sub a b = a - b"
  by (simp add: Sub_def)

lemma merged_within:
  assumes "\<forall>i \<in> set is. a \<le> ci_started i \<and> ci_started i < ci_ended i \<and> ci_ended i \<le> b" "m \<in> set (mergeClippedClockIntervals is)"
  shows "a \<le> ci_started m \<and> ci_started m < ci_ended m \<and> ci_ended m \<le> b"
proof -
  have ok: "\<forall>i \<in> set is. ci_started i < ci_ended i" using assms(1) by blast
  have lt: "ci_started m < ci_ended m" using merge_covered[OF ok] assms(2) by (simp add: separated_def)
  have in_is: "\<exists>i \<in> set is. ci_started i \<le> t \<and> t < ci_ended i" if "ci_started m \<le> t" "t < ci_ended m" for t
  proof -
    have "t \<in> covered (mergeClippedClockIntervals is)"
      unfolding covered_def using assms(2) that by (meson UN_I atLeastLessThan_iff)
    then have "t \<in> covered is" using merge_covered[OF ok] by simp
    then show ?thesis by (auto simp: covered_def)
  qed
  have "a \<le> ci_started m" using in_is[of "ci_started m"] assms(1) lt by force
  moreover have "ci_ended m \<le> b" using in_is[of "ci_ended m - 1"] assms(1) lt by force
  ultimately show ?thesis using lt by blast
qed

lemma union_durations:
  assumes "\<forall>i \<in> set is. a \<le> ci_started i \<and> ci_started i < ci_ended i \<and> ci_ended i \<le> b" "b - a < 2 ^ 63"
  shows "\<exists>ds. clippedClockIntervalUnionSeconds fl is = foldl (fl_add fl) (fl_zero fl) (map (fl_Seconds fl) ds) \<and>
    sum_list ds = int (card (covered is))"
proof -
  have "Sub (ci_ended m) (ci_started m) = ci_ended m - ci_started m" if "m \<in> set (mergeClippedClockIntervals is)" for m
    using merged_within[OF assms(1) that] assms(2) by (intro Sub_exact) auto
  then have eq: "map (\<lambda>i. Sub (ci_ended i) (ci_started i)) (mergeClippedClockIntervals is) =
      map (\<lambda>i. ci_ended i - ci_started i) (mergeClippedClockIntervals is)" by simp
  have "\<forall>i \<in> set is. ci_started i < ci_ended i" using assms(1) by blast
  then have "sum_list (map (\<lambda>i. Sub (ci_ended i) (ci_started i)) (mergeClippedClockIntervals is)) = int (card (covered is))"
    unfolding eq by (rule merge_total)
  then show ?thesis
    by (intro exI[of _ "map (\<lambda>i. Sub (ci_ended i) (ci_started i)) (mergeClippedClockIntervals is)"])
       (simp add: clippedClockIntervalUnionSeconds_def foldl_map)
qed

section \<open>Phases against the window\<close>

text \<open>What the conversion of a duration to seconds preserves.\<close>

definition seconds_law :: "'f float64 \<Rightarrow> bool" where
  "seconds_law fl \<longleftrightarrow> fl_Seconds fl 0 = fl_zero fl \<and>
     (\<forall>d. 0 \<le> d \<longrightarrow> fl_eq fl (fl_Seconds fl d) (fl_zero fl) = (d = 0) \<and> fl_pos fl (fl_Seconds fl d) = (0 < d))"

text \<open>The nanoseconds of a phase before, in and after the window.\<close>

definition before_ns :: "int \<Rightarrow> int \<Rightarrow> int \<Rightarrow> int" where
  "before_ns ws s e = max 0 (min e ws - s)"

definition in_ns :: "int \<Rightarrow> int \<Rightarrow> int \<Rightarrow> int \<Rightarrow> int" where
  "in_ns ws we s e = max 0 (min e we - max s ws)"

definition after_ns :: "int \<Rightarrow> int \<Rightarrow> int \<Rightarrow> int" where
  "after_ns we s e = max 0 (e - max s we)"

lemma phase_partition: "s \<le> e \<Longrightarrow> ws \<le> we \<Longrightarrow> before_ns ws s e + in_ns ws we s e + after_ns we s e = e - s"
  by (auto simp: before_ns_def in_ns_def after_ns_def min_def max_def)

lemma phase_overlap_fields:
  assumes "seconds_law fl" "ws < we" "ph_Started span < ph_Ended span" "ph_Ended span - ph_Started span < 2 ^ 63"
  shows "po_BeforeWindowSeconds (phase_overlap fl ws we span) = fl_Seconds fl (before_ns ws (ph_Started span) (ph_Ended span))"
    "po_InWindowSeconds (phase_overlap fl ws we span) = fl_Seconds fl (in_ns ws we (ph_Started span) (ph_Ended span))"
    "po_AfterWindowSeconds (phase_overlap fl ws we span) = fl_Seconds fl (after_ns we (ph_Started span) (ph_Ended span))"
proof -
  have z: "fl_Seconds fl 0 = fl_zero fl" using assms(1) by (simp add: seconds_law_def)
  show "po_BeforeWindowSeconds (phase_overlap fl ws we span) = fl_Seconds fl (before_ns ws (ph_Started span) (ph_Ended span))"
    using assms(2-4) by (auto simp: phase_overlap_def Let_def z before_ns_def minTime_def maxTime_def Sub_exact max_def min_def)
  show "po_InWindowSeconds (phase_overlap fl ws we span) = fl_Seconds fl (in_ns ws we (ph_Started span) (ph_Ended span))"
    using assms(2-4) by (auto simp: phase_overlap_def Let_def z in_ns_def minTime_def maxTime_def Sub_exact max_def min_def)
  show "po_AfterWindowSeconds (phase_overlap fl ws we span) = fl_Seconds fl (after_ns we (ph_Started span) (ph_Ended span))"
    using assms(2-4) by (auto simp: phase_overlap_def Let_def z after_ns_def minTime_def maxTime_def Sub_exact max_def min_def)
qed

definition class_of :: "int \<Rightarrow> int \<Rightarrow> int \<Rightarrow> int \<Rightarrow> string" where
  "class_of ws we s e =
     (if e \<le> ws then ''before_window'' else if we \<le> s then ''after_window''
      else if s < ws then (if we < e then ''spans_window'' else ''crosses_window_start'')
      else if we < e then ''crosses_window_end'' else ''inside_window'')"

lemma classify_class_of:
  assumes "seconds_law fl" "ws < we" "s < e"
    "po_BeforeWindowSeconds row = fl_Seconds fl (before_ns ws s e)" "po_InWindowSeconds row = fl_Seconds fl (in_ns ws we s e)"
    "po_AfterWindowSeconds row = fl_Seconds fl (after_ns we s e)"
  shows "classifyLoadWindowPhase fl row = class_of ws we s e"
proof -
  have law: "fl_eq fl (fl_Seconds fl d) (fl_zero fl) = (d = 0)" "fl_pos fl (fl_Seconds fl d) = (0 < d)" if "0 \<le> d" for d
    using assms(1) that by (simp_all add: seconds_law_def)
  have nn: "0 \<le> before_ns ws s e" "0 \<le> in_ns ws we s e" "0 \<le> after_ns we s e"
    by (simp_all add: before_ns_def in_ns_def after_ns_def)
  have pos: "0 < before_ns ws s e \<longleftrightarrow> s < ws" "0 < after_ns we s e \<longleftrightarrow> we < e" "0 < in_ns ws we s e \<longleftrightarrow> ws < e \<and> s < we"
    using assms(2,3) by (auto simp: before_ns_def in_ns_def after_ns_def)
  have zero: "before_ns ws s e = 0 \<longleftrightarrow> \<not> s < ws" "after_ns we s e = 0 \<longleftrightarrow> \<not> we < e" "in_ns ws we s e = 0 \<longleftrightarrow> \<not> (ws < e \<and> s < we)"
    using pos nn by linarith+
  show ?thesis
    unfolding classifyLoadWindowPhase_def Let_def assms(4-6) law[OF nn(1)] law[OF nn(2)] law[OF nn(3)] pos zero class_of_def
    using assms(2,3) by auto
qed

lemma phase_overlap_class:
  assumes "seconds_law fl" "ws < we" "ph_Started span < ph_Ended span" "ph_Ended span - ph_Started span < 2 ^ 63"
  shows "po_Classification (phase_overlap fl ws we span) = class_of ws we (ph_Started span) (ph_Ended span)"
proof -
  let ?r = "phase_overlap fl ws we span"
  have "po_Classification ?r = classifyLoadWindowPhase fl ?r"
    by (simp add: phase_overlap_def Let_def classifyLoadWindowPhase_def)
  then show ?thesis using classify_class_of[OF assms(1-3) phase_overlap_fields[OF assms]] by simp
qed

section \<open>Properties\<close>

text \<open>C21: The reported activity of a class of work in the load window is the measure of a union: the durations
  it adds up sum to the number of nanoseconds of the window in which some interval of the class, of the node
  asked for, was active, however the intervals overlap and in whatever order they are recorded.\<close>

theorem class_union_measures_activity:
  assumes "windowStart \<noteq> 0" "windowEnd \<noteq> 0" "windowStart < windowEnd" "windowEnd - windowStart < 2 ^ 63" "class \<noteq> []"
  shows "\<exists>ds. fst (loadWindowIntervalClassUnion fl intervals nodeName class windowStart windowEnd) =
       foldl (fl_add fl) (fl_zero fl) (map (fl_Seconds fl) ds) \<and>
     sum_list ds = int (card (active (\<lambda>i. iv_Class i = class \<and> loadWindowIntervalMatchesNode i nodeName) intervals windowStart windowEnd))"
proof (cases "intervals = []")
  case True
  then show ?thesis by (auto simp: loadWindowIntervalClassUnion_def active_def intro!: exI[of _ "[]"])
next
  case False
  let ?c = "clip_all (\<lambda>i. iv_Class i = class \<and> loadWindowIntervalMatchesNode i nodeName) intervals windowStart windowEnd"
  have "\<forall>i \<in> set (map snd ?c). windowStart \<le> ci_started i \<and> ci_started i < ci_ended i \<and> ci_ended i \<le> windowEnd"
    using clip_ok by (fastforce simp: clip_all_set)
  from union_durations[OF this assms(4), of fl] show ?thesis
    using assms False by (simp add: loadWindowIntervalClassUnion_def IsZero_def Let_def clip_all_covered)
qed

definition demo_float :: "int float64" where
  "demo_float = \<lparr> fl_of_int = \<lambda>i. i, fl_add = (+), fl_sub = (-), fl_mul = (*), fl_div = (div), fl_less = (<), fl_eq = (=), fl_Seconds = \<lambda>d. d,
     fl_ratio = (div), fl_Parse = (\<lambda>s. case ParseInt s of Inl _ \<Rightarrow> (0, False) | Inr i \<Rightarrow> (i, True)), fl_finite = (\<lambda>_. True), fl_Ceil = id,
     fl_trunc = id, fl_Float64s = sort \<rparr>"

definition demo_interval :: "int \<Rightarrow> int \<Rightarrow> int loadWindowInterval" where
  "demo_interval a b = \<lparr> iv_Name = ''v0'', iv_Class = ''abci'', iv_Method = ''m'', iv_Source = ''s'', iv_Provenance = [],
     iv_Started = a, iv_Ended = b, iv_Seconds = b - a, iv_Note = [] \<rparr>"

theorem class_union_measures_activity_witness:
  "\<exists>ds. fst (loadWindowIntervalClassUnion demo_float [demo_interval 4 9, demo_interval 2 6] [] ''abci'' 3 8) =
       foldl (fl_add demo_float) 0 (map (fl_Seconds demo_float) ds) \<and>
     sum_list ds = int (card (active (\<lambda>i. iv_Class i = ''abci'' \<and> loadWindowIntervalMatchesNode i [])
        [demo_interval 4 9, demo_interval 2 6] 3 8)) \<and>
     fst (loadWindowIntervalClassUnion demo_float [demo_interval 4 9, demo_interval 2 6] [] ''abci'' 3 8) = 5"
proof -
  have "fst (loadWindowIntervalClassUnion demo_float [demo_interval 4 9, demo_interval 2 6] [] ''abci'' 3 8) = 5"
    by code_simp
  moreover have "fl_zero demo_float = 0" by (simp add: demo_float_def)
  ultimately show ?thesis
    using class_union_measures_activity[of 3 8 "''abci''" demo_float "[demo_interval 4 9, demo_interval 2 6]" "[]"] by simp
qed

text \<open>Every reported phase is split exactly at the window: its nanoseconds before, in and after the window
  add up to its length, and its classification says on which sides of the window's ends it lies.\<close>

theorem phase_overlaps_split_at_window:
  assumes "row \<in> set (summarizeLoadWindowPhaseOverlaps fl spans startedAt endedAt)" and "seconds_law fl"
    and "po_Ended row - po_Started row < 2 ^ 63"
  shows "before_ns startedAt (po_Started row) (po_Ended row) + in_ns startedAt endedAt (po_Started row) (po_Ended row) +
      after_ns endedAt (po_Started row) (po_Ended row) = po_Ended row - po_Started row \<and>
    po_BeforeWindowSeconds row = fl_Seconds fl (before_ns startedAt (po_Started row) (po_Ended row)) \<and>
    po_InWindowSeconds row = fl_Seconds fl (in_ns startedAt endedAt (po_Started row) (po_Ended row)) \<and>
    po_AfterWindowSeconds row = fl_Seconds fl (after_ns endedAt (po_Started row) (po_Ended row)) \<and>
    po_Classification row = class_of startedAt endedAt (po_Started row) (po_Ended row)"
proof -
  from assms(1) obtain span where span: "row = phase_overlap fl startedAt endedAt span" "ph_Started span < ph_Ended span"
    and w: "startedAt < endedAt"
    by (auto simp: summarizeLoadWindowPhaseOverlaps_def split: if_splits)
  have ends: "po_Started row = ph_Started span" "po_Ended row = ph_Ended span"
    by (simp_all add: span(1) phase_overlap_def Let_def)
  show ?thesis
    using phase_overlap_fields[OF assms(2) w span(2)] phase_overlap_class[OF assms(2) w span(2)] phase_partition[of "ph_Started span"]
      assms(3) w span(2) unfolding ends by (simp add: span(1))
qed

theorem phase_overlaps_split_at_window_witness:
  "let row = phase_overlap demo_float 3 8 \<lparr> ph_Name = ''load'', ph_Started = 2, ph_Ended = 9, ph_Seconds = 7, ph_Note = [] \<rparr>
   in po_Classification row = ''spans_window'' \<and> po_InWindowSeconds row = 5"
proof -
  let ?span = "\<lparr> ph_Name = ''load'', ph_Started = 2, ph_Ended = 9, ph_Seconds = 7, ph_Note = [] \<rparr> :: int phaseSpan"
  have "seconds_law demo_float" by (auto simp: seconds_law_def demo_float_def)
  moreover have "phase_overlap demo_float 3 8 ?span \<in> set (summarizeLoadWindowPhaseOverlaps demo_float [?span] 3 8)"
    by (simp add: summarizeLoadWindowPhaseOverlaps_def IsZero_def)
  moreover have "po_Started (phase_overlap demo_float 3 8 ?span) = 2" "po_Ended (phase_overlap demo_float 3 8 ?span) = 9"
    by (simp_all add: phase_overlap_def Let_def)
  ultimately show ?thesis
    using phase_overlaps_split_at_window[of "phase_overlap demo_float 3 8 ?span" demo_float "[?span]" 3 8]
    by (simp add: class_of_def in_ns_def demo_float_def)
qed

end
