(* ===== verification/Report_Text.thy ===== *)
theory Report_Text
  imports Report_Intervals "HOL-Library.Multiset"
begin

text \<open>
  Text handling of \<open>cmd/local-report-runner/main.go\<close>: names of chains and files, shell environment files,
  cells of the report, and the values read from Prometheus samples, container statistics and logs.
  Strings are their bytes; the functions that change case or trim are those of Go on ASCII text.
\<close>

section \<open>Strings\<close>

definition is_space :: "char \<Rightarrow> bool" where
  "is_space c \<longleftrightarrow> c \<in> {CHR '' '', CHR 0x09, CHR 0x0A, CHR 0x0B, CHR 0x0C, CHR 0x0D}"

definition Trim :: "(char \<Rightarrow> bool) \<Rightarrow> string \<Rightarrow> string" where
  "Trim p s = rev (dropWhile p (rev (dropWhile p s)))"

definition TrimSpace :: "string \<Rightarrow> string" where
  "TrimSpace s = Trim is_space s"

definition Fields :: "string \<Rightarrow> string list" where
  "Fields s = filter (\<lambda>w. w \<noteq> []) (Split (CHR '' '') (map (\<lambda>c. if is_space c then CHR '' '' else c) s))"

definition lower :: "char \<Rightarrow> char" where
  "lower c = (let n = of_char c :: nat in if 65 \<le> n \<and> n \<le> 90 then char_of (n + 32) else c)"

definition ToLower :: "string \<Rightarrow> string" where
  "ToLower s = map lower s"

definition HasSuffix :: "string \<Rightarrow> string \<Rightarrow> bool" where
  "HasSuffix s p \<longleftrightarrow> length p \<le> length s \<and> drop (length s - length p) s = p"

text \<open>\<open>strings.ReplaceAll\<close> of one byte.\<close>

definition ReplaceChar :: "char \<Rightarrow> string \<Rightarrow> string \<Rightarrow> string" where
  "ReplaceChar c new s = concat (map (\<lambda>x. if x = c then new else [x]) s)"

text \<open>What follows the first occurrence.\<close>

fun after_first :: "string \<Rightarrow> string \<Rightarrow> string option" where
  "after_first needle [] = (if needle = [] then Some [] else None)"
| "after_first needle (c # s) =
     (if HasPrefix (c # s) needle then Some (drop (length needle) (c # s)) else after_first needle s)"

section \<open>Names\<close>

definition name_char :: "char \<Rightarrow> bool" where
  "name_char c \<longleftrightarrow> (let n = of_char c :: nat in (97 \<le> n \<and> n \<le> 122) \<or> (48 \<le> n \<and> n \<le> 57)) \<or> c = CHR ''-'' \<or> c = CHR ''_''"

definition sanitize :: "string \<Rightarrow> string" where
  "sanitize s = Trim (\<lambda>c. c = CHR ''-'') (map (\<lambda>c. if name_char c then c else CHR ''-'') (ToLower s))"

definition shortRef :: "string \<Rightarrow> string" where
  "shortRef ref = (if length ref \<le> 12 then ref else take 12 ref)"

definition shortChainName :: "string \<Rightarrow> string" where
  "shortChainName name =
     (if name = ''evm-blog'' then ''evmblog''
      else if name = ''simapp-goleveldb'' then ''sgldb''
      else if name = ''simapp-treedb'' then ''streedb''
      else if name = ''simapp-goleveldb-all'' then ''sgldball''
      else if name = ''simapp-treedb-all'' then ''streedba''
      else let clean = sanitize name in if length clean > 8 then take 8 clean else clean)"

text \<open>A negative limit would slice out of range.\<close>

definition trimLog :: "string \<Rightarrow> int \<Rightarrow> string result" where
  "trimLog s limit =
     (if int (length s) \<le> limit then Inr s
      else if limit < 0 then Inl (Panic ''slice bounds out of range'')
      else Inr (drop (nat (int (length s) - limit)) s))"

definition markdownPathForJSON :: "string \<Rightarrow> string" where
  "markdownPathForJSON path =
     (let base = rev (takeWhile (\<lambda>c. c \<noteq> CHR ''/'') (rev path));
          ext = (if CHR ''.'' \<in> set base then CHR ''.'' # rev (takeWhile (\<lambda>c. c \<noteq> CHR ''.'') (rev base)) else [])
      in if ext = [] then path @ ''.md'' else take (length path - length ext) path @ ''.md'')"

section \<open>Shell and report cells\<close>

definition shellQuote :: "string \<Rightarrow> string" where
  "shellQuote s =
     (if s = [] then [CHR 0x27, CHR 0x27]
      else [CHR 0x27] @ ReplaceChar (CHR 0x27) [CHR 0x27, CHR 0x22, CHR 0x27, CHR 0x22, CHR 0x27] s @ [CHR 0x27])"

definition shellEnvFile :: "string gomap \<Rightarrow> string" where
  "shellEnvFile env =
     (let ks = sort (map fst (filter (\<lambda>(k, v). TrimSpace k \<noteq> [] \<and> TrimSpace v \<noteq> []) env))
      in ''# generated by ironbird cmd/local-report-runner'' @ [CHR 0x0A] @
         concat (map (\<lambda>k. k @ ''='' @ shellQuote (mget_str env k) @ [CHR 0x0A]) ks))"

definition boolEnv :: "bool \<Rightarrow> string" where
  "boolEnv v = (if v then ''1'' else ''0'')"

definition envMapToList :: "string gomap \<Rightarrow> string list" where
  "envMapToList env = sort (map (\<lambda>(k, v). k @ ''='' @ v) env)"

definition mdCell :: "string \<Rightarrow> string" where
  "mdCell s = ReplaceChar (CHR ''|'') [CHR 0x5C, CHR ''|''] (ReplaceChar (CHR 0x0D) '' '' (ReplaceChar (CHR 0x0A) '' '' (TrimSpace s)))"

section \<open>Prometheus samples\<close>

definition prometheusMetricName :: "string \<Rightarrow> string" where
  "prometheusMetricName expr = takeWhile (\<lambda>c. c \<noteq> CHR ''{'') expr"

definition labelValue :: "string \<Rightarrow> string \<Rightarrow> string" where
  "labelValue expr label =
     (case dropWhile (\<lambda>c. c \<noteq> CHR ''{'') expr of
        [] \<Rightarrow> []
      | _ # rest \<Rightarrow>
          if CHR ''}'' \<notin> set rest then []
          else let labels = rev (tl (dropWhile (\<lambda>c. c \<noteq> CHR ''}'') (rev rest)))
               in case after_first (label @ ''='' @ [CHR 0x22]) labels of
                    None \<Rightarrow> []
                  | Some v \<Rightarrow> if CHR 0x22 \<notin> set v then [] else takeWhile (\<lambda>c. c \<noteq> CHR 0x22) v)"

definition interestingMetric :: "string \<Rightarrow> bool" where
  "interestingMetric name \<longleftrightarrow> name \<noteq> [] \<and>
     list_ex (HasPrefix name) [''treedb_'', ''tree_db_'', ''cometbft_'', ''tendermint_'', ''process_'', ''go_'', ''runtime_'',
       ''mempool_'', ''consensus_'', ''abci_'', ''blockstore_'', ''block_store_'', ''tx_index_'', ''indexer_'', ''sdk_'', ''cosmos_'',
       ''app_'', ''tx_'', ''begin_blocker_'', ''end_blocker_'']"

definition prometheus_line :: "'f float64 \<Rightarrow> string \<Rightarrow> 'f gomap \<Rightarrow> 'f gomap" where
  "prometheus_line fl line metrics =
     (let line = TrimSpace line
      in if line = [] \<or> HasPrefix line ''#'' then metrics
         else case Fields line of
                expr # raw # _ \<Rightarrow>
                  if \<not> interestingMetric (prometheusMetricName expr) then metrics
                  else (case fl_Parse fl raw of
                          (v, ok) \<Rightarrow> if \<not> ok \<or> \<not> fl_finite fl v then metrics else mput expr v metrics)
              | _ \<Rightarrow> metrics)"

definition parsePrometheusMetrics :: "'f float64 \<Rightarrow> string \<Rightarrow> 'f gomap" where
  "parsePrometheusMetrics fl text = fold (prometheus_line fl) (Split (CHR 0x0A) text) []"

section \<open>Statistics\<close>

record logErrorCount =
  le_Error :: string
  le_Count :: int

definition topLogErrors :: "int gomap \<Rightarrow> nat \<Rightarrow> logErrorCount list" where
  "topLogErrors counts limit =
     take limit (sort_key (\<lambda>e. (- le_Count e, le_Error e)) (map (\<lambda>(t, c). \<lparr> le_Error = t, le_Count = c \<rparr>) counts))"

record 'f durationStats =
  ds_Count :: nat
  ds_TotalSeconds :: 'f
  ds_AvgSeconds :: 'f
  ds_P50Seconds :: 'f
  ds_P95Seconds :: 'f
  ds_MaxSeconds :: 'f

definition fl_le :: "'f float64 \<Rightarrow> 'f \<Rightarrow> 'f \<Rightarrow> bool" where
  "fl_le fl a b \<longleftrightarrow> fl_less fl a b \<or> fl_eq fl a b"

definition slice_index :: "'a list \<Rightarrow> int \<Rightarrow> 'a result" where
  "slice_index xs i = (if 0 \<le> i \<and> i < int (length xs) then Inr (xs ! nat i) else Inl (Panic ''index out of range''))"

definition percentileSorted :: "'f float64 \<Rightarrow> 'f list \<Rightarrow> 'f \<Rightarrow> 'f result" where
  "percentileSorted fl vs percentile =
     (if vs = [] then Inr (fl_zero fl)
      else if fl_le fl percentile (fl_zero fl) then slice_index vs 0
      else if fl_le fl (fl_of_int fl 1) percentile then slice_index vs (int (length vs) - 1)
      else let index = fl_Ceil fl (fl_mul fl percentile (fl_of_int fl (int (length vs)))) - 1;
               index = (if index < 0 then 0 else index);
               index = (if index \<ge> int (length vs) then int (length vs) - 1 else index)
           in slice_index vs index)"

definition summarizeDurations :: "'f float64 \<Rightarrow> 'f list \<Rightarrow> 'f durationStats option result" where
  "summarizeDurations fl values =
     (if values = [] then Inr None
      else let vs = fl_Float64s fl values; total = foldl (fl_add fl) (fl_zero fl) vs
           in and_then (percentileSorted fl vs (fl_ratio fl 50 100)) (\<lambda>p50.
              and_then (percentileSorted fl vs (fl_ratio fl 95 100)) (\<lambda>p95.
              and_then (slice_index vs (int (length vs) - 1)) (\<lambda>mx.
                Inr (Some \<lparr> ds_Count = length vs, ds_TotalSeconds = total,
                  ds_AvgSeconds = fl_div fl total (fl_of_int fl (int (length vs))),
                  ds_P50Seconds = p50, ds_P95Seconds = p95, ds_MaxSeconds = mx \<rparr>)))))"

text \<open>The size of a container's memory or traffic, as \<open>docker stats\<close> prints it: digits, perhaps a fraction, perhaps
  space, perhaps a unit.\<close>

definition docker_units :: "string list" where
  "docker_units = concat (map (\<lambda>p. concat (map (\<lambda>i. map (\<lambda>b. p @ i @ b) [[], ''b'']) [[], ''i'']))
     [[], ''k'', ''m'', ''g'', ''t'', ''p''])"

definition match_size :: "string \<Rightarrow> (string \<times> string) option" where
  "match_size s =
     (let whole = takeWhile is_digit s; rest = dropWhile is_digit s;
          frac = (case rest of c # r \<Rightarrow> if c = CHR ''.'' \<and> r \<noteq> [] \<and> is_digit (hd r) then c # takeWhile is_digit r else [] | [] \<Rightarrow> []);
          unit = ToLower (dropWhile (\<lambda>c. is_space c \<and> c \<noteq> CHR 0x0B) (drop (length frac) rest))
      in if whole = [] \<or> unit \<notin> set docker_units then None else Some (whole @ frac, unit))"

definition multiplier :: "string \<Rightarrow> int" where
  "multiplier unit =
     (if unit = ''kib'' then 1024 else if unit = ''mib'' then 1024 ^ 2 else if unit = ''gib'' then 1024 ^ 3
      else if unit = ''tib'' then 1024 ^ 4 else if unit = ''kb'' \<or> unit = ''k'' then 1000
      else if unit = ''mb'' \<or> unit = ''m'' then 1000 ^ 2 else if unit = ''gb'' \<or> unit = ''g'' then 1000 ^ 3
      else if unit = ''tb'' \<or> unit = ''t'' then 1000 ^ 4 else 1)"

definition parseDockerSize :: "'f float64 \<Rightarrow> string \<Rightarrow> uint64" where
  "parseDockerSize fl s =
     (let s = TrimSpace s
      in case (if s = [] then None else match_size s) of
           None \<Rightarrow> 0
         | Some (number, unit) \<Rightarrow>
             word_of_int (fl_trunc fl (fl_mul fl (fst (fl_Parse fl number)) (fl_of_int fl (multiplier unit)))))"

definition memoryUsage :: "'f float64 \<Rightarrow> string \<Rightarrow> uint64 \<times> string" where
  "memoryUsage fl s = (let usage = TrimSpace (hd (Split (CHR ''/'') s)) in (parseDockerSize fl usage, usage))"

definition ioPairBytes :: "'f float64 \<Rightarrow> string \<Rightarrow> uint64 \<times> uint64" where
  "ioPairBytes fl s =
     (case Split (CHR ''/'') s of
        [a, b] \<Rightarrow> (parseDockerSize fl (TrimSpace a), parseDockerSize fl (TrimSpace b))
      | _ \<Rightarrow> (0, 0))"

definition percentValue :: "'f float64 \<Rightarrow> string \<Rightarrow> 'f" where
  "percentValue fl s =
     fst (fl_Parse fl (TrimSpace (if HasSuffix s ''%'' then butlast s else s)))"

section \<open>A shell reads the environment file back\<close>

text \<open>How a POSIX shell reads the rest of a line as one word, in the part of the grammar the file uses: plain
  characters, single quotes, and double quotes without expansions. Anything else is \<open>None\<close>.\<close>

definition sh_special :: "char \<Rightarrow> bool" where
  "sh_special c \<longleftrightarrow> is_space c \<or> c \<in> set ''$;&|<>()#*?[]~!{}'' \<or> c = CHR 0x60 \<or> c = CHR 0x5C"

datatype quoting = Plain | Single | Double

fun sh_word :: "quoting \<Rightarrow> string \<Rightarrow> string \<Rightarrow> (string \<times> string) option" where
  "sh_word q acc [] = (if q = Plain then Some (rev acc, []) else None)"
| "sh_word Plain acc (c # s) =
     (if c = CHR 0x0A then Some (rev acc, s)
      else if c = CHR 0x27 then sh_word Single acc s
      else if c = CHR 0x22 then sh_word Double acc s
      else if sh_special c then None else sh_word Plain (c # acc) s)"
| "sh_word Single acc (c # s) = (if c = CHR 0x27 then sh_word Plain acc s else sh_word Single (c # acc) s)"
| "sh_word Double acc (c # s) =
     (if c = CHR 0x22 then sh_word Plain acc s
      else if c = CHR ''$'' \<or> c = CHR 0x60 \<or> c = CHR 0x5C then None else sh_word Double (c # acc) s)"

lemma sh_word_shorter: "sh_word q acc s = Some (w, rest) \<Longrightarrow> length rest \<le> length s"
  by (induction q acc s rule: sh_word.induct) (auto split: if_splits)

text \<open>Reading a file of assignments and comments.\<close>

definition ident_char :: "char \<Rightarrow> bool" where
  "ident_char c \<longleftrightarrow> (let n = of_char c :: nat in (65 \<le> n \<and> n \<le> 90) \<or> (97 \<le> n \<and> n \<le> 122) \<or> (48 \<le> n \<and> n \<le> 57)) \<or> c = CHR ''_''"

function sh_env :: "string \<Rightarrow> string gomap option" where
  "sh_env s =
     (if s = [] then Some []
      else if hd s = CHR ''#'' then sh_env (tl (dropWhile (\<lambda>c. c \<noteq> CHR 0x0A) s))
      else let key = takeWhile ident_char s; rest = dropWhile ident_char s
           in if key = [] \<or> rest = [] \<or> hd rest \<noteq> CHR ''='' then None
              else case sh_word Plain [] (tl rest) of
                     None \<Rightarrow> None
                   | Some (v, later) \<Rightarrow> map_option (Cons (key, v)) (sh_env later))"
  by pat_completeness auto
termination
proof (relation "measure length", goal_cases)
  case (2 s)
  then have "length (dropWhile (\<lambda>c. c \<noteq> CHR 0x0A) s) \<le> length s" "0 < length s" using length_dropWhile_le by auto
  then have "length (tl (dropWhile (\<lambda>c. c \<noteq> CHR 0x0A) s)) < length s" unfolding length_tl by linarith
  then show ?case unfolding in_measure .
next
  case (3 s key rest x v later)
  then have "length later \<le> length (tl rest)" using sh_word_shorter by blast
  moreover have "length rest \<le> length s" unfolding 3 by (rule length_dropWhile_le)
  moreover have "0 < length rest" using 3 by blast
  ultimately have "length later < length s" unfolding length_tl by linarith
  then show ?case unfolding in_measure .
qed simp

declare sh_env.simps [simp del]

lemma sh_word_quoted:
  "sh_word Single acc (ReplaceChar (CHR 0x27) [CHR 0x27, CHR 0x22, CHR 0x27, CHR 0x22, CHR 0x27] s @ CHR 0x27 # rest) =
     sh_word Plain (rev s @ acc) rest"
  by (induction s arbitrary: acc) (auto simp: ReplaceChar_def)

lemma sh_word_shellQuote: "sh_word Plain [] (shellQuote s @ CHR 0x0A # rest) = Some (s, rest)"
  by (auto simp: shellQuote_def sh_word_quoted)

lemma ident_not_space: "ident_char c \<Longrightarrow> \<not> is_space c"
  by (auto simp: ident_char_def is_space_def)

lemma sh_env_line:
  assumes "k \<noteq> []" "list_all ident_char k"
  shows "sh_env (k @ CHR ''='' # shellQuote v @ CHR 0x0A # rest) = map_option (Cons (k, v)) (sh_env rest)"
proof -
  let ?s = "k @ CHR ''='' # shellQuote v @ CHR 0x0A # rest"
  have eq: "\<not> ident_char (CHR ''='')" by (simp add: ident_char_def)
  have "\<forall>c \<in> set k. ident_char c" using assms(2) by (simp add: list_all_iff)
  then have split: "takeWhile ident_char ?s = k" "dropWhile ident_char ?s = CHR ''='' # shellQuote v @ CHR 0x0A # rest"
    using eq by (simp_all add: takeWhile_append2 dropWhile_append2)
  have "hd k \<in> set k" using assms(1) by simp
  then have "ident_char (hd k)" using assms(2) by (simp add: list_all_iff)
  then have "hd ?s \<noteq> CHR ''#''" using assms(1) by (auto simp: ident_char_def)
  then show ?thesis using assms(1) by (subst sh_env.simps) (simp add: split sh_word_shellQuote)
qed

lemma sh_env_lines:
  assumes "\<forall>k \<in> set ks. k \<noteq> [] \<and> list_all ident_char k"
  shows "sh_env (concat (map (\<lambda>k. k @ ''='' @ shellQuote (f k) @ [CHR 0x0A]) ks)) = Some (map (\<lambda>k. (k, f k)) ks)"
  using assms
proof (induction ks)
  case Nil
  then show ?case by (simp add: sh_env.simps)
next
  case (Cons k ks)
  then show ?case using sh_env_line[of k "f k"] by simp
qed

lemma sh_env_comment:
  assumes "CHR 0x0A \<notin> set c"
  shows "sh_env (CHR ''#'' # c @ CHR 0x0A # rest) = sh_env rest"
proof -
  have "dropWhile (\<lambda>x. x \<noteq> CHR 0x0A) (c @ CHR 0x0A # rest) = CHR 0x0A # rest"
    using assms by (subst dropWhile_append2) auto
  then show ?thesis by (subst sh_env.simps) simp
qed

section \<open>Names and percentiles\<close>

lemma set_Trim: "set (Trim p s) \<subseteq> set s"
  unfolding Trim_def using set_dropWhileD by (fastforce dest: set_dropWhileD)

lemma sanitize_chars: "c \<in> set (sanitize s) \<Longrightarrow> name_char c"
proof -
  assume "c \<in> set (sanitize s)"
  then have "c \<in> set (map (\<lambda>c. if name_char c then c else CHR ''-'') (ToLower s))"
    unfolding sanitize_def using set_Trim by blast
  then show ?thesis by (auto simp: name_char_def split: if_splits)
qed

text \<open>Every chain name is short and made of the characters that container and host names may have.\<close>

lemma shortChainName_wf: "length (shortChainName name) \<le> 8 \<and> list_all name_char (shortChainName name)"
proof -
  have "list_all name_char (take n (sanitize s))" for n s
    unfolding list_all_iff using sanitize_chars in_set_takeD by metis
  moreover have "list_all name_char (sanitize s)" for s unfolding list_all_iff using sanitize_chars by blast
  moreover have "list_all name_char ''evmblog''" "list_all name_char ''sgldb''" "list_all name_char ''streedb''"
    "list_all name_char ''sgldball''" "list_all name_char ''streedba''" by code_simp+
  ultimately show ?thesis unfolding shortChainName_def Let_def
    by (intro conjI) (simp_all only: if_split, auto)
qed

lemma slice_index_in: "0 \<le> i \<Longrightarrow> i < int (length xs) \<Longrightarrow> \<exists>x \<in> set xs. slice_index xs i = Inr x"
  by (auto simp: slice_index_def)

lemma percentileSorted_in: "vs \<noteq> [] \<Longrightarrow> \<exists>v \<in> set vs. percentileSorted fl vs p = Inr v"
  unfolding percentileSorted_def Let_def by (auto intro!: slice_index_in simp: Suc_leI)

lemma sh_env_shellEnvFile:
  assumes "\<forall>(k, v) \<in> set env. k \<noteq> [] \<and> list_all ident_char k"
  shows "sh_env (shellEnvFile env) =
    Some (map (\<lambda>k. (k, mget_str env k)) (sort (map fst (filter (\<lambda>(k, v). TrimSpace v \<noteq> []) env))))"
proof -
  have ident: "TrimSpace k \<noteq> []" if "k \<noteq> []" "list_all ident_char k" for k
  proof -
    have "\<not> is_space (hd k)" using that by (cases k) (auto simp: ident_not_space)
    then have "dropWhile is_space k = k" using that(1) by (cases k) auto
    moreover have "\<not> is_space (last k)" using that by (auto simp: ident_not_space list_all_iff)
    ultimately show ?thesis using that(1) by (cases k rule: rev_cases) (auto simp: TrimSpace_def Trim_def)
  qed
  then have "filter (\<lambda>(k, v). TrimSpace k \<noteq> [] \<and> TrimSpace v \<noteq> []) env = filter (\<lambda>(k, v). TrimSpace v \<noteq> []) env"
    using assms by (intro filter_cong) auto
  moreover have "CHR 0x0A \<notin> set '' generated by ironbird cmd/local-report-runner''" by simp
  ultimately show ?thesis
    unfolding shellEnvFile_def Let_def
    using sh_env_comment[of "'' generated by ironbird cmd/local-report-runner''"]
      sh_env_lines[of "sort (map fst (filter (\<lambda>(k, v). TrimSpace v \<noteq> []) env))" "mget_str env"] assms
    by (auto split: prod.splits)
qed

section \<open>Properties\<close>



text \<open>Summarising durations never indexes out of range, however the floating-point arithmetic rounds: for
  any non-empty list the median, the 95th percentile and the maximum are durations of the list, and the
  maximum is the last one in sorted order.\<close>

theorem summarizeDurations_total:
  assumes "values \<noteq> []" and "mset (fl_Float64s fl values) = mset values"
  shows "\<exists>st. summarizeDurations fl values = Inr (Some st) \<and> ds_Count st = length values \<and>
    {ds_P50Seconds st, ds_P95Seconds st, ds_MaxSeconds st} \<subseteq> set values \<and> ds_MaxSeconds st = last (fl_Float64s fl values)"
proof -
  let ?vs = "fl_Float64s fl values"
  have set: "set ?vs = set values" and len: "length ?vs = length values"
    using assms(2) by (metis set_mset_mset, metis size_mset)
  then have ne: "?vs \<noteq> []" using assms(1) by auto
  obtain p50 p95 where p: "percentileSorted fl ?vs (fl_ratio fl 50 100) = Inr p50" "percentileSorted fl ?vs (fl_ratio fl 95 100) = Inr p95"
      "p50 \<in> set ?vs" "p95 \<in> set ?vs" using percentileSorted_in[OF ne] by metis
  have m: "slice_index ?vs (int (length ?vs) - 1) = Inr (last ?vs)"
    using ne by (simp add: slice_index_def last_conv_nth nat_diff_distrib Suc_leI)
  have "last ?vs \<in> set values" using ne set last_in_set by blast
  then show ?thesis using assms(1) p m set len by (simp add: summarizeDurations_def Let_def)
qed

theorem summarizeDurations_total_witness:
  "\<exists>st. summarizeDurations demo_float [3, 1, 2] = Inr (Some st) \<and> ds_MaxSeconds st = 3"
proof -
  have m: "mset (fl_Float64s demo_float [3, 1, 2]) = mset [3, 1, 2]" by (simp add: demo_float_def)
  have "last (fl_Float64s demo_float [3, 1, 2]) = 3" by code_simp
  then show ?thesis using summarizeDurations_total[OF _ m] by auto
qed

end
