(* ===== verification/Report_Metrics.thy ===== *)
theory Report_Metrics
  imports Report_Text
begin

text \<open>
  Metric snapshots of \<open>cmd/local-report-runner/main.go\<close>: cloning and selecting them, the differences
  between two scrapes, and the intervals in which a counter moved. Cloning gives equal values; what it
  avoids, sharing the map of metrics, does not arise with values. A map is iterated in the order of its list.
\<close>

section \<open>Snapshots\<close>

record 'f metricSnapshot =
  ms_Name :: string
  ms_URL :: string
  ms_Metrics :: "'f gomap"
  ms_Error :: string

record 'f metricDeltaValue =
  mv_Before :: 'f
  mv_After :: 'f
  mv_Delta :: 'f

record 'f metricDeltaSnapshot =
  md_Name :: string
  md_URL :: string
  md_Metrics :: "'f metricDeltaValue gomap"
  md_Error :: string

record 'f treeDBStatsSnapshot =
  tb_Name :: string
  tb_URL :: string
  tb_Instance :: string
  tb_Store :: string
  tb_WALDir :: string
  tb_Metrics :: "'f gomap"
  tb_Error :: string

record 'f treeDBStatsDelta =
  dl_Name :: string
  dl_URL :: string
  dl_Instance :: string
  dl_Store :: string
  dl_WALDir :: string
  dl_Metrics :: "'f metricDeltaValue gomap"
  dl_Error :: string

definition metricSnapshotUsable :: "'f metricSnapshot \<Rightarrow> bool" where
  "metricSnapshotUsable s \<longleftrightarrow> ms_Name s \<noteq> [] \<and> ms_Error s = [] \<and> ms_Metrics s \<noteq> []"

definition cloneMetricSnapshot :: "'f metricSnapshot \<Rightarrow> 'f metricSnapshot" where
  "cloneMetricSnapshot s = \<lparr> ms_Name = ms_Name s, ms_URL = ms_URL s,
     ms_Metrics = (if ms_Metrics s \<noteq> [] then mcopy (ms_Metrics s) [] else []), ms_Error = ms_Error s \<rparr>"

definition cloneMetricSnapshots :: "'f metricSnapshot list \<Rightarrow> 'f metricSnapshot list" where
  "cloneMetricSnapshots ss = map cloneMetricSnapshot ss"

definition cloneTreeDBStatsSnapshots :: "'f treeDBStatsSnapshot list \<Rightarrow> 'f treeDBStatsSnapshot list" where
  "cloneTreeDBStatsSnapshots ss = map (\<lambda>s. \<lparr> tb_Name = tb_Name s, tb_URL = tb_URL s, tb_Instance = tb_Instance s,
     tb_Store = tb_Store s, tb_WALDir = tb_WALDir s,
     tb_Metrics = (if tb_Metrics s \<noteq> [] then mcopy (tb_Metrics s) [] else []), tb_Error = tb_Error s \<rparr>) ss"

definition usableMetricSnapshots :: "'f metricSnapshot list \<Rightarrow> 'f metricSnapshot list" where
  "usableMetricSnapshots ss = map cloneMetricSnapshot (filter metricSnapshotUsable ss)"

fun append_missing :: "string list \<Rightarrow> 'f metricSnapshot list \<Rightarrow> 'f metricSnapshot list \<Rightarrow> 'f metricSnapshot list" where
  "append_missing seen out [] = out"
| "append_missing seen out (s # ss) =
     (if \<not> metricSnapshotUsable s \<or> ms_Name s \<in> set seen then append_missing seen out ss
      else append_missing (ms_Name s # seen) (out @ [cloneMetricSnapshot s]) ss)"

definition appendMissingUsableMetricBaselineSnapshots ::
    "'f metricSnapshot list \<Rightarrow> 'f metricSnapshot list \<Rightarrow> 'f metricSnapshot list" where
  "appendMissingUsableMetricBaselineSnapshots baseline current =
     (let out = cloneMetricSnapshots baseline
      in append_missing (filter (\<lambda>n. n \<noteq> []) (map ms_Name out)) out current)"

section \<open>Differences\<close>

definition appendSnapshotError :: "string \<Rightarrow> string \<Rightarrow> string \<Rightarrow> string" where
  "appendSnapshotError current phase errText =
     (if errText = [] then current
      else let addition = phase @ '': '' @ errText in if current = [] then addition else current @ ''; '' @ addition)"

text \<open>The map from names to snapshots, where a later snapshot replaces an earlier one of the same name.\<close>

definition metricSnapshotsByName :: "'f metricSnapshot list \<Rightarrow> 'f metricSnapshot gomap" where
  "metricSnapshotsByName ss = fold (\<lambda>s. mput (ms_Name s) s) ss []"

definition treeDBStatsSnapshotID :: "'f treeDBStatsSnapshot \<Rightarrow> string" where
  "treeDBStatsSnapshotID s = tb_Name s @ [CHR 0x00] @ tb_Instance s"

definition treeDBStatsSnapshotsByID :: "'f treeDBStatsSnapshot list \<Rightarrow> 'f treeDBStatsSnapshot gomap" where
  "treeDBStatsSnapshotsByID ss = fold (\<lambda>s. mput (treeDBStatsSnapshotID s) s) ss []"

definition metricSnapshotsComparable :: "'f metricSnapshot option \<Rightarrow> 'f metricSnapshot option \<Rightarrow> bool" where
  "metricSnapshotsComparable b a \<longleftrightarrow>
     (case (b, a) of
        (Some b, Some a) \<Rightarrow> \<not> (ms_Error b \<noteq> [] \<or> ms_Error a \<noteq> []) \<and> ms_Metrics b \<noteq> [] \<and> ms_Metrics a \<noteq> []
      | _ \<Rightarrow> False)"

definition treeDBStatsSnapshotsComparable :: "'f treeDBStatsSnapshot option \<Rightarrow> 'f treeDBStatsSnapshot option \<Rightarrow> bool" where
  "treeDBStatsSnapshotsComparable b a \<longleftrightarrow>
     (case (b, a) of
        (Some b, Some a) \<Rightarrow> \<not> (tb_Error b \<noteq> [] \<or> tb_Error a \<noteq> []) \<and> tb_Metrics b \<noteq> [] \<and> tb_Metrics a \<noteq> []
      | _ \<Rightarrow> False)"

text \<open>The loop over the keys of both scrapes, shared by the two kinds of snapshot.\<close>

definition common_deltas :: "'f float64 \<Rightarrow> 'f gomap \<Rightarrow> 'f gomap \<Rightarrow> 'f metricDeltaValue gomap" where
  "common_deltas fl before after =
     concat (map (\<lambda>k. case (mget before k, mget after k) of
        (Some b, Some a) \<Rightarrow> [(k, \<lparr> mv_Before = b, mv_After = a, mv_Delta = fl_sub fl a b \<rparr>)]
      | _ \<Rightarrow> []) (remdups (keys before @ keys after)))"

definition metric_delta :: "'f float64 \<Rightarrow> string \<Rightarrow> 'f metricSnapshot option \<Rightarrow> 'f metricSnapshot option \<Rightarrow> 'f metricDeltaSnapshot" where
  "metric_delta fl name b a =
     (let d = \<lparr> md_Name = name, md_URL = [], md_Metrics = [], md_Error = [] \<rparr>;
          d = (case b of None \<Rightarrow> d | Some s \<Rightarrow> d\<lparr>md_URL := ms_URL s, md_Error := appendSnapshotError (md_Error d) ''before'' (ms_Error s)\<rparr>);
          d = (case a of None \<Rightarrow> d
               | Some s \<Rightarrow> d\<lparr>md_URL := (if md_URL d = [] then ms_URL s else md_URL d),
                            md_Error := appendSnapshotError (md_Error d) ''after'' (ms_Error s)\<rparr>)
      in if metricSnapshotsComparable b a then d\<lparr>md_Metrics := common_deltas fl (ms_Metrics (the b)) (ms_Metrics (the a))\<rparr> else d)"

definition metricDeltaSnapshots :: "'f float64 \<Rightarrow> 'f metricSnapshot list \<Rightarrow> 'f metricSnapshot list \<Rightarrow> 'f metricDeltaSnapshot list" where
  "metricDeltaSnapshots fl before after =
     (let names = sort (remdups (map ms_Name before @ map ms_Name after))
      in filter (\<lambda>d. md_Metrics d \<noteq> [] \<or> md_Error d \<noteq> [])
           (map (\<lambda>n. metric_delta fl n (mget (metricSnapshotsByName before) n) (mget (metricSnapshotsByName after) n)) names))"

definition or_else :: "string \<Rightarrow> string \<Rightarrow> string" where
  "or_else x y = (if x = [] then y else x)"

definition treedb_delta :: "'f float64 \<Rightarrow> 'f treeDBStatsSnapshot option \<Rightarrow> 'f treeDBStatsSnapshot option \<Rightarrow> 'f treeDBStatsDelta" where
  "treedb_delta fl b a =
     (let d = \<lparr> dl_Name = [], dl_URL = [], dl_Instance = [], dl_Store = [], dl_WALDir = [], dl_Metrics = [], dl_Error = [] \<rparr>;
          d = (case b of None \<Rightarrow> d
               | Some s \<Rightarrow> \<lparr> dl_Name = tb_Name s, dl_URL = tb_URL s, dl_Instance = tb_Instance s, dl_Store = tb_Store s,
                            dl_WALDir = tb_WALDir s, dl_Metrics = [], dl_Error = appendSnapshotError [] ''before'' (tb_Error s) \<rparr>);
          d = (case a of None \<Rightarrow> d
               | Some s \<Rightarrow> \<lparr> dl_Name = or_else (dl_Name d) (tb_Name s), dl_URL = or_else (dl_URL d) (tb_URL s),
                            dl_Instance = or_else (dl_Instance d) (tb_Instance s), dl_Store = or_else (dl_Store d) (tb_Store s),
                            dl_WALDir = or_else (dl_WALDir d) (tb_WALDir s), dl_Metrics = [],
                            dl_Error = appendSnapshotError (dl_Error d) ''after'' (tb_Error s) \<rparr>)
      in if treeDBStatsSnapshotsComparable b a then d\<lparr>dl_Metrics := common_deltas fl (tb_Metrics (the b)) (tb_Metrics (the a))\<rparr> else d)"

definition treeDBStatsDeltaSnapshots ::
    "'f float64 \<Rightarrow> 'f treeDBStatsSnapshot list \<Rightarrow> 'f treeDBStatsSnapshot list \<Rightarrow> 'f treeDBStatsDelta list" where
  "treeDBStatsDeltaSnapshots fl before after =
     (let ids = sort (remdups (map treeDBStatsSnapshotID before @ map treeDBStatsSnapshotID after))
      in filter (\<lambda>d. dl_Metrics d \<noteq> [] \<or> dl_Error d \<noteq> [])
           (map (\<lambda>i. treedb_delta fl (mget (treeDBStatsSnapshotsByID before) i) (mget (treeDBStatsSnapshotsByID after) i)) ids))"

text \<open>Here a counter that is new counts from zero.\<close>

definition metricDeltas :: "'f float64 \<Rightarrow> 'f gomap \<Rightarrow> 'f gomap \<Rightarrow> 'f gomap" where
  "metricDeltas fl before after =
     map (\<lambda>(k, v). (k, fl_sub fl v (case mget before k of None \<Rightarrow> fl_zero fl | Some b \<Rightarrow> b))) after"

definition sumMetricDeltas :: "'f float64 \<Rightarrow> 'f gomap \<Rightarrow> string \<Rightarrow> 'f" where
  "sumMetricDeltas fl deltas name =
     foldl (\<lambda>total (k, v). if prometheusMetricName k = name then fl_add fl total v else total) (fl_zero fl) deltas"

fun metricDelta :: "'f float64 \<Rightarrow> 'f gomap \<Rightarrow> string \<Rightarrow> 'f" where
  "metricDelta fl [] name = fl_zero fl"
| "metricDelta fl ((k, v) # ds) name = (if prometheusMetricName k = name then v else metricDelta fl ds name)"

fun metricDeltaWithLabel :: "'f float64 \<Rightarrow> 'f gomap \<Rightarrow> string \<Rightarrow> string \<Rightarrow> string \<Rightarrow> 'f" where
  "metricDeltaWithLabel fl [] name label val = fl_zero fl"
| "metricDeltaWithLabel fl ((k, v) # ds) name label val =
     (if prometheusMetricName k = name \<and> Contains k (label @ ''='' @ [CHR 0x22] @ val @ [CHR 0x22]) then v
      else metricDeltaWithLabel fl ds name label val)"

definition nonNegative :: "'f float64 \<Rightarrow> 'f \<Rightarrow> 'f" where
  "nonNegative fl v = (if fl_less fl v (fl_zero fl) then fl_zero fl else v)"

section \<open>Activity\<close>

text \<open>Per method, the increases of its two counters.\<close>

definition count_name :: string where "count_name = ''cometbft_abci_connection_method_timing_seconds_count''"
definition sum_name :: string where "sum_name = ''cometbft_abci_connection_method_timing_seconds_sum''"

definition note_activity :: "'f float64 \<Rightarrow> string \<times> 'f \<Rightarrow> ('f \<times> 'f) gomap \<Rightarrow> ('f \<times> 'f) gomap" where
  "note_activity fl kd acts =
     (case kd of (key, delta) \<Rightarrow>
       if fl_le fl delta (fl_zero fl) then acts
       else let method = labelValue key ''method'';
                (c, s) = (case mget acts method of Some a \<Rightarrow> a | None \<Rightarrow> (fl_zero fl, fl_zero fl))
            in if method = [] then acts
               else if prometheusMetricName key = count_name then mput method (fl_add fl c delta, s) acts
               else if prometheusMetricName key = sum_name then mput method (c, fl_add fl s delta) acts
               else acts)"

definition abciMethodsWithActivity :: "'f float64 \<Rightarrow> 'f gomap \<Rightarrow> string list" where
  "abciMethodsWithActivity fl deltas =
     sort (map fst (filter (\<lambda>(m, c, s). fl_pos fl c \<or> fl_pos fl s) (fold (note_activity fl) deltas [])))"

definition appendMetricSnapshotDeltaIntervals ::
    "'f float64 \<Rightarrow> 'f loadWindowInterval list \<Rightarrow> int \<Rightarrow> 'f metricSnapshot \<Rightarrow> int \<Rightarrow> 'f metricSnapshot \<Rightarrow> 'f loadWindowInterval list" where
  "appendMetricSnapshotDeltaIntervals fl out beforeAt before afterAt after =
     (if IsZero beforeAt \<or> IsZero afterAt \<or> \<not> afterAt > beforeAt \<or> \<not> metricSnapshotUsable before \<or> \<not> metricSnapshotUsable after
      then out
      else out @ map (\<lambda>method. \<lparr> iv_Name = ms_Name after, iv_Class = ''abci'', iv_Method = method,
             iv_Source = ''cometbft_abci_connection_method_timing_seconds'', iv_Provenance = ''bounded_sample'',
             iv_Started = beforeAt, iv_Ended = afterAt, iv_Seconds = fl_Seconds fl (Sub afterAt beforeAt),
             iv_Note = ''Prometheus counter changed during this scrape interval; interval is an upper bound, not an event-level ABCI span'' \<rparr>)
           (abciMethodsWithActivity fl (metricDeltas fl (ms_Metrics before) (ms_Metrics after))))"

type_synonym 'f samplePoints = "(int \<times> 'f metricSnapshot) gomap"

definition seedMetricSamplePoints :: "int \<Rightarrow> 'f metricSnapshot list \<Rightarrow> 'f samplePoints" where
  "seedMetricSamplePoints at ss =
     (if IsZero at \<or> ss = [] then []
      else fold (\<lambda>s m. if \<not> metricSnapshotUsable s then m else mput (ms_Name s) (at, cloneMetricSnapshot s) m) ss [])"

definition sample_step :: "'f float64 \<Rightarrow> int \<Rightarrow> 'f metricSnapshot \<Rightarrow> 'f loadWindowInterval list \<times> 'f samplePoints \<Rightarrow>
    'f loadWindowInterval list \<times> 'f samplePoints" where
  "sample_step fl currentAt s st =
     (case st of (out, previous) \<Rightarrow>
       if \<not> metricSnapshotUsable s then (out, previous)
       else (case mget previous (ms_Name s) of
               Some (at, prior) \<Rightarrow> if currentAt > at then appendMetricSnapshotDeltaIntervals fl out at prior currentAt s else out
             | None \<Rightarrow> out,
             mput (ms_Name s) (currentAt, cloneMetricSnapshot s) previous))"

definition appendMetricDeltaWallClockIntervalsFromSamples ::
    "'f float64 \<Rightarrow> 'f loadWindowInterval list \<Rightarrow> 'f samplePoints \<Rightarrow> int \<Rightarrow> 'f metricSnapshot list \<Rightarrow>
     'f loadWindowInterval list \<times> 'f samplePoints" where
  "appendMetricDeltaWallClockIntervalsFromSamples fl out previous currentAt current =
     (if IsZero currentAt \<or> current = [] then (out, previous) else fold (sample_step fl currentAt) current (out, previous))"

definition appendMetricDeltaWallClockIntervals ::
    "'f float64 \<Rightarrow> 'f loadWindowInterval list \<Rightarrow> int \<Rightarrow> 'f metricSnapshot list \<Rightarrow> int \<Rightarrow> 'f metricSnapshot list \<Rightarrow> 'f loadWindowInterval list" where
  "appendMetricDeltaWallClockIntervals fl out beforeAt before afterAt after =
     fst (appendMetricDeltaWallClockIntervalsFromSamples fl out (seedMetricSamplePoints beforeAt before) afterAt after)"

section \<open>Sizes on disk\<close>

record dataPathSize =
  dp_Name :: string
  dp_Path :: string
  dp_Bytes :: uint64
  dp_Error :: string

record dataPathSizeDelta =
  dd_Name :: string
  dd_Path :: string
  dd_Before :: uint64
  dd_After :: uint64
  dd_Delta :: "64 word"
  dd_Error :: string

definition last_size :: "dataPathSize list \<Rightarrow> string \<times> string \<Rightarrow> dataPathSize option" where
  "last_size sizes k = map_of (rev (map (\<lambda>s. ((dp_Name s, dp_Path s), s)) sizes)) k"

definition size_row :: "dataPathSize list \<Rightarrow> dataPathSize list \<Rightarrow> string \<times> string \<Rightarrow> dataPathSizeDelta" where
  "size_row before after k =
     (let row = \<lparr> dd_Name = fst k, dd_Path = snd k, dd_Before = 0, dd_After = 0, dd_Delta = 0, dd_Error = [] \<rparr>;
          row = (case last_size before k of None \<Rightarrow> row
                 | Some b \<Rightarrow> row\<lparr>dd_Before := dp_Bytes b, dd_Error := appendSnapshotError (dd_Error row) ''before'' (dp_Error b)\<rparr>);
          row = (case last_size after k of None \<Rightarrow> row
                 | Some a \<Rightarrow> row\<lparr>dd_After := dp_Bytes a, dd_Error := appendSnapshotError (dd_Error row) ''after'' (dp_Error a)\<rparr>)
      in case (last_size before k, last_size after k) of
           (Some b, Some a) \<Rightarrow> if dp_Error b = [] \<and> dp_Error a = [] then row\<lparr>dd_Delta := dp_Bytes a - dp_Bytes b\<rparr> else row
         | _ \<Rightarrow> row)"

definition dataPathSizeDeltas :: "dataPathSize list \<Rightarrow> dataPathSize list \<Rightarrow> dataPathSizeDelta list" where
  "dataPathSizeDeltas before after =
     map (size_row before after) (sort (remdups (map (\<lambda>s. (dp_Name s, dp_Path s)) (before @ after))))"

definition pathSizesForName :: "dataPathSize list \<Rightarrow> string \<Rightarrow> uint64 gomap" where
  "pathSizesForName sizes name =
     fold (\<lambda>s m. if dp_Name s = name \<and> dp_Error s = [] then mput (dp_Path s) (dp_Bytes s) m else m) sizes []"

section \<open>What the differences contain\<close>

lemma mget_concat_single:
  "mget (concat (map (\<lambda>k. case f k of None \<Rightarrow> [] | Some v \<Rightarrow> [(k, v)]) ks)) k = (if k \<in> set ks then f k else None)"
  by (induction ks) (auto split: option.splits)

lemma mget_common_deltas:
  "mget (common_deltas fl b a) k =
     (case (mget b k, mget a k) of
        (Some x, Some y) \<Rightarrow> Some \<lparr> mv_Before = x, mv_After = y, mv_Delta = fl_sub fl y x \<rparr>
      | _ \<Rightarrow> None)"
proof -
  define f where "f k = (case (mget b k, mget a k) of
      (Some x, Some y) \<Rightarrow> Some \<lparr> mv_Before = x, mv_After = y, mv_Delta = fl_sub fl y x \<rparr> | _ \<Rightarrow> None)" for k
  have "common_deltas fl b a = concat (map (\<lambda>k. case f k of None \<Rightarrow> [] | Some v \<Rightarrow> [(k, v)]) (remdups (keys b @ keys a)))"
    unfolding common_deltas_def f_def by (intro arg_cong[where f = concat] map_cong refl) (auto split: option.splits)
  moreover have "k \<in> set (remdups (keys b @ keys a))" if "f k \<noteq> None"
    using that by (auto simp: f_def split: option.splits dest: map_of_SomeD intro: rev_image_eqI)
  ultimately show ?thesis using mget_concat_single[of f "remdups (keys b @ keys a)" k] unfolding f_def[symmetric] by (cases "f k") auto
qed

lemma metric_delta_name [simp]: "md_Name (metric_delta fl n b a) = n"
  by (simp add: metric_delta_def Let_def split: option.splits)

lemma metric_delta_metrics: "md_Metrics (metric_delta fl n b a) =
    (if metricSnapshotsComparable b a then common_deltas fl (ms_Metrics (the b)) (ms_Metrics (the a)) else [])"
  by (simp add: metric_delta_def Let_def split: option.splits)

text \<open>A pair of comparable snapshots of one node, and a counter both have.\<close>

definition both_have :: "'f metricSnapshot list \<Rightarrow> 'f metricSnapshot list \<Rightarrow> string \<Rightarrow> string \<Rightarrow> 'f \<Rightarrow> 'f \<Rightarrow> bool" where
  "both_have before after name k x y \<longleftrightarrow>
     (\<exists>b a. mget (metricSnapshotsByName before) name = Some b \<and> mget (metricSnapshotsByName after) name = Some a \<and>
        ms_Error b = [] \<and> ms_Error a = [] \<and> mget (ms_Metrics b) k = Some x \<and> mget (ms_Metrics a) k = Some y)"

lemma metric_delta_lookup:
  "mget (md_Metrics (metric_delta fl n (mget (metricSnapshotsByName before) n) (mget (metricSnapshotsByName after) n))) k = Some v \<longleftrightarrow>
     (\<exists>x y. both_have before after n k x y \<and> v = \<lparr> mv_Before = x, mv_After = y, mv_Delta = fl_sub fl y x \<rparr>)"
  by (auto simp: metric_delta_metrics mget_common_deltas metricSnapshotsComparable_def both_have_def split: option.splits)

lemma fold_by_name: "mget (fold (\<lambda>s. mput (ms_Name s) s) ss m) n = Some s \<Longrightarrow> n \<in> ms_Name ` set ss \<or> mget m n \<noteq> None"
  by (induction ss arbitrary: m) (fastforce split: if_splits)+

lemma by_name_in: "mget (metricSnapshotsByName ss) n = Some s \<Longrightarrow> n \<in> ms_Name ` set ss"
  unfolding metricSnapshotsByName_def using fold_by_name[of ss "[]" n s] by auto

lemma metric_rows:
  "row \<in> set (metricDeltaSnapshots fl before after) \<Longrightarrow>
     row = metric_delta fl (md_Name row) (mget (metricSnapshotsByName before) (md_Name row)) (mget (metricSnapshotsByName after) (md_Name row))"
  by (auto simp: metricDeltaSnapshots_def Let_def)

lemma metric_row_names: "map md_Name (metricDeltaSnapshots fl before after) =
    filter (\<lambda>n. let d = metric_delta fl n (mget (metricSnapshotsByName before) n) (mget (metricSnapshotsByName after) n)
               in md_Metrics d \<noteq> [] \<or> md_Error d \<noteq> [])
      (sort (remdups (map ms_Name before @ map ms_Name after)))"
  by (simp add: metricDeltaSnapshots_def Let_def filter_map o_def)

section \<open>Properties\<close>

text \<open>The reported metric differences list the nodes in order of their names, each once; a node's counters
  are exactly those that both of its error-free scrapes have, with the later minus the earlier value; and no
  node with such a counter is left out.\<close>

theorem metricDeltaSnapshots_exact:
  "sorted (map md_Name (metricDeltaSnapshots fl before after)) \<and> distinct (map md_Name (metricDeltaSnapshots fl before after)) \<and>
   (\<forall>row \<in> set (metricDeltaSnapshots fl before after). \<forall>k v.
      mget (md_Metrics row) k = Some v \<longleftrightarrow>
      (\<exists>x y. both_have before after (md_Name row) k x y \<and> v = \<lparr> mv_Before = x, mv_After = y, mv_Delta = fl_sub fl y x \<rparr>)) \<and>
   (\<forall>n k x y. both_have before after n k x y \<longrightarrow> n \<in> md_Name ` set (metricDeltaSnapshots fl before after))"
proof (intro conjI ballI allI impI)
  show "sorted (map md_Name (metricDeltaSnapshots fl before after))"
    unfolding metric_row_names by (intro sorted_filter[where f = id, simplified]) simp
  show "distinct (map md_Name (metricDeltaSnapshots fl before after))"
    unfolding metric_row_names by (intro distinct_filter) simp
next
  fix row k v assume "row \<in> set (metricDeltaSnapshots fl before after)"
  from metric_rows[OF this] show "mget (md_Metrics row) k = Some v \<longleftrightarrow>
      (\<exists>x y. both_have before after (md_Name row) k x y \<and> v = \<lparr> mv_Before = x, mv_After = y, mv_Delta = fl_sub fl y x \<rparr>)"
    using metric_delta_lookup by metis
next
  fix n k x y assume b: "both_have before after n k x y"
  let ?d = "metric_delta fl n (mget (metricSnapshotsByName before) n) (mget (metricSnapshotsByName after) n)"
  have "mget (md_Metrics ?d) k \<noteq> None" using b metric_delta_lookup by blast
  then have "md_Metrics ?d \<noteq> []" by auto
  moreover have "n \<in> ms_Name ` set before" using b by_name_in unfolding both_have_def by blast
  ultimately have "n \<in> set (map md_Name (metricDeltaSnapshots fl before after))"
    unfolding metric_row_names by (simp add: Let_def)
  then show "n \<in> md_Name ` set (metricDeltaSnapshots fl before after)" by simp
qed

definition demo_scrape :: "int \<Rightarrow> int metricSnapshot list" where
  "demo_scrape v = [\<lparr> ms_Name = ''v0'', ms_URL = ''u'', ms_Metrics = [(''go_x'', v)], ms_Error = [] \<rparr>]"

theorem metricDeltaSnapshots_exact_witness:
  "''v0'' \<in> md_Name ` set (metricDeltaSnapshots demo_float (demo_scrape 3) (demo_scrape 5)) \<and>
   metricDeltaSnapshots demo_float (demo_scrape 3) (demo_scrape 5) =
     [\<lparr> md_Name = ''v0'', md_URL = ''u'', md_Metrics = [(''go_x'', \<lparr> mv_Before = 3, mv_After = 5, mv_Delta = 2 \<rparr>)], md_Error = [] \<rparr>]"
proof
  have "both_have (demo_scrape 3) (demo_scrape 5) ''v0'' ''go_x'' 3 5"
    by (simp add: both_have_def demo_scrape_def metricSnapshotsByName_def)
  then show "''v0'' \<in> md_Name ` set (metricDeltaSnapshots demo_float (demo_scrape 3) (demo_scrape 5))"
    using metricDeltaSnapshots_exact[of demo_float "demo_scrape 3" "demo_scrape 5"] by blast
  show "metricDeltaSnapshots demo_float (demo_scrape 3) (demo_scrape 5) =
     [\<lparr> md_Name = ''v0'', md_URL = ''u'', md_Metrics = [(''go_x'', \<lparr> mv_Before = 3, mv_After = 5, mv_Delta = 2 \<rparr>)], md_Error = [] \<rparr>]"
    by code_simp
qed

end
