(* ===== verification/Report_Scenarios.thy ===== *)
theory Report_Scenarios
  imports Report_Text Node_Config Messages
begin

text \<open>
  Scenarios of \<open>cmd/local-report-runner/main.go\<close>: the five chains to load and the Celestia comparison, the module
  versions their images are built from, the profiles asked of a validator, and the check that a launched chain
  runs on the databases its scenario asks for. \<open>fatalf\<close>, which ends the process, is an error. The load
  generator's spec has the fields the scenarios set; a nil map is the empty map; Go's \<open>int\<close> is an \<open>int\<close> that
  \<open>wrap64\<close> brings back into range.
\<close>

section \<open>Formatting\<close>

definition wrap64 :: "int \<Rightarrow> int" where
  "wrap64 i = int_of_uint64 (uint64_of_int i)"

text \<open>\<open>strconv.Quote\<close>, the verb \<open>%q\<close>, of ASCII text.\<close>

definition hex_digit :: "bool \<Rightarrow> nat \<Rightarrow> char" where
  "hex_digit upper n = (if n < 10 then char_of (48 + n) else char_of ((if upper then 55 else 87) + n))"

definition quote_char :: "char \<Rightarrow> string" where
  "quote_char c =
     (let n = of_char c :: nat
      in if c = CHR 0x22 \<or> c = CHR 0x5C then [CHR 0x5C, c]
         else if n = 7 then [CHR 0x5C, CHR ''a''] else if n = 8 then [CHR 0x5C, CHR ''b'']
         else if n = 12 then [CHR 0x5C, CHR ''f''] else if n = 10 then [CHR 0x5C, CHR ''n'']
         else if n = 13 then [CHR 0x5C, CHR ''r''] else if n = 9 then [CHR 0x5C, CHR ''t'']
         else if n = 11 then [CHR 0x5C, CHR ''v'']
         else if n < 32 \<or> n = 127 then [CHR 0x5C, CHR ''x'', hex_digit False (n div 16), hex_digit False (n mod 16)]
         else [c])"

definition Quote :: "string \<Rightarrow> string" where
  "Quote s = [CHR 0x22] @ concat (map quote_char s) @ [CHR 0x22]"

text \<open>\<open>hex.DecodeString\<close> of a text of even length: only its error is used, which names the first byte that is no digit.\<close>

definition hex_char :: "char \<Rightarrow> bool" where
  "hex_char c \<longleftrightarrow> is_digit c \<or> c \<in> set ''abcdefABCDEF''"

definition hex_DecodeString :: "string \<Rightarrow> unit result" where
  "hex_DecodeString s =
     (case dropWhile hex_char s of
        [] \<Rightarrow> Inr ()
      | c # _ \<Rightarrow>
          let n = of_char c :: nat
          in Inl (New (''encoding/hex: invalid byte: U+00'' @ [hex_digit True (n div 16), hex_digit True (n mod 16)] @
               (if 32 \<le> n \<and> n \<noteq> 127 then [CHR '' '', CHR 0x27, c, CHR 0x27] else []))))"

section \<open>Data\<close>

record dependencyPin =
  pin_Module :: string
  pin_Version :: string
  pin_Ref :: string

record preseedConfig =
  ps_Profile :: string
  ps_Accounts :: int
  ps_ActiveWallets :: int
  ps_GenesisAccounts :: int
  ps_DeterministicSource :: string

definition no_preseed :: preseedConfig where
  "no_preseed = \<lparr> ps_Profile = [], ps_Accounts = 0, ps_ActiveWallets = 0, ps_GenesisAccounts = 0, ps_DeterministicSource = [] \<rparr>"

record load_msg =
  lm_Weight :: int
  lm_Type :: string
  lm_NumMsgs :: int
  lm_ContainedType :: string
  lm_NumOfRecipients :: int
  lm_NumOfIterations :: int
  lm_CalldataSize :: int

record eth_ChainConfig =
  ec_NumInitialContracts :: uint64
  ec_GasFeeCap :: int
  ec_GasTipCap :: int

record load_spec =
  sp_Name :: string
  sp_Description :: string
  sp_Kind :: string
  sp_ChainID :: string
  sp_SendInterval :: int
  sp_NumBatches :: int
  sp_InitialWallets :: int
  sp_NumOfBlocks :: int
  sp_NumOfTxs :: int
  sp_ChainCfg :: "eth_ChainConfig option"
  sp_Msgs :: "load_msg list"

record celestiaSyncConfig =
  cy_RunnerScript :: string
  cy_RunCommand :: string
  cy_OutputDir :: string
  cy_ControlEnvFile :: string
  cy_CandidateEnvFile :: string
  cy_MaxPairs :: int
  cy_PairRunMode :: string
  cy_RunTimeoutSeconds :: int
  cy_PostSyncDwellSeconds :: int
  cy_RequiredAcceptedSnapshotHeight :: string
  cy_TrustHeight :: string
  cy_TrustHash :: string
  cy_StopAtLocalHeight :: string
  cy_FreezeRemoteHeightAtStart :: bool
  cy_RunHomeBase :: string
  cy_GoCacheRoot :: string
  cy_TempDir :: string
  cy_CelestiaAppDir :: string
  cy_GomapDir :: string
  cy_CosmosDBDir :: string
  cy_CometDBDir :: string
  cy_CosmosStoreDir :: string
  cy_CosmosLogDir :: string
  cy_CosmosCoreDir :: string
  cy_IAVLDir :: string
  cy_TreeDBOpenProfile :: string
  cy_UseLocalTreeStack :: bool
  cy_UseLocalCosmosStore :: bool
  cy_UseLocalIAVL :: bool
  cy_DryRun :: bool

definition no_celestia :: celestiaSyncConfig where
  "no_celestia = \<lparr> cy_RunnerScript = [], cy_RunCommand = [], cy_OutputDir = [], cy_ControlEnvFile = [], cy_CandidateEnvFile = [],
     cy_MaxPairs = 0, cy_PairRunMode = [], cy_RunTimeoutSeconds = 0, cy_PostSyncDwellSeconds = 0,
     cy_RequiredAcceptedSnapshotHeight = [], cy_TrustHeight = [], cy_TrustHash = [], cy_StopAtLocalHeight = [],
     cy_FreezeRemoteHeightAtStart = False, cy_RunHomeBase = [], cy_GoCacheRoot = [], cy_TempDir = [], cy_CelestiaAppDir = [],
     cy_GomapDir = [], cy_CosmosDBDir = [], cy_CometDBDir = [], cy_CosmosStoreDir = [], cy_CosmosLogDir = [],
     cy_CosmosCoreDir = [], cy_IAVLDir = [], cy_TreeDBOpenProfile = [], cy_UseLocalTreeStack = False,
     cy_UseLocalCosmosStore = False, cy_UseLocalIAVL = False, cy_DryRun = False \<rparr>"

record scenario =
  sc_Name :: string
  sc_Runner :: string
  sc_IncludeInAll :: bool
  sc_ChainName :: string
  sc_Description :: string
  sc_Repo :: string
  sc_ChainSource :: string
  sc_ChainRef :: string
  sc_Dockerfile :: string
  sc_ReplaceCmd :: string
  sc_BaseImage :: string
  sc_ImageTag :: string
  sc_DependencyPins :: "dependencyPin list"
  sc_Preseed :: preseedConfig
  sc_IsEVMChain :: bool
  sc_NumValidators :: uint64
  sc_NumNodes :: uint64
  sc_NumWallets :: int
  sc_CatalystVersion :: string
  sc_AppDBBackend :: string
  sc_NodeDBBackend :: string
  sc_TxIndexer :: string
  sc_Genesis :: "GenesisKV list"
  sc_CustomAppConfig :: "gval gomap"
  sc_CustomConfig :: "gval gomap"
  sc_CustomClient :: "gval gomap"
  sc_AdditionalFlags :: "string list"
  sc_AppCPUProfile :: string
  sc_AppHeapProfile :: string
  sc_AppPprofListen :: string
  sc_CelestiaSync :: celestiaSyncConfig
  sc_LoadTestSpec :: load_spec

text \<open>The zero values of Go, from which the literals of the source set the fields they name.\<close>

definition zero_msg :: load_msg where
  "zero_msg = \<lparr> lm_Weight = 0, lm_Type = [], lm_NumMsgs = 0, lm_ContainedType = [], lm_NumOfRecipients = 0,
     lm_NumOfIterations = 0, lm_CalldataSize = 0 \<rparr>"

definition zero_spec :: load_spec where
  "zero_spec = \<lparr> sp_Name = [], sp_Description = [], sp_Kind = [], sp_ChainID = [], sp_SendInterval = 0, sp_NumBatches = 0,
     sp_InitialWallets = 0, sp_NumOfBlocks = 0, sp_NumOfTxs = 0, sp_ChainCfg = None, sp_Msgs = [] \<rparr>"

definition zero_scenario :: scenario where
  "zero_scenario = \<lparr> sc_Name = [], sc_Runner = [], sc_IncludeInAll = False, sc_ChainName = [], sc_Description = [], sc_Repo = [],
     sc_ChainSource = [], sc_ChainRef = [], sc_Dockerfile = [], sc_ReplaceCmd = [], sc_BaseImage = [], sc_ImageTag = [],
     sc_DependencyPins = [], sc_Preseed = no_preseed, sc_IsEVMChain = False, sc_NumValidators = 0, sc_NumNodes = 0,
     sc_NumWallets = 0, sc_CatalystVersion = [], sc_AppDBBackend = [], sc_NodeDBBackend = [], sc_TxIndexer = [], sc_Genesis = [],
     sc_CustomAppConfig = [], sc_CustomConfig = [], sc_CustomClient = [], sc_AdditionalFlags = [], sc_AppCPUProfile = [],
     sc_AppHeapProfile = [], sc_AppPprofListen = [], sc_CelestiaSync = no_celestia, sc_LoadTestSpec = zero_spec \<rparr>"

section \<open>Profiling flags\<close>

record appProfileCaptureConfig =
  pc_CPUOutDir :: string
  pc_HeapOutDir :: string
  pc_PprofOutDir :: string
  pc_DiagnosticOutDir :: string
  pc_DiagnosticDuration :: int
  pc_ActiveWindowOutDir :: string
  pc_ActiveWindowDuration :: int
  pc_DebugVars :: bool

definition needsPprof :: "appProfileCaptureConfig \<Rightarrow> bool" where
  "needsPprof cfg \<longleftrightarrow> pc_HeapOutDir cfg \<noteq> [] \<or> pc_PprofOutDir cfg \<noteq> [] \<or> pc_DiagnosticOutDir cfg \<noteq> [] \<or>
     pc_ActiveWindowOutDir cfg \<noteq> [] \<or> pc_DebugVars cfg"

definition needsDiagnosticProfileFlags :: "appProfileCaptureConfig \<Rightarrow> bool" where
  "needsDiagnosticProfileFlags cfg \<longleftrightarrow> pc_DiagnosticOutDir cfg \<noteq> [] \<or> pc_ActiveWindowOutDir cfg \<noteq> []"

definition withAppCPUProfile :: "scenario \<Rightarrow> scenario" where
  "withAppCPUProfile sc =
     (if sc_BaseImage sc \<noteq> ''simapp'' then sc
      else let name = sanitize (sc_Name sc) @ ''-validator-0-cpu.pprof''
           in sc\<lparr>sc_AppCPUProfile := name,
                 sc_AdditionalFlags := sc_AdditionalFlags sc @ [''--cpu-profile'', path_Join ''/simd'' name]\<rparr>)"

definition cloneStringMap :: "gval gomap \<Rightarrow> gval gomap" where
  "cloneStringMap m = mcopy m []"

definition asStringMap :: "gval option \<Rightarrow> gval gomap" where
  "asStringMap v = (case v of Some (VMap m) \<Rightarrow> m | _ \<Rightarrow> [])"

definition withRPCPprofListen :: "gval gomap \<Rightarrow> string \<Rightarrow> gval gomap" where
  "withRPCPprofListen cfg listen =
     (let out = cloneStringMap cfg;
          rpc = cloneStringMap (asStringMap (mget out ''rpc''));
          rpc = mput ''pprof_laddr'' (VStr listen) rpc
      in mput ''rpc'' (VMap rpc) out)"

definition withAppHeapProfile :: "scenario \<Rightarrow> scenario" where
  "withAppHeapProfile sc =
     (if sc_BaseImage sc \<noteq> ''simapp'' then sc
      else let name = sanitize (sc_Name sc) @ ''-validator-0-heap.pprof'';
               sc = sc\<lparr>sc_AppHeapProfile := name, sc_AppPprofListen := ''localhost:6060''\<rparr>
           in sc\<lparr>sc_CustomConfig := withRPCPprofListen (sc_CustomConfig sc) (sc_AppPprofListen sc)\<rparr>)"

definition withAppDiagnosticProfileFlags :: "scenario \<Rightarrow> scenario" where
  "withAppDiagnosticProfileFlags sc =
     (if sc_BaseImage sc \<noteq> ''simapp'' then sc
      else sc\<lparr>sc_AdditionalFlags := sc_AdditionalFlags sc @
                 [''--block-profile-rate'', ''1'', ''--mutex-profile-fraction'', ''1'']\<rparr>)"

text \<open>The loop of \<open>main\<close> prepares each scenario before it runs it.\<close>

definition prepare_scenario :: "appProfileCaptureConfig \<Rightarrow> scenario \<Rightarrow> scenario" where
  "prepare_scenario cfg sc =
     (let sc = (if pc_CPUOutDir cfg \<noteq> [] then withAppCPUProfile sc else sc);
          sc = (if needsPprof cfg then withAppHeapProfile sc else sc)
      in if needsDiagnosticProfileFlags cfg then withAppDiagnosticProfileFlags sc else sc)"

section \<open>The EVM scenario\<close>

definition lowLatencyConsensusConfig :: "gval gomap" where
  "lowLatencyConsensusConfig =
     [(''consensus'', VMap [(''timeout_commit'', VStr ''0ms''), (''peer_gossip_sleep_duration'', VStr ''0s'')]),
      (''mempool'', VMap [(''size'', VInt 1000000)]),
      (''p2p'', VMap [(''flush_throttle_timeout'', VStr ''0ms'')])]"

definition evm_genesis :: "GenesisKV list" where
  "evm_genesis = map (\<lambda>(k, v). \<lparr> gk_Key = k, gk_Value = v \<rparr>)
     [(''app_state.staking.params.bond_denom'', VStr ''atest''),
      (''app_state.gov.params.expedited_voting_period'', VStr ''120s''),
      (''app_state.gov.params.voting_period'', VStr ''300s''),
      (''app_state.gov.params.expedited_min_deposit.0.amount'', VStr ''1''),
      (''app_state.gov.params.expedited_min_deposit.0.denom'', VStr ''atest''),
      (''app_state.gov.params.min_deposit.0.amount'', VStr ''1''),
      (''app_state.gov.params.min_deposit.0.denom'', VStr ''atest''),
      (''app_state.evm.params.evm_denom'', VStr ''atest''),
      (''app_state.mint.params.mint_denom'', VStr ''atest''),
      (''app_state.bank.denom_metadata'', VList [VMap
        [(''description'', VStr ''The native staking token for evmd.''),
         (''denom_units'', VList
           [VMap [(''denom'', VStr ''atest''), (''exponent'', VInt 0), (''aliases'', VList [VStr ''attotest''])],
            VMap [(''denom'', VStr ''test''), (''exponent'', VInt 18), (''aliases'', VList [])]]),
         (''base'', VStr ''atest''), (''display'', VStr ''test''), (''name'', VStr ''Test Token''),
         (''symbol'', VStr ''TEST''), (''uri'', VStr []), (''uri_hash'', VStr [])]]),
      (''app_state.erc20.native_precompiles'', VList [VStr ''0xEeeeeEeeeEeEeeEeEeEeeEEEeeeeEeeeeeeeEEeE'']),
      (''app_state.evm.params.active_static_precompiles'', VList (map VStr
        [''0x0000000000000000000000000000000000000100'', ''0x0000000000000000000000000000000000000400'',
         ''0x0000000000000000000000000000000000000800'', ''0x0000000000000000000000000000000000000801'',
         ''0x0000000000000000000000000000000000000802'', ''0x0000000000000000000000000000000000000803'',
         ''0x0000000000000000000000000000000000000804'', ''0x0000000000000000000000000000000000000805''])),
      (''app_state.erc20.token_pairs'', VList [VMap
        [(''contract_owner'', VInt 1), (''erc20_address'', VStr ''0xEeeeeEeeeEeEeeEeEeEeeEEEeeeeEeeeeeeeEEeE''),
         (''denom'', VStr ''atest''), (''enabled'', VBool True)]]),
      (''consensus.params.block.max_gas'', VStr ''550000000''),
      (''consensus.params.block.max_bytes'', VStr ''104857600''),
      (''app_state.feemarket.params.no_base_fee'', VBool True)]"

definition evm_load_spec :: "int \<Rightarrow> int \<Rightarrow> int \<Rightarrow> string \<Rightarrow> int \<Rightarrow> int \<Rightarrow> uint64 \<Rightarrow> int \<Rightarrow> int \<Rightarrow> int \<Rightarrow> int \<Rightarrow> load_spec" where
  "evm_load_spec blocks batches msgs msgType sendInterval initialWallets initialContracts iterations calldataSize gasFeeCap gasTipCap =
     (let loadMsg = zero_msg\<lparr>lm_Weight := 1, lm_Type := msgType, lm_NumMsgs := msgs\<rparr>;
          loadMsg = (if iterations > 0 then loadMsg\<lparr>lm_NumOfIterations := iterations\<rparr> else loadMsg);
          loadMsg = (if calldataSize > 0 then loadMsg\<lparr>lm_CalldataSize := calldataSize\<rparr> else loadMsg);
          spec = zero_spec\<lparr>sp_Name := ''eth_loadtest'',
            sp_Description := ''Ironbird local Docker reproduction of the Cosmos performance blog shape'',
            sp_Kind := ''eth'', sp_ChainID := ''262144'', sp_SendInterval := sendInterval, sp_NumBatches := batches,
            sp_InitialWallets := initialWallets,
            sp_ChainCfg := Some \<lparr> ec_NumInitialContracts = initialContracts, ec_GasFeeCap = gasFeeCap, ec_GasTipCap = gasTipCap \<rparr>,
            sp_Msgs := [loadMsg]\<rparr>
      in if blocks > 0 then spec\<lparr>sp_NumOfBlocks := blocks, sp_SendInterval := 0, sp_NumBatches := 0\<rparr> else spec)"

definition evmBlogScenario ::
    "uint64 \<Rightarrow> uint64 \<Rightarrow> int \<Rightarrow> int \<Rightarrow> int \<Rightarrow> int \<Rightarrow> string \<Rightarrow> int \<Rightarrow> int \<Rightarrow> uint64 \<Rightarrow> int \<Rightarrow> int \<Rightarrow> int \<Rightarrow> int \<Rightarrow> string \<Rightarrow> scenario" where
  "evmBlogScenario validators nodes wallets blocks batches msgs msgType sendInterval initialWallets initialContracts iterations
      calldataSize gasFeeCap gasTipCap catalyst =
     zero_scenario\<lparr>sc_Name := ''evm-blog'', sc_IncludeInAll := True, sc_ChainName := ''evmblog'',
       sc_Description := ''Cosmos EVM blog-style native ERC20 transfer load'', sc_Repo := ''evm'',
       sc_ChainSource := ''https://github.com/cosmos/evm'', sc_ChainRef := ''f90a5c79c0052e0f5cd670a367f24967d1120650'',
       sc_Dockerfile := ''hack/evm.Dockerfile'', sc_BaseImage := ''evm'', sc_ImageTag := ''ironbird-report:evm-blog-f90a5c79'',
       sc_IsEVMChain := True, sc_NumValidators := validators, sc_NumNodes := nodes, sc_NumWallets := wallets,
       sc_CatalystVersion := catalyst, sc_Genesis := evm_genesis, sc_CustomConfig := lowLatencyConsensusConfig,
       sc_CustomAppConfig := [(''json-rpc'', VMap [(''enable-profiling'', VBool True)])],
       sc_CustomClient := [(''chain-id'', VStr ''262144'')], 
       sc_LoadTestSpec := evm_load_spec blocks batches msgs msgType sendInterval initialWallets initialContracts iterations
         calldataSize gasFeeCap gasTipCap\<rparr>"

section \<open>The simapp scenarios\<close>

definition makePreseedConfig :: "string \<Rightarrow> int \<Rightarrow> int \<Rightarrow> preseedConfig result" where
  "makePreseedConfig profile accounts activeWallets =
     (let profile = ToLower (TrimSpace profile);
          profile = (if profile = [] then ''none'' else profile)
      in if accounts < 0 then Inl (New ''preseed-accounts must be >= 0'')
         else if profile = ''none'' then
           (if accounts \<noteq> 0 then Inl (New ''preseed-accounts requires -preseed-profile accounts'')
            else Inr (no_preseed\<lparr>ps_Profile := ''none'', ps_ActiveWallets := activeWallets, ps_GenesisAccounts := activeWallets\<rparr>))
         else if profile = ''accounts'' then
           (if accounts = 0 then Inl (New ''preseed-profile accounts requires -preseed-accounts > 0'')
            else Inr \<lparr> ps_Profile = ''accounts'', ps_Accounts = accounts, ps_ActiveWallets = activeWallets,
                   ps_GenesisAccounts = wrap64 (activeWallets + accounts),
                   ps_DeterministicSource = ''base mnemonic plus integer account passphrases'' \<rparr>)
         else Inl (New (''unknown preseed-profile '' @ Quote profile)))"

definition simappCosmosDBVersion :: string where "simappCosmosDBVersion = ''v0.0.0-20260701184343-6ddcb75557e5''"
definition simappCosmosDBRef :: string where "simappCosmosDBRef = ''6ddcb75557e59bc4e6668ac7699cd52b63b3e402''"
definition defaultSimappGomapVersion :: string where "defaultSimappGomapVersion = ''v0.6.2-0.20260709230517-9cd9c6874860''"
definition defaultSimappGomapRef :: string where "defaultSimappGomapRef = ''9cd9c6874860d2988002701bef042e50ba142cd0''"
definition simappIAVLVersion :: string where "simappIAVLVersion = ''v0.0.0-20260701072929-12a26715119b''"
definition simappIAVLRef :: string where "simappIAVLRef = ''12a26715119bb3ea55289ffd7b256161effc7b8b''"
definition simappCometDBVersion :: string where "simappCometDBVersion = ''v0.0.0-20260701074104-b4f87847a725''"
definition simappCometDBRef :: string where "simappCometDBRef = ''b4f87847a725f92a046d927ce4a0f5b08b965995''"
definition simappCometBFTVersion :: string where "simappCometBFTVersion = ''87379c903cc82c03874b24a6e3f9045784ba4681''"
definition simappCometBFTRef :: string where "simappCometBFTRef = ''87379c903cc82c03874b24a6e3f9045784ba4681''"

lemmas simapp_versions = simappCosmosDBVersion_def simappCosmosDBRef_def simappIAVLVersion_def simappIAVLRef_def
  simappCometDBVersion_def simappCometDBRef_def simappCometBFTVersion_def simappCometBFTRef_def

record simappGomapModulePin =
  gp_Version :: string
  gp_Ref :: string

definition newSimappGomapPin :: "string \<Rightarrow> string \<Rightarrow> simappGomapModulePin result" where
  "newSimappGomapPin version ref =
     (let version = TrimSpace version; ref = ToLower (TrimSpace ref)
      in if version = [] then Inl (New ''version is empty'')
         else if length ref \<noteq> 40 then Inl (New (''ref '' @ Quote ref @ '' must be a full 40-character commit''))
         else case hex_DecodeString ref of
                Inl e \<Rightarrow> Inl (Wrap (''ref '' @ Quote ref @ '' is not hexadecimal'') e)
              | Inr _ \<Rightarrow>
                  if \<not> HasSuffix version (''-'' @ take 12 ref) then
                    Inl (New (''version '' @ Quote version @ '' does not resolve suffix '' @ take 12 ref))
                  else Inr \<lparr> gp_Version = version, gp_Ref = ref \<rparr>)"

definition defaultSimappGomapPin :: "simappGomapModulePin result" where
  "defaultSimappGomapPin =
     (case newSimappGomapPin defaultSimappGomapVersion defaultSimappGomapRef of
        Inl e \<Rightarrow> Inl (Panic (Error_str e))
      | Inr pin \<Rightarrow> Inr pin)"

definition simappDependencyPins :: "bool \<Rightarrow> simappGomapModulePin \<Rightarrow> dependencyPin list" where
  "simappDependencyPins includeCometDB gomapPin =
     [\<lparr> pin_Module = ''github.com/cosmos/cosmos-db'', pin_Version = simappCosmosDBVersion, pin_Ref = simappCosmosDBRef \<rparr>,
      \<lparr> pin_Module = ''github.com/snissn/gomap'', pin_Version = gp_Version gomapPin, pin_Ref = gp_Ref gomapPin \<rparr>,
      \<lparr> pin_Module = ''github.com/cosmos/iavl'', pin_Version = simappIAVLVersion, pin_Ref = simappIAVLRef \<rparr>] @
     (if includeCometDB then
        [\<lparr> pin_Module = ''github.com/cometbft/cometbft-db'', pin_Version = simappCometDBVersion, pin_Ref = simappCometDBRef \<rparr>,
         \<lparr> pin_Module = ''github.com/cometbft/cometbft'', pin_Version = simappCometBFTVersion, pin_Ref = simappCometBFTRef \<rparr>]
      else [])"

definition simappReplaceCmd :: "bool \<Rightarrow> simappGomapModulePin \<Rightarrow> string" where
  "simappReplaceCmd includeCometDB gomapPin =
     Join '' ''
       ([''github.com/cosmos/cosmos-db=github.com/snissn/cosmos-db@'' @ simappCosmosDBVersion,
         ''github.com/snissn/gomap=github.com/snissn/gomap@'' @ gp_Version gomapPin,
         ''github.com/cosmos/iavl=github.com/snissn/iavl@'' @ simappIAVLVersion] @
        (if includeCometDB then
           [''github.com/cometbft/cometbft-db=github.com/snissn/cometbft-db@'' @ simappCometDBVersion,
            ''github.com/cometbft/cometbft=github.com/snissn/cometbft@'' @ simappCometBFTVersion]
         else []))"

text \<open>Slicing a shorter reference panics.\<close>

definition simappImageTag :: "bool \<Rightarrow> simappGomapModulePin \<Rightarrow> string result" where
  "simappImageTag includeCometDB gomapPin =
     (if length (gp_Ref gomapPin) < 7 then Inl (Panic ''slice bounds out of range'')
      else let gomapShortRef = take 7 (gp_Ref gomapPin)
           in Inr (if includeCometDB then
                     ''ironbird-report:snissn-sdk-4948247-fullstack-cosmosdb-6ddcb75-cometdb-b4f878-gomap-'' @ gomapShortRef @ ''-comet-87379c9''
                   else ''ironbird-report:snissn-sdk-4948247-cosmosdb-6ddcb75-gomap-'' @ gomapShortRef))"

text \<open>What the simapp scenarios share: the sizes and messages of the load.\<close>

record simapp_load =
  sl_validators :: uint64
  sl_nodes :: uint64
  sl_wallets :: int
  sl_preseed :: preseedConfig
  sl_blocks :: int
  sl_txs :: int
  sl_cosmosMsg :: string
  sl_containedMsg :: string
  sl_msgsPerTx :: int
  sl_recipients :: int
  sl_maxGas :: int
  sl_catalyst :: string

definition simapp_load_msg :: "simapp_load \<Rightarrow> load_msg" where
  "simapp_load_msg l =
     (let m = zero_msg\<lparr>lm_Weight := 1, lm_Type := sl_cosmosMsg l\<rparr>;
          m = (if sl_cosmosMsg l = ''MsgMultiSend'' then m\<lparr>lm_NumOfRecipients := sl_recipients l\<rparr> else m)
      in if sl_cosmosMsg l = ''MsgArr'' then
           m\<lparr>lm_ContainedType := sl_containedMsg l, lm_NumMsgs := sl_msgsPerTx l, lm_NumOfRecipients := sl_recipients l\<rparr>
         else m)"

definition simapp_consensus_config :: "string \<Rightarrow> string \<Rightarrow> gval gomap" where
  "simapp_consensus_config nodeBackend txIndexer =
     (let c = lowLatencyConsensusConfig;
          c = (if nodeBackend \<noteq> [] then mput ''db_backend'' (VStr nodeBackend) c else c)
      in if txIndexer \<noteq> [] then mput ''tx_index'' (VMap [(''indexer'', VStr txIndexer)]) c else c)"

definition simappScenarioWithBackends ::
    "string \<Rightarrow> string \<Rightarrow> string \<Rightarrow> string \<Rightarrow> string \<Rightarrow> bool \<Rightarrow> simapp_load \<Rightarrow> simappGomapModulePin \<Rightarrow> scenario result" where
  "simappScenarioWithBackends name desc appBackend nodeBackend txIndexer includeCometDB l gomapPin =
     and_then (simappImageTag includeCometDB gomapPin) (\<lambda>tag.
       Inr (zero_scenario\<lparr>sc_Name := name, sc_IncludeInAll := True, sc_ChainName := shortChainName name, sc_Description := desc,
         sc_Repo := ''cosmos-sdk'', sc_ChainSource := ''https://github.com/snissn/celestia-cosmos-sdk'',
         sc_ChainRef := ''494824795d0b9eabf318aba755ee3320462df7ad'', sc_Dockerfile := ''hack/simapp.Dockerfile'',
         sc_ReplaceCmd := simappReplaceCmd includeCometDB gomapPin, sc_BaseImage := ''simapp'', sc_ImageTag := tag,
         sc_DependencyPins := simappDependencyPins includeCometDB gomapPin, sc_Preseed := sl_preseed l, sc_IsEVMChain := False,
         sc_NumValidators := sl_validators l, sc_NumNodes := sl_nodes l, sc_NumWallets := sl_wallets l,
         sc_CatalystVersion := sl_catalyst l, sc_AppDBBackend := appBackend, sc_NodeDBBackend := nodeBackend,
         sc_TxIndexer := txIndexer,
         sc_Genesis := [\<lparr> gk_Key = ''consensus.params.block.max_gas'', gk_Value = VStr (Itoa (sl_maxGas l)) \<rparr>],
         sc_CustomAppConfig := (if appBackend \<noteq> [] then [(''app-db-backend'', VStr appBackend)] else []),
         sc_CustomConfig := simapp_consensus_config nodeBackend txIndexer,
         sc_LoadTestSpec := zero_spec\<lparr>sp_Name := name, sp_Description := desc, sp_Kind := ''cosmos'', sp_ChainID := name,
           sp_NumOfBlocks := sl_blocks l, sp_NumOfTxs := sl_txs l, sp_Msgs := [simapp_load_msg l]\<rparr>\<rparr>))"

definition simappScenario :: "string \<Rightarrow> string \<Rightarrow> string \<Rightarrow> simapp_load \<Rightarrow> simappGomapModulePin \<Rightarrow> scenario result" where
  "simappScenario name desc backend l gomapPin = simappScenarioWithBackends name desc backend [] [] False l gomapPin"

definition simappFullStackScenario :: "string \<Rightarrow> string \<Rightarrow> string \<Rightarrow> simapp_load \<Rightarrow> string \<Rightarrow> simappGomapModulePin \<Rightarrow> scenario result" where
  "simappFullStackScenario name desc backend l txIndexer gomapPin =
     simappScenarioWithBackends name desc backend backend txIndexer True l gomapPin"

section \<open>The Celestia scenario and the selection\<close>

definition celestiaSyncScenario :: "celestiaSyncConfig \<Rightarrow> scenario" where
  "celestiaSyncScenario cfg = zero_scenario\<lparr>sc_Name := ''celestia-sync-ab'', sc_Runner := ''celestia-sync-ab'',
     sc_ChainName := ''celestia-mainnet'',
     sc_Description := ''Celestia mainnet production-shaped state-sync comparison: goleveldb control versus TreeDB candidate'',
     sc_Repo := ''celestia-app'', sc_ChainSource := ''https://github.com/snissn/celestia-app'', sc_ChainRef := ''local'',
     sc_AppDBBackend := ''goleveldb-vs-treedb'', sc_CelestiaSync := cfg\<rparr>"

definition launchGenesisAccounts :: "scenario \<Rightarrow> int" where
  "launchGenesisAccounts sc = (if ps_GenesisAccounts (sc_Preseed sc) > 0 then ps_GenesisAccounts (sc_Preseed sc) else sc_NumWallets sc)"

definition rawTxAuditDecision :: "scenario \<Rightarrow> bool \<Rightarrow> bool \<times> string" where
  "rawTxAuditDecision sc requested =
     (if sc_IsEVMChain sc then (False, [])
      else if \<not> requested then (False, ''disabled by -raw-tx-audit=false'')
      else if sc_TxIndexer sc = ''null'' then
        (False, ''disabled because tx_index.indexer=null does not support CometBFT /tx queries'')
      else (True, []))"

fun find_scenario :: "scenario list \<Rightarrow> string \<Rightarrow> scenario list result" where
  "find_scenario [] want = Inl (New (''unknown scenario '' @ Quote want))"
| "find_scenario (sc # scs) want = (if sc_Name sc = want then Inr [sc] else find_scenario scs want)"

definition selectScenarios :: "scenario list \<Rightarrow> string \<Rightarrow> scenario list result" where
  "selectScenarios scs want =
     (if want = ''all'' then Inr (filter sc_IncludeInAll scs)
      else if want = ''all-with-celestia'' then Inr scs
      else find_scenario scs want)"

fun needsWorkerConfig :: "scenario list \<Rightarrow> bool" where
  "needsWorkerConfig [] = False"
| "needsWorkerConfig (sc # scs) = (if sc_Runner sc = ''celestia-sync-ab'' then needsWorkerConfig scs else True)"

text \<open>The six scenarios \<open>main\<close> builds.\<close>

definition all_scenarios :: "scenario \<Rightarrow> simapp_load \<Rightarrow> string \<Rightarrow> simappGomapModulePin \<Rightarrow> celestiaSyncConfig \<Rightarrow> scenario list result" where
  "all_scenarios evm l txIndexer pin celestia =
     and_then (simappScenario ''simapp-goleveldb'' ''SDK simapp with goleveldb app state'' ''goleveldb'' l pin) (\<lambda>gl.
     and_then (simappScenario ''simapp-treedb'' ''SDK simapp with TreeDB app state'' ''treedb'' l pin) (\<lambda>tr.
     and_then (simappFullStackScenario ''simapp-goleveldb-all'' ''SDK simapp with goleveldb app state and CometBFT node DBs''
       ''goleveldb'' l txIndexer pin) (\<lambda>gla.
     and_then (simappFullStackScenario ''simapp-treedb-all'' ''SDK simapp with TreeDB app state and CometBFT node DBs''
       ''treedb'' l txIndexer pin) (\<lambda>tra.
       Inr [evm, gl, tr, gla, tra, celestiaSyncScenario celestia]))))"

section \<open>Sizes of the load\<close>

definition loadWindowTargetTransactions :: "'f float64 \<Rightarrow> int \<Rightarrow> 'f \<Rightarrow> int" where
  "loadWindowTargetTransactions fl intended fraction =
     (if intended \<le> 0 then intended
      else if fl_le fl fraction (fl_zero fl) \<or> fl_less fl (fl_of_int fl 1) fraction then intended
      else let target = fl_Ceil fl (fl_mul fl (fl_of_int fl intended) fraction)
           in if target < 1 then 1 else if target > intended then intended else target)"

definition intendedTransactions :: "scenario \<Rightarrow> int" where
  "intendedTransactions sc =
     (let spec = sc_LoadTestSpec sc
      in if sc_IsEVMChain sc then
           let totalPerBatch = foldl (\<lambda>t m. wrap64 (t + max 1 (lm_NumMsgs m))) 0 (sp_Msgs spec)
           in if sp_NumOfBlocks spec > 0 then wrap64 (sp_NumOfBlocks spec * totalPerBatch)
              else wrap64 (sp_NumBatches spec * totalPerBatch)
         else if sp_NumOfBlocks spec > 0 \<and> sp_NumOfTxs spec > 0 then wrap64 (sp_NumOfBlocks spec * sp_NumOfTxs spec)
         else 0)"

definition effectiveOperations :: "scenario \<Rightarrow> int \<Rightarrow> int \<times> string" where
  "effectiveOperations sc successfulTxs =
     (case sp_Msgs (sc_LoadTestSpec sc) of
        [] \<Rightarrow> (0, [])
      | msg # _ \<Rightarrow>
          if successfulTxs = 0 then (0, [])
          else if lm_Type msg = ''MsgWriteTo'' then
            let iterations = max 1 (lm_NumOfIterations msg)
            in (wrap64 (successfulTxs * iterations), ''successful transactions * '' @ Itoa iterations @ '' storage-write iterations'')
          else if lm_Type msg = ''MsgCrossContractCall'' then
            let iterations = max 1 (lm_NumOfIterations msg)
            in (wrap64 (successfulTxs * iterations), ''successful transactions * '' @ Itoa iterations @ '' cross-contract storage iterations'')
          else if lm_Type msg = ''MsgCallDataBlast'' then
            let calldataSize = max 1 (lm_CalldataSize msg)
            in (wrap64 (successfulTxs * calldataSize), ''successful transactions * '' @ Itoa calldataSize @ '' calldata bytes processed'')
          else if lm_Type msg = ''MsgMultiSend'' then
            let recipients = max 1 (lm_NumOfRecipients msg)
            in (wrap64 (successfulTxs * recipients), ''successful transactions * '' @ Itoa recipients @ '' MsgMultiSend recipients'')
          else if lm_Type msg = ''MsgArr'' then
            let messages = max 1 (lm_NumMsgs msg)
            in if lm_ContainedType msg = ''MsgMultiSend'' then
                 let recipients = max 1 (lm_NumOfRecipients msg)
                 in (wrap64 (successfulTxs * messages * recipients),
                     ''successful transactions * '' @ Itoa messages @ '' contained messages * '' @ Itoa recipients @ '' MsgMultiSend recipients'')
               else (wrap64 (successfulTxs * messages), ''successful transactions * '' @ Itoa messages @ '' contained messages'')
          else (0, []))"

section \<open>Profiles asked of a validator\<close>

record appProfileRequest =
  rq_Kind :: string
  rq_Endpoint :: string
  rq_FileName :: string
  rq_OutDir :: string
  rq_Boundary :: string
  rq_Duration :: int

definition appProfileFileName :: "scenario \<Rightarrow> string \<Rightarrow> string \<Rightarrow> string" where
  "appProfileFileName sc suffix ext = sanitize (sc_Name sc) @ ''-validator-0-'' @ suffix @ ext"

definition appPprofFileName :: "scenario \<Rightarrow> string \<Rightarrow> string" where
  "appPprofFileName sc suffix = appProfileFileName sc suffix ''.pprof''"

definition appActiveWindowProfileFileName :: "scenario \<Rightarrow> string \<Rightarrow> string \<Rightarrow> string" where
  "appActiveWindowProfileFileName sc suffix ext = appProfileFileName sc (''active-window-'' @ suffix) ext"

definition timedPprofEndpoint :: "'f float64 \<Rightarrow> string \<Rightarrow> int \<Rightarrow> string" where
  "timedPprofEndpoint fl profile duration =
     (let seconds = fl_Ceil fl (fl_Seconds fl duration);
          seconds = (if seconds < 1 then 1 else seconds)
      in profile @ ''?seconds='' @ Itoa seconds)"

definition durationSeconds :: "'f float64 \<Rightarrow> int \<Rightarrow> 'f" where
  "durationSeconds fl duration = (if duration \<le> 0 then fl_zero fl else fl_Seconds fl duration)"

definition pprof_requests :: "scenario \<Rightarrow> appProfileCaptureConfig \<Rightarrow> appProfileRequest list" where
  "pprof_requests sc cfg = concat (map (\<lambda>(kind, endpoint, suffix, boundary).
     let fileName = appPprofFileName sc suffix
     in if kind = ''validator_heap'' \<and> pc_HeapOutDir cfg = pc_PprofOutDir cfg \<and> fileName = sc_AppHeapProfile sc then []
        else [\<lparr> rq_Kind = kind, rq_Endpoint = endpoint, rq_FileName = fileName, rq_OutDir = pc_PprofOutDir cfg,
                rq_Boundary = boundary, rq_Duration = 0 \<rparr>])
     [(''validator_heap'', ''heap?gc=1'', ''heap'', ''load-window-adjacent''),
      (''validator_allocs'', ''allocs'', ''allocs'', ''whole-run''),
      (''validator_goroutine'', ''goroutine'', ''goroutine'', ''load-window-adjacent'')])"

definition diagnostic_requests :: "'f float64 \<Rightarrow> scenario \<Rightarrow> appProfileCaptureConfig \<Rightarrow> appProfileRequest list" where
  "diagnostic_requests fl sc cfg = map (\<lambda>(kind, profile, suffix, ext).
     \<lparr> rq_Kind = kind, rq_Endpoint = timedPprofEndpoint fl profile (pc_DiagnosticDuration cfg),
       rq_FileName = appProfileFileName sc suffix ext, rq_OutDir = pc_DiagnosticOutDir cfg,
       rq_Boundary = ''load-window-adjacent'', rq_Duration = pc_DiagnosticDuration cfg \<rparr>)
     [(''validator_block'', ''block'', ''block'', ''.pprof''), (''validator_mutex'', ''mutex'', ''mutex'', ''.pprof''),
      (''validator_trace'', ''trace'', ''trace'', ''.out'')]"

definition appProfileRequests :: "'f float64 \<Rightarrow> scenario \<Rightarrow> appProfileCaptureConfig \<Rightarrow> appProfileRequest list" where
  "appProfileRequests fl sc cfg =
     (if pc_HeapOutDir cfg \<noteq> [] \<and> sc_AppHeapProfile sc \<noteq> [] then
        [\<lparr> rq_Kind = ''validator_heap'', rq_Endpoint = ''heap?gc=1'', rq_FileName = sc_AppHeapProfile sc,
           rq_OutDir = pc_HeapOutDir cfg, rq_Boundary = ''load-window-adjacent'', rq_Duration = 0 \<rparr>] else []) @
     (if pc_PprofOutDir cfg \<noteq> [] \<and> sc_AppPprofListen sc \<noteq> [] then pprof_requests sc cfg else []) @
     (if pc_DiagnosticOutDir cfg \<noteq> [] \<and> sc_AppPprofListen sc \<noteq> [] then diagnostic_requests fl sc cfg else []) @
     (if pc_CPUOutDir cfg \<noteq> [] \<and> sc_AppCPUProfile sc \<noteq> [] then
        [\<lparr> rq_Kind = ''validator_cpu'', rq_Endpoint = [], rq_FileName = sc_AppCPUProfile sc, rq_OutDir = pc_CPUOutDir cfg,
           rq_Boundary = ''whole-run'', rq_Duration = 0 \<rparr>] else [])"

definition appActiveWindowProfileRequests :: "'f float64 \<Rightarrow> scenario \<Rightarrow> appProfileCaptureConfig \<Rightarrow> appProfileRequest list" where
  "appActiveWindowProfileRequests fl sc cfg =
     (if pc_ActiveWindowOutDir cfg = [] \<or> sc_AppPprofListen sc = [] then []
      else let d = pc_ActiveWindowDuration cfg
           in map (\<lambda>(kind, endpoint, suffix, ext, duration).
                \<lparr> rq_Kind = kind, rq_Endpoint = endpoint, rq_FileName = appActiveWindowProfileFileName sc suffix ext,
                  rq_OutDir = pc_ActiveWindowOutDir cfg, rq_Boundary = ''active-window'', rq_Duration = duration \<rparr>)
              [(''validator_cpu'', timedPprofEndpoint fl ''profile'' d, ''cpu'', ''.pprof'', d),
               (''validator_heap'', ''heap?gc=1'', ''heap'', ''.pprof'', 0),
               (''validator_allocs'', ''allocs'', ''allocs'', ''.pprof'', 0),
               (''validator_goroutine'', ''goroutine'', ''goroutine'', ''.pprof'', 0),
               (''validator_block'', timedPprofEndpoint fl ''block'' d, ''block'', ''.pprof'', d),
               (''validator_mutex'', timedPprofEndpoint fl ''mutex'' d, ''mutex'', ''.pprof'', d),
               (''validator_trace'', timedPprofEndpoint fl ''trace'' d, ''trace'', ''.out'', d)])"

definition splitAppProfileRequestsForRawTxAudit ::
    "appProfileRequest list \<Rightarrow> appProfileRequest list \<times> appProfileRequest list" where
  "splitAppProfileRequestsForRawTxAudit requests =
     (filter (\<lambda>r. rq_Kind r \<noteq> ''validator_cpu'') requests, filter (\<lambda>r. rq_Kind r = ''validator_cpu'') requests)"

definition appProfileRequestTimeout :: "appProfileRequest \<Rightarrow> int" where
  "appProfileRequestTimeout req =
     (if rq_Duration req \<le> 0 then 30 * 10 ^ 9
      else let timeout = wrap64 (rq_Duration req + 10 * 10 ^ 9) in if timeout < 30 * 10 ^ 9 then 30 * 10 ^ 9 else timeout)"

definition profileSupportsPprofTop :: "string \<Rightarrow> bool" where
  "profileSupportsPprofTop kind \<longleftrightarrow> kind \<noteq> ''validator_trace''"

record 'f profileArtifact =
  pa_Name :: string
  pa_Kind :: string
  pa_Boundary :: string
  pa_Endpoint :: string
  pa_RequestedSeconds :: 'f
  pa_StartedAt :: "int option"
  pa_FinishedAt :: "int option"
  pa_CollectionSeconds :: 'f
  pa_StartedOffset :: "'f option"
  pa_FinishedOffset :: "'f option"
  pa_Overlap :: "'f option"
  pa_Path :: string
  pa_TopSummaryPath :: string
  pa_TopSummaryError :: string
  pa_Error :: string

definition request_artifact :: "'f float64 \<Rightarrow> appProfileRequest \<Rightarrow> string \<Rightarrow> 'f profileArtifact" where
  "request_artifact fl req scenarioName =
     \<lparr> pa_Name = scenarioName, pa_Kind = rq_Kind req, pa_Boundary = rq_Boundary req, pa_Endpoint = rq_Endpoint req,
       pa_RequestedSeconds = durationSeconds fl (rq_Duration req), pa_StartedAt = None, pa_FinishedAt = None,
       pa_CollectionSeconds = fl_zero fl, pa_StartedOffset = None, pa_FinishedOffset = None, pa_Overlap = None, pa_Path = [],
       pa_TopSummaryPath = [], pa_TopSummaryError = [], pa_Error = [] \<rparr>"

definition startProfileArtifactCollection :: "int \<Rightarrow> 'f profileArtifact \<Rightarrow> 'f profileArtifact" where
  "startProfileArtifactCollection now a = a\<lparr>pa_StartedAt := Some now\<rparr>"

definition finishProfileArtifactCollection :: "'f float64 \<Rightarrow> int \<Rightarrow> 'f profileArtifact \<Rightarrow> 'f profileArtifact" where
  "finishProfileArtifactCollection fl now a =
     (let a = a\<lparr>pa_FinishedAt := Some now\<rparr>
      in case pa_StartedAt a of None \<Rightarrow> a | Some s \<Rightarrow> a\<lparr>pa_CollectionSeconds := fl_Seconds fl (Sub now s)\<rparr>)"

definition failProfileArtifacts :: "'f profileArtifact list \<Rightarrow> string \<Rightarrow> 'f profileArtifact list" where
  "failProfileArtifacts artifacts message = map (\<lambda>a. a\<lparr>pa_Error := message\<rparr>) artifacts"

text \<open>Here the load window is its two times.\<close>

definition annotateProfileArtifactsWithLoadWindowTiming ::
    "'f float64 \<Rightarrow> 'f profileArtifact list \<Rightarrow> (int \<times> int) option \<Rightarrow> 'f profileArtifact list" where
  "annotateProfileArtifactsWithLoadWindowTiming fl artifacts obs =
     (case obs of None \<Rightarrow> artifacts
      | Some (startedAt, endedAt) \<Rightarrow>
          if IsZero startedAt then artifacts
          else map (\<lambda>a.
            let a = (case pa_StartedAt a of None \<Rightarrow> a
                     | Some s \<Rightarrow> a\<lparr>pa_StartedOffset := Some (fl_Seconds fl (Sub s startedAt))\<rparr>);
                a = (case pa_FinishedAt a of None \<Rightarrow> a
                     | Some f \<Rightarrow> a\<lparr>pa_FinishedOffset := Some (fl_Seconds fl (Sub f startedAt))\<rparr>)
            in case (pa_StartedAt a, pa_FinishedAt a) of
                 (Some s, Some f) \<Rightarrow> if \<not> IsZero endedAt then a\<lparr>pa_Overlap := Some (overlapSeconds fl s f startedAt endedAt)\<rparr> else a
               | _ \<Rightarrow> a) artifacts)"

section \<open>The databases a launched chain runs on\<close>

record backendVerification =
  bv_ExpectedAppDBBackend :: string
  bv_ExpectedNodeDBBackend :: string
  bv_ExpectedTxIndexer :: string
  bv_ObservedAppDBBackend :: string
  bv_ObservedNodeDBBackend :: string
  bv_ObservedTxIndexer :: string
  bv_AppConfigPath :: string
  bv_NodeConfigPath :: string
  bv_Valid :: bool
  bv_Error :: string

definition readValidatorToml :: "toml \<Rightarrow> (string \<Rightarrow> string result) \<Rightarrow> string \<Rightarrow> gval gomap result" where
  "readValidatorToml tm reader path = and_then (reader path) (toml_dec tm)"

text \<open>\<open>fmt.Sprint\<close> of a value that is no string is the parameter \<open>sprint\<close>.\<close>

definition tomlString :: "(gval \<Rightarrow> string) \<Rightarrow> gval gomap \<Rightarrow> string \<Rightarrow> string" where
  "tomlString sprint cfg key =
     (case mget cfg key of None \<Rightarrow> [] | Some VNil \<Rightarrow> [] | Some (VStr s) \<Rightarrow> s | Some v \<Rightarrow> sprint v)"

definition tomlNestedString :: "(gval \<Rightarrow> string) \<Rightarrow> gval gomap \<Rightarrow> string \<Rightarrow> string \<Rightarrow> string" where
  "tomlNestedString sprint cfg sec key = (case mget cfg sec of Some (VMap nested) \<Rightarrow> tomlString sprint nested key | _ \<Rightarrow> [])"

definition backend_problem :: "string \<Rightarrow> string \<Rightarrow> string \<Rightarrow> string list" where
  "backend_problem what observed expected =
     (if expected \<noteq> [] \<and> observed \<noteq> expected then [what @ '' observed '' @ Quote observed @ '', want '' @ Quote expected] else [])"

definition validateBackendVerification :: "backendVerification \<Rightarrow> bool \<times> string" where
  "validateBackendVerification v =
     (let problems = backend_problem ''app-db-backend'' (bv_ObservedAppDBBackend v) (bv_ExpectedAppDBBackend v) @
          backend_problem ''db_backend'' (bv_ObservedNodeDBBackend v) (bv_ExpectedNodeDBBackend v) @
          backend_problem ''tx_index.indexer'' (bv_ObservedTxIndexer v) (bv_ExpectedTxIndexer v)
      in if problems \<noteq> [] then (False, Join ''; '' problems) else (True, []))"

text \<open>\<open>validator\<close> is the first validator of the restored chain, as a reader of its files.\<close>

definition verifySimappBackends ::
    "(gval \<Rightarrow> string) \<Rightarrow> toml \<Rightarrow> (string \<Rightarrow> string result) result \<Rightarrow> scenario \<Rightarrow> backendVerification" where
  "verifySimappBackends sprint tm validator sc =
     (let v = \<lparr> bv_ExpectedAppDBBackend = sc_AppDBBackend sc, bv_ExpectedNodeDBBackend = sc_NodeDBBackend sc,
                bv_ExpectedTxIndexer = sc_TxIndexer sc, bv_ObservedAppDBBackend = [], bv_ObservedNodeDBBackend = [],
                bv_ObservedTxIndexer = [], bv_AppConfigPath = ''config/app.toml'', bv_NodeConfigPath = ''config/config.toml'',
                bv_Valid = False, bv_Error = [] \<rparr>
      in case validator of
           Inl e \<Rightarrow> v\<lparr>bv_Error := Error_str e\<rparr>
         | Inr reader \<Rightarrow>
             (case readValidatorToml tm reader (bv_AppConfigPath v) of
                Inl e \<Rightarrow> v\<lparr>bv_Error := ''read app backend config: '' @ Error_str e\<rparr>
              | Inr appConfig \<Rightarrow>
                  (case readValidatorToml tm reader (bv_NodeConfigPath v) of
                     Inl e \<Rightarrow> v\<lparr>bv_Error := ''read node backend config: '' @ Error_str e\<rparr>
                   | Inr nodeConfig \<Rightarrow>
                       let v = v\<lparr>bv_ObservedAppDBBackend := tomlString sprint appConfig ''app-db-backend'',
                                 bv_ObservedNodeDBBackend := tomlString sprint nodeConfig ''db_backend'',
                                 bv_ObservedTxIndexer := tomlNestedString sprint nodeConfig ''tx_index'' ''indexer''\<rparr>;
                           (valid, problem) = validateBackendVerification v
                       in v\<lparr>bv_Valid := valid, bv_Error := problem\<rparr>)))"

section \<open>Profiles keep to their files\<close>

text \<open>What preparing a scenario changes.\<close>

lemma prepare_scenario_simps [simp]:
  "sc_Name (prepare_scenario cfg sc) = sc_Name sc"
  "sc_BaseImage (prepare_scenario cfg sc) = sc_BaseImage sc"
  "sc_AppDBBackend (prepare_scenario cfg sc) = sc_AppDBBackend sc"
  "sc_NodeDBBackend (prepare_scenario cfg sc) = sc_NodeDBBackend sc"
  "sc_TxIndexer (prepare_scenario cfg sc) = sc_TxIndexer sc"
  "sc_CustomAppConfig (prepare_scenario cfg sc) = sc_CustomAppConfig sc"
  "sc_AppCPUProfile (prepare_scenario cfg sc) =
     (if pc_CPUOutDir cfg \<noteq> [] \<and> sc_BaseImage sc = ''simapp'' then appPprofFileName sc ''cpu'' else sc_AppCPUProfile sc)"
  "sc_AppHeapProfile (prepare_scenario cfg sc) =
     (if needsPprof cfg \<and> sc_BaseImage sc = ''simapp'' then appPprofFileName sc ''heap'' else sc_AppHeapProfile sc)"
  "sc_AppPprofListen (prepare_scenario cfg sc) =
     (if needsPprof cfg \<and> sc_BaseImage sc = ''simapp'' then ''localhost:6060'' else sc_AppPprofListen sc)"
  "sc_CustomConfig (prepare_scenario cfg sc) =
     (if needsPprof cfg \<and> sc_BaseImage sc = ''simapp'' then withRPCPprofListen (sc_CustomConfig sc) ''localhost:6060''
      else sc_CustomConfig sc)"
  by (simp_all add: prepare_scenario_def withAppCPUProfile_def withAppHeapProfile_def withAppDiagnosticProfileFlags_def Let_def
      appPprofFileName_def appProfileFileName_def)

text \<open>Every profile a run asks for, with the place its file goes.\<close>

definition profile_places :: "'f float64 \<Rightarrow> scenario \<Rightarrow> appProfileCaptureConfig \<Rightarrow> (string \<times> string) list" where
  "profile_places fl sc cfg =
     map (\<lambda>r. (rq_OutDir r, rq_FileName r)) (appProfileRequests fl sc cfg @ appActiveWindowProfileRequests fl sc cfg)"

lemma file_name_eq [simp]:
  "appProfileFileName (sc\<lparr>sc_Name := n\<rparr>) s e = sanitize n @ ''-validator-0-'' @ s @ e"
  "appProfileFileName sc s e = appProfileFileName sc s' e' \<longleftrightarrow> s @ e = s' @ e'"
  by (simp_all add: appProfileFileName_def)

lemma file_name_cong: "sc_Name sc = sc_Name sc' \<Longrightarrow> appProfileFileName sc = appProfileFileName sc'"
  by (simp add: appProfileFileName_def fun_eq_iff)

lemma file_name_prepare [simp]: "appProfileFileName (prepare_scenario cfg sc) = appProfileFileName sc"
  by (rule file_name_cong) simp

lemma file_name_nonempty [simp]: "appProfileFileName sc s e \<noteq> []"
  by (simp add: appProfileFileName_def)

definition profile_place_list :: "(string \<Rightarrow> string) \<Rightarrow> appProfileCaptureConfig \<Rightarrow> (string \<times> string) list" where
  "profile_place_list file cfg =
     (let at = \<lambda>dir suffixes. if dir = [] then [] else map (\<lambda>s. (dir, file s)) suffixes;
          h = pc_HeapOutDir cfg; p = pc_PprofOutDir cfg
      in at h [''heap.pprof''] @
         at p ((if h = p then [] else [''heap.pprof'']) @ [''allocs.pprof'', ''goroutine.pprof'']) @
         at (pc_DiagnosticOutDir cfg) [''block.pprof'', ''mutex.pprof'', ''trace.out''] @
         at (pc_CPUOutDir cfg) [''cpu.pprof''] @
         at (pc_ActiveWindowOutDir cfg) [''active-window-cpu.pprof'', ''active-window-heap.pprof'', ''active-window-allocs.pprof'',
           ''active-window-goroutine.pprof'', ''active-window-block.pprof'', ''active-window-mutex.pprof'', ''active-window-trace.out''])"

lemma file_name_split: "appProfileFileName sc s e = appProfileFileName sc (s @ e) []"
  by simp

lemma profile_places_eq:
  assumes "sc_BaseImage sc = ''simapp''"
  shows "profile_places fl (prepare_scenario cfg sc) cfg = profile_place_list (\<lambda>s. appProfileFileName sc s []) cfg"
proof -
  let ?f = "\<lambda>s. appProfileFileName sc s []"
  have n: "appPprofFileName (prepare_scenario cfg sc) s = ?f (s @ ''.pprof'')" "appPprofFileName sc s = ?f (s @ ''.pprof'')"
    "appActiveWindowProfileFileName (prepare_scenario cfg sc) s e = ?f (''active-window-'' @ s @ e)" for s e
    by (simp_all add: appPprofFileName_def appActiveWindowProfileFileName_def)
  have d: "map (\<lambda>r. (rq_OutDir r, rq_FileName r)) (diagnostic_requests fl (prepare_scenario cfg sc) cfg) =
      map (\<lambda>s. (pc_DiagnosticOutDir cfg, ?f s)) [''block.pprof'', ''mutex.pprof'', ''trace.out'']"
    by (simp add: diagnostic_requests_def)
  have p: "map (\<lambda>r. (rq_OutDir r, rq_FileName r)) (pprof_requests (prepare_scenario cfg sc) cfg) =
      map (\<lambda>s. (pc_PprofOutDir cfg, ?f s))
        ((if pc_HeapOutDir cfg = pc_PprofOutDir cfg then [] else [''heap.pprof'']) @ [''allocs.pprof'', ''goroutine.pprof''])"
    if "pc_PprofOutDir cfg \<noteq> []"
    using that assms by (simp add: pprof_requests_def n Let_def needsPprof_def)
  have a: "map (\<lambda>r. (rq_OutDir r, rq_FileName r)) (appActiveWindowProfileRequests fl (prepare_scenario cfg sc) cfg) =
      (if pc_ActiveWindowOutDir cfg = [] then [] else map (\<lambda>s. (pc_ActiveWindowOutDir cfg, ?f s))
        [''active-window-cpu.pprof'', ''active-window-heap.pprof'', ''active-window-allocs.pprof'',
         ''active-window-goroutine.pprof'', ''active-window-block.pprof'', ''active-window-mutex.pprof'', ''active-window-trace.out''])"
    using assms by (simp add: appActiveWindowProfileRequests_def n Let_def needsPprof_def)
  show ?thesis unfolding profile_places_def map_append a using assms
    by (simp add: appProfileRequests_def profile_place_list_def Let_def needsPprof_def n d p del: append.simps)
qed

lemma profile_place_list_distinct: "inj file \<Longrightarrow> distinct (profile_place_list file cfg)"
  unfolding profile_place_list_def Let_def distinct_append by (simp add: inj_eq)

text \<open>Profiles do not overwrite each other. The profiles asked for after a scenario's load and those of
  the active window are written to pairwise different files, whichever of the directories are given and
  whichever of them are the same.\<close>

theorem profile_files_distinct:
  assumes "sc_AppHeapProfile sc = []" "sc_AppCPUProfile sc = []" "sc_AppPprofListen sc = []"
  shows "distinct (profile_places fl (prepare_scenario cfg sc) cfg)"
proof (cases "sc_BaseImage sc = ''simapp''")
  case True
  show ?thesis unfolding profile_places_eq[OF True] by (rule profile_place_list_distinct) (simp add: inj_def)
next
  case False
  then show ?thesis using assms
    by (simp add: profile_places_def appProfileRequests_def appActiveWindowProfileRequests_def)
qed

definition demo_report_scenario :: scenario where
  "demo_report_scenario = zero_scenario\<lparr>sc_Name := ''simapp-treedb'', sc_BaseImage := ''simapp''\<rparr>"

theorem profile_files_distinct_witness:
  "distinct (profile_places demo_float (prepare_scenario \<lparr> pc_CPUOutDir = ''out'', pc_HeapOutDir = ''out'', pc_PprofOutDir = ''out'',
     pc_DiagnosticOutDir = ''diag'', pc_DiagnosticDuration = 5, pc_ActiveWindowOutDir = ''out'', pc_ActiveWindowDuration = 5,
     pc_DebugVars = False \<rparr> demo_report_scenario) \<lparr> pc_CPUOutDir = ''out'', pc_HeapOutDir = ''out'', pc_PprofOutDir = ''out'',
     pc_DiagnosticOutDir = ''diag'', pc_DiagnosticDuration = 5, pc_ActiveWindowOutDir = ''out'', pc_ActiveWindowDuration = 5,
     pc_DebugVars = False \<rparr>)"
  by (rule profile_files_distinct) (simp_all add: demo_report_scenario_def zero_scenario_def)

section \<open>The databases asked for are the ones verified\<close>

lemma mcopy_all: "distinct (keys m) \<Longrightarrow> mget (mcopy m []) = mget m"
  using map_of_inject_set[of "rev m" m] by (auto simp: mget_mcopy fun_eq_iff rev_map[symmetric] split: option.splits)

lemma distinct_keys_mcopy: "distinct (keys dst) \<Longrightarrow> distinct (keys (mcopy src dst))"
  by (induction src dst rule: mcopy.induct) (simp_all add: distinct_keys_mput)

lemma withRPCPprofListen_get:
  "distinct (keys cfg) \<Longrightarrow> mget (withRPCPprofListen cfg listen) k =
     (if k = ''rpc'' then Some (VMap (mput ''pprof_laddr'' (VStr listen) (mcopy (asStringMap (mget cfg ''rpc'')) []))) else mget cfg k)"
  by (simp add: withRPCPprofListen_def cloneStringMap_def Let_def mcopy_all)

lemma withRPCPprofListen_keys: "distinct (keys (withRPCPprofListen cfg listen))"
  by (simp add: withRPCPprofListen_def cloneStringMap_def Let_def distinct_keys_mput distinct_keys_mcopy)

lemma consensus_config_keys: "distinct (keys (simapp_consensus_config n t))"
  by (simp add: simapp_consensus_config_def lowLatencyConsensusConfig_def Let_def)

lemma consensus_config_get:
  "n \<noteq> [] \<Longrightarrow> mget (simapp_consensus_config n t) ''db_backend'' = Some (VStr n)"
  "t \<noteq> [] \<Longrightarrow> mget (simapp_consensus_config n t) ''tx_index'' = Some (VMap [(''indexer'', VStr t)])"
  by (simp_all add: simapp_consensus_config_def lowLatencyConsensusConfig_def Let_def)

lemma simapp_scenario_fields:
  assumes "simappScenarioWithBackends name desc app nd tx b l pin = Inr sc"
  shows "sc_AppDBBackend sc = app" "sc_NodeDBBackend sc = nd" "sc_TxIndexer sc = tx" "sc_BaseImage sc = ''simapp''"
    "sc_CustomAppConfig sc = (if app \<noteq> [] then [(''app-db-backend'', VStr app)] else [])"
    "sc_CustomConfig sc = simapp_consensus_config nd tx"
    "sc_DependencyPins sc = simappDependencyPins b pin" "sc_ReplaceCmd sc = simappReplaceCmd b pin"
    "simappImageTag b pin = Inr (sc_ImageTag sc)"
  using assms by (auto simp: simappScenarioWithBackends_def and_then_eq_Inr)

text \<open>The configuration a prepared scenario asks of the node keeps its databases and indexer.\<close>

lemma prepared_config_get:
  assumes "simappScenarioWithBackends name desc app nd tx b l pin = Inr sc" "k \<noteq> ''rpc''"
  shows "mget (sc_CustomConfig (prepare_scenario cfg sc)) k = mget (simapp_consensus_config nd tx) k"
    and "distinct (keys (sc_CustomConfig (prepare_scenario cfg sc)))"
  using assms(2) simapp_scenario_fields[OF assms(1)]
  by (simp_all add: withRPCPprofListen_get withRPCPprofListen_keys consensus_config_keys)

lemma modified_string: "distinct (keys ms) \<Longrightarrow> mget ms k = Some (VStr v) \<Longrightarrow> tomlString sp (recursiveModifyToml c ms) k = v"
  by (simp add: tomlString_def mget_modify merged_def)

lemma modified_nested_string:
  "distinct (keys ms) \<Longrightarrow> mget ms sec = Some (VMap [(k, VStr v)]) \<Longrightarrow> tomlNestedString sp (recursiveModifyToml c ms) sec k = v"
  by (simp add: tomlNestedString_def tomlString_def mget_modify)

text \<open>C23: Verification of the databases. When the files of the validator are its generated files with the custom
  configuration of a simapp scenario applied, as the chain's launch applies them, the databases and indexer read
  back are those the scenario asks for and the verification accepts them, whatever profiles the run collects.\<close>

theorem configured_backends_verify:
  assumes sc: "simappScenarioWithBackends name desc app nd tx b l pin = Inr sc"
    and app: "readValidatorToml tm reader ''config/app.toml'' = Inr (recursiveModifyToml a (sc_CustomAppConfig (prepare_scenario cfg sc)))"
    and nd: "readValidatorToml tm reader ''config/config.toml'' = Inr (recursiveModifyToml c (sc_CustomConfig (prepare_scenario cfg sc)))"
  shows "let v = verifySimappBackends sprint tm (Inr reader) (prepare_scenario cfg sc)
    in bv_Valid v \<and> bv_Error v = [] \<and> (app \<noteq> [] \<longrightarrow> bv_ObservedAppDBBackend v = app) \<and>
       (nd \<noteq> [] \<longrightarrow> bv_ObservedNodeDBBackend v = nd) \<and> (tx \<noteq> [] \<longrightarrow> bv_ObservedTxIndexer v = tx)"
proof -
  note f = simapp_scenario_fields[OF sc] and g = prepared_config_get[OF sc, where cfg = cfg]
  have ob: "app \<noteq> [] \<Longrightarrow> tomlString sprint (recursiveModifyToml a (sc_CustomAppConfig (prepare_scenario cfg sc))) ''app-db-backend'' = app"
    "nd \<noteq> [] \<Longrightarrow> tomlString sprint (recursiveModifyToml c (sc_CustomConfig (prepare_scenario cfg sc))) ''db_backend'' = nd"
    "tx \<noteq> [] \<Longrightarrow> tomlNestedString sprint (recursiveModifyToml c (sc_CustomConfig (prepare_scenario cfg sc))) ''tx_index'' ''indexer'' = tx"
    using f(5)
    supply prepare_scenario_simps(10) [simp del]
    by (auto intro!: modified_string modified_nested_string g(2)[of "''p2p''"] simp: consensus_config_get g(1) tomlString_def[of _ "mput _ _ _"])
  have "validateBackendVerification \<lparr> bv_ExpectedAppDBBackend = app, bv_ExpectedNodeDBBackend = nd, bv_ExpectedTxIndexer = tx,
      bv_ObservedAppDBBackend = oa, bv_ObservedNodeDBBackend = od, bv_ObservedTxIndexer = ot, bv_AppConfigPath = p,
      bv_NodeConfigPath = q, bv_Valid = False, bv_Error = [] \<rparr> = (True, [])"
    if "app \<noteq> [] \<Longrightarrow> oa = app" "nd \<noteq> [] \<Longrightarrow> od = nd" "tx \<noteq> [] \<Longrightarrow> ot = tx" for oa od ot p q
    using that by (auto simp: validateBackendVerification_def backend_problem_def)
  then show ?thesis
    using ob f(1-3) app nd by (simp add: verifySimappBackends_def Let_def del: prepare_scenario_simps(6,10))
qed

text \<open>A validator whose generated files name other databases, which the scenario's configuration replaces. The
  two documents are coded by their length.\<close>

definition demo_report_pin :: simappGomapModulePin where
  "demo_report_pin = \<lparr> gp_Version = defaultSimappGomapVersion, gp_Ref = defaultSimappGomapRef \<rparr>"

definition demo_simapp_load :: simapp_load where
  "demo_simapp_load = \<lparr> sl_validators = 1, sl_nodes = 1, sl_wallets = 10, sl_preseed = no_preseed, sl_blocks = 5, sl_txs = 20,
     sl_cosmosMsg = ''MsgSend'', sl_containedMsg = ''MsgSend'', sl_msgsPerTx = 1, sl_recipients = 1, sl_maxGas = 75, sl_catalyst = [] \<rparr>"

definition demo_simapp :: scenario where
  "demo_simapp = (case simappFullStackScenario ''simapp-treedb-all'' [] ''treedb'' demo_simapp_load ''kv'' demo_report_pin of
     Inr sc \<Rightarrow> sc | Inl _ \<Rightarrow> zero_scenario)"

definition demo_profiles :: appProfileCaptureConfig where
  "demo_profiles = \<lparr> pc_CPUOutDir = ''out'', pc_HeapOutDir = ''out'', pc_PprofOutDir = ''out'', pc_DiagnosticOutDir = ''diag'',
     pc_DiagnosticDuration = 5, pc_ActiveWindowOutDir = ''out'', pc_ActiveWindowDuration = 5, pc_DebugVars = False \<rparr>"

definition demo_report_toml :: toml where
  "demo_report_toml = \<lparr> toml_dec = (\<lambda>s. Inr (if s = ''app'' then
       recursiveModifyToml [(''app-db-backend'', VStr ''memdb'')] (sc_CustomAppConfig (prepare_scenario demo_profiles demo_simapp))
     else recursiveModifyToml [(''db_backend'', VStr ''memdb''), (''tx_index'', VMap [(''indexer'', VStr ''null'')])]
       (sc_CustomConfig (prepare_scenario demo_profiles demo_simapp)))), toml_enc = (\<lambda>_. Inl (New ''unused'')) \<rparr>"

lemma demo_simapp_ok:
  "simappScenarioWithBackends ''simapp-treedb-all'' [] ''treedb'' ''treedb'' ''kv'' True demo_simapp_load demo_report_pin = Inr demo_simapp"
  by (simp add: demo_simapp_def simappFullStackScenario_def simappScenarioWithBackends_def simappImageTag_def demo_report_pin_def
      defaultSimappGomapRef_def)

theorem configured_backends_verify_witness:
  "let v = verifySimappBackends (\<lambda>_. []) demo_report_toml
       (Inr (\<lambda>path. Inr (if path = ''config/app.toml'' then ''app'' else ''node''))) (prepare_scenario demo_profiles demo_simapp)
   in bv_Valid v \<and> bv_ObservedAppDBBackend v = ''treedb'' \<and> bv_ObservedNodeDBBackend v = ''treedb'' \<and> bv_ObservedTxIndexer v = ''kv''"
  using configured_backends_verify[OF demo_simapp_ok, where cfg = demo_profiles and sprint = "\<lambda>_. []" and tm = demo_report_toml and
      reader = "\<lambda>path. Inr (if path = ''config/app.toml'' then ''app'' else ''node'')" and a = "[(''app-db-backend'', VStr ''memdb'')]" and
      c = "[(''db_backend'', VStr ''memdb''), (''tx_index'', VMap [(''indexer'', VStr ''null'')])]"]
  by (simp add: Let_def readValidatorToml_def demo_report_toml_def del: prepare_scenario_simps)

section \<open>Images are built from the pinned versions\<close>

text \<open>A version of a module that names a commit: the commit itself, or a pseudo-version that ends with its start.\<close>

definition names_commit :: "string \<Rightarrow> string \<Rightarrow> bool" where
  "names_commit version ref \<longleftrightarrow> length ref = 40 \<and> list_all hex_char ref \<and> (version = ref \<or> HasSuffix version (''-'' @ take 12 ref))"

lemma newSimappGomapPin_ok: "newSimappGomapPin version ref = Inr pin \<Longrightarrow> names_commit (gp_Version pin) (gp_Ref pin)"
  by (auto simp: newSimappGomapPin_def hex_DecodeString_def names_commit_def list_all_iff dropWhile_eq_Nil_conv Let_def
      split: if_splits list.splits)

lemma simapp_pins_name_commits:
  "names_commit simappCosmosDBVersion simappCosmosDBRef" "names_commit simappIAVLVersion simappIAVLRef"
  "names_commit simappCometDBVersion simappCometDBRef" "names_commit simappCometBFTVersion simappCometBFTRef"
  by (simp_all add: names_commit_def simapp_versions hex_char_def is_digit_def HasSuffix_def)

text \<open>How the image build reads the command: words separated by blanks, each a module, an equals sign, its
  replacement, and after the at sign the replacement's version.\<close>

definition replaced_modules :: "string \<Rightarrow> (string \<times> string) list" where
  "replaced_modules cmd = map (\<lambda>w. (takeWhile (\<lambda>c. c \<noteq> CHR ''='') w, drop 1 (dropWhile (\<lambda>c. c \<noteq> CHR ''@'') w))) (Split (CHR '' '') cmd)"

text \<open>Images are built from the pinned versions. The command that replaces the modules of a simapp image gives
  each module of the scenario's dependency pins exactly the version its pin records, every pin's reference is a full
  commit, and its version is that commit or ends with its start.\<close>

theorem image_modules_are_pinned:
  assumes pin: "newSimappGomapPin version ref = Inr pin" and blank: "CHR '' '' \<notin> set (gp_Version pin)"
    and sc: "simappScenarioWithBackends name desc app nd tx b l pin = Inr sc"
  shows "replaced_modules (sc_ReplaceCmd sc) = map (\<lambda>p. (pin_Module p, pin_Version p)) (sc_DependencyPins sc) \<and>
    list_all (\<lambda>p. names_commit (pin_Version p) (pin_Ref p)) (sc_DependencyPins sc)"
proof
  note f = simapp_scenario_fields(7,8)[OF sc]
  have "replaced_modules (simappReplaceCmd b pin) = map (\<lambda>p. (pin_Module p, pin_Version p)) (simappDependencyPins b pin)"
    unfolding replaced_modules_def simappReplaceCmd_def using blank
    by (subst Split_Join) (auto simp: simappDependencyPins_def simapp_versions)
  then show "replaced_modules (sc_ReplaceCmd sc) = map (\<lambda>p. (pin_Module p, pin_Version p)) (sc_DependencyPins sc)" using f by simp
  show "list_all (\<lambda>p. names_commit (pin_Version p) (pin_Ref p)) (sc_DependencyPins sc)"
    using newSimappGomapPin_ok[OF pin] f(1) by (simp add: simappDependencyPins_def simapp_pins_name_commits)
qed

theorem image_modules_are_pinned_witness:
  "replaced_modules (sc_ReplaceCmd demo_simapp) = map (\<lambda>p. (pin_Module p, pin_Version p)) (sc_DependencyPins demo_simapp)"
proof -
  have "newSimappGomapPin defaultSimappGomapVersion defaultSimappGomapRef = Inr demo_report_pin"
    by (simp add: newSimappGomapPin_def defaultSimappGomapVersion_def defaultSimappGomapRef_def demo_report_pin_def TrimSpace_def Trim_def
        is_space_def ToLower_def lower_def hex_DecodeString_def hex_char_def is_digit_def HasSuffix_def Let_def)
  from image_modules_are_pinned[OF this _ demo_simapp_ok] show ?thesis
    by (simp add: demo_report_pin_def defaultSimappGomapVersion_def)
qed

end
