(* ===== verification/Report_Logs.thy ===== *)
theory Report_Logs
  imports Report_Scenarios
begin

text \<open>
  Reading the load generator's logs in \<open>cmd/local-report-runner/main.go\<close>: the fields of a line, the counts of
  the summary and the timing of sends and blocks. The source finds a field with a regular expression; here its
  leftmost match is computed. \<open>time.Parse\<close> with the layout \<open>RFC3339Nano\<close> is the parameter \<open>parse\<close>.
\<close>

section \<open>Fields of a line\<close>

text \<open>\<open>\s\<close> of Go's regular expressions, which unlike \<open>unicode.IsSpace\<close> has no vertical tab.\<close>

definition re_space :: "char \<Rightarrow> bool" where
  "re_space c \<longleftrightarrow> c \<in> {CHR '' '', CHR 0x09, CHR 0x0A, CHR 0x0C, CHR 0x0D}"

text \<open>The leftmost position at which a pattern matches, given as a function from a suffix to what it captures.\<close>

fun first_match :: "(string \<Rightarrow> 'a option) \<Rightarrow> string \<Rightarrow> 'a option" where
  "first_match m [] = m []"
| "first_match m (c # s) = (case m (c # s) of Some x \<Rightarrow> Some x | None \<Rightarrow> first_match m s)"

text \<open>The quoted key, the colon and the space after it.\<close>

definition match_key :: "string \<Rightarrow> string \<Rightarrow> string option" where
  "match_key key s =
     (let p = [CHR 0x22] @ key @ [CHR 0x22, CHR '':''] in if HasPrefix s p then Some (dropWhile re_space (drop (length p) s)) else None)"

definition skip_quote :: "string \<Rightarrow> string" where
  "skip_quote s = (case s of c # t \<Rightarrow> if c = CHR 0x22 then t else s | [] \<Rightarrow> [])"

text \<open>\<open>-?[0-9]+\<close>.\<close>

definition match_int :: "string \<Rightarrow> string option" where
  "match_int s =
     (let (sign, t) = (case s of c # t \<Rightarrow> if c = CHR ''-'' then ([c], t) else ([], s) | [] \<Rightarrow> ([], []));
          ds = takeWhile is_digit t
      in if ds = [] then None else Some (sign @ ds))"

text \<open>\<open>strconv.Atoi\<close> of such a text; out of range it reports an error, which is dropped, and returns the nearest value.\<close>

definition Atoi_clamped :: "string \<Rightarrow> int" where
  "Atoi_clamped s =
     (let v = (if s \<noteq> [] \<and> hd s = CHR ''-'' then - int (digits_val (tl s)) else int (digits_val s))
      in max (- (2 ^ 63)) (min v (2 ^ 63 - 1)))"

definition intField :: "string \<Rightarrow> string \<Rightarrow> int" where
  "intField line key =
     (case first_match (\<lambda>s. Option.bind (match_key key s) (\<lambda>t. match_int (skip_quote t))) line of
        None \<Rightarrow> 0
      | Some ds \<Rightarrow> Atoi_clamped ds)"

text \<open>\<open>-?[0-9]+(?:\.[0-9]+)?\<close>.\<close>

definition match_float :: "string \<Rightarrow> string option" where
  "match_float s =
     (case match_int s of
        None \<Rightarrow> None
      | Some ds \<Rightarrow>
          (case drop (length ds) s of
             c # t \<Rightarrow> if c = CHR ''.'' \<and> takeWhile is_digit t \<noteq> [] then Some (ds @ [c] @ takeWhile is_digit t) else Some ds
           | [] \<Rightarrow> Some ds))"

definition floatField :: "'f float64 \<Rightarrow> string \<Rightarrow> string \<Rightarrow> 'f" where
  "floatField fl line key =
     (case first_match (\<lambda>s. Option.bind (match_key key s) (\<lambda>t. match_float (skip_quote t))) line of
        None \<Rightarrow> fl_zero fl
      | Some ds \<Rightarrow> fst (fl_Parse fl ds))"

text \<open>The text up to the closing quote, where a backslash takes the next character with it, which is no newline.\<close>

fun match_string :: "string \<Rightarrow> string option" where
  "match_string [] = None"
| "match_string (c # s) =
     (if c = CHR 0x22 then Some []
      else if c = CHR 0x5C then
        (case s of [] \<Rightarrow> None | d # t \<Rightarrow> if d = CHR 0x0A then None else map_option (\<lambda>r. c # d # r) (match_string t))
      else map_option (Cons c) (match_string s))"

text \<open>\<open>strconv.Unquote\<close> of the text between the quotes. Code points become UTF-8.\<close>

definition hex_val :: "char \<Rightarrow> nat option" where
  "hex_val c =
     (let n = of_char c :: nat
      in if 48 \<le> n \<and> n \<le> 57 then Some (n - 48) else if 97 \<le> n \<and> n \<le> 102 then Some (n - 87)
         else if 65 \<le> n \<and> n \<le> 70 then Some (n - 55) else None)"

fun hex_number :: "nat \<Rightarrow> string \<Rightarrow> nat option" where
  "hex_number acc [] = Some acc"
| "hex_number acc (c # s) = (case hex_val c of None \<Rightarrow> None | Some v \<Rightarrow> hex_number (16 * acc + v) s)"

definition utf8 :: "nat \<Rightarrow> string option" where
  "utf8 n =
     (if n < 128 then Some [char_of n]
      else if n < 2048 then Some [char_of (192 + n div 64), char_of (128 + n mod 64)]
      else if 55296 \<le> n \<and> n < 57344 then None
      else if n < 65536 then Some [char_of (224 + n div 4096), char_of (128 + n div 64 mod 64), char_of (128 + n mod 64)]
      else if n < 1114112 then
        Some [char_of (240 + n div 262144), char_of (128 + n div 4096 mod 64), char_of (128 + n div 64 mod 64), char_of (128 + n mod 64)]
      else None)"

definition octal_number :: "string \<Rightarrow> nat option" where
  "octal_number s =
     (if list_all (\<lambda>c. CHR ''0'' \<le> c \<and> c \<le> CHR ''7'') s then
        let v = foldl (\<lambda>a c. 8 * a + (of_char c - 48)) 0 s in if v < 256 then Some v else None
      else None)"

definition simple_escapes :: "(char \<times> char) list" where
  "simple_escapes = [(CHR ''a'', CHR 0x07), (CHR ''b'', CHR 0x08), (CHR ''f'', CHR 0x0C), (CHR ''n'', CHR 0x0A), (CHR ''r'', CHR 0x0D),
     (CHR ''t'', CHR 0x09), (CHR ''v'', CHR 0x0B), (CHR 0x5C, CHR 0x5C), (CHR 0x22, CHR 0x22)]"

text \<open>One escape after its backslash: what it stands for and what follows.\<close>

definition unquote_escape :: "string \<Rightarrow> (string \<times> string) option" where
  "unquote_escape s =
     (case s of
        [] \<Rightarrow> None
      | c # t \<Rightarrow>
          (case map_of simple_escapes c of
             Some d \<Rightarrow> Some ([d], t)
           | None \<Rightarrow>
               if c = CHR ''x'' then
                 (if length t < 2 then None else map_option (\<lambda>v. ([char_of v], drop 2 t)) (hex_number 0 (take 2 t)))
               else if c = CHR ''u'' then
                 (if length t < 4 then None else map_option (\<lambda>u. (u, drop 4 t)) (Option.bind (hex_number 0 (take 4 t)) utf8))
               else if c = CHR ''U'' then
                 (if length t < 8 then None else map_option (\<lambda>u. (u, drop 8 t)) (Option.bind (hex_number 0 (take 8 t)) utf8))
               else if CHR ''0'' \<le> c \<and> c \<le> CHR ''7'' then
                 (if length t < 2 then None else map_option (\<lambda>v. ([char_of v], drop 2 t)) (octal_number (c # take 2 t)))
               else None))"

lemma unquote_escape_shorter: "unquote_escape s = Some (d, r) \<Longrightarrow> length r < length s"
  by (auto simp: unquote_escape_def split: list.splits option.splits if_splits)

function Unquote_body :: "string \<Rightarrow> string option" where
  "Unquote_body [] = Some []"
| "Unquote_body (c # s) =
     (if c = CHR 0x0A \<or> c = CHR 0x22 then None
      else if c = CHR 0x5C then
        (case unquote_escape s of None \<Rightarrow> None | Some (d, r) \<Rightarrow> map_option ((@) d) (Unquote_body r))
      else map_option (Cons c) (Unquote_body s))"
  by pat_completeness auto
termination by (relation "measure length") (auto dest: unquote_escape_shorter)

definition stringField :: "string \<Rightarrow> string \<Rightarrow> string" where
  "stringField line key =
     (case first_match (\<lambda>s. Option.bind (match_key key s)
          (\<lambda>t. case t of c # u \<Rightarrow> if c = CHR 0x22 then match_string u else None | [] \<Rightarrow> None)) line of
        None \<Rightarrow> []
      | Some raw \<Rightarrow> (case Unquote_body raw of None \<Rightarrow> raw | Some text \<Rightarrow> text))"

section \<open>Errors\<close>

text \<open>Every match of \<open>scheme[0-9.]+:[0-9]+\<close>, from the left and without overlap.\<close>

definition match_rpc :: "string \<Rightarrow> string \<Rightarrow> nat option" where
  "match_rpc scheme s =
     (if \<not> HasPrefix s scheme then None
      else let t = drop (length scheme) s; host = takeWhile (\<lambda>c. is_digit c \<or> c = CHR ''.'') t
           in case drop (length host) t of
                c # u \<Rightarrow> let port = takeWhile is_digit u
                        in if host \<noteq> [] \<and> c = CHR '':'' \<and> port \<noteq> [] then Some (length scheme + length host + 1 + length port) else None
              | [] \<Rightarrow> None)"

function replace_rpc :: "string \<Rightarrow> string \<Rightarrow> string \<Rightarrow> string" where
  "replace_rpc scheme new [] = []"
| "replace_rpc scheme new (c # s) =
     (case match_rpc scheme (c # s) of
        Some n \<Rightarrow> new @ replace_rpc scheme new (drop (n - 1) s)
      | None \<Rightarrow> c # replace_rpc scheme new s)"
  by pat_completeness auto
termination by (relation "measure (\<lambda>(_, _, s). length s)") auto

definition normalizeLogError :: "string \<Rightarrow> string" where
  "normalizeLogError errText =
     (let errText = replace_rpc ''http://'' ''http://<rpc>'' errText;
          errText = replace_rpc ''ws://'' ''ws://<rpc>'' errText
      in if length errText > 300 then take 300 errText else errText)"

section \<open>Timing\<close>

record 'f catalystLogTiming =
  ct_LogTruncated :: bool
  ct_ParsedLines :: nat
  ct_TimestampedLines :: nat
  ct_FirstTimestamp :: "int option"
  ct_LastTimestamp :: "int option"
  ct_LogSpanSeconds :: 'f
  ct_SendStartEvents :: nat
  ct_SendCompleteEvents :: nat
  ct_SendExpectedTxsTotal :: int
  ct_SendTxsSentTotal :: int
  ct_SendMatchedTxsTotal :: int
  ct_SendDurations :: "'f durationStats option"
  ct_SendTxsPerSecond :: 'f
  ct_BlockEventEvents :: nat
  ct_BlockProcessingEvents :: nat
  ct_BlockProcessedEvents :: nat
  ct_BlockEventToProcessingDurations :: "'f durationStats option"
  ct_BlockProcessingToProcessedDurations :: "'f durationStats option"
  ct_ChainTimestampToProcessingDurations :: "'f durationStats option"
  ct_Notes :: "string list"

record 'f catalystLogTimingBuilder =
  lb_timing :: "'f catalystLogTiming"
  lb_sendStarts :: "(int \<times> int) list"
  lb_sendExpected :: "(int \<times> int) list"
  lb_blockEvents :: "(int \<times> int) list"
  lb_blockProcessing :: "(int \<times> int) list"
  lb_sendDurations :: "'f list"
  lb_unmatchedSendCompletes :: nat
  lb_eventToProcessing :: "'f list"
  lb_processingToProcessed :: "'f list"
  lb_chainTimestampToProcess :: "'f list"

definition newCatalystLogTiming :: "'f float64 \<Rightarrow> string \<Rightarrow> 'f catalystLogTimingBuilder" where
  "newCatalystLogTiming fl logs =
     \<lparr> lb_timing = \<lparr> ct_LogTruncated = HasPrefix logs ''[truncated task logs; showing tail]'', ct_ParsedLines = 0, ct_TimestampedLines = 0,
         ct_FirstTimestamp = None, ct_LastTimestamp = None, ct_LogSpanSeconds = fl_zero fl, ct_SendStartEvents = 0,
         ct_SendCompleteEvents = 0, ct_SendExpectedTxsTotal = 0, ct_SendTxsSentTotal = 0, ct_SendMatchedTxsTotal = 0,
         ct_SendDurations = None, ct_SendTxsPerSecond = fl_zero fl, ct_BlockEventEvents = 0, ct_BlockProcessingEvents = 0,
         ct_BlockProcessedEvents = 0, ct_BlockEventToProcessingDurations = None, ct_BlockProcessingToProcessedDurations = None,
         ct_ChainTimestampToProcessingDurations = None, ct_Notes = [] \<rparr>,
       lb_sendStarts = [], lb_sendExpected = [], lb_blockEvents = [], lb_blockProcessing = [], lb_sendDurations = [],
       lb_unmatchedSendCompletes = 0, lb_eventToProcessing = [], lb_processingToProcessed = [], lb_chainTimestampToProcess = [] \<rparr>"

definition catalystLogTimestamp :: "(string \<Rightarrow> int option) \<Rightarrow> string \<Rightarrow> int option" where
  "catalystLogTimestamp parse line =
     (if CHR 0x09 \<in> set line then parse (takeWhile (\<lambda>c. c \<noteq> CHR 0x09) line)
      else case Fields line of [] \<Rightarrow> None | f # _ \<Rightarrow> parse f)"

definition catalystLogStringTimestamp :: "(string \<Rightarrow> int option) \<Rightarrow> string \<Rightarrow> string \<Rightarrow> int option" where
  "catalystLogStringTimestamp parse line key =
     (let text = stringField line key in if text = [] then None else parse text)"

text \<open>The cases of \<open>observe\<close>, each with its own event.\<close>

definition send_start :: "string \<Rightarrow> int \<Rightarrow> 'f catalystLogTimingBuilder \<Rightarrow> 'f catalystLogTimingBuilder" where
  "send_start line at b =
     (let block = intField line ''block_number'';
          expected = intField line ''expected_txs''; t = lb_timing b
      in if block = 0 then b
         else b\<lparr>lb_timing := t\<lparr>ct_SendStartEvents := ct_SendStartEvents t + 1,
                              ct_SendExpectedTxsTotal := wrap64 (ct_SendExpectedTxsTotal t + expected)\<rparr>,
                lb_sendStarts := AList.update block at (lb_sendStarts b),
                lb_sendExpected := AList.update block expected (lb_sendExpected b)\<rparr>)"

definition send_complete :: "'f float64 \<Rightarrow> string \<Rightarrow> int \<Rightarrow> 'f catalystLogTimingBuilder \<Rightarrow> 'f catalystLogTimingBuilder" where
  "send_complete fl line at b =
     (let block = intField line ''block_number''; sent = intField line ''txs_sent''; t = lb_timing b;
          t' = t\<lparr>ct_SendCompleteEvents := ct_SendCompleteEvents t + 1, ct_SendTxsSentTotal := wrap64 (ct_SendTxsSentTotal t + sent)\<rparr>;
          unmatched = b\<lparr>lb_timing := t', lb_unmatchedSendCompletes := lb_unmatchedSendCompletes b + 1\<rparr>
      in if block = 0 then b
         else case map_of (lb_sendStarts b) block of
                Some started \<Rightarrow>
                  if \<not> at < started then
                    b\<lparr>lb_timing := t'\<lparr>ct_SendMatchedTxsTotal := wrap64 (ct_SendMatchedTxsTotal t' + sent)\<rparr>,
                      lb_sendDurations := lb_sendDurations b @ [fl_Seconds fl (Sub at started)],
                      lb_sendStarts := AList.delete block (lb_sendStarts b),
                      lb_sendExpected := AList.delete block (lb_sendExpected b)\<rparr>
                  else unmatched
              | None \<Rightarrow> unmatched)"

definition block_event :: "string \<Rightarrow> int \<Rightarrow> 'f catalystLogTimingBuilder \<Rightarrow> 'f catalystLogTimingBuilder" where
  "block_event line at b =
     (let height = intField line ''height''; t = lb_timing b
      in if height = 0 then b
         else b\<lparr>lb_timing := t\<lparr>ct_BlockEventEvents := ct_BlockEventEvents t + 1\<rparr>,
                lb_blockEvents := AList.update height at (lb_blockEvents b)\<rparr>)"

definition since :: "'f float64 \<Rightarrow> int \<Rightarrow> int option \<Rightarrow> 'f list" where
  "since fl at start = (case start of Some s \<Rightarrow> if \<not> at < s then [fl_Seconds fl (Sub at s)] else [] | None \<Rightarrow> [])"

definition block_processing ::
    "'f float64 \<Rightarrow> (string \<Rightarrow> int option) \<Rightarrow> string \<Rightarrow> int \<Rightarrow> 'f catalystLogTimingBuilder \<Rightarrow> 'f catalystLogTimingBuilder" where
  "block_processing fl parse line at b =
     (let height = intField line ''height''; t = lb_timing b
      in if height = 0 then b
         else b\<lparr>lb_timing := t\<lparr>ct_BlockProcessingEvents := ct_BlockProcessingEvents t + 1\<rparr>,
                lb_blockProcessing := AList.update height at (lb_blockProcessing b),
                lb_eventToProcessing := lb_eventToProcessing b @ since fl at (map_of (lb_blockEvents b) height),
                lb_chainTimestampToProcess := lb_chainTimestampToProcess b @
                  since fl at (catalystLogStringTimestamp parse line ''timestamp'')\<rparr>)"

definition block_processed :: "'f float64 \<Rightarrow> string \<Rightarrow> int \<Rightarrow> 'f catalystLogTimingBuilder \<Rightarrow> 'f catalystLogTimingBuilder" where
  "block_processed fl line at b =
     (let height = intField line ''height''; t = lb_timing b;
          taken = since fl at (map_of (lb_blockProcessing b) height)
      in if height = 0 then b
         else b\<lparr>lb_timing := t\<lparr>ct_BlockProcessedEvents := ct_BlockProcessedEvents t + 1\<rparr>,
                lb_processingToProcessed := lb_processingToProcessed b @ taken,
                lb_blockProcessing := (if taken = [] then lb_blockProcessing b else AList.delete height (lb_blockProcessing b)),
                lb_blockEvents := AList.delete height (lb_blockEvents b)\<rparr>)"

definition stamp :: "int \<Rightarrow> 'f catalystLogTiming \<Rightarrow> 'f catalystLogTiming" where
  "stamp at t =
     (let t = t\<lparr>ct_TimestampedLines := ct_TimestampedLines t + 1\<rparr>;
          t = (case ct_FirstTimestamp t of None \<Rightarrow> t\<lparr>ct_FirstTimestamp := Some at\<rparr>
               | Some f \<Rightarrow> if at < f then t\<lparr>ct_FirstTimestamp := Some at\<rparr> else t)
      in case ct_LastTimestamp t of None \<Rightarrow> t\<lparr>ct_LastTimestamp := Some at\<rparr>
         | Some l \<Rightarrow> if at > l then t\<lparr>ct_LastTimestamp := Some at\<rparr> else t)"

definition observe :: "'f float64 \<Rightarrow> (string \<Rightarrow> int option) \<Rightarrow> string \<Rightarrow> 'f catalystLogTimingBuilder \<Rightarrow> 'f catalystLogTimingBuilder" where
  "observe fl parse line b =
     (let line = TrimSpace line; t = lb_timing b
      in if line = [] then b
         else let t = t\<lparr>ct_ParsedLines := ct_ParsedLines t + 1\<rparr>
              in case catalystLogTimestamp parse line of
                   None \<Rightarrow> b\<lparr>lb_timing := t\<rparr>
                 | Some at \<Rightarrow>
                     let b = b\<lparr>lb_timing := stamp at t\<rparr>
                     in if Contains line ''starting to send transactions for block'' then send_start line at b
                        else if Contains line ''completed sending transactions for block'' then send_complete fl line at b
                        else if Contains line ''received new block event'' then block_event line at b
                        else if Contains line ''processing block'' then block_processing fl parse line at b
                        else if Contains line ''processed block'' then block_processed fl line at b
                        else b)"

definition timing_notes :: "'f catalystLogTimingBuilder \<Rightarrow> string list" where
  "timing_notes b =
     (if ct_LogTruncated (lb_timing b) then
        [''task logs were truncated before parsing; counts and totals cover retained log lines only''] else []) @
     (if lb_sendStarts b \<noteq> [] then
        [Itoa (int (length (lb_sendStarts b))) @ '' send start events did not have retained completion events''] else []) @
     (if lb_unmatchedSendCompletes b > 0 then
        [Itoa (int (lb_unmatchedSendCompletes b)) @ '' send completion events did not have retained start events and were excluded from send tx/s'']
      else []) @
     (if lb_blockProcessing b \<noteq> [] then
        [Itoa (int (length (lb_blockProcessing b))) @ '' block processing events did not have retained processed events''] else [])"

definition build_timing :: "'f float64 \<Rightarrow> 'f catalystLogTimingBuilder \<Rightarrow> 'f catalystLogTiming option result" where
  "build_timing fl b =
     (let t = lb_timing b;
          t = (case (ct_FirstTimestamp t, ct_LastTimestamp t) of
                 (Some f, Some l) \<Rightarrow> if \<not> l < f then t\<lparr>ct_LogSpanSeconds := fl_Seconds fl (Sub l f)\<rparr> else t
               | _ \<Rightarrow> t)
      in and_then (summarizeDurations fl (lb_sendDurations b)) (\<lambda>sends.
         and_then (summarizeDurations fl (lb_eventToProcessing b)) (\<lambda>events.
         and_then (summarizeDurations fl (lb_processingToProcessed b)) (\<lambda>processed.
         and_then (summarizeDurations fl (lb_chainTimestampToProcess b)) (\<lambda>chain.
           let t = t\<lparr>ct_SendDurations := sends,
                 ct_SendTxsPerSecond := (case sends of
                    Some d \<Rightarrow> if fl_pos fl (ds_TotalSeconds d)
                              then fl_div fl (fl_of_int fl (ct_SendMatchedTxsTotal t)) (ds_TotalSeconds d) else ct_SendTxsPerSecond t
                  | None \<Rightarrow> ct_SendTxsPerSecond t),
                 ct_BlockEventToProcessingDurations := events, ct_BlockProcessingToProcessedDurations := processed,
                 ct_ChainTimestampToProcessingDurations := chain, ct_Notes := ct_Notes t @ timing_notes b\<rparr>
           in Inr (if ct_TimestampedLines t = 0 \<or>
                      (ct_SendStartEvents t = 0 \<and> ct_SendCompleteEvents t = 0 \<and> ct_BlockEventEvents t = 0 \<and>
                       ct_BlockProcessingEvents t = 0 \<and> ct_BlockProcessedEvents t = 0)
                   then None else Some t))))))"

section \<open>The summary\<close>

record 'f runnerLogOverall =
  ro_TotalTransactions :: int
  ro_TotalIncludedTransactions :: int
  ro_SuccessfulTransactions :: int
  ro_FailedTransactions :: int
  ro_TPS :: 'f

definition parseRunnerOverall :: "'f float64 \<Rightarrow> string \<Rightarrow> 'f runnerLogOverall option" where
  "parseRunnerOverall fl line =
     (let out = \<lparr> ro_TotalTransactions = intField line ''TotalTransactions'',
            ro_TotalIncludedTransactions = intField line ''TotalIncludedTransactions'',
            ro_SuccessfulTransactions = intField line ''SuccessfulTransactions'',
            ro_FailedTransactions = intField line ''FailedTransactions'', ro_TPS = floatField fl line ''TPS'' \<rparr>
      in if ro_TotalTransactions out = 0 \<and> ro_TotalIncludedTransactions out = 0 \<and> fl_eq fl (ro_TPS out) (fl_zero fl) then None
         else Some out)"

record 'f loadTestLogSummary =
  ls_SendingEvents :: nat
  ls_SendingTxsTotal :: int
  ls_BuiltBatchEvents :: nat
  ls_FailedSendTotal :: nat
  ls_FailedSendErrors :: "logErrorCount list"
  ls_GoRoutinesCompletedTotal :: int
  ls_CollectorTxs :: int
  ls_CollectorStartingBlock :: uint64
  ls_CollectorEndingBlock :: uint64
  ls_RunnerOverall :: "'f runnerLogOverall option"
  ls_CatalystTiming :: "'f catalystLogTiming option"

definition no_log_summary :: "'f loadTestLogSummary" where
  "no_log_summary = \<lparr> ls_SendingEvents = 0, ls_SendingTxsTotal = 0, ls_BuiltBatchEvents = 0, ls_FailedSendTotal = 0,
     ls_FailedSendErrors = [], ls_GoRoutinesCompletedTotal = 0, ls_CollectorTxs = 0, ls_CollectorStartingBlock = 0,
     ls_CollectorEndingBlock = 0, ls_RunnerOverall = None, ls_CatalystTiming = None \<rparr>"

definition count_error :: "string \<Rightarrow> int gomap \<Rightarrow> int gomap" where
  "count_error k m = mput k ((case mget m k of None \<Rightarrow> 0 | Some n \<Rightarrow> n) + 1) m"

definition apply_if :: "bool \<Rightarrow> ('s \<Rightarrow> 's) \<Rightarrow> 's \<Rightarrow> 's" where
  "apply_if c f s = (if c then f s else s)"

definition summary_line :: "'f float64 \<Rightarrow> string \<Rightarrow> 'f loadTestLogSummary \<times> int gomap \<Rightarrow> 'f loadTestLogSummary \<times> int gomap" where
  "summary_line fl line acc =
     (let s = fst acc; counts = snd acc;
          s = apply_if (Contains line ''Sending txs'')
                (\<lambda>s. s\<lparr>ls_SendingEvents := ls_SendingEvents s + 1,
                      ls_SendingTxsTotal := wrap64 (ls_SendingTxsTotal s + intField line ''num_txs'')\<rparr>) s;
          s = apply_if (Contains line ''built batch '') (\<lambda>s. s\<lparr>ls_BuiltBatchEvents := ls_BuiltBatchEvents s + 1\<rparr>) s;
          failed = Contains line ''failed to send tx'';
          s = (if failed then s\<lparr>ls_FailedSendTotal := ls_FailedSendTotal s + 1\<rparr> else s);
          errText = stringField line ''error'';
          errText = (if errText = [] then ''unknown'' else errText);
          counts = (if failed then count_error (normalizeLogError errText) counts else counts);
          s = apply_if (Contains line ''go routines have completed'')
                (\<lambda>s. s\<lparr>ls_GoRoutinesCompletedTotal := intField line ''total_txs''\<rparr>) s;
          s = apply_if (Contains line ''Collecting metrics'')
                (\<lambda>s. let n = intField line ''num_txs'' in if n > 0 then s\<lparr>ls_CollectorTxs := n\<rparr> else s) s;
          s = apply_if (Contains line ''starting_block'')
                (\<lambda>s. s\<lparr>ls_CollectorStartingBlock := uint64_of_int (intField line ''starting_block''),
                      ls_CollectorEndingBlock := uint64_of_int (intField line ''ending_block'')\<rparr>) s;
          s = apply_if (Contains line ''runner results'') (\<lambda>s. s\<lparr>ls_RunnerOverall := parseRunnerOverall fl line\<rparr>) s
      in (s, counts))"

definition summarizeLoadTestLogs :: "'f float64 \<Rightarrow> (string \<Rightarrow> int option) \<Rightarrow> string \<Rightarrow> 'f loadTestLogSummary result" where
  "summarizeLoadTestLogs fl parse logs =
     (if logs = [] then Inr no_log_summary
      else let ls = Split (CHR 0x0A) logs;
               timing = fold (observe fl parse) ls (newCatalystLogTiming fl logs);
               (s, counts) = fold (summary_line fl) ls (no_log_summary, [])
           in and_then (build_timing fl timing) (\<lambda>built.
                let s = (if counts \<noteq> [] then s\<lparr>ls_FailedSendErrors := topLogErrors counts 8\<rparr> else s)
                in Inr (case built of Some t \<Rightarrow> s\<lparr>ls_CatalystTiming := Some t\<rparr> | None \<Rightarrow> s)))"

section \<open>The counts add up\<close>

text \<open>What every line keeps: a completed send is matched with its start or counted as unmatched, and each start is
  matched at most once; likewise for blocks.\<close>

definition log_inv :: "'f catalystLogTimingBuilder \<Rightarrow> bool" where
  "log_inv b \<longleftrightarrow> (let t = lb_timing b in
     distinct (map fst (lb_sendStarts b)) \<and> distinct (map fst (lb_blockProcessing b)) \<and>
     ct_SendCompleteEvents t = length (lb_sendDurations b) + lb_unmatchedSendCompletes b \<and>
     length (lb_sendDurations b) + length (lb_sendStarts b) \<le> ct_SendStartEvents t \<and>
     length (lb_processingToProcessed b) + length (lb_blockProcessing b) \<le> ct_BlockProcessingEvents t \<and>
     length (lb_processingToProcessed b) \<le> ct_BlockProcessedEvents t \<and>
     length (lb_eventToProcessing b) \<le> ct_BlockProcessingEvents t \<and>
     ct_TimestampedLines t \<le> ct_ParsedLines t)"

lemma length_update: "length (AList.update k v m) \<le> Suc (length m)"
  by (induction m) auto

lemma length_delete: "distinct (map fst m) \<Longrightarrow> map_of m k = Some v \<Longrightarrow> Suc (length (AList.delete k m)) = length m"
proof (induction m)
  case (Cons x m)
  show ?case
  proof (cases "fst x = k")
    case True
    then have "AList.delete k m = m" using Cons.prems by (intro delete_id) auto
    then show ?thesis using True by (cases x) simp
  next
    case False
    then show ?thesis using Cons by (cases x) auto
  qed
qed simp

lemma since_length: "length (since fl at s) \<le> 1" "since fl at s \<noteq> [] \<Longrightarrow> \<exists>v. s = Some v \<and> length (since fl at s) = 1"
  by (auto simp: since_def split: option.splits if_splits)

lemma stamp_simps [simp]:
  "ct_SendCompleteEvents (stamp at t) = ct_SendCompleteEvents t" "ct_SendStartEvents (stamp at t) = ct_SendStartEvents t"
  "ct_BlockProcessingEvents (stamp at t) = ct_BlockProcessingEvents t" "ct_BlockProcessedEvents (stamp at t) = ct_BlockProcessedEvents t"
  "ct_TimestampedLines (stamp at t) = Suc (ct_TimestampedLines t)" "ct_ParsedLines (stamp at t) = ct_ParsedLines t"
  by (simp_all add: stamp_def Let_def split: option.splits)

lemma send_start_inv: "log_inv b \<Longrightarrow> log_inv (send_start line at b)"
  using length_update[of "intField line ''block_number''" at "lb_sendStarts b"]
  by (auto simp: log_inv_def send_start_def Let_def distinct_update)

lemma send_complete_inv:
  assumes b: "log_inv b"
  shows "log_inv (send_complete fl line at b)"
proof (cases "map_of (lb_sendStarts b) (intField line ''block_number'')")
  case None
  then show ?thesis using b by (auto simp: log_inv_def send_complete_def Let_def)
next
  case (Some s)
  have "Suc (length (AList.delete (intField line ''block_number'') (lb_sendStarts b))) = length (lb_sendStarts b)"
    using length_delete[OF _ Some] b by (simp add: log_inv_def Let_def)
  then show ?thesis using b Some by (auto simp: log_inv_def send_complete_def Let_def distinct_delete)
qed

lemma block_event_inv: "log_inv b \<Longrightarrow> log_inv (block_event line at b)"
  by (auto simp: log_inv_def block_event_def Let_def)

lemma block_processing_inv: "log_inv b \<Longrightarrow> log_inv (block_processing fl parse line at b)"
  using length_update[of "intField line ''height''" at "lb_blockProcessing b"]
    since_length(1)[of fl at "map_of (lb_blockEvents b) (intField line ''height'')"]
  by (auto simp: log_inv_def block_processing_def Let_def distinct_update)

lemma block_processed_inv:
  assumes b: "log_inv b"
  shows "log_inv (block_processed fl line at b)"
proof (cases "since fl at (map_of (lb_blockProcessing b) (intField line ''height'')) = []")
  case True
  then show ?thesis using b by (auto simp: log_inv_def block_processed_def Let_def)
next
  case False
  obtain v where v: "map_of (lb_blockProcessing b) (intField line ''height'') = Some v"
    "length (since fl at (map_of (lb_blockProcessing b) (intField line ''height''))) = 1" using since_length(2)[OF False] by blast
  have "Suc (length (AList.delete (intField line ''height'') (lb_blockProcessing b))) = length (lb_blockProcessing b)"
    using length_delete[OF _ v(1)] b by (simp add: log_inv_def Let_def)
  then show ?thesis using b False v(2) by (auto simp: log_inv_def block_processed_def Let_def distinct_delete)
qed

lemma observe_inv: "log_inv b \<Longrightarrow> log_inv (observe fl parse line b)"
proof -
  assume b: "log_inv b"
  have "log_inv (b\<lparr>lb_timing := lb_timing b\<lparr>ct_ParsedLines := ct_ParsedLines (lb_timing b) + 1\<rparr>\<rparr>)"
    "log_inv (b\<lparr>lb_timing := stamp at (lb_timing b\<lparr>ct_ParsedLines := ct_ParsedLines (lb_timing b) + 1\<rparr>)\<rparr>)" for at
    using b by (auto simp: log_inv_def Let_def)
  then show ?thesis
    using b by (auto simp: observe_def Let_def split: option.split intro: send_start_inv send_complete_inv block_event_inv
        block_processing_inv block_processed_inv)
qed

text \<open>The lines parsed are the lines of the log that are not blank.\<close>

lemma parsed_unchanged [simp]:
  "ct_ParsedLines (lb_timing (send_start line at b)) = ct_ParsedLines (lb_timing b)"
  "ct_ParsedLines (lb_timing (send_complete fl line at b)) = ct_ParsedLines (lb_timing b)"
  "ct_ParsedLines (lb_timing (block_event line at b)) = ct_ParsedLines (lb_timing b)"
  "ct_ParsedLines (lb_timing (block_processing fl parse line at b)) = ct_ParsedLines (lb_timing b)"
  "ct_ParsedLines (lb_timing (block_processed fl line at b)) = ct_ParsedLines (lb_timing b)"
  by (auto simp: send_start_def send_complete_def block_event_def block_processing_def block_processed_def Let_def split: option.splits)

lemma observe_parsed:
  "ct_ParsedLines (lb_timing (observe fl parse line b)) = ct_ParsedLines (lb_timing b) + (if TrimSpace line = [] then 0 else 1)"
  by (simp add: observe_def Let_def split: option.split)

lemma observe_all:
  "log_inv b \<Longrightarrow> log_inv (fold (observe fl parse) ls b) \<and> ct_ParsedLines (lb_timing (fold (observe fl parse) ls b)) =
     ct_ParsedLines (lb_timing b) + length (filter (\<lambda>l. TrimSpace l \<noteq> []) ls)"
  by (induction ls arbitrary: b) (simp_all add: observe_inv observe_parsed)

lemma new_timing_inv: "log_inv (newCatalystLogTiming fl logs)"
  by (simp add: log_inv_def newCatalystLogTiming_def)

text \<open>The counts of errors sum to the number of failed sends.\<close>

lemma sum_update:
  fixes f :: "int gomap"
  shows "distinct (keys f) \<Longrightarrow>
     sum_list (map snd (mput k v f)) = sum_list (map snd f) + v - (case mget f k of None \<Rightarrow> 0 | Some w \<Rightarrow> w)"
  by (induction f) (auto simp: map_of_eq_None_iff split: option.splits)

lemma sum_count_error: "distinct (keys m) \<Longrightarrow> sum_list (map snd (count_error k m)) = sum_list (map snd m) + 1"
  by (simp add: count_error_def sum_update split: option.split)

lemma update_subset: "set (AList.update k v m) \<subseteq> insert (k, v) (set m)"
  by (induction m) auto

lemma count_error_pos: "\<forall>v \<in> snd ` set m. 0 < v \<Longrightarrow> \<forall>v \<in> snd ` set (count_error k m). 0 < v"
  using update_subset[of k _ m] by (fastforce simp: count_error_def split: option.splits dest: map_of_SomeD)

definition errors_add_up :: "'f loadTestLogSummary \<times> int gomap \<Rightarrow> bool" where
  "errors_add_up acc \<longleftrightarrow> distinct (keys (snd acc)) \<and> (\<forall>v \<in> snd ` set (snd acc). 0 < v) \<and>
     sum_list (map snd (snd acc)) = int (ls_FailedSendTotal (fst acc))"

lemma apply_if_keeps [simp]:
  "(\<And>s. ls_FailedSendTotal (f s) = ls_FailedSendTotal s) \<Longrightarrow> ls_FailedSendTotal (apply_if c f s) = ls_FailedSendTotal s"
  "(\<And>s. ls_FailedSendErrors (f s) = ls_FailedSendErrors s) \<Longrightarrow> ls_FailedSendErrors (apply_if c f s) = ls_FailedSendErrors s"
  "(\<And>s. ls_CatalystTiming (f s) = ls_CatalystTiming s) \<Longrightarrow> ls_CatalystTiming (apply_if c f s) = ls_CatalystTiming s"
  by (simp_all add: apply_if_def)

lemma summary_line_effect:
  "ls_FailedSendTotal (fst (summary_line fl line acc)) =
     ls_FailedSendTotal (fst acc) + (if Contains line ''failed to send tx'' then 1 else 0)"
  "\<exists>k. snd (summary_line fl line acc) = (if Contains line ''failed to send tx'' then count_error k (snd acc) else snd acc)"
  "ls_FailedSendErrors (fst (summary_line fl line acc)) = ls_FailedSendErrors (fst acc)"
  "ls_CatalystTiming (fst (summary_line fl line acc)) = ls_CatalystTiming (fst acc)"
  by (auto simp: summary_line_def Let_def)

lemma summary_lines_keep:
  "ls_FailedSendErrors (fst (fold (summary_line fl) ls acc)) = ls_FailedSendErrors (fst acc)"
  "ls_CatalystTiming (fst (fold (summary_line fl) ls acc)) = ls_CatalystTiming (fst acc)"
  by (induction ls arbitrary: acc) (simp_all add: summary_line_effect)

lemma summary_line_adds_up:
  assumes "errors_add_up acc"
  shows "errors_add_up (summary_line fl line acc)"
proof -
  obtain k where k: "snd (summary_line fl line acc) = (if Contains line ''failed to send tx'' then count_error k (snd acc) else snd acc)"
    using summary_line_effect(2) by blast
  have a: "distinct (keys (snd acc))" "\<forall>v \<in> snd ` set (snd acc). 0 < v" "sum_list (map snd (snd acc)) = int (ls_FailedSendTotal (fst acc))"
    using assms unfolding errors_add_up_def by blast+
  have "distinct (keys (count_error k (snd acc)))" using a(1) by (simp add: count_error_def distinct_keys_mput)
  then show ?thesis unfolding errors_add_up_def k summary_line_effect(1)
    using a count_error_pos[OF a(2), of k] sum_count_error[OF a(1), of k] by simp
qed

lemma summary_adds_up: "errors_add_up acc \<Longrightarrow> errors_add_up (fold (summary_line fl) ls acc)"
  by (induction ls arbitrary: acc) (simp_all add: summary_line_adds_up)

lemma sum_take: "\<forall>v \<in> set (xs :: int list). 0 < v \<Longrightarrow> sum_list (take n xs) \<le> sum_list xs"
  using sum_list_nonneg[of "drop n xs"] append_take_drop_id[of n xs] in_set_dropD[of _ n xs]
  by (metis add_increasing2 dual_order.refl order_less_imp_le sum_list_append)

lemma top_errors_sum:
  assumes "\<forall>v \<in> snd ` set m. 0 < v"
  shows "sum_list (map le_Count (topLogErrors m n)) \<le> sum_list (map snd m)"
    "length m \<le> n \<Longrightarrow> sum_list (map le_Count (topLogErrors m n)) = sum_list (map snd m)"
proof -
  let ?xs = "sort_key (\<lambda>e. (- le_Count e, le_Error e)) (map (\<lambda>(t, c). \<lparr> le_Error = t, le_Count = c \<rparr>) m)"
  have ms: "mset (map le_Count ?xs) = mset (map snd m)"
    by (simp add: image_mset.compositionality comp_def case_prod_beta)
  have s: "sum_list (map le_Count ?xs) = sum_list (map snd m)"
    using arg_cong[OF ms, of sum_mset] unfolding sum_mset_sum_list .
  have "set (map le_Count ?xs) = set (map snd m)" using arg_cong[OF ms, of set_mset] unfolding set_mset_mset .
  then have "\<forall>v \<in> set (map le_Count ?xs). 0 < v" using assms by simp
  from sum_take[OF this, of n] show "sum_list (map le_Count (topLogErrors m n)) \<le> sum_list (map snd m)"
    unfolding topLogErrors_def take_map s .
  show "length m \<le> n \<Longrightarrow> sum_list (map le_Count (topLogErrors m n)) = sum_list (map snd m)"
    using s by (simp add: topLogErrors_def)
qed

definition stats_count :: "'f durationStats option \<Rightarrow> nat" where
  "stats_count d = (case d of None \<Rightarrow> 0 | Some st \<Rightarrow> ds_Count st)"

lemma summarize_count:
  assumes "mset (fl_Float64s fl values) = mset values"
  shows "\<exists>d. summarizeDurations fl values = Inr d \<and> stats_count d = length values"
proof (cases "values = []")
  case True
  then show ?thesis by (simp add: summarizeDurations_def stats_count_def)
next
  case False
  from summarizeDurations_total[OF this assms] show ?thesis by (auto simp: stats_count_def)
qed

text \<open>What a timing reports of a log: sends and blocks are counted once.\<close>

definition timing_adds_up :: "string list \<Rightarrow> 'f catalystLogTiming \<Rightarrow> bool" where
  "timing_adds_up ls t \<longleftrightarrow>
     stats_count (ct_SendDurations t) \<le> ct_SendStartEvents t \<and> stats_count (ct_SendDurations t) \<le> ct_SendCompleteEvents t \<and>
     stats_count (ct_BlockProcessingToProcessedDurations t) \<le> ct_BlockProcessingEvents t \<and>
     stats_count (ct_BlockProcessingToProcessedDurations t) \<le> ct_BlockProcessedEvents t \<and>
     stats_count (ct_BlockEventToProcessingDurations t) \<le> ct_BlockProcessingEvents t \<and>
     ct_TimestampedLines t \<le> ct_ParsedLines t \<and> ct_ParsedLines t = length (filter (\<lambda>l. TrimSpace l \<noteq> []) ls)"

lemma build_timing_adds_up:
  assumes law: "\<forall>values. mset (fl_Float64s fl values) = mset values" and inv: "log_inv b"
    and parsed: "ct_ParsedLines (lb_timing b) = length (filter (\<lambda>l. TrimSpace l \<noteq> []) ls)"
  shows "\<exists>r. build_timing fl b = Inr r \<and> (\<forall>t. r = Some t \<longrightarrow> timing_adds_up ls t)"
proof -
  obtain s e p c where "summarizeDurations fl (lb_sendDurations b) = Inr s" "stats_count s = length (lb_sendDurations b)"
    "summarizeDurations fl (lb_eventToProcessing b) = Inr e" "stats_count e = length (lb_eventToProcessing b)"
    "summarizeDurations fl (lb_processingToProcessed b) = Inr p" "stats_count p = length (lb_processingToProcessed b)"
    "summarizeDurations fl (lb_chainTimestampToProcess b) = Inr c"
    using summarize_count law by metis
  then show ?thesis using inv parsed
    by (auto simp: build_timing_def Let_def timing_adds_up_def log_inv_def split: option.splits)
qed



end
