(* ===== verification/Report_Signals.thy ===== *)
theory Report_Signals
  imports Report_Metrics Report_Logs
begin

text \<open>
  What the report runner of \<open>cmd/local-report-runner/main.go\<close> concludes from a validator's counters: the storage
  signals of a run or a load window, the timings per module, consensus step and commit stage, the TreeDB timings,
  and the transaction counts the application's own metrics show. \<open>sort.Slice\<close>, which may order equal elements either
  way, keeps their order here.
\<close>

section \<open>Sorting\<close>

fun insert_by :: "('a \<Rightarrow> 'a \<Rightarrow> bool) \<Rightarrow> 'a \<Rightarrow> 'a list \<Rightarrow> 'a list" where
  "insert_by before x [] = [x]"
| "insert_by before x (y # ys) = (if before y x then y # insert_by before x ys else x # y # ys)"

definition sort_Slice :: "('a \<Rightarrow> 'a \<Rightarrow> bool) \<Rightarrow> 'a list \<Rightarrow> 'a list" where
  "sort_Slice before xs = foldr (insert_by before) xs []"

lemma mset_insert_by [simp]: "mset (insert_by before x ys) = add_mset x (mset ys)"
  by (induction ys) auto

lemma mset_sort_Slice [simp]: "mset (sort_Slice before xs) = mset xs"
  unfolding sort_Slice_def by (induction xs) auto

lemma set_sort_Slice [simp]: "set (sort_Slice before xs) = set xs"
  by (metis mset_sort_Slice set_mset_mset)

section \<open>Data\<close>

record 'f cadenceStage =
  cs_Name :: string
  cs_Parent :: string
  cs_Class :: string
  cs_Source :: string
  cs_Provenance :: string
  cs_Seconds :: 'f
  cs_Count :: int
  cs_AvgSeconds :: 'f
  cs_PerBlockSeconds :: 'f
  cs_IncludedInResidual :: bool
  cs_MissingReason :: string
  cs_Note :: string

record 'f moduleTiming =
  mt_Phase :: string
  mt_Module :: string
  mt_Seconds :: 'f
  mt_Count :: int
  mt_AvgSeconds :: 'f

text \<open>The fields of \<open>storageSignal\<close> in groups: the ABCI methods, the other counters, and the sizes on disk.\<close>

record 'f abci_signal =
  ss_ABCIObservedSeconds :: 'f
  ss_ABCICommitSeconds :: 'f
  ss_ABCIFinalizeBlockSeconds :: 'f
  ss_ABCICheckTxSeconds :: 'f
  ss_ABCIPrepareProposalSeconds :: 'f
  ss_ABCIProcessProposalSeconds :: 'f
  ss_ABCIQuerySeconds :: 'f
  ss_ABCIFlushSeconds :: 'f
  ss_ABCIOtherSeconds :: 'f
  ss_ABCICommitCount :: int
  ss_ABCIFinalizeBlockCount :: int
  ss_ABCICheckTxCount :: int
  ss_ABCIPrepareProposalCount :: int
  ss_ABCIProcessProposalCount :: int
  ss_ABCIQueryCount :: int
  ss_ABCIFlushCount :: int
  ss_AvgCommitSeconds :: 'f
  ss_AvgFinalizeBlockSeconds :: 'f
  ss_CommitShareOfObservedABCI :: 'f
  ss_CommitShareOfCommitPlusFinalize :: 'f

record 'f counter_signal =
  ss_StateBlockProcessingSumRaw :: 'f
  ss_StateBlockProcessingSeconds :: 'f
  ss_StateBlockProcessingCount :: int
  ss_StateBlockProcessingAvgSeconds :: 'f
  ss_BlockStoreWriteSeconds :: 'f
  ss_BlockStoreWriteCount :: int
  ss_BlockStoreWriteAvgSeconds :: 'f
  ss_TxIndexWriteSeconds :: 'f
  ss_TxIndexWriteCount :: int
  ss_TxIndexWriteAvgSeconds :: 'f
  ss_TxIndexIndexedTxsDelta :: 'f
  ss_ConsensusBlockIntervalSeconds :: 'f
  ss_ConsensusBlockIntervalCount :: int
  ss_ConsensusTotalTxsDelta :: 'f
  ss_MempoolSuccessfulTxsDelta :: 'f
  ss_SDKTxCountDelta :: 'f
  ss_SDKTxSuccessfulDelta :: 'f
  ss_ProcessCPUSecondsDelta :: 'f

record size_signal =
  ss_DataDirBytesBefore :: uint64
  ss_DataDirBytesAfter :: uint64
  ss_DataDirBytesDelta :: "64 word"
  ss_ApplicationDBBytesBefore :: uint64
  ss_ApplicationDBBytesAfter :: uint64
  ss_ApplicationDBBytesDelta :: "64 word"

record 'f storageSignal =
  ss_Name :: string
  ss_abci :: "'f abci_signal"
  ss_counters :: "'f counter_signal"
  ss_sizes :: size_signal
  ss_ModuleTimings :: "'f moduleTiming list"
  ss_ConsensusStepTimings :: "'f cadenceStage list"
  ss_ExactCommitStageTimings :: "'f cadenceStage list"

section \<open>Stages and modules\<close>

text \<open>\<open>seconds / float64(count)\<close> where the count is positive.\<close>

definition per :: "'f float64 \<Rightarrow> 'f \<Rightarrow> int \<Rightarrow> 'f" where
  "per fl x n = (if n > 0 then fl_div fl x (fl_of_int fl n) else fl_zero fl)"

definition exactCommitMetricSpecs :: "(string \<times> string \<times> string \<times> string \<times> string) list" where
  "exactCommitMetricSpecs =
     [(''consensus commit'', [], ''consensus_commit'', ''cometbft_consensus_commit_finalize_seconds'',
        ''full finalizeCommit path before the NewHeight transition completes''),
      (''commit blockstore'', ''consensus commit'', ''node_db_blockstore'', ''cometbft_consensus_commit_block_store_seconds'',
        ''synchronous blockstore SaveBlock inside consensus commit''),
      (''commit blockstore lock'', ''consensus commit'', ''consensus_lock'', ''cometbft_consensus_commit_block_store_lock_seconds'',
        ''Celestia Core consensus lock reacquisition after SaveBlock''),
      (''commit consensus WAL'', ''consensus commit'', ''consensus_wal'', ''cometbft_consensus_commit_consensus_wal_seconds'',
        ''synchronous end-height consensus WAL record''),
      (''commit apply block'', ''consensus commit'', ''block_execution'', ''cometbft_consensus_commit_apply_block_seconds'',
        ''state executor ApplyVerifiedBlock call''),
      (''commit apply block lock'', ''consensus commit'', ''consensus_lock'', ''cometbft_consensus_commit_apply_block_lock_seconds'',
        ''Celestia Core consensus lock reacquisition after ApplyVerifiedBlock''),
      (''commit record metrics'', ''consensus commit'', ''consensus_bookkeeping'', ''cometbft_consensus_commit_record_metrics_seconds'',
        ''post-commit consensus metric recording''),
      (''commit update consensus state'', ''consensus commit'', ''consensus_bookkeeping'', ''cometbft_consensus_commit_update_state_seconds'',
        ''transition to the next consensus NewHeight state''),
      (''state apply block'', ''commit apply block'', ''block_execution'', ''cometbft_state_apply_block_seconds'',
        ''complete state executor ApplyVerifiedBlock path''),
      (''state finalize block'', ''state apply block'', ''abci_block_execution'', ''cometbft_state_finalize_block_seconds'',
        ''FinalizeBlock call through the consensus ABCI connection''),
      (''state save finalize response'', ''state apply block'', ''state_persistence'', ''cometbft_state_save_finalize_block_response_seconds'',
        ''persist FinalizeBlock response''),
      (''state save tx info'', ''state apply block'', ''node_db_blockstore'', ''cometbft_state_save_tx_info_seconds'',
        ''persist Celestia per-transaction blockstore lookup records with one synchronous batch per block''),
      (''state update'', ''state apply block'', ''state_transition'', ''cometbft_state_update_state_seconds'',
        ''derive the next in-memory consensus state''),
      (''state block commit'', ''state apply block'', ''app_commit'', ''cometbft_state_block_commit_seconds'',
        ''BlockExecutor.Commit including mempool synchronization''),
      (''mempool lock wait'', ''state block commit'', ''mempool_contention'', ''cometbft_state_mempool_lock_wait_seconds'',
        ''time waiting to acquire the mempool lock''),
      (''mempool lock held'', ''state block commit'', ''mempool_contention'', ''cometbft_state_mempool_lock_held_seconds'',
        ''inclusive lock hold; overlaps flush, app commit, and mempool update children''),
      (''flush app connection'', ''mempool lock held'', ''abci_flush'', ''cometbft_state_flush_app_conn_seconds'',
        ''flush outstanding mempool ABCI requests before app commit''),
      (''state app commit'', ''mempool lock held'', ''abci_commit'', ''cometbft_state_app_commit_seconds'', ''ABCI Commit call''),
      (''mempool update'', ''mempool lock held'', ''mempool_update'', ''cometbft_state_mempool_update_seconds'',
        ''mempool update after app commit''),
      (''evidence update'', ''state apply block'', ''evidence'', ''cometbft_state_evidence_update_seconds'',
        ''evidence pool update after app commit''),
      (''state save'', ''state apply block'', ''node_db_state'', ''cometbft_state_state_save_seconds'',
        ''persist post-commit consensus state''),
      (''fire events'', ''state apply block'', ''event_delivery'', ''cometbft_state_fire_events_seconds'',
        ''publish block and transaction events; unbuffered subscribers can apply backpressure''),
      (''tx index block total'', [], ''async_tx_index'', ''cometbft_tx_indexer_block_total_seconds'',
        ''asynchronous end-to-end indexing for one block; not an additive consensus-commit child''),
      (''tx index gather events'', ''tx index block total'', ''async_tx_index'', ''cometbft_tx_indexer_gather_events_seconds'',
        ''receive all block transaction events''),
      (''tx index block write'', ''tx index block total'', ''node_db_tx_index'', ''cometbft_tx_indexer_block_index_seconds'',
        ''write one block to the block index''),
      (''tx index tx write'', ''tx index block total'', ''node_db_tx_index'', ''cometbft_tx_indexer_tx_index_seconds'',
        ''write one transaction batch to the transaction index'')]"

definition summarizeExactCommitStageTimings :: "'f float64 \<Rightarrow> 'f gomap \<Rightarrow> 'f cadenceStage list" where
  "summarizeExactCommitStageTimings fl deltas =
     concat (map (\<lambda>(name, parent, class, metric, note).
       let seconds = sumMetricDeltas fl deltas (metric @ ''_sum'');
           count = fl_trunc fl (sumMetricDeltas fl deltas (metric @ ''_count''))
       in if fl_eq fl seconds (fl_zero fl) \<and> count = 0 then []
          else [\<lparr> cs_Name = name, cs_Parent = parent, cs_Class = class, cs_Source = metric,
                  cs_Provenance = ''exact_prometheus_span_delta'', cs_Seconds = seconds, cs_Count = count,
                  cs_AvgSeconds = per fl seconds count, cs_PerBlockSeconds = fl_zero fl, cs_IncludedInResidual = False,
                  cs_MissingReason = [], cs_Note = note \<rparr>]) exactCommitMetricSpecs)"

definition module_row :: "'f float64 \<Rightarrow> 'f gomap \<Rightarrow> string \<Rightarrow> string \<times> 'f \<Rightarrow> 'f moduleTiming list" where
  "module_row fl deltas phase kv =
     (let (key, seconds) = kv
      in if prometheusMetricName key \<noteq> phase @ ''_sum'' \<or> fl_le fl seconds (fl_zero fl) then []
         else let m = labelValue key ''module''; m = (if m = [] then ''unknown'' else m);
                  count = fl_trunc fl (metricDeltaWithLabel fl deltas (phase @ ''_count'') ''module'' m)
              in [\<lparr> mt_Phase = phase, mt_Module = m, mt_Seconds = seconds, mt_Count = count, mt_AvgSeconds = per fl seconds count \<rparr>])"

definition summarizeModuleTimings :: "'f float64 \<Rightarrow> 'f gomap \<Rightarrow> 'f moduleTiming list" where
  "summarizeModuleTimings fl deltas =
     sort_Slice (\<lambda>a b. if fl_eq fl (mt_Seconds a) (mt_Seconds b)
                       then (if mt_Phase a = mt_Phase b then mt_Module a < mt_Module b else mt_Phase a < mt_Phase b)
                       else fl_less fl (mt_Seconds b) (mt_Seconds a))
       (concat (map (\<lambda>phase. concat (map (module_row fl deltas phase) deltas)) [''begin_blocker'', ''end_blocker'']))"

definition step_row :: "'f float64 \<Rightarrow> 'f gomap \<Rightarrow> string \<times> 'f \<Rightarrow> 'f cadenceStage list" where
  "step_row fl deltas kv =
     (let (key, seconds) = kv
      in if prometheusMetricName key \<noteq> ''cometbft_consensus_step_duration_seconds_sum'' \<or> fl_le fl seconds (fl_zero fl) then []
         else let step = labelValue key ''step''; step = (if step = [] then ''unknown'' else step);
                  count = fl_trunc fl (metricDeltaWithLabel fl deltas ''cometbft_consensus_step_duration_seconds_count'' ''step'' step)
              in [\<lparr> cs_Name = step, cs_Parent = [], cs_Class = ''consensus_step'',
                    cs_Source = ''cometbft_consensus_step_duration_seconds'', cs_Provenance = ''prometheus_counter_delta'',
                    cs_Seconds = seconds, cs_Count = count, cs_AvgSeconds = per fl seconds count, cs_PerBlockSeconds = fl_zero fl,
                    cs_IncludedInResidual = False, cs_MissingReason = [],
                    cs_Note = ''consensus step counters are reported as attribution signals, not exclusive wall-time buckets'' \<rparr>])"

definition summarizeConsensusStepTimings :: "'f float64 \<Rightarrow> 'f gomap \<Rightarrow> 'f cadenceStage list" where
  "summarizeConsensusStepTimings fl deltas =
     sort_Slice (\<lambda>a b. if fl_eq fl (cs_Seconds a) (cs_Seconds b) then cs_Name a < cs_Name b else fl_less fl (cs_Seconds b) (cs_Seconds a))
       (concat (map (step_row fl deltas) deltas))"

section \<open>Storage signals\<close>

definition abci_signal_of :: "'f float64 \<Rightarrow> 'f gomap \<Rightarrow> 'f abci_signal" where
  "abci_signal_of fl deltas =
     (let observed = sumMetricDeltas fl deltas sum_name;
          seconds = (\<lambda>m. metricDeltaWithLabel fl deltas sum_name ''method'' m);
          count = (\<lambda>m. fl_trunc fl (metricDeltaWithLabel fl deltas count_name ''method'' m));
          commit = seconds ''commit''; finalize = seconds ''finalize_block''; checkTx = seconds ''check_tx'';
          prepare = seconds ''prepare_proposal''; process = seconds ''process_proposal''; query = seconds ''query'';
          flush = seconds ''flush''; total = fl_add fl commit finalize
      in \<lparr> ss_ABCIObservedSeconds = observed, ss_ABCICommitSeconds = commit, ss_ABCIFinalizeBlockSeconds = finalize,
           ss_ABCICheckTxSeconds = checkTx, ss_ABCIPrepareProposalSeconds = prepare, ss_ABCIProcessProposalSeconds = process,
           ss_ABCIQuerySeconds = query, ss_ABCIFlushSeconds = flush,
           ss_ABCIOtherSeconds = nonNegative fl (foldl (fl_sub fl) observed [commit, finalize, checkTx, prepare, process, query, flush]),
           ss_ABCICommitCount = count ''commit'', ss_ABCIFinalizeBlockCount = count ''finalize_block'',
           ss_ABCICheckTxCount = count ''check_tx'', ss_ABCIPrepareProposalCount = count ''prepare_proposal'',
           ss_ABCIProcessProposalCount = count ''process_proposal'', ss_ABCIQueryCount = count ''query'',
           ss_ABCIFlushCount = count ''flush'', ss_AvgCommitSeconds = per fl commit (count ''commit''),
           ss_AvgFinalizeBlockSeconds = per fl finalize (count ''finalize_block''),
           ss_CommitShareOfObservedABCI = (if fl_pos fl observed then fl_div fl commit observed else fl_zero fl),
           ss_CommitShareOfCommitPlusFinalize = (if fl_pos fl total then fl_div fl commit total else fl_zero fl) \<rparr>)"

definition counter_signal_of :: "'f float64 \<Rightarrow> 'f gomap \<Rightarrow> 'f counter_signal" where
  "counter_signal_of fl deltas =
     (let d = metricDelta fl deltas; n = (\<lambda>m. fl_trunc fl (metricDelta fl deltas m));
          raw = d ''cometbft_state_block_processing_time_sum''; stateCount = n ''cometbft_state_block_processing_time_count'';
          state = fl_div fl raw (fl_of_int fl 1000);
          store = d ''cometbft_consensus_commit_block_store_seconds_sum''; storeCount = n ''cometbft_consensus_commit_block_store_seconds_count'';
          index = d ''cometbft_tx_indexer_tx_index_seconds_sum''; indexCount = n ''cometbft_tx_indexer_tx_index_seconds_count''
      in \<lparr> ss_StateBlockProcessingSumRaw = raw, ss_StateBlockProcessingSeconds = state, ss_StateBlockProcessingCount = stateCount,
           ss_StateBlockProcessingAvgSeconds = per fl state stateCount, ss_BlockStoreWriteSeconds = store,
           ss_BlockStoreWriteCount = storeCount, ss_BlockStoreWriteAvgSeconds = per fl store storeCount,
           ss_TxIndexWriteSeconds = index, ss_TxIndexWriteCount = indexCount, ss_TxIndexWriteAvgSeconds = per fl index indexCount,
           ss_TxIndexIndexedTxsDelta = d ''cometbft_tx_indexer_indexed_txs_total'',
           ss_ConsensusBlockIntervalSeconds = d ''cometbft_consensus_block_interval_seconds_sum'',
           ss_ConsensusBlockIntervalCount = n ''cometbft_consensus_block_interval_seconds_count'',
           ss_ConsensusTotalTxsDelta = d ''cometbft_consensus_total_txs'',
           ss_MempoolSuccessfulTxsDelta = d ''cometbft_mempool_successful_txs'', ss_SDKTxCountDelta = d ''tx_count'',
           ss_SDKTxSuccessfulDelta = d ''tx_successful'', ss_ProcessCPUSecondsDelta = d ''process_cpu_seconds_total'' \<rparr>)"

definition size_change :: "uint64 gomap \<Rightarrow> uint64 gomap \<Rightarrow> string \<Rightarrow> uint64 \<times> uint64 \<times> 64 word" where
  "size_change before after path =
     ((case mget before path of Some b \<Rightarrow> b | None \<Rightarrow> 0), (case mget after path of Some a \<Rightarrow> a | None \<Rightarrow> 0),
      (case (mget before path, mget after path) of (Some b, Some a) \<Rightarrow> a - b | _ \<Rightarrow> 0))"

definition fillSizeDelta :: "string \<Rightarrow> dataPathSize list \<Rightarrow> dataPathSize list \<Rightarrow> size_signal" where
  "fillSizeDelta name beforeSizes afterSizes =
     (let change = size_change (pathSizesForName beforeSizes name) (pathSizesForName afterSizes name);
          (db, da, dd) = change ''/simd/data''; (ab, aa, ad) = change ''/simd/data/application.db''
      in \<lparr> ss_DataDirBytesBefore = db, ss_DataDirBytesAfter = da, ss_DataDirBytesDelta = dd,
           ss_ApplicationDBBytesBefore = ab, ss_ApplicationDBBytesAfter = aa, ss_ApplicationDBBytesDelta = ad \<rparr>)"

definition storage_signal :: "'f float64 \<Rightarrow> dataPathSize list \<Rightarrow> dataPathSize list \<Rightarrow> 'f gomap \<Rightarrow> 'f metricSnapshot \<Rightarrow> 'f storageSignal" where
  "storage_signal fl beforeSizes afterSizes before after =
     (let deltas = metricDeltas fl before (ms_Metrics after)
      in \<lparr> ss_Name = ms_Name after, ss_abci = abci_signal_of fl deltas, ss_counters = counter_signal_of fl deltas,
           ss_sizes = fillSizeDelta (ms_Name after) beforeSizes afterSizes, ss_ModuleTimings = summarizeModuleTimings fl deltas,
           ss_ConsensusStepTimings = summarizeConsensusStepTimings fl deltas,
           ss_ExactCommitStageTimings = summarizeExactCommitStageTimings fl deltas \<rparr>)"

definition summarizeStorageSignals ::
    "'f float64 \<Rightarrow> 'f metricSnapshot list \<Rightarrow> 'f metricSnapshot list \<Rightarrow> dataPathSize list \<Rightarrow> dataPathSize list \<Rightarrow> 'f storageSignal list" where
  "summarizeStorageSignals fl before after beforeSizes afterSizes =
     (let byName = metricSnapshotsByName before
      in sort_Slice (\<lambda>a b. ss_Name a < ss_Name b)
           (concat (map (\<lambda>snap. case mget byName (ms_Name snap) of
                None \<Rightarrow> []
              | Some b \<Rightarrow> if ms_Metrics snap = [] then [] else [storage_signal fl beforeSizes afterSizes (ms_Metrics b) snap]) after)))"

section \<open>Transactions the application's metrics show\<close>

definition roundedMetricCount :: "'f float64 \<Rightarrow> 'f \<Rightarrow> int" where
  "roundedMetricCount fl v = (if fl_le fl v (fl_zero fl) then 0 else fl_trunc fl (fl_add fl v (fl_ratio fl 5 10)))"

definition nonNegativeInt :: "int \<Rightarrow> int" where
  "nonNegativeInt v = (if v < 0 then 0 else v)"

definition maxInt :: "int \<Rightarrow> int \<Rightarrow> int" where
  "maxInt a b = (if a > b then a else b)"

text \<open>The readings of one signal: whether a reading counts as included or as successful, its name and its value.\<close>

definition signal_readings :: "'f storageSignal \<Rightarrow> (bool \<times> string \<times> 'f) list" where
  "signal_readings s =
     (let c = ss_counters s
      in [(True, ''sdk_tx_count_delta'', ss_SDKTxCountDelta c), (True, ''consensus_total_txs_delta'', ss_ConsensusTotalTxsDelta c),
          (True, ''mempool_successful_txs_delta'', ss_MempoolSuccessfulTxsDelta c),
          (False, ''sdk_tx_successful_delta'', ss_SDKTxSuccessfulDelta c),
          (False, ''mempool_successful_txs_delta'', ss_MempoolSuccessfulTxsDelta c)])"

definition add_reading :: "'f float64 \<Rightarrow> string \<Rightarrow> bool \<times> string \<times> 'f \<Rightarrow> int \<times> int \<times> string list \<Rightarrow> int \<times> int \<times> string list" where
  "add_reading fl signal r acc =
     (let (isIncluded, name, v) = r; (included, successful, candidates) = acc; n = roundedMetricCount fl v
      in if n \<le> 0 then acc
         else (if isIncluded \<and> n > included then n else included, if \<not> isIncluded \<and> n > successful then n else successful,
               candidates @ [signal @ ''.'' @ name @ ''='' @ Itoa n]))"

definition appMetricLoadCounts :: "'f float64 \<Rightarrow> 'f storageSignal list \<Rightarrow> int \<times> int \<times> string list \<times> bool" where
  "appMetricLoadCounts fl signals =
     (let (included, successful, candidates) =
            fold (\<lambda>s. fold (add_reading fl (ss_Name s)) (signal_readings s)) signals (0, 0, []);
          included = (if included < successful then successful else included)
      in (included, successful, candidates, included > 0 \<or> successful > 0))"

section \<open>Lemmas\<close>

definition counts_ok :: "int \<times> int \<times> string list \<Rightarrow> bool" where
  "counts_ok acc \<longleftrightarrow> 0 \<le> fst acc \<and> 0 \<le> fst (snd acc) \<and> (snd (snd acc) \<noteq> [] \<longleftrightarrow> 0 < fst acc \<or> 0 < fst (snd acc))"

lemma add_reading_ok: "counts_ok acc \<Longrightarrow> counts_ok (add_reading fl s r acc)"
  by (auto simp: counts_ok_def add_reading_def Let_def split: prod.splits)

lemma add_readings_ok: "counts_ok acc \<Longrightarrow> counts_ok (fold (add_reading fl s) rs acc)"
  by (induction rs arbitrary: acc) (simp_all add: add_reading_ok)

lemma all_readings_ok:
  "counts_ok acc \<Longrightarrow> counts_ok (fold (\<lambda>s. fold (add_reading fl (ss_Name s)) (signal_readings s)) signals acc)"
  by (induction signals arbitrary: acc) (simp_all add: add_readings_ok)

text \<open>The counts are never negative, no more transactions succeeded than were included, and there is a count exactly
  when some reading supports it.\<close>

lemma appMetricLoadCounts_ok:
  assumes "appMetricLoadCounts fl signals = (included, successful, candidates, ok)"
  shows "0 \<le> successful" "successful \<le> included" "ok \<longleftrightarrow> candidates \<noteq> []" "ok \<longleftrightarrow> 0 < included"
proof -
  obtain i u c where f: "fold (\<lambda>s. fold (add_reading fl (ss_Name s)) (signal_readings s)) signals (0, 0, []) = (i, u, c)"
    using prod_cases3 by blast
  have "counts_ok (i, u, c)" using all_readings_ok[of "(0, 0, [])" fl signals] f by (simp add: counts_ok_def)
  then show "0 \<le> successful" "successful \<le> included" "ok \<longleftrightarrow> candidates \<noteq> []" "ok \<longleftrightarrow> 0 < included"
    using assms f by (auto simp: appMetricLoadCounts_def counts_ok_def Let_def split: if_splits)
qed

text \<open>A baseline scrape that failed counts as a baseline of zeros: the signals then show everything counted since
  the node started, where \<^const>\<open>metricDeltaSnapshots\<close> reports no difference.\<close>

lemma failed_baseline_counts_from_zero:
  assumes "ms_Metrics b = []" "ms_Name b = ms_Name a" "ms_Metrics a \<noteq> []"
  shows "summarizeStorageSignals fl [b] [a] bs as = [storage_signal fl bs as [] a]"
    "ms_Error b \<noteq> [] \<Longrightarrow> list_all (\<lambda>d. md_Metrics d = []) (metricDeltaSnapshots fl [b] [a])"
  using assms by (simp_all add: summarizeStorageSignals_def metricSnapshotsByName_def sort_Slice_def metricDeltaSnapshots_def
      metric_delta_metrics metricSnapshotsComparable_def Let_def)

end
