(* ===== verification/Report_Window.thy ===== *)
theory Report_Window
  imports Report_Signals
begin

text \<open>
  The load window of \<open>cmd/local-report-runner/main.go\<close>: the monitor that waits until the chain has taken the
  transactions asked for, and the pipeline, cadence and accounting rows computed from what it observed. A
  scrape of the validators is what the monitor is handed at each of its turns.
\<close>

section \<open>TreeDB timings\<close>

definition treeDBMetricDeltaSeconds :: "'f float64 \<Rightarrow> string \<Rightarrow> 'f \<Rightarrow> 'f option" where
  "treeDBMetricDeltaSeconds fl metric delta =
     (if Contains metric ''ns_total'' \<or> HasSuffix metric ''.ns'' then Some (fl_div fl delta (fl_of_int fl 1000000000))
      else if Contains metric ''ms_total'' \<or> HasSuffix metric ''.ms'' \<or> HasSuffix metric ''total_ms'' then
        Some (fl_div fl delta (fl_of_int fl 1000))
      else if Contains metric ''seconds_total'' \<or> HasSuffix metric ''.seconds'' then Some delta
      else None)"

definition treeDBMetricGroup :: "string \<Rightarrow> string" where
  "treeDBMetricGroup metric =
     (if Contains metric ''treedb.public.batch.write_sync'' then ''public batch WriteSync''
      else if Contains metric ''treedb.public.batch.write'' then ''public batch Write''
      else if Contains metric ''treedb.public.checkpoint'' then ''public checkpoint''
      else if Contains metric ''command_wal'' then ''command WAL''
      else if Contains metric ''checkpoint'' then ''checkpoint''
      else if Contains metric ''flush_apply'' \<or> Contains metric ''flush_span'' \<or> Contains metric ''flush_backlog'' then ''flush/apply''
      else if Contains metric ''vlog'' \<or> Contains metric ''value_log'' then ''value log''
      else if Contains metric ''maintenance'' \<or> Contains metric ''bg_vacuum'' then ''maintenance''
      else if Contains metric ''wait'' then ''foreground wait''
      else ''other TreeDB timing'')"

record 'f treeDBTimingSummaryRow =
  tr_Container :: string
  tr_Store :: string
  tr_Group :: string
  tr_Seconds :: 'f

definition add_timing ::
    "'f float64 \<Rightarrow> 'f treeDBStatsDelta \<Rightarrow> string \<times> 'f metricDeltaValue \<Rightarrow>
     ((string \<times> string \<times> string) \<times> 'f) list \<Rightarrow> ((string \<times> string \<times> string) \<times> 'f) list" where
  "add_timing fl snapshot kv totals =
     (let (metric, v) = kv
      in case treeDBMetricDeltaSeconds fl metric (mv_Delta v) of
           None \<Rightarrow> totals
         | Some seconds \<Rightarrow>
             if fl_eq fl seconds (fl_zero fl) then totals
             else let k = (dl_Name snapshot, dl_Store snapshot, treeDBMetricGroup metric)
                  in AList.update k (fl_add fl (case map_of totals k of Some t \<Rightarrow> t | None \<Rightarrow> fl_zero fl) seconds) totals)"

definition treeDBTimingSummaryRows :: "'f float64 \<Rightarrow> 'f treeDBStatsDelta list \<Rightarrow> 'f treeDBTimingSummaryRow list" where
  "treeDBTimingSummaryRows fl snapshots =
     (let totals = fold (\<lambda>s. fold (add_timing fl s) (dl_Metrics s)) snapshots []
      in sort_Slice (\<lambda>a b.
           if tr_Container a = tr_Container b then
             (if tr_Store a = tr_Store b then
                (if fl_eq fl (tr_Seconds a) (tr_Seconds b) then tr_Group a < tr_Group b else fl_less fl (tr_Seconds b) (tr_Seconds a))
              else tr_Store a < tr_Store b)
           else tr_Container a < tr_Container b)
         (map (\<lambda>((c, st, g), secs). \<lparr> tr_Container = c, tr_Store = st, tr_Group = g, tr_Seconds = secs \<rparr>) totals))"

section \<open>Rows of the load window\<close>

text \<open>How numbers, durations and times print: \<open>%.nf\<close>, the verb \<open>%g\<close> with eight digits, \<open>Duration.String\<close> and a time.\<close>

record 'f formats =
  fm_fixed :: "nat \<Rightarrow> 'f \<Rightarrow> string"
  fm_general :: "'f \<Rightarrow> string"
  fm_duration :: "int \<Rightarrow> string"
  fm_time :: "int \<Rightarrow> string"

record 'f pipelineSignal =
  pl_Name :: string
  pl_WindowSeconds :: 'f
  pl_SubmittedTransactions :: int
  pl_IncludedTransactions :: int
  pl_SuccessfulTransactions :: int
  pl_FailedSendTotal :: int
  pl_SubmittedMinusIncluded :: int
  pl_CatalystSendBlocks :: int
  pl_CatalystSendTxs :: int
  pl_CatalystSendSeconds :: 'f
  pl_AvgCatalystSendSeconds :: 'f
  pl_MaxCatalystSendSeconds :: 'f
  pl_CatalystSendTxsPerSecond :: 'f
  pl_CatalystBlockProcessBlocks :: int
  pl_AvgCatalystBlockProcessSeconds :: 'f
  pl_MaxCatalystBlockProcessSeconds :: 'f
  pl_CollectorStartingBlock :: uint64
  pl_CollectorEndingBlock :: uint64
  pl_CollectorBlockSpan :: uint64
  pl_ConsensusTotalTxsDelta :: 'f
  pl_MempoolSuccessfulTxsDelta :: 'f
  pl_SDKTxCountDelta :: 'f
  pl_SDKTxSuccessfulDelta :: 'f
  pl_ABCICheckTxSeconds :: 'f
  pl_ABCICheckTxCount :: int
  pl_ABCIFinalizeBlockSeconds :: 'f
  pl_ABCIFinalizeBlockCount :: int
  pl_ABCICommitSeconds :: 'f
  pl_ABCICommitCount :: int
  pl_ConsensusBlockIntervalSeconds :: 'f
  pl_ConsensusBlockIntervalCount :: int
  pl_AvgCheckTxSeconds :: 'f
  pl_AvgFinalizeBlockSeconds :: 'f
  pl_AvgCommitSeconds :: 'f
  pl_AvgBlockIntervalSeconds :: 'f
  pl_AvgTxsPerCommit :: 'f
  pl_AvgTxsPerFinalizeBlock :: 'f
  pl_AvgTxsPerConsensusBlock :: 'f
  pl_Notes :: "string list"

record 'f cadenceDiagnostic =
  cd_Name :: string
  cd_WindowSeconds :: 'f
  cd_BlockCount :: int
  cd_AvgBlockIntervalSeconds :: 'f
  cd_AvgTxsPerBlock :: 'f
  cd_ABCIBlockStageSecondsPerBlock :: 'f
  cd_CheckTxSecondsPerBlockEquivalent :: 'f
  cd_ConsensusStepSecondsPerBlock :: 'f
  cd_CadenceResidual :: 'f
  cd_CadenceResidualPct :: 'f
  cd_ResidualFormula :: string
  cd_ExactEventSpanCoverage :: bool
  cd_Stages :: "'f cadenceStage list"
  cd_MissingEventSpans :: "string list"
  cd_Notes :: "string list"

record 'f loadWindowAccounting =
  wa_Name :: string
  wa_LoadWindowStart :: int
  wa_LoadWindowEnd :: int
  wa_LoadWindowSeconds :: 'f
  wa_LoadGeneratorStart :: "int option"
  wa_LoadGeneratorEnd :: "int option"
  wa_LoadGeneratorWallSeconds :: 'f
  wa_ValidatorProcessCPUSecondsDelta :: 'f
  wa_ValidatorCoreEquivalent :: 'f
  wa_ABCIObservedSumSeconds :: 'f
  wa_ABCIByMethodSeconds :: "'f gomap"
  wa_ABCIBusyUnionSeconds :: "'f option"
  wa_ABCIIntervalCount :: nat
  wa_ABCIIntervalProvenance :: string
  wa_ABCIBusyUnionMissingReason :: string
  wa_ABCIOverlapSeconds :: "'f option"
  wa_ABCIOverlapMissingReason :: string
  wa_ValidatorNonABCIWallSeconds :: "'f option"
  wa_ValidatorNonABCIWallMissingReason :: string
  wa_ValidatorNonABCIApproxSeconds :: 'f
  wa_ValidatorNonABCIPctApprox :: 'f
  wa_LoadgenClientWaitMissingReason :: string
  wa_ConsensusBlockCadenceSeconds :: 'f
  wa_MempoolBacklogSummary :: string
  wa_UnaccountedResidualSeconds :: 'f
  wa_UnaccountedResidualFormula :: string
  wa_UnaccountedResidualClassification :: string
  wa_IntervalAttribution :: "'f loadWindowIntervalAttribution list"
  wa_Notes :: "string list"

section \<open>The load window\<close>

record 'f treeDBStatsTimelineSample =
  tl_Label :: string
  tl_At :: int
  tl_ElapsedSeconds :: 'f
  tl_Stats :: "'f treeDBStatsSnapshot list"

record 'f loadWindowObservation =
  lw_TargetTransactions :: int
  lw_MinimumSeconds :: 'f
  lw_DurationSatisfied :: bool
  lw_Reached :: bool
  lw_StartedAt :: int
  lw_EndedAt :: int
  lw_Seconds :: 'f
  lw_IncludedTransactions :: int
  lw_SuccessfulTransactions :: int
  lw_AppMetricCandidates :: "string list"
  lw_MetricsBefore :: "'f metricSnapshot list"
  lw_MetricsAfter :: "'f metricSnapshot list"
  lw_MetricDeltas :: "'f metricDeltaSnapshot list"
  lw_TreeDBStatsBefore :: "'f treeDBStatsSnapshot list"
  lw_TreeDBStatsAfter :: "'f treeDBStatsSnapshot list"
  lw_TreeDBStatDeltas :: "'f treeDBStatsDelta list"
  lw_TreeDBStatsTimeline :: "'f treeDBStatsTimelineSample list"
  lw_StorageSignals :: "'f storageSignal list"
  lw_PipelineSignals :: "'f pipelineSignal list"
  lw_CadenceDiagnostics :: "'f cadenceDiagnostic list"
  lw_WallClockIntervals :: "'f loadWindowInterval list"
  lw_Accounting :: "'f loadWindowAccounting list"
  lw_PhaseOverlaps :: "'f loadWindowPhaseOverlap list"
  lw_Error :: string

definition empty_window :: "'f float64 \<Rightarrow> 'f loadWindowObservation" where
  "empty_window fl = \<lparr> lw_TargetTransactions = 0, lw_MinimumSeconds = fl_zero fl, lw_DurationSatisfied = False, lw_Reached = False,
     lw_StartedAt = 0, lw_EndedAt = 0, lw_Seconds = fl_zero fl, lw_IncludedTransactions = 0, lw_SuccessfulTransactions = 0,
     lw_AppMetricCandidates = [], lw_MetricsBefore = [], lw_MetricsAfter = [], lw_MetricDeltas = [], lw_TreeDBStatsBefore = [],
     lw_TreeDBStatsAfter = [], lw_TreeDBStatDeltas = [], lw_TreeDBStatsTimeline = [], lw_StorageSignals = [],
     lw_PipelineSignals = [], lw_CadenceDiagnostics = [], lw_WallClockIntervals = [], lw_Accounting = [], lw_PhaseOverlaps = [],
     lw_Error = [] \<rparr>"

definition initialTreeDBStatsTimeline :: "'f float64 \<Rightarrow> int \<Rightarrow> 'f treeDBStatsSnapshot list \<Rightarrow> 'f treeDBStatsTimelineSample list" where
  "initialTreeDBStatsTimeline fl started stats =
     (if stats = [] then []
      else [\<lparr> tl_Label = ''load_start_proxy'', tl_At = started, tl_ElapsedSeconds = fl_zero fl, tl_Stats = cloneTreeDBStatsSnapshots stats \<rparr>])"

definition cloneTreeDBStatsTimeline :: "'f treeDBStatsTimelineSample list \<Rightarrow> 'f treeDBStatsTimelineSample list" where
  "cloneTreeDBStatsTimeline samples = map (\<lambda>s. \<lparr> tl_Label = tl_Label s, tl_At = tl_At s, tl_ElapsedSeconds = tl_ElapsedSeconds s,
     tl_Stats = cloneTreeDBStatsSnapshots (tl_Stats s) \<rparr>) samples"

definition cloneLoadWindowIntervals :: "'f loadWindowInterval list \<Rightarrow> 'f loadWindowInterval list" where
  "cloneLoadWindowIntervals intervals = intervals"

definition loadWindowAccepted :: "'f float64 \<Rightarrow> 'f loadWindowObservation option \<Rightarrow> bool" where
  "loadWindowAccepted fl obs =
     (case obs of None \<Rightarrow> False
      | Some w \<Rightarrow> lw_Reached w \<and> (fl_le fl (lw_MinimumSeconds w) (fl_zero fl) \<or> lw_DurationSatisfied w))"

section \<open>The monitor\<close>

text \<open>What does not change while the monitor runs. The timeline of TreeDB statistics is kept by a collector, which
  is only there when they are collected.\<close>

record 'f monitor_setting =
  mn_targetTransactions :: int
  mn_minDuration :: int
  mn_started :: int
  mn_treeDBBaseline :: "'f treeDBStatsSnapshot list"
  mn_collectTreeDBStats :: bool

record 'f monitor_state =
  mo_baseline :: "'f metricSnapshot list"
  mo_previous :: "'f samplePoints"
  mo_intervals :: "'f loadWindowInterval list"
  mo_timeline :: "'f treeDBStatsTimelineSample list"

definition collector_sample ::
    "'f float64 \<Rightarrow> 'f monitor_setting \<Rightarrow> string \<Rightarrow> int \<Rightarrow> 'f treeDBStatsSnapshot list \<Rightarrow> 'f monitor_state \<Rightarrow> 'f monitor_state" where
  "collector_sample fl ms label at stats st =
     (if \<not> mn_collectTreeDBStats ms then st
      else st\<lparr>mo_timeline := mo_timeline st @ [\<lparr> tl_Label = label, tl_At = at, tl_ElapsedSeconds = fl_Seconds fl (Sub at (mn_started ms)),
             tl_Stats = cloneTreeDBStatsSnapshots stats \<rparr>]\<rparr>)"

definition attachTreeDBStats ::
    "'f float64 \<Rightarrow> 'f monitor_setting \<Rightarrow> 'f treeDBStatsSnapshot list \<Rightarrow> string \<Rightarrow> 'f loadWindowObservation \<Rightarrow> 'f monitor_state \<Rightarrow>
     'f loadWindowObservation \<times> 'f monitor_state" where
  "attachTreeDBStats fl ms after label obs st =
     (if \<not> mn_collectTreeDBStats ms then (obs, st)
      else let st = collector_sample fl ms label (lw_EndedAt obs) after st
           in (obs\<lparr>lw_TreeDBStatsBefore := cloneTreeDBStatsSnapshots (mn_treeDBBaseline ms), lw_TreeDBStatsAfter := after,
                  lw_TreeDBStatDeltas := treeDBStatsDeltaSnapshots fl (mn_treeDBBaseline ms) after,
                  lw_TreeDBStatsTimeline := cloneTreeDBStatsTimeline (mo_timeline st)\<rparr>, st))"

text \<open>One turn of the monitor: the samples its collector took since the last turn, the scrape and its time, the
  statistics read when an observation is final, and what the \<open>select\<close> then saw: a tick, or the end of the context
  with its error.\<close>

datatype select_outcome = Tick | Done string

record 'f monitor_turn =
  mu_samples :: "(int \<times> 'f treeDBStatsSnapshot list) list"
  mu_metrics :: "'f metricSnapshot list"
  mu_ended :: int
  mu_stats :: "'f treeDBStatsSnapshot list"
  mu_select :: select_outcome

definition window_observation ::
    "'f float64 \<Rightarrow> 'f formats \<Rightarrow> 'f monitor_setting \<Rightarrow> 'f monitor_turn \<Rightarrow> 'f monitor_state \<Rightarrow> 'f loadWindowObservation \<times> 'f monitor_state" where
  "window_observation fl fm ms t st =
     (let st = fold (\<lambda>(at, stats). collector_sample fl ms ''interval'' at stats) (mu_samples t) st;
          metrics = mu_metrics t; ended = mu_ended t; started = mn_started ms;
          baseline = appendMissingUsableMetricBaselineSnapshots (mo_baseline st) metrics;
          signals = summarizeStorageSignals fl baseline metrics [] [];
          (included, successful, candidates, ok) = appMetricLoadCounts fl signals;
          (intervals, previous) = appendMetricDeltaWallClockIntervalsFromSamples fl (mo_intervals st) (mo_previous st) ended metrics;
          st = st\<lparr>mo_baseline := baseline, mo_intervals := intervals, mo_previous := previous\<rparr>;
          satisfied = (mn_minDuration ms \<le> 0 \<or> Sub ended started \<ge> mn_minDuration ms);
          obs = (empty_window fl)\<lparr>lw_TargetTransactions := mn_targetTransactions ms, lw_MinimumSeconds := fl_Seconds fl (mn_minDuration ms),
            lw_DurationSatisfied := satisfied, lw_StartedAt := started, lw_EndedAt := ended,
            lw_Seconds := fl_Seconds fl (Sub ended started), lw_IncludedTransactions := included,
            lw_SuccessfulTransactions := successful, lw_AppMetricCandidates := candidates,
            lw_MetricsBefore := cloneMetricSnapshots baseline, lw_MetricsAfter := metrics,
            lw_MetricDeltas := metricDeltaSnapshots fl baseline metrics, lw_StorageSignals := signals,
            lw_WallClockIntervals := cloneLoadWindowIntervals intervals,
            lw_TreeDBStatsTimeline := cloneTreeDBStatsTimeline (mo_timeline st)\<rparr>
      in if ok \<and> successful \<ge> mn_targetTransactions ms then
           let obs = obs\<lparr>lw_Reached := True\<rparr>;
               obs = (if \<not> lw_DurationSatisfied obs then
                        obs\<lparr>lw_Error := ''load window reached in '' @ fm_fixed fm 3 (lw_Seconds obs) @ ''s, below minimum duration '' @
                              fm_duration fm (mn_minDuration ms) @ ''; increase offered workload''\<rparr> else obs)
           in attachTreeDBStats fl ms (mu_stats t) ''load_end'' obs st
         else (obs, st))"

text \<open>The monitor's goroutine. When the turns end it is still watching, which is the value \<open>None\<close>.\<close>

fun monitor_loop ::
    "'f float64 \<Rightarrow> 'f formats \<Rightarrow> 'f monitor_setting \<Rightarrow> 'f monitor_state \<Rightarrow> 'f monitor_turn list \<Rightarrow> 'f loadWindowObservation option" where
  "monitor_loop fl fm ms st [] = None"
| "monitor_loop fl fm ms st (t # ts) =
     (let (last, st) = window_observation fl fm ms t st
      in if lw_Reached last then Some last
         else case mu_select t of
                Tick \<Rightarrow> monitor_loop fl fm ms st ts
              | Done e \<Rightarrow>
                  let last = (if lw_Error last = [] then last\<lparr>lw_Error := e\<rparr> else last)
                  in Some (fst (attachTreeDBStats fl ms (mu_stats t) ''monitor_stop'' last st)))"

definition startLoadWindowMonitor ::
    "'f float64 \<Rightarrow> 'f formats \<Rightarrow> 'f monitor_setting \<Rightarrow> 'f metricSnapshot list \<Rightarrow> int \<Rightarrow> 'f monitor_turn list \<Rightarrow> 'f loadWindowObservation option" where
  "startLoadWindowMonitor fl fm ms scraped now turns =
     (let baseline = usableMetricSnapshots scraped; started = mn_started ms
      in if mn_targetTransactions ms \<le> 0 then
           Some ((empty_window fl)\<lparr>lw_TargetTransactions := mn_targetTransactions ms, lw_MinimumSeconds := fl_Seconds fl (mn_minDuration ms),
             lw_DurationSatisfied := mn_minDuration ms \<le> 0, lw_StartedAt := started, lw_EndedAt := now,
             lw_MetricsBefore := cloneMetricSnapshots baseline,
             lw_TreeDBStatsBefore := cloneTreeDBStatsSnapshots (mn_treeDBBaseline ms),
             lw_TreeDBStatsTimeline := initialTreeDBStatsTimeline fl started (mn_treeDBBaseline ms),
             lw_Error := ''target transaction count is not positive''\<rparr>)
         else monitor_loop fl fm ms
                \<lparr> mo_baseline = baseline, mo_previous = seedMetricSamplePoints started baseline, mo_intervals = [],
                  mo_timeline = (if mn_collectTreeDBStats ms then initialTreeDBStatsTimeline fl started (mn_treeDBBaseline ms) else []) \<rparr>
                turns)"

text \<open>\<open>Wait\<close> once the monitor has delivered its observation: \<open>expired\<close> tells whether the drain timeout came first.\<close>

definition monitor_Wait :: "'f formats \<Rightarrow> int \<Rightarrow> bool \<Rightarrow> 'f loadWindowObservation \<Rightarrow> 'f loadWindowObservation" where
  "monitor_Wait fm timeout expired obs =
     (if timeout \<le> 0 \<or> \<not> expired then obs
      else if lw_Error obs = [] \<and> \<not> lw_Reached obs then
        obs\<lparr>lw_Error := ''load window target not reached before drain timeout '' @ fm_duration fm timeout\<rparr>
      else obs)"

text \<open>When the load generator is stopped, from the monitor's last observation.\<close>

definition window_stop_condition :: "'f formats \<Rightarrow> 'f loadWindowObservation \<Rightarrow> bool \<times> string" where
  "window_stop_condition fm obs =
     (if \<not> lw_Reached obs then (False, [])
      else if lw_DurationSatisfied obs then
        (True, ''load window reached: '' @ Itoa (lw_SuccessfulTransactions obs) @ '' successful tx in '' @ fm_fixed fm 3 (lw_Seconds obs) @ ''s'')
      else
        (True, ''load window reached too quickly: '' @ Itoa (lw_SuccessfulTransactions obs) @ '' successful tx in '' @
           fm_fixed fm 3 (lw_Seconds obs) @ ''s below '' @ fm_fixed fm 3 (lw_MinimumSeconds obs) @ ''s minimum''))"

section \<open>Pipeline\<close>

text \<open>The number of blocks, from the first of six counters that moved; the zero value of a pipeline row has none.\<close>

definition cadenceBlockCount :: "'f storageSignal \<Rightarrow> 'f pipelineSignal option \<Rightarrow> int" where
  "cadenceBlockCount signal pipeline =
     (let a = ss_abci signal; c = ss_counters signal; pl = (\<lambda>g. case pipeline of Some p \<Rightarrow> g p | None \<Rightarrow> 0)
      in if ss_ABCIFinalizeBlockCount a > 0 then ss_ABCIFinalizeBlockCount a
         else if ss_ABCICommitCount a > 0 then ss_ABCICommitCount a
         else if pl pl_ABCIFinalizeBlockCount > 0 then pl pl_ABCIFinalizeBlockCount
         else if pl pl_ABCICommitCount > 0 then pl pl_ABCICommitCount
         else if ss_ConsensusBlockIntervalCount c > 0 then ss_ConsensusBlockIntervalCount c
         else if pl pl_ConsensusBlockIntervalCount > 0 then pl pl_ConsensusBlockIntervalCount
         else 0)"

text \<open>A pipeline row before its averages and notes.\<close>

definition pipeline_base ::
    "'f float64 \<Rightarrow> 'f loadWindowObservation \<Rightarrow> 'f loadTestLogSummary \<Rightarrow> int \<Rightarrow> uint64 \<Rightarrow> 'f storageSignal \<Rightarrow> 'f pipelineSignal" where
  "pipeline_base fl obs logs submitted collectorSpan signal =
     (let z = fl_zero fl; a = ss_abci signal; c = ss_counters signal; t = ls_CatalystTiming logs;
          sends = Option.bind t ct_SendDurations; blocks = Option.bind t ct_BlockProcessingToProcessedDurations;
          stat = (\<lambda>d g. case d of Some st \<Rightarrow> g st | None \<Rightarrow> z)
      in \<lparr> pl_Name = ss_Name signal, pl_WindowSeconds = lw_Seconds obs, pl_SubmittedTransactions = submitted,
           pl_IncludedTransactions = lw_IncludedTransactions obs, pl_SuccessfulTransactions = lw_SuccessfulTransactions obs,
           pl_FailedSendTotal = int (ls_FailedSendTotal logs), pl_SubmittedMinusIncluded = 0,
           pl_CatalystSendBlocks = int (stats_count sends),
           pl_CatalystSendTxs = (case t of Some t \<Rightarrow> ct_SendMatchedTxsTotal t | None \<Rightarrow> 0),
           pl_CatalystSendSeconds = stat sends ds_TotalSeconds, pl_AvgCatalystSendSeconds = stat sends ds_AvgSeconds,
           pl_MaxCatalystSendSeconds = stat sends ds_MaxSeconds,
           pl_CatalystSendTxsPerSecond = (case t of Some t \<Rightarrow> ct_SendTxsPerSecond t | None \<Rightarrow> z),
           pl_CatalystBlockProcessBlocks = int (stats_count blocks),
           pl_AvgCatalystBlockProcessSeconds = stat blocks ds_AvgSeconds, pl_MaxCatalystBlockProcessSeconds = stat blocks ds_MaxSeconds,
           pl_CollectorStartingBlock = ls_CollectorStartingBlock logs, pl_CollectorEndingBlock = ls_CollectorEndingBlock logs,
           pl_CollectorBlockSpan = collectorSpan, pl_ConsensusTotalTxsDelta = ss_ConsensusTotalTxsDelta c,
           pl_MempoolSuccessfulTxsDelta = ss_MempoolSuccessfulTxsDelta c, pl_SDKTxCountDelta = ss_SDKTxCountDelta c,
           pl_SDKTxSuccessfulDelta = ss_SDKTxSuccessfulDelta c, pl_ABCICheckTxSeconds = ss_ABCICheckTxSeconds a,
           pl_ABCICheckTxCount = ss_ABCICheckTxCount a, pl_ABCIFinalizeBlockSeconds = ss_ABCIFinalizeBlockSeconds a,
           pl_ABCIFinalizeBlockCount = ss_ABCIFinalizeBlockCount a, pl_ABCICommitSeconds = ss_ABCICommitSeconds a,
           pl_ABCICommitCount = ss_ABCICommitCount a, pl_ConsensusBlockIntervalSeconds = ss_ConsensusBlockIntervalSeconds c,
           pl_ConsensusBlockIntervalCount = ss_ConsensusBlockIntervalCount c,
           pl_AvgCheckTxSeconds = per fl (ss_ABCICheckTxSeconds a) (ss_ABCICheckTxCount a),
           pl_AvgFinalizeBlockSeconds = per fl (ss_ABCIFinalizeBlockSeconds a) (ss_ABCIFinalizeBlockCount a),
           pl_AvgCommitSeconds = per fl (ss_ABCICommitSeconds a) (ss_ABCICommitCount a), pl_AvgBlockIntervalSeconds = z,
           pl_AvgTxsPerCommit = per fl (fl_of_int fl (lw_IncludedTransactions obs)) (ss_ABCICommitCount a),
           pl_AvgTxsPerFinalizeBlock = per fl (fl_of_int fl (lw_IncludedTransactions obs)) (ss_ABCIFinalizeBlockCount a),
           pl_AvgTxsPerConsensusBlock =
             (if ss_ABCIFinalizeBlockCount a > 0 then per fl (ss_ConsensusTotalTxsDelta c) (ss_ABCIFinalizeBlockCount a)
              else if ss_ABCICommitCount a > 0 then per fl (ss_ConsensusTotalTxsDelta c) (ss_ABCICommitCount a)
              else per fl (ss_ConsensusTotalTxsDelta c) (ss_ConsensusBlockIntervalCount c)),
           pl_Notes = [] \<rparr>)"

definition note_if :: "bool \<Rightarrow> string \<Rightarrow> string list" where
  "note_if c note = (if c then [note] else [])"

definition pipeline_row ::
    "'f float64 \<Rightarrow> 'f loadWindowObservation \<Rightarrow> 'f loadTestLogSummary \<Rightarrow> int \<Rightarrow> uint64 \<Rightarrow> 'f storageSignal \<Rightarrow> 'f pipelineSignal" where
  "pipeline_row fl obs logs submitted collectorSpan signal =
     (let row = pipeline_base fl obs logs submitted collectorSpan signal;
          blockCount = cadenceBlockCount signal (Some row);
          cadence = (fl_pos fl (lw_Seconds obs) \<and> blockCount > 0);
          header = (\<not> cadence \<and> pl_ConsensusBlockIntervalCount row > 0);
          exceeded = (submitted > lw_IncludedTransactions obs)
      in row\<lparr>pl_AvgBlockIntervalSeconds :=
               (if cadence then per fl (lw_Seconds obs) blockCount
                else per fl (pl_ConsensusBlockIntervalSeconds row) (pl_ConsensusBlockIntervalCount row)),
             pl_SubmittedMinusIncluded := (if exceeded then wrap64 (submitted - lw_IncludedTransactions obs) else 0),
             pl_Notes :=
               note_if cadence ''average block interval is accepted-window wall time per finalized block; raw consensus interval metrics are block-header timestamp deltas'' @
               note_if header ''accepted-window wall cadence unavailable; average block interval falls back to block-header timestamp deltas'' @
               note_if exceeded ''submitted transactions exceeded accepted-window included transactions'' @
               note_if (fl_eq fl (pl_ConsensusTotalTxsDelta row) (fl_zero fl) \<and> lw_IncludedTransactions obs > 0)
                 ''consensus tx counter was unavailable or did not move'' @
               note_if (pl_ConsensusBlockIntervalCount row = 0 \<and> pl_ABCICommitCount row > 0)
                 ''consensus block interval histogram was unavailable or did not move''\<rparr>)"

definition collector_span :: "'f loadTestLogSummary \<Rightarrow> uint64" where
  "collector_span logs =
     (if ls_CollectorEndingBlock logs \<ge> ls_CollectorStartingBlock logs \<and> ls_CollectorEndingBlock logs \<noteq> 0
      then ls_CollectorEndingBlock logs - ls_CollectorStartingBlock logs + 1 else 0)"

definition submitted_transactions :: "'f loadTestLogSummary \<Rightarrow> int" where
  "submitted_transactions logs =
     (let submitted = maxInt (ls_SendingTxsTotal logs) (ls_GoRoutinesCompletedTotal logs)
      in case ls_RunnerOverall logs of Some o' \<Rightarrow> maxInt submitted (ro_TotalTransactions o') | None \<Rightarrow> submitted)"

definition summarizePipelineSignals :: "'f float64 \<Rightarrow> 'f loadWindowObservation \<Rightarrow> 'f loadTestLogSummary \<Rightarrow> 'f pipelineSignal list" where
  "summarizePipelineSignals fl obs logs =
     sort_Slice (\<lambda>a b. pl_Name a < pl_Name b)
       (map (pipeline_row fl obs logs (submitted_transactions logs) (collector_span logs)) (lw_StorageSignals obs))"

text \<open>The row of a node, the last one of its name.\<close>

definition pipeline_of :: "'f pipelineSignal list \<Rightarrow> string \<Rightarrow> 'f pipelineSignal option" where
  "pipeline_of rows name = map_of (rev (map (\<lambda>r. (pl_Name r, r)) rows)) name"

section \<open>Cadence\<close>

definition cadenceAvgBlockInterval :: "'f float64 \<Rightarrow> 'f \<Rightarrow> int \<Rightarrow> 'f pipelineSignal option \<Rightarrow> 'f" where
  "cadenceAvgBlockInterval fl windowSeconds blockCount pipeline =
     (if fl_pos fl windowSeconds \<and> blockCount > 0 then fl_div fl windowSeconds (fl_of_int fl blockCount)
      else case pipeline of
             Some p \<Rightarrow> if fl_pos fl (pl_AvgBlockIntervalSeconds p) then pl_AvgBlockIntervalSeconds p else fl_zero fl
           | None \<Rightarrow> fl_zero fl)"

definition cadenceAvgTxsPerBlock ::
    "'f float64 \<Rightarrow> 'f loadWindowObservation \<Rightarrow> 'f storageSignal \<Rightarrow> 'f pipelineSignal option \<Rightarrow> int \<Rightarrow> 'f" where
  "cadenceAvgTxsPerBlock fl obs signal pipeline blockCount =
     (let avg = (case pipeline of Some p \<Rightarrow> pl_AvgTxsPerConsensusBlock p | None \<Rightarrow> fl_zero fl);
          total = ss_ConsensusTotalTxsDelta (ss_counters signal)
      in if fl_pos fl avg then avg
         else if blockCount > 0 \<and> fl_pos fl total then fl_div fl total (fl_of_int fl blockCount)
         else if blockCount > 0 \<and> lw_IncludedTransactions obs > 0 then
           fl_div fl (fl_of_int fl (lw_IncludedTransactions obs)) (fl_of_int fl blockCount)
         else fl_zero fl)"

text \<open>The per-block seconds of a stage and, where the blocks are unknown, why there are none.\<close>

definition per_block :: "'f float64 \<Rightarrow> int \<Rightarrow> 'f cadenceStage \<Rightarrow> 'f cadenceStage" where
  "per_block fl blockCount s =
     (if blockCount > 0 then s\<lparr>cs_PerBlockSeconds := fl_div fl (cs_Seconds s) (fl_of_int fl blockCount)\<rparr>
      else if fl_pos fl (cs_Seconds s) then s\<lparr>cs_MissingReason := ''block count unavailable''\<rparr> else s)"

definition abciCadenceStage :: "'f float64 \<Rightarrow> string \<Rightarrow> 'f \<Rightarrow> int \<Rightarrow> int \<Rightarrow> bool \<Rightarrow> 'f cadenceStage" where
  "abciCadenceStage fl name seconds n blockCount included =
     per_block fl blockCount
       \<lparr> cs_Name = name, cs_Parent = [], cs_Class = (if included then ''abci_block_stage'' else ''abci_transaction_intake''),
         cs_Source = ''cometbft_abci_connection_method_timing_seconds'', cs_Provenance = ''prometheus_counter_delta'',
         cs_Seconds = seconds, cs_Count = n, cs_AvgSeconds = per fl seconds n, cs_PerBlockSeconds = fl_zero fl,
         cs_IncludedInResidual = included, cs_MissingReason = [],
         cs_Note = (if included then []
           else ''reported separately; CheckTx can run on the transaction intake path and is not an exclusive block-stage bucket'') \<rparr>"

definition cadenceStages :: "'f float64 \<Rightarrow> 'f storageSignal \<Rightarrow> int \<Rightarrow> 'f cadenceStage list" where
  "cadenceStages fl signal blockCount =
     (let a = ss_abci signal
      in [abciCadenceStage fl ''commit'' (ss_ABCICommitSeconds a) (ss_ABCICommitCount a) blockCount True,
          abciCadenceStage fl ''finalize_block'' (ss_ABCIFinalizeBlockSeconds a) (ss_ABCIFinalizeBlockCount a) blockCount True,
          abciCadenceStage fl ''prepare_proposal'' (ss_ABCIPrepareProposalSeconds a) (ss_ABCIPrepareProposalCount a) blockCount True,
          abciCadenceStage fl ''process_proposal'' (ss_ABCIProcessProposalSeconds a) (ss_ABCIProcessProposalCount a) blockCount True,
          abciCadenceStage fl ''check_tx'' (ss_ABCICheckTxSeconds a) (ss_ABCICheckTxCount a) blockCount False] @
         map (\<lambda>step. if blockCount > 0 then step\<lparr>cs_PerBlockSeconds := fl_div fl (cs_Seconds step) (fl_of_int fl blockCount)\<rparr> else step)
           (ss_ConsensusStepTimings signal))"

definition newCadenceStage ::
    "'f float64 \<Rightarrow> string \<Rightarrow> string \<Rightarrow> string \<Rightarrow> string \<Rightarrow> 'f \<Rightarrow> int \<Rightarrow> int \<Rightarrow> bool \<Rightarrow> string \<Rightarrow> 'f cadenceStage" where
  "newCadenceStage fl name class source provenance seconds n blockCount included note =
     \<lparr> cs_Name = name, cs_Parent = [], cs_Class = class, cs_Source = source, cs_Provenance = provenance, cs_Seconds = seconds,
       cs_Count = n, cs_AvgSeconds = (if fl_pos fl seconds then per fl seconds n else fl_zero fl),
       cs_PerBlockSeconds = (if fl_pos fl seconds then per fl seconds blockCount else fl_zero fl),
       cs_IncludedInResidual = included,
       cs_MissingReason = (if \<not> (blockCount > 0 \<and> fl_pos fl seconds) \<and> fl_pos fl seconds then ''block count unavailable'' else []),
       cs_Note = note \<rparr>"

definition metricAttributionCadenceStages :: "'f float64 \<Rightarrow> 'f storageSignal \<Rightarrow> int \<Rightarrow> 'f cadenceStage list" where
  "metricAttributionCadenceStages fl signal blockCount =
     (let c = ss_counters signal; z = fl_zero fl
      in (if \<not> fl_eq fl (ss_StateBlockProcessingSeconds c) z \<or> ss_StateBlockProcessingCount c \<noteq> 0 then
            [newCadenceStage fl ''state block processing'' ''block_execution_cadence'' ''cometbft_state_block_processing_time''
               ''prometheus_counter_delta'' (ss_StateBlockProcessingSeconds c) (ss_StateBlockProcessingCount c) blockCount False
               ''CometBFT state block-processing counter; may include block execution, blockstore, tx-index, and consensus bookkeeping'']
          else []) @
         map (per_block fl blockCount) (ss_ExactCommitStageTimings signal) @
         (if \<not> fl_eq fl (ss_TxIndexIndexedTxsDelta c) z then
            [newCadenceStage fl ''tx-index indexed txs'' ''node_db_tx_index'' ''tx_index_indexed_txs_total'' ''prometheus_counter_delta''
               z (fl_trunc fl (ss_TxIndexIndexedTxsDelta c)) blockCount False
               ''count-only tx-index signal; timing is reported separately only when tx-index duration metrics exist'']
          else []) @
         (if \<not> fl_eq fl (ss_MempoolSuccessfulTxsDelta c) z then
            [newCadenceStage fl ''mempool successful txs'' ''local_broadcast_admission'' ''cometbft_mempool_successful_txs''
               ''prometheus_counter_delta'' z (fl_trunc fl (ss_MempoolSuccessfulTxsDelta c)) blockCount False
               ''count-only CAT/local-admission signal; lock wait and per-transaction broadcast wait are not exposed here'']
          else []))"

definition treeDBCadenceStageClass :: "'f treeDBTimingSummaryRow \<Rightarrow> string" where
  "treeDBCadenceStageClass row =
     (if tr_Store row = ''blockstore.db'' then ''node_db_blockstore''
      else if tr_Store row = ''tx_index.db'' then ''node_db_tx_index''
      else if tr_Store row = ''state.db'' then ''node_db_state''
      else if tr_Store row = ''evidence.db'' then ''node_db_evidence''
      else if tr_Group row \<in> {''public batch WriteSync'', ''public batch Write'', ''public checkpoint'', ''command WAL'', ''checkpoint'',
                ''flush/apply'', ''value log'', ''foreground wait''} then ''db_adapter_commit_internal''
      else ''db_adapter_internal'')"

definition treeDBCadenceStages :: "'f float64 \<Rightarrow> 'f treeDBStatsDelta list \<Rightarrow> string \<Rightarrow> int \<Rightarrow> 'f cadenceStage list" where
  "treeDBCadenceStages fl snapshots node blockCount =
     map (\<lambda>row. newCadenceStage fl (''treedb '' @ tr_Store row @ '' '' @ tr_Group row) (treeDBCadenceStageClass row) ''treedb_debug_vars''
         ''treedb_debug_vars_delta'' (tr_Seconds row) 0 blockCount False
         (''TreeDB timing counter delta for '' @ tr_Store row @ ''; may overlap ABCI commit/finalize, blockstore, or tx-index stages''))
       (treeDBTimingSummaryRows fl (filter (\<lambda>s. dl_Name s = node) snapshots))"

definition catalystCadenceStages :: "'f float64 \<Rightarrow> 'f catalystLogTiming option \<Rightarrow> int \<Rightarrow> 'f cadenceStage list" where
  "catalystCadenceStages fl timing blockCount =
     (case timing of
        None \<Rightarrow> []
      | Some t \<Rightarrow>
          concat (map (\<lambda>(name, class, stats, note).
            case stats of
              None \<Rightarrow> []
            | Some st \<Rightarrow>
                if fl_eq fl (ds_TotalSeconds st) (fl_zero fl) \<and> ds_Count st = 0 then []
                else [newCadenceStage fl name class ''retained Catalyst task logs'' ''retained_catalyst_log_span'' (ds_TotalSeconds st)
                        (int (ds_Count st)) blockCount False
                        (note @ (if ct_LogTruncated t
                                 then ''; task logs were truncated, so counts and totals cover retained log lines only'' else []))])
            [(''catalyst send transactions'', ''local_broadcast_admission'', ct_SendDurations t,
                ''block-level send span from retained Catalyst logs; not per-transaction RPC wait''),
             (''catalyst block event to processing'', ''block_execution_cadence'', ct_BlockEventToProcessingDurations t,
                ''retained log span from new-block event to Catalyst processing start''),
             (''catalyst block processing to processed'', ''block_execution_cadence'', ct_BlockProcessingToProcessedDurations t,
                ''retained log span from Catalyst block processing start to completion''),
             (''catalyst chain timestamp to processing'', ''block_execution_cadence'', ct_ChainTimestampToProcessingDurations t,
                ''block timestamp to local Catalyst processing lag; cadence signal, not a local execution duration'')]))"

definition hasExactStage :: "'f float64 \<Rightarrow> 'f cadenceStage list \<Rightarrow> string \<Rightarrow> bool" where
  "hasExactStage fl stages name \<longleftrightarrow>
     list_ex (\<lambda>s. cs_Name s = name \<and> (\<not> fl_eq fl (cs_Seconds s) (fl_zero fl) \<or> cs_Count s \<noteq> 0)) stages"

definition hasExactCommitSpanCoverage :: "'f float64 \<Rightarrow> 'f storageSignal \<Rightarrow> bool" where
  "hasExactCommitSpanCoverage fl signal \<longleftrightarrow>
     list_all (hasExactStage fl (ss_ExactCommitStageTimings signal))
       [''consensus commit'', ''commit blockstore'', ''commit blockstore lock'', ''commit consensus WAL'', ''commit apply block'',
        ''commit apply block lock'', ''commit record metrics'', ''commit update consensus state'']"

definition hasTreeDBStatsForNode :: "'f treeDBStatsDelta list \<Rightarrow> string \<Rightarrow> bool" where
  "hasTreeDBStatsForNode snapshots node \<longleftrightarrow> list_ex (\<lambda>s. dl_Name s = node \<and> dl_Metrics s \<noteq> [] \<and> dl_Error s = []) snapshots"

definition hasTreeDBTimingForStore :: "'f float64 \<Rightarrow> 'f treeDBStatsDelta list \<Rightarrow> string \<Rightarrow> string \<Rightarrow> bool" where
  "hasTreeDBTimingForStore fl snapshots node store \<longleftrightarrow>
     list_ex (\<lambda>s. dl_Name s = node \<and> dl_Store s = store \<and> dl_Error s = [] \<and>
       list_ex (\<lambda>(metric, v). case treeDBMetricDeltaSeconds fl metric (mv_Delta v) of
          Some secs \<Rightarrow> \<not> fl_eq fl secs (fl_zero fl) | None \<Rightarrow> False) (dl_Metrics s)) snapshots"

definition cadenceMissingEventSpans ::
    "'f float64 \<Rightarrow> 'f storageSignal \<Rightarrow> 'f treeDBStatsDelta list \<Rightarrow> 'f loadTestLogSummary \<Rightarrow> string list" where
  "cadenceMissingEventSpans fl signal deltas logs =
     (let c = ss_counters signal; z = fl_zero fl; exact = ss_ExactCommitStageTimings signal
      in [if hasTreeDBStatsForNode deltas (ss_Name signal)
          then ''DB adapter exact start/end spans remain unavailable; TreeDB debug-var deltas provide overlapping timing attribution only''
          else ''DB adapter WriteSync / command-WAL / value-log / checkpoint timing unavailable; TreeDB debug vars were not collected for this node''] @
         note_if (\<not> hasExactStage fl exact ''mempool lock wait'' \<or> \<not> hasExactStage fl exact ''mempool lock held'')
           ''CometBFT mempool lock wait and lock hold spans unavailable'' @
         [if stats_count (Option.bind (ls_CatalystTiming logs) ct_SendDurations) = 0
          then ''local broadcast admission spans unavailable from retained Catalyst logs''
          else ''per-transaction BroadcastTxSync wait and inclusion latency unavailable; retained Catalyst send spans are block-level aggregates''] @
         note_if (fl_eq fl (ss_BlockStoreWriteSeconds c) z \<and> \<not> hasTreeDBTimingForStore fl deltas (ss_Name signal) ''blockstore.db'')
           ''blockstore write timing spans unavailable; state/block-processing counters may include this work'' @
         (if fl_eq fl (ss_TxIndexWriteSeconds c) z \<and> \<not> hasTreeDBTimingForStore fl deltas (ss_Name signal) ''tx_index.db'' then
            [if fl_pos fl (ss_TxIndexIndexedTxsDelta c)
             then ''tx-index write timing spans unavailable; only indexed transaction counts were exported''
             else ''tx-index write timing spans unavailable'']
          else []))"

definition cadence_row :: "'f float64 \<Rightarrow> 'f loadWindowObservation \<Rightarrow> 'f loadTestLogSummary \<Rightarrow> 'f storageSignal \<Rightarrow> 'f cadenceDiagnostic" where
  "cadence_row fl obs logs signal =
     (let z = fl_zero fl; pipeline = pipeline_of (lw_PipelineSignals obs) (ss_Name signal);
          blockCount = cadenceBlockCount signal pipeline;
          interval = cadenceAvgBlockInterval fl (lw_Seconds obs) blockCount pipeline;
          stages = cadenceStages fl signal blockCount @ metricAttributionCadenceStages fl signal blockCount @
            treeDBCadenceStages fl (lw_TreeDBStatDeltas obs) (ss_Name signal) blockCount @
            catalystCadenceStages fl (ls_CatalystTiming logs) blockCount;
          perBlock = (\<lambda>P. foldl (fl_add fl) z (map cs_PerBlockSeconds (filter P stages)));
          included = perBlock cs_IncludedInResidual;
          residual = (if fl_pos fl interval then nonNegative fl (fl_sub fl interval included) else z)
      in \<lparr> cd_Name = ss_Name signal, cd_WindowSeconds = lw_Seconds obs, cd_BlockCount = blockCount,
           cd_AvgBlockIntervalSeconds = interval, cd_AvgTxsPerBlock = cadenceAvgTxsPerBlock fl obs signal pipeline blockCount,
           cd_ABCIBlockStageSecondsPerBlock = included,
           cd_CheckTxSecondsPerBlockEquivalent =
             (case rev (filter (\<lambda>s. cs_Name s = ''check_tx'') stages) of s # _ \<Rightarrow> cs_PerBlockSeconds s | [] \<Rightarrow> z),
           cd_ConsensusStepSecondsPerBlock = perBlock (\<lambda>s. cs_Class s = ''consensus_step''),
           cd_CadenceResidual = residual,
           cd_CadenceResidualPct = (if fl_pos fl interval then fl_div fl (fl_mul fl (fl_of_int fl 100) residual) interval else z),
           cd_ResidualFormula = ''max(0, avg_block_interval_seconds - (commit + finalize_block + prepare_proposal + process_proposal seconds per block))'',
           cd_ExactEventSpanCoverage = hasExactCommitSpanCoverage fl signal, cd_Stages = stages,
           cd_MissingEventSpans = cadenceMissingEventSpans fl signal (lw_TreeDBStatDeltas obs) logs @
             note_if (blockCount = 0) ''block count unavailable; cannot compute per-block cadence residual'' @
             note_if (fl_eq fl interval z) ''average block interval unavailable; cannot compute cadence residual'' @
             note_if (ss_ConsensusStepTimings signal = []) ''CometBFT consensus step duration counters unavailable in accepted-window metrics'',
           cd_Notes =
             [''block-stage residual is derived from ABCI Prometheus counter deltas, not exact event-level wall-clock tracing'',
              ''CheckTx is reported as transaction-intake pressure and is not subtracted from block-stage residual'',
              ''exact CometBFT commit spans are nested; compare siblings under the same parent and do not add parent and child rows'',
              ''the asynchronous tx-index block total is not an additive child of consensus commit, but fire-events can expose subscriber backpressure''] @
             note_if (blockCount = 0) ''consensus block interval count, commit count, and finalize count were unavailable'' @
             note_if (ss_ConsensusStepTimings signal \<noteq> []) ''consensus step counters are attribution signals and may overlap other cadence measurements'' @
             note_if (hasTreeDBStatsForNode (lw_TreeDBStatDeltas obs) (ss_Name signal))
               ''TreeDB debug-var timing deltas expose commit/storage internals, but they are counters and may overlap ABCI, blockstore, or tx-index timing'' @
             note_if (ls_CatalystTiming logs \<noteq> None)
               ''Catalyst timing rows are retained task-log spans at run scope; truncated logs can undercount them'' \<rparr>)"

definition summarizeCadenceDiagnostics :: "'f float64 \<Rightarrow> 'f loadWindowObservation \<Rightarrow> 'f loadTestLogSummary \<Rightarrow> 'f cadenceDiagnostic list" where
  "summarizeCadenceDiagnostics fl obs logs =
     sort_Slice (\<lambda>a b. cd_Name a < cd_Name b) (map (cadence_row fl obs logs) (lw_StorageSignals obs))"

section \<open>Accounting\<close>

fun phaseSpanByName :: "'f phaseSpan list \<Rightarrow> string \<Rightarrow> 'f phaseSpan option" where
  "phaseSpanByName [] name = None"
| "phaseSpanByName (span # spans) name = (if ph_Name span = name then Some span else phaseSpanByName spans name)"

text \<open>A row before what depends on the intervals of activity.\<close>

definition accounting_base ::
    "'f float64 \<Rightarrow> 'f phaseSpan list \<Rightarrow> 'f loadTestLogSummary \<Rightarrow> 'f loadWindowObservation \<Rightarrow> 'f storageSignal \<Rightarrow> 'f loadWindowAccounting" where
  "accounting_base fl timeline logs obs signal =
     (let a = ss_abci signal; cpu = ss_ProcessCPUSecondsDelta (ss_counters signal); z = fl_zero fl; seconds = lw_Seconds obs;
          span = phaseSpanByName timeline ''run_load_test'';
          approx = nonNegative fl (fl_sub fl seconds (ss_ABCIObservedSeconds a))
      in \<lparr> wa_Name = ss_Name signal, wa_LoadWindowStart = lw_StartedAt obs, wa_LoadWindowEnd = lw_EndedAt obs,
           wa_LoadWindowSeconds = seconds, wa_LoadGeneratorStart = map_option ph_Started span,
           wa_LoadGeneratorEnd = map_option ph_Ended span,
           wa_LoadGeneratorWallSeconds = (case span of Some sp \<Rightarrow> ph_Seconds sp | None \<Rightarrow> z),
           wa_ValidatorProcessCPUSecondsDelta = cpu,
           wa_ValidatorCoreEquivalent = (if fl_pos fl seconds then fl_div fl cpu seconds else z),
           wa_ABCIObservedSumSeconds = ss_ABCIObservedSeconds a,
           wa_ABCIByMethodSeconds = [(''commit'', ss_ABCICommitSeconds a), (''finalize_block'', ss_ABCIFinalizeBlockSeconds a),
             (''check_tx'', ss_ABCICheckTxSeconds a), (''prepare_proposal'', ss_ABCIPrepareProposalSeconds a),
             (''process_proposal'', ss_ABCIProcessProposalSeconds a), (''query'', ss_ABCIQuerySeconds a),
             (''flush'', ss_ABCIFlushSeconds a), (''other'', ss_ABCIOtherSeconds a)],
           wa_ABCIBusyUnionSeconds = None, wa_ABCIIntervalCount = 0, wa_ABCIIntervalProvenance = [],
           wa_ABCIBusyUnionMissingReason = [], wa_ABCIOverlapSeconds = None, wa_ABCIOverlapMissingReason = [],
           wa_ValidatorNonABCIWallSeconds = None, wa_ValidatorNonABCIWallMissingReason = [],
           wa_ValidatorNonABCIApproxSeconds = approx,
           wa_ValidatorNonABCIPctApprox = (if fl_pos fl seconds then fl_div fl (fl_mul fl (fl_of_int fl 100) approx) seconds else z),
           wa_LoadgenClientWaitMissingReason =
             (if ls_CatalystTiming logs \<noteq> None
              then ''per-transaction client RPC wait is unavailable; Catalyst per-block send and block-processing durations are reported separately from retained task logs''
              else ''Catalyst aggregate logs do not export per-client wait or broadcast latency''),
           wa_ConsensusBlockCadenceSeconds = z, wa_MempoolBacklogSummary = [], wa_UnaccountedResidualSeconds = z,
           wa_UnaccountedResidualFormula = [], wa_UnaccountedResidualClassification = [],
           wa_IntervalAttribution = summarizeLoadWindowIntervalAttributions fl (lw_WallClockIntervals obs) (ss_Name signal)
             (lw_StartedAt obs) (lw_EndedAt obs),
           wa_Notes = [] \<rparr>)"

definition accounting_intervals ::
    "'f float64 \<Rightarrow> 'f loadWindowObservation \<Rightarrow> 'f storageSignal \<Rightarrow> 'f loadWindowAccounting \<Rightarrow> 'f loadWindowAccounting" where
  "accounting_intervals fl obs signal row =
     (let (busy, n, provenance) = loadWindowIntervalClassUnion fl (lw_WallClockIntervals obs) (ss_Name signal) ''abci''
            (lw_StartedAt obs) (lw_EndedAt obs)
      in if n > 0 then
           let provenance = (if provenance = [] then ''wall_clock_intervals'' else provenance);
               nonABCI = nonNegative fl (fl_sub fl (lw_Seconds obs) busy);
               row = row\<lparr>wa_ABCIBusyUnionSeconds := Some busy, wa_ABCIIntervalCount := n, wa_ABCIIntervalProvenance := provenance,
                 wa_ValidatorNonABCIWallSeconds := Some nonABCI, wa_UnaccountedResidualSeconds := nonABCI,
                 wa_UnaccountedResidualFormula := ''max(0, load_window_seconds - abci_busy_union_seconds)''\<rparr>
           in if provenance = ''exact_event'' then
                row\<lparr>wa_ABCIOverlapSeconds := Some (nonNegative fl (fl_sub fl (ss_ABCIObservedSeconds (ss_abci signal)) busy)),
                    wa_UnaccountedResidualClassification := ''exact_interval_union''\<rparr>
              else row\<lparr>wa_ABCIOverlapMissingReason :=
                    ''ABCI interval union is scrape-bounded rather than event-exact; overlap with summed method timers is not meaningful'',
                  wa_UnaccountedResidualClassification := ''bounded_sample_lower_bound'',
                  wa_Notes := wa_Notes row @ [''ABCI activity expands to the full scrape interval; the busy union is an upper bound and interval-derived non-ABCI time is only a lower bound'']\<rparr>
         else row\<lparr>wa_ABCIBusyUnionMissingReason := ''ABCI method interval start/end samples are not exported by this harness'',
                wa_ABCIOverlapMissingReason := ''ABCI busy union unavailable; overlap cannot be computed from summed method counters'',
                wa_ValidatorNonABCIWallMissingReason := ''exact non-ABCI wall time requires ABCI busy union intervals'',
                wa_UnaccountedResidualSeconds := wa_ValidatorNonABCIApproxSeconds row,
                wa_UnaccountedResidualFormula := ''max(0, load_window_seconds - abci_observed_sum_seconds)'',
                wa_UnaccountedResidualClassification := ''approximate_sum_based''\<rparr>)"

definition backlog_summary :: "'f pipelineSignal option \<Rightarrow> string" where
  "backlog_summary pipeline =
     (case pipeline of
        None \<Rightarrow> ''pipeline summary unavailable''
      | Some p \<Rightarrow> ''submitted='' @ Itoa (pl_SubmittedTransactions p) @ '' included='' @ Itoa (pl_IncludedTransactions p) @
          '' successful='' @ Itoa (pl_SuccessfulTransactions p) @ '' send_gap='' @ Itoa (pl_SubmittedMinusIncluded p) @
          '' failed_send='' @ Itoa (pl_FailedSendTotal p))"

definition accounting_row ::
    "'f float64 \<Rightarrow> 'f phaseSpan list \<Rightarrow> 'f loadTestLogSummary \<Rightarrow> 'f loadWindowObservation \<Rightarrow> 'f storageSignal \<Rightarrow> 'f loadWindowAccounting" where
  "accounting_row fl timeline logs obs signal =
     (let row = accounting_intervals fl obs signal (accounting_base fl timeline logs obs signal);
          pipeline = pipeline_of (lw_PipelineSignals obs) (ss_Name signal);
          blockCount = cadenceBlockCount signal pipeline; seconds = lw_Seconds obs;
          cadence = (fl_pos fl seconds \<and> blockCount > 0)
      in row\<lparr>wa_ConsensusBlockCadenceSeconds := (if cadence then per fl seconds blockCount else wa_ConsensusBlockCadenceSeconds row),
             wa_MempoolBacklogSummary := backlog_summary pipeline,
             wa_Notes := wa_Notes row @
               note_if cadence ''block cadence is accepted-window wall time divided by finalized block count; cometbft_consensus_block_interval_seconds measures block-header timestamp deltas instead'' @
               note_if (fl_less fl seconds (ss_ABCIObservedSeconds (ss_abci signal)) \<and> fl_pos fl seconds)
                 ''ABCI summed method seconds exceed wall seconds; methods may overlap or include concurrent connections''\<rparr>)"

definition summarizeLoadWindowAccounting ::
    "'f float64 \<Rightarrow> 'f phaseSpan list \<Rightarrow> 'f loadTestLogSummary \<Rightarrow> 'f loadWindowObservation \<Rightarrow> 'f loadWindowAccounting list" where
  "summarizeLoadWindowAccounting fl timeline logs obs =
     sort_Slice (\<lambda>a b. wa_Name a < wa_Name b) (map (accounting_row fl timeline logs obs) (lw_StorageSignals obs))"

section \<open>What an accepted window says\<close>

lemma attach_keeps [simp]:
  "lw_Reached (fst (attachTreeDBStats fl ms after label obs st)) = lw_Reached obs"
  "lw_DurationSatisfied (fst (attachTreeDBStats fl ms after label obs st)) = lw_DurationSatisfied obs"
  "lw_SuccessfulTransactions (fst (attachTreeDBStats fl ms after label obs st)) = lw_SuccessfulTransactions obs"
  "lw_IncludedTransactions (fst (attachTreeDBStats fl ms after label obs st)) = lw_IncludedTransactions obs"
  "lw_EndedAt (fst (attachTreeDBStats fl ms after label obs st)) = lw_EndedAt obs"
  "lw_MetricsAfter (fst (attachTreeDBStats fl ms after label obs st)) = lw_MetricsAfter obs"
  "lw_MinimumSeconds (fst (attachTreeDBStats fl ms after label obs st)) = lw_MinimumSeconds obs"
  "lw_Error (fst (attachTreeDBStats fl ms after label obs st)) = lw_Error obs"
  by (simp_all add: attachTreeDBStats_def Let_def)

text \<open>What one turn observes.\<close>

definition observes :: "'f float64 \<Rightarrow> 'f monitor_setting \<Rightarrow> 'f monitor_turn \<Rightarrow> 'f loadWindowObservation \<Rightarrow> bool" where
  "observes fl ms t obs \<longleftrightarrow>
     lw_EndedAt obs = mu_ended t \<and> lw_MetricsAfter obs = mu_metrics t \<and> lw_MinimumSeconds obs = fl_Seconds fl (mn_minDuration ms) \<and>
     0 \<le> lw_SuccessfulTransactions obs \<and> lw_SuccessfulTransactions obs \<le> lw_IncludedTransactions obs \<and>
     (lw_DurationSatisfied obs \<longleftrightarrow> mn_minDuration ms \<le> 0 \<or> mn_minDuration ms \<le> Sub (mu_ended t) (mn_started ms)) \<and>
     (lw_Reached obs \<longrightarrow> mn_targetTransactions ms \<le> lw_SuccessfulTransactions obs \<and> (lw_DurationSatisfied obs \<longrightarrow> lw_Error obs = []))"

lemma window_observes: "observes fl ms t (fst (window_observation fl fm ms t st))"
proof -
  define st1 where "st1 = fold (\<lambda>(at, stats). collector_sample fl ms ''interval'' at stats) (mu_samples t) st"
  define signals where "signals = summarizeStorageSignals fl (appendMissingUsableMetricBaselineSnapshots (mo_baseline st1) (mu_metrics t)) (mu_metrics t) [] []"
  obtain i u c k where c: "appMetricLoadCounts fl signals = (i, u, c, k)" using prod_cases4 by blast
  obtain iv pv where p: "appendMetricDeltaWallClockIntervalsFromSamples fl (mo_intervals st1) (mo_previous st1) (mu_ended t) (mu_metrics t) = (iv, pv)"
    by fastforce
  show ?thesis using appMetricLoadCounts_ok[OF c]
    unfolding window_observation_def Let_def st1_def[symmetric] signals_def[symmetric] c p
    by (auto simp: observes_def empty_window_def)
qed

lemma monitor_loop_observes:
  "monitor_loop fl fm ms st turns = Some obs \<Longrightarrow> lw_Reached obs \<Longrightarrow> \<exists>t \<in> set turns. observes fl ms t obs"
proof (induction turns arbitrary: st)
  case (Cons t ts)
  obtain last st' where w: "window_observation fl fm ms t st = (last, st')" by fastforce
  have o1: "observes fl ms t last" using window_observes[of fl ms t fm st] w by simp
  show ?case
  proof (cases "lw_Reached last \<or> mu_select t \<noteq> Tick")
    case True
    then show ?thesis using Cons.prems w o1 by (auto simp: Let_def split: select_outcome.splits if_splits)
  next
    case False
    then show ?thesis using Cons w by (auto simp: Let_def)
  qed
qed simp


text \<open>The monitor always delivers once its context ends.\<close>

lemma monitor_loop_returns: "\<exists>t \<in> set turns. mu_select t \<noteq> Tick \<Longrightarrow> \<exists>obs. monitor_loop fl fm ms st turns = Some obs"
  by (induction turns arbitrary: st) (auto simp: Let_def split: prod.splits select_outcome.splits)

text \<open>A validator that has taken ten transactions when two were asked for, three seconds after the start.\<close>

definition demo_turn :: "int monitor_turn" where
  "demo_turn = \<lparr> mu_samples = [], mu_metrics = [\<lparr> ms_Name = ''v'', ms_URL = [], ms_Metrics = [(''tx_successful'', 10)], ms_Error = [] \<rparr>],
     mu_ended = 4, mu_stats = [], mu_select = Tick \<rparr>"

definition demo_monitor :: "int monitor_setting" where
  "demo_monitor = \<lparr> mn_targetTransactions = 2, mn_minDuration = 3, mn_started = 1, mn_treeDBBaseline = [], mn_collectTreeDBStats = False \<rparr>"

definition demo_formats :: "int formats" where
  "demo_formats = \<lparr> fm_fixed = (\<lambda>_. Itoa), fm_general = Itoa, fm_duration = Itoa, fm_time = Itoa \<rparr>"

abbreviation demo_window :: "int loadWindowObservation option" where
  "demo_window \<equiv> startLoadWindowMonitor demo_float demo_formats demo_monitor
     [\<lparr> ms_Name = ''v'', ms_URL = [], ms_Metrics = [(''tx_successful'', 4)], ms_Error = [] \<rparr>] 1 [demo_turn]"

lemma demo_window_accepted: "case demo_window of Some obs \<Rightarrow> loadWindowAccepted demo_float (Some obs) \<and> lw_SuccessfulTransactions obs = 6 | None \<Rightarrow> False"
  by code_simp


end
