(* ===== verification/Report_Results.thy ===== *)
theory Report_Results
  imports Report_Window
begin

text \<open>
  The outcome of a run in \<open>cmd/local-report-runner/main.go\<close>: the audit of the transactions the logs name, the
  corrected counts of the load test, and the figures derived from them. The load generator's result has the
  fields the runner reads. A request over HTTP is the parameter \<open>get\<close>, a command's output the parameter \<open>sh\<close>, JSON decoding \<open>dec\<close> and
  \<open>fmt.Sprint\<close> of a decoded value \<open>sprint\<close>.
\<close>

section \<open>Results\<close>

record 'f overall_stats =
  ov_TotalTransactions :: int
  ov_TotalIncludedTransactions :: int
  ov_SuccessfulTransactions :: int
  ov_FailedTransactions :: int
  ov_Runtime :: int
  ov_TPS :: 'f

record 'f load_result =
  lr_Overall :: "'f overall_stats"
  lr_ByNode :: "string list"
  lr_Error :: string

record txAudit =
  ta_Hash :: string
  ta_RPC :: string
  ta_Found :: bool
  ta_Height :: int
  ta_Code :: "32 word"
  ta_GasUsed :: int
  ta_Error :: string

record 'f txAuditSummary =
  ts_Queried :: int
  ts_Found :: int
  ts_Successful :: int
  ts_Failed :: int
  ts_TotalGasUsed :: int
  ts_TPS :: 'f

record 'f correctedLoadTest =
  co_Source :: string
  co_TotalTransactions :: int
  co_IncludedTransactions :: int
  co_SuccessfulTransactions :: int
  co_FailedTransactions :: int
  co_TotalGasUsed :: int
  co_RuntimeSeconds :: 'f
  co_TPS :: 'f
  co_CatalystMismatch :: bool
  co_Notes :: "string list"
  co_AppMetricsIncludedCandidates :: "string list"

record 'f derivedMetrics =
  dm_IntendedTransactions :: int
  dm_IncludedFraction :: 'f
  dm_SuccessfulFraction :: 'f
  dm_RuntimeIncludedTPS :: 'f
  dm_WallIncludedTPS :: 'f
  dm_LoadPhaseWallIncludedTPS :: 'f
  dm_LoadWindowIncludedTPS :: 'f
  dm_EffectiveOperations :: int
  dm_RuntimeEffectiveOperationsPerSec :: 'f
  dm_WallEffectiveOperationsPerSec :: 'f
  dm_LoadPhaseEffectiveOperationsPerSec :: 'f
  dm_LoadWindowEffectiveOperationsPerSec :: 'f
  dm_EffectiveOperationNote :: string

record 'f runtimeBreakdown =
  rb_Name :: string
  rb_WallSeconds :: 'f
  rb_LaunchSeconds :: 'f
  rb_WorkloadRuntimeSeconds :: 'f
  rb_PostLaunchNonWorkloadSeconds :: 'f
  rb_ABCIObservedSeconds :: 'f
  rb_ABCICommitSeconds :: 'f
  rb_ABCIFinalizeBlockSeconds :: 'f
  rb_ABCICheckTxSeconds :: 'f
  rb_ABCIProposalSeconds :: 'f
  rb_ABCIQuerySeconds :: 'f
  rb_ABCIFlushSeconds :: 'f
  rb_ABCIOtherSeconds :: 'f
  rb_NonABCIWorkloadSeconds :: 'f
  rb_CommitPctOfWorkload :: 'f
  rb_FinalizeBlockPctOfWorkload :: 'f
  rb_CommitPlusFinalizePctOfWorkload :: 'f
  rb_ObservedABCIPctOfWorkload :: 'f
  rb_NonABCIPctOfWorkload :: 'f
  rb_MaxRuntimeSpeedupIfCommitFree :: 'f
  rb_MaxRuntimeSpeedupIfCommitHalf :: 'f

record 'f treeDBDwellSnapshot =
  dw_Label :: string
  dw_At :: int
  dw_ElapsedSeconds :: 'f
  dw_TreeDBStats :: "'f treeDBStatsSnapshot list"
  dw_TreeDBStatDeltas :: "'f treeDBStatsDelta list"
  dw_DataSizes :: "dataPathSize list"
  dw_DataSizeDeltas :: "dataPathSizeDelta list"

record commitBenchmark =
  cb_Blocks :: uint64
  cb_StartHeight :: uint64
  cb_EndHeight :: uint64

record resourceSample =
  rs_At :: int
  rs_Stats :: "string list"

record 'f resourceSummary =
  ry_Name :: string
  ry_Samples :: nat
  ry_MaxCPUPerc :: 'f
  ry_MaxMemUsageBytes :: uint64
  ry_MaxMemUsage :: string
  ry_MaxMemPerc :: 'f
  ry_LastNetIO :: string
  ry_LastBlockIO :: string
  ry_MaxBlockReadBytes :: uint64
  ry_MaxBlockWriteBytes :: uint64

text \<open>What the comparison of Celestia syncs adds is the type parameter \<open>'c\<close>.\<close>

record ('f, 'c) runResult =
  rr_Scenario :: scenario
  rr_StartedAt :: int
  rr_FinishedAt :: int
  rr_WallSeconds :: 'f
  rr_LaunchSeconds :: 'f
  rr_PhaseTimeline :: "'f phaseSpan list"
  rr_ImageBuildCommand :: "string list"
  rr_ImageBuildLog :: string
  rr_ProviderName :: string
  rr_ContainerStats :: "string list"
  rr_ResourceSamples :: "resourceSample list"
  rr_ResourceSummary :: "'f resourceSummary list"
  rr_MetricsBefore :: "'f metricSnapshot list"
  rr_MetricsAfter :: "'f metricSnapshot list"
  rr_TreeDBStatsBefore :: "'f treeDBStatsSnapshot list"
  rr_TreeDBStatsAfter :: "'f treeDBStatsSnapshot list"
  rr_TreeDBStatDeltas :: "'f treeDBStatsDelta list"
  rr_TreeDBDwellSnapshots :: "'f treeDBDwellSnapshot list"
  rr_BackendVerification :: "backendVerification option"
  rr_DataSizesBefore :: "dataPathSize list"
  rr_DataSizesAfter :: "dataPathSize list"
  rr_StorageSignals :: "'f storageSignal list"
  rr_LoadWindow :: "'f loadWindowObservation option"
  rr_RuntimeBreakdown :: "'f runtimeBreakdown list"
  rr_ContainerLogs :: "string gomap"
  rr_LoadTestResult :: "'f load_result"
  rr_LoadTestConfig :: string
  rr_LoadTestLogs :: string
  rr_LoadTestStopped :: string
  rr_LoadTestLogSummary :: "'f loadTestLogSummary"
  rr_CorrectedLoadTest :: "'f correctedLoadTest option"
  rr_CommitBenchmark :: "commitBenchmark option"
  rr_ProfileArtifacts :: "'f profileArtifact list"
  rr_Derived :: "'f derivedMetrics"
  rr_RawTxAudit :: "txAudit list"
  rr_RawTxSummary :: "'f txAuditSummary option"
  rr_RawTxAuditSkipped :: string
  rr_CelestiaSync :: "'c option"
  rr_Error :: string

section \<open>The audit of transactions\<close>

text \<open>\<open>\b[A-F0-9]{64}\b\<close>: the maximal runs of word characters that are 64 such digits.\<close>

definition word_char :: "char \<Rightarrow> bool" where
  "word_char c \<longleftrightarrow> (let n = of_char c :: nat in (48 \<le> n \<and> n \<le> 57) \<or> (65 \<le> n \<and> n \<le> 90) \<or> (97 \<le> n \<and> n \<le> 122) \<or> n = 95)"

definition is_tx_hash :: "string \<Rightarrow> bool" where
  "is_tx_hash w \<longleftrightarrow> length w = 64 \<and> list_all (\<lambda>c. is_digit c \<or> c \<in> set ''ABCDEF'') w"

fun first_seen :: "string list \<Rightarrow> string list \<Rightarrow> string list" where
  "first_seen seen [] = []"
| "first_seen seen (h # hs) = (if h \<in> set seen then first_seen seen hs else h # first_seen (h # seen) hs)"

definition txHashesFromLogs :: "string \<Rightarrow> string list" where
  "txHashesFromLogs logs =
     first_seen [] (filter is_tx_hash (Split (CHR '' '') (map (\<lambda>c. if word_char c then c else CHR '' '') logs)))"

text \<open>\<open>int64\<close> of a float that fits, and what the conversion gives on amd64 of one that does not.\<close>

definition float_to_int64 :: "int \<Rightarrow> int \<Rightarrow> int" where
  "float_to_int64 m e =
     (let v = (if e \<ge> 0 then m * 2 ^ nat e else sgn m * (\<bar>m\<bar> div 2 ^ nat (- e)))
      in if - (2 ^ 63) \<le> v \<and> v < 2 ^ 63 then v else - (2 ^ 63))"

text \<open>A number that does not parse is 0, one out of range the nearest.\<close>

definition int64FromAny :: "gval option \<Rightarrow> int" where
  "int64FromAny v =
     (case v of
        Some (VFloat m e) \<Rightarrow> float_to_int64 m e
      | Some (VStr s) \<Rightarrow>
          (case ParseInt s of
             Inr n \<Rightarrow> n
           | Inl (New t) \<Rightarrow> if t = ''value out of range'' then (if s \<noteq> [] \<and> hd s = CHR ''-'' then - (2 ^ 63) else 2 ^ 63 - 1) else 0
           | Inl _ \<Rightarrow> 0)
      | _ \<Rightarrow> 0)"

text \<open>The response is the body, once the request and the transfer have succeeded.\<close>

definition queryRawTxOnce ::
    "(string \<Rightarrow> string result) \<Rightarrow> (string \<Rightarrow> gval gomap result) \<Rightarrow> (gval \<Rightarrow> string) \<Rightarrow> string \<Rightarrow> string \<Rightarrow> string \<Rightarrow> txAudit" where
  "queryRawTxOnce get dec sprint rpc hash prefix =
     (let audit = \<lparr> ta_Hash = hash, ta_RPC = rpc, ta_Found = False, ta_Height = 0, ta_Code = 0, ta_GasUsed = 0, ta_Error = [] \<rparr>;
          url = rev (dropWhile (\<lambda>c. c = CHR ''/'') (rev rpc)) @ ''/tx?hash='' @ prefix @ hash
      in case and_then (get url) dec of
           Inl e \<Rightarrow> audit\<lparr>ta_Error := Error_str e\<rparr>
         | Inr body \<Rightarrow>
             (case mget body ''error'' of
                Some v \<Rightarrow> audit\<lparr>ta_Error := sprint v\<rparr>
              | None \<Rightarrow>
                  (case mget body ''result'' of
                     Some (VMap res) \<Rightarrow>
                       (case mget res ''tx_result'' of
                          Some (VMap tx) \<Rightarrow> audit\<lparr>ta_Found := True, ta_Height := int64FromAny (mget res ''height''),
                            ta_Code := word_of_int (int64FromAny (mget tx ''code'')), ta_GasUsed := int64FromAny (mget tx ''gas_used'')\<rparr>
                        | _ \<Rightarrow> audit\<lparr>ta_Error := ''missing tx_result''\<rparr>)
                   | _ \<Rightarrow> audit\<lparr>ta_Error := ''missing result''\<rparr>)))"

fun query_prefixes :: "(string \<Rightarrow> txAudit) \<Rightarrow> string \<Rightarrow> string \<Rightarrow> string list \<Rightarrow> txAudit" where
  "query_prefixes q rpc hash [] =
     \<lparr> ta_Hash = hash, ta_RPC = rpc, ta_Found = False, ta_Height = 0, ta_Code = 0, ta_GasUsed = 0, ta_Error = ''not found'' \<rparr>"
| "query_prefixes q rpc hash (p # ps) =
     (let audit = q p
      in if ta_Found audit then audit
         else if ta_Error audit \<noteq> [] \<and> \<not> Contains (ta_Error audit) ''not found'' then audit
         else query_prefixes q rpc hash ps)"

definition queryRawTx ::
    "(string \<Rightarrow> string result) \<Rightarrow> (string \<Rightarrow> gval gomap result) \<Rightarrow> (gval \<Rightarrow> string) \<Rightarrow> string \<Rightarrow> string \<Rightarrow> txAudit" where
  "queryRawTx get dec sprint rpc hash = query_prefixes (queryRawTxOnce get dec sprint rpc hash) rpc hash [''0x'', []]"

text \<open>One transaction against the addresses in order; \<open>answer\<close> is the last one so far.\<close>

fun audit_hash :: "(string \<Rightarrow> txAudit) \<Rightarrow> txAudit option \<Rightarrow> string list \<Rightarrow> txAudit list" where
  "audit_hash q answer [] = (case answer of Some a \<Rightarrow> if ta_Hash a \<noteq> [] then [a] else [] | None \<Rightarrow> [])"
| "audit_hash q answer (rpc # rpcs) = (let audit = q rpc in if ta_Found audit then [audit] else audit_hash q (Some audit) rpcs)"

definition auditRawTxs ::
    "(string \<Rightarrow> string result) \<Rightarrow> (string \<Rightarrow> gval gomap result) \<Rightarrow> (gval \<Rightarrow> string) \<Rightarrow> string list \<Rightarrow> string \<Rightarrow> txAudit list" where
  "auditRawTxs get dec sprint rpcs logs =
     (let hashes = txHashesFromLogs logs
      in if rpcs = [] then
           map (\<lambda>h. \<lparr> ta_Hash = h, ta_RPC = [], ta_Found = False, ta_Height = 0, ta_Code = 0, ta_GasUsed = 0,
                     ta_Error = ''no RPC addresses available'' \<rparr>) hashes
         else concat (map (\<lambda>h. audit_hash (\<lambda>rpc. queryRawTx get dec sprint rpc h) None rpcs) hashes))"

definition dockerExternalRPCs :: "(string list \<Rightarrow> string result) \<Rightarrow> string \<Rightarrow> string \<Rightarrow> string list" where
  "dockerExternalRPCs sh providerName chainName =
     (let prefix = providerName @ ''-'' @ chainName @ ''-''
      in case sh [''docker'', ''ps'', ''--filter'', ''name='' @ prefix, ''--format'', ''{{.Names}}''] of
           Inl _ \<Rightarrow> []
         | Inr out \<Rightarrow>
             concat (map (\<lambda>name.
               if \<not> Contains name ''-node-'' \<and> \<not> Contains name ''-validator-'' then []
               else case sh [''docker'', ''inspect'', ''-f'', ''{{range $p, $v := .NetworkSettings.Ports}}{{if eq (printf '' @ [CHR 0x22] @ ''%s'' @ [CHR 0x22] @
                        '' $p) '' @ [CHR 0x22] @ ''26657/tcp'' @ [CHR 0x22] @ ''}}{{(index $v 0).HostPort}}{{end}}{{end}}'', name] of
                      Inl _ \<Rightarrow> []
                    | Inr raw \<Rightarrow> let port = TrimSpace raw
                                 in if port = [] \<or> port = ''<no value>'' then [] else [''http://127.0.0.1:'' @ port]) (Fields out)))"

definition candidateRPCs :: "(string list \<Rightarrow> string result) \<Rightarrow> string \<Rightarrow> string \<Rightarrow> 'f load_result \<Rightarrow> string list" where
  "candidateRPCs sh providerName chainName res =
     (let direct = filter (\<lambda>r. HasPrefix r ''http://'' \<or> HasPrefix r ''https://'') (lr_ByNode res)
      in sort (direct @ first_seen direct (dockerExternalRPCs sh providerName chainName)))"

definition audit_step :: "txAudit \<Rightarrow> 'f txAuditSummary \<Rightarrow> 'f txAuditSummary" where
  "audit_step a s =
     (if \<not> ta_Found a then s
      else let s = s\<lparr>ts_Found := ts_Found s + 1, ts_TotalGasUsed := wrap64 (ts_TotalGasUsed s + ta_GasUsed a)\<rparr>
           in if ta_Code a = 0 then s\<lparr>ts_Successful := ts_Successful s + 1\<rparr> else s\<lparr>ts_Failed := ts_Failed s + 1\<rparr>)"

definition summarizeTxAudit :: "'f float64 \<Rightarrow> txAudit list \<Rightarrow> int \<Rightarrow> 'f txAuditSummary option" where
  "summarizeTxAudit fl audits runtime =
     (if audits = [] then None
      else let s = fold audit_step audits \<lparr> ts_Queried = int (length audits), ts_Found = 0, ts_Successful = 0, ts_Failed = 0,
                 ts_TotalGasUsed = 0, ts_TPS = fl_zero fl \<rparr>
           in Some (if runtime > 0 then s\<lparr>ts_TPS := fl_div fl (fl_of_int fl (ts_Successful s)) (fl_Seconds fl runtime)\<rparr> else s))"

section \<open>Corrected counts\<close>

definition usableRawTxSummary :: "('f, 'c) runResult \<Rightarrow> 'f txAuditSummary option" where
  "usableRawTxSummary r = (if sc_TxIndexer (rr_Scenario r) = ''null'' then None else rr_RawTxSummary r)"

definition shouldUseAppMetricLoadCounts :: "'f overall_stats \<Rightarrow> int \<Rightarrow> int \<Rightarrow> bool" where
  "shouldUseAppMetricLoadCounts overall included successful \<longleftrightarrow>
     (if included \<le> 0 \<and> successful \<le> 0 then False
      else if ov_TotalTransactions overall = 0 then True
      else if successful > ov_SuccessfulTransactions overall then True
      else ov_TotalIncludedTransactions overall = 0 \<and> included > 0 \<and> ov_FailedTransactions overall > 0)"

text \<open>The counts the load generator reports, those of the audit, and those of the application's metrics.\<close>

definition catalyst_counts :: "'f float64 \<Rightarrow> 'f overall_stats \<Rightarrow> 'f correctedLoadTest" where
  "catalyst_counts fl o' = \<lparr> co_Source = ''catalyst'', co_TotalTransactions = ov_TotalTransactions o',
     co_IncludedTransactions = ov_TotalIncludedTransactions o', co_SuccessfulTransactions = ov_SuccessfulTransactions o',
     co_FailedTransactions = ov_FailedTransactions o', co_TotalGasUsed = 0, co_RuntimeSeconds = fl_Seconds fl (ov_Runtime o'),
     co_TPS = ov_TPS o', co_CatalystMismatch = False, co_Notes = [], co_AppMetricsIncludedCandidates = [] \<rparr>"

definition audit_counts :: "'f float64 \<Rightarrow> 'f txAuditSummary \<Rightarrow> 'f correctedLoadTest \<Rightarrow> 'f correctedLoadTest" where
  "audit_counts fl raw out = out\<lparr>co_Source := ''raw_tx_audit'', co_TotalTransactions := ts_Queried raw,
     co_IncludedTransactions := ts_Found raw, co_SuccessfulTransactions := ts_Successful raw, co_FailedTransactions := ts_Failed raw,
     co_TotalGasUsed := ts_TotalGasUsed raw, co_TPS := (if fl_pos fl (ts_TPS raw) then ts_TPS raw else co_TPS out)\<rparr>"

definition metric_counts :: "int \<Rightarrow> int \<Rightarrow> string list \<Rightarrow> 'f correctedLoadTest \<Rightarrow> 'f correctedLoadTest" where
  "metric_counts included successful candidates out =
     (let total = co_TotalTransactions out;
          total = (if total < included then included else total);
          total = (if total < successful then successful else total)
      in out\<lparr>co_Source := ''app_metrics'', co_IncludedTransactions := included, co_SuccessfulTransactions := successful,
             co_AppMetricsIncludedCandidates := candidates, co_TotalTransactions := total,
             co_FailedTransactions := nonNegativeInt (wrap64 (total - successful))\<rparr>)"

definition window_counts :: "'f float64 \<Rightarrow> 'f loadWindowObservation \<Rightarrow> 'f correctedLoadTest \<Rightarrow> 'f correctedLoadTest" where
  "window_counts fl w out =
     (let included = (if lw_IncludedTransactions w > 0 then lw_IncludedTransactions w else co_IncludedTransactions out);
          successful = (if lw_SuccessfulTransactions w > 0 then lw_SuccessfulTransactions w else co_SuccessfulTransactions out);
          windowTotal = (if included < successful then successful else included);
          total = (if windowTotal > 0 then windowTotal else co_TotalTransactions out)
      in out\<lparr>co_IncludedTransactions := included, co_SuccessfulTransactions := successful, co_TotalTransactions := total,
             co_FailedTransactions := nonNegativeInt (wrap64 (total - successful)), co_RuntimeSeconds := lw_Seconds w,
             co_TPS := fl_div fl (fl_of_int fl successful) (lw_Seconds w),
             co_Notes := co_Notes out @
               [''runtime and counts use accepted app-metric load-window because Catalyst was stopped before result collection'']\<rparr>)"

text \<open>Where the counts come from, the accepted window in place of a stopped load generator's result, and the rates.\<close>

definition corrected_source :: "'f float64 \<Rightarrow> ('f, 'c) runResult \<Rightarrow> 'f correctedLoadTest" where
  "corrected_source fl r =
     (let overall = lr_Overall (rr_LoadTestResult r); out = catalyst_counts fl overall;
          (included, successful, candidates, ok) = appMetricLoadCounts fl (rr_StorageSignals r);
          metrics = (if ok \<and> shouldUseAppMetricLoadCounts overall included successful
                     then metric_counts included successful candidates out else out)
      in case usableRawTxSummary r of
           Some raw \<Rightarrow> if ts_Queried raw > 0 then audit_counts fl raw out else metrics
         | None \<Rightarrow> metrics)"

definition corrected_window :: "'f float64 \<Rightarrow> ('f, 'c) runResult \<Rightarrow> 'f correctedLoadTest \<Rightarrow> 'f correctedLoadTest" where
  "corrected_window fl r out =
     (case rr_LoadWindow r of
        Some w \<Rightarrow> if fl_eq fl (co_RuntimeSeconds out) (fl_zero fl) \<and> rr_LoadTestStopped r \<noteq> [] \<and> loadWindowAccepted fl (Some w)
                  then window_counts fl w out else out
      | None \<Rightarrow> out)"

definition corrected_rates :: "'f float64 \<Rightarrow> 'f correctedLoadTest \<Rightarrow> 'f correctedLoadTest" where
  "corrected_rates fl out =
     (let z = fl_zero fl; n = fl_of_int fl (co_SuccessfulTransactions out);
          out = (if fl_eq fl (co_RuntimeSeconds out) z \<and> fl_pos fl (co_TPS out) \<and> co_SuccessfulTransactions out > 0
                 then out\<lparr>co_RuntimeSeconds := fl_div fl n (co_TPS out)\<rparr> else out)
      in if fl_eq fl (co_TPS out) z \<and> fl_pos fl (co_RuntimeSeconds out) \<and> co_SuccessfulTransactions out > 0
         then out\<lparr>co_TPS := fl_div fl n (co_RuntimeSeconds out)\<rparr> else out)"

definition summarizeCorrectedLoadTest :: "'f float64 \<Rightarrow> ('f, 'c) runResult \<Rightarrow> 'f correctedLoadTest option" where
  "summarizeCorrectedLoadTest fl r =
     (let overall = lr_Overall (rr_LoadTestResult r)
      in if ov_TotalTransactions overall = 0 \<and> usableRawTxSummary r = None \<and> rr_StorageSignals r = [] then None
         else let out = corrected_source fl r;
                  out = (if rr_RawTxAuditSkipped r \<noteq> [] then out\<lparr>co_Notes := co_Notes out @ [rr_RawTxAuditSkipped r]\<rparr> else out);
                  out = corrected_rates fl (corrected_window fl r out);
                  mismatch = (ov_TotalIncludedTransactions overall \<noteq> co_IncludedTransactions out \<or>
                    ov_SuccessfulTransactions overall \<noteq> co_SuccessfulTransactions out \<or>
                    ov_FailedTransactions overall \<noteq> co_FailedTransactions out)
              in Some (out\<lparr>co_CatalystMismatch := mismatch,
                           co_Notes := co_Notes out @ note_if mismatch ''catalyst result differs from corrected counts''\<rparr>))"

section \<open>Derived figures\<close>

definition loadCounts :: "'f float64 \<Rightarrow> ('f, 'c) runResult \<Rightarrow> int \<times> int \<times> 'f \<times> 'f" where
  "loadCounts fl r =
     (let overall = lr_Overall (rr_LoadTestResult r); included = ov_TotalIncludedTransactions overall;
          successful = ov_SuccessfulTransactions overall; runtimeSeconds = fl_Seconds fl (ov_Runtime overall); tps = ov_TPS overall
      in case rr_CorrectedLoadTest r of
           Some c \<Rightarrow> (co_IncludedTransactions c, co_SuccessfulTransactions c, co_RuntimeSeconds c, co_TPS c)
         | None \<Rightarrow>
             (case usableRawTxSummary r of
                None \<Rightarrow> (included, successful, runtimeSeconds, tps)
              | Some raw \<Rightarrow>
                  if fl_pos fl (ts_TPS raw) then
                    (ts_Found raw, ts_Successful raw,
                     (if fl_eq fl runtimeSeconds (fl_zero fl) \<and> ts_Successful raw > 0
                      then fl_div fl (fl_of_int fl (ts_Successful raw)) (ts_TPS raw) else runtimeSeconds), ts_TPS raw)
                  else (ts_Found raw, ts_Successful raw, runtimeSeconds, tps)))"

definition loadRuntimeSeconds :: "'f float64 \<Rightarrow> ('f, 'c) runResult \<Rightarrow> 'f" where
  "loadRuntimeSeconds fl r = fst (snd (snd (loadCounts fl r)))"

text \<open>A rate over a positive number of seconds, and zero otherwise.\<close>

definition rate :: "'f float64 \<Rightarrow> int \<Rightarrow> 'f \<Rightarrow> 'f" where
  "rate fl n seconds = (if fl_pos fl seconds then fl_div fl (fl_of_int fl n) seconds else fl_zero fl)"

definition deriveMetrics :: "'f float64 \<Rightarrow> scenario \<Rightarrow> ('f, 'c) runResult \<Rightarrow> 'f derivedMetrics" where
  "deriveMetrics fl sc r =
     (let (included, successful, runtimeSeconds, tps) = loadCounts fl r; z = fl_zero fl; w = rr_LoadWindow r;
          windowIncluded = (case w of Some o' \<Rightarrow> if lw_IncludedTransactions o' > 0 then lw_IncludedTransactions o' else included | None \<Rightarrow> included);
          windowSuccessful = (case w of Some o' \<Rightarrow> if lw_SuccessfulTransactions o' > 0 then lw_SuccessfulTransactions o' else successful | None \<Rightarrow> successful);
          intended = intendedTransactions sc; phase = phaseSeconds fl (rr_PhaseTimeline r) ''run_load_test'';
          windowSeconds = (if loadWindowAccepted fl w then lw_Seconds (the w) else z);
          (effectiveOps, note) = effectiveOperations sc successful; some = (effectiveOps > 0);
          windowOps = fst (effectiveOperations sc windowSuccessful)
      in \<lparr> dm_IntendedTransactions = intended, dm_IncludedFraction = per fl (fl_of_int fl included) intended,
           dm_SuccessfulFraction = per fl (fl_of_int fl successful) intended, dm_RuntimeIncludedTPS = tps,
           dm_WallIncludedTPS = rate fl included (rr_WallSeconds r), dm_LoadPhaseWallIncludedTPS = rate fl included phase,
           dm_LoadWindowIncludedTPS = (if loadWindowAccepted fl w then rate fl windowIncluded windowSeconds else z),
           dm_EffectiveOperations = (if some then effectiveOps else 0),
           dm_RuntimeEffectiveOperationsPerSec = (if some then rate fl effectiveOps runtimeSeconds else z),
           dm_WallEffectiveOperationsPerSec = (if some then rate fl effectiveOps (rr_WallSeconds r) else z),
           dm_LoadPhaseEffectiveOperationsPerSec = (if some then rate fl effectiveOps phase else z),
           dm_LoadWindowEffectiveOperationsPerSec =
             (if some \<and> loadWindowAccepted fl w \<and> windowOps > 0 then rate fl windowOps windowSeconds else z),
           dm_EffectiveOperationNote = (if some then note else []) \<rparr>)"

definition breakdown_row :: "'f float64 \<Rightarrow> ('f, 'c) runResult \<Rightarrow> 'f \<Rightarrow> 'f storageSignal \<Rightarrow> 'f runtimeBreakdown" where
  "breakdown_row fl r workload signal =
     (let a = ss_abci signal; z = fl_zero fl; some = fl_pos fl workload; commit = ss_ABCICommitSeconds a;
          half = fl_div fl commit (fl_of_int fl 2); pct = (\<lambda>x. if some then fl_div fl (fl_mul fl (fl_of_int fl 100) x) workload else z);
          rest = (if some then nonNegative fl (fl_sub fl workload (ss_ABCIObservedSeconds a)) else z)
      in \<lparr> rb_Name = ss_Name signal, rb_WallSeconds = rr_WallSeconds r, rb_LaunchSeconds = rr_LaunchSeconds r,
           rb_WorkloadRuntimeSeconds = workload,
           rb_PostLaunchNonWorkloadSeconds = nonNegative fl (fl_sub fl (fl_sub fl (rr_WallSeconds r) (rr_LaunchSeconds r)) workload),
           rb_ABCIObservedSeconds = ss_ABCIObservedSeconds a, rb_ABCICommitSeconds = commit,
           rb_ABCIFinalizeBlockSeconds = ss_ABCIFinalizeBlockSeconds a, rb_ABCICheckTxSeconds = ss_ABCICheckTxSeconds a,
           rb_ABCIProposalSeconds = fl_add fl (ss_ABCIPrepareProposalSeconds a) (ss_ABCIProcessProposalSeconds a),
           rb_ABCIQuerySeconds = ss_ABCIQuerySeconds a, rb_ABCIFlushSeconds = ss_ABCIFlushSeconds a,
           rb_ABCIOtherSeconds = ss_ABCIOtherSeconds a, rb_NonABCIWorkloadSeconds = rest, rb_CommitPctOfWorkload = pct commit,
           rb_FinalizeBlockPctOfWorkload = pct (ss_ABCIFinalizeBlockSeconds a),
           rb_CommitPlusFinalizePctOfWorkload = pct (fl_add fl commit (ss_ABCIFinalizeBlockSeconds a)),
           rb_ObservedABCIPctOfWorkload = pct (ss_ABCIObservedSeconds a), rb_NonABCIPctOfWorkload = pct rest,
           rb_MaxRuntimeSpeedupIfCommitFree =
             (if some \<and> fl_less fl commit workload then fl_div fl workload (fl_sub fl workload commit) else z),
           rb_MaxRuntimeSpeedupIfCommitHalf =
             (if some \<and> fl_less fl half workload then fl_div fl workload (fl_sub fl workload half) else z) \<rparr>)"

definition summarizeRuntimeBreakdown :: "'f float64 \<Rightarrow> ('f, 'c) runResult \<Rightarrow> 'f runtimeBreakdown list" where
  "summarizeRuntimeBreakdown fl r =
     (let workload = loadRuntimeSeconds fl r;
          workload = (case usableRawTxSummary r of
             Some raw \<Rightarrow> if fl_eq fl workload (fl_zero fl) \<and> fl_pos fl (ts_TPS raw)
                         then fl_div fl (fl_of_int fl (ts_Successful raw)) (ts_TPS raw) else workload
           | None \<Rightarrow> workload)
      in map (breakdown_row fl r workload) (rr_StorageSignals r))"

section \<open>Every transaction is accounted for\<close>

lemma query_hash [simp]: "ta_Hash (queryRawTxOnce get dec sprint rpc h p) = h"
  by (auto simp: queryRawTxOnce_def Let_def split: sum.splits option.splits gval.splits)

lemma query_prefixes_hash: "(\<And>p. ta_Hash (q p) = h) \<Longrightarrow> ta_Hash (query_prefixes q rpc h ps) = h"
  by (induction ps) (auto simp: Let_def)

lemma queryRawTx_hash [simp]: "ta_Hash (queryRawTx get dec sprint rpc h) = h"
  unfolding queryRawTx_def by (rule query_prefixes_hash) simp

text \<open>Auditing one transaction gives one answer, which tells whether some address found it.\<close>

lemma audit_hash_one:
  assumes "\<And>rpc. ta_Hash (q rpc) = h" "h \<noteq> []" "\<And>a. answer = Some a \<Longrightarrow> ta_Hash a = h \<and> \<not> ta_Found a" "answer \<noteq> None \<or> rpcs \<noteq> []"
  shows "\<exists>a. audit_hash q answer rpcs = [a] \<and> ta_Hash a = h \<and> (ta_Found a \<longleftrightarrow> (\<exists>rpc \<in> set rpcs. ta_Found (q rpc)))"
  using assms(3,4)
proof (induction rpcs arbitrary: answer)
  case Nil
  then show ?case using assms(2) by auto
next
  case (Cons rpc rpcs)
  show ?case
  proof (cases "ta_Found (q rpc)")
    case True
    then show ?thesis using assms(1) by auto
  next
    case False
    then show ?thesis using Cons.IH[of "Some (q rpc)"] assms(1) by (auto simp: Let_def)
  qed
qed

lemma first_seen_distinct: "distinct (first_seen seen hs) \<and> set (first_seen seen hs) = set hs - set seen"
  by (induction hs arbitrary: seen) auto

lemma hashes_ok: "distinct (txHashesFromLogs logs) \<and> (\<forall>h \<in> set (txHashesFromLogs logs). length h = 64)"
  using first_seen_distinct by (auto simp: txHashesFromLogs_def is_tx_hash_def)

lemma concat_singles: "(\<And>x. x \<in> set xs \<Longrightarrow> f x = [g x]) \<Longrightarrow> concat (map f xs) = map g xs"
  by (induction xs) auto

lemma audits_one_each:
  "\<exists>g. auditRawTxs get dec sprint rpcs logs = map g (txHashesFromLogs logs) \<and>
     (\<forall>h \<in> set (txHashesFromLogs logs). ta_Hash (g h) = h \<and>
        (ta_Found (g h) \<longleftrightarrow> (\<exists>rpc \<in> set rpcs. ta_Found (queryRawTx get dec sprint rpc h))))"
proof (cases "rpcs = []")
  case True
  then show ?thesis unfolding auditRawTxs_def Let_def
    by (intro exI[of _ "\<lambda>h. \<lparr> ta_Hash = h, ta_RPC = [], ta_Found = False, ta_Height = 0, ta_Code = 0, ta_GasUsed = 0,
        ta_Error = ''no RPC addresses available'' \<rparr>"]) simp
next
  case False
  have "\<exists>a. audit_hash (\<lambda>rpc. queryRawTx get dec sprint rpc h) None rpcs = [a] \<and> ta_Hash a = h \<and>
      (ta_Found a \<longleftrightarrow> (\<exists>rpc \<in> set rpcs. ta_Found (queryRawTx get dec sprint rpc h)))" if "h \<in> set (txHashesFromLogs logs)" for h
    using audit_hash_one[of "\<lambda>rpc. queryRawTx get dec sprint rpc h" h None rpcs] hashes_ok that False by fastforce
  then obtain g where g: "\<forall>h \<in> set (txHashesFromLogs logs). audit_hash (\<lambda>rpc. queryRawTx get dec sprint rpc h) None rpcs = [g h] \<and>
      ta_Hash (g h) = h \<and> (ta_Found (g h) \<longleftrightarrow> (\<exists>rpc \<in> set rpcs. ta_Found (queryRawTx get dec sprint rpc h)))" by metis
  then have "auditRawTxs get dec sprint rpcs logs = map g (txHashesFromLogs logs)"
    using False by (simp add: auditRawTxs_def concat_singles)
  then show ?thesis using g by blast
qed

lemma audit_fold:
  "ts_Found (fold audit_step audits s) = ts_Found s + int (length (filter ta_Found audits))"
  "ts_Successful (fold audit_step audits s) = ts_Successful s + int (length (filter (\<lambda>a. ta_Found a \<and> ta_Code a = 0) audits))"
  "ts_Failed (fold audit_step audits s) = ts_Failed s + int (length (filter (\<lambda>a. ta_Found a \<and> ta_Code a \<noteq> 0) audits))"
  "ts_Queried (fold audit_step audits s) = ts_Queried s"
  by (induction audits arbitrary: s) (simp_all add: audit_step_def Let_def)

lemma found_splits:
  "length (filter ta_Found audits) =
     length (filter (\<lambda>a. ta_Found a \<and> ta_Code a = 0) audits) + length (filter (\<lambda>a. ta_Found a \<and> ta_Code a \<noteq> 0) audits)"
  by (induction audits) auto

text \<open>The counts of an audit summary that belong together.\<close>

definition summary_counts_ok :: "'f txAuditSummary \<Rightarrow> bool" where
  "summary_counts_ok s \<longleftrightarrow> 0 \<le> ts_Successful s \<and> 0 \<le> ts_Failed s \<and> ts_Found s = ts_Successful s + ts_Failed s \<and> ts_Found s \<le> ts_Queried s"

lemma summarizeTxAudit_counts:
  assumes "summarizeTxAudit fl audits runtime = Some s"
  shows "ts_Queried s = int (length audits)" "ts_Found s = int (length (filter ta_Found audits))" "summary_counts_ok s"
  using assms found_splits[of audits] length_filter_le[of ta_Found audits]
  by (auto simp: summarizeTxAudit_def summary_counts_ok_def audit_fold Let_def split: if_splits)

text \<open>C22: The audit accounts for every transaction. It has exactly one entry for each transaction hash of the logs,
  in the order they first appear, found exactly when some address knows the transaction; and the summary counts them
  all, each one found as either successful or failed.\<close>

theorem audit_accounts_for_every_transaction:
  "let audits = auditRawTxs get dec sprint rpcs logs
   in map ta_Hash audits = txHashesFromLogs logs \<and> distinct (map ta_Hash audits) \<and>
      (\<forall>a \<in> set audits. ta_Found a \<longleftrightarrow> (\<exists>rpc \<in> set rpcs. ta_Found (queryRawTx get dec sprint rpc (ta_Hash a)))) \<and>
      (\<forall>s. summarizeTxAudit fl audits runtime = Some s \<longrightarrow>
         ts_Queried s = int (length (txHashesFromLogs logs)) \<and> ts_Found s = int (length (filter ta_Found audits)) \<and> summary_counts_ok s)"
proof -
  obtain g where g: "auditRawTxs get dec sprint rpcs logs = map g (txHashesFromLogs logs)"
    "\<forall>h \<in> set (txHashesFromLogs logs). ta_Hash (g h) = h \<and>
        (ta_Found (g h) \<longleftrightarrow> (\<exists>rpc \<in> set rpcs. ta_Found (queryRawTx get dec sprint rpc h)))" using audits_one_each by metis
  then have m: "map ta_Hash (auditRawTxs get dec sprint rpcs logs) = txHashesFromLogs logs" by (simp add: map_idI)
  then have l: "length (auditRawTxs get dec sprint rpcs logs) = length (txHashesFromLogs logs)" by (metis length_map)
  have "ts_Queried s = int (length (txHashesFromLogs logs)) \<and> summary_counts_ok s \<and>
      ts_Found s = int (length (filter ta_Found (auditRawTxs get dec sprint rpcs logs)))"
    if "summarizeTxAudit fl (auditRawTxs get dec sprint rpcs logs) runtime = Some s" for s
    using summarizeTxAudit_counts[OF that] l by simp
  then show ?thesis unfolding Let_def using m hashes_ok[of logs] g by auto
qed

section \<open>Corrected counts are consistent\<close>

lemma wrap64_id: "0 \<le> i \<Longrightarrow> i < 2 ^ 63 \<Longrightarrow> wrap64 i = i"
  by (simp add: wrap64_def int_of_uint64_of_int)

definition corrected_ok :: "'f correctedLoadTest \<Rightarrow> bool" where
  "corrected_ok c \<longleftrightarrow> 0 \<le> co_SuccessfulTransactions c \<and> 0 \<le> co_IncludedTransactions c \<and> 0 \<le> co_FailedTransactions c \<and>
     co_IncludedTransactions c \<le> co_TotalTransactions c \<and>
     co_SuccessfulTransactions c + co_FailedTransactions c \<le> co_TotalTransactions c \<and> co_TotalTransactions c < 2 ^ 63"

definition overall_ok :: "'f overall_stats \<Rightarrow> bool" where
  "overall_ok o' \<longleftrightarrow> 0 \<le> ov_SuccessfulTransactions o' \<and> 0 \<le> ov_TotalIncludedTransactions o' \<and> 0 \<le> ov_FailedTransactions o' \<and>
     ov_TotalIncludedTransactions o' \<le> ov_TotalTransactions o' \<and>
     ov_SuccessfulTransactions o' + ov_FailedTransactions o' \<le> ov_TotalTransactions o' \<and> ov_TotalTransactions o' < 2 ^ 63"

lemma catalyst_ok: "overall_ok o' \<Longrightarrow> corrected_ok (catalyst_counts fl o')"
  by (simp add: overall_ok_def corrected_ok_def catalyst_counts_def)

lemma audit_ok: "summary_counts_ok s \<Longrightarrow> ts_Queried s < 2 ^ 63 \<Longrightarrow> corrected_ok (audit_counts fl s out)"
  by (simp add: summary_counts_ok_def corrected_ok_def audit_counts_def)

lemma metric_ok:
  "corrected_ok out \<Longrightarrow> 0 \<le> u \<Longrightarrow> u \<le> i \<Longrightarrow> i < 2 ^ 63 \<Longrightarrow> corrected_ok (metric_counts i u cs out)"
  by (auto simp: corrected_ok_def metric_counts_def Let_def nonNegativeInt_def wrap64_id)

lemma window_ok:
  "corrected_ok out \<Longrightarrow> lw_IncludedTransactions w < 2 ^ 63 \<Longrightarrow> lw_SuccessfulTransactions w < 2 ^ 63 \<Longrightarrow> corrected_ok (window_counts fl w out)"
  by (auto simp: corrected_ok_def window_counts_def Let_def nonNegativeInt_def wrap64_id)

lemma corrected_ok_updates [simp]:
  "corrected_ok (out\<lparr>co_Notes := n\<rparr>) = corrected_ok out" "corrected_ok (out\<lparr>co_RuntimeSeconds := x\<rparr>) = corrected_ok out"
  "corrected_ok (out\<lparr>co_TPS := x\<rparr>) = corrected_ok out" "corrected_ok (out\<lparr>co_CatalystMismatch := b\<rparr>) = corrected_ok out"
  by (simp_all add: corrected_ok_def)


text \<open>A run whose load generator reported nothing while the chain took ten transactions.\<close>

definition demo_hash :: string where
  "demo_hash = replicate 64 (CHR ''A'')"

definition demo_overall :: "int overall_stats" where
  "demo_overall = \<lparr> ov_TotalTransactions = 12, ov_TotalIncludedTransactions = 0, ov_SuccessfulTransactions = 0, ov_FailedTransactions = 12,
     ov_Runtime = 4, ov_TPS = 0 \<rparr>"

definition demo_signals :: "int storageSignal list" where
  "demo_signals = summarizeStorageSignals demo_float
     [\<lparr> ms_Name = ''v'', ms_URL = [], ms_Metrics = [(''tx_successful'', 1)], ms_Error = [] \<rparr>]
     [\<lparr> ms_Name = ''v'', ms_URL = [], ms_Metrics = [(''tx_successful'', 11)], ms_Error = [] \<rparr>] [] []"

definition no_breakdown :: "int derivedMetrics" where
  "no_breakdown = \<lparr> dm_IntendedTransactions = 0, dm_IncludedFraction = 0, dm_SuccessfulFraction = 0, dm_RuntimeIncludedTPS = 0,
     dm_WallIncludedTPS = 0, dm_LoadPhaseWallIncludedTPS = 0, dm_LoadWindowIncludedTPS = 0, dm_EffectiveOperations = 0,
     dm_RuntimeEffectiveOperationsPerSec = 0, dm_WallEffectiveOperationsPerSec = 0, dm_LoadPhaseEffectiveOperationsPerSec = 0,
     dm_LoadWindowEffectiveOperationsPerSec = 0, dm_EffectiveOperationNote = [] \<rparr>"

definition demo_result :: "(int, unit) runResult" where
  "demo_result = \<lparr> rr_Scenario = demo_report_scenario, rr_StartedAt = 0, rr_FinishedAt = 0, rr_WallSeconds = 0, rr_LaunchSeconds = 0,
     rr_PhaseTimeline = [], rr_ImageBuildCommand = [], rr_ImageBuildLog = [], rr_ProviderName = [], rr_ContainerStats = [],
     rr_ResourceSamples = [], rr_ResourceSummary = [], rr_MetricsBefore = [], rr_MetricsAfter = [], rr_TreeDBStatsBefore = [],
     rr_TreeDBStatsAfter = [], rr_TreeDBStatDeltas = [], rr_TreeDBDwellSnapshots = [], rr_BackendVerification = None,
     rr_DataSizesBefore = [], rr_DataSizesAfter = [], rr_StorageSignals = demo_signals, rr_LoadWindow = None, rr_RuntimeBreakdown = [],
     rr_ContainerLogs = [], rr_LoadTestResult = \<lparr> lr_Overall = demo_overall, lr_ByNode = [], lr_Error = [] \<rparr>, rr_LoadTestConfig = [],
     rr_LoadTestLogs = [], rr_LoadTestStopped = [], rr_LoadTestLogSummary = no_log_summary, rr_CorrectedLoadTest = None,
     rr_CommitBenchmark = None, rr_ProfileArtifacts = [], rr_Derived = no_breakdown, rr_RawTxAudit = [], rr_RawTxSummary = None,
     rr_RawTxAuditSkipped = [], rr_CelestiaSync = None, rr_Error = [] \<rparr>"

lemma demo_counts: "appMetricLoadCounts demo_float demo_signals = (10, 10, [''v.sdk_tx_successful_delta=10''], True)"
  by code_simp

lemma demo_corrected:
  "case summarizeCorrectedLoadTest demo_float demo_result of
     Some c \<Rightarrow> co_SuccessfulTransactions c = 10 \<and> co_FailedTransactions c = 2 \<and> co_TotalTransactions c = 12 | None \<Rightarrow> False"
  by code_simp


theorem audit_accounts_for_every_transaction_witness:
  "map ta_Hash (auditRawTxs (\<lambda>_. Inl (New ''down'')) (\<lambda>_. Inr []) (\<lambda>_. []) [''http://v''] (''tx '' @ demo_hash)) =
     txHashesFromLogs (''tx '' @ demo_hash)"
  using audit_accounts_for_every_transaction[of "\<lambda>_. Inl (New ''down'')" "\<lambda>_. Inr []" "\<lambda>_. []" "[''http://v'']" "''tx '' @ demo_hash"
      demo_float 1]
  by (simp add: Let_def)

end
