(* ===== verification/Report_Collect.thy ===== *)
theory Report_Collect
  imports Report_Results Activities
begin

text \<open>
  What a run of \<open>cmd/local-report-runner/main.go\<close> collects from the containers of its provider: statistics, logs,
  metrics, TreeDB's debug variables, the sizes of data directories, and profiles of the first validator. The output of a command is the
  parameter \<open>cmd\<close>, the combined output \<open>cmdc\<close>, which comes even with an error; \<open>get\<close> is a request over HTTP with
  its status code, status line and body; \<open>dec\<close> is JSON decoding, \<open>num\<close> the \<open>float64\<close> of a decoded number and \<open>sprint\<close> the
  function \<open>fmt.Sprint\<close>.
\<close>

section \<open>Containers\<close>

type_synonym command = "string list \<Rightarrow> string result"
type_synonym combined = "string list \<Rightarrow> string \<times> error option"

definition dockerContainerNames :: "command \<Rightarrow> string \<Rightarrow> bool \<Rightarrow> string list" where
  "dockerContainerNames cmd providerName all =
     (case cmd ([''docker'', ''ps''] @ (if all then [''-a''] else []) @
               [''--filter'', ''label=petri-provider='' @ providerName, ''--format'', ''{{.Names}}'']) of
        Inl _ \<Rightarrow> []
      | Inr out \<Rightarrow> Fields out)"

definition dockerStats :: "command \<Rightarrow> string \<Rightarrow> string list" where
  "dockerStats cmd providerName =
     (let names = dockerContainerNames cmd providerName False
      in if names = [] then []
         else case cmd ([''docker'', ''stats'', ''--no-stream'', ''--format'', ''{{json .}}''] @ names) of
                Inl _ \<Rightarrow> []
              | Inr out \<Rightarrow> filter (\<lambda>line. TrimSpace line \<noteq> []) (Split (CHR 0x0A) (TrimSpace out)))"

definition container_log :: "combined \<Rightarrow> int \<Rightarrow> string \<Rightarrow> string gomap \<Rightarrow> string gomap result" where
  "container_log cmdc limit name logs =
     (let (out, err) = cmdc [''docker'', ''logs'', ''--tail'', ''300'', name];
          text = TrimSpace out;
          text = (case err of Some e \<Rightarrow> if text = [] then Error_str e else text | None \<Rightarrow> text)
      in if text = [] then Inr logs else and_then (trimLog text limit) (\<lambda>t. Inr (mput name t logs)))"

fun container_logs :: "combined \<Rightarrow> int \<Rightarrow> string list \<Rightarrow> string gomap \<Rightarrow> string gomap result" where
  "container_logs cmdc limit [] logs = Inr logs"
| "container_logs cmdc limit (n # ns) logs = and_then (container_log cmdc limit n logs) (container_logs cmdc limit ns)"

definition dockerLogs :: "command \<Rightarrow> combined \<Rightarrow> string \<Rightarrow> int \<Rightarrow> string gomap result" where
  "dockerLogs cmd cmdc providerName limit = container_logs cmdc limit (dockerContainerNames cmd providerName True) []"

text \<open>\<open>exec.CommandContext\<close> starts nothing once its context is done.\<close>

definition command_context :: "bool \<Rightarrow> command \<Rightarrow> command" where
  "command_context cancelled cmd args = (if cancelled then Inl Canceled else cmd args)"

definition take_sample :: "string \<Rightarrow> command \<times> int \<Rightarrow> resourceSample list \<Rightarrow> resourceSample list" where
  "take_sample providerName turn samples =
     (let stats = dockerStats (fst turn) providerName
      in if stats = [] then samples else samples @ [\<lparr> rs_At = snd turn, rs_Stats = stats \<rparr>])"

text \<open>The sampler's goroutine from its start until it is stopped: \<open>turns\<close> are its first sample and those of its ticks,
  \<open>stopped\<close> the one it takes once its context is done.\<close>

definition startDockerStatsSampler :: "string \<Rightarrow> int \<Rightarrow> (command \<times> int) list \<Rightarrow> command \<times> int \<Rightarrow> resourceSample list option" where
  "startDockerStatsSampler providerName interval turns stopped =
     (if interval \<le> 0 then None
      else Some (take_sample providerName (command_context True (fst stopped), snd stopped)
                  (fold (take_sample providerName) turns [])))"

definition zero_summary :: "'f float64 \<Rightarrow> string \<Rightarrow> 'f resourceSummary" where
  "zero_summary fl name = \<lparr> ry_Name = name, ry_Samples = 0, ry_MaxCPUPerc = fl_zero fl, ry_MaxMemUsageBytes = 0, ry_MaxMemUsage = [],
     ry_MaxMemPerc = fl_zero fl, ry_LastNetIO = [], ry_LastBlockIO = [], ry_MaxBlockReadBytes = 0, ry_MaxBlockWriteBytes = 0 \<rparr>"

definition note_row :: "'f float64 \<Rightarrow> string gomap \<Rightarrow> 'f resourceSummary \<Rightarrow> 'f resourceSummary" where
  "note_row fl row s =
     (let s = s\<lparr>ry_Samples := ry_Samples s + 1\<rparr>;
          cpu = percentValue fl (mget_str row ''CPUPerc'');
          s = (if fl_less fl (ry_MaxCPUPerc s) cpu then s\<lparr>ry_MaxCPUPerc := cpu\<rparr> else s);
          mem = percentValue fl (mget_str row ''MemPerc'');
          s = (if fl_less fl (ry_MaxMemPerc s) mem then s\<lparr>ry_MaxMemPerc := mem\<rparr> else s);
          (usage, usageText) = memoryUsage fl (mget_str row ''MemUsage'');
          s = (if usage > ry_MaxMemUsageBytes s then s\<lparr>ry_MaxMemUsageBytes := usage, ry_MaxMemUsage := usageText\<rparr> else s);
          s = (if mget_str row ''NetIO'' \<noteq> [] then s\<lparr>ry_LastNetIO := mget_str row ''NetIO''\<rparr> else s)
      in if mget_str row ''BlockIO'' = [] then s
         else let s = s\<lparr>ry_LastBlockIO := mget_str row ''BlockIO''\<rparr>;
                  (readBytes, writeBytes) = ioPairBytes fl (mget_str row ''BlockIO'');
                  s = (if readBytes > ry_MaxBlockReadBytes s then s\<lparr>ry_MaxBlockReadBytes := readBytes\<rparr> else s)
              in if writeBytes > ry_MaxBlockWriteBytes s then s\<lparr>ry_MaxBlockWriteBytes := writeBytes\<rparr> else s)"

definition row_name :: "string gomap \<Rightarrow> string" where
  "row_name row = (if mget_str row ''Name'' = [] then mget_str row ''Container'' else mget_str row ''Name'')"

definition note_stats ::
    "'f float64 \<Rightarrow> (string \<Rightarrow> string gomap result) \<Rightarrow> string \<Rightarrow> 'f resourceSummary gomap \<Rightarrow> 'f resourceSummary gomap" where
  "note_stats fl dec raw byName =
     (case dec raw of
        Inl _ \<Rightarrow> byName
      | Inr row \<Rightarrow>
          if row_name row = [] then byName
          else mput (row_name row)
                 (note_row fl row (case mget byName (row_name row) of None \<Rightarrow> zero_summary fl (row_name row) | Some s \<Rightarrow> s)) byName)"

definition summarizeResourceSamples ::
    "'f float64 \<Rightarrow> (string \<Rightarrow> string gomap result) \<Rightarrow> resourceSample list \<Rightarrow> 'f resourceSummary list" where
  "summarizeResourceSamples fl dec samples =
     (if samples = [] then []
      else sort_key ry_Name (map snd (fold (note_stats fl dec) (concat (map rs_Stats samples)) [])))"

section \<open>Metrics\<close>

definition containerMetricsURL :: "command \<Rightarrow> string \<Rightarrow> string" where
  "containerMetricsURL cmd name =
     (let inspect = (\<lambda>format. [''docker'', ''inspect'', ''--format'', format, name]);
          ip = (case cmd (inspect ''{{range .NetworkSettings.Networks}}{{.IPAddress}}{{end}}'') of Inl _ \<Rightarrow> [] | Inr out \<Rightarrow> TrimSpace out)
      in if ip \<noteq> [] then ''http://'' @ ip @ '':26660/metrics''
         else case cmd (inspect (''{{with index .NetworkSettings.Ports '' @ Quote ''26660/tcp'' @ ''}}{{(index . 0).HostPort}}{{end}}'')) of
                Inl _ \<Rightarrow> []
              | Inr out \<Rightarrow> let port = TrimSpace out in if port \<noteq> [] then ''http://127.0.0.1:'' @ port @ ''/metrics'' else [])"

definition scrape_container ::
    "'f float64 \<Rightarrow> command \<Rightarrow> (string \<Rightarrow> (int \<times> string \<times> string) result) \<Rightarrow> string \<Rightarrow> 'f metricSnapshot list" where
  "scrape_container fl cmd get name =
     (if Contains name ''catalyst'' then []
      else let url = containerMetricsURL cmd name; snapshot = \<lparr> ms_Name = name, ms_URL = url, ms_Metrics = [], ms_Error = [] \<rparr>
           in if url = [] then []
              else case get url of
                     Inl e \<Rightarrow> [snapshot\<lparr>ms_Error := Error_str e\<rparr>]
                   | Inr (code, status, body) \<Rightarrow>
                       if code < 200 \<or> code \<ge> 300 then [snapshot\<lparr>ms_Error := status\<rparr>]
                       else [snapshot\<lparr>ms_Metrics := parsePrometheusMetrics fl body\<rparr>])"

definition scrapeMetrics ::
    "'f float64 \<Rightarrow> command \<Rightarrow> (string \<Rightarrow> (int \<times> string \<times> string) result) \<Rightarrow> string \<Rightarrow> 'f metricSnapshot list" where
  "scrapeMetrics fl cmd get providerName = concat (map (scrape_container fl cmd get) (dockerContainerNames cmd providerName False))"

section \<open>TreeDB's debug variables\<close>

text \<open>The verb \<open>%T\<close>.\<close>

fun go_type :: "gval \<Rightarrow> string" where
  "go_type VNil = ''<nil>''"
| "go_type (VBool _) = ''bool''"
| "go_type (VInt _) = ''int64''"
| "go_type (VFloat _ _) = ''float64''"
| "go_type (VStr _) = ''string''"
| "go_type (VList _) = ''[]interface {}''"
| "go_type (VMap _) = ''map[string]interface {}''"

definition treeDBExpvarFloat :: "'f float64 \<Rightarrow> (int \<Rightarrow> int \<Rightarrow> 'f) \<Rightarrow> gval \<Rightarrow> 'f \<times> bool" where
  "treeDBExpvarFloat fl num raw =
     (case raw of
        VFloat m e \<Rightarrow> (num m e, True)
      | VInt i \<Rightarrow> (fl_of_int fl i, True)
      | VStr s \<Rightarrow> fl_Parse fl (TrimSpace s)
      | _ \<Rightarrow> (fl_zero fl, False))"

fun stringTreeDBExpvarValue :: "(gval \<Rightarrow> string) \<Rightarrow> gval gomap \<Rightarrow> string list \<Rightarrow> string" where
  "stringTreeDBExpvarValue sprint stats [] = []"
| "stringTreeDBExpvarValue sprint stats (key # ks) =
     (case mget stats key of
        None \<Rightarrow> stringTreeDBExpvarValue sprint stats ks
      | Some raw \<Rightarrow> let v = TrimSpace (sprint raw) in if v \<noteq> [] then v else stringTreeDBExpvarValue sprint stats ks)"

definition expvar_metric :: "'f float64 \<Rightarrow> (int \<Rightarrow> int \<Rightarrow> 'f) \<Rightarrow> string \<times> gval \<Rightarrow> (string \<times> 'f) list" where
  "expvar_metric fl num kv =
     (case kv of (key, raw) \<Rightarrow>
        if \<not> HasPrefix key ''treedb.'' \<or> key = ''treedb.expvar.wal_dir'' \<or> key = ''treedb.process.identity.wal_dir'' then []
        else case treeDBExpvarFloat fl num raw of (v, ok) \<Rightarrow> if \<not> ok \<or> \<not> fl_finite fl v then [] else [(key, v)])"

definition numericTreeDBExpvarMetrics :: "'f float64 \<Rightarrow> (int \<Rightarrow> int \<Rightarrow> 'f) \<Rightarrow> gval gomap \<Rightarrow> 'f gomap" where
  "numericTreeDBExpvarMetrics fl num stats = mcopy (concat (map (expvar_metric fl num) stats)) []"

definition known_stores :: "string list" where
  "known_stores = [''application.db'', ''blockstore.db'', ''state.db'', ''tx_index.db'', ''evidence.db'']"

definition treeDBStoreFromWALDir :: "string \<Rightarrow> string" where
  "treeDBStoreFromWALDir walDir =
     (let normalized = ReplaceChar (CHR 0x5C) ''/'' walDir; parts = Split (CHR ''/'') normalized
      in case find (\<lambda>part. part \<in> set known_stores) parts of
           Some part \<Rightarrow> part
         | None \<Rightarrow>
             (case find (\<lambda>part. HasSuffix part ''.db'') parts of
                Some part \<Rightarrow> part
              | None \<Rightarrow> if walDir = [] then ''unknown'' else path_Base (path_Dir normalized)))"

definition expvar_snapshot ::
    "'f float64 \<Rightarrow> (int \<Rightarrow> int \<Rightarrow> 'f) \<Rightarrow> (gval \<Rightarrow> string) \<Rightarrow> string \<Rightarrow> string \<Rightarrow> string \<Rightarrow> string \<Rightarrow> gval gomap \<Rightarrow>
     'f treeDBStatsSnapshot list" where
  "expvar_snapshot fl num sprint name url instance_name wal_key stats =
     (let wal = stringTreeDBExpvarValue sprint stats [wal_key, ''treedb.process.identity.wal_dir''];
          metrics = numericTreeDBExpvarMetrics fl num stats
      in if metrics = [] then []
         else [\<lparr> tb_Name = name, tb_URL = url, tb_Instance = instance_name, tb_Store = treeDBStoreFromWALDir wal, tb_WALDir = wal,
                 tb_Metrics = metrics, tb_Error = [] \<rparr>])"

definition error_snapshot :: "string \<Rightarrow> string \<Rightarrow> string \<Rightarrow> string \<Rightarrow> 'f treeDBStatsSnapshot" where
  "error_snapshot name url instance_name e =
     \<lparr> tb_Name = name, tb_URL = url, tb_Instance = instance_name, tb_Store = [], tb_WALDir = [], tb_Metrics = [], tb_Error = e \<rparr>"

definition instance_snapshot ::
    "'f float64 \<Rightarrow> (int \<Rightarrow> int \<Rightarrow> 'f) \<Rightarrow> (gval \<Rightarrow> string) \<Rightarrow> string \<Rightarrow> string \<Rightarrow> string \<times> gval \<Rightarrow> 'f treeDBStatsSnapshot list" where
  "instance_snapshot fl num sprint name url kv =
     (case kv of (inst, raw) \<Rightarrow>
        (case raw of
           VMap stats \<Rightarrow> expvar_snapshot fl num sprint name url inst ''treedb.expvar.wal_dir'' stats
         | _ \<Rightarrow> [error_snapshot name url inst (''treedb instance has type '' @ go_type raw @ '', want object'')]))"

definition instances_of :: "gval gomap \<Rightarrow> gval gomap" where
  "instances_of treedb = (case mget treedb ''instances'' of Some (VMap m) \<Rightarrow> m | _ \<Rightarrow> [])"

definition parseTreeDBDebugVars ::
    "'f float64 \<Rightarrow> (string \<Rightarrow> gval gomap result) \<Rightarrow> (int \<Rightarrow> int \<Rightarrow> 'f) \<Rightarrow> (gval \<Rightarrow> string) \<Rightarrow> string \<Rightarrow> string \<Rightarrow> string \<Rightarrow>
     'f treeDBStatsSnapshot list result" where
  "parseTreeDBDebugVars fl dec num sprint name url raw =
     (case dec raw of
        Inl e \<Rightarrow> Inl (New (''parse debug vars JSON: '' @ Error_str e))
      | Inr root \<Rightarrow>
          (case mget root ''treedb'' of
             None \<Rightarrow> Inr []
           | Some (VMap treedb) \<Rightarrow>
               Inr (if instances_of treedb = [] then
                      expvar_snapshot fl num sprint name url ''current'' ''treedb.expvar.current_wal_dir'' treedb
                    else concat (map (instance_snapshot fl num sprint name url) (instances_of treedb)))
           | Some v \<Rightarrow> Inl (New (''debug vars treedb value has type '' @ go_type v @ '', want object''))))"

definition trimmed :: "string \<Rightarrow> string" where
  "trimmed s = (case trimLog s 2000 of Inr t \<Rightarrow> t | Inl _ \<Rightarrow> [])"

definition debugVarsURL :: string where
  "debugVarsURL = ''http://127.0.0.1:6060/debug/vars''"

definition container_debug_vars ::
    "'f float64 \<Rightarrow> combined \<Rightarrow> (string \<Rightarrow> gval gomap result) \<Rightarrow> (int \<Rightarrow> int \<Rightarrow> 'f) \<Rightarrow> (gval \<Rightarrow> string) \<Rightarrow> string \<Rightarrow>
     'f treeDBStatsSnapshot list" where
  "container_debug_vars fl cmdc dec num sprint name =
     (if Contains name ''catalyst'' then []
      else case cmdc [''docker'', ''exec'', name, ''sh'', ''-c'', ''wget -q -O - '' @ shellQuote debugVarsURL] of
             (raw, Some e) \<Rightarrow>
               [error_snapshot name debugVarsURL [] (''scrape debug vars: '' @ Error_str e @ '' output='' @ Quote (trimmed raw))]
           | (raw, None) \<Rightarrow>
               (case parseTreeDBDebugVars fl dec num sprint name debugVarsURL raw of
                  Inl e \<Rightarrow> [error_snapshot name debugVarsURL [] (Error_str e)]
                | Inr snapshots \<Rightarrow> snapshots))"

definition scrapeTreeDBDebugVars ::
    "'f float64 \<Rightarrow> command \<Rightarrow> combined \<Rightarrow> (string \<Rightarrow> gval gomap result) \<Rightarrow> (int \<Rightarrow> int \<Rightarrow> 'f) \<Rightarrow> (gval \<Rightarrow> string) \<Rightarrow> string \<Rightarrow>
     'f treeDBStatsSnapshot list" where
  "scrapeTreeDBDebugVars fl cmd cmdc dec num sprint providerName =
     sort_key (\<lambda>s. (tb_Name s, tb_Store s, tb_Instance s))
       (concat (map (container_debug_vars fl cmdc dec num sprint) (dockerContainerNames cmd providerName False)))"

section \<open>Sizes of data directories\<close>

definition data_paths :: "string list" where
  "data_paths = [''/simd/config/genesis.json'', ''/simd/data'', ''/simd/data/application.db'', ''/simd/data/blockstore.db'',
     ''/simd/data/state.db'', ''/simd/data/tx_index.db'']"

definition size_line :: "string \<Rightarrow> string \<Rightarrow> dataPathSize list" where
  "size_line name line =
     (case Fields line of
        sz # path # _ \<Rightarrow>
          (case ParseUint sz of
             Inl _ \<Rightarrow> []
           | Inr n \<Rightarrow> [\<lparr> dp_Name = name, dp_Path = path, dp_Bytes = word_of_nat n, dp_Error = [] \<rparr>])
      | _ \<Rightarrow> [])"

definition container_sizes :: "combined \<Rightarrow> string \<Rightarrow> dataPathSize list" where
  "container_sizes cmdc name =
     (if Contains name ''catalyst'' then []
      else let script = ''for p in '' @ Join '' '' data_paths @ ''; do if [ -e '' @ Quote ''$p'' @ '' ]; then du -sb '' @ Quote ''$p'' @ ''; fi; done''
           in case cmdc [''docker'', ''exec'', name, ''sh'', ''-c'', script] of
                (raw, Some _) \<Rightarrow> [\<lparr> dp_Name = name, dp_Path = ''/simd/data'', dp_Bytes = 0, dp_Error = TrimSpace raw \<rparr>]
              | (raw, None) \<Rightarrow> concat (map (size_line name) (Split (CHR 0x0A) (TrimSpace raw))))"

definition collectDataSizes :: "command \<Rightarrow> combined \<Rightarrow> string \<Rightarrow> scenario \<Rightarrow> dataPathSize list" where
  "collectDataSizes cmd cmdc providerName sc =
     (if sc_BaseImage sc \<noteq> ''simapp'' then []
      else concat (map (container_sizes cmdc) (dockerContainerNames cmd providerName False)))"

definition shouldCollectTreeDBDwell :: "scenario \<Rightarrow> appProfileCaptureConfig \<Rightarrow> int \<Rightarrow> bool" where
  "shouldCollectTreeDBDwell sc profiles dwell \<longleftrightarrow>
     \<not> (dwell \<le> 0 \<or> \<not> pc_DebugVars profiles) \<and> (sc_AppDBBackend sc = ''treedb'' \<or> sc_NodeDBBackend sc = ''treedb'')"

definition cloneDataPathSizes :: "dataPathSize list \<Rightarrow> dataPathSize list" where
  "cloneDataPathSizes sizes = sizes"

text \<open>The times before and after the pause, and what is scraped after it, are arguments.\<close>

definition collectTreeDBDwellSnapshots ::
    "'f float64 \<Rightarrow> int \<Rightarrow> int \<Rightarrow> 'f treeDBStatsSnapshot list \<Rightarrow> dataPathSize list \<Rightarrow> 'f treeDBStatsSnapshot list \<Rightarrow> dataPathSize list \<Rightarrow>
     'f treeDBDwellSnapshot list" where
  "collectTreeDBDwellSnapshots fl started ended loadEndStats loadEndSizes postStats postSizes =
     [\<lparr> dw_Label = ''load_end'', dw_At = started, dw_ElapsedSeconds = fl_zero fl,
        dw_TreeDBStats = cloneTreeDBStatsSnapshots loadEndStats,
        dw_TreeDBStatDeltas = treeDBStatsDeltaSnapshots fl loadEndStats loadEndStats,
        dw_DataSizes = cloneDataPathSizes loadEndSizes, dw_DataSizeDeltas = dataPathSizeDeltas loadEndSizes loadEndSizes \<rparr>,
      \<lparr> dw_Label = ''post_dwell'', dw_At = ended, dw_ElapsedSeconds = fl_Seconds fl (Sub ended started),
        dw_TreeDBStats = cloneTreeDBStatsSnapshots postStats,
        dw_TreeDBStatDeltas = treeDBStatsDeltaSnapshots fl loadEndStats postStats,
        dw_DataSizes = cloneDataPathSizes postSizes, dw_DataSizeDeltas = dataPathSizeDeltas loadEndSizes postSizes \<rparr>]"

section \<open>Building an image\<close>

definition build_image_args :: "scenario \<Rightarrow> string list" where
  "build_image_args sc =
     [''build'', ''-f'', sc_Dockerfile sc, ''-t'', sc_ImageTag sc,
      ''--build-arg'', ''GIT_SHA='' @ sanitize (sc_Name sc) @ ''-'' @ shortRef (sc_ChainRef sc),
      ''--build-arg'', ''CHAIN_SRC='' @ sc_ChainSource sc, ''--build-arg'', ''CHAIN_TAG='' @ sc_ChainRef sc] @
     (if sc_BaseImage sc = ''simapp'' \<and> Contains (sc_ChainSource sc) ''snissn/celestia-cosmos-sdk'' then
        [''--build-arg'', ''GO_IMAGE=golang:1.26-alpine''] else []) @
     (if sc_ReplaceCmd sc \<noteq> [] then [''--build-arg'', ''REPLACE_CMD='' @ sc_ReplaceCmd sc] else []) @
     [''hack'']"

definition buildImage :: "combined \<Rightarrow> scenario \<Rightarrow> string list \<times> string \<times> error option" where
  "buildImage cmdc sc = (let args = ''docker'' # build_image_args sc; (out, err) = cmdc args in (args, out, err))"

section \<open>The restored chain\<close>

text \<open>\<open>rc\<close> restores a chain of a provider from its state; its second argument tells whether the wallets are those of an
  EVM chain.\<close>

type_synonym ('t, 'n) chain_restorer = "'t infra \<Rightarrow> bool \<Rightarrow> string \<Rightarrow> 'n packed_chain result"

definition restored_chain ::
    "gzip \<Rightarrow> 't providers \<Rightarrow> ('t, 'n) chain_restorer \<Rightarrow> scenario \<Rightarrow> string \<Rightarrow> string \<Rightarrow> 'n packed_chain result" where
  "restored_chain gz pr rc sc providerState chainState =
     and_then (wrap_err ''decompress provider state'' (DecompressData gz providerState)) (\<lambda>ps.
     and_then (wrap_err ''decompress chain state'' (DecompressData gz chainState)) (\<lambda>cs.
     and_then (wrap_err ''restore provider'' (RestoreProvider pr runner_Docker ps)) (\<lambda>p.
       wrap_err ''restore chain'' (rc p (sc_IsEVMChain sc) cs))))"

definition restoreFirstValidator ::
    "gzip \<Rightarrow> 't providers \<Rightarrow> ('t, 'n) chain_restorer \<Rightarrow> scenario \<Rightarrow> string \<Rightarrow> string \<Rightarrow> 'n result" where
  "restoreFirstValidator gz pr rc sc providerState chainState =
     and_then (restored_chain gz pr rc sc providerState chainState) (\<lambda>ch.
       case pk_Validators ch of [] \<Rightarrow> Inl (New ''no validators'') | v # _ \<Rightarrow> Inr v)"

text \<open>The heights read before and after the wait, the one the wait itself starts from and its turns are arguments.
  While the wait goes on the result is \<open>None\<close>.\<close>

definition runCommitBenchmark ::
    "'n packed_chain result \<Rightarrow> uint64 result \<Rightarrow> uint64 result \<Rightarrow> Chain_Init.turn list \<Rightarrow> uint64 result \<Rightarrow> uint64 \<Rightarrow>
     commitBenchmark option result option" where
  "runCommitBenchmark restored before waiting turns after blocks =
     (if blocks = 0 then Some (Inr None)
      else case restored of
             Inl e \<Rightarrow> Some (Inl e)
           | Inr _ \<Rightarrow>
               (case wrap_err ''read start height'' before of
                  Inl e \<Rightarrow> Some (Inl e)
                | Inr startHeight \<Rightarrow>
                    (case WaitForBlocks blocks waiting turns of
                       None \<Rightarrow> None
                     | Some (Inl e, _) \<Rightarrow>
                         Some (Inl (Wrap (''wait for '' @ show_nat (unat blocks) @ '' blocks from height '' @ show_nat (unat startHeight)) e))
                     | Some (Inr _, _) \<Rightarrow>
                         Some (and_then (wrap_err ''read end height'' after) (\<lambda>endHeight.
                           Inr (Some \<lparr> cb_Blocks = blocks, cb_StartHeight = startHeight, cb_EndHeight = endHeight \<rparr>))))))"

section \<open>Profiles\<close>

text \<open>Collecting profiles acts on the validator and on the local disk. The acts so far are a list, which the answers and
  the clock may depend on.\<close>

datatype pf_call =
    PfMkdirAll string
  | PfRunCommand "string list"
  | PfReadFile string
  | PfStop
  | PfWriteFile string string
  | PfPprofTop string

record pf_env =
  pv_MkdirAll :: "pf_call list \<Rightarrow> string \<Rightarrow> unit result"
  pv_RunCommand :: "pf_call list \<Rightarrow> string list \<Rightarrow> string \<times> string \<times> int \<times> error option"
  pv_ReadFile :: "pf_call list \<Rightarrow> string \<Rightarrow> string result"
  pv_Stop :: "pf_call list \<Rightarrow> unit result"
  pv_WriteFile :: "pf_call list \<Rightarrow> string \<Rightarrow> string \<Rightarrow> unit result"
  pv_PprofTop :: "pf_call list \<Rightarrow> string \<Rightarrow> string \<times> error option"
  pv_Now :: "pf_call list \<Rightarrow> int"

text \<open>The end both kinds of collection share: \<open>what\<close> is the word in their messages.\<close>

definition save_profile ::
    "pf_env \<Rightarrow> appProfileRequest \<Rightarrow> string \<Rightarrow> pf_call list \<Rightarrow> 'f profileArtifact \<Rightarrow> pf_call list \<times> 'f profileArtifact" where
  "save_profile pv req what calls a =
     (case pv_ReadFile pv calls (rq_FileName req) of
        Inl e \<Rightarrow> (calls @ [PfReadFile (rq_FileName req)], a\<lparr>pa_Error := ''read '' @ what @ '' profile: '' @ Error_str e\<rparr>)
      | Inr body \<Rightarrow>
          (let calls = calls @ [PfReadFile (rq_FileName req)]; localPath = path_Join (rq_OutDir req) (rq_FileName req)
           in case pv_WriteFile pv calls localPath body of
                Inl e \<Rightarrow> (calls @ [PfWriteFile localPath body], a\<lparr>pa_Error := ''write '' @ what @ '' profile: '' @ Error_str e\<rparr>)
              | Inr _ \<Rightarrow> (calls @ [PfWriteFile localPath body], a\<lparr>pa_Path := localPath\<rparr>)))"

definition fetch_command :: "appProfileRequest \<Rightarrow> string list" where
  "fetch_command req =
     [''sh'', ''-c'', ''wget -q -O '' @ shellQuote (path_Join ''/simd'' (rq_FileName req)) @ '' '' @
        shellQuote (''http://127.0.0.1:6060/debug/pprof/'' @ rq_Endpoint req)]"

definition fetch_profile ::
    "pf_env \<Rightarrow> appProfileRequest \<Rightarrow> pf_call list \<Rightarrow> 'f profileArtifact \<Rightarrow> pf_call list \<times> 'f profileArtifact" where
  "fetch_profile pv req calls a =
     (let (stdout, stderr, code, err) = pv_RunCommand pv calls (fetch_command req);
          calls = calls @ [PfRunCommand (fetch_command req)];
          output = '' stdout='' @ Quote (trimmed stdout) @ '' stderr='' @ Quote (trimmed stderr)
      in case err of
           Some e \<Rightarrow> (calls, a\<lparr>pa_Error := ''fetch '' @ rq_Kind req @ '' profile: '' @ Error_str e @ output\<rparr>)
         | None \<Rightarrow>
             if code \<noteq> 0 then (calls, a\<lparr>pa_Error := ''fetch '' @ rq_Kind req @ '' profile exit '' @ Itoa code @ output\<rparr>)
             else save_profile pv req (rq_Kind req) calls a)"

definition stop_profile ::
    "pf_env \<Rightarrow> appProfileRequest \<Rightarrow> pf_call list \<Rightarrow> 'f profileArtifact \<Rightarrow> pf_call list \<times> 'f profileArtifact" where
  "stop_profile pv req calls a =
     (case pv_Stop pv calls of
        Inl e \<Rightarrow> (calls @ [PfStop], a\<lparr>pa_Error := ''stop validator: '' @ Error_str e\<rparr>)
      | Inr _ \<Rightarrow> save_profile pv req ''validator'' (calls @ [PfStop]) a)"

text \<open>The directory, the times, and between them one of the two ways to get the profile.\<close>

definition timed_collection ::
    "'f float64 \<Rightarrow> pf_env \<Rightarrow> scenario \<Rightarrow> appProfileRequest \<Rightarrow>
     (pf_call list \<Rightarrow> 'f profileArtifact \<Rightarrow> pf_call list \<times> 'f profileArtifact) \<Rightarrow> pf_call list \<Rightarrow> pf_call list \<times> 'f profileArtifact" where
  "timed_collection fl pv sc req collect calls =
     (let a = request_artifact fl req (sc_Name sc)
      in case pv_MkdirAll pv calls (rq_OutDir req) of
           Inl e \<Rightarrow> (calls @ [PfMkdirAll (rq_OutDir req)], a\<lparr>pa_Error := ''create profile dir: '' @ Error_str e\<rparr>)
         | Inr _ \<Rightarrow>
             (let calls = calls @ [PfMkdirAll (rq_OutDir req)];
                  (calls, a) = collect calls (startProfileArtifactCollection (pv_Now pv calls) a)
              in (calls, finishProfileArtifactCollection fl (pv_Now pv calls) a)))"

definition collectAppPprofEndpointProfile ::
    "'f float64 \<Rightarrow> pf_env \<Rightarrow> scenario \<Rightarrow> appProfileRequest \<Rightarrow> pf_call list \<Rightarrow> pf_call list \<times> 'f profileArtifact" where
  "collectAppPprofEndpointProfile fl pv sc req = timed_collection fl pv sc req (fetch_profile pv req)"

definition collectAppCPUProfile ::
    "'f float64 \<Rightarrow> pf_env \<Rightarrow> scenario \<Rightarrow> appProfileRequest \<Rightarrow> pf_call list \<Rightarrow> pf_call list \<times> 'f profileArtifact" where
  "collectAppCPUProfile fl pv sc req = timed_collection fl pv sc req (stop_profile pv req)"

definition collect_request ::
    "'f float64 \<Rightarrow> pf_env \<Rightarrow> scenario \<Rightarrow> appProfileRequest \<Rightarrow> pf_call list \<Rightarrow> pf_call list \<times> 'f profileArtifact" where
  "collect_request fl pv sc req =
     (if rq_Kind req = ''validator_cpu'' \<and> rq_Endpoint req = [] then collectAppCPUProfile fl pv sc req
      else collectAppPprofEndpointProfile fl pv sc req)"

fun collect_requests ::
    "'f float64 \<Rightarrow> pf_env \<Rightarrow> scenario \<Rightarrow> appProfileRequest list \<Rightarrow> pf_call list \<Rightarrow> pf_call list \<times> 'f profileArtifact list" where
  "collect_requests fl pv sc [] calls = (calls, [])"
| "collect_requests fl pv sc (req # reqs) calls =
     (let (calls, a) = collect_request fl pv sc req calls; (calls, as) = collect_requests fl pv sc reqs calls
      in (calls, a # as))"

definition pprof_top :: "pf_env \<Rightarrow> 'f profileArtifact \<Rightarrow> pf_call list \<Rightarrow> pf_call list \<times> 'f profileArtifact" where
  "pprof_top pv a calls =
     (if pa_Path a = [] \<or> pa_Error a \<noteq> [] \<or> \<not> profileSupportsPprofTop (pa_Kind a) then (calls, a)
      else let summaryPath = pa_Path a @ ''.top.txt''; (out, err) = pv_PprofTop pv calls (pa_Path a); calls = calls @ [PfPprofTop (pa_Path a)]
           in case err of
                Some e \<Rightarrow> (calls, a\<lparr>pa_TopSummaryError := ''go tool pprof -top: '' @ Error_str e @ '' output='' @ Quote (trimmed out)\<rparr>)
              | None \<Rightarrow>
                  (case pv_WriteFile pv calls summaryPath out of
                     Inl e \<Rightarrow> (calls @ [PfWriteFile summaryPath out], a\<lparr>pa_TopSummaryError := ''write pprof top summary: '' @ Error_str e\<rparr>)
                   | Inr _ \<Rightarrow> (calls @ [PfWriteFile summaryPath out], a\<lparr>pa_TopSummaryPath := summaryPath\<rparr>)))"

fun attachPprofTopSummaries ::
    "pf_env \<Rightarrow> 'f profileArtifact list \<Rightarrow> pf_call list \<Rightarrow> pf_call list \<times> 'f profileArtifact list" where
  "attachPprofTopSummaries pv [] calls = (calls, [])"
| "attachPprofTopSummaries pv (a # as) calls =
     (let (calls, b) = pprof_top pv a calls; (calls, bs) = attachPprofTopSummaries pv as calls in (calls, b # bs))"

text \<open>\<open>validator\<close> is what \<open>restoreFirstValidator\<close> gives.\<close>

definition collectAppProfileRequests ::
    "'f float64 \<Rightarrow> pf_env result \<Rightarrow> scenario \<Rightarrow> appProfileRequest list \<Rightarrow> pf_call list \<times> 'f profileArtifact list" where
  "collectAppProfileRequests fl validator sc requests =
     (if requests = [] then ([], [])
      else case validator of
             Inl e \<Rightarrow> ([], failProfileArtifacts (map (\<lambda>req. request_artifact fl req (sc_Name sc)) requests) (Error_str e))
           | Inr pv \<Rightarrow> (let (calls, as) = collect_requests fl pv sc requests [] in attachPprofTopSummaries pv as calls))"

definition collectAppProfiles ::
    "'f float64 \<Rightarrow> pf_env result \<Rightarrow> scenario \<Rightarrow> appProfileCaptureConfig \<Rightarrow> pf_call list \<times> 'f profileArtifact list" where
  "collectAppProfiles fl validator sc cfg = collectAppProfileRequests fl validator sc (appProfileRequests fl sc cfg)"

section \<open>Every profile is accounted for\<close>

abbreviation local_path :: "appProfileRequest \<Rightarrow> string" where
  "local_path req \<equiv> path_Join (rq_OutDir req) (rq_FileName req)"

text \<open>The local files written, in order.\<close>

fun writes :: "pf_call list \<Rightarrow> string list" where
  "writes [] = []"
| "writes (PfWriteFile path _ # cs) = path # writes cs"
| "writes (_ # cs) = writes cs"

lemma writes_append [simp]: "writes (xs @ ys) = writes xs @ writes ys"
  by (induction xs rule: writes.induct) simp_all

text \<open>What one collection leaves, when its acts were \<open>new\<close>: an error and no file, or the file with what the validator
  answered.\<close>

definition collected ::
    "pf_env \<Rightarrow> appProfileRequest \<Rightarrow> pf_call list \<Rightarrow> pf_call list \<Rightarrow> 'f profileArtifact \<Rightarrow> bool" where
  "collected pv req calls new a \<longleftrightarrow> pa_Kind a = rq_Kind req \<and> set (writes new) \<subseteq> {local_path req} \<and>
     ((pa_Error a \<noteq> [] \<and> pa_Path a = []) \<or>
      (pa_Error a = [] \<and> pa_Path a = local_path req \<and>
       (\<exists>m body. new = m @ [PfReadFile (rq_FileName req), PfWriteFile (local_path req) body] \<and>
          pv_ReadFile pv (calls @ m) (rq_FileName req) = Inr body)))"

locale profile_step =
  fixes pv :: pf_env
    and req :: appProfileRequest
    and collect :: "pf_call list \<Rightarrow> 'f profileArtifact \<Rightarrow> pf_call list \<times> 'f profileArtifact"
  assumes step: "pa_Kind a = rq_Kind req \<Longrightarrow> pa_Path a = [] \<Longrightarrow> pa_Error a = [] \<Longrightarrow> collect calls a = (calls', a') \<Longrightarrow>
    \<exists>new. calls' = calls @ new \<and> collected pv req calls new a'"
begin

lemma timed_collected:
  assumes "timed_collection fl pv sc req collect calls = (calls', a')"
  shows "\<exists>new. calls' = calls @ new \<and> collected pv req calls new a'"
proof (cases "pv_MkdirAll pv calls (rq_OutDir req)")
  case (Inl e)
  then show ?thesis using assms by (auto simp: timed_collection_def collected_def request_artifact_def)
next
  case (Inr u)
  let ?cs = "calls @ [PfMkdirAll (rq_OutDir req)]"
  let ?a = "startProfileArtifactCollection (pv_Now pv ?cs) (request_artifact fl req (sc_Name sc))"
  obtain cs b where run: "collect ?cs ?a = (cs, b)" by fastforce
  then obtain new where new: "cs = ?cs @ new" "collected pv req ?cs new b"
    using step[of ?a ?cs cs b] by (auto simp: startProfileArtifactCollection_def request_artifact_def)
  have "calls' = cs" "a' = finishProfileArtifactCollection fl (pv_Now pv cs) b"
    using assms Inr run by (auto simp: timed_collection_def Let_def)
  with new show ?thesis
    by (intro exI[of _ "PfMkdirAll (rq_OutDir req) # new"])
      (auto simp: collected_def finishProfileArtifactCollection_def Let_def split: option.splits
        intro: exI[of _ "PfMkdirAll (rq_OutDir req) # m" for m])
qed

end

lemma save_profile_collected:
  assumes "save_profile pv req what calls a = (calls', a')" "pa_Kind a = rq_Kind req" "pa_Path a = []" "pa_Error a = []"
    and "calls = calls0 @ m" "writes m = []"
  shows "\<exists>new. calls' = calls0 @ new \<and> collected pv req calls0 new a'"
  using assms by (auto simp: save_profile_def collected_def Let_def split: sum.splits)

interpretation fetch: profile_step pv req "fetch_profile pv req" for pv req
proof
  fix a :: "'f profileArtifact" and calls calls' a'
  assume a: "pa_Kind a = rq_Kind req" "pa_Path a = []" "pa_Error a = []" "fetch_profile pv req calls a = (calls', a')"
  obtain out err code e where run: "pv_RunCommand pv calls (fetch_command req) = (out, err, code, e)" by (metis prod_cases4)
  show "\<exists>new. calls' = calls @ new \<and> collected pv req calls new a'"
  proof (cases "e = None \<and> code = 0")
    case True
    with a run have "save_profile pv req (rq_Kind req) (calls @ [PfRunCommand (fetch_command req)]) a = (calls', a')"
      by (simp add: fetch_profile_def)
    then show ?thesis by (rule save_profile_collected) (use a in auto)
  next
    case False
    with a run show ?thesis by (auto simp: fetch_profile_def collected_def Let_def split: option.splits if_splits)
  qed
qed

interpretation stop: profile_step pv req "stop_profile pv req" for pv req
proof
  fix a :: "'f profileArtifact" and calls calls' a'
  assume a: "pa_Kind a = rq_Kind req" "pa_Path a = []" "pa_Error a = []" "stop_profile pv req calls a = (calls', a')"
  show "\<exists>new. calls' = calls @ new \<and> collected pv req calls new a'"
  proof (cases "pv_Stop pv calls")
    case (Inl e)
    with a show ?thesis by (auto simp: stop_profile_def collected_def)
  next
    case (Inr u)
    with a have "save_profile pv req ''validator'' (calls @ [PfStop]) a = (calls', a')" by (simp add: stop_profile_def)
    then show ?thesis by (rule save_profile_collected) (use a in auto)
  qed
qed

lemma collect_request_collected:
  "collect_request fl pv sc req calls = (calls', a') \<Longrightarrow> \<exists>new. calls' = calls @ new \<and> collected pv req calls new a'"
  by (auto simp: collect_request_def collectAppCPUProfile_def collectAppPprofEndpointProfile_def
      dest: fetch.timed_collected stop.timed_collected split: if_splits)

text \<open>The same of a whole list of acts, in which nothing later wrote the file again.\<close>

definition accounted :: "pf_env \<Rightarrow> pf_call list \<Rightarrow> appProfileRequest \<Rightarrow> 'f profileArtifact \<Rightarrow> bool" where
  "accounted pv calls req a \<longleftrightarrow> pa_Kind a = rq_Kind req \<and>
     ((pa_Error a \<noteq> [] \<and> pa_Path a = []) \<or>
      (pa_Error a = [] \<and> pa_Path a = local_path req \<and>
       (\<exists>pre body post. calls = pre @ [PfReadFile (rq_FileName req), PfWriteFile (local_path req) body] @ post \<and>
          pv_ReadFile pv pre (rq_FileName req) = Inr body \<and> local_path req \<notin> set (writes post))))"

lemma accounted_append:
  assumes "accounted pv calls req a" "local_path req \<notin> set (writes new)"
  shows "accounted pv (calls @ new) req a"
proof (cases "pa_Error a = []")
  case True
  then obtain pre body post where "calls = pre @ [PfReadFile (rq_FileName req), PfWriteFile (local_path req) body] @ post"
    "pv_ReadFile pv pre (rq_FileName req) = Inr body" "local_path req \<notin> set (writes post)"
    using assms(1) by (auto simp: accounted_def)
  then have "\<exists>pre body post. calls @ new = pre @ [PfReadFile (rq_FileName req), PfWriteFile (local_path req) body] @ post \<and>
      pv_ReadFile pv pre (rq_FileName req) = Inr body \<and> local_path req \<notin> set (writes post)"
    using assms(2) by (intro exI[of _ pre] exI[of _ body] exI[of _ "post @ new"]) simp
  then show ?thesis using assms(1) True by (simp add: accounted_def)
next
  case False
  then show ?thesis using assms(1) by (simp add: accounted_def)
qed

lemma collected_accounted: "collected pv req calls new a \<Longrightarrow> accounted pv (calls @ new) req a"
  unfolding collected_def accounted_def by (metis append_assoc append_Nil2 empty_iff list.set(1) writes.simps(1))

lemma collect_requests_accounted:
  assumes "collect_requests fl pv sc reqs calls = (calls', as)" "distinct (map local_path reqs)"
  shows "\<exists>new. calls' = calls @ new \<and> set (writes new) \<subseteq> set (map local_path reqs) \<and> list_all2 (accounted pv calls') reqs as"
  using assms
proof (induction reqs arbitrary: calls as calls')
  case Nil
  then show ?case by simp
next
  case (Cons r rs)
  obtain cs a where r: "collect_request fl pv sc r calls = (cs, a)" by fastforce
  obtain bs where rest: "collect_requests fl pv sc rs cs = (calls', bs)" "as = a # bs"
    using Cons.prems(1) r by (auto split: prod.splits)
  obtain new where new: "cs = calls @ new" "collected pv r calls new a" using collect_request_collected[OF r] by blast
  obtain more where more: "calls' = cs @ more" "set (writes more) \<subseteq> set (map local_path rs)" "list_all2 (accounted pv calls') rs bs"
    using Cons.IH[OF rest(1)] Cons.prems(2) by auto
  have "accounted pv calls' r a"
    unfolding more(1) new(1) by (rule accounted_append[OF collected_accounted[OF new(2)]]) (use Cons.prems(2) more(2) in auto)
  then show ?case using rest(2) more new by (intro exI[of _ "new @ more"]) (auto simp: collected_def)
qed

lemma pprof_top_step:
  assumes "pprof_top pv a calls = (calls', b)"
  shows "\<exists>new. calls' = calls @ new \<and> set (writes new) \<subseteq> {pa_Path a @ ''.top.txt''} \<and> (\<forall>cs req. accounted pv cs req b = accounted pv cs req a)"
  using assms by (auto simp: pprof_top_def accounted_def Let_def split: if_splits prod.splits option.splits sum.splits)

lemma HasSuffix_append [simp]: "HasSuffix (s @ p) p"
  by (simp add: HasSuffix_def)

lemma attach_accounted:
  assumes "attachPprofTopSummaries pv as calls = (calls', bs)" "list_all2 (accounted pv cs) reqs as"
  shows "\<exists>new. calls' = calls @ new \<and> (\<forall>p \<in> set (writes new). HasSuffix p ''.top.txt'') \<and> list_all2 (accounted pv cs) reqs bs"
  using assms
proof (induction as arbitrary: calls calls' bs reqs)
  case Nil
  then show ?case by simp
next
  case (Cons a as)
  obtain c1 b where b: "pprof_top pv a calls = (c1, b)" by fastforce
  obtain bs' where rest: "attachPprofTopSummaries pv as c1 = (calls', bs')" "bs = b # bs'"
    using Cons.prems(1) b by (auto split: prod.splits)
  obtain r rs where reqs: "reqs = r # rs" "accounted pv cs r a" "list_all2 (accounted pv cs) rs as"
    using Cons.prems(2) by (auto simp: list_all2_Cons2)
  obtain n where n: "c1 = calls @ n" "set (writes n) \<subseteq> {pa_Path a @ ''.top.txt''}" "accounted pv cs r b"
    using pprof_top_step[OF b] reqs(2) by blast
  obtain k where k: "calls' = c1 @ k" "\<forall>p \<in> set (writes k). HasSuffix p ''.top.txt''" "list_all2 (accounted pv cs) rs bs'"
    using Cons.IH[OF rest(1) reqs(3)] by blast
  show ?case using n k reqs(1) rest(2) by (intro exI[of _ "n @ k"]) auto
qed


section \<open>The summary of the samples\<close>

text \<open>The rows of a container among the decoded ones.\<close>

definition rows_of :: "(string \<Rightarrow> string gomap result) \<Rightarrow> string \<Rightarrow> string list \<Rightarrow> string gomap list" where
  "rows_of dec name raws = filter (\<lambda>row. row_name row = name) (concat (map (\<lambda>raw. case dec raw of Inl _ \<Rightarrow> [] | Inr row \<Rightarrow> [row]) raws))"

lemma rows_of_simps [simp]:
  "rows_of dec name [] = []"
  "rows_of dec name (raw # raws) =
     (case dec raw of Inl _ \<Rightarrow> [] | Inr row \<Rightarrow> if row_name row = name then [row] else []) @ rows_of dec name raws"
  by (auto simp: rows_of_def split: sum.splits)

lemma mget_note_stats:
  assumes "name \<noteq> []"
  shows "mget (fold (note_stats fl dec) raws m) name =
    (if rows_of dec name raws = [] then mget m name
     else Some (fold (note_row fl) (rows_of dec name raws) (case mget m name of None \<Rightarrow> zero_summary fl name | Some s \<Rightarrow> s)))"
  by (induction raws arbitrary: m) (auto simp: note_stats_def update_conv' assms split: sum.splits option.splits)

lemma set_keys_mput: "set (keys (mput k v m)) = insert k (set (keys m))"
  by (simp add: dom_update)

lemma keys_note_stats:
  assumes "distinct (keys m)" "[] \<notin> set (keys m)"
  shows "distinct (keys (fold (note_stats fl dec) raws m)) \<and> [] \<notin> set (keys (fold (note_stats fl dec) raws m))"
  using assms
proof (induction raws arbitrary: m)
  case (Cons raw raws)
  have "distinct (keys (note_stats fl dec raw m)) \<and> [] \<notin> set (keys (note_stats fl dec raw m))"
    using Cons.prems by (auto simp: note_stats_def distinct_keys_mput set_keys_mput simp del: set_map split: sum.splits)
  then show ?case using Cons.IH by simp
qed simp

text \<open>The fields of a folded summary.\<close>

lemma note_row_fields:
  "ry_Name (note_row fl row s) = ry_Name s"
  "ry_Samples (note_row fl row s) = ry_Samples s + 1"
  "ry_MaxMemUsageBytes (note_row fl row s) = max (ry_MaxMemUsageBytes s) (fst (memoryUsage fl (mget_str row ''MemUsage'')))"
  "ry_LastNetIO (note_row fl row s) = (if mget_str row ''NetIO'' = [] then ry_LastNetIO s else mget_str row ''NetIO'')"
  "ry_MaxBlockReadBytes (note_row fl row s) = max (ry_MaxBlockReadBytes s) (fst (ioPairBytes fl (mget_str row ''BlockIO'')))"
  "ry_MaxBlockWriteBytes (note_row fl row s) = max (ry_MaxBlockWriteBytes s) (snd (ioPairBytes fl (mget_str row ''BlockIO'')))"
  by (auto simp: note_row_def Let_def split_def max_def ioPairBytes_def)

lemma fold_max:
  fixes f :: "'s \<Rightarrow> 'b :: linorder"
  assumes "\<And>row s. f (step row s) = max (f s) (g row)"
  shows "f (fold step rows s) = Max (insert (f s) (g ` set rows))"
proof (induction rows arbitrary: s)
  case (Cons r rs)
  have "Max (insert (max (f s) (g r)) (g ` set rs)) = Max (insert (f s) (g ` set (r # rs)))"
    by (cases "rs = []") (simp_all add: max.assoc)
  then show ?case using Cons.IH[of "step r s"] assms by simp
qed simp

lemma fold_note_row:
  "ry_Name (fold (note_row fl) rows s) = ry_Name s"
  "ry_Samples (fold (note_row fl) rows s) = ry_Samples s + length rows"
  by (induction rows arbitrary: s) (simp_all add: note_row_fields)

lemmas fold_note_maxima =
  fold_max[where f = ry_MaxMemUsageBytes and step = "note_row fl" for fl, OF note_row_fields(3)]
  fold_max[where f = ry_MaxBlockReadBytes and step = "note_row fl" for fl, OF note_row_fields(5)]
  fold_max[where f = ry_MaxBlockWriteBytes and step = "note_row fl" for fl, OF note_row_fields(6)]

lemma fold_note_net: "ry_LastNetIO (fold (note_row fl) rows s) =
    last (ry_LastNetIO s # filter (\<lambda>t. t \<noteq> []) (map (\<lambda>row. mget_str row ''NetIO'') rows))"
  by (induction rows arbitrary: s) (simp_all add: note_row_fields)

lemma noted_entry:
  assumes "(k, s) \<in> set (fold (note_stats fl dec) raws [])"
  shows "k \<noteq> [] \<and> rows_of dec k raws \<noteq> [] \<and> s = fold (note_row fl) (rows_of dec k raws) (zero_summary fl k)"
proof -
  let ?m = "fold (note_stats fl dec) raws []"
  have d: "distinct (keys ?m)" "[] \<notin> set (keys ?m)" using keys_note_stats[of "[]" fl dec raws] by simp_all
  then have "k \<noteq> []" using assms by force
  moreover have "mget ?m k = Some s" using assms d(1) by simp
  ultimately show ?thesis by (auto simp: mget_note_stats split: if_splits)
qed

lemma noted_names:
  "map (ry_Name \<circ> snd) (fold (note_stats fl dec) raws []) = keys (fold (note_stats fl dec) raws [])"
  using noted_entry[of _ _ fl dec raws] by (fastforce simp: fold_note_row zero_summary_def)

lemma noted_keys: "set (keys (fold (note_stats fl dec) raws [])) = {name. name \<noteq> [] \<and> rows_of dec name raws \<noteq> []}"
proof -
  let ?m = "fold (note_stats fl dec) raws []"
  have "name \<in> set (keys ?m)" if "name \<noteq> []" "rows_of dec name raws \<noteq> []" for name
    using mget_note_stats[OF that(1), of fl dec raws "[]"] that(2) by (metis option.distinct(1) map_of_eq_None_iff set_map)
  then show ?thesis using noted_entry by fastforce
qed

text \<open>The summary of the resource samples has one entry for each container named in a decoded row, in the order of
  their names. An entry counts the rows of its container, its memory and block traffic are the largest of those rows, and its
  network traffic is the last one a row had.\<close>

theorem resource_summaries_exact:
  "let out = summarizeResourceSamples fl dec samples; raws = concat (map rs_Stats samples)
   in sorted (map ry_Name out) \<and> distinct (map ry_Name out) \<and>
      set (map ry_Name out) = {name. name \<noteq> [] \<and> rows_of dec name raws \<noteq> []} \<and>
      (\<forall>s \<in> set out. let rows = rows_of dec (ry_Name s) raws
         in ry_Samples s = length rows \<and>
            ry_MaxMemUsageBytes s = Max (insert 0 ((\<lambda>row. fst (memoryUsage fl (mget_str row ''MemUsage''))) ` set rows)) \<and>
            ry_MaxBlockReadBytes s = Max (insert 0 ((\<lambda>row. fst (ioPairBytes fl (mget_str row ''BlockIO''))) ` set rows)) \<and>
            ry_MaxBlockWriteBytes s = Max (insert 0 ((\<lambda>row. snd (ioPairBytes fl (mget_str row ''BlockIO''))) ` set rows)) \<and>
            ry_LastNetIO s = last ([] # filter (\<lambda>t. t \<noteq> []) (map (\<lambda>row. mget_str row ''NetIO'') rows)))"
proof -
  let ?raws = "concat (map rs_Stats samples)"
  let ?m = "fold (note_stats fl dec) ?raws []"
  let ?out = "sort_key ry_Name (map snd ?m)"
  have out: "summarizeResourceSamples fl dec samples = ?out" by (simp add: summarizeResourceSamples_def)
  have "mset (map ry_Name ?out) = mset (keys ?m)" by (simp add: mset_map noted_names[symmetric] flip: image_mset.compositionality)
  then have names: "set (map ry_Name ?out) = set (keys ?m)" "distinct (map ry_Name ?out) = distinct (keys ?m)"
    by (metis mset_eq_setD, metis mset_eq_imp_distinct_iff)
  have entry: "rows_of dec (ry_Name s) ?raws = rows \<Longrightarrow> s = fold (note_row fl) rows (zero_summary fl (ry_Name s))" if "s \<in> set ?out" for s rows
    using that noted_entry[of _ s fl dec ?raws] by (fastforce simp: fold_note_row zero_summary_def)
  have fields: "let rows = rows_of dec (ry_Name s) ?raws
     in ry_Samples s = length rows \<and>
        ry_MaxMemUsageBytes s = Max (insert 0 ((\<lambda>row. fst (memoryUsage fl (mget_str row ''MemUsage''))) ` set rows)) \<and>
        ry_MaxBlockReadBytes s = Max (insert 0 ((\<lambda>row. fst (ioPairBytes fl (mget_str row ''BlockIO''))) ` set rows)) \<and>
        ry_MaxBlockWriteBytes s = Max (insert 0 ((\<lambda>row. snd (ioPairBytes fl (mget_str row ''BlockIO''))) ` set rows)) \<and>
        ry_LastNetIO s = last ([] # filter (\<lambda>t. t \<noteq> []) (map (\<lambda>row. mget_str row ''NetIO'') rows))" if "s \<in> set ?out" for s
    unfolding Let_def by (subst (1 3 5 7 9) entry[OF that refl])
      (simp add: fold_note_row fold_note_maxima fold_note_net zero_summary_def)
  show ?thesis unfolding out Let_def using names keys_note_stats[of "[]" fl dec ?raws] fields noted_keys[of fl dec ?raws]
    by (simp add: Let_def)
qed

definition demo_profiler :: pf_env where
  "demo_profiler = \<lparr> pv_MkdirAll = (\<lambda>_ _. Inr ()), pv_RunCommand = (\<lambda>_ _. ([], [], 0, None)),
     pv_ReadFile = (\<lambda>_ f. if f = ''h.pprof'' then Inr ''heap'' else Inl (New ''gone'')), pv_Stop = (\<lambda>_. Inr ()),
     pv_WriteFile = (\<lambda>_ _ _. Inr ()), pv_PprofTop = (\<lambda>_ _. (''top'', None)), pv_Now = int \<circ> length \<rparr>"

definition demo_profile_request :: "string \<Rightarrow> string \<Rightarrow> appProfileRequest" where
  "demo_profile_request kind file =
     \<lparr> rq_Kind = kind, rq_Endpoint = [], rq_FileName = file, rq_OutDir = ''out'', rq_Boundary = [], rq_Duration = 0 \<rparr>"

definition demo_profile_requests :: "appProfileRequest list" where
  "demo_profile_requests = [demo_profile_request ''validator_heap'' ''h.pprof'', demo_profile_request ''validator_cpu'' ''c.pprof'']"

lemma demo_profile_paths: "map local_path demo_profile_requests = [''out/h.pprof'', ''out/c.pprof'']"
  by (simp add: demo_profile_requests_def demo_profile_request_def path_Join_def path_Clean_def Let_def)


text \<open>Two samples of one container.\<close>

definition demo_samples :: "resourceSample list" where
  "demo_samples = [\<lparr> rs_At = 1, rs_Stats = [''a''] \<rparr>, \<lparr> rs_At = 2, rs_Stats = [''b''] \<rparr>]"

theorem resource_summaries_exact_witness:
  "\<forall>s \<in> set (summarizeResourceSamples demo_float (\<lambda>raw. Inr [(''Name'', ''v0''), (''NetIO'', raw)]) demo_samples).
     ry_Name s = ''v0'' \<and> ry_Samples s = 2 \<and> ry_LastNetIO s = ''b''"
proof -
  let ?dec = "\<lambda>raw. Inr [(''Name'', ''v0''), (''NetIO'', raw)]"
  have rows: "rows_of ?dec name (concat (map rs_Stats demo_samples)) =
      (if name = ''v0'' then [[(''Name'', ''v0''), (''NetIO'', ''a'')], [(''Name'', ''v0''), (''NetIO'', ''b'')]] else [])" for name
    by (simp add: demo_samples_def row_name_def mget_str_def)
  show ?thesis using resource_summaries_exact[of demo_float ?dec demo_samples]
    by (auto simp: Let_def rows mget_str_def split: if_splits)
qed

section \<open>A stopped validator is left alone\<close>

definition runs_command :: "pf_call list \<Rightarrow> bool" where
  "runs_command cs \<longleftrightarrow> list_ex (\<lambda>c. case c of PfRunCommand _ \<Rightarrow> True | _ \<Rightarrow> False) cs"

lemma runs_command_append [simp]: "runs_command (xs @ ys) \<longleftrightarrow> runs_command xs \<or> runs_command ys"
  by (simp add: runs_command_def)

lemma runs_command_simps [simp]:
  "\<not> runs_command []" "runs_command (c # cs) \<longleftrightarrow> (case c of PfRunCommand _ \<Rightarrow> True | _ \<Rightarrow> False) \<or> runs_command cs"
  by (simp_all add: runs_command_def)

lemma endpoint_never_stops:
  "collectAppPprofEndpointProfile fl pv sc req calls = (calls', a) \<Longrightarrow> \<exists>new. calls' = calls @ new \<and> PfStop \<notin> set new"
  by (auto simp: collectAppPprofEndpointProfile_def timed_collection_def fetch_profile_def save_profile_def Let_def
      split: sum.splits prod.splits option.splits if_splits)

lemma cpu_runs_nothing:
  "collectAppCPUProfile fl pv sc req calls = (calls', a) \<Longrightarrow> \<exists>new. calls' = calls @ new \<and> \<not> runs_command new"
  by (auto simp: collectAppCPUProfile_def timed_collection_def stop_profile_def save_profile_def Let_def
      split: sum.splits prod.splits)

lemma requests_never_stop:
  assumes "collect_requests fl pv sc reqs calls = (calls', as)" "\<forall>r \<in> set reqs. rq_Endpoint r \<noteq> []"
  shows "\<exists>new. calls' = calls @ new \<and> PfStop \<notin> set new"
  using assms
proof (induction reqs arbitrary: calls calls' as)
  case (Cons r rs)
  obtain cs a bs where r: "collectAppPprofEndpointProfile fl pv sc r calls = (cs, a)" "collect_requests fl pv sc rs cs = (calls', bs)"
    using Cons.prems by (auto simp: collect_request_def split: prod.splits)
  obtain n where "cs = calls @ n" "PfStop \<notin> set n" using endpoint_never_stops[OF r(1)] by blast
  moreover obtain k where "calls' = cs @ k" "PfStop \<notin> set k" using Cons.IH[OF r(2)] Cons.prems(2) by auto
  ultimately show ?case by simp
qed simp

lemma top_runs_nothing:
  "attachPprofTopSummaries pv as calls = (calls', bs) \<Longrightarrow> \<exists>new. calls' = calls @ new \<and> \<not> runs_command new \<and> PfStop \<notin> set new"
proof (induction as arbitrary: calls calls' bs)
  case (Cons a as)
  obtain cs b bs' where a: "pprof_top pv a calls = (cs, b)" "attachPprofTopSummaries pv as cs = (calls', bs')"
    using Cons.prems by (auto split: prod.splits)
  have "\<exists>n. cs = calls @ n \<and> \<not> runs_command n \<and> PfStop \<notin> set n"
    using a(1) by (auto simp: pprof_top_def Let_def split: if_splits prod.splits option.splits sum.splits)
  then obtain n where n: "cs = calls @ n" "\<not> runs_command n" "PfStop \<notin> set n" by blast
  obtain k where "calls' = cs @ k" "\<not> runs_command k" "PfStop \<notin> set k" using Cons.IH[OF a(2)] by blast
  with n show ?case by simp
qed simp

lemma collect_requests_snoc:
  "collect_requests fl pv sc (reqs @ [r]) calls =
     (let (calls, as) = collect_requests fl pv sc reqs calls; (calls, a) = collect_request fl pv sc r calls in (calls, as @ [a]))"
  by (induction reqs arbitrary: calls) (auto simp: split_def Let_def)

lemma appProfileRequests_cases:
  obtains reqs where "appProfileRequests fl sc cfg = reqs" "\<forall>r \<in> set reqs. rq_Endpoint r \<noteq> []"
  | reqs r where "appProfileRequests fl sc cfg = reqs @ [r]" "\<forall>r \<in> set reqs. rq_Endpoint r \<noteq> []" "rq_Kind r = ''validator_cpu''" "rq_Endpoint r = []"
proof -
  let ?heap = "if pc_HeapOutDir cfg \<noteq> [] \<and> sc_AppHeapProfile sc \<noteq> [] then
        [\<lparr> rq_Kind = ''validator_heap'', rq_Endpoint = ''heap?gc=1'', rq_FileName = sc_AppHeapProfile sc,
           rq_OutDir = pc_HeapOutDir cfg, rq_Boundary = ''load-window-adjacent'', rq_Duration = 0 \<rparr>] else []"
  let ?reqs = "?heap @ (if pc_PprofOutDir cfg \<noteq> [] \<and> sc_AppPprofListen sc \<noteq> [] then pprof_requests sc cfg else []) @
     (if pc_DiagnosticOutDir cfg \<noteq> [] \<and> sc_AppPprofListen sc \<noteq> [] then diagnostic_requests fl sc cfg else [])"
  have ep: "\<forall>r \<in> set ?reqs. rq_Endpoint r \<noteq> []"
    by (auto simp: pprof_requests_def diagnostic_requests_def timedPprofEndpoint_def Let_def)
  show ?thesis
  proof (cases "pc_CPUOutDir cfg \<noteq> [] \<and> sc_AppCPUProfile sc \<noteq> []")
    case True
    then show ?thesis using that(2)[of ?reqs, OF _ ep] by (simp add: appProfileRequests_def)
  next
    case False
    then show ?thesis using that(1)[of ?reqs] ep by (simp add: appProfileRequests_def)
  qed
qed

text \<open>The CPU profile, which stops the validator, is asked for last: no command is run on a validator that was stopped.\<close>

theorem stopped_validator_left_alone:
  assumes "collectAppProfiles fl (Inr pv) sc cfg = (calls, as)" "calls = pre @ PfStop # post"
  shows "\<not> runs_command post"
proof -
  let ?reqs = "appProfileRequests fl sc cfg"
  obtain cs bs where c: "collect_requests fl pv sc ?reqs [] = (cs, bs)" by fastforce
  have "?reqs \<noteq> []" using assms by (auto simp: collectAppProfiles_def collectAppProfileRequests_def)
  then have "attachPprofTopSummaries pv bs cs = (calls, as)"
    using assms(1) c by (simp add: collectAppProfiles_def collectAppProfileRequests_def)
  then obtain new where new: "calls = cs @ new" "\<not> runs_command new" "PfStop \<notin> set new" using top_runs_nothing by blast
  show ?thesis
  proof (cases fl sc cfg rule: appProfileRequests_cases)
    case (1 reqs)
    then have "PfStop \<notin> set calls" using requests_never_stop c new by fastforce
    then show ?thesis using assms(2) by simp
  next
    case (2 reqs r)
    obtain c0 as0 where r0: "collect_requests fl pv sc reqs [] = (c0, as0)" by fastforce
    then obtain a where "collectAppCPUProfile fl pv sc r c0 = (cs, a)"
      using c 2 by (auto simp: collect_requests_snoc collect_request_def split: prod.splits)
    then obtain k where k: "cs = c0 @ k" "\<not> runs_command k" using cpu_runs_nothing by blast
    have "PfStop \<notin> set c0" using requests_never_stop[OF r0 2(2)] by simp
    then have "\<exists>q. pre = c0 @ q" using assms(2) k(1) new(1)
      by (auto simp: append_eq_append_conv2 append_eq_Cons_conv)
    then obtain q where "k @ new = q @ PfStop # post" using assms(2) k(1) new(1) by auto
    then have "runs_command (q @ PfStop # post) \<longleftrightarrow> runs_command (k @ new)" by simp
    then show ?thesis using k(2) new(2) by simp
  qed
qed

section \<open>Samples and statistics\<close>

text \<open>The sample taken when the sampler is stopped runs with the context that was just cancelled, so it is never recorded.\<close>

lemma final_sample_lost:
  "0 < interval \<Longrightarrow> startDockerStatsSampler p interval turns stopped = Some (fold (take_sample p) turns [])"
  by (simp add: startDockerStatsSampler_def take_sample_def dockerStats_def dockerContainerNames_def command_context_def)

lemma expvar_snapshot_shape:
  "expvar_snapshot fl num sprint name url inst wk stats = [] \<or>
     (\<exists>s. expvar_snapshot fl num sprint name url inst wk stats = [s] \<and> tb_Name s = name \<and> tb_Instance s = inst)"
  by (simp add: expvar_snapshot_def Let_def)

lemma instance_snapshot_shape:
  "instance_snapshot fl num sprint name url kv = [] \<or>
     (\<exists>s. instance_snapshot fl num sprint name url kv = [s] \<and> tb_Name s = name \<and> tb_Instance s = fst kv)"
proof (cases "\<exists>m. snd kv = VMap m")
  case True
  then obtain k m where kv: "kv = (k, VMap m)" by (cases kv) auto
  show ?thesis unfolding kv instance_snapshot_def prod.case gval.case fst_conv by (rule expvar_snapshot_shape)
next
  case False
  then show ?thesis by (cases kv; cases "snd kv") (auto simp: instance_snapshot_def error_snapshot_def)
qed

text \<open>Snapshots of one container: they carry its name, and no two have the same instance.\<close>

definition snapshots_of :: "string \<Rightarrow> 'f treeDBStatsSnapshot list \<Rightarrow> bool" where
  "snapshots_of name ss \<longleftrightarrow> (\<forall>s \<in> set ss. tb_Name s = name) \<and> distinct (map tb_Instance ss)"

lemma expvar_snapshots_of [simp]: "snapshots_of name (expvar_snapshot fl num sprint name url inst wk stats)"
  using expvar_snapshot_shape[of fl num sprint name url inst wk stats] by (auto simp: snapshots_of_def)

lemma keyed_snapshots_of:
  assumes shape: "\<And>kv. f kv = [] \<or> (\<exists>s. f kv = [s] \<and> tb_Name s = name \<and> tb_Instance s = fst kv)" and "distinct (keys m)"
  shows "snapshots_of name (concat (map f m)) \<and> (\<forall>s \<in> set (concat (map f m)). tb_Instance s \<in> set (keys m))"
  using assms(2)
proof (induction m)
  case (Cons kv m)
  then have m: "snapshots_of name (concat (map f m))" "\<forall>s \<in> set (concat (map f m)). tb_Instance s \<in> set (keys m)" "fst kv \<notin> set (keys m)"
    by simp_all
  show ?case
  proof (cases "f kv = []")
    case True
    then show ?thesis using m by simp
  next
    case False
    then obtain s where s: "f kv = [s]" "tb_Name s = name" "tb_Instance s = fst kv" using shape[of kv] by blast
    have "tb_Instance s \<notin> tb_Instance ` set (concat (map f m))" using m(2,3) s(3) by auto
    then show ?thesis using m(1,2) s by (simp add: snapshots_of_def)
  qed
qed (simp add: snapshots_of_def)

lemma instances_snapshots_of:
  "distinct (keys m) \<Longrightarrow> snapshots_of name (concat (map (instance_snapshot fl num sprint name url) m))"
  using keyed_snapshots_of[where f = "instance_snapshot fl num sprint name url", OF instance_snapshot_shape] by blast

text \<open>An object JSON decodes to has no key twice.\<close>

definition json_law :: "(string \<Rightarrow> gval gomap result) \<Rightarrow> bool" where
  "json_law dec \<longleftrightarrow> (\<forall>raw root treedb. dec raw = Inr root \<longrightarrow> mget root ''treedb'' = Some (VMap treedb) \<longrightarrow>
     distinct (keys (instances_of treedb)))"

lemma parse_snapshots_of:
  assumes "json_law dec" "parseTreeDBDebugVars fl dec num sprint name url raw = Inr ss"
  shows "snapshots_of name ss"
proof -
  obtain root where root: "dec raw = Inr root" using assms(2) by (auto simp: parseTreeDBDebugVars_def split: sum.splits)
  show ?thesis
  proof (cases "mget root ''treedb''")
    case None
    then show ?thesis using assms(2) root by (simp add: parseTreeDBDebugVars_def snapshots_of_def)
  next
    case (Some v)
    then obtain t where t: "v = VMap t" using assms(2) root by (cases v) (simp_all add: parseTreeDBDebugVars_def)
    have d: "distinct (keys (instances_of t))" using assms(1) root Some t unfolding json_law_def by blast
    then show ?thesis using assms(2) root Some t instances_snapshots_of[OF d]
      by (auto simp: parseTreeDBDebugVars_def split: if_splits)
  qed
qed

lemma container_snapshots_of:
  assumes "json_law dec"
  shows "snapshots_of name (container_debug_vars fl cmdc dec num sprint name)"
proof -
  have one: "snapshots_of name [error_snapshot name url [] e]" for url e by (simp add: snapshots_of_def error_snapshot_def)
  have none: "snapshots_of name []" by (simp add: snapshots_of_def)
  show ?thesis using parse_snapshots_of[OF assms] one none
    by (auto simp: container_debug_vars_def split: prod.splits option.splits sum.splits)
qed

lemma snapshot_ids_distinct:
  assumes "distinct names" "\<forall>n \<in> set names. CHR 0x00 \<notin> set n" "\<And>n. snapshots_of n (f n)"
  shows "distinct (map treeDBStatsSnapshotID (concat (map f names)))"
proof -
  have split: "n @ CHR 0x00 # i = n' @ CHR 0x00 # i' \<longleftrightarrow> n = n' \<and> i = i'"
    if "CHR 0x00 \<notin> set n" "CHR 0x00 \<notin> set n'" for n n' i i' :: string
    using that by (auto simp: append_eq_append_conv2 Cons_eq_append_conv append_eq_Cons_conv)
  show ?thesis using assms
  proof (induction names)
    case (Cons n ns)
    have own: "distinct (map treeDBStatsSnapshotID (f n))"
      using Cons.prems(3)[of n] by (auto simp: snapshots_of_def distinct_map inj_on_def treeDBStatsSnapshotID_def)
    have "tb_Name s = n" if "s \<in> set (f n)" for s n using Cons.prems(3)[of n] that by (auto simp: snapshots_of_def)
    then have "treeDBStatsSnapshotID s \<noteq> treeDBStatsSnapshotID t" if "s \<in> set (f n)" "t \<in> set (f m)" "m \<in> set ns" for s t m
      using that Cons.prems(1,2) split[of n m] by (auto simp: treeDBStatsSnapshotID_def)
    then show ?case using Cons own by (auto simp: image_iff)
  qed simp
qed

text \<open>The TreeDB statistics of one scrape have different identifiers, so that looking them up by identifier, as every
  difference of statistics does, loses none of them.\<close>

theorem scraped_statistics_identified:
  assumes "json_law dec" "distinct (dockerContainerNames cmd p False)" "\<forall>n \<in> set (dockerContainerNames cmd p False). CHR 0x00 \<notin> set n"
  shows "distinct (map treeDBStatsSnapshotID (scrapeTreeDBDebugVars fl cmd cmdc dec num sprint p))"
proof -
  let ?ss = "concat (map (container_debug_vars fl cmdc dec num sprint) (dockerContainerNames cmd p False))"
  have "distinct (map treeDBStatsSnapshotID ?ss)"
    using assms by (intro snapshot_ids_distinct container_snapshots_of) auto
  moreover have "mset (map treeDBStatsSnapshotID (scrapeTreeDBDebugVars fl cmd cmdc dec num sprint p)) = mset (map treeDBStatsSnapshotID ?ss)"
    by (simp add: scrapeTreeDBDebugVars_def)
  ultimately show ?thesis using mset_eq_imp_distinct_iff by blast
qed

definition demo_docker_cmd :: command where
  "demo_docker_cmd args = Inr ''v0 v1''"

lemma demo_container_names: "dockerContainerNames demo_docker_cmd ''p'' False = [''v0'', ''v1'']"
  by (simp add: dockerContainerNames_def demo_docker_cmd_def Fields_def is_space_def)

theorem scraped_statistics_identified_witness:
  "distinct (map treeDBStatsSnapshotID (scrapeTreeDBDebugVars demo_float demo_docker_cmd (\<lambda>_. ([], None))
     (\<lambda>_. Inr [(''treedb'', VMap [(''instances'', VMap [(''a'', VMap [(''treedb.x'', VInt 1)]), (''b'', VNil)])])]) (\<lambda>m e. m) (\<lambda>_. []) ''p''))"
  by (rule scraped_statistics_identified) (auto simp: json_law_def instances_of_def demo_container_names)

end
