(* ===== verification/Report_Run.thy ===== *)
theory Report_Run
  imports Report_Collect Load_Test
begin

text \<open>
  One run of a scenario, \<open>runScenario\<close> of \<open>cmd/local-report-runner/main.go\<close>: the image build, the provider, the
  launch, the benchmark or the load test with everything collected around it, and the deferred teardown. What
  changes something outside is recorded as a trace. The clock and what commands and requests answer depend on the
  number of clock readings so far; the goroutines of the sampler and the monitor read their turns, and a wait that does not end is \<open>None\<close>.
\<close>

section \<open>State\<close>

datatype 'f run_event =
    RuBuild "string list"
  | RuCreate string "string result"
  | RuLaunch LaunchTestnetRequest LaunchTestnetResponse "unit result"
  | RuLoadTest RunLoadTestRequest "'f load_result RunLoadTestResponse" "error option"
  | RuProfiles "pf_call list"
  | RuTeardown string

record run_options =
  ro_skipBuild :: bool
  ro_keep :: bool
  ro_commitBenchBlocks :: uint64
  ro_appProfiles :: appProfileCaptureConfig
  ro_rawTxAudit :: bool
  ro_loadWindowDrainTimeout :: int
  ro_loadWindowMinDuration :: int
  ro_stopCatalystAfterLoadWindow :: bool
  ro_treeDBPostLoadDwell :: int

text \<open>\<open>re_spec\<close> is the load generator's own form of a specification, and \<open>re_As\<close> tells whether an error is the one of a
  load test stopped by its condition, with the reason.\<close>

record ('f, 't) run_env =
  re_fl :: "'f float64"
  re_fm :: "'f formats"
  re_targetFraction :: 'f
  re_now :: "nat \<Rightarrow> int"
  re_cmd :: "nat \<Rightarrow> command"
  re_cmdc :: "nat \<Rightarrow> combined"
  re_get :: "nat \<Rightarrow> string \<Rightarrow> (int \<times> string \<times> string) result"
  re_rpc :: "string \<Rightarrow> string result"
  re_dec_row :: "string \<Rightarrow> string gomap result"
  re_dec :: "string \<Rightarrow> gval gomap result"
  re_num :: "int \<Rightarrow> int \<Rightarrow> 'f"
  re_sprint :: "gval \<Rightarrow> string"
  re_time :: "string \<Rightarrow> int option"
  re_toml :: toml
  re_gzip :: gzip
  re_providers :: "'t providers"
  re_RestoreChain :: "('t, pf_env) chain_restorer"
  re_LaunchTestnet :: "LaunchTestnetRequest \<Rightarrow> (LaunchTestnetResponse \<times> unit result) option"
  re_RunLoadTest :: "RunLoadTestRequest \<Rightarrow> ('f load_result RunLoadTestResponse \<times> error option) option"
  re_spec :: "load_spec \<Rightarrow> LoadTestSpec"
  re_As :: "error \<Rightarrow> string option"
  re_heights :: "uint64 result \<times> uint64 result \<times> uint64 result"
  re_blocks :: "Chain_Init.turn list"
  re_sampler :: "(command \<times> int) list \<times> command \<times> int"
  re_monitor :: "'f monitor_turn list"
  re_drained :: bool

record ('f, 'c) run_state =
  ru_result :: "('f, 'c) runResult"
  ru_tick :: nat
  ru_events :: "'f run_event list"
  ru_teardown :: string
  ru_sampling :: bool

definition zero_load_result :: "'f float64 \<Rightarrow> 'f load_result" where
  "zero_load_result fl = \<lparr> lr_Overall = \<lparr> ov_TotalTransactions = 0, ov_TotalIncludedTransactions = 0, ov_SuccessfulTransactions = 0,
     ov_FailedTransactions = 0, ov_Runtime = 0, ov_TPS = fl_zero fl \<rparr>, lr_ByNode = [], lr_Error = [] \<rparr>"

definition zero_derived :: "'f float64 \<Rightarrow> 'f derivedMetrics" where
  "zero_derived fl = (let z = fl_zero fl in \<lparr> dm_IntendedTransactions = 0, dm_IncludedFraction = z, dm_SuccessfulFraction = z,
     dm_RuntimeIncludedTPS = z, dm_WallIncludedTPS = z, dm_LoadPhaseWallIncludedTPS = z, dm_LoadWindowIncludedTPS = z,
     dm_EffectiveOperations = 0, dm_RuntimeEffectiveOperationsPerSec = z, dm_WallEffectiveOperationsPerSec = z,
     dm_LoadPhaseEffectiveOperationsPerSec = z, dm_LoadWindowEffectiveOperationsPerSec = z, dm_EffectiveOperationNote = [] \<rparr>)"

definition zero_result :: "'f float64 \<Rightarrow> scenario \<Rightarrow> ('f, 'c) runResult" where
  "zero_result fl sc = \<lparr> rr_Scenario = sc, rr_StartedAt = 0, rr_FinishedAt = 0, rr_WallSeconds = fl_zero fl, rr_LaunchSeconds = fl_zero fl,
     rr_PhaseTimeline = [], rr_ImageBuildCommand = [], rr_ImageBuildLog = [], rr_ProviderName = [], rr_ContainerStats = [],
     rr_ResourceSamples = [], rr_ResourceSummary = [], rr_MetricsBefore = [], rr_MetricsAfter = [], rr_TreeDBStatsBefore = [],
     rr_TreeDBStatsAfter = [], rr_TreeDBStatDeltas = [], rr_TreeDBDwellSnapshots = [], rr_BackendVerification = None,
     rr_DataSizesBefore = [], rr_DataSizesAfter = [], rr_StorageSignals = [], rr_LoadWindow = None, rr_RuntimeBreakdown = [],
     rr_ContainerLogs = [], rr_LoadTestResult = zero_load_result fl, rr_LoadTestConfig = [], rr_LoadTestLogs = [], rr_LoadTestStopped = [],
     rr_LoadTestLogSummary = no_log_summary, rr_CorrectedLoadTest = None, rr_CommitBenchmark = None, rr_ProfileArtifacts = [],
     rr_Derived = zero_derived fl, rr_RawTxAudit = [], rr_RawTxSummary = None, rr_RawTxAuditSkipped = [], rr_CelestiaSync = None,
     rr_Error = [] \<rparr>"

section \<open>Steps\<close>

text \<open>A step gives the state and whether the run goes on, and \<open>None\<close> while it waits.\<close>

type_synonym ('f, 'c) run_step = "('f, 'c) run_state \<Rightarrow> (('f, 'c) run_state \<times> bool) option"

definition andRun :: "('f, 'c) run_step \<Rightarrow> ('f, 'c) run_step \<Rightarrow> ('f, 'c) run_step" where
  "andRun a b st = (case a st of None \<Rightarrow> None | Some (st, go) \<Rightarrow> if go then b st else Some (st, False))"

definition deferring :: "(('f, 'c) run_state \<Rightarrow> ('f, 'c) run_state) \<Rightarrow> ('f, 'c) run_step \<Rightarrow> ('f, 'c) run_step" where
  "deferring d a st = map_option (\<lambda>(st, go). (d st, go)) (a st)"

definition going :: "(('f, 'c) run_state \<Rightarrow> ('f, 'c) run_state) \<Rightarrow> ('f, 'c) run_step" where
  "going f st = Some (f st, True)"

definition setting :: "(('f, 'c) runResult \<Rightarrow> ('f, 'c) runResult) \<Rightarrow> ('f, 'c) run_state \<Rightarrow> ('f, 'c) run_state" where
  "setting f st = st\<lparr>ru_result := f (ru_result st)\<rparr>"

definition failing :: "string \<Rightarrow> ('f, 'c) run_step" where
  "failing msg st = Some (setting (\<lambda>r. r\<lparr>rr_Error := msg\<rparr>) st, False)"

definition noting :: "'f run_event \<Rightarrow> ('f, 'c) run_state \<Rightarrow> ('f, 'c) run_state" where
  "noting ev st = st\<lparr>ru_events := ru_events st @ [ev]\<rparr>"

text \<open>A phase reads the clock before and after its act and is appended to the timeline.\<close>

definition phase :: "('f, 't) run_env \<Rightarrow> string \<Rightarrow> string \<Rightarrow> (('f, 'c) run_state \<Rightarrow> ('f, 'c) run_state) \<Rightarrow> ('f, 'c) run_state \<Rightarrow> ('f, 'c) run_state" where
  "phase en name note act st =
     (let start = re_now en (ru_tick st); st = act (st\<lparr>ru_tick := ru_tick st + 1\<rparr>); stop = re_now en (ru_tick st)
      in setting (\<lambda>r. r\<lparr>rr_PhaseTimeline := startPhase (re_fl en) name note start stop (rr_PhaseTimeline r)\<rparr>)
           (st\<lparr>ru_tick := ru_tick st + 1\<rparr>))"

definition phase_if :: "bool \<Rightarrow> ('f, 't) run_env \<Rightarrow> string \<Rightarrow> string \<Rightarrow> (('f, 'c) run_state \<Rightarrow> ('f, 'c) run_state) \<Rightarrow> ('f, 'c) run_state \<Rightarrow> ('f, 'c) run_state" where
  "phase_if c en name note act st = (if c then phase en name note act st else st)"

text \<open>The log texts a run keeps; their limits are positive, so nothing is sliced out of range.\<close>

definition kept_log :: "string \<Rightarrow> int \<Rightarrow> string" where
  "kept_log s limit = (case trimLog s limit of Inr t \<Rightarrow> t | Inl _ \<Rightarrow> [])"

definition provider_name :: "('f, 'c) run_state \<Rightarrow> string" where
  "provider_name st = rr_ProviderName (ru_result st)"

definition scrape_metrics :: "('f, 't) run_env \<Rightarrow> ('f, 'c) run_state \<Rightarrow> 'f metricSnapshot list" where
  "scrape_metrics en st = scrapeMetrics (re_fl en) (re_cmd en (ru_tick st)) (re_get en (ru_tick st)) (provider_name st)"

definition scrape_stats :: "('f, 't) run_env \<Rightarrow> ('f, 'c) run_state \<Rightarrow> 'f treeDBStatsSnapshot list" where
  "scrape_stats en st = scrapeTreeDBDebugVars (re_fl en) (re_cmd en (ru_tick st)) (re_cmdc en (ru_tick st)) (re_dec en) (re_num en)
     (re_sprint en) (provider_name st)"

definition data_sizes :: "('f, 't) run_env \<Rightarrow> scenario \<Rightarrow> ('f, 'c) run_state \<Rightarrow> dataPathSize list" where
  "data_sizes en sc st = collectDataSizes (re_cmd en (ru_tick st)) (re_cmdc en (ru_tick st)) (provider_name st) sc"

section \<open>Building, launching and verifying\<close>

definition build_step :: "('f, 't) run_env \<Rightarrow> run_options \<Rightarrow> scenario \<Rightarrow> ('f, 'c) run_step" where
  "build_step en ro sc st =
     (if ro_skipBuild ro then Some (st, True)
      else let (args, out, err) = buildImage (re_cmdc en (ru_tick st)) sc;
               st = phase en ''build_image'' (sc_ImageTag sc) (noting (RuBuild args)) st;
               st = setting (\<lambda>r. r\<lparr>rr_ImageBuildCommand := args, rr_ImageBuildLog := kept_log out 20000\<rparr>) st
           in case err of Some e \<Rightarrow> failing (''build image: '' @ Error_str e) st | None \<Rightarrow> Some (st, True))"

definition defaultMnemonic :: string where
  "defaultMnemonic = ''copper push brief egg scan entry inform record adjust fossil boss egg comic alien upon aspect dry avoid interest fury window hint race symptom''"

definition report_launch_request :: "scenario \<Rightarrow> string \<Rightarrow> LaunchTestnetRequest" where
  "report_launch_request sc providerState =
     \<lparr> lt_Name = sc_ChainName sc, lt_IsEvmChain = sc_IsEVMChain sc, lt_Repo = sc_Repo sc, lt_SHA = sc_ChainRef sc, lt_Image = sc_ImageTag sc,
       lt_BaseImage = sc_BaseImage sc, lt_GenesisModifications = sc_Genesis sc, lt_RunnerType = runner_Docker, lt_RegionConfigs = [],
       lt_NumOfValidators = sc_NumValidators sc, lt_NumOfNodes = sc_NumNodes sc, lt_CustomAppConfig = Some (sc_CustomAppConfig sc),
       lt_CustomConsensusConfig = Some (sc_CustomConfig sc), lt_CustomClientConfig = Some (sc_CustomClient sc),
       lt_AdditionalStartFlags = sc_AdditionalFlags sc, lt_ProviderState = providerState, lt_SetPersistentPeers = True,
       lt_SetSeedNode = False, lt_BaseMnemonic = defaultMnemonic, lt_NumWallets = launchGenesisAccounts sc,
       lt_ProviderSpecificConfig = [] \<rparr>"

definition first_validator :: "('f, 't) run_env \<Rightarrow> scenario \<Rightarrow> LaunchTestnetResponse \<Rightarrow> pf_env result" where
  "first_validator en sc resp =
     restoreFirstValidator (re_gzip en) (re_providers en) (re_RestoreChain en) sc (lr_ProviderState resp) (lr_ChainState resp)"

definition verify_step :: "('f, 't) run_env \<Rightarrow> scenario \<Rightarrow> LaunchTestnetResponse \<Rightarrow> ('f, 'c) run_step" where
  "verify_step en sc resp st =
     (if \<not> (sc_BaseImage sc = ''simapp'' \<and> (sc_AppDBBackend sc \<noteq> [] \<or> sc_NodeDBBackend sc \<noteq> [])) then Some (st, True)
      else let v = verifySimappBackends (re_sprint en) (re_toml en)
                 (and_then (first_validator en sc resp) (\<lambda>pv. Inr (pv_ReadFile pv []))) sc;
               st = phase en ''verify_backend_config'' [] (setting (\<lambda>r. r\<lparr>rr_BackendVerification := Some v\<rparr>)) st
           in if \<not> bv_Valid v then failing (''backend verification failed: '' @ bv_Error v) st else Some (st, True))"

definition collect_before :: "('f, 't) run_env \<Rightarrow> run_options \<Rightarrow> scenario \<Rightarrow> ('f, 'c) run_state \<Rightarrow> ('f, 'c) run_state" where
  "collect_before en ro sc =
     phase en ''collect_before_data_sizes'' [] (\<lambda>st. setting (\<lambda>r. r\<lparr>rr_DataSizesBefore := data_sizes en sc st\<rparr>) st) \<circ>
     phase_if (pc_DebugVars (ro_appProfiles ro)) en ''collect_before_treedb_debug_vars'' []
       (\<lambda>st. setting (\<lambda>r. r\<lparr>rr_TreeDBStatsBefore := scrape_stats en st\<rparr>) st) \<circ>
     phase en ''collect_before_metrics'' [] (\<lambda>st. setting (\<lambda>r. r\<lparr>rr_MetricsBefore := scrape_metrics en st\<rparr>) st)"

definition stop_sampler :: "('f, 't) run_env \<Rightarrow> ('f, 'c) run_state \<Rightarrow> ('f, 'c) run_state" where
  "stop_sampler en st =
     (let samples = (case startDockerStatsSampler (provider_name st) (10 ^ 9) (fst (re_sampler en)) (snd (re_sampler en)) of
                       None \<Rightarrow> [] | Some ss \<Rightarrow> ss)
      in setting (\<lambda>r. r\<lparr>rr_ResourceSamples := samples, rr_ResourceSummary := summarizeResourceSamples (re_fl en) (re_dec_row en) samples\<rparr>)
           (st\<lparr>ru_sampling := False\<rparr>))"

definition sampler_deferred :: "('f, 't) run_env \<Rightarrow> ('f, 'c) run_state \<Rightarrow> ('f, 'c) run_state" where
  "sampler_deferred en st = (if ru_sampling st then stop_sampler en st else st)"

definition collect_after :: "('f, 't) run_env \<Rightarrow> run_options \<Rightarrow> scenario \<Rightarrow> ('f, 'c) run_state \<Rightarrow> ('f, 'c) run_state" where
  "collect_after en ro sc =
     setting (\<lambda>r. r\<lparr>rr_StorageSignals := summarizeStorageSignals (re_fl en) (rr_MetricsBefore r) (rr_MetricsAfter r)
       (rr_DataSizesBefore r) (rr_DataSizesAfter r)\<rparr>) \<circ>
     phase en ''collect_after_data_sizes'' [] (\<lambda>st. setting (\<lambda>r. r\<lparr>rr_DataSizesAfter := data_sizes en sc st\<rparr>) st) \<circ>
     phase_if (pc_DebugVars (ro_appProfiles ro)) en ''collect_after_treedb_debug_vars'' []
       (\<lambda>st. setting (\<lambda>r. r\<lparr>rr_TreeDBStatsAfter := scrape_stats en st,
          rr_TreeDBStatDeltas := treeDBStatsDeltaSnapshots (re_fl en) (rr_TreeDBStatsBefore r) (scrape_stats en st)\<rparr>) st) \<circ>
     phase en ''collect_after_metrics'' [] (\<lambda>st. setting (\<lambda>r. r\<lparr>rr_MetricsAfter := scrape_metrics en st\<rparr>) st) \<circ>
     (\<lambda>st. phase_if (ru_sampling st) en ''stop_resource_sampler'' [] (stop_sampler en) st)"

text \<open>Collecting profiles in a phase of its own.\<close>

definition profile_phase ::
    "('f, 't) run_env \<Rightarrow> scenario \<Rightarrow> LaunchTestnetResponse \<Rightarrow> string \<Rightarrow> appProfileRequest list \<Rightarrow> ('f, 'c) run_state \<Rightarrow> ('f, 'c) run_state" where
  "profile_phase en sc resp name requests =
     phase en name [] (\<lambda>st.
       let (calls, artifacts) = collectAppProfileRequests (re_fl en) (first_validator en sc resp) sc requests
       in noting (RuProfiles calls) (setting (\<lambda>r. r\<lparr>rr_ProfileArtifacts := rr_ProfileArtifacts r @ artifacts\<rparr>) st))"

section \<open>The commit benchmark\<close>

definition bench_step :: "('f, 't) run_env \<Rightarrow> run_options \<Rightarrow> scenario \<Rightarrow> LaunchTestnetResponse \<Rightarrow> ('f, 'c) run_step" where
  "bench_step en ro sc resp st =
     (let blocks = ro_commitBenchBlocks ro; (before, waiting, after) = re_heights en;
          restored = restored_chain (re_gzip en) (re_providers en) (re_RestoreChain en) sc (lr_ProviderState resp) (lr_ChainState resp)
      in case runCommitBenchmark restored before waiting (re_blocks en) after blocks of
           None \<Rightarrow> None
         | Some bench \<Rightarrow>
             let st = phase en ''commit_benchmark'' (''blocks='' @ show_nat (unat blocks)) (\<lambda>st. st) st;
                 st = collect_after en ro sc st;
                 st = setting (\<lambda>r. r\<lparr>rr_CommitBenchmark := (case bench of Inr b \<Rightarrow> b | Inl _ \<Rightarrow> None)\<rparr>) st;
                 st = profile_phase en sc resp ''collect_app_cpu_profile'' (appProfileRequests (re_fl en) sc (ro_appProfiles ro)) st
             in case bench of Inl e \<Rightarrow> failing (''run commit benchmark: '' @ Error_str e) st | Inr _ \<Rightarrow> Some (st, False))"

section \<open>The load test\<close>

definition load_request :: "('f, 't) run_env \<Rightarrow> scenario \<Rightarrow> LaunchTestnetResponse \<Rightarrow> RunLoadTestRequest" where
  "load_request en sc resp =
     \<lparr> rl_ChainState = lr_ChainState resp, rl_ProviderState = lr_ProviderState resp, rl_LoadTestSpec = re_spec en (sc_LoadTestSpec sc),
       rl_RunnerType = runner_Docker, rl_IsEvmChain = sc_IsEVMChain sc, rl_BaseMnemonic = defaultMnemonic,
       rl_NumWallets = sc_NumWallets sc, rl_CatalystVersion = sc_CatalystVersion sc \<rparr>"

text \<open>The monitor of the load window, if there is one: \<open>Some None\<close> while it watches.\<close>

definition start_monitor :: "('f, 't) run_env \<Rightarrow> run_options \<Rightarrow> scenario \<Rightarrow> ('f, 'c) run_state \<Rightarrow> 'f loadWindowObservation option option" where
  "start_monitor en ro sc st =
     (let intended = intendedTransactions sc
      in if sc_IsEVMChain sc \<or> \<not> intended > 0 then None
         else Some (startLoadWindowMonitor (re_fl en) (re_fm en)
                \<lparr> mn_targetTransactions = loadWindowTargetTransactions (re_fl en) intended (re_targetFraction en),
                  mn_minDuration = ro_loadWindowMinDuration ro, mn_started = re_now en (ru_tick st),
                  mn_treeDBBaseline = rr_TreeDBStatsBefore (ru_result st), mn_collectTreeDBStats = pc_DebugVars (ro_appProfiles ro) \<rparr>
                (scrape_metrics en st) (re_now en (ru_tick st + 1)) (re_monitor en)))"

definition drain_window :: "('f, 't) run_env \<Rightarrow> run_options \<Rightarrow> 'f loadWindowObservation \<Rightarrow> ('f, 'c) run_state \<Rightarrow> ('f, 'c) run_state" where
  "drain_window en ro obs st =
     (if ro_loadWindowDrainTimeout ro > 0 then
        phase en ''load_window_drain'' (''timeout='' @ fm_duration (re_fm en) (ro_loadWindowDrainTimeout ro))
          (setting (\<lambda>r. r\<lparr>rr_LoadWindow := Some (monitor_Wait (re_fm en) (ro_loadWindowDrainTimeout ro) (re_drained en) obs)\<rparr>)) st
      else setting (\<lambda>r. r\<lparr>rr_LoadWindow := Some obs\<rparr>) st)"

definition active_profiles :: "('f, 't) run_env \<Rightarrow> run_options \<Rightarrow> scenario \<Rightarrow> LaunchTestnetResponse \<Rightarrow> ('f, 'c) run_state \<Rightarrow> ('f, 'c) run_state" where
  "active_profiles en ro sc resp st =
     (let requests = appActiveWindowProfileRequests (re_fl en) sc (ro_appProfiles ro)
      in phase_if (requests \<noteq> []) en ''collect_active_window_app_profiles'' [] (\<lambda>st.
           let (calls, artifacts) = collectAppProfileRequests (re_fl en) (first_validator en sc resp) sc requests
           in noting (RuProfiles calls) (setting (\<lambda>r. r\<lparr>rr_ProfileArtifacts := rr_ProfileArtifacts r @
                annotateProfileArtifactsWithLoadWindowTiming (re_fl en) artifacts
                  (map_option (\<lambda>w. (lw_StartedAt w, lw_EndedAt w)) (rr_LoadWindow r))\<rparr>) st)) st)"

definition on_window :: "('f loadWindowObservation \<Rightarrow> 'f loadWindowObservation) \<Rightarrow> ('f, 'c) runResult \<Rightarrow> ('f, 'c) runResult" where
  "on_window f r = (case rr_LoadWindow r of None \<Rightarrow> r | Some w \<Rightarrow> r\<lparr>rr_LoadWindow := Some (f w)\<rparr>)"

definition populateLoadWindowPipelineSignals :: "'f float64 \<Rightarrow> ('f, 'c) runResult \<Rightarrow> ('f, 'c) runResult" where
  "populateLoadWindowPipelineSignals fl r =
     on_window (\<lambda>w. w\<lparr>lw_PipelineSignals := summarizePipelineSignals fl w (rr_LoadTestLogSummary r)\<rparr>) r"

definition populateLoadWindowCadenceDiagnostics :: "'f float64 \<Rightarrow> ('f, 'c) runResult \<Rightarrow> ('f, 'c) runResult" where
  "populateLoadWindowCadenceDiagnostics fl r =
     on_window (\<lambda>w. w\<lparr>lw_CadenceDiagnostics := summarizeCadenceDiagnostics fl w (rr_LoadTestLogSummary r)\<rparr>) r"

definition populateLoadWindowAccounting :: "'f float64 \<Rightarrow> ('f, 'c) runResult \<Rightarrow> ('f, 'c) runResult" where
  "populateLoadWindowAccounting fl r =
     on_window (\<lambda>w. w\<lparr>lw_Accounting := summarizeLoadWindowAccounting fl (rr_PhaseTimeline r) (rr_LoadTestLogSummary r) w\<rparr>) r"

definition record_load ::
    "('f, 't) run_env \<Rightarrow> 'f load_result RunLoadTestResponse \<Rightarrow> 'f loadTestLogSummary \<Rightarrow> ('f, 'c) runResult \<Rightarrow> ('f, 'c) runResult" where
  "record_load en resp summary =
     populateLoadWindowAccounting (re_fl en) \<circ> populateLoadWindowCadenceDiagnostics (re_fl en) \<circ>
     populateLoadWindowPipelineSignals (re_fl en) \<circ>
     (\<lambda>r. r\<lparr>rr_LoadTestResult := (case rr_Result resp of None \<Rightarrow> zero_load_result (re_fl en) | Some x \<Rightarrow> x),
           runResult.rr_LoadTestConfig := RunLoadTestResponse.rr_LoadTestConfig resp,
           rr_LoadTestLogs := kept_log (rr_TaskLogs resp) 40000, rr_LoadTestStopped := rr_StoppedReason resp,
           rr_LoadTestLogSummary := summary\<rparr>)"

definition dwell_step :: "('f, 't) run_env \<Rightarrow> run_options \<Rightarrow> scenario \<Rightarrow> ('f, 'c) run_state \<Rightarrow> ('f, 'c) run_state" where
  "dwell_step en ro sc =
     phase_if (shouldCollectTreeDBDwell sc (ro_appProfiles ro) (ro_treeDBPostLoadDwell ro)) en ''treedb_post_load_dwell''
       (''duration='' @ fm_duration (re_fm en) (ro_treeDBPostLoadDwell ro)) (\<lambda>st.
       setting (\<lambda>r. r\<lparr>rr_TreeDBDwellSnapshots := collectTreeDBDwellSnapshots (re_fl en) (re_now en (ru_tick st)) (re_now en (ru_tick st + 1))
          (rr_TreeDBStatsAfter r) (rr_DataSizesAfter r) (scrape_stats en (st\<lparr>ru_tick := ru_tick st + 2\<rparr>))
          (data_sizes en sc (st\<lparr>ru_tick := ru_tick st + 2\<rparr>))\<rparr>) (st\<lparr>ru_tick := ru_tick st + 2\<rparr>))"

definition audit_phase ::
    "('f, 't) run_env \<Rightarrow> run_options \<Rightarrow> scenario \<Rightarrow> 'f load_result RunLoadTestResponse \<Rightarrow> ('f, 'c) run_state \<Rightarrow> ('f, 'c) run_state" where
  "audit_phase en ro sc resp st =
     (let (wanted, skipped) = rawTxAuditDecision sc (ro_rawTxAudit ro)
      in if wanted then
           phase en ''raw_tx_audit'' [] (\<lambda>st. setting (\<lambda>r.
             let rpcs = candidateRPCs (re_cmd en (ru_tick st)) (rr_ProviderName r) (sc_ChainName sc) (rr_LoadTestResult r);
                 audits = auditRawTxs (re_rpc en) (re_dec en) (re_sprint en) rpcs (rr_TaskLogs resp)
             in r\<lparr>rr_RawTxAudit := audits, rr_RawTxSummary := summarizeTxAudit (re_fl en) audits (ov_Runtime (lr_Overall (rr_LoadTestResult r)))\<rparr>) st) st
         else setting (\<lambda>r. if skipped \<noteq> [] then r\<lparr>rr_RawTxAuditSkipped := skipped\<rparr> else r) st)"

text \<open>Profiles that stop the validator come after the audit, which needs it.\<close>

definition audited_profiles ::
    "('f, 't) run_env \<Rightarrow> run_options \<Rightarrow> scenario \<Rightarrow> LaunchTestnetResponse \<Rightarrow> 'f load_result RunLoadTestResponse \<Rightarrow>
     ('f, 'c) run_state \<Rightarrow> ('f, 'c) run_state" where
  "audited_profiles en ro sc resp lresp st =
     (let requests = appProfileRequests (re_fl en) sc (ro_appProfiles ro);
          (before, after) = (if fst (rawTxAuditDecision sc (ro_rawTxAudit ro)) then splitAppProfileRequestsForRawTxAudit requests
                             else (requests, []));
          st = audit_phase en ro sc lresp (profile_phase en sc resp ''collect_app_profiles'' before st)
      in if after \<noteq> [] then profile_phase en sc resp ''collect_app_cpu_profile'' after st else st)"

text \<open>A panic, as the deferred function that recovers from it words it.\<close>

definition recovered :: "error \<Rightarrow> string" where
  "recovered e = ''runtime error: '' @ (case e of Panic m \<Rightarrow> m | _ \<Rightarrow> Error_str e)"

text \<open>The outcome, once everything is collected.\<close>

definition load_outcome ::
    "('f, 't) run_env \<Rightarrow> run_options \<Rightarrow> 'f load_result RunLoadTestResponse \<Rightarrow> error option \<Rightarrow> ('f, 'c) run_step" where
  "load_outcome en ro lresp err st =
     (case err of
        Some e \<Rightarrow>
          (case re_As en e of
             Some reason \<Rightarrow>
               if ro_stopCatalystAfterLoadWindow ro \<and> loadWindowAccepted (re_fl en) (rr_LoadWindow (ru_result st)) then
                 Some (setting (\<lambda>r. if rr_LoadTestStopped r = [] then r\<lparr>rr_LoadTestStopped := reason\<rparr> else r) st, False)
               else failing (''run load test: '' @ Error_str e) st
           | None \<Rightarrow> failing (''run load test: '' @ Error_str e) st)
      | None \<Rightarrow>
          let e = lr_Error (case rr_Result lresp of None \<Rightarrow> zero_load_result (re_fl en) | Some x \<Rightarrow> x)
          in if e \<noteq> [] then failing (''load test result error: '' @ e) st else Some (st, False))"

definition after_load ::
    "('f, 't) run_env \<Rightarrow> run_options \<Rightarrow> scenario \<Rightarrow> LaunchTestnetResponse \<Rightarrow> 'f load_result RunLoadTestResponse \<Rightarrow> error option \<Rightarrow> ('f, 'c) run_step" where
  "after_load en ro sc resp lresp err st =
     (let st = collect_after en ro sc (active_profiles en ro sc resp st)
      in case summarizeLoadTestLogs (re_fl en) (re_time en) (rr_TaskLogs lresp) of
           Inl e \<Rightarrow> failing (recovered e) st
         | Inr summary \<Rightarrow>
             let st = setting (record_load en lresp summary) st;
                 st = audited_profiles en ro sc resp lresp (dwell_step en ro sc st);
                 st = setting (\<lambda>r. r\<lparr>rr_CorrectedLoadTest := summarizeCorrectedLoadTest (re_fl en) r\<rparr>) st;
                 st = setting (\<lambda>r. r\<lparr>rr_Derived := deriveMetrics (re_fl en) sc r\<rparr>) st;
                 st = (if rr_ProviderState lresp \<noteq> [] then st\<lparr>ru_teardown := rr_ProviderState lresp\<rparr> else st)
             in load_outcome en ro lresp err st)"

definition load_step :: "('f, 't) run_env \<Rightarrow> run_options \<Rightarrow> scenario \<Rightarrow> LaunchTestnetResponse \<Rightarrow> ('f, 'c) run_step" where
  "load_step en ro sc resp st =
     (let monitor = start_monitor en ro sc st; req = load_request en sc resp
      in case re_RunLoadTest en req of
           None \<Rightarrow> None
         | Some (lresp, err) \<Rightarrow>
             let st = phase en ''run_load_test'' (''wallets='' @ Itoa (sc_NumWallets sc)) (noting (RuLoadTest req lresp err)) st
             in (case monitor of
                   None \<Rightarrow> after_load en ro sc resp lresp err st
                 | Some None \<Rightarrow> None
                 | Some (Some obs) \<Rightarrow> after_load en ro sc resp lresp err (drain_window en ro obs st)))"

section \<open>The whole run\<close>

definition launched_step :: "('f, 't) run_env \<Rightarrow> run_options \<Rightarrow> scenario \<Rightarrow> LaunchTestnetResponse \<Rightarrow> ('f, 'c) run_step" where
  "launched_step en ro sc resp =
     andRun (verify_step en sc resp) (andRun (going (\<lambda>st. (collect_before en ro sc st)\<lparr>ru_sampling := True\<rparr>))
       (deferring (sampler_deferred en)
         (if ro_commitBenchBlocks ro > 0 then bench_step en ro sc resp else load_step en ro sc resp)))"

definition launch_step :: "('f, 't) run_env \<Rightarrow> run_options \<Rightarrow> scenario \<Rightarrow> string \<Rightarrow> ('f, 'c) run_step" where
  "launch_step en ro sc providerState st =
     (let launchStart = re_now en (ru_tick st); st = st\<lparr>ru_tick := ru_tick st + 1\<rparr>; req = report_launch_request sc providerState
      in case re_LaunchTestnet en req of
           None \<Rightarrow> None
         | Some (resp, res) \<Rightarrow>
             let st = phase en ''launch_testnet'' (''genesis_accounts='' @ Itoa (launchGenesisAccounts sc)) (noting (RuLaunch req resp res)) st;
                 st = setting (\<lambda>r. r\<lparr>rr_LaunchSeconds := fl_Seconds (re_fl en) (Sub (re_now en (ru_tick st)) launchStart)\<rparr>)
                        (st\<lparr>ru_tick := ru_tick st + 1\<rparr>);
                 st = (if lr_ProviderState resp \<noteq> [] then st\<lparr>ru_teardown := lr_ProviderState resp\<rparr> else st)
             in (case res of
                   Inl e \<Rightarrow> failing (''launch testnet: '' @ Error_str e) st
                 | Inr _ \<Rightarrow> launched_step en ro sc resp (st\<lparr>ru_teardown := lr_ProviderState resp\<rparr>)))"

definition provider_deferred :: "('f, 't) run_env \<Rightarrow> run_options \<Rightarrow> ('f, 'c) run_state \<Rightarrow> ('f, 'c) run_state" where
  "provider_deferred en ro st =
     (let st = setting (\<lambda>r. r\<lparr>rr_ContainerStats := dockerStats (re_cmd en (ru_tick st)) (rr_ProviderName r),
            rr_ContainerLogs := (case dockerLogs (re_cmd en (ru_tick st)) (re_cmdc en (ru_tick st)) (rr_ProviderName r) 16000 of
                                   Inr logs \<Rightarrow> logs | Inl _ \<Rightarrow> [])\<rparr>) st
      in if ro_keep ro \<or> ru_teardown st = [] then st else noting (RuTeardown (ru_teardown st)) st)"

definition create_step :: "('f, 't) run_env \<Rightarrow> run_options \<Rightarrow> scenario \<Rightarrow> ('f, 'c) run_step" where
  "create_step en ro sc st =
     (let name = provider_name st; created = CreateProvider (re_providers en) runner_Docker name;
          st = phase en ''create_provider'' name (noting (RuCreate name created)) st
      in case created of
           Inl e \<Rightarrow> failing (''create provider: '' @ Error_str e) st
         | Inr providerState \<Rightarrow>
             (case CompressData (re_gzip en) providerState of
                Inl e \<Rightarrow> failing (''compress provider state for teardown: '' @ Error_str e) st
              | Inr z \<Rightarrow> deferring (provider_deferred en ro) (launch_step en ro sc providerState) (st\<lparr>ru_teardown := z\<rparr>)))"

definition finish_run :: "('f, 't) run_env \<Rightarrow> scenario \<Rightarrow> ('f, 'c) run_state \<Rightarrow> ('f, 'c) run_state" where
  "finish_run en sc st =
     (let fl = re_fl en; now = re_now en (ru_tick st)
      in setting (\<lambda>r.
           let r = r\<lparr>rr_FinishedAt := now, rr_WallSeconds := fl_Seconds fl (Sub now (rr_StartedAt r))\<rparr>;
               r = on_window (\<lambda>w. w\<lparr>lw_PhaseOverlaps := summarizeLoadWindowPhaseOverlaps fl (rr_PhaseTimeline r) (lw_StartedAt w) (lw_EndedAt w)\<rparr>) r;
               r = (if ov_TotalTransactions (lr_Overall (rr_LoadTestResult r)) \<noteq> 0 \<or> usableRawTxSummary r \<noteq> None \<or> rr_CorrectedLoadTest r \<noteq> None
                    then r\<lparr>rr_Derived := deriveMetrics fl sc r\<rparr> else r)
           in r\<lparr>rr_RuntimeBreakdown := summarizeRuntimeBreakdown fl r\<rparr>) st)"

definition start_run :: "('f, 't) run_env \<Rightarrow> scenario \<Rightarrow> (nat \<Rightarrow> nat) \<Rightarrow> ('f, 'c) run_state" where
  "start_run en sc rnd =
     \<lparr> ru_result = (zero_result (re_fl en) sc)\<lparr>rr_StartedAt := re_now en 0,
         rr_ProviderName := ''ib'' @ shortChainName (sc_Name sc) @ ToLower (RandomString rnd 4)\<rparr>,
       ru_tick = 1, ru_events = [], ru_teardown = [], ru_sampling = False \<rparr>"

definition runScenario :: "('f, 't) run_env \<Rightarrow> run_options \<Rightarrow> scenario \<Rightarrow> (nat \<Rightarrow> nat) \<Rightarrow> ('f, 'c) run_state option" where
  "runScenario en ro sc rnd =
     map_option (finish_run en sc \<circ> fst) (andRun (build_step en ro sc) (create_step en ro sc) (start_run en sc rnd))"

section \<open>What steps leave alone\<close>

fun quiet_event :: "'f run_event \<Rightarrow> bool" where
  "quiet_event (RuBuild _) = True"
| "quiet_event (RuProfiles _) = True"
| "quiet_event _ = False"

text \<open>Changes that neither concern the provider nor decide the outcome of the run.\<close>

definition calm :: "('f, 'c) run_state \<Rightarrow> ('f, 'c) run_state \<Rightarrow> bool" where
  "calm st st' \<longleftrightarrow> ru_teardown st' = ru_teardown st \<and> rr_Error (ru_result st') = rr_Error (ru_result st) \<and>
     rr_BackendVerification (ru_result st') = rr_BackendVerification (ru_result st) \<and>
     (\<exists>new. ru_events st' = ru_events st @ new \<and> list_all quiet_event new)"

named_theorems calm_steps \<open>steps that are calm\<close>

lemma calm_refl [calm_steps, simp]: "calm st st"
  by (simp add: calm_def)

lemma calm_trans: "calm a b \<Longrightarrow> calm b c \<Longrightarrow> calm a c"
  by (auto simp: calm_def)

lemma calm_setting [calm_steps]:
  "calm st st' \<Longrightarrow> rr_Error (f (ru_result st')) = rr_Error (ru_result st') \<Longrightarrow>
     rr_BackendVerification (f (ru_result st')) = rr_BackendVerification (ru_result st') \<Longrightarrow> calm st (setting f st')"
  by (auto simp: calm_def setting_def)

lemma calm_noting [calm_steps]: "calm st st' \<Longrightarrow> quiet_event ev \<Longrightarrow> calm st (noting ev st')"
  by (auto simp: calm_def noting_def)

lemma calm_tick [calm_steps]: "calm st st' \<Longrightarrow> calm st (st'\<lparr>ru_tick := n\<rparr>)" "calm st st' \<Longrightarrow> calm st (st'\<lparr>ru_sampling := b\<rparr>)"
  by (auto simp: calm_def)

lemma calm_phase [calm_steps]:
  assumes "calm st st'" "\<And>x. calm x (act x)"
  shows "calm st (phase en name note act st')"
proof -
  have "calm st (act (st'\<lparr>ru_tick := ru_tick st' + 1\<rparr>))" by (rule calm_trans[OF calm_tick(1)[OF assms(1)] assms(2)])
  then show ?thesis by (auto simp: phase_def Let_def intro!: calm_setting calm_tick)
qed

lemma calm_phase_if [calm_steps]: "calm st st' \<Longrightarrow> (\<And>x. calm x (act x)) \<Longrightarrow> calm st (phase_if c en name note act st')"
  by (simp add: phase_if_def calm_phase)

lemma on_window_keeps [simp]:
  "rr_Error (on_window f r) = rr_Error r" "rr_BackendVerification (on_window f r) = rr_BackendVerification r"
  by (simp_all add: on_window_def split: option.splits)

lemma calm_stop_sampler [calm_steps]: "calm st st' \<Longrightarrow> calm st (stop_sampler en st')"
  by (simp add: stop_sampler_def Let_def calm_setting calm_tick)

lemma calm_sampler_deferred [calm_steps]: "calm st st' \<Longrightarrow> calm st (sampler_deferred en st')"
  by (simp add: sampler_deferred_def calm_stop_sampler)

lemma calm_collect_before [calm_steps]: "calm st st' \<Longrightarrow> calm st (collect_before en ro sc st')"
  by (auto simp: collect_before_def intro!: calm_phase calm_phase_if calm_setting)

lemma calm_collect_after [calm_steps]: "calm st st' \<Longrightarrow> calm st (collect_after en ro sc st')"
  unfolding collect_after_def comp_def by (intro calm_setting calm_phase calm_phase_if calm_stop_sampler calm_refl) simp_all

lemma calm_profile_phase [calm_steps]: "calm st st' \<Longrightarrow> calm st (profile_phase en sc resp name reqs st')"
  unfolding profile_phase_def by (intro calm_phase) (auto simp: split_def Let_def intro!: calm_noting calm_setting)

lemma calm_active_profiles [calm_steps]: "calm st st' \<Longrightarrow> calm st (active_profiles en ro sc resp st')"
  unfolding active_profiles_def Let_def by (intro calm_phase_if) (auto simp: split_def intro!: calm_noting calm_setting)

lemma calm_drain_window [calm_steps]: "calm st st' \<Longrightarrow> calm st (drain_window en ro obs st')"
  by (auto simp: drain_window_def intro!: calm_phase calm_setting)

lemma calm_record_load [calm_steps]: "calm st st' \<Longrightarrow> calm st (setting (record_load en resp summary) st')"
  by (rule calm_setting) (simp_all add: record_load_def populateLoadWindowPipelineSignals_def
    populateLoadWindowCadenceDiagnostics_def populateLoadWindowAccounting_def)

lemma calm_dwell [calm_steps]: "calm st st' \<Longrightarrow> calm st (dwell_step en ro sc st')"
  unfolding dwell_step_def by (intro calm_phase_if) (auto intro!: calm_setting calm_tick)

lemma calm_audit [calm_steps]: "calm st st' \<Longrightarrow> calm st (audit_phase en ro sc resp st')"
  unfolding audit_phase_def by (auto simp: split_def Let_def intro!: calm_phase calm_setting)

lemma calm_audited_profiles [calm_steps]: "calm st st' \<Longrightarrow> calm st (audited_profiles en ro sc resp lresp st')"
  by (auto simp: audited_profiles_def split_def Let_def intro!: calm_profile_phase calm_audit)

lemma calm_finish [calm_steps]: "calm st st' \<Longrightarrow> calm st (finish_run en sc st')"
  unfolding finish_run_def Let_def by (rule calm_setting) simp_all

section \<open>The provider is released\<close>

text \<open>The state of the provider to tear down, read off the trace: the newest one a call has returned.\<close>

fun newest :: "gzip \<Rightarrow> 'f run_event \<Rightarrow> string \<Rightarrow> string" where
  "newest gz (RuCreate _ (Inr s)) x = (case CompressData gz s of Inr z \<Rightarrow> z | Inl _ \<Rightarrow> x)"
| "newest gz (RuLaunch _ resp res) x = (if lr_ProviderState resp \<noteq> [] \<or> is_ok res then lr_ProviderState resp else x)"
| "newest gz (RuLoadTest _ resp _) x = (if rr_ProviderState resp \<noteq> [] then rr_ProviderState resp else x)"
| "newest gz _ x = x"

definition newest_state :: "gzip \<Rightarrow> 'f run_event list \<Rightarrow> string" where
  "newest_state gz evs = fold (newest gz) evs []"

fun releases :: "'f run_event \<Rightarrow> bool" where
  "releases (RuTeardown _) = True"
| "releases _ = False"

definition held :: "gzip \<Rightarrow> ('f, 'c) run_state \<Rightarrow> bool" where
  "held gz st \<longleftrightarrow> ru_teardown st = newest_state gz (ru_events st) \<and> \<not> list_ex releases (ru_events st)"

lemma quiet_newest: "list_all quiet_event evs \<Longrightarrow> fold (newest gz) evs x = x \<and> \<not> list_ex releases evs"
proof (induction evs)
  case (Cons e es)
  then show ?case by (cases e) auto
qed simp

lemma held_calm: "held gz st \<Longrightarrow> calm st st' \<Longrightarrow> held gz st'"
  using quiet_newest by (fastforce simp: held_def calm_def newest_state_def)

text \<open>A step that is one of the acts of the trace and otherwise calm.\<close>

definition acted :: "'f run_event \<Rightarrow> ('f, 'c) run_state \<Rightarrow> ('f, 'c) run_state \<Rightarrow> bool" where
  "acted ev st st' \<longleftrightarrow> ru_teardown st' = ru_teardown st \<and> rr_Error (ru_result st') = rr_Error (ru_result st) \<and>
     rr_BackendVerification (ru_result st') = rr_BackendVerification (ru_result st) \<and>
     (\<exists>new. ru_events st' = ru_events st @ ev # new \<and> list_all quiet_event new)"

lemma acted_phase: "acted ev st (phase en name note (noting ev) st)"
  by (simp add: acted_def phase_def Let_def noting_def setting_def)

lemma acted_calm: "acted ev st st' \<Longrightarrow> calm st' st'' \<Longrightarrow> acted ev st st''"
  by (auto simp: acted_def calm_def)

lemma calm_acted: "calm st st' \<Longrightarrow> acted ev st' st'' \<Longrightarrow>
  ru_teardown st'' = ru_teardown st \<and> (\<exists>old new. ru_events st'' = ru_events st @ old @ ev # new \<and> list_all quiet_event old \<and> list_all quiet_event new)"
  by (fastforce simp: acted_def calm_def)

lemma held_acted:
  assumes "held gz st" "acted ev st st'" "\<not> releases ev" "ru_teardown st'' = newest gz ev (ru_teardown st')" "ru_events st'' = ru_events st'"
  shows "held gz st''"
proof -
  obtain new where new: "ru_events st' = ru_events st @ ev # new" "list_all quiet_event new" "ru_teardown st' = ru_teardown st"
    using assms(2) by (auto simp: acted_def)
  then show ?thesis using assms quiet_newest[OF new(2)] by (auto simp: held_def newest_state_def)
qed

lemma held_setting: "held gz st \<Longrightarrow> held gz (setting f st)"
  by (simp add: held_def setting_def)

lemma setting_id: "setting (\<lambda>r. r) st = st"
  by (simp add: setting_def)

lemma held_failing: "held gz st \<Longrightarrow> failing m st = Some (st', go) \<Longrightarrow> held gz st'"
  by (auto simp: failing_def held_setting)

lemma summarize_ok:
  assumes "\<forall>values. mset (fl_Float64s fl values) = mset values"
  shows "is_ok (summarizeLoadTestLogs fl parse logs)"
proof (cases "logs = []")
  case False
  obtain r where "build_timing fl (fold (observe fl parse) (Split (CHR 0x0A) logs) (newCatalystLogTiming fl logs)) = Inr r"
    using build_timing_adds_up[OF assms, of "fold (observe fl parse) (Split (CHR 0x0A) logs) (newCatalystLogTiming fl logs)" "Split (CHR 0x0A) logs"]
      observe_all[OF new_timing_inv[of fl logs], of fl parse "Split (CHR 0x0A) logs"] by (auto simp: newCatalystLogTiming_def)
  then show ?thesis using False by (simp add: summarizeLoadTestLogs_def Let_def split_def)
qed (simp add: summarizeLoadTestLogs_def)

text \<open>What a step after the load test does to the state before its outcome is decided.\<close>

lemma after_load_cases:
  assumes "\<forall>values. mset (fl_Float64s (re_fl en) values) = mset values" "after_load en ro sc resp lresp err st = Some (st', go)"
  obtains mid where "calm st mid"
    "load_outcome en ro lresp err (if rr_ProviderState lresp \<noteq> [] then mid\<lparr>ru_teardown := rr_ProviderState lresp\<rparr> else mid) = Some (st', go)"
proof -
  obtain summary where summary: "summarizeLoadTestLogs (re_fl en) (re_time en) (rr_TaskLogs lresp) = Inr summary"
    using summarize_ok[OF assms(1)] by (auto simp: is_ok_iff)
  let ?a = "setting (record_load en lresp summary) (collect_after en ro sc (active_profiles en ro sc resp st))"
  let ?mid = "setting (\<lambda>r. r\<lparr>rr_Derived := deriveMetrics (re_fl en) sc r\<rparr>)
    (setting (\<lambda>r. r\<lparr>rr_CorrectedLoadTest := summarizeCorrectedLoadTest (re_fl en) r\<rparr>)
       (audited_profiles en ro sc resp lresp (dwell_step en ro sc ?a)))"
  have "calm st ?mid"
    by (intro calm_setting calm_audited_profiles calm_dwell calm_record_load calm_collect_after calm_active_profiles calm_refl) simp_all
  moreover have "load_outcome en ro lresp err (if rr_ProviderState lresp \<noteq> [] then ?mid\<lparr>ru_teardown := rr_ProviderState lresp\<rparr> else ?mid) = Some (st', go)"
    using assms(2) unfolding after_load_def summary Let_def sum.case .
  ultimately show ?thesis by (rule that)
qed

lemma load_outcome_same:
  assumes "load_outcome en ro lresp err st = Some (st', go)"
  shows "\<exists>f. st' = setting f st"
proof -
  have "st' = st \<or> (\<exists>f. st' = setting f st)"
    using assms unfolding load_outcome_def failing_def Let_def by (auto split: option.splits if_splits)
  then show ?thesis by (metis setting_id)
qed

lemma load_step_cases:
  assumes "load_step en ro sc resp st = Some (st', go)"
  obtains lresp err mid where "re_RunLoadTest en (load_request en sc resp) = Some (lresp, err)"
    "acted (RuLoadTest (load_request en sc resp) lresp err) st mid" "after_load en ro sc resp lresp err mid = Some (st', go)"
proof -
  obtain lresp err where load: "re_RunLoadTest en (load_request en sc resp) = Some (lresp, err)"
    using assms by (auto simp: load_step_def Let_def split: option.splits)
  let ?ev = "RuLoadTest (load_request en sc resp) lresp err"
  let ?p = "phase en ''run_load_test'' (''wallets='' @ Itoa (sc_NumWallets sc)) (noting ?ev) st"
  have p: "acted ?ev st ?p" by (rule acted_phase)
  show ?thesis
  proof (cases "start_monitor en ro sc st")
    case None
    then show ?thesis using assms load that[OF load p] by (simp add: load_step_def Let_def)
  next
    case (Some m)
    then obtain obs where "m = Some obs" using assms load by (cases m) (simp_all add: load_step_def Let_def)
    then show ?thesis using assms load Some that[OF load acted_calm[OF p calm_drain_window[OF calm_refl]]]
      by (simp add: load_step_def Let_def)
  qed
qed

lemma held_load_step:
  assumes "\<forall>values. mset (fl_Float64s (re_fl en) values) = mset values" "held gz st" "load_step en ro sc resp st = Some (st', go)"
  shows "held gz st'"
proof -
  obtain lresp err mid where l: "acted (RuLoadTest (load_request en sc resp) lresp err) st mid"
    "after_load en ro sc resp lresp err mid = Some (st', go)" using load_step_cases[OF assms(3)] by blast
  obtain mid' where c: "calm mid mid'"
    "load_outcome en ro lresp err (if rr_ProviderState lresp \<noteq> [] then mid'\<lparr>ru_teardown := rr_ProviderState lresp\<rparr> else mid') = Some (st', go)"
    using after_load_cases[OF assms(1) l(2)] by blast
  have "held gz (if rr_ProviderState lresp \<noteq> [] then mid'\<lparr>ru_teardown := rr_ProviderState lresp\<rparr> else mid')"
    by (rule held_acted[OF assms(2) acted_calm[OF l(1) c(1)]]) simp_all
  then show ?thesis using load_outcome_same[OF c(2)] held_setting by blast
qed

lemma bench_step_cases:
  assumes "bench_step en ro sc resp st = Some (st', go)"
  obtains mid where "calm st mid" "st' = mid \<or> (\<exists>e. failing (''run commit benchmark: '' @ e) mid = Some (st', go))"
proof -
  let ?mid = "\<lambda>bench. profile_phase en sc resp ''collect_app_cpu_profile'' (appProfileRequests (re_fl en) sc (ro_appProfiles ro))
    (setting (\<lambda>r. r\<lparr>rr_CommitBenchmark := (case bench of Inr b \<Rightarrow> b | Inl _ \<Rightarrow> None)\<rparr>)
      (collect_after en ro sc (phase en ''commit_benchmark'' (''blocks='' @ show_nat (unat (ro_commitBenchBlocks ro))) (\<lambda>st. st) st)))"
  have "calm st (?mid bench)" for bench :: "commitBenchmark option result"
    by (intro calm_profile_phase calm_setting calm_collect_after calm_phase calm_refl) simp_all
  note calm = this
  obtain before waiting after where h: "re_heights en = (before, waiting, after)" by (metis prod_cases3)
  let ?run = "runCommitBenchmark (restored_chain (re_gzip en) (re_providers en) (re_RestoreChain en) sc (lr_ProviderState resp) (lr_ChainState resp))
    before waiting (re_blocks en) after (ro_commitBenchBlocks ro)"
  obtain bench where bench: "?run = Some bench" using assms by (auto simp: bench_step_def Let_def h split: option.splits)
  have "(case bench of Inl e \<Rightarrow> failing (''run commit benchmark: '' @ Error_str e) (?mid bench) | Inr _ \<Rightarrow> Some (?mid bench, False)) = Some (st', go)"
    using assms unfolding bench_step_def Let_def h prod.case bench option.case .
  then have "st' = ?mid bench \<or> (\<exists>e. failing (''run commit benchmark: '' @ e) (?mid bench) = Some (st', go))"
    by (cases bench) auto
  with calm show ?thesis by (rule that)
qed

lemma verify_step_cases:
  assumes "verify_step en sc resp st = Some (st', go)"
  obtains "go" "st' = st" "\<not> (sc_BaseImage sc = ''simapp'' \<and> (sc_AppDBBackend sc \<noteq> [] \<or> sc_NodeDBBackend sc \<noteq> []))"
  | v mid where "rr_BackendVerification (ru_result mid) = Some v" "ru_teardown mid = ru_teardown st" "ru_events mid = ru_events st"
      "rr_Error (ru_result mid) = rr_Error (ru_result st)"
      "go \<and> bv_Valid v \<and> st' = mid \<or> \<not> go \<and> failing (''backend verification failed: '' @ bv_Error v) mid = Some (st', go)"
proof (cases "sc_BaseImage sc = ''simapp'' \<and> (sc_AppDBBackend sc \<noteq> [] \<or> sc_NodeDBBackend sc \<noteq> [])")
  case False
  then show ?thesis using assms that(1) by (auto simp: verify_step_def)
next
  case True
  let ?v = "verifySimappBackends (re_sprint en) (re_toml en) (and_then (first_validator en sc resp) (\<lambda>pv. Inr (pv_ReadFile pv []))) sc"
  let ?mid = "phase en ''verify_backend_config'' [] (setting (\<lambda>r. r\<lparr>rr_BackendVerification := Some ?v\<rparr>)) st"
  have m: "rr_BackendVerification (ru_result ?mid) = Some ?v" "ru_teardown ?mid = ru_teardown st" "ru_events ?mid = ru_events st"
    "rr_Error (ru_result ?mid) = rr_Error (ru_result st)"
    by (simp_all add: phase_def setting_def Let_def)
  show ?thesis
    by (rule that(2)[OF m]) (use assms True in \<open>auto simp: verify_step_def Let_def failing_def split: if_splits\<close>)
qed

lemma held_eq: "held gz st \<Longrightarrow> ru_teardown st' = ru_teardown st \<Longrightarrow> ru_events st' = ru_events st \<Longrightarrow> held gz st'"
  by (simp add: held_def)

lemma andRun_cases:
  assumes "andRun a b st = Some (st', go)"
  obtains "a st = Some (st', False)" "\<not> go" | mid where "a st = Some (mid, True)" "b mid = Some (st', go)"
  using assms by (auto simp: andRun_def split: option.splits prod.splits if_splits)

lemma deferring_cases:
  assumes "deferring d a st = Some (st', go)"
  obtains mid where "a st = Some (mid, go)" "st' = d mid"
  using assms by (auto simp: deferring_def)

lemma held_launched:
  assumes law: "\<forall>values. mset (fl_Float64s (re_fl en) values) = mset values" and st: "held gz st"
    and run: "launched_step en ro sc resp st = Some (st', go)"
  shows "held gz st'"
  using run unfolding launched_step_def
proof (cases rule: andRun_cases)
  case 1
  then show ?thesis by (cases rule: verify_step_cases) (use st in \<open>auto intro: held_failing held_eq\<close>)
next
  case (2 mid)
  have mid: "held gz mid" by (rule verify_step_cases[OF 2(1)]) (use st in \<open>auto intro: held_eq\<close>)
  obtain x where x: "(if ro_commitBenchBlocks ro > 0 then bench_step en ro sc resp else load_step en ro sc resp)
      ((collect_before en ro sc mid)\<lparr>ru_sampling := True\<rparr>) = Some (x, go)" "st' = sampler_deferred en x"
    using 2(2) by (auto simp: andRun_def going_def elim: deferring_cases)
  have "held gz ((collect_before en ro sc mid)\<lparr>ru_sampling := True\<rparr>)"
    by (rule held_calm[OF mid]) (intro calm_tick calm_collect_before calm_refl)
  then have "held gz x" using x(1) held_load_step[OF law]
    by (auto split: if_splits elim!: bench_step_cases intro: held_calm held_failing)
  then show ?thesis unfolding x(2) by (rule held_calm) (rule calm_sampler_deferred[OF calm_refl])
qed

lemma launch_step_cases:
  assumes "launch_step en ro sc z st = Some (st', go)"
  obtains resp e mid where "acted (RuLaunch (report_launch_request sc z) resp (Inl e)) st mid"
      "failing (''launch testnet: '' @ Error_str e)
         (if lr_ProviderState resp \<noteq> [] then mid\<lparr>ru_teardown := lr_ProviderState resp\<rparr> else mid) = Some (st', go)"
  | resp mid where "acted (RuLaunch (report_launch_request sc z) resp (Inr ())) st mid"
      "launched_step en ro sc resp (mid\<lparr>ru_teardown := lr_ProviderState resp\<rparr>) = Some (st', go)"
proof -
  let ?req = "report_launch_request sc z"
  obtain resp res where launch: "re_LaunchTestnet en ?req = Some (resp, res)"
    using assms by (auto simp: launch_step_def Let_def split: option.splits)
  let ?p = "phase en ''launch_testnet'' (''genesis_accounts='' @ Itoa (launchGenesisAccounts sc)) (noting (RuLaunch ?req resp res)) (st\<lparr>ru_tick := ru_tick st + 1\<rparr>)"
  let ?mid = "setting (\<lambda>r. r\<lparr>rr_LaunchSeconds := fl_Seconds (re_fl en) (Sub (re_now en (ru_tick ?p)) (re_now en (ru_tick st)))\<rparr>)
    (?p\<lparr>ru_tick := ru_tick ?p + 1\<rparr>)"
  have mid: "acted (RuLaunch ?req resp res) st ?mid"
    by (simp add: acted_def phase_def Let_def noting_def setting_def)
  show ?thesis
  proof (cases res)
    case (Inl e)
    show ?thesis by (rule that(1)[OF mid[unfolded Inl]])
      (use assms in \<open>unfold launch_step_def Let_def launch option.case prod.case Inl sum.case\<close>)
  next
    case (Inr u)
    have same: "(if lr_ProviderState resp \<noteq> [] then ?mid\<lparr>ru_teardown := lr_ProviderState resp\<rparr> else ?mid)\<lparr>ru_teardown := lr_ProviderState resp\<rparr> =
      ?mid\<lparr>ru_teardown := lr_ProviderState resp\<rparr>" by simp
    have "launched_step en ro sc resp (?mid\<lparr>ru_teardown := lr_ProviderState resp\<rparr>) = Some (st', go)"
      using assms unfolding launch_step_def Let_def launch option.case prod.case Inr sum.case same[unfolded Inr] .
    then show ?thesis using that(2) mid Inr by simp
  qed
qed

lemma held_launch_step:
  assumes "\<forall>values. mset (fl_Float64s (re_fl en) values) = mset values" "held gz st" "launch_step en ro sc z st = Some (st', go)"
  shows "held gz st'"
proof (rule launch_step_cases[OF assms(3)])
  fix resp e mid
  assume a: "acted (RuLaunch (report_launch_request sc z) resp (Inl e)) st mid"
    and f: "failing (''launch testnet: '' @ Error_str e)
      (if lr_ProviderState resp \<noteq> [] then mid\<lparr>ru_teardown := lr_ProviderState resp\<rparr> else mid) = Some (st', go)"
  have "held gz (if lr_ProviderState resp \<noteq> [] then mid\<lparr>ru_teardown := lr_ProviderState resp\<rparr> else mid)"
    by (rule held_acted[OF assms(2) a]) simp_all
  then show ?thesis using f by (rule held_failing)
next
  fix resp mid
  assume a: "acted (RuLaunch (report_launch_request sc z) resp (Inr ())) st mid"
    and l: "launched_step en ro sc resp (mid\<lparr>ru_teardown := lr_ProviderState resp\<rparr>) = Some (st', go)"
  have "held gz (mid\<lparr>ru_teardown := lr_ProviderState resp\<rparr>)" by (rule held_acted[OF assms(2) a]) simp_all
  then show ?thesis using l by (rule held_launched[OF assms(1)])
qed

definition released :: "gzip \<Rightarrow> run_options \<Rightarrow> ('f, 'c) run_state \<Rightarrow> bool" where
  "released gz ro st \<longleftrightarrow> (\<exists>evs. \<not> list_ex releases evs \<and>
     ru_events st = evs @ (if ro_keep ro \<or> newest_state gz evs = [] then [] else [RuTeardown (newest_state gz evs)]))"

lemma create_step_cases:
  assumes "create_step en ro sc st = Some (st', go)"
  obtains e mid where "acted (RuCreate (provider_name st) (Inl e)) st mid"
      "CreateProvider (re_providers en) runner_Docker (provider_name st) = Inl e"
      "failing (''create provider: '' @ Error_str e) mid = Some (st', go)"
  | s e mid where "acted (RuCreate (provider_name st) (Inr s)) st mid" "CompressData (re_gzip en) s = Inl e"
      "failing (''compress provider state for teardown: '' @ Error_str e) mid = Some (st', go)"
  | s z mid last where "acted (RuCreate (provider_name st) (Inr s)) st mid" "CompressData (re_gzip en) s = Inr z"
      "CreateProvider (re_providers en) runner_Docker (provider_name st) = Inr s"
      "launch_step en ro sc s (mid\<lparr>ru_teardown := z\<rparr>) = Some (last, go)" "st' = provider_deferred en ro last"
proof -
  let ?c = "CreateProvider (re_providers en) runner_Docker (provider_name st)"
  let ?mid = "phase en ''create_provider'' (provider_name st) (noting (RuCreate (provider_name st) ?c)) st"
  have mid: "acted (RuCreate (provider_name st) ?c) st ?mid" by (rule acted_phase)
  show ?thesis
  proof (cases ?c)
    case (Inl e)
    then show ?thesis using that(1) mid assms by (simp add: create_step_def Let_def)
  next
    case (Inr s)
    show ?thesis
    proof (cases "CompressData (re_gzip en) s")
      case (Inl e)
      then show ?thesis using that(2) mid assms Inr by (simp add: create_step_def Let_def)
    next
      case (Inr z)
      from \<open>?c = Inr s\<close> Inr assms obtain last where "launch_step en ro sc s (?mid\<lparr>ru_teardown := z\<rparr>) = Some (last, go)"
        "st' = provider_deferred en ro last" by (auto simp: create_step_def Let_def elim: deferring_cases)
      then show ?thesis using that(3) mid \<open>?c = Inr s\<close> Inr by simp
    qed
  qed
qed

lemma released_calm_noevent: "released gz ro st \<Longrightarrow> ru_events st' = ru_events st \<Longrightarrow> released gz ro st'"
  by (simp add: released_def)

lemma held_released: "held gz st \<Longrightarrow> ru_teardown st = [] \<Longrightarrow> released gz ro st"
  unfolding released_def held_def by (intro exI[of _ "ru_events st"]) simp

lemma provider_deferred_released:
  assumes "held gz st"
  shows "released gz ro (provider_deferred en ro st)"
proof -
  have "ru_teardown st = newest_state gz (ru_events st)" "\<not> list_ex releases (ru_events st)" using assms by (simp_all add: held_def)
  moreover have "ru_events (provider_deferred en ro st) =
      ru_events st @ (if ro_keep ro \<or> ru_teardown st = [] then [] else [RuTeardown (ru_teardown st)])"
    by (simp add: provider_deferred_def Let_def noting_def setting_def)
  ultimately show ?thesis unfolding released_def by metis
qed

lemma create_step_releases:
  assumes "\<forall>values. mset (fl_Float64s (re_fl en) values) = mset values" "held (re_gzip en) st" "ru_teardown st = []"
    and "create_step en ro sc st = Some (st', go)"
  shows "released (re_gzip en) ro st'"
proof (rule create_step_cases[OF assms(4)])
  fix e mid
  assume a: "acted (RuCreate (provider_name st) (Inl e)) st mid" "failing (''create provider: '' @ Error_str e) mid = Some (st', go)"
  have "held (re_gzip en) mid" by (rule held_acted[OF assms(2) a(1)]) simp_all
  then have "held (re_gzip en) st'" using a(2) by (rule held_failing)
  moreover have "ru_teardown st' = []" using a assms(3) by (auto simp: failing_def setting_def acted_def)
  ultimately show ?thesis by (rule held_released)
next
  fix s e mid
  assume a: "acted (RuCreate (provider_name st) (Inr s)) st mid" "CompressData (re_gzip en) s = Inl e"
    "failing (''compress provider state for teardown: '' @ Error_str e) mid = Some (st', go)"
  have "held (re_gzip en) mid" by (rule held_acted[OF assms(2) a(1)]) (simp_all add: a(2))
  then have "held (re_gzip en) st'" using a(3) by (rule held_failing)
  moreover have "ru_teardown st' = []" using a assms(3) by (auto simp: failing_def setting_def acted_def)
  ultimately show ?thesis by (rule held_released)
next
  fix s z mid final
  assume a: "acted (RuCreate (provider_name st) (Inr s)) st mid" "CompressData (re_gzip en) s = Inr z"
    "launch_step en ro sc s (mid\<lparr>ru_teardown := z\<rparr>) = Some (final, go)" "st' = provider_deferred en ro final"
  have "held (re_gzip en) (mid\<lparr>ru_teardown := z\<rparr>)" by (rule held_acted[OF assms(2) a(1)]) (simp_all add: a(2))
  then show ?thesis unfolding a(4) using held_launch_step[OF assms(1) _ a(3)] provider_deferred_released by blast
qed

lemma build_step_cases:
  assumes "build_step en ro sc st = Some (st', go)"
  shows "calm st st' \<and> go \<or> (\<exists>mid e. calm st mid \<and> \<not> go \<and> failing (''build image: '' @ Error_str e) mid = Some (st', go))"
proof (cases "ro_skipBuild ro")
  case True
  then show ?thesis using assms by (simp add: build_step_def)
next
  case False
  obtain args out err where b: "buildImage (re_cmdc en (ru_tick st)) sc = (args, out, err)" by (metis prod_cases3)
  let ?mid = "setting (\<lambda>r. r\<lparr>rr_ImageBuildCommand := args, rr_ImageBuildLog := kept_log out 20000\<rparr>)
    (phase en ''build_image'' (sc_ImageTag sc) (noting (RuBuild args)) st)"
  have "calm st ?mid" by (intro calm_setting calm_phase calm_noting calm_refl) simp_all
  then show ?thesis using assms False b
    by (cases err) (auto simp: build_step_def Let_def failing_def)
qed

text \<open>C15: a run gives back the provider it created. Whatever fails on the way, the trace of a run that ends holds no teardown
  before its end; and there it has exactly one, of the newest state any call has returned, unless the run is asked to keep the
  provider or there is no such state.\<close>

theorem run_releases_provider:
  assumes "\<forall>values. mset (fl_Float64s (re_fl en) values) = mset values" "runScenario en ro sc rnd = Some st"
  shows "\<exists>evs. \<not> list_ex releases evs \<and>
    ru_events st = evs @ (if ro_keep ro \<or> newest_state (re_gzip en) evs = [] then [] else [RuTeardown (newest_state (re_gzip en) evs)])"
proof -
  let ?gz = "re_gzip en" and ?s0 = "start_run en sc rnd"
  obtain x go where x: "andRun (build_step en ro sc) (create_step en ro sc) ?s0 = Some (x, go)" "st = finish_run en sc x"
    using assms(2) by (auto simp: runScenario_def)
  have s0: "held ?gz ?s0" "ru_teardown ?s0 = []" by (simp_all add: held_def start_run_def newest_state_def)
  have "released ?gz ro x" using x(1)
  proof (cases rule: andRun_cases)
    case 1
    have "held ?gz x \<and> ru_teardown x = []" using build_step_cases[OF 1(1)]
    proof (elim disjE exE conjE)
      assume False
      then show ?thesis by simp
    next
      fix mid e
      assume m: "calm ?s0 mid" "failing (''build image: '' @ Error_str e) mid = Some (x, False)"
      show ?thesis using held_failing[OF held_calm[OF s0(1) m(1)] m(2)] m s0(2) by (auto simp: calm_def failing_def setting_def)
    qed
    then show ?thesis using held_released by blast
  next
    case (2 mid)
    then have "calm ?s0 mid" using build_step_cases[OF 2(1)] by auto
    then have "held ?gz mid" "ru_teardown mid = []" using held_calm[OF s0(1)] s0(2) by (blast, simp add: calm_def)
    then show ?thesis using create_step_releases[OF assms(1) _ _ 2(2)] by blast
  qed
  moreover have "ru_events st = ru_events x" by (simp add: x(2) finish_run_def Let_def setting_def)
  ultimately show ?thesis by (simp add: released_def)
qed

section \<open>A run without an error\<close>

text \<open>The load test ended well, or it was stopped by its condition with an accepted load window.\<close>

definition loaded :: "('f, 't) run_env \<Rightarrow> run_options \<Rightarrow> 'f load_result RunLoadTestResponse \<Rightarrow> error option \<Rightarrow> 'f loadWindowObservation option \<Rightarrow> bool" where
  "loaded en ro lresp err w \<longleftrightarrow>
     (err = None \<and> (\<forall>r. rr_Result lresp = Some r \<longrightarrow> lr_Error r = [])) \<or>
     (\<exists>e. err = Some e \<and> re_As en e \<noteq> None \<and> ro_stopCatalystAfterLoadWindow ro \<and> loadWindowAccepted (re_fl en) w)"

definition backends_verified :: "scenario \<Rightarrow> ('f, 'c) run_state \<Rightarrow> bool" where
  "backends_verified sc st \<longleftrightarrow> (sc_BaseImage sc = ''simapp'' \<and> (sc_AppDBBackend sc \<noteq> [] \<or> sc_NodeDBBackend sc \<noteq> []) \<longrightarrow>
     (\<exists>v. rr_BackendVerification (ru_result st) = Some v \<and> bv_Valid v))"

lemma failing_error: "failing m st = Some (st', go) \<Longrightarrow> rr_Error (ru_result st') = m"
  by (auto simp: failing_def setting_def)

lemma load_outcome_loaded:
  assumes "load_outcome en ro lresp err st = Some (st', go)" "rr_Error (ru_result st') = []"
  shows "loaded en ro lresp err (rr_LoadWindow (ru_result st')) \<and> ru_events st' = ru_events st \<and>
    rr_BackendVerification (ru_result st') = rr_BackendVerification (ru_result st)"
  using assms by (auto simp: load_outcome_def loaded_def failing_def setting_def Let_def split: option.splits if_splits)

lemma load_step_loaded:
  assumes law: "\<forall>values. mset (fl_Float64s (re_fl en) values) = mset values"
    and run: "load_step en ro sc resp st = Some (st', go)" "rr_Error (ru_result st') = []"
  shows "\<exists>lreq lresp err. RuLoadTest lreq lresp err \<in> set (ru_events st') \<and> loaded en ro lresp err (rr_LoadWindow (ru_result st')) \<and>
    set (ru_events st) \<subseteq> set (ru_events st') \<and> rr_BackendVerification (ru_result st') = rr_BackendVerification (ru_result st)"
proof -
  obtain lresp err mid where l: "acted (RuLoadTest (load_request en sc resp) lresp err) st mid"
    "after_load en ro sc resp lresp err mid = Some (st', go)" using load_step_cases[OF run(1)] by blast
  obtain m where m: "calm mid m"
    "load_outcome en ro lresp err (if rr_ProviderState lresp \<noteq> [] then m\<lparr>ru_teardown := rr_ProviderState lresp\<rparr> else m) = Some (st', go)"
    using after_load_cases[OF law l(2)] by blast
  have o: "loaded en ro lresp err (rr_LoadWindow (ru_result st'))" "ru_events st' = ru_events m"
    "rr_BackendVerification (ru_result st') = rr_BackendVerification (ru_result m)"
    using load_outcome_loaded[OF m(2) run(2)] by (auto split: if_splits)
  then show ?thesis using acted_calm[OF l(1) m(1)]
    by (intro exI[of _ "load_request en sc resp"] exI[of _ lresp] exI[of _ err]) (auto simp: acted_def)
qed

lemma launched_loaded:
  assumes law: "\<forall>values. mset (fl_Float64s (re_fl en) values) = mset values"
    and run: "launched_step en ro sc resp st = Some (st', go)" "rr_Error (ru_result st') = []" "ro_commitBenchBlocks ro = 0"
  shows "\<exists>lreq lresp err. RuLoadTest lreq lresp err \<in> set (ru_events st') \<and> loaded en ro lresp err (rr_LoadWindow (ru_result st')) \<and>
    set (ru_events st) \<subseteq> set (ru_events st') \<and> backends_verified sc st'"
  using run(1) unfolding launched_step_def
proof (cases rule: andRun_cases)
  case 1
  from 1(1) show ?thesis by (cases rule: verify_step_cases) (use run(2) in \<open>auto dest: failing_error\<close>)
next
  case (2 mid)
  have mid: "ru_events mid = ru_events st \<and> backends_verified sc mid"
    by (rule verify_step_cases[OF 2(1)]) (auto simp: backends_verified_def)
  let ?b = "(collect_before en ro sc mid)\<lparr>ru_sampling := True\<rparr>"
  obtain x where x: "load_step en ro sc resp ?b = Some (x, go)" "st' = sampler_deferred en x"
    using 2(2) run(3) by (auto simp: andRun_def going_def elim: deferring_cases)
  have b: "calm mid ?b" by (intro calm_tick calm_collect_before calm_refl)
  have w: "rr_LoadWindow (ru_result st') = rr_LoadWindow (ru_result x)"
    by (simp add: x(2) sampler_deferred_def stop_sampler_def setting_def Let_def)
  have c: "calm x st'" unfolding x(2) by (rule calm_sampler_deferred[OF calm_refl])
  obtain lreq lresp err where "RuLoadTest lreq lresp err \<in> set (ru_events x)" "loaded en ro lresp err (rr_LoadWindow (ru_result x))"
    "set (ru_events ?b) \<subseteq> set (ru_events x)" "rr_BackendVerification (ru_result x) = rr_BackendVerification (ru_result ?b)"
    using load_step_loaded[OF law x(1)] c run(2) by (auto simp: calm_def)
  then show ?thesis using mid b c unfolding w calm_def backends_verified_def
    by (intro exI[of _ lreq] exI[of _ lresp] exI[of _ err]) auto
qed

lemma accepted_overlaps: "loadWindowAccepted fl (rr_LoadWindow (ru_result (finish_run en sc st))) = loadWindowAccepted fl (rr_LoadWindow (ru_result st))"
  by (simp add: finish_run_def setting_def Let_def on_window_def loadWindowAccepted_def split: option.splits)


text \<open>When the state of the provider just created cannot be compressed, the run ends before its teardown is deferred.\<close>

lemma compress_failure_leaks:
  assumes "ro_skipBuild ro" "CreateProvider (re_providers en) runner_Docker (provider_name (start_run en sc rnd)) = Inr s"
    "CompressData (re_gzip en) s = Inl e"
  shows "\<exists>st. runScenario en ro sc rnd = Some st \<and> ru_events st = [RuCreate (provider_name (start_run en sc rnd)) (Inr s)]"
  using assms
  by (simp add: runScenario_def andRun_def build_step_def create_step_def Let_def failing_def setting_def phase_def noting_def
      provider_name_def finish_run_def start_run_def)

section \<open>Runs of both kinds\<close>

definition demo_run_env :: "(int, unit) run_env" where
  "demo_run_env = \<lparr> re_fl = demo_float, re_fm = demo_formats, re_targetFraction = 1, re_now = int, re_cmd = (\<lambda>_ _. Inl (New ''down'')),
     re_cmdc = (\<lambda>_ _. ([], None)), re_get = (\<lambda>_ _. Inl (New ''down'')), re_rpc = (\<lambda>_. Inl (New ''down'')),
     re_dec_row = (\<lambda>_. Inr []), re_dec = (\<lambda>_. Inr []), re_num = (\<lambda>m e. m), re_sprint = (\<lambda>_. []), re_time = (\<lambda>_. None),
     re_toml = demo_report_toml, re_gzip = demo_gzip, re_providers = demo_providers, re_RestoreChain = (\<lambda>_ _ _. Inl (New ''gone'')),
     re_LaunchTestnet = (\<lambda>_. Some (empty_LaunchTestnetResponse\<lparr>lr_ProviderState := ''zL''\<rparr>, Inr ())),
     re_RunLoadTest = (\<lambda>_. Some (empty_load_response\<lparr>rr_ProviderState := ''zT''\<rparr>, None)), re_spec = (\<lambda>_. \<lparr> lts_Kind = [], lts_Fields = [] \<rparr>),
     re_As = (\<lambda>_. None), re_heights = (Inr 1, Inr 1, Inr 2), re_blocks = [], re_sampler = ([], \<lambda>_. Inl (New ''down''), 0),
     re_monitor = [], re_drained = False \<rparr>"

definition demo_run_options :: run_options where
  "demo_run_options = \<lparr> ro_skipBuild = True, ro_keep = False, ro_commitBenchBlocks = 0,
     ro_appProfiles = \<lparr> pc_CPUOutDir = [], pc_HeapOutDir = [], pc_PprofOutDir = [], pc_DiagnosticOutDir = [], pc_DiagnosticDuration = 0,
       pc_ActiveWindowOutDir = [], pc_ActiveWindowDuration = 0, pc_DebugVars = False \<rparr>,
     ro_rawTxAudit = False, ro_loadWindowDrainTimeout = 0, ro_loadWindowMinDuration = 0, ro_stopCatalystAfterLoadWindow = False,
     ro_treeDBPostLoadDwell = 0 \<rparr>"

abbreviation demo_run :: "(int, unit) run_state option" where
  "demo_run \<equiv> runScenario demo_run_env demo_run_options demo_report_scenario (\<lambda>_. 0)"

lemma calm_error: "calm st st' \<Longrightarrow> rr_Error (ru_result st') = rr_Error (ru_result st)"
  by (simp add: calm_def)

lemmas error_simps =
  calm_error[OF calm_collect_before[OF calm_refl]] calm_error[OF calm_collect_after[OF calm_refl]]
  calm_error[OF calm_active_profiles[OF calm_refl]] calm_error[OF calm_record_load[OF calm_refl]]
  calm_error[OF calm_dwell[OF calm_refl]] calm_error[OF calm_audited_profiles[OF calm_refl]]
  calm_error[OF calm_sampler_deferred[OF calm_refl]] calm_error[OF calm_finish[OF calm_refl]]

lemma setting_error: "rr_Error (f (ru_result st)) = rr_Error (ru_result st) \<Longrightarrow> rr_Error (ru_result (setting f st)) = rr_Error (ru_result st)"
  by (simp add: setting_def)

lemma phase_noting_error: "rr_Error (ru_result (phase en name note (noting ev) st)) = rr_Error (ru_result st)"
  by (simp add: phase_def Let_def setting_def noting_def)

lemma deferred_error: "rr_Error (ru_result (provider_deferred en ro st)) = rr_Error (ru_result st)"
  by (simp add: provider_deferred_def Let_def setting_def noting_def)

lemma demo_after_load:
  "\<exists>st'. after_load demo_run_env demo_run_options demo_report_scenario resp (empty_load_response\<lparr>rr_ProviderState := ''zT''\<rparr>) None st = Some (st', False) \<and>
     rr_Error (ru_result st') = rr_Error (ru_result st)"
  by (simp add: after_load_def Let_def summarizeLoadTestLogs_def empty_load_response_def load_outcome_def zero_load_result_def
      setting_error error_simps)

lemma demo_no_monitor: "start_monitor en ro demo_report_scenario st = None"
  by (simp add: start_monitor_def Let_def intendedTransactions_def demo_report_scenario_def zero_scenario_def zero_spec_def wrap64_def
      int_of_uint64_def uint64_of_int_def)

text \<open>A step that goes through without an error.\<close>

definition clean_step :: "('f, 'c) run_step \<Rightarrow> ('f, 'c) run_state \<Rightarrow> bool" where
  "clean_step a st \<longleftrightarrow> (\<exists>st' go. a st = Some (st', go) \<and> rr_Error (ru_result st') = rr_Error (ru_result st))"

lemma demo_load_clean: "clean_step (load_step demo_run_env demo_run_options demo_report_scenario resp) st"
  using demo_after_load[of resp "phase demo_run_env ''run_load_test'' (''wallets='' @ Itoa (sc_NumWallets demo_report_scenario))
      (noting (RuLoadTest (load_request demo_run_env demo_report_scenario resp) (empty_load_response\<lparr>rr_ProviderState := ''zT''\<rparr>) None)) st"]
  by (auto simp: clean_step_def load_step_def Let_def demo_no_monitor demo_run_env_def phase_noting_error)

lemma demo_launched_clean: "clean_step (launched_step demo_run_env demo_run_options demo_report_scenario resp) st"
proof -
  have "verify_step demo_run_env demo_report_scenario resp st = Some (st, True)"
    by (simp add: verify_step_def demo_report_scenario_def zero_scenario_def)
  then show ?thesis
    using demo_load_clean[of resp "(collect_before demo_run_env demo_run_options demo_report_scenario st)\<lparr>ru_sampling := True\<rparr>"]
    by (auto simp: clean_step_def launched_step_def andRun_def going_def deferring_def error_simps) (simp add: demo_run_options_def)+
qed

lemma launch_step_ok:
  assumes "re_LaunchTestnet en (report_launch_request sc z) = Some (resp, Inr ())"
  obtains x where "launch_step en ro sc z st = launched_step en ro sc resp x" "rr_Error (ru_result x) = rr_Error (ru_result st)"
proof -
  let ?req = "report_launch_request sc z"
  let ?p = "phase en ''launch_testnet'' (''genesis_accounts='' @ Itoa (launchGenesisAccounts sc)) (noting (RuLaunch ?req resp (Inr ()))) (st\<lparr>ru_tick := ru_tick st + 1\<rparr>)"
  let ?m = "setting (\<lambda>r. r\<lparr>rr_LaunchSeconds := fl_Seconds (re_fl en) (Sub (re_now en (ru_tick ?p)) (re_now en (ru_tick st)))\<rparr>)
    (?p\<lparr>ru_tick := ru_tick ?p + 1\<rparr>)"
  let ?x = "(if lr_ProviderState resp \<noteq> [] then ?m\<lparr>ru_teardown := lr_ProviderState resp\<rparr> else ?m)\<lparr>ru_teardown := lr_ProviderState resp\<rparr>"
  have "launch_step en ro sc z st = launched_step en ro sc resp ?x"
    unfolding launch_step_def Let_def assms option.case prod.case sum.case by (rule refl)
  moreover have "rr_Error (ru_result ?x) = rr_Error (ru_result st)" by (simp add: setting_def phase_def noting_def Let_def)
  ultimately show ?thesis by (rule that)
qed

lemma demo_launch_clean: "clean_step (launch_step demo_run_env demo_run_options demo_report_scenario z) st"
proof -
  have "re_LaunchTestnet demo_run_env (report_launch_request demo_report_scenario z) =
      Some (empty_LaunchTestnetResponse\<lparr>lr_ProviderState := ''zL''\<rparr>, Inr ())" by (simp add: demo_run_env_def)
  then obtain x where x: "launch_step demo_run_env demo_run_options demo_report_scenario z st =
      launched_step demo_run_env demo_run_options demo_report_scenario (empty_LaunchTestnetResponse\<lparr>lr_ProviderState := ''zL''\<rparr>) x"
    "rr_Error (ru_result x) = rr_Error (ru_result st)" by (rule launch_step_ok)
  show ?thesis using demo_launched_clean[of "empty_LaunchTestnetResponse\<lparr>lr_ProviderState := ''zL''\<rparr>" x] x by (simp add: clean_step_def)
qed

lemma demo_run_clean: "\<exists>st. demo_run = Some st \<and> rr_Error (ru_result st) = []"
proof -
  let ?s0 = "start_run demo_run_env demo_report_scenario (\<lambda>_. 0) :: (int, unit) run_state"
  have c: "CreateProvider (re_providers demo_run_env) runner_Docker nm = Inr ''state''" for nm
    by (simp add: demo_run_env_def CreateProvider_def demo_providers_def demo_infra_def and_then_def)
  obtain z where z: "CompressData (re_gzip demo_run_env) ''state'' = Inr z"
    using compress_law[OF demo_gzip_law, of "''state''"] by (auto simp: demo_run_env_def)
  let ?p = "(phase demo_run_env ''create_provider'' (provider_name ?s0) (noting (RuCreate (provider_name ?s0) (Inr ''state''))) ?s0)\<lparr>ru_teardown := z\<rparr>"
  obtain x go where x: "launch_step demo_run_env demo_run_options demo_report_scenario ''state'' ?p = Some (x, go)"
    "rr_Error (ru_result x) = rr_Error (ru_result ?p)" using demo_launch_clean[of "''state''" ?p] unfolding clean_step_def by blast
  have "create_step demo_run_env demo_run_options demo_report_scenario ?s0 = Some (provider_deferred demo_run_env demo_run_options x, go)"
    unfolding create_step_def Let_def c sum.case z deferring_def x(1) by simp
  then have "demo_run = Some (finish_run demo_run_env demo_report_scenario (provider_deferred demo_run_env demo_run_options x))"
    by (simp add: runScenario_def andRun_def build_step_def demo_run_options_def)
  moreover have "rr_Error (ru_result x) = []"
    unfolding x(2) by (simp add: phase_noting_error start_run_def zero_result_def)
  ultimately show ?thesis by (simp add: error_simps deferred_error)
qed

lemma demo_float_sorts: "\<forall>values. mset (fl_Float64s (re_fl demo_run_env) values) = mset values"
  by (simp add: demo_run_env_def demo_float_def)

theorem run_releases_provider_witness:
  "\<exists>st evs. demo_run = Some st \<and> \<not> list_ex releases evs \<and>
     ru_events st = evs @ (if newest_state demo_gzip evs = [] then [] else [RuTeardown (newest_state demo_gzip evs)])"
proof -
  have e: "re_gzip demo_run_env = demo_gzip" "\<not> ro_keep demo_run_options" by (simp_all add: demo_run_env_def demo_run_options_def)
  obtain st where st: "demo_run = Some st" using demo_run_clean by blast
  from run_releases_provider[OF demo_float_sorts st] show ?thesis using st e by auto
qed


end
