(* ===== verification/Report_Celestia.thy ===== *)
theory Report_Celestia
  imports Report_Run
begin

text \<open>
  The comparison of Celestia syncs in \<open>cmd/local-report-runner/main.go\<close>: the environment of its two variants, the
  external command, and what is read back of its artifacts; and the metadata of the report. Files, directories,
  CSV, JSON and commands are the fields of \<open>cel_env\<close>. \<open>sort.Slice\<close> keeps the order of equal elements here.
\<close>

section \<open>Data\<close>

record celestiaABStatus =
  ct_Valid :: bool
  ct_InvalidReason :: string
  ct_RunExitCode :: int
  ct_Attempt :: int
  ct_MaxAttempts :: int
  ct_RunTimeoutSeconds :: int
  ct_SyncTimePresent :: bool

record 'f celestiaABSync =
  cn_StartUTC :: string
  cn_EndUTC :: string
  cn_DBBackend :: string
  cn_AppDBBackend :: string
  cn_DurationSeconds :: 'f
  cn_MaxRSSKB :: int
  cn_MaxHWMKB :: int
  cn_FreezeRemoteHeightAtStart :: int
  cn_TrustHeight :: int
  cn_TrustHash :: string
  cn_StopAtLocalHeight :: int
  cn_FinalLocalHeight :: int
  cn_FinalRemoteHeight :: int
  cn_FinalRemoteHeightActual :: int
  cn_BlocksSynced :: int
  cn_RemoteMinusStopHeight :: "int option"
  cn_EndAppBytes :: int
  cn_EndDataBytes :: int
  cn_EndHomeBytes :: int
  cn_RequiredAcceptedSnapshotHeight :: int
  cn_AcceptedSnapshotHeight :: int
  cn_AcceptedSnapshotActualHeight :: int
  cn_AcceptedSnapshotRequiredHeight :: int
  cn_AcceptedSnapshotFormat :: int
  cn_AcceptedSnapshotSource :: string
  cn_AcceptedSnapshotHash :: string
  cn_AcceptedSnapshotObservedUTC :: string
  cn_AcceptedSnapshotMismatch :: bool

record 'f celestiaABRewrite =
  cw_Attempted :: bool
  cw_Seconds :: 'f
  cw_ExitCode :: int

record celestiaABSizes =
  cz_SyncAppBytes :: int
  cz_DuSyncAppBytes :: int
  cz_SyncWALBytes :: int
  cz_PostAppBytes :: int
  cz_PostWALBytes :: int

record 'f celestiaABMetrics =
  cm_TSyncSeconds :: 'f
  cm_TRewriteSeconds :: 'f
  cm_TTotalSeconds :: 'f
  cm_SSyncAppBytes :: int
  cm_SDuSyncAppBytes :: int
  cm_SSyncWALBytes :: int
  cm_SPostAppBytes :: int
  cm_SPostWALBytes :: int
  cm_SSyncAppBytesPerBlock :: 'f
  cm_SPostAppBytesPerBlock :: 'f
  cm_MaxRSSKB :: int
  cm_BlocksSynced :: int
  cm_TSyncSecondsPerBlock :: 'f
  cm_TTotalSecondsPerBlock :: 'f

record 'f celestiaABRunSummary =
  cu_PairIndex :: int
  cu_Variant :: string
  cu_RunHome :: string
  cu_SyncTimePath :: string
  cu_SyncTime :: "string gomap"
  cu_Build :: "string gomap"
  cu_Status :: celestiaABStatus
  cu_Sync :: "'f celestiaABSync"
  cu_Rewrite :: "'f celestiaABRewrite"
  cu_Sizes :: celestiaABSizes
  cu_Metrics :: "'f celestiaABMetrics"
  cu_MaintenanceSummarySource :: string
  cu_MaintenanceSummaryIsLiveRuntime :: bool
  cu_MaintenanceSummary :: "gval gomap"
  cu_Path :: string
  cu_Error :: string

record 'f celestiaSyncResult =
  cs_Config :: celestiaSyncConfig
  cs_Command :: "string list"
  cs_Environment :: "string gomap"
  cs_OutputDir :: string
  cs_ControlEnvFile :: string
  cs_CandidateEnvFile :: string
  cs_ExitCode :: int
  cs_CommandLog :: string
  cs_SummaryMarkdown :: string
  cs_Decision :: "gval gomap"
  cs_RunsCSV :: "string gomap list"
  cs_PairsCSV :: "string gomap list"
  cs_Runs :: "'f celestiaABRunSummary list"
  cs_Artifacts :: "string gomap"
  cs_RepoGit :: "string gomap gomap"

text \<open>\<open>ce_Stat\<close> tells whether a path exists and is a directory; \<open>ce_run\<close> gives the output of a command run with an
  environment in a directory, its error and its exit code if it has one; \<open>ce_zero_run\<close> is the zero value of a summary.\<close>

record 'f cel_env =
  ce_fl :: "'f float64"
  ce_now :: "nat \<Rightarrow> int"
  ce_MkdirAll :: "string \<Rightarrow> unit result"
  ce_WriteFile :: "string \<Rightarrow> string \<Rightarrow> unit result"
  ce_Stat :: "string \<Rightarrow> bool option"
  ce_ReadFile :: "string \<Rightarrow> string result"
  ce_ReadDir :: "string \<Rightarrow> (string \<times> bool) list result"
  ce_csv :: "string \<Rightarrow> string list list result"
  ce_json :: "string \<Rightarrow> gval gomap result"
  ce_run_json :: "string \<Rightarrow> 'f celestiaABRunSummary result"
  ce_zero_run :: "'f celestiaABRunSummary"
  ce_git :: "string \<Rightarrow> string list \<Rightarrow> string \<times> error option"
  ce_run :: "string list \<Rightarrow> string gomap \<Rightarrow> string \<Rightarrow> string \<times> (error \<times> int option) option"

section \<open>The configuration\<close>

text \<open>\<open>absolute\<close> is \<open>filepath.Abs\<close>.\<close>

definition absPathIfRelative :: "(string \<Rightarrow> string result) \<Rightarrow> string \<Rightarrow> string" where
  "absPathIfRelative absolute path =
     (if path = [] \<or> hd path = CHR ''/'' then path else case absolute path of Inl _ \<Rightarrow> path | Inr p \<Rightarrow> p)"

definition normalizeCelestiaConfig :: "(string \<Rightarrow> string result) \<Rightarrow> celestiaSyncConfig \<Rightarrow> celestiaSyncConfig" where
  "normalizeCelestiaConfig absolute cfg =
     (let f = absPathIfRelative absolute
      in cfg\<lparr>cy_PairRunMode := (if cy_PairRunMode cfg = [] then ''concurrent'' else cy_PairRunMode cfg),
           cy_RunnerScript := f (cy_RunnerScript cfg), cy_OutputDir := f (cy_OutputDir cfg),
           cy_ControlEnvFile := f (cy_ControlEnvFile cfg), cy_CandidateEnvFile := f (cy_CandidateEnvFile cfg),
           cy_RunHomeBase := f (cy_RunHomeBase cfg), cy_GoCacheRoot := f (cy_GoCacheRoot cfg), cy_TempDir := f (cy_TempDir cfg),
           cy_CelestiaAppDir := f (cy_CelestiaAppDir cfg), cy_GomapDir := f (cy_GomapDir cfg), cy_CosmosDBDir := f (cy_CosmosDBDir cfg),
           cy_CometDBDir := f (cy_CometDBDir cfg), cy_CosmosStoreDir := f (cy_CosmosStoreDir cfg),
           cy_CosmosLogDir := f (cy_CosmosLogDir cfg), cy_CosmosCoreDir := f (cy_CosmosCoreDir cfg), cy_IAVLDir := f (cy_IAVLDir cfg)\<rparr>)"

fun existing_path :: "(string \<Rightarrow> bool option) \<Rightarrow> string list \<Rightarrow> string option" where
  "existing_path stat [] = None"
| "existing_path stat (p # ps) = (if p \<noteq> [] \<and> stat p \<noteq> None then Some p else existing_path stat ps)"

definition defaultExistingPath :: "(string \<Rightarrow> bool option) \<Rightarrow> string list \<Rightarrow> string" where
  "defaultExistingPath stat candidates =
     (case existing_path stat candidates of Some p \<Rightarrow> p | None \<Rightarrow> if candidates = [] then [] else last candidates)"

definition defaultFastPath :: "(string \<Rightarrow> bool option) \<Rightarrow> string \<Rightarrow> string \<Rightarrow> string" where
  "defaultFastPath stat tempDir name =
     (if stat ''/mnt/fast4tb/tmp'' = Some True then path_Join ''/mnt/fast4tb/tmp'' name else path_Join tempDir name)"

section \<open>The environment of a variant\<close>

definition mput_if :: "bool \<Rightarrow> string gomap \<Rightarrow> string gomap \<Rightarrow> string gomap" where
  "mput_if c new m = (if c then mcopy new m else m)"

definition variant_base :: "celestiaSyncConfig \<Rightarrow> string \<Rightarrow> string gomap" where
  "variant_base cfg backend =
     [(''RUN_CELESTIA_REPO'', cy_CelestiaAppDir cfg), (''DB_BACKEND'', backend), (''APP_DB_BACKEND'', backend),
      (''HOME'', cy_RunHomeBase cfg), (''CELESTIA_RUN_HOME_BASE'', cy_RunHomeBase cfg), (''TMPDIR'', cy_TempDir cfg),
      (''USE_LOCAL_TREE_STACK'', boolEnv (cy_UseLocalTreeStack cfg)), (''USE_LOCAL_COSMOS_STORE'', boolEnv (cy_UseLocalCosmosStore cfg)),
      (''USE_LOCAL_IAVL'', boolEnv (cy_UseLocalIAVL cfg)), (''LOCAL_GOMAP_DIR'', cy_GomapDir cfg),
      (''LOCAL_COSMOS_DB_DIR'', cy_CosmosDBDir cfg), (''LOCAL_COMET_DB_DIR'', cy_CometDBDir cfg),
      (''LOCAL_COSMOS_STORE_DIR'', cy_CosmosStoreDir cfg), (''LOCAL_COSMOS_LOG_DIR'', cy_CosmosLogDir cfg),
      (''LOCAL_COSMOS_CORE_DIR'', cy_CosmosCoreDir cfg), (''LOCAL_IAVL_DIR'', cy_IAVLDir cfg),
      (''POST_SYNC_DWELL_SECONDS'', Itoa (cy_PostSyncDwellSeconds cfg)),
      (''FREEZE_REMOTE_HEIGHT_AT_START'', boolEnv (cy_FreezeRemoteHeightAtStart cfg)), (''CAPTURE_HEAP_ON_MAX_RSS'', ''0''),
      (''CAPTURE_PPROF_ON_STUCK'', ''0''), (''CAPTURE_FULL_SMAPS_ON_MAX_RSS'', ''0''), (''CAPTURE_DEBUG_VARS_ON_MAX_RSS'', ''0''),
      (''TREEDB_FORCE_CHECKPOINT_ON_WRITE'', ''0''),
      (''RUN_HOME_GLOB'', path_Join (cy_RunHomeBase cfg) (''.celestia-app-mainnet-'' @ backend @ ''-*'')),
      (''CELESTIA_APPD_BIN'', path_Join (path_Join (cy_CelestiaAppDir cfg) ''build'') (''celestia-appd-'' @ backend))]"

definition variant_ports :: "string \<Rightarrow> string gomap" where
  "variant_ports backend =
     (if backend = ''treedb'' then
        [(''P2P_PORT'', ''37656''), (''RPC_PORT'', ''37657''), (''RPC_GRPC_PORT'', ''37658''), (''PRIV_VALIDATOR_GRPC_PORT'', ''37659''),
         (''PROMETHEUS_PORT'', ''37660''), (''API_PORT'', ''37317''), (''APP_GRPC_PORT'', ''39091''), (''PPROF_LADDR'', ''localhost:6162''),
         (''AB_LIVE_DEBUG_VARS_URL'', ''http://127.0.0.1:6162/debug/vars'')]
      else
        [(''P2P_PORT'', ''36656''), (''RPC_PORT'', ''36657''), (''RPC_GRPC_PORT'', ''36658''), (''PRIV_VALIDATOR_GRPC_PORT'', ''36659''),
         (''PROMETHEUS_PORT'', ''36660''), (''API_PORT'', ''36317''), (''APP_GRPC_PORT'', ''39090''), (''PPROF_LADDR'', ''localhost:6062''),
         (''AB_LIVE_DEBUG_VARS_URL'', ''http://127.0.0.1:6062/debug/vars'')])"

definition variant_env :: "celestiaSyncConfig \<Rightarrow> string \<Rightarrow> string gomap" where
  "variant_env cfg backend =
     mput_if (backend = ''treedb'') [(''TREEDB_OPEN_PROFILE'', cy_TreeDBOpenProfile cfg), (''TREEDB_ENABLE_LEAF_GENERATION_PACK_MAINTENANCE'', ''1'')]
     (mput_if (cy_StopAtLocalHeight cfg \<noteq> []) [(''STOP_AT_LOCAL_HEIGHT'', cy_StopAtLocalHeight cfg)]
     (mput_if (cy_TrustHeight cfg \<noteq> []) [(''TRUST_HEIGHT'', cy_TrustHeight cfg), (''TRUST_HASH'', cy_TrustHash cfg)]
     (mput_if (cy_RequiredAcceptedSnapshotHeight cfg \<noteq> []) [(''REQUIRED_ACCEPTED_SNAPSHOT_HEIGHT'', cy_RequiredAcceptedSnapshotHeight cfg)]
     (mput_if (cy_GoCacheRoot cfg \<noteq> []) [(''GOCACHE'', path_Join (cy_GoCacheRoot cfg) ''build-cache''),
        (''GOMODCACHE'', path_Join (cy_GoCacheRoot cfg) ''mod-cache''), (''GOPATH'', path_Join (cy_GoCacheRoot cfg) ''gopath'')]
     (mcopy (variant_ports backend) (variant_base cfg backend))))))"

definition celestiaVariantEnv :: "celestiaSyncConfig \<Rightarrow> string \<Rightarrow> string" where
  "celestiaVariantEnv cfg backend = shellEnvFile (variant_env cfg backend)"

definition celestiaABEnvironment :: "celestiaSyncConfig \<Rightarrow> string gomap" where
  "celestiaABEnvironment cfg =
     (let maxPairs = (if cy_MaxPairs cfg \<le> 0 then 1 else cy_MaxPairs cfg);
          pairRunMode = (if cy_PairRunMode cfg = [] then ''concurrent'' else cy_PairRunMode cfg);
          runTimeout = (if cy_RunTimeoutSeconds cfg < 0 then 0 else cy_RunTimeoutSeconds cfg)
      in mput_if (cy_StopAtLocalHeight cfg \<noteq> []) [(''PAIR_ALIGN_STOP_HEIGHT_FROM_FIRST'', ''0'')]
         (mput_if (cy_TrustHeight cfg \<noteq> []) [(''PAIR_ALIGN_TRUST_FROM_FIRST'', ''0'')]
         (mput_if (cy_TempDir cfg \<noteq> []) [(''TMPDIR'', cy_TempDir cfg)]
         [(''PAIR_RUN_MODE'', pairRunMode), (''MAX_PAIRS'', Itoa maxPairs), (''MIN_PAIRS'', ''1''), (''CLEAR_WIN_PAIRS'', ''1''),
          (''CLEAR_LOSS_PAIRS'', ''1''), (''STOP_ON_CLEAR'', ''0''), (''RUN_TIMEOUT_SECONDS'', Itoa runTimeout),
          (''RUN_MAX_ATTEMPTS_PER_VARIANT'', ''1''), (''RUN_RETRY_SLEEP_SECONDS'', ''0''), (''SLEEP_BETWEEN_RUNS_SECONDS'', ''5''),
          (''REWRITE_ENABLED'', ''0''), (''STOP_PAIR_ON_FIRST_INVALID'', ''1''), (''AB_CAPTURE_LIGHT_VLOG_STATS'', ''0''),
          (''AB_DISABLE_HEAVY_DIAGNOSTICS'', ''1''), (''AB_CAPTURE_HEAP_ON_MAX_RSS'', ''0''), (''AB_CAPTURE_PPROF_ON_STUCK'', ''0''),
          (''AB_CAPTURE_FULL_SMAPS_ON_MAX_RSS'', ''0''), (''AB_CAPTURE_DEBUG_VARS_ON_MAX_RSS'', ''0''),
          (''AB_CAPTURE_LIVE_DEBUG_VARS'', ''1''), (''PAIR_ALIGN_TRUST_FROM_FIRST'', ''0''), (''PAIR_ALIGN_STOP_HEIGHT_FROM_FIRST'', ''0''),
          (''PAIR_ALIGN_STOP_MARGIN'', ''0''), (''BLOCK_DRIFT_TOLERANCE'', ''0''), (''SCORING_MODE'', ''per_block''),
          (''ALLOW_DRIFT_SCORING'', ''0''), (''RUN_HOME_GLOB'', path_Join (cy_RunHomeBase cfg) ''.celestia-app-mainnet-*'')])))"

text \<open>A file is the user's, or it is generated; the result is its path.\<close>

definition variant_file :: "'f cel_env \<Rightarrow> celestiaSyncConfig \<Rightarrow> string \<Rightarrow> string \<Rightarrow> string \<Rightarrow> string result" where
  "variant_file en cfg given file backend =
     (if given \<noteq> [] then Inr given
      else and_then (ce_WriteFile en file (celestiaVariantEnv cfg backend)) (\<lambda>_. Inr file))"

definition prepareCelestiaEnvFiles :: "'f cel_env \<Rightarrow> celestiaSyncConfig \<Rightarrow> (string \<times> string) result" where
  "prepareCelestiaEnvFiles en cfg =
     (if cy_OutputDir cfg = [] then Inl (New ''celestia output dir is required'')
      else if (cy_TrustHeight cfg = [] \<and> cy_TrustHash cfg \<noteq> []) \<or> (cy_TrustHeight cfg \<noteq> [] \<and> cy_TrustHash cfg = []) then
        Inl (New ''celestia trust height and trust hash must be set together'')
      else let envDir = path_Join (cy_OutputDir cfg) ''env''
           in and_then (ce_MkdirAll en envDir) (\<lambda>_.
              and_then (variant_file en cfg (cy_ControlEnvFile cfg) (path_Join envDir ''control-goleveldb.env'') ''goleveldb'') (\<lambda>controlEnv.
              and_then (variant_file en cfg (cy_CandidateEnvFile cfg) (path_Join envDir ''candidate-treedb.env'') ''treedb'') (\<lambda>candidateEnv.
                Inr (controlEnv, candidateEnv)))))"

section \<open>Artifacts\<close>

definition readKeyValueFile :: "(string \<Rightarrow> string result) \<Rightarrow> string \<Rightarrow> string gomap result" where
  "readKeyValueFile reader path =
     and_then (reader path) (\<lambda>body. Inr (fold (\<lambda>line values.
       let line = TrimSpace line; key = TrimSpace (takeWhile (\<lambda>c. c \<noteq> CHR ''='') line)
       in if line = [] \<or> HasPrefix line ''#'' \<or> CHR ''='' \<notin> set line \<or> key = [] then values
          else mput key (TrimSpace (tl (dropWhile (\<lambda>c. c \<noteq> CHR ''='') line))) values) (Split (CHR 0x0A) body) []))"

definition parseInt64Value :: "string \<Rightarrow> int option" where
  "parseInt64Value raw =
     (let raw = TrimSpace raw
      in if raw = [] \<or> ToLower raw = ''disabled'' \<or> ToLower raw = ''unset'' then None
         else case ParseInt raw of Inl _ \<Rightarrow> None | Inr v \<Rightarrow> Some v)"

definition string_or :: "string gomap \<Rightarrow> string \<Rightarrow> string \<Rightarrow> string" where
  "string_or values key old = (let v = TrimSpace (mget_str values key) in if v \<noteq> [] then v else old)"

definition int_or :: "string gomap \<Rightarrow> string \<Rightarrow> int \<Rightarrow> int" where
  "int_or values key old = (case parseInt64Value (mget_str values key) of None \<Rightarrow> old | Some v \<Rightarrow> v)"

definition enrichCelestiaSyncFromKV :: "string gomap \<Rightarrow> 'f celestiaABSync \<Rightarrow> 'f celestiaABSync" where
  "enrichCelestiaSyncFromKV kv s =
     s\<lparr>cn_StartUTC := string_or kv ''start_utc'' (cn_StartUTC s), cn_EndUTC := string_or kv ''end_utc'' (cn_EndUTC s),
       cn_DBBackend := string_or kv ''db_backend'' (cn_DBBackend s), cn_AppDBBackend := string_or kv ''app_db_backend'' (cn_AppDBBackend s),
       cn_TrustHash := string_or kv ''trust_hash'' (cn_TrustHash s),
       cn_AcceptedSnapshotSource := string_or kv ''accepted_snapshot_source'' (cn_AcceptedSnapshotSource s),
       cn_AcceptedSnapshotHash := string_or kv ''accepted_snapshot_hash'' (cn_AcceptedSnapshotHash s),
       cn_AcceptedSnapshotObservedUTC := string_or kv ''accepted_snapshot_observed_utc'' (cn_AcceptedSnapshotObservedUTC s),
       cn_TrustHeight := int_or kv ''trust_height'' (cn_TrustHeight s),
       cn_StopAtLocalHeight := int_or kv ''stop_at_local_height'' (cn_StopAtLocalHeight s),
       cn_FinalLocalHeight := int_or kv ''final_local_height'' (cn_FinalLocalHeight s),
       cn_FinalRemoteHeight := int_or kv ''final_remote_height'' (cn_FinalRemoteHeight s),
       cn_FinalRemoteHeightActual := int_or kv ''final_remote_height_actual'' (cn_FinalRemoteHeightActual s),
       cn_BlocksSynced := int_or kv ''blocks_synced'' (cn_BlocksSynced s), cn_MaxRSSKB := int_or kv ''max_rss_kb'' (cn_MaxRSSKB s),
       cn_MaxHWMKB := int_or kv ''max_hwm_kb'' (cn_MaxHWMKB s), cn_EndAppBytes := int_or kv ''end_app_bytes'' (cn_EndAppBytes s),
       cn_EndDataBytes := int_or kv ''end_data_bytes'' (cn_EndDataBytes s), cn_EndHomeBytes := int_or kv ''end_home_bytes'' (cn_EndHomeBytes s),
       cn_RequiredAcceptedSnapshotHeight := int_or kv ''required_accepted_snapshot_height'' (cn_RequiredAcceptedSnapshotHeight s),
       cn_AcceptedSnapshotHeight := int_or kv ''accepted_snapshot_height'' (cn_AcceptedSnapshotHeight s),
       cn_AcceptedSnapshotActualHeight := int_or kv ''accepted_snapshot_actual_height'' (cn_AcceptedSnapshotActualHeight s),
       cn_AcceptedSnapshotRequiredHeight := int_or kv ''accepted_snapshot_required_height'' (cn_AcceptedSnapshotRequiredHeight s),
       cn_AcceptedSnapshotFormat := int_or kv ''accepted_snapshot_format'' (cn_AcceptedSnapshotFormat s),
       cn_AcceptedSnapshotMismatch :=
         (let v = TrimSpace (mget_str kv ''accepted_snapshot_mismatch'')
          in if v \<noteq> [] then v = ''1'' \<or> ToLower v = ''true'' else cn_AcceptedSnapshotMismatch s)\<rparr>"

definition attachCelestiaSyncTime :: "(string \<Rightarrow> string result) \<Rightarrow> 'f celestiaABRunSummary \<Rightarrow> 'f celestiaABRunSummary" where
  "attachCelestiaSyncTime reader run =
     (if cu_RunHome run = [] then run
      else let path = path_Join (path_Join (cu_RunHome run) ''sync'') ''sync-time.log''
           in case readKeyValueFile reader path of
                Inl _ \<Rightarrow> run
              | Inr kv \<Rightarrow>
                  if kv = [] then run
                  else run\<lparr>cu_SyncTimePath := path, cu_SyncTime := kv, cu_Sync := enrichCelestiaSyncFromKV kv (cu_Sync run)\<rparr>)"

definition read_run :: "'f cel_env \<Rightarrow> string \<Rightarrow> string \<times> bool \<Rightarrow> 'f celestiaABRunSummary list" where
  "read_run en runsDir entry =
     (case entry of (name, isDir) \<Rightarrow>
        if \<not> isDir then []
        else let path = path_Join (path_Join runsDir name) ''run.json''
             in case ce_ReadFile en path of
                  Inl _ \<Rightarrow> []
                | Inr body \<Rightarrow>
                    let run = (case ce_run_json en body of Inl e \<Rightarrow> (ce_zero_run en)\<lparr>cu_Error := Error_str e\<rparr> | Inr run \<Rightarrow> run)
                    in [attachCelestiaSyncTime (ce_ReadFile en) (run\<lparr>cu_Path := path\<rparr>)])"

definition readCelestiaRunSummaries :: "'f cel_env \<Rightarrow> string \<Rightarrow> 'f celestiaABRunSummary list" where
  "readCelestiaRunSummaries en runsDir =
     (case ce_ReadDir en runsDir of
        Inl _ \<Rightarrow> []
      | Inr entries \<Rightarrow> sort_key (\<lambda>r. (cu_PairIndex r, cu_Variant r)) (concat (map (read_run en runsDir) entries)))"

definition csv_record :: "string list \<Rightarrow> string list \<Rightarrow> string gomap" where
  "csv_record header row = fold (\<lambda>i. mput (header ! i) (if i < length row then row ! i else [])) [0..<length header] []"

definition readCSVRecords :: "'f cel_env \<Rightarrow> string \<Rightarrow> string gomap list result" where
  "readCSVRecords en path =
     and_then (ce_ReadFile en path) (\<lambda>body. and_then (ce_csv en body) (\<lambda>rows.
       Inr (case rows of header # r # rs \<Rightarrow> map (csv_record header) (r # rs) | _ \<Rightarrow> [])))"

definition artifact_paths :: "string \<Rightarrow> string gomap" where
  "artifact_paths outDir =
     map (\<lambda>(name, file). (name, path_Join outDir file))
       [(''summary'', ''summary.md''), (''decision'', ''decision.json''), (''runs_csv'', ''runs.csv''), (''pairs_csv'', ''pairs.csv''),
        (''runs_dir'', ''runs''), (''meta'', ''meta.txt'')]"

definition ok_or :: "'a result \<Rightarrow> 'a \<Rightarrow> 'a" where
  "ok_or r old = (case r of Inl _ \<Rightarrow> old | Inr x \<Rightarrow> x)"

definition collectCelestiaArtifacts :: "'f cel_env \<Rightarrow> 'f celestiaSyncResult \<Rightarrow> 'f celestiaSyncResult" where
  "collectCelestiaArtifacts en r =
     (let outDir = cs_OutputDir r; artifacts = filter (\<lambda>(name, path). ce_Stat en path \<noteq> None) (artifact_paths outDir)
      in if outDir = [] then r
         else r\<lparr>cs_Artifacts := (if artifacts \<noteq> [] then artifacts else cs_Artifacts r),
                cs_SummaryMarkdown := ok_or (ce_ReadFile en (path_Join outDir ''summary.md'')) (cs_SummaryMarkdown r),
                cs_Decision := ok_or (and_then (ce_ReadFile en (path_Join outDir ''decision.json'')) (ce_json en)) (cs_Decision r),
                cs_RunsCSV := ok_or (readCSVRecords en (path_Join outDir ''runs.csv'')) (cs_RunsCSV r),
                cs_PairsCSV := ok_or (readCSVRecords en (path_Join outDir ''pairs.csv'')) (cs_PairsCSV r),
                cs_Runs := readCelestiaRunSummaries en (path_Join outDir ''runs'')\<rparr>)"

section \<open>Metadata\<close>

definition command_text :: "string \<times> error option \<Rightarrow> string" where
  "command_text r = (case r of (out, Some e) \<Rightarrow> if out = [] then Error_str e else TrimSpace out | (out, None) \<Rightarrow> TrimSpace out)"

definition commandStringSlice :: "combined \<Rightarrow> string list \<Rightarrow> string" where
  "commandStringSlice cmdc cmd = (if cmd = [] then [] else command_text (cmdc cmd))"

definition gitMetadataForDir :: "'f cel_env \<Rightarrow> string \<Rightarrow> string gomap" where
  "gitMetadataForDir en dir =
     (''path'', dir) # map (\<lambda>(key, args). (key, command_text (ce_git en dir args)))
       [(''branch'', [''branch'', ''--show-current'']), (''head'', [''rev-parse'', ''HEAD'']),
        (''describe'', [''describe'', ''--always'', ''--dirty'']), (''status'', [''status'', ''--short'']),
        (''remote'', [''remote'', ''get-url'', ''origin''])]"

definition celestiaRepoMetadata :: "'f cel_env \<Rightarrow> celestiaSyncConfig \<Rightarrow> string gomap gomap" where
  "celestiaRepoMetadata en cfg =
     concat (map (\<lambda>(name, path). if path = [] \<or> ce_Stat en path \<noteq> Some True then [] else [(name, gitMetadataForDir en path)])
       [(''celestia_app'', cy_CelestiaAppDir cfg), (''gomap'', cy_GomapDir cfg), (''cosmos_db'', cy_CosmosDBDir cfg),
        (''comet_db'', cy_CometDBDir cfg), (''cosmos_store'', cy_CosmosStoreDir cfg), (''cosmos_log'', cy_CosmosLogDir cfg),
        (''cosmos_core'', cy_CosmosCoreDir cfg), (''iavl'', cy_IAVLDir cfg)])"

definition gitMetadata :: "combined \<Rightarrow> string gomap" where
  "gitMetadata cmdc = map (\<lambda>(key, cmd). (key, commandStringSlice cmdc cmd))
     [(''branch'', [''git'', ''branch'', ''--show-current'']), (''head'', [''git'', ''rev-parse'', ''HEAD'']),
      (''status'', [''git'', ''status'', ''--short''])]"

text \<open>The constants of the runtime are arguments.\<close>

definition hostMetadata :: "string \<Rightarrow> string \<Rightarrow> string \<Rightarrow> combined \<Rightarrow> string gomap" where
  "hostMetadata goos goarch version cmdc =
     [(''goos'', goos), (''goarch'', goarch), (''go_version'', version)] @ map (\<lambda>(key, cmd). (key, commandStringSlice cmdc cmd))
       [(''uname'', [''uname'', ''-a'']), (''docker_version'', [''docker'', ''--version'']),
        (''lscpu_model'', [''sh'', ''-c'', ''lscpu | sed -n '' @ shellQuote ''s/^Model name:[[:space:]]*//p'' @ '' | head -1'']),
        (''cpu_count'', [''sh'', ''-c'', ''nproc'']), (''memory'', [''sh'', ''-c'', ''free -h | sed -n '' @ shellQuote ''2p'']),
        (''root_disk'', [''sh'', ''-c'', ''df -h / | tail -1'']),
        (''fast4tb_disk'', [''sh'', ''-c'', ''df -h /mnt/fast4tb 2>/dev/null | tail -1 || true''])]"

section \<open>The run\<close>

definition commandExitCode :: "(error \<times> int option) option \<Rightarrow> int" where
  "commandExitCode err = (case err of None \<Rightarrow> 0 | Some (_, Some code) \<Rightarrow> code | Some (_, None) \<Rightarrow> -1)"

definition celestia_command :: "celestiaSyncConfig \<Rightarrow> string \<times> string \<Rightarrow> string list" where
  "celestia_command cfg files = [cy_RunnerScript cfg, cy_OutputDir cfg, cy_RunCommand cfg, fst files, snd files]"

definition celestia_result :: "'f cel_env \<Rightarrow> celestiaSyncConfig \<Rightarrow> string \<times> string \<Rightarrow> 'f celestiaSyncResult" where
  "celestia_result en cfg files =
     \<lparr> cs_Config = cfg, cs_Command = celestia_command cfg files, cs_Environment = celestiaABEnvironment cfg, cs_OutputDir = cy_OutputDir cfg,
       cs_ControlEnvFile = fst files, cs_CandidateEnvFile = snd files, cs_ExitCode = 0, cs_CommandLog = [], cs_SummaryMarkdown = [],
       cs_Decision = [], cs_RunsCSV = [], cs_PairsCSV = [], cs_Runs = [], cs_Artifacts = [], cs_RepoGit = celestiaRepoMetadata en cfg \<rparr>"

definition celestia_phase :: "'f cel_env \<Rightarrow> nat \<Rightarrow> string \<Rightarrow> string \<Rightarrow> ('f, 'f celestiaSyncResult) runResult \<Rightarrow> ('f, 'f celestiaSyncResult) runResult" where
  "celestia_phase en i name note r =
     r\<lparr>rr_PhaseTimeline := startPhase (ce_fl en) name note (ce_now en i) (ce_now en (i + 1)) (rr_PhaseTimeline r)\<rparr>"

definition celestia_body :: "'f cel_env \<Rightarrow> celestiaSyncConfig \<Rightarrow> ('f, 'f celestiaSyncResult) runResult \<Rightarrow> ('f, 'f celestiaSyncResult) runResult" where
  "celestia_body en cfg r =
     (let r = celestia_phase en 1 ''prepare_celestia_sync'' (cy_OutputDir cfg) r
      in case prepareCelestiaEnvFiles en cfg of
           Inl e \<Rightarrow> r\<lparr>rr_Error := ''prepare celestia env files: '' @ Error_str e\<rparr>
         | Inr files \<Rightarrow>
             let s = celestia_result en cfg files
             in if cy_DryRun cfg then
                  (celestia_phase en 3 ''celestia_sync_dry_run'' [] r)
                    \<lparr>rr_CelestiaSync := Some (s\<lparr>cs_CommandLog := ''dry run: Celestia sync command was not executed''\<rparr>)\<rparr>
                else
                  let dir = (if cy_RunnerScript cfg \<noteq> [] then path_Dir (cy_RunnerScript cfg) else []);
                      (out, err) = ce_run en (cs_Command s) (cs_Environment s) dir;
                      r = celestia_phase en 3 ''run_celestia_sync_ab'' (''pairs='' @ Itoa (cy_MaxPairs cfg)) r;
                      s = collectCelestiaArtifacts en (s\<lparr>cs_CommandLog := kept_log out 60000, cs_ExitCode := commandExitCode err\<rparr>);
                      r = r\<lparr>rr_CelestiaSync := Some s\<rparr>
                  in case err of None \<Rightarrow> r | Some (e, _) \<Rightarrow> r\<lparr>rr_Error := ''run celestia sync A/B: '' @ Error_str e\<rparr>)"

definition runCelestiaSyncScenario :: "'f cel_env \<Rightarrow> scenario \<Rightarrow> ('f, 'f celestiaSyncResult) runResult" where
  "runCelestiaSyncScenario en sc =
     (let r = (zero_result (ce_fl en) sc)\<lparr>rr_StartedAt := ce_now en 0, rr_ProviderName := ''external-celestia-sync''\<rparr>;
          r = celestia_body en (sc_CelestiaSync sc) r; finished = ce_now en 5
      in r\<lparr>rr_FinishedAt := finished, rr_WallSeconds := fl_Seconds (ce_fl en) (Sub finished (rr_StartedAt r))\<rparr>)"

section \<open>The two variants\<close>

definition port_keys :: "string list" where
  "port_keys = [''P2P_PORT'', ''RPC_PORT'', ''RPC_GRPC_PORT'', ''PRIV_VALIDATOR_GRPC_PORT'', ''PROMETHEUS_PORT'', ''API_PORT'',
     ''APP_GRPC_PORT'', ''PPROF_LADDR'', ''AB_LIVE_DEBUG_VARS_URL'']"

definition backend_keys :: "string list" where
  "backend_keys = [''DB_BACKEND'', ''APP_DB_BACKEND'', ''RUN_HOME_GLOB'', ''CELESTIA_APPD_BIN'', ''TREEDB_OPEN_PROFILE'',
     ''TREEDB_ENABLE_LEAF_GENERATION_PACK_MAINTENANCE'']"

lemma mput_if_distinct: "distinct (keys m) \<Longrightarrow> distinct (keys (mput_if c new m))"
  by (simp add: mput_if_def distinct_keys_mcopy)

lemma ports_keys: "keys (variant_ports b) = port_keys"
  by (simp add: variant_ports_def port_keys_def)

lemma base_keys_distinct: "distinct (keys (variant_base cfg b))"
  by (simp add: variant_base_def)

lemma variant_env_distinct: "distinct (keys (variant_env cfg b))"
  by (simp add: variant_env_def mput_if_distinct distinct_keys_mcopy base_keys_distinct)

lemma set_keys_mcopy: "set (keys (mcopy src dst)) = set (keys src) \<union> set (keys dst)"
  by (induction src dst rule: mcopy.induct) (auto simp: dom_update)

lemma set_keys_mput_if: "set (keys (mput_if c new m)) \<subseteq> set (keys new) \<union> set (keys m)"
  by (simp add: mput_if_def set_keys_mcopy del: set_map)

lemma mget_mput_if: "mget (mput_if c new m) k = (if c then (case mget (rev new) k of None \<Rightarrow> mget m k | Some v \<Rightarrow> Some v) else mget m k)"
  by (simp add: mput_if_def mget_mcopy)

lemma base_keys_ident: "list_all (\<lambda>k. k \<noteq> [] \<and> list_all ident_char k) (keys (variant_base cfg b))"
  by (simp add: variant_base_def ident_char_def)

lemma port_keys_ident: "list_all (\<lambda>k. k \<noteq> [] \<and> list_all ident_char k) port_keys"
  by (simp add: port_keys_def ident_char_def)

lemma variant_keys_ident: "\<forall>k \<in> set (keys (variant_env cfg b)). k \<noteq> [] \<and> list_all ident_char k"
proof -
  let ?extra = "[''TREEDB_OPEN_PROFILE'', ''TREEDB_ENABLE_LEAF_GENERATION_PACK_MAINTENANCE'', ''STOP_AT_LOCAL_HEIGHT'', ''TRUST_HEIGHT'',
    ''TRUST_HASH'', ''REQUIRED_ACCEPTED_SNAPSHOT_HEIGHT'', ''GOCACHE'', ''GOMODCACHE'', ''GOPATH'']"
  have "set (keys (variant_env cfg b)) \<subseteq> set ?extra \<union> set (keys (mcopy (variant_ports b) (variant_base cfg b)))"
    unfolding variant_env_def by (intro order.trans[OF set_keys_mput_if] Un_least order_refl) auto
  also have "\<dots> = set ?extra \<union> set port_keys \<union> set (keys (variant_base cfg b))" by (simp add: set_keys_mcopy ports_keys Un_assoc del: set_map)
  finally have sub: "set (keys (variant_env cfg b)) \<subseteq> set ?extra \<union> set port_keys \<union> set (keys (variant_base cfg b))" .
  have "list_all (\<lambda>k. k \<noteq> [] \<and> list_all ident_char k) ?extra" by (simp add: ident_char_def)
  then show ?thesis using sub base_keys_ident[of cfg b] port_keys_ident unfolding list_all_iff[of "\<lambda>k. k \<noteq> [] \<and> list_all ident_char k"] by blast
qed

text \<open>What a shell finds in a generated file: the variables that are not blank.\<close>

definition shell_view :: "string gomap \<Rightarrow> string gomap" where
  "shell_view env = map (\<lambda>k. (k, mget_str env k)) (sort (map fst (filter (\<lambda>(k, v). TrimSpace v \<noteq> []) env)))"

lemma mget_graph: "mget (map (\<lambda>k. (k, f k)) ks) k = (if k \<in> set ks then Some (f k) else None)"
  by (induction ks) auto

lemma mget_shell_view:
  assumes "distinct (keys env)"
  shows "mget (shell_view env) k = (case mget env k of None \<Rightarrow> None | Some v \<Rightarrow> if TrimSpace v = [] then None else Some v)"
proof -
  have "k \<in> set (map fst (filter (\<lambda>(k, v). TrimSpace v \<noteq> []) env)) \<longleftrightarrow> (\<exists>v. mget env k = Some v \<and> TrimSpace v \<noteq> [])"
    using assms by (force simp: image_iff)
  then show ?thesis by (auto simp: shell_view_def mget_graph mget_str_def split: option.splits)
qed

lemma celestiaVariantEnv_read: "sh_env (celestiaVariantEnv cfg b) = Some (shell_view (variant_env cfg b))"
  unfolding celestiaVariantEnv_def shell_view_def using variant_keys_ident[of cfg b]
  by (intro sh_env_shellEnvFile) force

lemma mget_mput_if_other: "k \<notin> set (keys new) \<Longrightarrow> mget (mput_if c new m) k = mget m k"
  by (simp add: mput_if_def mget_mcopy map_of_eq_None_iff[THEN iffD2])

lemma mget_mput_if_cong: "mget m k = mget m' k \<Longrightarrow> mget (mput_if c new m) k = mget (mput_if c new m') k"
  by (auto simp: mput_if_def mget_mcopy split: option.split)

lemma mget_ports: "mget (mcopy (variant_ports b) m) k = (if k \<in> set port_keys then mget (variant_ports b) k else mget m k)"
proof -
  have "distinct (keys (variant_ports b))" unfolding ports_keys port_keys_def by simp
  then have "mget (rev (variant_ports b)) k = mget (variant_ports b) k"
    by (metis distinct_rev map_of_inject_set rev_map set_rev)
  moreover have "mget (variant_ports b) k = None \<longleftrightarrow> k \<notin> set port_keys"
    unfolding map_of_eq_None_iff using ports_keys[of b] by (metis set_map)
  ultimately show ?thesis by (auto simp: mget_mcopy split: option.split)
qed

lemma variant_env_port:
  assumes "k \<in> set port_keys"
  shows "mget (variant_env cfg b) k = mget (variant_ports b) k"
proof -
  have "list_all (\<lambda>k. k \<notin> set [''TREEDB_OPEN_PROFILE'', ''TREEDB_ENABLE_LEAF_GENERATION_PACK_MAINTENANCE'', ''STOP_AT_LOCAL_HEIGHT'',
    ''TRUST_HEIGHT'', ''TRUST_HASH'', ''REQUIRED_ACCEPTED_SNAPSHOT_HEIGHT'', ''GOCACHE'', ''GOMODCACHE'', ''GOPATH'']) port_keys" by code_simp
  then have "k \<notin> set [''TREEDB_OPEN_PROFILE'', ''TREEDB_ENABLE_LEAF_GENERATION_PACK_MAINTENANCE'', ''STOP_AT_LOCAL_HEIGHT'',
    ''TRUST_HEIGHT'', ''TRUST_HASH'', ''REQUIRED_ACCEPTED_SNAPSHOT_HEIGHT'', ''GOCACHE'', ''GOMODCACHE'', ''GOPATH'']"
    using assms by (rule list_all_iff[THEN iffD1, THEN bspec])
  then show ?thesis unfolding variant_env_def using assms by (simp add: mget_mput_if_other mget_ports)
qed

lemma mget_filter_keys: "k \<notin> B \<Longrightarrow> mget (filter (\<lambda>p. fst p \<notin> B) m) k = mget m k"
  by (induction m) auto

lemma variant_base_common:
  assumes "k \<notin> set backend_keys"
  shows "mget (variant_base cfg b) k = mget (variant_base cfg b') k"
proof -
  have "filter (\<lambda>p. fst p \<notin> set backend_keys) (variant_base cfg b) = filter (\<lambda>p. fst p \<notin> set backend_keys) (variant_base cfg b')"
    by (simp add: variant_base_def backend_keys_def)
  then show ?thesis using mget_filter_keys[OF assms] by metis
qed

lemma variant_env_common:
  assumes "k \<notin> set port_keys" "k \<notin> set backend_keys"
  shows "mget (variant_env cfg b) k = mget (variant_env cfg b') k"
proof -
  have "k \<notin> set [''TREEDB_OPEN_PROFILE'', ''TREEDB_ENABLE_LEAF_GENERATION_PACK_MAINTENANCE'']" using assms(2) unfolding backend_keys_def by simp
  then show ?thesis unfolding variant_env_def using assms(1)
    by (simp add: mget_mput_if_other del: set_map list.set)
       (intro mget_mput_if_cong, simp only: mget_ports assms(1) if_False variant_base_common[OF assms(2)])
qed

lemma ports_disjoint:
  "list_all (\<lambda>k. mget (variant_ports ''goleveldb'') k \<noteq> None \<and> mget (variant_ports ''treedb'') k \<noteq> None \<and>
     list_all (\<lambda>k'. mget (variant_ports ''goleveldb'') k \<noteq> mget (variant_ports ''treedb'') k') port_keys) port_keys"
  by code_simp

lemma ports_not_blank: "list_all (\<lambda>p. TrimSpace (snd p) \<noteq> []) (variant_ports b)"
proof -
  have "list_all (\<lambda>p. TrimSpace (snd p) \<noteq> []) (variant_ports ''treedb'')" "list_all (\<lambda>p. TrimSpace (snd p) \<noteq> []) (variant_ports ''goleveldb'')"
    by code_simp+
  then show ?thesis by (cases "b = ''treedb''") (simp_all add: variant_ports_def)
qed

lemma variant_view_port:
  assumes "k \<in> set port_keys"
  shows "mget (shell_view (variant_env cfg b)) k = mget (variant_ports b) k"
proof -
  have "TrimSpace v \<noteq> []" if "mget (variant_ports b) k = Some v" for v
    using ports_not_blank[of b] map_of_SomeD[OF that] by (auto simp: list_all_iff)
  then show ?thesis using variant_env_port[OF assms, of cfg b]
    by (auto simp: mget_shell_view variant_env_distinct split: option.split)
qed

lemma variant_env_backends:
  assumes "k \<in> set [''DB_BACKEND'', ''APP_DB_BACKEND'']"
  shows "mget (variant_env cfg b) k = Some b"
proof -
  have "k \<notin> set port_keys" using assms unfolding port_keys_def by auto
  then show ?thesis using assms unfolding variant_env_def
    by (auto simp: mget_mput_if_other mget_ports variant_base_def)
qed

lemma variant_view_backends:
  assumes "TrimSpace b \<noteq> []"
  shows "map (mget (shell_view (variant_env cfg b))) [''DB_BACKEND'', ''APP_DB_BACKEND''] = [Some b, Some b]"
  using variant_env_backends[of "''DB_BACKEND''" cfg b] variant_env_backends[of "''APP_DB_BACKEND''" cfg b] assms
  by (simp add: mget_shell_view variant_env_distinct)

lemma not_blank: "TrimSpace ''goleveldb'' \<noteq> []" "TrimSpace ''treedb'' \<noteq> []"
  by code_simp+

section \<open>Properties\<close>

text \<open>C18: The two variants of a comparison are comparable and do not collide: a shell reads both generated files; each
  variant has its own backend and its own port for every listener, and no address of one is an address of the other;
  and every variable that is not a port or a backend setting has the same value in both, so that the runs differ in
  the database alone.\<close>

theorem variants_comparable:
  "\<exists>g t. sh_env (celestiaVariantEnv cfg ''goleveldb'') = Some g \<and> sh_env (celestiaVariantEnv cfg ''treedb'') = Some t \<and>
     map (mget g) [''DB_BACKEND'', ''APP_DB_BACKEND''] = [Some ''goleveldb'', Some ''goleveldb''] \<and>
     map (mget t) [''DB_BACKEND'', ''APP_DB_BACKEND''] = [Some ''treedb'', Some ''treedb''] \<and>
     list_all (\<lambda>k. mget g k \<noteq> None \<and> mget t k \<noteq> None \<and> list_all (\<lambda>k'. mget g k \<noteq> mget t k') port_keys) port_keys \<and>
     (\<forall>k. k \<notin> set port_keys \<longrightarrow> k \<notin> set backend_keys \<longrightarrow> mget g k = mget t k)"
proof (intro exI conjI)
  let ?g = "shell_view (variant_env cfg ''goleveldb'')" and ?t = "shell_view (variant_env cfg ''treedb'')"
  show "sh_env (celestiaVariantEnv cfg ''goleveldb'') = Some ?g" "sh_env (celestiaVariantEnv cfg ''treedb'') = Some ?t"
    by (rule celestiaVariantEnv_read)+
  show "map (mget ?g) [''DB_BACKEND'', ''APP_DB_BACKEND''] = [Some ''goleveldb'', Some ''goleveldb'']"
    "map (mget ?t) [''DB_BACKEND'', ''APP_DB_BACKEND''] = [Some ''treedb'', Some ''treedb'']"
    by (rule variant_view_backends, rule not_blank)+
  show "list_all (\<lambda>k. mget ?g k \<noteq> None \<and> mget ?t k \<noteq> None \<and> list_all (\<lambda>k'. mget ?g k \<noteq> mget ?t k') port_keys) port_keys"
    unfolding list_all_iff using ports_disjoint by (simp add: list_all_iff variant_view_port)
  show "\<forall>k. k \<notin> set port_keys \<longrightarrow> k \<notin> set backend_keys \<longrightarrow> mget ?g k = mget ?t k"
    using variant_env_common[of _ cfg "''goleveldb''" "''treedb''"] by (simp add: mget_shell_view variant_env_distinct)
qed

theorem variants_comparable_witness:
  "\<exists>g t. sh_env (celestiaVariantEnv no_celestia ''goleveldb'') = Some g \<and> sh_env (celestiaVariantEnv no_celestia ''treedb'') = Some t \<and>
     mget g ''USE_LOCAL_IAVL'' = mget t ''USE_LOCAL_IAVL'' \<and> mget g ''RPC_PORT'' \<noteq> mget t ''RPC_PORT''"
proof -
  have "''USE_LOCAL_IAVL'' \<notin> set port_keys" "''USE_LOCAL_IAVL'' \<notin> set backend_keys" "''RPC_PORT'' \<in> set port_keys" by code_simp+
  then show ?thesis using variants_comparable[of no_celestia] unfolding list_all_iff by blast
qed

end
