(* ===== verification/Report_Markdown.thy ===== *)
theory Report_Markdown
  imports Report_Run
begin

text \<open>
  The Markdown report of \<open>cmd/local-report-runner/main.go\<close>: \<open>renderReportMarkdown\<close> and the writers of its sections.
  A writer appends to a builder; here it is the text it appends. A table is its columns and the cells of its rows, as
  the writers put them between pipes. The formatting of numbers and times is a parameter (\<open>markdown_env\<close>).
  \<open>tables_ok\<close> reads a text back, line by line, as a reader of tables does.
\<close>

section \<open>Tables\<close>

definition newline :: string where
  "newline = [CHR 0x0A]"

definition md_row :: "string list \<Rightarrow> string" where
  "md_row cells = ''| '' @ Join '' | '' cells @ '' |''"

definition lcol :: "string \<Rightarrow> string \<times> string" where
  "lcol name = (name, ''---'')"

definition rcol :: "string \<Rightarrow> string \<times> string" where
  "rcol name = (name, ''---:'')"

definition md_lines :: "string list \<Rightarrow> string" where
  "md_lines ls = concat (map (\<lambda>l. l @ newline) ls)"

definition md_table :: "(string \<times> string) list \<Rightarrow> string list list \<Rightarrow> string" where
  "md_table cols rows = md_lines (md_row (map fst cols) # md_row (map snd cols) # map md_row rows)"

definition para :: "string \<Rightarrow> string" where
  "para s = s @ newline @ newline"

text \<open>\<open>fl_finite\<close> tells the numbers that are neither \<open>NaN\<close> nor infinite, \<open>mk_Sprint\<close> prints the others; times print in
  the two layouts of RFC 3339.\<close>

record 'f markdown_env =
  mk_fl :: "'f float64"
  mk_fm :: "'f formats"
  mk_Sprint :: "'f \<Rightarrow> string"
  mk_RFC3339 :: "int \<Rightarrow> string"
  mk_RFC3339Nano :: "int \<Rightarrow> string"

definition FormatBool :: "bool \<Rightarrow> string" where
  "FormatBool b = (if b then ''true'' else ''false'')"

definition metricFloat :: "'f markdown_env \<Rightarrow> 'f \<Rightarrow> string" where
  "metricFloat me v =
     (if \<not> fl_finite (mk_fl me) v then mk_Sprint me v
      else if fl_eq (mk_fl me) v (fl_zero (mk_fl me)) then ''0'' else fm_general (mk_fm me) v)"

definition optionalMetricFloat :: "'f markdown_env \<Rightarrow> 'f option \<Rightarrow> string" where
  "optionalMetricFloat me v = (case v of None \<Rightarrow> [] | Some x \<Rightarrow> metricFloat me x)"

definition optionalProfileFloat :: "'f markdown_env \<Rightarrow> 'f option \<Rightarrow> string" where
  "optionalProfileFloat me v = (case v of None \<Rightarrow> [] | Some x \<Rightarrow> metricFloat me x)"

definition optionalProfileSeconds :: "'f markdown_env \<Rightarrow> 'f \<Rightarrow> string" where
  "optionalProfileSeconds me s = (if fl_le (mk_fl me) s (fl_zero (mk_fl me)) then [] else metricFloat me s)"

definition optionalProfileTime :: "'f markdown_env \<Rightarrow> int option \<Rightarrow> string" where
  "optionalProfileTime me t = (case t of None \<Rightarrow> [] | Some t \<Rightarrow> if IsZero t then [] else mk_RFC3339Nano me t)"

definition optionalDurationCount :: "'f durationStats option \<Rightarrow> string" where
  "optionalDurationCount stats = (case stats of None \<Rightarrow> [] | Some s \<Rightarrow> show_nat (ds_Count s))"

definition optionalDurationTotal :: "'f markdown_env \<Rightarrow> 'f durationStats option \<Rightarrow> string" where
  "optionalDurationTotal me stats = (case stats of None \<Rightarrow> [] | Some s \<Rightarrow> metricFloat me (ds_TotalSeconds s))"

definition optionalDurationAvg :: "'f markdown_env \<Rightarrow> 'f durationStats option \<Rightarrow> string" where
  "optionalDurationAvg me stats = (case stats of None \<Rightarrow> [] | Some s \<Rightarrow> metricFloat me (ds_AvgSeconds s))"

definition optionalDurationP95 :: "'f markdown_env \<Rightarrow> 'f durationStats option \<Rightarrow> string" where
  "optionalDurationP95 me stats = (case stats of None \<Rightarrow> [] | Some s \<Rightarrow> metricFloat me (ds_P95Seconds s))"

definition optionalDurationMax :: "'f markdown_env \<Rightarrow> 'f durationStats option \<Rightarrow> string" where
  "optionalDurationMax me stats = (case stats of None \<Rightarrow> [] | Some s \<Rightarrow> metricFloat me (ds_MaxSeconds s))"

section \<open>Rows of the tables of deltas\<close>

record 'f metricDeltaRow =
  mr_Container :: string
  mr_Metric :: string
  mr_Before :: 'f
  mr_After :: 'f
  mr_Delta :: 'f

definition metricDeltaRows :: "'f metricDeltaSnapshot list \<Rightarrow> 'f metricDeltaRow list" where
  "metricDeltaRows snapshots =
     sort_Slice (\<lambda>a b. if mr_Container a = mr_Container b then mr_Metric a < mr_Metric b else mr_Container a < mr_Container b)
       (concat (map (\<lambda>s. map (\<lambda>(metric, v).
          \<lparr> mr_Container = md_Name s, mr_Metric = metric, mr_Before = mv_Before v, mr_After = mv_After v, mr_Delta = mv_Delta v \<rparr>)
          (md_Metrics s)) snapshots))"

text \<open>\<open>sr_DeltaSeconds\<close> is the pair of \<open>DeltaSeconds\<close> and \<open>DeltaSecondsOK\<close>.\<close>

record 'f treeDBStatDeltaRow =
  sr_Container :: string
  sr_Store :: string
  sr_WALDir :: string
  sr_Metric :: string
  sr_Before :: 'f
  sr_After :: 'f
  sr_Delta :: 'f
  sr_DeltaSeconds :: "'f option"

definition treeDBStatDeltaRows :: "'f float64 \<Rightarrow> 'f treeDBStatsDelta list \<Rightarrow> 'f treeDBStatDeltaRow list" where
  "treeDBStatDeltaRows fl snapshots =
     sort_Slice (\<lambda>a b. if sr_Container a = sr_Container b then
          (if sr_Store a = sr_Store b then sr_Metric a < sr_Metric b else sr_Store a < sr_Store b)
        else sr_Container a < sr_Container b)
       (concat (map (\<lambda>s. concat (map (\<lambda>(metric, v).
          if fl_eq fl (mv_Delta v) (fl_zero fl) then []
          else [\<lparr> sr_Container = dl_Name s, sr_Store = dl_Store s, sr_WALDir = dl_WALDir s, sr_Metric = metric, sr_Before = mv_Before v,
                  sr_After = mv_After v, sr_Delta = mv_Delta v, sr_DeltaSeconds = treeDBMetricDeltaSeconds fl metric (mv_Delta v) \<rparr>])
          (dl_Metrics s))) snapshots))"

record treeDBStatDeltaErrorRow =
  er_Container :: string
  er_Instance :: string
  er_Error :: string

definition treeDBStatDeltaErrors :: "'f treeDBStatsDelta list \<Rightarrow> treeDBStatDeltaErrorRow list" where
  "treeDBStatDeltaErrors snapshots =
     sort_Slice (\<lambda>a b. if er_Container a = er_Container b then er_Instance a < er_Instance b else er_Container a < er_Container b)
       (concat (map (\<lambda>s. if dl_Error s = [] then []
          else [\<lparr> er_Container = dl_Name s, er_Instance = dl_Instance s, er_Error = dl_Error s \<rparr>]) snapshots))"

record metricDeltaErrorRow =
  me_Container :: string
  me_Error :: string

definition metricDeltaErrors :: "'f metricDeltaSnapshot list \<Rightarrow> metricDeltaErrorRow list" where
  "metricDeltaErrors snapshots =
     sort_Slice (\<lambda>a b. me_Container a < me_Container b)
       (concat (map (\<lambda>s. if md_Error s = [] then [] else [\<lparr> me_Container = md_Name s, me_Error = md_Error s \<rparr>]) snapshots))"

section \<open>The writers\<close>

text \<open>A heading of a scenario, \<open>## name title\<close>.\<close>

definition scenario_heading :: "string \<Rightarrow> string \<Rightarrow> string" where
  "scenario_heading name title = para (''## '' @ mdCell name @ title)"

definition writeRuntimeBreakdownMarkdown :: "'f markdown_env \<Rightarrow> ('f, 'c) runResult \<Rightarrow> string" where
  "writeRuntimeBreakdownMarkdown me r =
     (if rr_RuntimeBreakdown r = [] then []
      else scenario_heading (sc_Name (rr_Scenario r)) '' Runtime Breakdown'' @
        md_table [lcol ''Node'', rcol ''Workload s'', rcol ''ABCI s'', rcol ''Commit s'', rcol ''Finalize s'', rcol ''Non-ABCI s'', rcol ''Non-ABCI %'']
          (map (\<lambda>row. [mdCell (rb_Name row), metricFloat me (rb_WorkloadRuntimeSeconds row), metricFloat me (rb_ABCIObservedSeconds row),
             metricFloat me (rb_ABCICommitSeconds row), metricFloat me (rb_ABCIFinalizeBlockSeconds row),
             metricFloat me (rb_NonABCIWorkloadSeconds row), metricFloat me (rb_NonABCIPctOfWorkload row)]) (rr_RuntimeBreakdown r)) @
        newline)"

definition writeLoadWindowPhaseOverlapsMarkdown :: "'f markdown_env \<Rightarrow> 'f loadWindowPhaseOverlap list \<Rightarrow> string" where
  "writeLoadWindowPhaseOverlapsMarkdown me rows =
     (if rows = [] then []
      else para ''### Accepted-Window Phase Overlap'' @
        md_table [lcol ''Phase'', lcol ''Class'', rcol ''Phase s'', rcol ''Before s'', rcol ''In-window s'', rcol ''After s'', lcol ''Note'']
          (map (\<lambda>row. [mdCell (po_Name row), mdCell (po_Classification row), metricFloat me (po_PhaseSeconds row),
             metricFloat me (po_BeforeWindowSeconds row), metricFloat me (po_InWindowSeconds row), metricFloat me (po_AfterWindowSeconds row),
             mdCell (po_Note row)]) rows) @
        newline)"

definition missing_part :: "bool \<Rightarrow> string \<Rightarrow> string \<Rightarrow> string list" where
  "missing_part absent label reason = (if absent \<and> reason \<noteq> [] then [label @ reason] else [])"

text \<open>No code sets \<open>LoadgenClientWaitSeconds\<close>, so it is always absent.\<close>

definition accountingMissingSummary :: "'f loadWindowAccounting \<Rightarrow> string" where
  "accountingMissingSummary row =
     Join ''; '' (missing_part (wa_ABCIBusyUnionSeconds row = None) ''abci_busy_union: '' (wa_ABCIBusyUnionMissingReason row) @
       missing_part (wa_ABCIOverlapSeconds row = None) ''abci_overlap: '' (wa_ABCIOverlapMissingReason row) @
       missing_part (wa_ValidatorNonABCIWallSeconds row = None) ''non_abci_wall: '' (wa_ValidatorNonABCIWallMissingReason row) @
       missing_part True ''loadgen_wait: '' (wa_LoadgenClientWaitMissingReason row))"

definition method_seconds :: "'f float64 \<Rightarrow> 'f gomap \<Rightarrow> string \<Rightarrow> 'f" where
  "method_seconds fl m key = (case mget m key of None \<Rightarrow> fl_zero fl | Some v \<Rightarrow> v)"

definition accounting_note :: string where
  "accounting_note = ''Event-exact intervals produce exact non-ABCI wall time. Scrape-bounded intervals only show that an ABCI counter changed somewhere inside each scrape interval: their ABCI union is an upper bound, so interval-derived non-ABCI time is a lower bound. The sum-based residual remains approximate because ABCI methods can overlap.''"

definition accounting_cols :: "(string \<times> string) list" where
  "accounting_cols = [lcol ''Node'', rcol ''Window s'', rcol ''Loadgen s'', rcol ''ABCI sum s'', rcol ''ABCI union s'', rcol ''ABCI overlap s'',
     rcol ''Commit s'', rcol ''Finalize s'', rcol ''CheckTx s'', rcol ''Interval-derived non-ABCI s'', rcol ''Approx sum residual s'',
     rcol ''Approx residual %'', rcol ''Process CPU s'', rcol ''Core equiv'', rcol ''Observed block cadence s'', lcol ''Interval source'',
     lcol ''Residual class'', lcol ''Missing exact fields'', lcol ''Residual formula'']"

definition writeLoadWindowAccountingMarkdown :: "'f markdown_env \<Rightarrow> 'f loadWindowAccounting list \<Rightarrow> string" where
  "writeLoadWindowAccountingMarkdown me rows =
     (if rows = [] then []
      else para ''### Accepted-Window Non-ABCI Accounting'' @ para accounting_note @
        md_table accounting_cols
          (map (\<lambda>row. [mdCell (wa_Name row), metricFloat me (wa_LoadWindowSeconds row), metricFloat me (wa_LoadGeneratorWallSeconds row),
             metricFloat me (wa_ABCIObservedSumSeconds row), optionalMetricFloat me (wa_ABCIBusyUnionSeconds row),
             optionalMetricFloat me (wa_ABCIOverlapSeconds row), metricFloat me (method_seconds (mk_fl me) (wa_ABCIByMethodSeconds row) ''commit''),
             metricFloat me (method_seconds (mk_fl me) (wa_ABCIByMethodSeconds row) ''finalize_block''),
             metricFloat me (method_seconds (mk_fl me) (wa_ABCIByMethodSeconds row) ''check_tx''),
             optionalMetricFloat me (wa_ValidatorNonABCIWallSeconds row), metricFloat me (wa_ValidatorNonABCIApproxSeconds row),
             metricFloat me (wa_ValidatorNonABCIPctApprox row), metricFloat me (wa_ValidatorProcessCPUSecondsDelta row),
             metricFloat me (wa_ValidatorCoreEquivalent row), metricFloat me (wa_ConsensusBlockCadenceSeconds row),
             mdCell (wa_ABCIIntervalProvenance row), mdCell (wa_UnaccountedResidualClassification row),
             mdCell (accountingMissingSummary row), mdCell (wa_UnaccountedResidualFormula row)]) rows) @
        newline)"

definition cadence_note :: string where
  "cadence_note = ''The block-stage residual is accepted-window wall time per finalized block minus measured ABCI block-stage averages: commit, finalize_block, prepare_proposal, and process_proposal. CometBFT'' @ [CHR 0x27] @ ''s block-interval histogram measures block-header timestamp deltas and is not used as wall cadence. CheckTx is reported separately as transaction-intake pressure and is not subtracted from the block-stage residual. Exact CometBFT commit rows are nested spans; compare siblings under one parent rather than summing parents and children. The async tx-index rows can overlap consensus work.''"

definition cadence_cols :: "(string \<times> string) list" where
  "cadence_cols = [lcol ''Node'', rcol ''Finalized blocks'', rcol ''Observed wall cadence s'', rcol ''Avg tx/block'', rcol ''ABCI block-stage s/block'',
     rcol ''CheckTx equiv s/block'', rcol ''Consensus step s/block'', rcol ''Residual s/block'', rcol ''Residual %'', lcol ''Exact commit coverage'',
     lcol ''Missing spans'']"

definition stage_cols :: "(string \<times> string) list" where
  "stage_cols = [lcol ''Node'', lcol ''Stage'', lcol ''Parent'', lcol ''Class'', lcol ''Source'', lcol ''Provenance'', rcol ''Total s'', rcol ''Count'',
     rcol ''Avg s'', rcol ''Per-block s'', lcol ''Residual bucket'', lcol ''Note'']"

definition reported_stages :: "'f float64 \<Rightarrow> 'f cadenceDiagnostic list \<Rightarrow> (string \<times> 'f cadenceStage) list" where
  "reported_stages fl rows =
     concat (map (\<lambda>row. map (Pair (cd_Name row))
       (filter (\<lambda>s. \<not> (fl_eq fl (cs_Seconds s) (fl_zero fl) \<and> cs_Count s = 0 \<and> cs_MissingReason s = [])) (cd_Stages row))) rows)"

definition stage_note :: "'f cadenceStage \<Rightarrow> string" where
  "stage_note s =
     (if cs_MissingReason s \<noteq> [] then (if cs_Note s \<noteq> [] then cs_Note s @ ''; '' else cs_Note s) @ cs_MissingReason s else cs_Note s)"

definition stages_table :: "'f markdown_env \<Rightarrow> (string \<times> 'f cadenceStage) list \<Rightarrow> string" where
  "stages_table me stages =
     (if stages = [] then []
      else para ''### Accepted-Window Cadence Diagnostic Stages'' @
        md_table stage_cols
          (map (\<lambda>(node, s). [mdCell node, mdCell (cadenceStage.cs_Name s), mdCell (cs_Parent s), mdCell (cs_Class s), mdCell (cs_Source s),
             mdCell (cs_Provenance s), metricFloat me (cs_Seconds s), Itoa (cs_Count s), metricFloat me (cs_AvgSeconds s),
             metricFloat me (cs_PerBlockSeconds s), FormatBool (cs_IncludedInResidual s), mdCell (stage_note s)]) stages) @
        newline)"

definition writeCadenceDiagnosticsMarkdown :: "'f markdown_env \<Rightarrow> 'f cadenceDiagnostic list \<Rightarrow> string" where
  "writeCadenceDiagnosticsMarkdown me rows =
     (if rows = [] then []
      else para ''### Accepted-Window Cadence Diagnostics'' @ para cadence_note @
        md_table cadence_cols
          (map (\<lambda>row. [mdCell (cd_Name row), Itoa (cd_BlockCount row), metricFloat me (cd_AvgBlockIntervalSeconds row),
             metricFloat me (cd_AvgTxsPerBlock row), metricFloat me (cd_ABCIBlockStageSecondsPerBlock row),
             metricFloat me (cd_CheckTxSecondsPerBlockEquivalent row), metricFloat me (cd_ConsensusStepSecondsPerBlock row),
             metricFloat me (cd_CadenceResidual row), metricFloat me (cd_CadenceResidualPct row),
             FormatBool (cd_ExactEventSpanCoverage row), mdCell (Join ''; '' (cd_MissingEventSpans row))]) rows) @
        newline @ stages_table me (reported_stages (mk_fl me) rows))"

definition writeTreeDBStatsTimelineMarkdown :: "'f markdown_env \<Rightarrow> 'f treeDBStatsTimelineSample list \<Rightarrow> string" where
  "writeTreeDBStatsTimelineMarkdown me samples =
     (if samples = [] then []
      else para ''### Accepted-Window TreeDB Stats Timeline'' @
        md_table [lcol ''Label'', lcol ''At'', rcol ''Elapsed s'', rcol ''Snapshots'']
          (map (\<lambda>s. [mdCell (tl_Label s), mdCell (mk_RFC3339Nano me (tl_At s)), metricFloat me (tl_ElapsedSeconds s),
             show_nat (length (tl_Stats s))]) samples) @
        newline)"

definition pipeline_note :: string where
  "pipeline_note = ''This summary promotes node metrics and Catalyst aggregate logs. Observed cadence is accepted-window wall time per finalized block; the raw CometBFT block-interval histogram instead measures block-header timestamp deltas. This summary does not include per-transaction broadcast or inclusion latency unless Catalyst exports those timings.''"

definition pipeline_cols :: "(string \<times> string) list" where
  "pipeline_cols = [lcol ''Node'', rcol ''Submitted'', rcol ''Included'', rcol ''Successful'', rcol ''Send gap'', rcol ''Blocks'', rcol ''Txs/block'',
     rcol ''Observed cadence s'', rcol ''CheckTx avg s'', rcol ''Finalize avg s'', rcol ''Commit avg s'']"

definition pipeline_blocks :: "'f pipelineSignal \<Rightarrow> uint64" where
  "pipeline_blocks row =
     (if pl_ABCIFinalizeBlockCount row > 0 then uint64_of_int (pl_ABCIFinalizeBlockCount row)
      else if pl_ABCICommitCount row > 0 then uint64_of_int (pl_ABCICommitCount row)
      else if pl_ConsensusBlockIntervalCount row > 0 then uint64_of_int (pl_ConsensusBlockIntervalCount row)
      else pl_CollectorBlockSpan row)"

definition pipeline_txs :: "'f float64 \<Rightarrow> 'f pipelineSignal \<Rightarrow> 'f" where
  "pipeline_txs fl row =
     (let t = pl_AvgTxsPerConsensusBlock row; blocks = pipeline_blocks row
      in if fl_eq fl t (fl_zero fl) \<and> blocks > 0 then fl_div fl (fl_of_int fl (pl_IncludedTransactions row)) (fl_of_int fl (uint blocks)) else t)"

definition writePipelineSignalsMarkdown :: "'f markdown_env \<Rightarrow> 'f pipelineSignal list \<Rightarrow> string" where
  "writePipelineSignalsMarkdown me rows =
     (if rows = [] then []
      else para ''### Accepted-Window Transaction Pipeline Summary'' @ para pipeline_note @
        md_table pipeline_cols
          (map (\<lambda>row. [mdCell (pl_Name row), Itoa (pl_SubmittedTransactions row), Itoa (pl_IncludedTransactions row),
             Itoa (pl_SuccessfulTransactions row), Itoa (pl_SubmittedMinusIncluded row), show_nat (unat (pipeline_blocks row)),
             metricFloat me (pipeline_txs (mk_fl me) row), metricFloat me (pl_AvgBlockIntervalSeconds row),
             metricFloat me (pl_AvgCheckTxSeconds row), metricFloat me (pl_AvgFinalizeBlockSeconds row),
             metricFloat me (pl_AvgCommitSeconds row)]) rows) @
        newline)"

definition catalyst_note :: string where
  "catalyst_note = ''This summary is parsed from retained Catalyst task logs. It reports per-block send and block-processing spans; per-transaction RPC wait and inclusion latency still require explicit Catalyst instrumentation.''"

definition catalyst_cols :: "(string \<times> string) list" where
  "catalyst_cols = map rcol [''Log span s'', ''Timestamped lines'', ''Send blocks'', ''Txs sent'', ''Matched send txs'', ''Send total s'', ''Send avg s'',
     ''Send p95 s'', ''Send max s'', ''Matched send tx/s'', ''Process blocks'', ''Process total s'', ''Process avg s'', ''Process p95 s'',
     ''Process max s'', ''Event->process avg s'', ''Chain ts->process avg s'']"

definition writeCatalystLogTimingMarkdown :: "'f markdown_env \<Rightarrow> 'f catalystLogTiming option \<Rightarrow> string" where
  "writeCatalystLogTimingMarkdown me timing =
     (case timing of None \<Rightarrow> []
      | Some t \<Rightarrow>
          let send = ct_SendDurations t; process = ct_BlockProcessingToProcessedDurations t
          in para ''### Catalyst Log Timing Summary'' @ para catalyst_note @
             (if ct_Notes t = [] then [] else md_lines (map (\<lambda>note. ''- '' @ mdCell note) (ct_Notes t)) @ newline) @
             md_table catalyst_cols
               [[metricFloat me (ct_LogSpanSeconds t), show_nat (ct_TimestampedLines t), optionalDurationCount send,
                 Itoa (ct_SendTxsSentTotal t), Itoa (ct_SendMatchedTxsTotal t), optionalDurationTotal me send, optionalDurationAvg me send,
                 optionalDurationP95 me send, optionalDurationMax me send, metricFloat me (ct_SendTxsPerSecond t),
                 optionalDurationCount process, optionalDurationTotal me process, optionalDurationAvg me process,
                 optionalDurationP95 me process, optionalDurationMax me process,
                 optionalDurationAvg me (ct_BlockEventToProcessingDurations t),
                 optionalDurationAvg me (ct_ChainTimestampToProcessingDurations t)]] @
             newline)"

definition writeScenarioCatalystLogTimingMarkdown :: "'f markdown_env \<Rightarrow> ('f, 'c) runResult \<Rightarrow> string" where
  "writeScenarioCatalystLogTimingMarkdown me r =
     (if ls_CatalystTiming (rr_LoadTestLogSummary r) = None then []
      else scenario_heading (sc_Name (rr_Scenario r)) '' Catalyst Log Timing'' @
        writeCatalystLogTimingMarkdown me (ls_CatalystTiming (rr_LoadTestLogSummary r)))"

definition metric_tables :: "'f markdown_env \<Rightarrow> 'f metricDeltaRow list \<Rightarrow> metricDeltaErrorRow list \<Rightarrow> string" where
  "metric_tables me rows errors =
     (if rows = [] then []
      else para ''### Accepted-Window Metric Deltas'' @
        md_table [lcol ''Container'', lcol ''Metric'', rcol ''Before'', rcol ''After'', rcol ''Delta'']
          (map (\<lambda>row. [mdCell (mr_Container row), mdCell (mr_Metric row), metricFloat me (mr_Before row), metricFloat me (mr_After row),
             metricFloat me (mr_Delta row)]) rows) @
        newline) @
     (if errors = [] then []
      else para ''### Accepted-Window Metric Scrape Errors'' @
        md_table [lcol ''Container'', lcol ''Error''] (map (\<lambda>e. [mdCell (me_Container e), mdCell (me_Error e)]) errors) @ newline)"

definition timing_note :: string where
  "timing_note = ''These are TreeDB-owned timing counters grouped by metric family. They are useful attribution signals, but may overlap and are not an exclusive wall-time decomposition.''"

definition store_cols :: "(string \<times> string) list" where
  "store_cols = [lcol ''Container'', lcol ''Store'', lcol ''WAL dir'', lcol ''Metric'', rcol ''Before'', rcol ''After'', rcol ''Delta'', rcol ''Delta s'']"

definition treedb_tables ::
    "'f markdown_env \<Rightarrow> 'f treeDBTimingSummaryRow list \<Rightarrow> 'f treeDBStatDeltaRow list \<Rightarrow> treeDBStatDeltaErrorRow list \<Rightarrow> string" where
  "treedb_tables me timingRows rows errors =
     (if timingRows = [] then []
      else para ''### Accepted-Window TreeDB Timing Counter Deltas'' @ para timing_note @
        md_table [lcol ''Container'', lcol ''Store'', lcol ''Group'', rcol ''Counter seconds'']
          (map (\<lambda>row. [mdCell (tr_Container row), mdCell (tr_Store row), mdCell (tr_Group row), metricFloat me (tr_Seconds row)]) timingRows) @
        newline) @
     (if rows = [] then []
      else para ''### Accepted-Window TreeDB Store Counter Deltas'' @
        md_table store_cols
          (map (\<lambda>row. [mdCell (sr_Container row), mdCell (sr_Store row), mdCell (sr_WALDir row), mdCell (sr_Metric row),
             metricFloat me (sr_Before row), metricFloat me (sr_After row), metricFloat me (sr_Delta row),
             optionalMetricFloat me (sr_DeltaSeconds row)]) rows) @
        newline) @
     (if errors = [] then []
      else para ''### Accepted-Window TreeDB Debug Vars Errors'' @
        md_table [lcol ''Container'', lcol ''Instance'', lcol ''Error'']
          (map (\<lambda>e. [mdCell (er_Container e), mdCell (er_Instance e), mdCell (er_Error e)]) errors) @
        newline)"

definition window_cols :: "(string \<times> string) list" where
  "window_cols = [lcol ''Boundary'', lcol ''Reached'', lcol ''Duration ok'', rcol ''Seconds'', rcol ''Included'', rcol ''Successful'', rcol ''Target'']"

definition writeAcceptedWindowMarkdown :: "'f markdown_env \<Rightarrow> ('f, 'c) runResult \<Rightarrow> string" where
  "writeAcceptedWindowMarkdown me r =
     (case rr_LoadWindow r of None \<Rightarrow> []
      | Some obs \<Rightarrow>
          let rows = metricDeltaRows (lw_MetricDeltas obs); errors = metricDeltaErrors (lw_MetricDeltas obs);
              treeDBRows = treeDBStatDeltaRows (mk_fl me) (lw_TreeDBStatDeltas obs);
              treeDBTimingRows = treeDBTimingSummaryRows (mk_fl me) (lw_TreeDBStatDeltas obs);
              treeDBErrors = treeDBStatDeltaErrors (lw_TreeDBStatDeltas obs)
          in scenario_heading (sc_Name (rr_Scenario r)) '' Accepted Window'' @
             md_table window_cols
               [[''accepted-window'', FormatBool (lw_Reached obs), FormatBool (lw_DurationSatisfied obs), metricFloat me (lw_Seconds obs),
                 Itoa (lw_IncludedTransactions obs), Itoa (lw_SuccessfulTransactions obs), Itoa (lw_TargetTransactions obs)]] @
             newline @
             (if lw_Error obs = [] then [] else para (''- Window note: '' @ mdCell (lw_Error obs))) @
             writeLoadWindowPhaseOverlapsMarkdown me (lw_PhaseOverlaps obs) @
             writeLoadWindowAccountingMarkdown me (lw_Accounting obs) @
             writePipelineSignalsMarkdown me (lw_PipelineSignals obs) @
             writeCadenceDiagnosticsMarkdown me (lw_CadenceDiagnostics obs) @
             writeTreeDBStatsTimelineMarkdown me (lw_TreeDBStatsTimeline obs) @
             (if rows = [] \<and> errors = [] \<and> treeDBRows = [] \<and> treeDBTimingRows = [] \<and> treeDBErrors = [] then
                para ''No accepted-window metric deltas were recorded.''
              else metric_tables me rows errors @ treedb_tables me treeDBTimingRows treeDBRows treeDBErrors))"

definition writeTreeDBDwellMarkdown :: "'f markdown_env \<Rightarrow> ('f, 'c) runResult \<Rightarrow> string" where
  "writeTreeDBDwellMarkdown me r =
     (let snapshots = rr_TreeDBDwellSnapshots r;
          rows = concat (map dw_DataSizeDeltas (filter (\<lambda>s. dw_Label s = ''post_dwell'') snapshots))
      in if snapshots = [] then []
         else scenario_heading (sc_Name (rr_Scenario r)) '' TreeDB Post-Load Dwell'' @
           md_table [lcol ''Snapshot'', rcol ''Elapsed s'', rcol ''TreeDB snapshots'', rcol ''Data paths'']
             (map (\<lambda>s. [mdCell (dw_Label s), metricFloat me (dw_ElapsedSeconds s), show_nat (length (dw_TreeDBStats s)),
                show_nat (length (dw_DataSizes s))]) snapshots) @
           newline @
           (if rows = [] then []
            else para ''### TreeDB Dwell Data Size Deltas'' @
              md_table [lcol ''Container'', lcol ''Path'', rcol ''Before'', rcol ''After'', rcol ''Delta'']
                (map (\<lambda>row. [mdCell (dd_Name row), mdCell (dd_Path row), show_nat (unat (dd_Before row)), show_nat (unat (dd_After row)),
                   Itoa (sint (dd_Delta row))]) (filter (\<lambda>row. dd_Error row = []) rows)) @
              newline))"

definition profile_cols :: "(string \<times> string) list" where
  "profile_cols = [lcol ''Kind'', lcol ''Timing boundary'', lcol ''Endpoint'', rcol ''Requested s'', lcol ''Started'', lcol ''Finished'', rcol ''Collected s'',
     rcol ''Load-window start s'', rcol ''Load-window end s'', rcol ''Load-window overlap s'', lcol ''Profile path'', lcol ''Top summary'', lcol ''Status'']"

definition profile_status :: "'f profileArtifact \<Rightarrow> string" where
  "profile_status a = (if pa_Error a \<noteq> [] then pa_Error a else if pa_TopSummaryError a \<noteq> [] then pa_TopSummaryError a else ''ok'')"

definition writeProfileArtifactsMarkdown :: "'f markdown_env \<Rightarrow> ('f, 'c) runResult \<Rightarrow> string" where
  "writeProfileArtifactsMarkdown me r =
     (if rr_ProfileArtifacts r = [] then []
      else scenario_heading (sc_Name (rr_Scenario r)) '' Profile Manifest'' @
        md_table profile_cols
          (map (\<lambda>a. [mdCell (pa_Kind a), mdCell (pa_Boundary a), mdCell (pa_Endpoint a), optionalProfileSeconds me (pa_RequestedSeconds a),
             mdCell (optionalProfileTime me (pa_StartedAt a)), mdCell (optionalProfileTime me (pa_FinishedAt a)),
             optionalProfileSeconds me (pa_CollectionSeconds a), optionalProfileFloat me (pa_StartedOffset a),
             optionalProfileFloat me (pa_FinishedOffset a), optionalProfileFloat me (pa_Overlap a), mdCell (pa_Path a),
             mdCell (pa_TopSummaryPath a), mdCell (profile_status a)]) (rr_ProfileArtifacts r)) @
        newline)"

section \<open>The report\<close>

record ('f, 'c) reportArtifact =
  ra_GeneratedAt :: int
  ra_Host :: "string gomap"
  ra_Git :: "string gomap"
  ra_Flags :: "string gomap"
  ra_Results :: "('f, 'c) runResult list"
  ra_Errors :: "string gomap"

definition git_line :: "string \<Rightarrow> string \<Rightarrow> string list" where
  "git_line label v = (if v = [] then [] else [''- '' @ label @ '': `'' @ mdCell v @ ''`''])"

definition summary_row :: "'f markdown_env \<Rightarrow> ('f, 'c) runResult \<Rightarrow> string list" where
  "summary_row me r =
     (case loadCounts (mk_fl me) r of (included, successful, _, _) \<Rightarrow>
        let loadWindow = (case rr_LoadWindow r of None \<Rightarrow> [] | Some w \<Rightarrow> fm_fixed (mk_fm me) 3 (lw_Seconds w) @ ''s'');
            loadTPS = (if rr_LoadWindow r \<noteq> None \<and> fl_pos (mk_fl me) (dm_LoadWindowIncludedTPS (rr_Derived r)) then
              metricFloat me (dm_LoadWindowIncludedTPS (rr_Derived r)) else [])
        in [mdCell (sc_Name (rr_Scenario r)), mdCell (rr_Error r), mdCell loadWindow, Itoa included, Itoa successful, mdCell loadTPS,
            show_nat (length (rr_ProfileArtifacts r))])"

definition summary_cols :: "(string \<times> string) list" where
  "summary_cols = [lcol ''Scenario'', lcol ''Error'', rcol ''Load window'', rcol ''Included'', rcol ''Successful'', rcol ''Load-window TPS'', rcol ''Profiles'']"

definition result_sections :: "'f markdown_env \<Rightarrow> ('f, 'c) runResult \<Rightarrow> string" where
  "result_sections me r =
     writeRuntimeBreakdownMarkdown me r @ writeAcceptedWindowMarkdown me r @ writeScenarioCatalystLogTimingMarkdown me r @
     writeTreeDBDwellMarkdown me r @ writeProfileArtifactsMarkdown me r"

definition renderReportMarkdown :: "'f markdown_env \<Rightarrow> ('f, 'c) reportArtifact \<Rightarrow> string" where
  "renderReportMarkdown me a =
     para ''# Ironbird Local Report'' @
     md_lines ((if IsZero (ra_GeneratedAt a) then [] else [''- Generated: '' @ mk_RFC3339 me (ra_GeneratedAt a)]) @
       git_line ''Branch'' (mget_str (ra_Git a) ''branch'') @ git_line ''Head'' (mget_str (ra_Git a) ''head'')) @
     newline @
     para ''## Scenario Summary'' @ md_table summary_cols (map (summary_row me) (ra_Results a)) @ newline @
     concat (map (result_sections me) (ra_Results a))"

section \<open>Reading tables\<close>

text \<open>A line that starts with a pipe is a row; a pipe in it is a border unless a backslash stands before it. The rows of a
  table, which are consecutive lines, must have as many borders as the first. \<open>width\<close> is that of the table read.\<close>

fun borders :: "bool \<Rightarrow> string \<Rightarrow> nat" where
  "borders escaped [] = 0"
| "borders escaped (c # cs) = (if c = CHR ''|'' \<and> \<not> escaped then 1 else 0) + borders (c = CHR 0x5C) cs"

definition is_row :: "string \<Rightarrow> bool" where
  "is_row l \<longleftrightarrow> l \<noteq> [] \<and> hd l = CHR ''|''"

fun read_tables :: "nat option \<Rightarrow> string list \<Rightarrow> nat option option" where
  "read_tables width [] = Some width"
| "read_tables width (l # ls) =
     (if is_row l then
        (if width = None \<or> width = Some (borders False l) then read_tables (Some (borders False l)) ls else None)
      else read_tables None ls)"

definition tables_ok :: "string \<Rightarrow> bool" where
  "tables_ok s \<longleftrightarrow> read_tables None (Split (CHR 0x0A) s) \<noteq> None"

text \<open>What the formatting of a number or a time does not print.\<close>

definition no_mark :: "string \<Rightarrow> bool" where
  "no_mark s \<longleftrightarrow> CHR ''|'' \<notin> set s \<and> CHR 0x0A \<notin> set s"

definition format_law :: "'f markdown_env \<Rightarrow> bool" where
  "format_law me \<longleftrightarrow> (\<forall>v. no_mark (mk_Sprint me v)) \<and> (\<forall>v. no_mark (fm_general (mk_fm me) v)) \<and>
     (\<forall>t. no_mark (mk_RFC3339 me t)) \<and> (\<forall>t. no_mark (mk_RFC3339Nano me t))"

section \<open>Cells\<close>

lemma borders_none: "CHR ''|'' \<notin> set s \<Longrightarrow> borders e s = 0"
  by (induction s arbitrary: e) auto

lemma borders_append: "borders e (s @ t) = borders e s + borders (if s = [] then e else last s = CHR 0x5C) t"
  by (induction s arbitrary: e) auto

definition cell_ok :: "string \<Rightarrow> bool" where
  "cell_ok s \<longleftrightarrow> borders False s = 0 \<and> CHR 0x0A \<notin> set s"

lemma no_mark_cell: "no_mark s \<Longrightarrow> cell_ok s"
  by (simp add: no_mark_def cell_ok_def borders_none)

lemma borders_escaped: "borders e (ReplaceChar (CHR ''|'') [CHR 0x5C, CHR ''|''] s) = 0"
  by (induction s arbitrary: e) (auto simp: ReplaceChar_def)

lemma nl_mdCell: "CHR 0x0A \<notin> set (mdCell s)"
  by (auto simp: mdCell_def ReplaceChar_def)

lemma cell_ok_mdCell [simp]: "cell_ok (mdCell s)"
  using nl_mdCell by (simp add: cell_ok_def mdCell_def borders_escaped)

lemma no_mark_show_nat: "no_mark (show_nat n)"
proof -
  have "\<forall>c \<in> set (show_nat n). is_digit c" using show_nat_digits[of n] by (simp add: list_all_iff)
  moreover have "\<not> is_digit (CHR ''|'')" "\<not> is_digit (CHR 0x0A)" by code_simp+
  ultimately show ?thesis unfolding no_mark_def by blast
qed

lemma no_mark_Nil: "no_mark []"
  by (simp add: no_mark_def)

lemma cell_ok_text [simp]: "cell_ok []" "cell_ok (show_nat n)" "cell_ok (Itoa i)" "cell_ok (FormatBool b)"
proof -
  have "no_mark (Itoa i)" using no_mark_show_nat unfolding Itoa_def no_mark_def by auto
  moreover have "no_mark ''true''" "no_mark ''false''" by code_simp+
  ultimately show "cell_ok []" "cell_ok (show_nat n)" "cell_ok (Itoa i)" "cell_ok (FormatBool b)"
    using no_mark_show_nat no_mark_Nil by (auto intro: no_mark_cell simp: FormatBool_def)
qed

lemma no_mark_metricFloat: "format_law me \<Longrightarrow> no_mark (metricFloat me v)"
  by (auto simp: metricFloat_def format_law_def no_mark_def)

lemma cell_ok_numbers:
  assumes "format_law me"
  shows "cell_ok (metricFloat me v)" "cell_ok (optionalMetricFloat me o1)" "cell_ok (optionalProfileFloat me o1)"
    "cell_ok (optionalProfileSeconds me v)" "cell_ok (optionalProfileTime me t)" "cell_ok (optionalDurationCount stats)"
    "cell_ok (optionalDurationTotal me stats)" "cell_ok (optionalDurationAvg me stats)" "cell_ok (optionalDurationP95 me stats)"
    "cell_ok (optionalDurationMax me stats)"
  using no_mark_metricFloat[OF assms, THEN no_mark_cell] assms
  by (auto simp: optionalMetricFloat_def optionalProfileFloat_def optionalProfileSeconds_def optionalProfileTime_def optionalDurationCount_def
    optionalDurationTotal_def optionalDurationAvg_def optionalDurationP95_def optionalDurationMax_def format_law_def
    intro: no_mark_cell split: option.split)

section \<open>Texts\<close>

text \<open>A text that is made of whole lines, reads well, and leaves no table open.\<close>

definition md_ok :: "string \<Rightarrow> bool" where
  "md_ok s \<longleftrightarrow> (\<exists>ls. s = md_lines ls \<and> (\<forall>l \<in> set ls. CHR 0x0A \<notin> set l) \<and> read_tables None ls = Some None)"

lemma read_tables_append: "read_tables w (a @ b) = (case read_tables w a of None \<Rightarrow> None | Some w' \<Rightarrow> read_tables w' b)"
  by (induction a arbitrary: w) auto

lemma md_ok_Nil: "md_ok []"
  unfolding md_ok_def by (intro exI[of _ "[]"]) (simp add: md_lines_def)

lemma md_ok_append:
  assumes "md_ok s" "md_ok t"
  shows "md_ok (s @ t)"
proof -
  from assms obtain a b where "s = md_lines a" "t = md_lines b" "\<forall>l \<in> set (a @ b). CHR 0x0A \<notin> set l"
      "read_tables None a = Some None" "read_tables None b = Some None"
    unfolding md_ok_def by auto
  then show ?thesis unfolding md_ok_def by (intro exI[of _ "a @ b"]) (simp add: md_lines_def read_tables_append)
qed

lemma md_ok_concat: "\<forall>s \<in> set ss. md_ok s \<Longrightarrow> md_ok (concat ss)"
  by (induction ss) (auto intro: md_ok_append md_ok_Nil)

definition line_ok :: "string \<Rightarrow> bool" where
  "line_ok l \<longleftrightarrow> CHR 0x0A \<notin> set l \<and> \<not> is_row l"

lemma md_ok_lines: "list_all line_ok ls \<Longrightarrow> md_ok (md_lines ls)"
proof -
  assume ok: "list_all line_ok ls"
  then have "read_tables None ls = Some None" by (induction ls) (auto simp: line_ok_def)
  with ok show ?thesis unfolding md_ok_def by (auto simp: line_ok_def list_all_iff)
qed

lemma md_ok_newline: "md_ok newline"
  using md_ok_lines[of "[[]]"] by (simp add: md_lines_def line_ok_def is_row_def)

lemma md_ok_para: "line_ok s \<Longrightarrow> md_ok (para s)"
  using md_ok_lines[of "[s, []]"] by (simp add: md_lines_def para_def line_ok_def is_row_def)

lemma borders_Join:
  "list_all cell_ok cells \<Longrightarrow> cells \<noteq> [] \<Longrightarrow> borders False (Join '' | '' cells @ '' |'') = length cells"
  by (induction "'' | ''" cells rule: Join.induct) (auto simp: cell_ok_def borders_append)

lemma row_facts:
  assumes "list_all cell_ok cells" "cells \<noteq> []"
  shows "is_row (md_row cells) \<and> borders False (md_row cells) = Suc (length cells) \<and> CHR 0x0A \<notin> set (md_row cells)"
proof -
  have "CHR 0x0A \<notin> set (Join '' | '' cells)" using assms(1)
    by (induction "'' | ''" cells rule: Join.induct) (auto simp: cell_ok_def)
  then show ?thesis using borders_Join[OF assms] by (simp add: md_row_def is_row_def)
qed

lemma read_rows:
  "\<forall>l \<in> set ls. is_row l \<and> borders False l = n \<Longrightarrow> w = None \<or> w = Some n \<Longrightarrow> read_tables w (ls @ [[]]) = Some None"
  by (induction ls arbitrary: w) (auto simp: is_row_def)

definition cols_ok :: "(string \<times> string) list \<Rightarrow> bool" where
  "cols_ok cols \<longleftrightarrow> cols \<noteq> [] \<and> list_all (\<lambda>(name, mark). cell_ok name \<and> cell_ok mark) cols"

lemma md_ok_table:
  assumes cols: "cols_ok cols"
    and "list_all (\<lambda>row. length row = length cols \<and> list_all cell_ok row) rows"
  shows "md_ok (md_table cols rows @ newline)"
proof -
  let ?ls = "md_row (map fst cols) # md_row (map snd cols) # map md_row rows"
  have "list_all cell_ok (map fst cols)" "list_all cell_ok (map snd cols)" using cols by (auto simp: list_all_iff cols_ok_def)
  then have "\<forall>l \<in> set ?ls. is_row l \<and> borders False l = Suc (length cols) \<and> CHR 0x0A \<notin> set l"
    using assms row_facts[of "map fst cols"] row_facts[of "map snd cols"] row_facts unfolding cols_ok_def
    by (fastforce simp: list_all_iff)
  moreover from this have "read_tables None (?ls @ [[]]) = Some None" by (intro read_rows[of _ "Suc (length cols)"]) auto
  ultimately show ?thesis unfolding md_ok_def
    by (intro exI[of _ "?ls @ [[]]"]) (auto simp: md_table_def md_lines_def)
qed

lemma md_ok_if: "(c \<Longrightarrow> md_ok s) \<Longrightarrow> (\<not> c \<Longrightarrow> md_ok t) \<Longrightarrow> md_ok (if c then s else t)"
  by simp

lemma md_ok_table_then:
  "cols_ok cols \<Longrightarrow> list_all (\<lambda>row. length row = length cols \<and> list_all cell_ok row) rows \<Longrightarrow> md_ok s \<Longrightarrow>
   md_ok (md_table cols rows @ newline @ s)"
  using md_ok_append[OF md_ok_table] by (metis append.assoc)

lemma md_ok_heading: "line_ok title \<Longrightarrow> md_ok (scenario_heading name title)"
  unfolding scenario_heading_def by (rule md_ok_para) (auto simp: line_ok_def is_row_def nl_mdCell)

lemmas md_parts = md_ok_if md_ok_Nil md_ok_newline md_ok_heading md_ok_para md_ok_table md_ok_table_then md_ok_append

lemma cell_ok_Cons: "c \<noteq> CHR ''|'' \<Longrightarrow> c \<noteq> CHR 0x0A \<Longrightarrow> c \<noteq> CHR 0x5C \<Longrightarrow> cell_ok (c # s) = cell_ok s"
  by (simp add: cell_ok_def)

lemma list_all_map: "list_all P (map f xs) \<longleftrightarrow> (\<forall>x \<in> set xs. P (f x))"
  by (auto simp: list_all_iff)

lemmas md_simps = line_ok_def is_row_def nl_mdCell cols_ok_def lcol_def rcol_def cell_ok_Cons cell_ok_numbers

lemma md_ok_runtime: "format_law me \<Longrightarrow> md_ok (writeRuntimeBreakdownMarkdown me r)"
  unfolding writeRuntimeBreakdownMarkdown_def by (intro md_parts) (simp_all add: md_simps list_all_map)

lemma md_ok_overlaps: "format_law me \<Longrightarrow> md_ok (writeLoadWindowPhaseOverlapsMarkdown me rows)"
  unfolding writeLoadWindowPhaseOverlapsMarkdown_def by (intro md_parts) (simp_all add: md_simps list_all_map)

lemma cols_ok_named: "cols_ok accounting_cols" "cols_ok cadence_cols" "cols_ok stage_cols" "cols_ok pipeline_cols" "cols_ok catalyst_cols"
    "cols_ok store_cols" "cols_ok window_cols" "cols_ok profile_cols" "cols_ok summary_cols"
  by code_simp+

lemma length_cols: "length accounting_cols = 19" "length cadence_cols = 11" "length stage_cols = 12" "length pipeline_cols = 11"
    "length catalyst_cols = 17" "length store_cols = 8" "length window_cols = 7" "length profile_cols = 13" "length summary_cols = 7"
  by code_simp+

lemma notes_ok: "line_ok accounting_note" "line_ok cadence_note" "line_ok pipeline_note" "line_ok catalyst_note" "line_ok timing_note"
  by code_simp+

lemma md_ok_accounting: "format_law me \<Longrightarrow> md_ok (writeLoadWindowAccountingMarkdown me rows)"
  unfolding writeLoadWindowAccountingMarkdown_def
  by (intro md_parts cols_ok_named notes_ok) (simp_all add: md_simps length_cols list_all_map)

lemma md_ok_stages: "format_law me \<Longrightarrow> md_ok (stages_table me stages)"
  unfolding stages_table_def
  by (intro md_parts cols_ok_named notes_ok) (simp_all add: md_simps length_cols list_all_map split_beta)

lemma md_ok_cadence: "format_law me \<Longrightarrow> md_ok (writeCadenceDiagnosticsMarkdown me rows)"
  unfolding writeCadenceDiagnosticsMarkdown_def
  by (intro md_parts cols_ok_named notes_ok md_ok_stages) (simp_all add: md_simps length_cols list_all_map)

lemma md_ok_timeline: "format_law me \<Longrightarrow> md_ok (writeTreeDBStatsTimelineMarkdown me samples)"
  unfolding writeTreeDBStatsTimelineMarkdown_def by (intro md_parts) (simp_all add: md_simps list_all_map)

lemma md_ok_pipeline: "format_law me \<Longrightarrow> md_ok (writePipelineSignalsMarkdown me rows)"
  unfolding writePipelineSignalsMarkdown_def
  by (intro md_parts cols_ok_named notes_ok) (simp_all add: md_simps length_cols list_all_map)

lemma md_ok_notes: "md_ok (md_lines (map (\<lambda>note. ''- '' @ mdCell note) notes))"
  by (rule md_ok_lines) (auto simp: list_all_iff md_simps)

lemma md_ok_catalyst: "format_law me \<Longrightarrow> md_ok (writeScenarioCatalystLogTimingMarkdown me r)"
  unfolding writeScenarioCatalystLogTimingMarkdown_def writeCatalystLogTimingMarkdown_def Let_def option.case_eq_if
  by (intro md_parts cols_ok_named notes_ok md_ok_notes) (simp_all add: md_simps length_cols)

lemma md_ok_metric_tables: "format_law me \<Longrightarrow> md_ok (metric_tables me rows errors)"
  unfolding metric_tables_def by (intro md_parts) (simp_all add: md_simps list_all_map)

lemma md_ok_treedb_tables: "format_law me \<Longrightarrow> md_ok (treedb_tables me timingRows rows errors)"
  unfolding treedb_tables_def
  by (intro md_parts cols_ok_named notes_ok) (simp_all add: md_simps length_cols list_all_map)

lemmas md_window_parts = md_ok_overlaps md_ok_accounting md_ok_pipeline md_ok_cadence md_ok_timeline md_ok_metric_tables md_ok_treedb_tables

lemma no_mark_boundary: "cell_ok ''accepted-window''"
  by code_simp

lemma md_ok_window: "format_law me \<Longrightarrow> md_ok (writeAcceptedWindowMarkdown me r)"
  unfolding writeAcceptedWindowMarkdown_def Let_def option.case_eq_if
  by (intro md_parts cols_ok_named md_window_parts) (simp_all add: md_simps length_cols no_mark_boundary)

lemma md_ok_dwell: "format_law me \<Longrightarrow> md_ok (writeTreeDBDwellMarkdown me r)"
  unfolding writeTreeDBDwellMarkdown_def Let_def by (intro md_parts) (simp_all add: md_simps list_all_map)

lemma md_ok_profiles: "format_law me \<Longrightarrow> md_ok (writeProfileArtifactsMarkdown me r)"
  unfolding writeProfileArtifactsMarkdown_def
  by (intro md_parts cols_ok_named) (simp_all add: md_simps length_cols list_all_map)

lemma md_ok_sections: "format_law me \<Longrightarrow> md_ok (result_sections me r)"
  unfolding result_sections_def by (intro md_ok_append md_ok_runtime md_ok_window md_ok_catalyst md_ok_dwell md_ok_profiles)

lemma summary_row_ok: "format_law me \<Longrightarrow> length (summary_row me r) = 7 \<and> list_all cell_ok (summary_row me r)"
  by (simp add: summary_row_def split: prod.split)

lemma title_lines:
  assumes "format_law me"
  shows "list_all line_ok ((if IsZero t then [] else [''- Generated: '' @ mk_RFC3339 me t]) @ git_line ''Branch'' b @ git_line ''Head'' h)"
  using assms by (auto simp: git_line_def md_simps format_law_def no_mark_def)

lemma md_ok_report: "format_law me \<Longrightarrow> md_ok (renderReportMarkdown me a)"
  unfolding renderReportMarkdown_def
  by (intro md_parts cols_ok_named md_ok_lines title_lines md_ok_concat)
     (auto simp: md_simps length_cols list_all_map summary_row_ok md_ok_sections)

lemma Split_md_lines: "\<forall>l \<in> set ls. CHR 0x0A \<notin> set l \<Longrightarrow> Split (CHR 0x0A) (md_lines ls) = ls @ [[]]"
  by (induction ls) (auto simp: md_lines_def newline_def Split_append_sep)

section \<open>Properties\<close>

text \<open>C19: Whatever the data of a run holds, pipes and line breaks in names, errors and notes included, the tables of
  the rendered report read back as tables: every row has the cells of its table's header, no more and no fewer.\<close>

theorem report_tables_read_back:
  assumes "format_law me"
  shows "tables_ok (renderReportMarkdown me a)"
proof -
  from md_ok_report[OF assms] obtain ls where ls: "renderReportMarkdown me a = md_lines ls"
      "\<forall>l \<in> set ls. CHR 0x0A \<notin> set l" "read_tables None ls = Some None"
    unfolding md_ok_def by blast
  then show ?thesis by (simp add: tables_ok_def Split_md_lines read_tables_append is_row_def)
qed

definition demo_markdown :: "int markdown_env" where
  "demo_markdown = \<lparr> mk_fl = demo_float, mk_fm = \<lparr> fm_fixed = \<lambda>_ v. Itoa v, fm_general = Itoa, fm_duration = Itoa, fm_time = Itoa \<rparr>,
     mk_Sprint = Itoa, mk_RFC3339 = Itoa, mk_RFC3339Nano = Itoa \<rparr>"

definition demo_report :: "(int, unit) reportArtifact" where
  "demo_report = \<lparr> ra_GeneratedAt = 7, ra_Host = [], ra_Git = [(''branch'', ''a|b'')], ra_Flags = [],
     ra_Results = [(zero_result demo_float demo_report_scenario)\<lparr>rr_Error := ''no | such'' @ newline @ ''file''\<rparr>], ra_Errors = [] \<rparr>"

theorem report_tables_read_back_witness:
  "tables_ok (renderReportMarkdown demo_markdown demo_report) \<and> \<not> tables_ok (md_table [lcol ''A''] [[''no | such'']])"
proof
  have "no_mark (Itoa i)" for i using no_mark_show_nat unfolding Itoa_def no_mark_def by auto
  then have "format_law demo_markdown" by (simp add: format_law_def demo_markdown_def)
  then show "tables_ok (renderReportMarkdown demo_markdown demo_report)" by (rule report_tables_read_back)
  show "\<not> tables_ok (md_table [lcol ''A''] [[''no | such'']])" by code_simp
qed

end
