(* ===== verification/Report_Main.thy ===== *)
theory Report_Main
  imports Report_Celestia Report_Markdown
begin

text \<open>
  The program \<open>cmd/local-report-runner\<close>: its flags with their defaults, the check of their values, the scenarios they
  select, the loop that runs them, and the artifacts it writes. A run of \<open>main\<close> is the list of its events and whether it
  ended normally or by \<open>fatalf\<close>; \<open>os.Exit\<close> skips the deferred end of the runtime profiles. Files, the clock, JSON and
  the runtime are the fields of \<open>main_env\<close>; each scenario runs in an environment of its own
  (the interval of the samples, \<open>fg_sampleInterval\<close>, is part of the monitor's turns in it).
\<close>

section \<open>Flags\<close>

record evm_flags =
  ef_blocks :: int
  ef_batches :: int
  ef_msgs :: int
  ef_msgType :: string
  ef_sendInterval :: int
  ef_initialWallets :: int
  ef_initialContracts :: uint64
  ef_iterations :: int
  ef_calldataSize :: int
  ef_gasFeeCap :: int
  ef_gasTipCap :: int

record cosmos_flags =
  cf_msg :: string
  cf_contained :: string
  cf_msgsPerTx :: int
  cf_blocks :: int
  cf_txs :: int
  cf_maxGas :: int
  cf_recipients :: int
  cf_txIndexer :: string

record runtime_profiles =
  rp_cpu :: string
  rp_heap :: string
  rp_block :: string
  rp_mutex :: string

text \<open>\<open>fg_options\<close> and \<open>fg_celestia\<close> hold the flags that \<open>main\<close> passes on as they are.\<close>

record 'f report_flags =
  fg_scenario :: string
  fg_outPath :: string
  fg_markdownPath :: string
  fg_options :: run_options
  fg_targetFraction :: 'f
  fg_sampleInterval :: int
  fg_profiles :: runtime_profiles
  fg_evm :: evm_flags
  fg_cosmos :: cosmos_flags
  fg_validators :: uint64
  fg_nodes :: uint64
  fg_wallets :: int
  fg_preseedProfile :: string
  fg_preseedAccounts :: int
  fg_gomapVersion :: string
  fg_gomapRef :: string
  fg_catalyst :: string
  fg_celestia :: celestiaSyncConfig

definition default_evm :: evm_flags where
  "default_evm = \<lparr> ef_blocks = 0, ef_batches = 30, ef_msgs = 1000, ef_msgType = ''MsgNativeTransferERC20'', ef_sendInterval = 1000000000,
     ef_initialWallets = 0, ef_initialContracts = 5, ef_iterations = 0, ef_calldataSize = 0, ef_gasFeeCap = 100000000000,
     ef_gasTipCap = 100000000000 \<rparr>"

definition default_cosmos :: cosmos_flags where
  "default_cosmos = \<lparr> cf_msg = ''MsgSend'', cf_contained = ''MsgSend'', cf_msgsPerTx = 10, cf_blocks = 50, cf_txs = 200,
     cf_maxGas = 75000000, cf_recipients = 20, cf_txIndexer = ''kv'' \<rparr>"

definition default_options :: run_options where
  "default_options = \<lparr> ro_skipBuild = False, ro_keep = False, ro_commitBenchBlocks = 0,
     ro_appProfiles = \<lparr> pc_CPUOutDir = [], pc_HeapOutDir = [], pc_PprofOutDir = [], pc_DiagnosticOutDir = [],
       pc_DiagnosticDuration = 5000000000, pc_ActiveWindowOutDir = [], pc_ActiveWindowDuration = 5000000000, pc_DebugVars = False \<rparr>,
     ro_rawTxAudit = True, ro_loadWindowDrainTimeout = 0, ro_loadWindowMinDuration = 0, ro_stopCatalystAfterLoadWindow = False,
     ro_treeDBPostLoadDwell = 0 \<rparr>"

text \<open>\<open>stat\<close> tells which paths are there, \<open>dateTime\<close> is the formatted time.\<close>

definition default_celestia :: "(string \<Rightarrow> bool option) \<Rightarrow> string \<Rightarrow> string \<Rightarrow> celestiaSyncConfig" where
  "default_celestia stat tempDir dateTime =
     (let appDir = defaultExistingPath stat
            [''/home/mikers/dev/snissn/celestia-app-3128-mainnet'', ''/home/mikers/dev/snissn/celestia-app-native-iavl-harness'']
      in \<lparr> cy_RunnerScript = ''/home/mikers/dev/snissn/gomap-human/scripts/run_celestia_ab.sh'',
           cy_RunCommand = path_Join appDir ''run_celestia.sh'',
           cy_OutputDir = path_Join (path_Join (path_Join ''reports'' ''artifacts'') ''celestia-sync'') dateTime,
           cy_ControlEnvFile = [], cy_CandidateEnvFile = [], cy_MaxPairs = 1, cy_PairRunMode = ''concurrent'',
           cy_RunTimeoutSeconds = 1800, cy_PostSyncDwellSeconds = 300, cy_RequiredAcceptedSnapshotHeight = ''11758500'',
           cy_TrustHeight = [], cy_TrustHash = [], cy_StopAtLocalHeight = [], cy_FreezeRemoteHeightAtStart = True,
           cy_RunHomeBase = defaultFastPath stat tempDir ''ironbird-celestia-runs'',
           cy_GoCacheRoot = defaultFastPath stat tempDir ''ironbird-go-cache'', cy_TempDir = defaultFastPath stat tempDir ''tmp'',
           cy_CelestiaAppDir = appDir,
           cy_GomapDir = defaultExistingPath stat [''/mnt/fast4tb/worktrees/gomap-ironbird-wal-sync'', ''/home/mikers/dev/snissn/gomap''],
           cy_CosmosDBDir = defaultExistingPath stat
             [''/mnt/fast4tb/worktrees/cosmos-db-ironbird-wal-sync'', ''/home/mikers/dev/snissn/cosmos-db''],
           cy_CometDBDir = ''/home/mikers/dev/snissn/cometbft-db'',
           cy_CosmosStoreDir = ''/home/mikers/dev/snissn/celestia-cosmos-sdk/store'',
           cy_CosmosLogDir = ''/home/mikers/dev/snissn/celestia-cosmos-sdk/log'',
           cy_CosmosCoreDir = ''/home/mikers/dev/snissn/celestia-cosmos-sdk/core'', cy_IAVLDir = ''/home/mikers/dev/snissn/iavl'',
           cy_TreeDBOpenProfile = ''command_wal_durable'', cy_UseLocalTreeStack = True, cy_UseLocalCosmosStore = True,
           cy_UseLocalIAVL = False, cy_DryRun = False \<rparr>)"

definition default_flags :: "'f float64 \<Rightarrow> (string \<Rightarrow> bool option) \<Rightarrow> string \<Rightarrow> string \<Rightarrow> 'f report_flags" where
  "default_flags fl stat tempDir dateTime =
     \<lparr> fg_scenario = ''all'', fg_outPath = [], fg_markdownPath = [], fg_options = default_options, fg_targetFraction = fl_of_int fl 1,
       fg_sampleInterval = 10000000000, fg_profiles = \<lparr> rp_cpu = [], rp_heap = [], rp_block = [], rp_mutex = [] \<rparr>,
       fg_evm = default_evm, fg_cosmos = default_cosmos, fg_validators = 1, fg_nodes = 1, fg_wallets = 5000,
       fg_preseedProfile = ''none'', fg_preseedAccounts = 0, fg_gomapVersion = defaultSimappGomapVersion,
       fg_gomapRef = defaultSimappGomapRef, fg_catalyst = [], fg_celestia = default_celestia stat tempDir dateTime \<rparr>"

section \<open>The environment\<close>

datatype main_event =
    MRate string
  | MCreated string
  | MStartCPU
  | MStopCPU
  | MProfile string string
  | MClosed string
  | MRan string
  | MDir string
  | MWrote string string

record ('f, 't) main_env =
  mn_md :: "'f markdown_env"
  mn_abs :: "string \<Rightarrow> string result"
  mn_stamp :: string
  mn_now :: int
  mn_goos :: string
  mn_goarch :: string
  mn_go_version :: string
  mn_host_cmd :: combined
  mn_flag_values :: "string gomap"
  mn_ParseWorkerConfig :: "string \<Rightarrow> unit result"
  mn_run :: "nat \<Rightarrow> ('f, 't) run_env"
  mn_rnd :: "nat \<Rightarrow> nat \<Rightarrow> nat"
  mn_cel :: "nat \<Rightarrow> 'f cel_env"
  mn_json :: "('f, 'f celestiaSyncResult) reportArtifact \<Rightarrow> string result"
  mn_MkdirAll :: "string \<Rightarrow> unit result"
  mn_WriteFile :: "string \<Rightarrow> string \<Rightarrow> unit result"
  mn_Create :: "string \<Rightarrow> unit result"
  mn_StartCPU :: "unit result"
  mn_Lookup :: "string \<Rightarrow> bool"
  mn_WriteProfile :: "string \<Rightarrow> unit result"
  mn_Close :: "string \<Rightarrow> unit result"

definition main_do :: "unit result \<Rightarrow> string \<Rightarrow> main_event \<Rightarrow> main_event list \<Rightarrow> main_event list \<times> unit result" where
  "main_do r msg ev tr = (case r of Inl e \<Rightarrow> (tr, Inl (Wrap msg e)) | Inr _ \<Rightarrow> (tr @ [ev], Inr ()))"

section \<open>Runtime profiles\<close>

definition write_profile :: "('f, 't) main_env \<Rightarrow> string \<Rightarrow> string \<Rightarrow> main_event list \<Rightarrow> main_event list \<times> unit result" where
  "write_profile en kind path tr =
     (if path = [] then (tr, Inr ())
      else andThen (main_do (mn_Create en path) (''create '' @ kind @ '' profile'') (MCreated path) tr) (\<lambda>tr _.
        if kind \<noteq> ''heap'' \<and> \<not> mn_Lookup en kind then (tr @ [MClosed path], Inl (New (''lookup '' @ kind @ '' profile: not found'')))
        else case mn_WriteProfile en kind of
               Inl e \<Rightarrow> (tr @ [MClosed path], Inl (Wrap (''write '' @ kind @ '' profile'') e))
             | Inr _ \<Rightarrow> main_do (mn_Close en path) (''close '' @ kind @ '' profile'') (MClosed path) (tr @ [MProfile kind path])))"

definition writeRuntimeProfiles ::
    "('f, 't) main_env \<Rightarrow> string \<Rightarrow> string \<Rightarrow> string \<Rightarrow> main_event list \<Rightarrow> main_event list \<times> unit result" where
  "writeRuntimeProfiles en heapPath blockPath mutexPath tr =
     andThen (write_profile en ''heap'' heapPath tr) (\<lambda>tr _.
     andThen (write_profile en ''block'' blockPath tr) (\<lambda>tr _. write_profile en ''mutex'' mutexPath tr))"

definition startRuntimeProfiles :: "('f, 't) main_env \<Rightarrow> runtime_profiles \<Rightarrow> main_event list \<Rightarrow> main_event list \<times> unit result" where
  "startRuntimeProfiles en p tr =
     (let tr = tr @ (if rp_block p \<noteq> [] then [MRate ''block''] else []) @ (if rp_mutex p \<noteq> [] then [MRate ''mutex''] else [])
      in if rp_cpu p = [] then (tr, Inr ())
         else andThen (main_do (mn_Create en (rp_cpu p)) ''create CPU profile'' (MCreated (rp_cpu p)) tr) (\<lambda>tr _.
           case mn_StartCPU en of
             Inl e \<Rightarrow> (tr @ [MClosed (rp_cpu p)], Inl (Wrap ''start CPU profile'' e))
           | Inr _ \<Rightarrow> (tr @ [MStartCPU], Inr ())))"

definition stopRuntimeProfiles :: "('f, 't) main_env \<Rightarrow> runtime_profiles \<Rightarrow> main_event list \<Rightarrow> main_event list \<times> unit result" where
  "stopRuntimeProfiles en p tr =
     writeRuntimeProfiles en (rp_heap p) (rp_block p) (rp_mutex p) (tr @ (if rp_cpu p \<noteq> [] then [MStopCPU, MClosed (rp_cpu p)] else []))"

section \<open>The program\<close>

definition checked_flag :: "bool \<Rightarrow> string \<Rightarrow> unit result" where
  "checked_flag bad msg = (if bad then Inl (New msg) else Inr ())"

definition check_flags :: "'f markdown_env \<Rightarrow> 'f report_flags \<Rightarrow> unit result" where
  "check_flags me fg =
     (let fl = mk_fl me; ro = fg_options fg; ap = ro_appProfiles ro; txIndexer = cf_txIndexer (fg_cosmos fg); duration = fm_duration (mk_fm me)
      in and_then (checked_flag (txIndexer \<noteq> ''kv'' \<and> txIndexer \<noteq> ''null'') (''-tx-indexer must be kv or null, got '' @ Quote txIndexer)) (\<lambda>_.
         and_then (checked_flag (fl_le fl (fg_targetFraction fg) (fl_zero fl) \<or> fl_less fl (fl_of_int fl 1) (fg_targetFraction fg))
           (''-load-window-target-fraction must be > 0 and <= 1, got '' @ mk_Sprint me (fg_targetFraction fg))) (\<lambda>_.
         and_then (checked_flag (pc_DiagnosticOutDir ap \<noteq> [] \<and> pc_DiagnosticDuration ap \<le> 0)
           (''-app-diagnostic-profile-duration must be > 0 when -app-diagnostic-profile-dir is set, got '' @ duration (pc_DiagnosticDuration ap))) (\<lambda>_.
         and_then (checked_flag (pc_ActiveWindowOutDir ap \<noteq> [] \<and> pc_ActiveWindowDuration ap \<le> 0)
           (''-app-active-window-profile-duration must be > 0 when -app-active-window-profile-dir is set, got '' @ duration (pc_ActiveWindowDuration ap))) (\<lambda>_.
         and_then (checked_flag (fg_sampleInterval fg \<le> 0)
           (''-treedb-stats-sample-interval must be > 0, got '' @ duration (fg_sampleInterval fg))) (\<lambda>_.
         checked_flag (ro_treeDBPostLoadDwell ro < 0)
           (''-treedb-post-load-dwell must be >= 0, got '' @ duration (ro_treeDBPostLoadDwell ro))))))))"

definition main_load :: "'f report_flags \<Rightarrow> preseedConfig \<Rightarrow> simapp_load" where
  "main_load fg preseed =
     \<lparr> sl_validators = fg_validators fg, sl_nodes = fg_nodes fg, sl_wallets = fg_wallets fg, sl_preseed = preseed,
       sl_blocks = cf_blocks (fg_cosmos fg), sl_txs = cf_txs (fg_cosmos fg), sl_cosmosMsg = cf_msg (fg_cosmos fg),
       sl_containedMsg = cf_contained (fg_cosmos fg), sl_msgsPerTx = cf_msgsPerTx (fg_cosmos fg),
       sl_recipients = cf_recipients (fg_cosmos fg), sl_maxGas = cf_maxGas (fg_cosmos fg), sl_catalyst = fg_catalyst fg \<rparr>"

definition main_evm :: "'f report_flags \<Rightarrow> scenario" where
  "main_evm fg =
     (let ef = fg_evm fg
      in evmBlogScenario (fg_validators fg) (fg_nodes fg) (fg_wallets fg) (ef_blocks ef) (ef_batches ef) (ef_msgs ef) (ef_msgType ef)
           (ef_sendInterval ef) (ef_initialWallets ef) (ef_initialContracts ef) (ef_iterations ef) (ef_calldataSize ef) (ef_gasFeeCap ef)
           (ef_gasTipCap ef) (fg_catalyst fg))"

definition main_scenarios :: "('f, 't) main_env \<Rightarrow> 'f report_flags \<Rightarrow> simappGomapModulePin \<Rightarrow> preseedConfig \<Rightarrow> scenario list result" where
  "main_scenarios en fg pin preseed =
     and_then (all_scenarios (main_evm fg) (main_load fg preseed) (cf_txIndexer (fg_cosmos fg)) pin
       (normalizeCelestiaConfig (mn_abs en) (fg_celestia fg))) (\<lambda>scs.
     and_then (selectScenarios scs (fg_scenario fg)) (\<lambda>selected.
       if needsWorkerConfig selected then
         and_then (wrap_err ''parse worker config'' (mn_ParseWorkerConfig en ''conf/worker.yaml'')) (\<lambda>_. Inr selected)
       else Inr selected))"

definition main_setup :: "('f, 't) main_env \<Rightarrow> 'f report_flags \<Rightarrow> main_event list \<times> scenario list result" where
  "main_setup en fg =
     andThen ([], and_then (check_flags (mn_md en) fg) (\<lambda>_.
                  and_then (wrap_err ''invalid simapp gomap pin'' (newSimappGomapPin (fg_gomapVersion fg) (fg_gomapRef fg))) (\<lambda>pin.
                  and_then (makePreseedConfig (fg_preseedProfile fg) (fg_preseedAccounts fg) (fg_wallets fg)) (\<lambda>preseed. Inr (pin, preseed)))))
       (\<lambda>tr (pin, preseed).
          andThen (startRuntimeProfiles en (fg_profiles fg) tr) (\<lambda>tr _. (tr, main_scenarios en fg pin preseed)))"

definition run_selected ::
    "('f, 't) main_env \<Rightarrow> 'f report_flags \<Rightarrow> nat \<Rightarrow> scenario \<Rightarrow> ('f, 'f celestiaSyncResult) runResult option" where
  "run_selected en fg i sc =
     (let sc = prepare_scenario (ro_appProfiles (fg_options fg)) sc
      in if sc_Runner sc = ''celestia-sync-ab'' then Some (runCelestiaSyncScenario (mn_cel en i) sc)
         else map_option ru_result (runScenario ((mn_run en i)\<lparr>re_targetFraction := fg_targetFraction fg\<rparr>) (fg_options fg) sc (mn_rnd en i)))"

fun run_all ::
    "('f, 't) main_env \<Rightarrow> 'f report_flags \<Rightarrow> nat \<Rightarrow> scenario list \<Rightarrow> ('f, 'f celestiaSyncResult) runResult list option" where
  "run_all en fg i [] = Some []"
| "run_all en fg i (sc # scs) =
     (case run_selected en fg i sc of None \<Rightarrow> None | Some r \<Rightarrow> map_option (Cons r) (run_all en fg (i + 1) scs))"

definition artifact_errors :: "('f, 'c) runResult list \<Rightarrow> string gomap" where
  "artifact_errors results =
     fold (\<lambda>r errs. if rr_Error r \<noteq> [] then mput (sc_Name (rr_Scenario r)) (rr_Error r) errs else errs) results []"

definition main_artifact ::
    "('f, 't) main_env \<Rightarrow> ('f, 'f celestiaSyncResult) runResult list \<Rightarrow> ('f, 'f celestiaSyncResult) reportArtifact" where
  "main_artifact en results =
     \<lparr> ra_GeneratedAt = mn_now en, ra_Host = hostMetadata (mn_goos en) (mn_goarch en) (mn_go_version en) (mn_host_cmd en),
       ra_Git = gitMetadata (mn_host_cmd en), ra_Flags = mn_flag_values en, ra_Results = results, ra_Errors = artifact_errors results \<rparr>"

definition main_outPath :: "('f, 't) main_env \<Rightarrow> 'f report_flags \<Rightarrow> string" where
  "main_outPath en fg =
     (if fg_outPath fg \<noteq> [] then fg_outPath fg
      else path_Join (path_Join ''reports'' ''artifacts'') (''ironbird-local-run-'' @ mn_stamp en @ ''.json''))"

definition main_markdownPath :: "('f, 't) main_env \<Rightarrow> 'f report_flags \<Rightarrow> string" where
  "main_markdownPath en fg = (if fg_markdownPath fg \<noteq> [] then fg_markdownPath fg else markdownPathForJSON (main_outPath en fg))"

definition write_artifacts ::
    "('f, 't) main_env \<Rightarrow> 'f report_flags \<Rightarrow> ('f, 'f celestiaSyncResult) reportArtifact \<Rightarrow> main_event list \<Rightarrow> main_event list \<times> unit result" where
  "write_artifacts en fg artifact tr =
     (let outPath = main_outPath en fg; markdownPath = main_markdownPath en fg; markdown = renderReportMarkdown (mn_md en) artifact
      in andThen (main_do (mn_MkdirAll en (path_Dir outPath)) ''create artifact dir'' (MDir (path_Dir outPath)) tr) (\<lambda>tr _.
         andThen (tr, wrap_err ''marshal artifact'' (mn_json en artifact)) (\<lambda>tr body.
         andThen (main_do (mn_WriteFile en outPath (body @ newline)) ''write artifact'' (MWrote outPath (body @ newline)) tr) (\<lambda>tr _.
         andThen (main_do (mn_MkdirAll en (path_Dir markdownPath)) ''create markdown artifact dir'' (MDir (path_Dir markdownPath)) tr) (\<lambda>tr _.
           main_do (mn_WriteFile en markdownPath markdown) ''write markdown artifact'' (MWrote markdownPath markdown) tr)))))"

text \<open>\<open>None\<close> is a run that does not end.\<close>

definition report_main :: "('f, 't) main_env \<Rightarrow> 'f report_flags \<Rightarrow> (main_event list \<times> unit result) option" where
  "report_main en fg =
     (case main_setup en fg of
        (tr, Inl e) \<Rightarrow> Some (tr, Inl e)
      | (tr, Inr scs) \<Rightarrow>
          (case run_all en fg 0 scs of
             None \<Rightarrow> None
           | Some results \<Rightarrow>
               Some (andThen (write_artifacts en fg (main_artifact en results)
                       (tr @ map (\<lambda>r. MRan (sc_Name (rr_Scenario r))) results))
                 (\<lambda>tr _. stopRuntimeProfiles en (fg_profiles fg) tr))))"

section \<open>What a run leaves behind\<close>

text \<open>The text last written to a file.\<close>

fun written :: "main_event list \<Rightarrow> string \<Rightarrow> string option" where
  "written [] path = None"
| "written (ev # evs) path =
     (case written evs path of
        Some text \<Rightarrow> Some text
      | None \<Rightarrow> (case ev of MWrote p text \<Rightarrow> if p = path then Some text else None | _ \<Rightarrow> None))"

lemma written_append: "written (a @ b) path = (case written b path of Some text \<Rightarrow> Some text | None \<Rightarrow> written a path)"
  by (induction a) (auto split: option.splits)

definition quiet_after :: "main_event list \<Rightarrow> main_event list \<Rightarrow> bool" where
  "quiet_after tr tr' \<longleftrightarrow> (\<forall>path. written tr' path = written tr path)"

lemma quiet_after_trans: "quiet_after a b \<Longrightarrow> quiet_after b c \<Longrightarrow> quiet_after a c"
  by (simp add: quiet_after_def)

lemma quiet_after_refl: "quiet_after a a"
  by (simp add: quiet_after_def)

lemma quiet_andThen:
  assumes "quiet_after tr (fst r)" "\<And>tr x. quiet_after tr (fst (f tr x))"
  shows "quiet_after tr (fst (andThen r f))"
  using assms by (auto simp: andThen_def intro: quiet_after_trans split: prod.splits sum.splits)

lemma quiet_event: "(\<forall>p text. ev \<noteq> MWrote p text) \<Longrightarrow> quiet_after tr (tr @ [ev])"
  by (cases ev) (simp_all add: quiet_after_def written_append)

lemma quiet_main_do: "(\<forall>p text. ev \<noteq> MWrote p text) \<Longrightarrow> quiet_after tr (fst (main_do r msg ev tr))"
  by (cases r) (simp_all add: main_do_def quiet_event quiet_after_refl)

lemma quiet_write_profile: "quiet_after tr (fst (write_profile en kind path tr))"
proof (cases "path = []")
  case False
  have "quiet_after tr (fst (case mn_WriteProfile en kind of
      Inl e \<Rightarrow> (tr @ [MClosed path], Inl (Wrap (''write '' @ kind @ '' profile'') e))
    | Inr _ \<Rightarrow> main_do (mn_Close en path) (''close '' @ kind @ '' profile'') (MClosed path) (tr @ [MProfile kind path])))" for tr
    by (cases "mn_WriteProfile en kind")
       (auto intro: quiet_event quiet_after_trans[OF quiet_event[of "MProfile kind path"] quiet_main_do])
  then show ?thesis using False unfolding write_profile_def
    by (auto intro!: quiet_andThen quiet_main_do quiet_event)
qed (simp add: write_profile_def quiet_after_refl)

lemma quiet_stop: "quiet_after tr (fst (stopRuntimeProfiles en p tr))"
proof -
  have "quiet_after tr (tr @ (if rp_cpu p \<noteq> [] then [MStopCPU, MClosed (rp_cpu p)] else []))"
    by (simp add: quiet_after_def written_append)
  moreover have "quiet_after tr (fst (writeRuntimeProfiles en h b m tr))" for tr h b m
    unfolding writeRuntimeProfiles_def by (intro quiet_andThen quiet_write_profile)
  ultimately show ?thesis unfolding stopRuntimeProfiles_def by (rule quiet_after_trans)
qed

lemma main_do_Inr: "main_do r msg ev tr = (tr', Inr u) \<longleftrightarrow> is_ok r \<and> tr' = tr @ [ev]"
  by (cases r) (auto simp: main_do_def)

lemma andThen_Inr: "andThen r f = (tr, Inr y) \<longleftrightarrow> (\<exists>tr' x. r = (tr', Inr x) \<and> f tr' x = (tr, Inr y))"
  by (auto simp: andThen_def split: prod.splits sum.splits)

lemma write_artifacts_ok:
  assumes "write_artifacts en fg artifact tr = (tr', Inr u)"
  shows "\<exists>body. mn_json en artifact = Inr body \<and>
    written tr' (main_markdownPath en fg) = Some (renderReportMarkdown (mn_md en) artifact) \<and>
    (main_outPath en fg \<noteq> main_markdownPath en fg \<longrightarrow> written tr' (main_outPath en fg) = Some (body @ newline))"
  using assms unfolding write_artifacts_def Let_def andThen_Inr main_do_Inr wrap_err_eq_Inr Pair_inject
  by (auto simp: written_append)

lemma run_all_ok:
  "run_all en fg i scs = Some rs \<Longrightarrow> length rs = length scs \<and> (\<forall>j < length scs. run_selected en fg (i + j) (scs ! j) = Some (rs ! j))"
proof (induction scs arbitrary: i rs)
  case (Cons sc scs)
  then obtain r rs' where "run_selected en fg i sc = Some r" "run_all en fg (i + 1) scs = Some rs'" "rs = r # rs'"
    by (auto split: option.splits)
  then show ?case using Cons.IH[of "i + 1" rs'] by (auto simp: nth_Cons split: nat.split)
qed simp

lemma artifact_errors_fold:
  "mget (fold (\<lambda>r errs. if rr_Error r \<noteq> [] then mput (sc_Name (rr_Scenario r)) (rr_Error r) errs else errs) rs m) name = Some e \<Longrightarrow>
   mget m name = Some e \<or> (\<exists>r \<in> set rs. sc_Name (rr_Scenario r) = name \<and> rr_Error r = e \<and> e \<noteq> [])"
proof (induction rs arbitrary: m)
  case (Cons r rs)
  from Cons.IH[OF Cons.prems[unfolded fold_Cons o_apply]] show ?case by (auto split: if_splits)
qed simp

lemma artifact_errors_keep:
  "mget m name \<noteq> None \<or> (\<exists>r \<in> set rs. sc_Name (rr_Scenario r) = name \<and> rr_Error r \<noteq> []) \<Longrightarrow>
   mget (fold (\<lambda>r errs. if rr_Error r \<noteq> [] then mput (sc_Name (rr_Scenario r)) (rr_Error r) errs else errs) rs m) name \<noteq> None"
proof (induction rs arbitrary: m)
  case (Cons r rs)
  show ?case using Cons.prems by (simp only: fold_Cons o_apply) (intro Cons.IH, auto)
qed simp

text \<open>When the output of \<open>-out\<close> ends in \<open>.md\<close> and no \<open>-markdown-out\<close> is given, both artifacts have the same path, and
  the Markdown text replaces the JSON.\<close>

lemma markdown_replaces_artifact:
  "fg_outPath fg = ''report.md'' \<Longrightarrow> fg_markdownPath fg = [] \<Longrightarrow> main_markdownPath en fg = main_outPath en fg"
proof -
  assume flags: "fg_outPath fg = ''report.md''" "fg_markdownPath fg = []"
  have "markdownPathForJSON ''report.md'' = ''report.md''" by code_simp
  then show ?thesis unfolding main_markdownPath_def main_outPath_def flags by simp
qed

section \<open>Properties\<close>


definition demo_cel :: "int cel_env" where
  "demo_cel = \<lparr> ce_fl = demo_float, ce_now = int, ce_MkdirAll = \<lambda>_. Inr (), ce_WriteFile = \<lambda>_ _. Inr (), ce_Stat = \<lambda>_. None,
     ce_ReadFile = \<lambda>_. Inl (New ''no file''), ce_ReadDir = \<lambda>_. Inr [], ce_csv = \<lambda>_. Inr [], ce_json = \<lambda>_. Inr [],
     ce_run_json = \<lambda>_. Inl (New ''no run''), ce_zero_run = undefined, ce_git = \<lambda>_ _. ([], None), ce_run = \<lambda>_ _ _. ([], None) \<rparr>"

definition demo_sync :: celestiaSyncConfig where
  "demo_sync = no_celestia\<lparr>cy_PairRunMode := ''concurrent''\<rparr>"

definition demo_main_flags :: "int report_flags" where
  "demo_main_flags = (default_flags demo_float (\<lambda>_. None) ''/tmp'' ''1'')\<lparr>fg_scenario := ''celestia-sync-ab'', fg_celestia := demo_sync\<rparr>"

definition demo_main :: "(int, 't) run_env \<Rightarrow> (int, 't) main_env" where
  "demo_main rn = \<lparr> mn_md = demo_markdown, mn_abs = Inr, mn_stamp = ''1'', mn_now = 7, mn_goos = ''linux'', mn_goarch = ''amd64'',
     mn_go_version = ''go1'', mn_host_cmd = \<lambda>_. ([], None), mn_flag_values = [], mn_ParseWorkerConfig = \<lambda>_. Inr (), mn_run = \<lambda>_. rn,
     mn_rnd = \<lambda>_ n. n, mn_cel = \<lambda>_. demo_cel, mn_json = \<lambda>_. Inr ''{}'', mn_MkdirAll = \<lambda>_. Inr (), mn_WriteFile = \<lambda>_ _. Inr (),
     mn_Create = \<lambda>_. Inr (), mn_StartCPU = Inr (), mn_Lookup = \<lambda>_. True, mn_WriteProfile = \<lambda>_. Inr (), mn_Close = \<lambda>_. Inr () \<rparr>"

lemma demo_check: "check_flags demo_markdown demo_main_flags = Inr ()"
  by (simp add: check_flags_def checked_flag_def demo_main_flags_def default_flags_def default_options_def default_cosmos_def
      demo_markdown_def demo_float_def fl_le_def Let_def)

lemma demo_all_scenarios: "\<exists>gl tr gla tra. all_scenarios evm l txIndexer demo_report_pin celestia = Inr [evm, gl, tr, gla, tra, celestiaSyncScenario celestia] \<and>
   map sc_Name [gl, tr, gla, tra] = [''simapp-goleveldb'', ''simapp-treedb'', ''simapp-goleveldb-all'', ''simapp-treedb-all'']"
  by (simp add: all_scenarios_def simappScenario_def simappFullStackScenario_def simappScenarioWithBackends_def simappImageTag_def
      demo_report_pin_def defaultSimappGomapRef_def)

lemma demo_selected: "main_scenarios (demo_main rn) demo_main_flags demo_report_pin p = Inr [celestiaSyncScenario demo_sync]"
proof -
  have same: "normalizeCelestiaConfig Inr demo_sync = demo_sync"
    by (simp add: normalizeCelestiaConfig_def absPathIfRelative_def demo_sync_def no_celestia_def Let_def)
  have names: "sc_Name (main_evm demo_main_flags) = ''evm-blog''" "sc_Name (celestiaSyncScenario demo_sync) = ''celestia-sync-ab''"
    "sc_Runner (celestiaSyncScenario demo_sync) = ''celestia-sync-ab''"
    by (simp_all add: main_evm_def evmBlogScenario_def celestiaSyncScenario_def Let_def)
  obtain gl t gla ta where all: "all_scenarios (main_evm demo_main_flags) (main_load demo_main_flags p) (cf_txIndexer (fg_cosmos demo_main_flags))
      demo_report_pin demo_sync = Inr [main_evm demo_main_flags, gl, t, gla, ta, celestiaSyncScenario demo_sync]"
    and n: "map sc_Name [gl, t, gla, ta] = [''simapp-goleveldb'', ''simapp-treedb'', ''simapp-goleveldb-all'', ''simapp-treedb-all'']"
    using demo_all_scenarios[of "main_evm demo_main_flags" "main_load demo_main_flags p" "cf_txIndexer (fg_cosmos demo_main_flags)" demo_sync]
    by (elim exE conjE)
  have f: "fg_celestia demo_main_flags = demo_sync" "fg_scenario demo_main_flags = ''celestia-sync-ab''" "mn_abs (demo_main rn) = Inr"
    by (simp_all add: demo_main_flags_def demo_main_def)
  show ?thesis unfolding main_scenarios_def f same all using n by (simp add: selectScenarios_def names)
qed

lemma demo_setup_main: "main_setup (demo_main rn) demo_main_flags = ([], Inr [celestiaSyncScenario demo_sync])"
proof -
  have pin: "newSimappGomapPin (fg_gomapVersion demo_main_flags) (fg_gomapRef demo_main_flags) = Inr demo_report_pin"
    by (simp add: demo_main_flags_def default_flags_def newSimappGomapPin_def defaultSimappGomapVersion_def defaultSimappGomapRef_def
        demo_report_pin_def TrimSpace_def Trim_def is_space_def ToLower_def lower_def hex_DecodeString_def hex_char_def is_digit_def
        HasSuffix_def Let_def)
  obtain p where preseed: "makePreseedConfig (fg_preseedProfile demo_main_flags) (fg_preseedAccounts demo_main_flags) (fg_wallets demo_main_flags) = Inr p"
    by (simp add: demo_main_flags_def default_flags_def makePreseedConfig_def TrimSpace_def Trim_def is_space_def ToLower_def lower_def Let_def)
  have "startRuntimeProfiles (demo_main rn) (fg_profiles demo_main_flags) [] = ([], Inr ())"
    by (simp add: startRuntimeProfiles_def demo_main_flags_def default_flags_def)
  moreover have "mn_md (demo_main rn) = demo_markdown" by (simp add: demo_main_def)
  ultimately show ?thesis by (simp add: main_setup_def demo_check pin preseed demo_selected andThen_def)
qed

lemma demo_run_all: "\<exists>r. run_all (demo_main rn) demo_main_flags 0 [celestiaSyncScenario demo_sync] = Some [r]"
proof -
  have "prepare_scenario (ro_appProfiles (fg_options demo_main_flags)) sc = sc" for sc
    by (simp add: prepare_scenario_def needsPprof_def needsDiagnosticProfileFlags_def demo_main_flags_def default_flags_def default_options_def)
  moreover have "sc_Runner (celestiaSyncScenario demo_sync) = ''celestia-sync-ab''" by (simp add: celestiaSyncScenario_def)
  ultimately show ?thesis by (simp add: run_selected_def)
qed

lemma demo_written: "\<exists>tr'. write_artifacts (demo_main rn) demo_main_flags a tr = (tr', Inr ())"
  by (simp add: write_artifacts_def main_do_def demo_main_def andThen_def Let_def)

lemma demo_stop: "stopRuntimeProfiles (demo_main rn) (fg_profiles demo_main_flags) tr = (tr, Inr ())"
  by (simp add: stopRuntimeProfiles_def writeRuntimeProfiles_def write_profile_def demo_main_flags_def default_flags_def andThen_def)


end
