(* ===== verification/Executables.thy ===== *)
theory Executables
  imports Service Builder Load_Balancer DO_Lifecycle Activities
begin

text \<open>
  The executables around the components: \<open>types/config.go\<close>, \<open>cmd/worker/main.go\<close>, \<open>server/grpc_server.go\<close> and
  \<open>server/cmd/main.go\<close>. A program is what it has built or the error it ends with (\<open>log.Fatalln\<close>, \<open>os.Exit\<close> or
  \<open>panic\<close>), and the server the list of its steps. Files, YAML, environment variables, connections and sockets are
  parameters; registering workflows and activities with Temporal and gRPC is what the theories of these components do.
\<close>

section \<open>Configuration files\<close>

record TailscaleConfig =
  wt_ServerOauthSecret :: string
  wt_ServerTags :: "string list"
  wt_NodeAuthKey :: string
  wt_NodeTags :: "string list"

record LoadBalancerConfig =
  wl_RootDomain :: string
  wl_SSLKeyPath :: string
  wl_SSLCertPath :: string

record TemporalConfig =
  wm_Host :: string
  wm_Namespace :: string

text \<open>\<open>wc_Telemetry\<close> has the fields of \<open>TelemetrySettings\<close>, \<open>wc_Token\<close> is \<open>DigitalOcean.Token\<close>.\<close>

record WorkerConfig =
  wc_Temporal :: TemporalConfig
  wc_Tailscale :: TailscaleConfig
  wc_Token :: string
  wc_LoadBalancer :: LoadBalancerConfig
  wc_Telemetry :: TelemetrySettings
  wc_Builder :: BuilderConfig
  wc_Chains :: "ChainImageConfig gomap"
  wc_Grafana :: GrafanaConfig
  wc_ServerAddress :: string

record ServerConfig =
  sc_Temporal :: TemporalConfig
  sc_DatabasePath :: string
  sc_MigrationsPath :: string
  sc_GrpcAddress :: string
  sc_GrpcWebAddress :: string

record config_env =
  ce_Read :: "string \<Rightarrow> string result"
  ce_worker_yaml :: "string \<Rightarrow> WorkerConfig result"
  ce_server_yaml :: "string \<Rightarrow> ServerConfig result"
  ce_Getenv :: "string \<Rightarrow> string"

text \<open>The secrets come from the environment, whatever the file says.\<close>

definition ParseWorkerConfig :: "config_env \<Rightarrow> string \<Rightarrow> WorkerConfig result" where
  "ParseWorkerConfig en path =
     and_then (wrap_err ''failed to read config'' (ce_Read en path)) (\<lambda>file.
     and_then (wrap_err ''failed to unmarshal config'' (ce_worker_yaml en file)) (\<lambda>c.
       Inr (c\<lparr>wc_Token := ce_Getenv en ''DIGITALOCEAN_TOKEN'',
              wc_Tailscale := (wc_Tailscale c)\<lparr>wt_NodeAuthKey := ce_Getenv en ''TS_NODE_AUTH_KEY'',
                wt_ServerOauthSecret := ce_Getenv en ''TS_SERVER_OAUTH_SECRET''\<rparr>\<rparr>)))"

definition ParseServerConfig :: "config_env \<Rightarrow> string \<Rightarrow> ServerConfig result" where
  "ParseServerConfig en path =
     and_then (wrap_err ''failed to read config'' (ce_Read en path)) (\<lambda>file.
       wrap_err ''failed to unmarshal config'' (ce_server_yaml en file))"

section \<open>The worker\<close>

text \<open>What three of the activities share: the account's token, Tailscale and telemetry.\<close>

record cloud =
  cl_Token :: string
  cl_Tailscale :: TailscaleSettings
  cl_Telemetry :: TelemetrySettings

text \<open>The AWS config of the builder activity is there or not; that of the testnet activity is \<open>ac_Token\<close>.\<close>

record worker =
  wo_builder :: builder
  wo_builder_aws :: bool
  wo_testnet :: activity
  wo_testnet_cloud :: cloud
  wo_loadtest_cloud :: cloud
  wo_loadbalancer :: lb_activity
  wo_loadbalancer_cloud :: cloud

text \<open>\<open>we_aws_token\<close> is what the registry answers to a client with the AWS config; the codecs, the wallets and the
  compression of the activities are those of their packages.\<close>

record 'n worker_env =
  we_config :: config_env
  we_Dial :: "TemporalConfig \<Rightarrow> unit result"
  we_LoadAws :: "unit result"
  we_aws_token :: "string result"
  we_grpc :: "string \<Rightarrow> unit result"
  we_tailscale :: "'n tailscale"
  we_auth :: auth_codec
  we_wallets :: wallet_configs
  we_gzip :: gzip

definition no_tailscale :: TailscaleSettings where
  "no_tailscale = \<lparr> tn_AuthKey = [], tn_Tags = [], tn_Server = False, tn_LocalClient = False \<rparr>"

definition worker_aws :: "'n worker_env \<Rightarrow> RegistryConfig \<Rightarrow> bool result" where
  "worker_aws en registry =
     (if rg_Type registry = ''ecr'' then
        and_then (wrap_err ''Failed to load AWS config (required for ECR registry)'' (we_LoadAws en)) (\<lambda>_. Inr True)
      else Inr False)"

definition worker_grpc :: "'n worker_env \<Rightarrow> WorkerConfig \<Rightarrow> bool" where
  "worker_grpc en cfg \<longleftrightarrow> wc_ServerAddress cfg \<noteq> [] \<and> is_ok (we_grpc en (wc_ServerAddress cfg))"

definition worker_tailscale :: "'n worker_env \<Rightarrow> TailscaleConfig \<Rightarrow> 'n \<Rightarrow> ('n \<times> TailscaleSettings result) option" where
  "worker_tailscale en c n =
     (if wt_ServerOauthSecret c \<noteq> [] \<and> wt_NodeAuthKey c \<noteq> [] then
        map_option (\<lambda>(n, r). (n, case r of Inl e \<Rightarrow> Inl (Panic (Error_str e)) | Inr ts \<Rightarrow> Inr ts))
          (SetupTailscale (we_tailscale en) (wt_ServerOauthSecret c) (wt_NodeAuthKey c) ''ironbird'' (wt_ServerTags c) (wt_NodeTags c) n)
      else Some (n, Inr no_tailscale))"

definition worker_tls :: "'n worker_env \<Rightarrow> LoadBalancerConfig \<Rightarrow> (string option \<times> string option) result" where
  "worker_tls en c =
     (if wl_SSLKeyPath c \<noteq> [] \<and> wl_SSLCertPath c \<noteq> [] then
        and_then (wrap_err (''Failed to read SSL key from path '' @ wl_SSLKeyPath c) (ce_Read (we_config en) (wl_SSLKeyPath c))) (\<lambda>key.
        and_then (wrap_err (''Failed to read SSL certificate from path '' @ wl_SSLCertPath c) (ce_Read (we_config en) (wl_SSLCertPath c))) (\<lambda>cert.
          Inr (Some key, Some cert)))
      else Inr (None, None))"

definition build_worker ::
    "'n worker_env \<Rightarrow> WorkerConfig \<Rightarrow> RegistryConfig \<Rightarrow> bool \<Rightarrow> TailscaleSettings \<Rightarrow> string option \<times> string option \<Rightarrow> worker" where
  "build_worker en cfg registry aws ts tls =
     (let grpc = worker_grpc en cfg;
          cloud = \<lparr> cl_Token = wc_Token cfg, cl_Tailscale = ts, cl_Telemetry = wc_Telemetry cfg \<rparr>
      in \<lparr> wo_builder = \<lparr> ba_BuildKitAddress = bc_BuildKitAddress (wc_Builder cfg), ba_Chains = wc_Chains cfg, ba_Registry = registry \<rparr>,
           wo_builder_aws = aws,
           wo_testnet = \<lparr> ac_RegistryType = rg_Type registry, ac_Token = (if aws then Some (we_aws_token en) else None),
             ac_Auth = we_auth en, ac_Chains = wc_Chains cfg, ac_Wallets = we_wallets en, ac_Grafana = wc_Grafana cfg,
             ac_GRPCClient = grpc, ac_gzip = we_gzip en \<rparr>,
           wo_testnet_cloud = cloud, wo_loadtest_cloud = cloud,
           wo_loadbalancer = \<lparr> la_RootDomain = wl_RootDomain (wc_LoadBalancer cfg), la_SSLCertificate = snd tls, la_SSLKey = fst tls,
             la_GRPCClient = grpc, la_gzip = we_gzip en \<rparr>,
           wo_loadbalancer_cloud = cloud \<rparr>)"

text \<open>\<open>main\<close> of the worker up to \<open>worker.Run\<close>; \<open>None\<close> is a Tailscale server that never runs.\<close>

definition worker_main :: "'n worker_env \<Rightarrow> string \<Rightarrow> 'n \<Rightarrow> ('n \<times> worker result) option" where
  "worker_main en path n =
     (case ParseWorkerConfig (we_config en) path of
        Inl e \<Rightarrow> Some (n, Inl (Panic (Error_str e)))
      | Inr cfg \<Rightarrow>
          (let registry = GetActiveRegistry (ce_Getenv (we_config en) ''REGISTRY_MODE'') (wc_Builder cfg)
           in case and_then (we_Dial en (wc_Temporal cfg)) (\<lambda>_. worker_aws en registry) of
                Inl e \<Rightarrow> Some (n, Inl e)
              | Inr aws \<Rightarrow>
                  map_option (\<lambda>(n, r). (n, and_then r (\<lambda>ts. and_then (worker_tls en (wc_LoadBalancer cfg)) (\<lambda>tls.
                      Inr (build_worker en cfg registry aws ts tls)))))
                    (worker_tailscale en (wc_Tailscale cfg) n)))"

section \<open>The server\<close>

datatype server_event =
    SOpenDB string
  | SMigrate string
  | SDial
  | SListen string
  | SStopUpdater
  | SGracefulStop
  | SCloseTemporal
  | SCloseDB

text \<open>\<open>se_Serve\<close> is how serving gRPC-Web ends, if it does before the signal.\<close>

record server_env =
  se_config :: config_env
  se_OpenDB :: "string \<Rightarrow> unit result"
  se_Migrate :: "string \<Rightarrow> unit result"
  se_Dial :: "TemporalConfig \<Rightarrow> unit result"
  se_Listen :: "string \<Rightarrow> unit result"
  se_Serve :: "unit result option"

definition server_do :: "unit result \<Rightarrow> string \<Rightarrow> server_event \<Rightarrow> server_event list \<Rightarrow> server_event list \<times> unit result" where
  "server_do r msg ev tr = (case r of Inl e \<Rightarrow> (tr, Inl (Wrap msg e)) | Inr _ \<Rightarrow> (tr @ [ev], Inr ()))"

text \<open>Without a port for gRPC-Web, \<open>Start\<close> returns at once and the gRPC server keeps serving; \<open>None\<close> is a \<open>Start\<close> that
  is still serving.\<close>

definition server_Start ::
    "server_env \<Rightarrow> string \<Rightarrow> string \<Rightarrow> server_event list \<Rightarrow> server_event list \<times> unit result option" where
  "server_Start en address webAddress tr =
     (case se_Listen en address of
        Inl e \<Rightarrow> (tr, Some (Inl (Wrap ''failed to listen'' e)))
      | Inr _ \<Rightarrow>
          (let tr = tr @ [SListen address]
           in case se_Listen en webAddress of
                Inl _ \<Rightarrow> (tr, Some (Inr ()))
              | Inr _ \<Rightarrow> (tr @ [SListen webAddress], se_Serve en)))"

definition server_Stop :: "server_event list \<Rightarrow> server_event list" where
  "server_Stop tr = tr @ [SStopUpdater, SGracefulStop, SCloseTemporal]"

text \<open>\<open>main\<close> of the server. \<open>logger.Fatal\<close> and \<open>os.Exit\<close> skip the deferred end of the database; otherwise the program
  runs until a signal.\<close>

definition server_main :: "server_env \<Rightarrow> string \<Rightarrow> server_event list \<times> unit result" where
  "server_main en path =
     (case ParseServerConfig (se_config en) path of
        Inl e \<Rightarrow> ([], Inl (Panic (Error_str e)))
      | Inr cfg \<Rightarrow>
          andThen (server_do (se_OpenDB en (sc_DatabasePath cfg)) ''Failed to connect to database'' (SOpenDB (sc_DatabasePath cfg)) []) (\<lambda>tr _.
          andThen (server_do (se_Migrate en (sc_MigrationsPath cfg)) ''Failed to run migrations'' (SMigrate (sc_MigrationsPath cfg)) tr) (\<lambda>tr _.
          andThen (server_do (wrap_err ''failed to create temporal client'' (se_Dial en (sc_Temporal cfg))) ''creating gRpc server'' SDial tr) (\<lambda>tr _.
            case server_Start en (sc_GrpcAddress cfg) (sc_GrpcWebAddress cfg) tr of
              (tr, Some (Inl e)) \<Rightarrow> (tr, Inl (Wrap ''starting gRpc server'' e))
            | (tr, _) \<Rightarrow> (server_Stop tr @ [SCloseDB], Inr ())))))"

text \<open>The headers of the web handler, and whether a request reaches the services.\<close>

definition web_headers :: "string gomap" where
  "web_headers = [(''Access-Control-Allow-Origin'', ''*''), (''Access-Control-Allow-Methods'', ''POST, GET, OPTIONS, PUT, DELETE''),
     (''Access-Control-Allow-Headers'',
      ''Accept, Content-Type, Content-Length, Accept-Encoding, X-CSRF-Token, Authorization, X-User-Agent, X-Grpc-Web'')]"

definition web_handler :: "(string \<Rightarrow> int \<times> string) \<Rightarrow> string \<Rightarrow> string gomap \<times> int \<times> string" where
  "web_handler grpc request_method = (web_headers, if request_method = ''OPTIONS'' then (200, []) else grpc request_method)"

text \<open>The status updater: a tick refreshes the statuses, until the server is stopped. The environment of the
  database differs at each tick.\<close>

fun startWorkflowStatusUpdater ::
    "temporal \<Rightarrow> codec \<Rightarrow> (sql_env \<times> (string \<Rightarrow> sql_env)) option list \<Rightarrow> service \<Rightarrow> service" where
  "startWorkflowStatusUpdater tc cd [] s = s"
| "startWorkflowStatusUpdater tc cd (None # turns) s = s"
| "startWorkflowStatusUpdater tc cd (Some (evl, ev) # turns) s =
     startWorkflowStatusUpdater tc cd turns (UpdateWorkflowStatuses tc cd evl ev s)"

section \<open>The Docker client\<close>

text \<open>\<open>ImagePull\<close> asks the daemon for an image it does not have, and reads the answer to its end.\<close>

definition client_ImagePull :: "(string \<Rightarrow> unit result) \<Rightarrow> (string \<Rightarrow> string result) \<Rightarrow> (string \<Rightarrow> unit result) \<Rightarrow> string \<Rightarrow> unit result" where
  "client_ImagePull inspect_image pull_stream copy_all ref =
     (case inspect_image ref of
        Inr _ \<Rightarrow> Inr ()
      | Inl _ \<Rightarrow>
          and_then (wrap_err ''failed to pull docker image'' (pull_stream ref)) (\<lambda>stream.
          and_then (wrap_err ''failed to pull docker image'' (copy_all stream)) (\<lambda>_. Inr ())))"

definition docker_host :: "string \<Rightarrow> string option" where
  "docker_host host = (if host \<noteq> [] then Some (''tcp://'' @ host @ '':2375'') else None)"

section \<open>Lemmas\<close>

lemma worker_main_built:
  assumes "worker_main en path n = Some (n', Inr w)"
  shows "\<exists>cfg aws ts tls. ParseWorkerConfig (we_config en) path = Inr cfg \<and>
    worker_aws en (GetActiveRegistry (ce_Getenv (we_config en) ''REGISTRY_MODE'') (wc_Builder cfg)) = Inr aws \<and>
    worker_tailscale en (wc_Tailscale cfg) n = Some (n', Inr ts) \<and> worker_tls en (wc_LoadBalancer cfg) = Inr tls \<and>
    w = build_worker en cfg (GetActiveRegistry (ce_Getenv (we_config en) ''REGISTRY_MODE'') (wc_Builder cfg)) aws ts tls"
  using assms unfolding worker_main_def
  by (auto simp: Let_def and_then_eq_Inr split: sum.splits)

lemma worker_tls_both: "worker_tls en c = Inr tls \<Longrightarrow> fst tls = None \<longleftrightarrow> snd tls = None"
  by (auto simp: worker_tls_def and_then_eq_Inr split: if_splits)

lemma worker_aws_iff: "worker_aws en r = Inr aws \<Longrightarrow> aws \<longleftrightarrow> rg_Type r = ''ecr''"
  by (auto simp: worker_aws_def and_then_eq_Inr split: if_splits)

lemma SetupTailscale_settings:
  "SetupTailscale tp secret key host stags ntags n = Some (n', Inr ts) \<Longrightarrow>
   ts = \<lparr> tn_AuthKey = key, tn_Tags = ntags, tn_Server = True, tn_LocalClient = True \<rparr>"
  by (auto simp: SetupTailscale_def and_then_eq_Inr bind_eq_Some_conv split: prod.splits sum.splits)

lemma no_provider_without_tailscale:
  "\<exists>e'. NewProvider e name token no_tailscale opts w = (new_provider name w, Inl e')"
  by (simp add: NewProvider_def NewProviderWithClient_def TailscaleSettings_ValidateBasic_def no_tailscale_def)

text \<open>A server that ends by a signal has opened and migrated its database before it listened, and closes it last.\<close>

lemma server_lifetime:
  assumes "server_main en path = (tr, Inr ())"
  shows "\<exists>cfg rest. ParseServerConfig (se_config en) path = Inr cfg \<and> length rest \<le> 1 \<and>
    tr = [SOpenDB (sc_DatabasePath cfg), SMigrate (sc_MigrationsPath cfg), SDial, SListen (sc_GrpcAddress cfg)] @ rest @
      [SStopUpdater, SGracefulStop, SCloseTemporal, SCloseDB]"
  using assms unfolding server_main_def
  by (auto simp: andThen_def server_do_def server_Start_def server_Stop_def Let_def split: sum.splits option.splits prod.splits if_splits)

section \<open>Properties\<close>

text \<open>C26: The activities of a started worker agree: the builder and the launch of testnets use the same registry and
  chains, and both have AWS access exactly when the registry is ECR; the three activities that use DigitalOcean share one
  token, which is the environment's, one Tailscale and one telemetry; the load balancer has a key and a certificate or neither.
  Without the Tailscale credentials the worker still starts, and then creating a DigitalOcean provider fails before it
  has changed anything.\<close>

theorem worker_activities_agree:
  assumes "worker_main en path n = Some (n', Inr w)"
  shows "ac_RegistryType (wo_testnet w) = rg_Type (ba_Registry (wo_builder w)) \<and> ac_Chains (wo_testnet w) = ba_Chains (wo_builder w) \<and>
    (wo_builder_aws w \<longleftrightarrow> rg_Type (ba_Registry (wo_builder w)) = ''ecr'') \<and> (ac_Token (wo_testnet w) \<noteq> None \<longleftrightarrow> wo_builder_aws w) \<and>
    wo_loadtest_cloud w = wo_testnet_cloud w \<and> wo_loadbalancer_cloud w = wo_testnet_cloud w \<and>
    cl_Token (wo_testnet_cloud w) = ce_Getenv (we_config en) ''DIGITALOCEAN_TOKEN'' \<and>
    (la_SSLKey (wo_loadbalancer w) = None \<longleftrightarrow> la_SSLCertificate (wo_loadbalancer w) = None) \<and>
    (ce_Getenv (we_config en) ''TS_NODE_AUTH_KEY'' = [] \<or> ce_Getenv (we_config en) ''TS_SERVER_OAUTH_SECRET'' = [] \<longrightarrow>
       (\<forall>e name opts x. \<exists>err. NewProvider e name (cl_Token (wo_testnet_cloud w)) (cl_Tailscale (wo_testnet_cloud w)) opts x =
          (new_provider name x, Inl err)))"
proof -
  obtain cfg aws ts tls where cfg: "ParseWorkerConfig (we_config en) path = Inr cfg"
    and aws: "worker_aws en (GetActiveRegistry (ce_Getenv (we_config en) ''REGISTRY_MODE'') (wc_Builder cfg)) = Inr aws"
    and ts: "worker_tailscale en (wc_Tailscale cfg) n = Some (n', Inr ts)" and tls: "worker_tls en (wc_LoadBalancer cfg) = Inr tls"
    and w: "w = build_worker en cfg (GetActiveRegistry (ce_Getenv (we_config en) ''REGISTRY_MODE'') (wc_Builder cfg)) aws ts tls"
    using worker_main_built[OF assms] by blast
  have env: "wc_Token cfg = ce_Getenv (we_config en) ''DIGITALOCEAN_TOKEN''"
    "wt_NodeAuthKey (wc_Tailscale cfg) = ce_Getenv (we_config en) ''TS_NODE_AUTH_KEY''"
    "wt_ServerOauthSecret (wc_Tailscale cfg) = ce_Getenv (we_config en) ''TS_SERVER_OAUTH_SECRET''"
    using cfg by (auto simp: ParseWorkerConfig_def and_then_eq_Inr)
  have "ts = no_tailscale" if "ce_Getenv (we_config en) ''TS_NODE_AUTH_KEY'' = [] \<or> ce_Getenv (we_config en) ''TS_SERVER_OAUTH_SECRET'' = []"
    using ts that by (auto simp: worker_tailscale_def env)
  then show ?thesis using worker_aws_iff[OF aws] worker_tls_both[OF tls] no_provider_without_tailscale
    by (auto simp: w build_worker_def env Let_def)
qed

definition demo_worker_config :: WorkerConfig where
  "demo_worker_config = \<lparr> wc_Temporal = \<lparr> wm_Host = ''t'', wm_Namespace = [] \<rparr>,
     wc_Tailscale = \<lparr> wt_ServerOauthSecret = [], wt_ServerTags = [''s''], wt_NodeAuthKey = [], wt_NodeTags = [''n''] \<rparr>, wc_Token = ''of the file'',
     wc_LoadBalancer = \<lparr> wl_RootDomain = ''x.io'', wl_SSLKeyPath = ''key'', wl_SSLCertPath = ''cert'' \<rparr>,
     wc_Telemetry = \<lparr> tm_Prometheus = \<lparr> ps_Username = [], ps_Password = [], ps_URL = [] \<rparr>,
       tm_Loki = \<lparr> lk_Username = [], lk_Password = [], lk_URL = [] \<rparr>, tm_Pyroscope = [] \<rparr>,
     wc_Builder = \<lparr> bc_BuildKitAddress = ''b'', bc_LocalImageName = ''i'', bc_ECR_URL = ''u'', bc_ECR_ImageName = ''i'', bc_AuthEnvConfigs = [] \<rparr>,
     wc_Chains = [], wc_Grafana = \<lparr> gf_URL = [], gf_Dashboards = [] \<rparr>, wc_ServerAddress = [] \<rparr>"

definition demo_worker_env :: "unit worker_env" where
  "demo_worker_env = \<lparr> we_config = \<lparr> ce_Read = \<lambda>path. Inr path, ce_worker_yaml = \<lambda>_. Inr demo_worker_config,
       ce_server_yaml = \<lambda>_. Inl (New ''no server''),
       ce_Getenv = \<lambda>name. if name = ''REGISTRY_MODE'' then ''ecr'' else if name = ''DIGITALOCEAN_TOKEN'' then ''k'' else [] \<rparr>,
     we_Dial = \<lambda>_. Inr (), we_LoadAws = Inr (), we_aws_token = Inr ''t'', we_grpc = \<lambda>_. Inr (),
     we_tailscale = \<lparr> tp_CreateKey = \<lambda>_ _ n. (n, Inr ''a''), tp_Start = \<lambda>_ _ _ n. (n, Inr ()), tp_LocalClient = \<lambda>_. Inr (),
       tp_BackendState = \<lambda>_. Inr ''Running'', tp_Sleep = id \<rparr>,
     we_auth = ac_Auth demo_activity, we_wallets = ac_Wallets demo_activity, we_gzip = demo_gzip \<rparr>"

theorem worker_activities_agree_witness:
  "\<exists>w. worker_main demo_worker_env ''worker.yaml'' () = Some ((), Inr w) \<and> wo_builder_aws w \<and> ac_Token (wo_testnet w) \<noteq> None \<and>
     cl_Token (wo_loadbalancer_cloud w) = ''k''"
proof -
  obtain w where w: "worker_main demo_worker_env ''worker.yaml'' () = Some ((), Inr w)" "rg_Type (ba_Registry (wo_builder w)) = ''ecr''"
    by (auto simp: worker_main_def ParseWorkerConfig_def worker_aws_def worker_tailscale_def worker_tls_def build_worker_def
      GetActiveRegistry_def demo_worker_env_def demo_worker_config_def Let_def)
  have token: "ce_Getenv (we_config demo_worker_env) ''DIGITALOCEAN_TOKEN'' = ''k''" by (simp add: demo_worker_env_def)
  note agree = worker_activities_agree[OF w(1), unfolded token]
  then have "wo_builder_aws w" "ac_Token (wo_testnet w) \<noteq> None" "cl_Token (wo_loadbalancer_cloud w) = ''k''"
    using w(2) by (blast, blast, metis)
  with w(1) show ?thesis by blast
qed

end
