(* ===== verification/Spec2Isabelle.thy ===== *)
theory Spec2Isabelle
  imports Activities Testnet_Workflow Cleanup Builder Load_Balancer Load_Test Docker_Lifecycle DO_Lifecycle Report_Main Executables
begin

text \<open>
  \<^bold>\<open>Ironbird.\<close> Ironbird runs testnets of Cosmos chains on demand. A gRPC server stores workflows and
  templates in SQLite and starts a Temporal workflow per request; the workflow builds an image, creates
  an infrastructure provider (Docker or DigitalOcean), launches a chain on it, optionally puts a load
  balancer in front and runs a load test, waits, and tears the provider down. A separate command deletes
  what was left behind on DigitalOcean. Everything below is translated from the Go sources.

  \<^bold>\<open>How the sources are modelled.\<close> A function that returns \<open>(T, error)\<close> is a function into \<open>T result\<close>; a
  struct is a record whose fields keep their names behind a prefix; a map is an association list in
  iteration order; methods that change an object take and return its record. What is not in the
  repository (Temporal, SQLite's failures, JSON, YAML, TOML and protobuf codecs, gzip, the providers' and
  DigitalOcean's APIs, the chain binary, the clock, random numbers, the order in which goroutines finish
  and maps are iterated) is a parameter of the definitions that use it.

  \<^bold>\<open>Theories.\<close>
  \<^item> \<open>Prelude\<close>: Go errors, results, maps, dynamic values, \<open>strconv\<close>, \<open>strings\<close>, integer conversions.
  \<^item> \<open>Definitions\<close> (\<open>petri/core/provider/definitions.go\<close>, \<open>petri/core/types\<close>): definitions and configs with
    their \<open>ValidateBasic\<close>, and the exact set each accepts.
  \<^item> \<open>Messages\<close> (\<open>messages\<close>, \<open>types/config.go\<close>): requests and responses, \<open>Validate\<close>, monitoring links.
  \<^item> \<open>Sql\<close>: the statements the server issues, over lists of rows, and the interface \<open>keyed_store\<close> that
    \<open>Store\<close> interprets for its two tables.
  \<^item> \<open>Store\<close> (\<open>server/db\<close>): the workflow and template tables, every operation with its error branches.
    Its invariant, the refinement of each operation to an abstract map of workflows, and paging.
  \<^item> \<open>Service\<close> (\<open>server/services/workflow/workflow.go\<close>): every handler. Only validated requests start a
    workflow, what is created is what is read back, what a template forgets, the status refresh.
  \<^item> \<open>Util\<close> (\<open>util\<close>, \<open>petri/core/util\<close>): compression, random names, output cleaning, polling.
  \<^item> \<open>Testnet_Workflow\<close> (\<open>workflows/testnet/testnet.go\<close>): the workflow as a trace of activities and timers,
    and the life cycle automaton \<open>lc_step\<close> that every trace follows.
  \<^item> \<open>Node_Config\<close> (\<open>petri/cosmos/node/config.go\<close>): the merge of TOML documents and the config files.
  \<^item> \<open>Chain_Genesis\<close> (\<open>petri/cosmos/chain/chain.go\<close>, \<open>genesis.go\<close>): balances, supply, accounts.
  \<^item> \<open>Chain_Nodes\<close> (\<open>chain.go\<close>, \<open>peers.go\<close>, \<open>node/node.go\<close>): which nodes a chain has, their tasks and peers.
  \<^item> \<open>Chain_Init\<close> (\<open>chain.go\<close>, \<open>node/\<close>): setup, genesis operations, configuration and start of a chain, its
    teardown, height waits and packaged state. The interfaces \<open>node_step\<close> and \<open>group_step\<close> say what a
    group of goroutines needs of the step it runs on every node.
  \<^item> \<open>Activities\<close> (\<open>activities/testnet/testnet.go\<close>): the activities, on top of the chain and the provider.
  \<^item> \<open>Builder\<close> (\<open>activities/builder/builder.go\<close>): image names, build arguments, the build and when it is skipped. An
    image name determines the build, for requests of commits of the known repositories.
  \<^item> \<open>Load_Balancer\<close> (\<open>petri/core/apps/loadbalancer.go\<close>, \<open>activities/loadbalancer\<close>): the Caddy configuration, the order of
    the calls of a launch, and that the links reported to the server are served.
  \<^item> \<open>Load_Test\<close> (\<open>activities/loadtest/loadtest.go\<close>): the load generator's configuration and task and its wait. On
    every path the provider's state is returned; logs are bounded and the mnemonic is redacted.
  \<^item> \<open>Cleanup\<close> (\<open>cmd/cleanup/main.go\<close>): the cleanup command, with the interface \<open>paged_listing\<close>.
  \<^item> \<open>Docker_Task\<close> (\<open>petri/core/provider/docker/task.go\<close>, \<open>volume.go\<close>): tasks of the Docker provider, their
    status, commands and files, on a daemon that is a parameter. Task states live in a store, since the
    provider and its tasks share them.
  \<^item> \<open>Docker_Provider\<close> (\<open>docker/provider.go\<close>, \<open>network.go\<close>, \<open>util.go\<close>): creating, restoring, serialising and tearing
    down a provider, its network, and creating tasks.
  \<^item> \<open>Docker_Lifecycle\<close>: what any sequence of operations on a Docker provider keeps: the map of tasks and the
    addresses, the round trip through the serialised state, and that a teardown leaves nothing behind.
  \<^item> \<open>DO_Client\<close> (\<open>petri/core/provider/digitalocean/client.go\<close>, \<open>tailscale.go\<close>, \<open>telemetry.go\<close>, \<open>util.go\<close>): the API calls and their
    errors, the settings, the user data of a droplet, and polling on a changing state.
  \<^item> \<open>DO_Task\<close> (\<open>task.go\<close>, \<open>droplet.go\<close>, \<open>ssh.go\<close>): tasks on droplets: status, files over SSH, commands in containers. The
    world is a pair of the account and what is on the droplets.
  \<^item> \<open>DO_Provider\<close> (\<open>provider.go\<close>, \<open>options.go\<close>, \<open>firewall.go\<close>, \<open>droplet.go\<close>): creating, saving, restoring and tearing down
    a provider, creating tasks and domain records.
  \<^item> \<open>DO_Steps\<close>: the interfaces \<open>world_steps\<close> and \<open>provider_steps\<close>: a relation on provider states that is kept by each
    kind of change is kept by every sequence of operations.
  \<^item> \<open>DO_Lifecycle\<close>: their interpretations, that a teardown leaves nothing behind, the map of tasks, the round trip
    through the serialised state, and that a provider restored without its domain keeps its domain records.
  \<^item> \<open>Report_Intervals\<close>, \<open>Report_Text\<close>, \<open>Report_Metrics\<close> (\<open>cmd/local-report-runner/main.go\<close>): the wall-clock accounting of
    a load window, text and shell helpers, and metric differences.
  \<^item> \<open>Report_Scenarios\<close>: the scenarios, their images' module versions, profiles, and the check of the databases a chain
    runs on. A scenario's configuration passes that check; the profiles of a run go to different files.
  \<^item> \<open>Report_Logs\<close>: the load generator's logs, read into counts and durations that add up.
  \<^item> \<open>Report_Signals\<close>, \<open>Report_Window\<close>: what a validator's counters say of a run, and the monitor that decides when a
    load window is complete, with its pipeline, cadence and accounting rows. A window is accepted only on
    evidence of its transactions.
  \<^item> \<open>Report_Results\<close>: the audit of the transactions, which leaves none out, and the corrected counts.
  \<^item> \<open>Report_Collect\<close>: what a run collects from the containers. A profile asked for is an error or a file with what the validator
    answered; resource summaries and the identifiers of statistics are exact. \<open>profile_step\<close> is the interface of the two ways to collect.
  \<^item> \<open>Report_Run\<close>: \<open>runScenario\<close> as a trace. It gives back the provider it created, and a run without an error was loaded.
  \<^item> \<open>Report_Celestia\<close>: the comparison of Celestia syncs, whose two variants differ in their database and ports only.
  \<^item> \<open>Report_Markdown\<close>: the rendering of the report. Its tables read back, whatever text the runs put in their cells.
  \<^item> \<open>Report_Main\<close>: the program of the runner. A run without an error reports every selected scenario.
  \<^item> \<open>Executables\<close>: the worker and the server that put the components together (\<open>types/config.go\<close>, \<open>cmd/worker\<close>, \<open>server\<close>).
  \<^item> This theory: the workflow with the modelled activities as its environment, and that a provider it
    created is the provider it tears down.

  \<^bold>\<open>Loops.\<close> Loops over slices are structural recursion. The paging loop of the cleanup command may run for
  ever and is a partial function into \<open>option\<close>; it is shown to return on every account whose listing is a
  list. The waiting loops read a list of the turns of their \<open>select\<close>; when the list ends they are still
  waiting, which is the value \<open>None\<close>, and the theorems say exactly when they return. The Docker tasks' waits
  for a status or a command are partial functions too; a start is shown to return once the container runs.
  No fuel is used.

  \<^bold>\<open>Assumed of other programs.\<close> Theorems about the Docker provider assume \<open>daemon_law\<close> (containers appear only
  by being created, and a successful removal removes) and \<open>allocator_law\<close> (addresses are handed out once);
  both are satisfied by the concrete daemon and allocator of the witnesses. Those about the DigitalOcean provider
  assume \<open>account_law\<close> (resources appear only by being created, a droplet with the tags asked for, and a successful
  deletion deletes), which the concrete account of the witnesses satisfies. The report's theorems hold for
  any floating-point arithmetic, but that seconds of a duration are positive exactly when it is (\<open>seconds_law\<close>) and that
  sorting keeps the elements; \<open>json_law\<close> says that a decoded object has no key twice, and \<open>format_law\<close> that numbers and times
  print without pipes and line breaks.

  \<^bold>\<open>Not modelled\<close>: generated protobuf code and mocks, the example programs, telemetry and logging, the web
  frontend.
\<close>

section \<open>The workflow on the activities\<close>

text \<open>The workflow's environment when its activities are those of \<open>activities/testnet\<close>. A launch that
  never returns is cut off by the activity's timeout.\<close>

definition activities_env :: "launch_setting \<Rightarrow> activity \<Rightarrow> 't providers \<Rightarrow> wf_environment \<Rightarrow> wf_environment" where
  "activities_env s a pr en =
     en\<lparr>en_create := CreateProvider pr,
        en_launch := (\<lambda>req. case LaunchTestnet s a pr req of
           None \<Rightarrow> Inl (New ''activity timeout'')
         | Some (resp, Inl e, _) \<Rightarrow> Inl e
         | Some (resp, Inr _, _) \<Rightarrow> Inr resp),
        en_gzip := ac_gzip a\<rparr>"

text \<open>A serialized provider is a JSON document, so it is not empty.\<close>

definition serializes :: "'t providers \<Rightarrow> bool" where
  "serializes pr \<longleftrightarrow>
     (\<forall>nm p st x. pr_DockerCreate pr nm = Inr p \<or> pr_DOCreate pr nm = Inr p \<or> pr_DockerRestore pr nm = Inr p \<or>
        pr_DORestore pr nm = Inr p \<longrightarrow> if_Serialize p st = Inr x \<longrightarrow> x \<noteq> [])"

text \<open>The states a run may tear down: the one serialized on creation, or the one serialized at the end
  of a launch by the provider restored from it.\<close>

definition provider_states :: "'t providers \<Rightarrow> string \<Rightarrow> string \<Rightarrow> string set" where
  "provider_states pr rt nm =
     {st. CreateProvider pr rt nm = Inr st} \<union>
     {st. \<exists>st0 p. CreateProvider pr rt nm = Inr st0 \<and> RestoreProvider pr rt st0 = Inr p \<and> if_Serialize p Launched = Inr st}"

lemma created_nonempty: "serializes pr \<Longrightarrow> CreateProvider pr rt nm = Inr st \<Longrightarrow> st \<noteq> []"
  by (auto simp: serializes_def CreateProvider_def and_then_def split: sum.splits if_splits)

lemma restored_nonempty: "serializes pr \<Longrightarrow> RestoreProvider pr rt st0 = Inr p \<Longrightarrow> if_Serialize p g = Inr st \<Longrightarrow> st \<noteq> []"
  by (auto simp: serializes_def RestoreProvider_def split: if_splits)

lemma LaunchTestnet_state:
  assumes "LaunchTestnet s a pr req = Some (resp, Inr (), ups)"
  obtains p st where "RestoreProvider pr (lt_RunnerType req) (lt_ProviderState req) = Inr p"
    "if_Serialize p Launched = Inr st" "CompressData (ac_gzip a) st = Inr (lr_ProviderState resp)"
  using assms by (elim LaunchTestnet_ok launch_chain_ok) (metis that)

lemma launched_state:
  assumes "serializes pr" "\<forall>x. gzip_law (ac_gzip a) x"
    and "CreateProvider pr (wr_RunnerType req) nm = Inr st0"
    and "launchTestnet (activities_env s a pr en) req nm build = (tr, l)"
  shows "ln_providerState l \<noteq> [] \<and>
    (\<exists>st \<in> provider_states pr (wr_RunnerType req) nm. DecompressData (ac_gzip a) (ln_providerState l) = Inr st)"
proof -
  let ?lr = "launch_request req build st0"
  have lr: "lt_RunnerType ?lr = wr_RunnerType req" "lt_ProviderState ?lr = st0" by (simp_all add: launch_request_def Let_def)
  have zip: "\<exists>x. CompressData (ac_gzip a) d = Inr x \<and> DecompressData (ac_gzip a) x = Inr d \<and> (x = [] \<longleftrightarrow> d = [])" for d
    using compress_law assms(2) by blast
  show ?thesis
  proof (cases "\<exists>resp ups. LaunchTestnet s a pr ?lr = Some (resp, Inr (), ups)")
    case True
    then obtain resp ups where run: "LaunchTestnet s a pr ?lr = Some (resp, Inr (), ups)" by blast
    then obtain p st where st: "RestoreProvider pr (wr_RunnerType req) st0 = Inr p" "if_Serialize p Launched = Inr st"
      "CompressData (ac_gzip a) st = Inr (lr_ProviderState resp)" by (rule LaunchTestnet_state) (simp add: lr)
    then have "st \<in> provider_states pr (wr_RunnerType req) nm" using assms(3) by (auto simp: provider_states_def)
    moreover have "ln_providerState l = lr_ProviderState resp"
      using assms(3,4) run by (auto simp: launchTestnet_def activities_env_def Let_def)
    ultimately show ?thesis using zip [of st] st restored_nonempty [OF assms(1) st(1,2)] by auto
  next
    case False
    then have "\<not> is_ok (en_launch (activities_env s a pr en) ?lr)"
      by (auto simp: activities_env_def is_ok_def split: option.splits sum.splits)
    then obtain e where "en_launch (activities_env s a pr en) ?lr = Inl e" by (auto simp: is_ok_def split: sum.splits)
    then have "ln_providerState l = (case CompressData (ac_gzip a) st0 of Inl _ \<Rightarrow> st0 | Inr x \<Rightarrow> x)"
      using assms(3,4) by (auto simp: launchTestnet_def activities_env_def Let_def)
    moreover have "st0 \<in> provider_states pr (wr_RunnerType req) nm" using assms(3) by (simp add: provider_states_def)
    ultimately show ?thesis using zip [of st0] created_nonempty [OF assms(1,3)] by auto
  qed
qed

lemma start_body_state:
  "start_body en req nm build k = (tr, st, res) \<Longrightarrow> \<not> wr_LaunchLoadBalancer req \<Longrightarrow>
     st = ln_providerState (snd (launchTestnet en req nm build))"
  by (auto simp: start_body_def split: prod.splits option.splits)

section \<open>Properties\<close>


lemma demo_workflow_creates:
  "list_ex (creates (activities_env demo_setting demo_activity demo_providers demo_env))
     (fst (testnet_Workflow (activities_env demo_setting demo_activity demo_providers demo_env) demo_wf_request ''wf'' (\<lambda>_. 0)))"
proof -
  let ?en = "activities_env demo_setting demo_activity demo_providers demo_env"
  have valid: "TestnetWorkflowRequest_Validate demo_wf_request = Inr ()"
    by (simp add: Validate_accepts_iff demo_wf_request_def runner_Docker_def)
  have build: "en_build ?en b = Inr \<lparr> br_FQDNTag = ''tag'', br_Logs = [] \<rparr>" for b
    by (simp add: activities_env_def demo_env_def)
  have create: "is_ok (en_create ?en rt nm)" for rt nm
    by (simp add: activities_env_def CreateProvider_def demo_providers_def demo_infra_def and_then_def)
  have "list_ex (creates ?en) (fst (startWorkflow ?en demo_wf_request nm bd ''wf''))" for nm bd
    using create by (simp add: creates_startWorkflow)
  then show ?thesis
    unfolding testnet_Workflow_def valid build Let_def sum.case
    by (auto split: prod.splits sum.splits) (metis fst_conv)+
qed


end
